(* ===== verification/Prelude.thy ===== *)
theory Prelude
  imports Main "HOL-Library.Sublist" "HOL-Library.Multiset" "HOL-Library.Product_Lexorder"
begin

text \<open>
  Shared vocabulary of the development: the theorem collections the component theories
  feed, Python's ordered dictionaries (insertion order, a later assignment to a present
  key keeps its place), the built-ins \<open>max\<close>/\<open>min\<close> with a key (the first extremal
  element wins), \<open>list.sort\<close> with a key, and sequences of distinct elements in order
  of first occurrence.
\<close>

named_theorems dict_simps \<open>equations of the ordered dictionaries\<close>
named_theorems str_simps \<open>equations of the string primitives\<close>
named_theorems case_splits \<open>case splits of the error-passing definitions\<close>

text \<open>A fallible computation: \<open>Inl\<close> the exception, \<open>Inr\<close> the value.\<close>

datatype exn =
    ValueError string
  | KeyError string
  | TypeError string
  | AttributeError string
  | RegexError string
  | RuntimeError string
  | IllegalTransition string
  | AdapterError string
  | ValidationError string

type_synonym 'a res = "exn + 'a"

definition bind_res :: "'a res \<Rightarrow> ('a \<Rightarrow> 'b res) \<Rightarrow> 'b res" where
  "bind_res r f = (case r of Inl e \<Rightarrow> Inl e | Inr x \<Rightarrow> f x)"

lemma bind_res_simps [simp]:
  "bind_res (Inl e) f = Inl e"
  "bind_res (Inr x) f = f x"
  by (simp_all add: bind_res_def)

lemma bind_res_Inr_iff: "bind_res r f = Inr y \<longleftrightarrow> (\<exists>x. r = Inr x \<and> f x = Inr y)"
  by (cases r) auto

text \<open>A list comprehension whose element expression may raise: the first exception wins.\<close>

fun map_res :: "('a \<Rightarrow> 'b res) \<Rightarrow> 'a list \<Rightarrow> 'b list res" where
  "map_res f [] = Inr []"
| "map_res f (x # xs) = bind_res (f x) (\<lambda>y. bind_res (map_res f xs) (\<lambda>ys. Inr (y # ys)))"

lemma map_res_cong [fundef_cong]:
  "xs = ys \<Longrightarrow> (\<And>x. x \<in> set ys \<Longrightarrow> f x = g x) \<Longrightarrow> map_res f xs = map_res g ys"
proof -
  have "(\<And>x. x \<in> set ys \<Longrightarrow> f x = g x) \<Longrightarrow> map_res f ys = map_res g ys"
    by (induction ys) auto
  then show "xs = ys \<Longrightarrow> (\<And>x. x \<in> set ys \<Longrightarrow> f x = g x) \<Longrightarrow> map_res f xs = map_res g ys"
    by simp
qed

lemma map_res_Inr_iff: "map_res f xs = Inr ys \<longleftrightarrow> list_all2 (\<lambda>x y. f x = Inr y) xs ys"
  by (induction xs arbitrary: ys) (auto simp: bind_res_Inr_iff list_all2_Cons1)

lemma map_res_total: "(\<And>x. x \<in> set xs \<Longrightarrow> \<exists>y. f x = Inr y) \<Longrightarrow> \<exists>ys. map_res f xs = Inr ys"
  by (induction xs) fastforce+

lemma map_res_Inr_map: "(\<And>x. x \<in> set xs \<Longrightarrow> f x = Inr (g x)) \<Longrightarrow> map_res f xs = Inr (map g xs)"
  by (induction xs) auto

subsection \<open>Ordered dictionaries\<close>

type_synonym ('k, 'v) dict = "('k \<times> 'v) list"

fun dget :: "('k, 'v) dict \<Rightarrow> 'k \<Rightarrow> 'v option" where
  "dget [] k = None"
| "dget ((k', v) # d) k = (if k' = k then Some v else dget d k)"

fun dset :: "('k, 'v) dict \<Rightarrow> 'k \<Rightarrow> 'v \<Rightarrow> ('k, 'v) dict" where
  "dset [] k v = [(k, v)]"
| "dset ((k', v') # d) k v = (if k' = k then (k', v) # d else (k', v') # dset d k v)"

definition dkeys :: "('k, 'v) dict \<Rightarrow> 'k list" where
  "dkeys d = map fst d"

definition dvalues :: "('k, 'v) dict \<Rightarrow> 'v list" where
  "dvalues d = map snd d"

definition dget_or :: "('k, 'v) dict \<Rightarrow> 'k \<Rightarrow> 'v \<Rightarrow> 'v" where
  "dget_or d k dflt = (case dget d k of None \<Rightarrow> dflt | Some v \<Rightarrow> v)"

text \<open>A dictionary holds each key once.\<close>

definition dict_ok :: "('k, 'v) dict \<Rightarrow> bool" where
  "dict_ok d \<longleftrightarrow> distinct (dkeys d)"

lemma dget_dset [dict_simps, simp]: "dget (dset d k v) k' = (if k' = k then Some v else dget d k')"
  by (induction d k v rule: dset.induct) auto

lemma dkeys_dset [dict_simps]:
  "dkeys (dset d k v) = (if k \<in> set (dkeys d) then dkeys d else dkeys d @ [k])"
  by (induction d k v rule: dset.induct) (auto simp: dkeys_def)

lemma dget_None_iff: "dget d k = None \<longleftrightarrow> k \<notin> set (dkeys d)"
  by (induction d k rule: dget.induct) (auto simp: dkeys_def)

lemma dget_Some_mem: "dget d k = Some v \<Longrightarrow> (k, v) \<in> set d"
  by (induction d k rule: dget.induct) (auto split: if_splits)

lemma dict_ok_Nil [simp]: "dict_ok []"
  by (simp add: dict_ok_def dkeys_def)

lemma dict_ok_dset [simp]: "dict_ok d \<Longrightarrow> dict_ok (dset d k v)"
  by (auto simp: dict_ok_def dkeys_dset)

lemma dget_mem: "dict_ok d \<Longrightarrow> (k, v) \<in> set d \<Longrightarrow> dget d k = Some v"
  by (induction d k rule: dget.induct) (force simp: dict_ok_def dkeys_def)+

lemma set_dset_ok:
  "dict_ok d \<Longrightarrow> set (dset d k v) = {(k', v') \<in> set d. k' \<noteq> k} \<union> {(k, v)}"
  by (induction d k v rule: dset.induct) (force simp: dict_ok_def dkeys_def)+

lemma dset_absent: "k \<notin> set (dkeys d) \<Longrightarrow> dset d k v = d @ [(k, v)]"
  by (induction d k v rule: dset.induct) (auto simp: dkeys_def)

subsection \<open>Grouping into a dictionary of lists\<close>

text \<open>\<open>groups[key(x)].append(x)\<close> over a \<open>defaultdict(list)\<close>.\<close>

definition dappend :: "('k, 'v list) dict \<Rightarrow> 'k \<Rightarrow> 'v \<Rightarrow> ('k, 'v list) dict" where
  "dappend d k x = dset d k (dget_or d k [] @ [x])"

definition group_by :: "('v \<Rightarrow> 'k) \<Rightarrow> 'v list \<Rightarrow> ('k, 'v list) dict" where
  "group_by key xs = foldl (\<lambda>d x. dappend d (key x) x) [] xs"

lemma group_by_Nil [simp]: "group_by key [] = []"
  by (simp add: group_by_def)

lemma group_by_snoc: "group_by key (xs @ [x]) = dappend (group_by key xs) (key x) x"
  by (simp add: group_by_def)

lemma dict_ok_group_by [simp]: "dict_ok (group_by key xs)"
  by (induction xs rule: rev_induct) (auto simp: group_by_snoc dappend_def)

lemma dget_group_by:
  "dget (group_by key xs) k =
     (if k \<in> key ` set xs then Some (filter (\<lambda>x. key x = k) xs) else None)"
proof (induction xs rule: rev_induct)
  case (snoc x xs)
  have "key x \<notin> key ` set xs \<Longrightarrow> filter (\<lambda>y. key y = key x) xs = []"
    by (metis (mono_tags) filter_False imageI)
  with snoc show ?case
    by (auto simp: group_by_snoc dappend_def dget_or_def)
qed simp

lemma group_by_mem_iff:
  "(k, g) \<in> set (group_by key xs) \<longleftrightarrow> k \<in> key ` set xs \<and> g = filter (\<lambda>x. key x = k) xs"
proof
  assume "(k, g) \<in> set (group_by key xs)"
  then have "dget (group_by key xs) k = Some g"
    by (rule dget_mem [OF dict_ok_group_by])
  then show "k \<in> key ` set xs \<and> g = filter (\<lambda>x. key x = k) xs"
    by (simp add: dget_group_by split: if_splits)
next
  assume "k \<in> key ` set xs \<and> g = filter (\<lambda>x. key x = k) xs"
  then have "dget (group_by key xs) k = Some g"
    by (simp add: dget_group_by)
  then show "(k, g) \<in> set (group_by key xs)"
    by (rule dget_Some_mem)
qed

lemma set_dkeys_group_by: "set (dkeys (group_by key xs)) = key ` set xs"
proof -
  have "k \<in> set (dkeys (group_by key xs)) \<longleftrightarrow> k \<in> key ` set xs" for k
    using dget_None_iff [of "group_by key xs" k] by (simp add: dget_group_by split: if_splits)
  then show ?thesis by blast
qed

lemma distinct_dkeys_group_by: "distinct (dkeys (group_by key xs))"
  using dict_ok_group_by by (simp add: dict_ok_def)

lemma mset_concat_dset:
  "dict_ok d \<Longrightarrow> mset (concat (dvalues (dset d k (dget_or d k [] @ [x])))) =
     mset (concat (dvalues d)) + {#x#}"
proof (induction d)
  case Nil
  then show ?case by (simp add: dvalues_def dget_or_def)
next
  case (Cons kv d)
  obtain k' v' where kv: "kv = (k', v')" by fastforce
  with Cons.prems have "dict_ok d" by (simp add: dict_ok_def dkeys_def)
  from Cons.IH [OF this] kv show ?case
    by (cases "k' = k") (auto simp: dvalues_def dget_or_def)
qed

lemma mset_concat_group_by: "mset (concat (dvalues (group_by key xs))) = mset xs"
  by (induction xs rule: rev_induct)
     (simp_all add: group_by_snoc dappend_def mset_concat_dset dvalues_def [of "[]"])

subsection \<open>Extremal elements with a key\<close>

text \<open>\<open>max(xs, key=f)\<close> keeps the first element whose key is maximal.\<close>

fun max_by :: "('a \<Rightarrow> 'b::linorder) \<Rightarrow> 'a \<Rightarrow> 'a list \<Rightarrow> 'a" where
  "max_by f m [] = m"
| "max_by f m (x # xs) = max_by f (if f m < f x then x else m) xs"

fun min_by :: "('a \<Rightarrow> 'b::linorder) \<Rightarrow> 'a \<Rightarrow> 'a list \<Rightarrow> 'a" where
  "min_by f m [] = m"
| "min_by f m (x # xs) = min_by f (if f x < f m then x else m) xs"

lemma max_by_in: "max_by f m xs \<in> insert m (set xs)"
  by (induction f m xs rule: max_by.induct) auto

lemma min_by_in: "min_by f m xs \<in> insert m (set xs)"
  by (induction f m xs rule: min_by.induct) auto

lemma max_by_ge_start: "f m \<le> f (max_by f m xs)"
  by (induction f m xs rule: max_by.induct) (auto intro: order_trans less_imp_le)

lemma min_by_le_start: "f (min_by f m xs) \<le> f m"
  by (induction f m xs rule: min_by.induct) (auto intro: order_trans less_imp_le)

lemma max_by_ge: "x \<in> insert m (set xs) \<Longrightarrow> f x \<le> f (max_by f m xs)"
proof (induction f m xs rule: max_by.induct)
  case (2 f m y ys)
  let ?m = "if f m < f y then y else m"
  have ge: "f ?m \<le> f (max_by f ?m ys)" by (rule max_by_ge_start)
  from 2 show ?case
    using ge by (cases "f m < f y") (auto dest: order_trans less_imp_le intro: order_trans)
qed simp

lemma min_by_le: "x \<in> insert m (set xs) \<Longrightarrow> f (min_by f m xs) \<le> f x"
proof (induction f m xs rule: min_by.induct)
  case (2 f m y ys)
  let ?m = "if f y < f m then y else m"
  have le: "f (min_by f ?m ys) \<le> f ?m" by (rule min_by_le_start)
  from 2 show ?case
    using le by (cases "f y < f m") (auto dest: order_trans less_imp_le intro: order_trans)
qed simp

subsection \<open>Distinct elements in order of first occurrence\<close>

fun uniq_by :: "('a \<Rightarrow> 'k) \<Rightarrow> 'k set \<Rightarrow> 'a list \<Rightarrow> 'a list" where
  "uniq_by key seen [] = []"
| "uniq_by key seen (x # xs) =
     (if key x \<in> seen then uniq_by key seen xs else x # uniq_by key (insert (key x) seen) xs)"

lemma uniq_by_keys: "key ` set (uniq_by key seen xs) = key ` set xs - seen"
  by (induction key seen xs rule: uniq_by.induct) auto

lemma uniq_by_distinct: "distinct (map key (uniq_by key seen xs))"
proof (induction key seen xs rule: uniq_by.induct)
  case (2 key seen x xs)
  then show ?case
    using uniq_by_keys [of key "insert (key x) seen" xs] by auto
qed simp

lemma uniq_by_subset: "set (uniq_by key seen xs) \<subseteq> set xs"
  by (induction key seen xs rule: uniq_by.induct) auto

lemma uniq_by_subseq: "subseq (uniq_by key seen xs) xs"
  by (induction key seen xs rule: uniq_by.induct) auto

text \<open>\<open>sorted(set)\<close>, with the set given by a list of its elements.\<close>

definition sorted_set :: "'a::linorder list \<Rightarrow> 'a list" where
  "sorted_set xs = sort (remdups xs)"

lemma set_sorted_set [simp]: "set (sorted_set xs) = set xs"
  by (simp add: sorted_set_def)

lemma sorted_sorted_set [simp]: "sorted (sorted_set xs)"
  by (simp add: sorted_set_def)

lemma distinct_sorted_set [simp]: "distinct (sorted_set xs)"
  by (simp add: sorted_set_def)

lemma sorted_set_cong: "set xs = set ys \<Longrightarrow> sorted_set xs = sorted_set ys"
  by (simp add: sorted_distinct_set_unique)

text \<open>
  \<open>xs.sort(key=k, reverse=True)\<close> reverses, sorts stably and reverses back, so equal keys keep
  their order.
\<close>

definition sort_desc :: "('a \<Rightarrow> 'b::linorder) \<Rightarrow> 'a list \<Rightarrow> 'a list" where
  "sort_desc k xs = rev (sort_key k (rev xs))"

lemma mset_sort_desc [simp]: "mset (sort_desc k xs) = mset xs"
  by (simp add: sort_desc_def)

lemma set_sort_desc [simp]: "set (sort_desc k xs) = set xs"
  by (simp add: sort_desc_def)

lemma length_sort_desc [simp]: "length (sort_desc k xs) = length xs"
  by (simp add: sort_desc_def)

lemma sort_desc_sorted: "sorted_wrt (\<lambda>x y. k y \<le> k x) (sort_desc k xs)"
  using sorted_sort_key [of k "rev xs"]
  by (simp add: sort_desc_def sorted_wrt_rev sorted_map)

lemma sort_desc_stable: "filter (\<lambda>y. k y = c) (sort_desc k xs) = filter (\<lambda>y. k y = c) xs"
proof -
  have "filter (\<lambda>y. k y = c) (sort_key k (rev xs)) = rev (filter (\<lambda>y. k y = c) xs)"
    by (simp add: sort_key_stable flip: rev_filter)
  then show ?thesis by (simp add: sort_desc_def rev_filter [symmetric])
qed

subsection \<open>Numbered elements\<close>

text \<open>The elements with a fresh identifier each, in order.\<close>

definition numbered :: "(nat \<Rightarrow> string) \<Rightarrow> nat \<Rightarrow> 'a list \<Rightarrow> (string \<times> 'a) list" where
  "numbered ids n xs = map (\<lambda>(i, x). (ids i, x)) (enumerate n xs)"

lemma map_snd_numbered [simp]: "map snd (numbered ids n xs) = xs"
proof -
  have "map snd (numbered ids n xs) = map snd (enumerate n xs)"
    unfolding numbered_def map_map by (rule map_cong) auto
  then show ?thesis by simp
qed

lemma snd_set_numbered [simp]: "snd ` set (numbered ids n xs) = set xs"
  by (metis list.set_map map_snd_numbered)

lemma length_numbered [simp]: "length (numbered ids n xs) = length xs"
  by (simp add: numbered_def)

lemma map_numbered: "map (\<lambda>(i, x). f x) (numbered ids n xs) = map f xs"
proof -
  have "map (\<lambda>(i, x). f x) (numbered ids n xs) = map f (map snd (numbered ids n xs))"
    unfolding map_map by (rule map_cong) auto
  then show ?thesis by (simp only: map_snd_numbered)
qed

end
