(* ===== verification/Py_Str.thy ===== *)
theory Py_Str
  imports Prelude "HOL-Library.Char_ord" "HOL-Library.List_Lexorder"
begin

text \<open>
  The methods of Python's \<open>str\<close> that the sources use, on ASCII text: a \<open>str\<close> is a list
  of characters below 128 (case mapping, digit and blank tests are the ASCII ones).
  Comparison of strings is the lexicographic order of code points, the \<open>linorder\<close>
  instance of \<^theory_text>\<open>HOL-Library.List_Lexorder\<close> over \<^theory_text>\<open>HOL-Library.Char_ord\<close>.
\<close>

subsection \<open>Characters\<close>

definition is_upper :: "char \<Rightarrow> bool" where
  "is_upper c \<longleftrightarrow> CHR ''A'' \<le> c \<and> c \<le> CHR ''Z''"

definition is_lower :: "char \<Rightarrow> bool" where
  "is_lower c \<longleftrightarrow> CHR ''a'' \<le> c \<and> c \<le> CHR ''z''"

definition is_digit :: "char \<Rightarrow> bool" where
  "is_digit c \<longleftrightarrow> CHR ''0'' \<le> c \<and> c \<le> CHR ''9''"

definition is_hex :: "char \<Rightarrow> bool" where
  "is_hex c \<longleftrightarrow> is_digit c \<or> (CHR ''a'' \<le> c \<and> c \<le> CHR ''f'') \<or> (CHR ''A'' \<le> c \<and> c \<le> CHR ''F'')"

text \<open>Upper and lower case letters differ in bit 5 of their code.\<close>

definition set_bit5 :: "bool \<Rightarrow> char \<Rightarrow> char" where
  "set_bit5 b c = (case c of Char b0 b1 b2 b3 b4 b5 b6 b7 \<Rightarrow> Char b0 b1 b2 b3 b4 b b6 b7)"

definition lower_char :: "char \<Rightarrow> char" where
  "lower_char c = (if is_upper c then set_bit5 True c else c)"

definition upper_char :: "char \<Rightarrow> char" where
  "upper_char c = (if is_lower c then set_bit5 False c else c)"

lemma lower_char_lower: "\<not> is_upper (lower_char c)"
proof (cases c)
  case (Char b0 b1 b2 b3 b4 b5 b6 b7)
  then show ?thesis
    by (cases b5; cases b6; cases b7)
       (simp_all add: lower_char_def is_upper_def set_bit5_def less_eq_char_def)
qed

lemma upper_char_upper: "\<not> is_lower (upper_char c)"
proof (cases c)
  case (Char b0 b1 b2 b3 b4 b5 b6 b7)
  then show ?thesis
    by (cases b5; cases b6; cases b7)
       (simp_all add: upper_char_def is_lower_def set_bit5_def less_eq_char_def)
qed

lemma lower_char_idem [simp]: "lower_char (lower_char c) = lower_char c"
  using lower_char_lower [of c] by (simp add: lower_char_def [of "lower_char c"])

lemma upper_char_idem [simp]: "upper_char (upper_char c) = upper_char c"
  using upper_char_upper [of c] by (simp add: upper_char_def [of "upper_char c"])

definition lower :: "string \<Rightarrow> string" where
  "lower s = List.map lower_char s"

definition upper :: "string \<Rightarrow> string" where
  "upper s = List.map upper_char s"

lemma lower_idem [simp]: "lower (lower s) = lower s"
  by (simp add: lower_def)

lemma upper_idem [simp]: "upper (upper s) = upper s"
  by (simp add: upper_def)

lemma length_lower [simp]: "length (lower s) = length s"
  by (simp add: lower_def)

lemma lower_append [simp]: "lower (s @ t) = lower s @ lower t"
  by (simp add: lower_def)

lemma lower_Nil [simp]: "lower [] = []" "lower s = [] \<longleftrightarrow> s = []"
  by (simp_all add: lower_def)

text \<open>\<open>str.isdigit\<close>: at least one character, all digits.\<close>

definition isdigit :: "string \<Rightarrow> bool" where
  "isdigit s \<longleftrightarrow> s \<noteq> [] \<and> list_all is_digit s"

subsection \<open>Affixes, substrings, stripping\<close>

definition startswith :: "string \<Rightarrow> string \<Rightarrow> bool" where
  "startswith s p \<longleftrightarrow> take (length p) s = p"

definition endswith :: "string \<Rightarrow> string \<Rightarrow> bool" where
  "endswith s p \<longleftrightarrow> startswith (rev s) (rev p)"

fun contains :: "string \<Rightarrow> string \<Rightarrow> bool" where
  "contains p [] = (p = [])"
| "contains p (c # s) = (startswith (c # s) p \<or> contains p s)"

lemma startswith_iff: "startswith s p \<longleftrightarrow> (\<exists>t. s = p @ t)"
  unfolding startswith_def by (metis append_eq_conv_conj append_take_drop_id)

lemma endswith_iff: "endswith s p \<longleftrightarrow> (\<exists>t. s = t @ p)"
  unfolding endswith_def startswith_iff by (metis rev_append rev_rev_ident)

lemma contains_iff: "contains p s \<longleftrightarrow> (\<exists>a b. s = a @ p @ b)"
proof (induction p s rule: contains.induct)
  case (2 p c s)
  show ?case
  proof
    assume "contains p (c # s)"
    then consider "startswith (c # s) p" | "contains p s" by auto
    then show "\<exists>a b. c # s = a @ p @ b"
    proof cases
      case 1
      then show ?thesis unfolding startswith_iff by (metis append_Nil)
    next
      case 2
      with "2.IH" show ?thesis by (metis append_Cons)
    qed
  next
    assume "\<exists>a b. c # s = a @ p @ b"
    then obtain a b where ab: "c # s = a @ p @ b" by blast
    show "contains p (c # s)"
    proof (cases a)
      case Nil
      with ab have "startswith (c # s) p" unfolding startswith_iff by (metis append_Nil)
      then show ?thesis by simp
    next
      case (Cons x xs)
      with ab "2.IH" show ?thesis by auto
    qed
  qed
qed simp

definition lstrip :: "(char \<Rightarrow> bool) \<Rightarrow> string \<Rightarrow> string" where
  "lstrip P s = dropWhile P s"

definition rstrip :: "(char \<Rightarrow> bool) \<Rightarrow> string \<Rightarrow> string" where
  "rstrip P s = rev (dropWhile P (rev s))"

definition strip_chars :: "(char \<Rightarrow> bool) \<Rightarrow> string \<Rightarrow> string" where
  "strip_chars P s = rstrip P (lstrip P s)"

text \<open>\<open>str.isspace\<close> on ASCII: tab to carriage return, the four separators, blank.\<close>

definition is_space :: "char \<Rightarrow> bool" where
  "is_space c \<longleftrightarrow> (CHR 0x09 \<le> c \<and> c \<le> CHR 0x0D) \<or> (CHR 0x1C \<le> c \<and> c \<le> CHR '' '')"

definition strip :: "string \<Rightarrow> string" where
  "strip s = strip_chars is_space s"

lemma length_lstrip: "length (lstrip P s) \<le> length s"
  by (simp add: lstrip_def length_dropWhile_le)

lemma length_rstrip: "length (rstrip P s) \<le> length s"
  unfolding rstrip_def by (metis length_dropWhile_le length_rev)

lemma length_strip_chars: "length (strip_chars P s) \<le> length s"
  unfolding strip_chars_def using length_lstrip length_rstrip le_trans by blast

lemma length_strip: "length (strip s) \<le> length s"
  by (simp add: strip_def length_strip_chars)

lemma rstrip_idem [simp]: "rstrip P (rstrip P s) = rstrip P s"
  by (simp add: rstrip_def)

lemma rstrip_last: "rstrip P s \<noteq> [] \<Longrightarrow> \<not> P (last (rstrip P s))"
  unfolding rstrip_def by (metis hd_dropWhile last_rev rev.simps(1))

lemma lstrip_hd: "lstrip P s \<noteq> [] \<Longrightarrow> \<not> P (hd (lstrip P s))"
  unfolding lstrip_def by (rule hd_dropWhile)

lemma dropWhile_keeps: "c \<in> set s \<Longrightarrow> \<not> P c \<Longrightarrow> c \<in> set (dropWhile P s)"
  by (induction s) auto

lemma strip_keeps: "c \<in> set s \<Longrightarrow> \<not> is_space c \<Longrightarrow> c \<in> set (strip s)"
  by (simp add: strip_def strip_chars_def rstrip_def lstrip_def dropWhile_keeps)

lemma rstrip_prefix: "\<exists>t. s = rstrip P s @ t"
proof -
  have "rev s = takeWhile P (rev s) @ dropWhile P (rev s)" by simp
  then have "s = rev (dropWhile P (rev s)) @ rev (takeWhile P (rev s))"
    by (metis rev_append rev_rev_ident)
  then show ?thesis unfolding rstrip_def by blast
qed

lemma strip_hd: "strip s \<noteq> [] \<Longrightarrow> \<not> is_space (hd (strip s))"
proof -
  assume ne: "strip s \<noteq> []"
  obtain t where t: "lstrip is_space s = strip s @ t"
    using rstrip_prefix [of "lstrip is_space s" is_space] by (auto simp: strip_def strip_chars_def)
  with ne have "hd (lstrip is_space s) = hd (strip s)" and "lstrip is_space s \<noteq> []" by auto
  then show ?thesis using lstrip_hd by metis
qed

lemma strip_idem [simp]: "strip (strip s) = strip s"
proof (cases "strip s = []")
  case False
  then have "lstrip is_space (strip s) = strip s"
    using strip_hd [of s] by (cases "strip s") (simp_all add: lstrip_def)
  then show ?thesis
    unfolding strip_def [of "strip s"] strip_chars_def by (simp add: strip_def strip_chars_def)
next
  case True
  then show ?thesis by (simp only: True) (simp add: strip_def strip_chars_def lstrip_def rstrip_def)
qed

lemma strip_chars_id: "\<forall>c \<in> set s. \<not> P c \<Longrightarrow> strip_chars P s = s"
proof -
  assume h: "\<forall>c \<in> set s. \<not> P c"
  then have "dropWhile P s = s" by (cases s) auto
  moreover from h have "dropWhile P (rev s) = rev s" by (cases s rule: rev_cases) auto
  ultimately show ?thesis by (simp add: strip_chars_def lstrip_def rstrip_def)
qed

subsection \<open>Splitting and joining\<close>

fun split_on :: "char \<Rightarrow> string \<Rightarrow> string list" where
  "split_on d [] = [[]]"
| "split_on d (c # s) =
     (if c = d then [] # split_on d s
      else case split_on d s of [] \<Rightarrow> [[c]] | x # xs \<Rightarrow> (c # x) # xs)"

fun join :: "string \<Rightarrow> string list \<Rightarrow> string" where
  "join sep [] = []"
| "join sep [x] = x"
| "join sep (x # y # ys) = x @ sep @ join sep (y # ys)"

lemma split_on_nonempty [simp]: "split_on d s \<noteq> []"
  by (induction d s rule: split_on.induct) (auto split: list.splits)

lemma join_Cons: "join sep (x # xs) = (if xs = [] then x else x @ sep @ join sep xs)"
  by (cases xs) auto

lemma join_split_on: "join [d] (split_on d s) = s"
proof (induction d s rule: split_on.induct)
  case (2 d c s)
  show ?case
    using 2 split_on_nonempty [of d s]
    by (cases "split_on d s") (auto simp: join_Cons split: if_splits)
qed simp

lemma split_on_no_sep: "x \<in> set (split_on d s) \<Longrightarrow> d \<notin> set x"
proof (induction d s arbitrary: x rule: split_on.induct)
  case (2 d c s)
  then show ?case
    by (cases "split_on d s") (force split: if_splits)+
qed simp

lemma split_on_append_sep: "d \<notin> set x \<Longrightarrow> split_on d (x @ d # s) = x # split_on d s"
  by (induction x) auto

lemma split_on_single: "d \<notin> set x \<Longrightarrow> split_on d x = [x]"
  by (induction x) auto

lemma split_on_join:
  "xs \<noteq> [] \<Longrightarrow> (\<forall>x \<in> set xs. d \<notin> set x) \<Longrightarrow> split_on d (join [d] xs) = xs"
proof (induction "[d]" xs rule: join.induct)
  case (3 x y ys)
  then show ?case by (simp add: split_on_append_sep)
qed (simp_all add: split_on_single)

lemma join_inj:
  assumes "join [d] xs = join [d] ys" and "xs \<noteq> []" and "ys \<noteq> []"
    and "\<forall>x \<in> set xs. d \<notin> set x" and "\<forall>y \<in> set ys. d \<notin> set y"
  shows "xs = ys"
  using assms split_on_join by metis

text \<open>
  \<open>s.partition(d)\<close> and \<open>s.rpartition(d)\<close> for a one-character separator: the part
  before, whether the separator occurs, the part after.
\<close>

definition partition_on :: "char \<Rightarrow> string \<Rightarrow> string \<times> bool \<times> string" where
  "partition_on d s =
     (if d \<in> set s then (takeWhile (\<lambda>c. c \<noteq> d) s, True, tl (dropWhile (\<lambda>c. c \<noteq> d) s))
      else (s, False, []))"

definition rpartition_on :: "char \<Rightarrow> string \<Rightarrow> string \<times> bool \<times> string" where
  "rpartition_on d s =
     (if d \<in> set s
      then (rev (tl (dropWhile (\<lambda>c. c \<noteq> d) (rev s))), True, rev (takeWhile (\<lambda>c. c \<noteq> d) (rev s)))
      else ([], False, s))"

lemma partition_on_join: "partition_on d s = (a, True, b) \<Longrightarrow> s = a @ d # b"
proof -
  assume h: "partition_on d s = (a, True, b)"
  then have d: "d \<in> set s" and a: "a = takeWhile (\<lambda>c. c \<noteq> d) s"
    and b: "b = tl (dropWhile (\<lambda>c. c \<noteq> d) s)"
    by (auto simp: partition_on_def split: if_splits)
  from d have ne: "dropWhile (\<lambda>c. c \<noteq> d) s \<noteq> []" by (auto simp: dropWhile_eq_Nil_conv)
  then have "hd (dropWhile (\<lambda>c. c \<noteq> d) s) = d" using hd_dropWhile by blast
  with ne have "dropWhile (\<lambda>c. c \<noteq> d) s = d # b" using b by (metis list.collapse)
  then show ?thesis using a by (metis takeWhile_dropWhile_id)
qed

subsection \<open>Numbers and quoted forms\<close>

fun digits_rev :: "nat \<Rightarrow> nat list" where
  "digits_rev n = (if n < 10 then [n] else n mod 10 # digits_rev (n div 10))"

declare digits_rev.simps [simp del]

definition digit_char :: "nat \<Rightarrow> char" where
  "digit_char n = (''0123456789'' ! (n mod 10))"

definition str_of_nat :: "nat \<Rightarrow> string" where
  "str_of_nat n = rev (List.map digit_char (digits_rev n))"

definition str_of_int :: "int \<Rightarrow> string" where
  "str_of_int i = (if i < 0 then CHR ''-'' # str_of_nat (nat (- i)) else str_of_nat (nat i))"

definition digit_val :: "char \<Rightarrow> int" where
  "digit_val c =
     (if is_digit c then of_char c - 48
      else if CHR ''a'' \<le> c \<and> c \<le> CHR ''f'' then of_char c - 87
      else if CHR ''A'' \<le> c \<and> c \<le> CHR ''F'' then of_char c - 55 else 0)"

definition num_of :: "int \<Rightarrow> string \<Rightarrow> int" where
  "num_of base s = foldl (\<lambda>n c. base * n + digit_val c) 0 s"

lemma digit_char_props: "is_digit (digit_char n)" "digit_val (digit_char n) = int (n mod 10)"
proof -
  have "list_all (\<lambda>k. is_digit (digit_char k) \<and> digit_val (digit_char k) = int k) [0..<10]"
    by code_simp
  then have "is_digit (digit_char (n mod 10)) \<and> digit_val (digit_char (n mod 10)) = int (n mod 10)"
    by (simp add: list_all_iff)
  then show "is_digit (digit_char n)" "digit_val (digit_char n) = int (n mod 10)"
    by (simp_all add: digit_char_def)
qed

lemma num_of_append1: "num_of b (s @ [c]) = b * num_of b s + digit_val c"
  by (simp add: num_of_def)

lemma digit_val_nonneg: "0 \<le> digit_val c"
proof -
  have c: "(of_char c :: int) = int (of_char c)" by (rule of_nat_of_char [symmetric])
  show ?thesis unfolding digit_val_def is_digit_def less_eq_char_def c by auto
qed

lemma num_of_nonneg: "0 \<le> num_of 10 s"
  by (induction s rule: rev_induct) (simp_all add: num_of_append1 digit_val_nonneg, simp add: num_of_def)

lemma num_of_str_of_nat: "num_of 10 (str_of_nat n) = int n"
proof (induction n rule: digits_rev.induct)
  case (1 n)
  show ?case
  proof (cases "n < 10")
    case True
    then show ?thesis
      by (subst str_of_nat_def, subst digits_rev.simps) (simp add: num_of_def digit_char_props)
  next
    case False
    then have "str_of_nat n = str_of_nat (n div 10) @ [digit_char (n mod 10)]"
      by (simp add: str_of_nat_def digits_rev.simps [of n])
    with 1 False show ?thesis
      by (simp add: num_of_append1 digit_char_props) presburger
  qed
qed

lemma str_of_nat_digits: "list_all is_digit (str_of_nat n)" "str_of_nat n \<noteq> []"
proof -
  have "digits_rev n \<noteq> []" by (subst digits_rev.simps) simp
  then show "str_of_nat n \<noteq> []" by (simp add: str_of_nat_def)
  show "list_all is_digit (str_of_nat n)"
    by (simp add: str_of_nat_def list_all_iff digit_char_props)
qed

lemma str_of_nat_inj: "str_of_nat m = str_of_nat n \<longleftrightarrow> m = n"
  by (metis num_of_str_of_nat of_nat_eq_iff)

lemma str_of_int_inj: "str_of_int i = str_of_int j \<longleftrightarrow> i = j"
proof -
  have nd: "\<not> is_digit (CHR ''-'')" by (simp add: is_digit_def less_eq_char_def)
  have no_minus: "str_of_nat n \<noteq> CHR ''-'' # x" for n x
    using str_of_nat_digits(1) [of n] nd by auto
  show ?thesis
    using no_minus by (auto simp: str_of_int_def str_of_nat_inj split: if_splits) (metis no_minus)+
qed

end
