(* ===== verification/Py_Val.thy ===== *)
theory Py_Val
  imports Complex_Main Py_Str
begin

text \<open>
  Dynamically typed values (\<open>Any\<close>, parsed JSON): a datatype with Python's truth test,
  \<open>dict.get\<close>, \<open>repr\<close> and \<open>str\<close>.  The shortest decimal form of a float is an argument
  (\<open>fr\<close>), the only part of \<open>repr\<close> that is not computed here.
\<close>

datatype pyval =
    PNone
  | PBool bool
  | PInt int
  | PFloat rat
  | PStr string
  | PList "pyval list"
  | PDict "(string \<times> pyval) list"

fun truthy :: "pyval \<Rightarrow> bool" where
  "truthy PNone = False"
| "truthy (PBool b) = b"
| "truthy (PInt i) = (i \<noteq> 0)"
| "truthy (PFloat q) = (q \<noteq> 0)"
| "truthy (PStr s) = (s \<noteq> [])"
| "truthy (PList xs) = (xs \<noteq> [])"
| "truthy (PDict d) = (d \<noteq> [])"

text \<open>\<open>d.get(k, dflt)\<close>.\<close>

definition pget :: "(string \<times> pyval) list \<Rightarrow> string \<Rightarrow> pyval \<Rightarrow> pyval" where
  "pget d k dflt = (case dget d k of None \<Rightarrow> dflt | Some v \<Rightarrow> v)"

text \<open>\<open>a or b\<close> on values.\<close>

definition por :: "pyval \<Rightarrow> pyval \<Rightarrow> pyval" where
  "por a b = (if truthy a then a else b)"

text \<open>\<open>x or y\<close> on texts and on optional texts.\<close>

definition sor :: "string \<Rightarrow> string \<Rightarrow> string" where
  "sor a b = (if a = [] then b else a)"

definition osor :: "string option \<Rightarrow> string \<Rightarrow> string" where
  "osor a b = (case a of None \<Rightarrow> b | Some s \<Rightarrow> sor s b)"

text \<open>\<open>repr\<close> of an ASCII text: single quotes unless only those occur in it.\<close>

definition hex_digit :: "nat \<Rightarrow> char" where
  "hex_digit n = ''0123456789abcdef'' ! (n mod 16)"

definition repr_char :: "char \<Rightarrow> char \<Rightarrow> string" where
  "repr_char q c =
     (if c = q \<or> c = CHR 0x5C then [CHR 0x5C, c]
      else if c = CHR 0x0A then [CHR 0x5C, CHR ''n'']
      else if c = CHR 0x0D then [CHR 0x5C, CHR ''r'']
      else if c = CHR 0x09 then [CHR 0x5C, CHR ''t'']
      else if c < CHR '' '' \<or> c \<ge> CHR 0x7F
        then [CHR 0x5C, CHR ''x'', hex_digit (of_char c div 16), hex_digit (of_char c)]
      else [c])"

definition repr_str :: "string \<Rightarrow> string" where
  "repr_str s =
     (let q = (if CHR 0x27 \<in> set s \<and> CHR 0x22 \<notin> set s then CHR 0x22 else CHR 0x27)
      in q # concat (List.map (repr_char q) s) @ [q])"

fun py_repr :: "(rat \<Rightarrow> string) \<Rightarrow> pyval \<Rightarrow> string" where
  "py_repr fr PNone = ''None''"
| "py_repr fr (PBool b) = (if b then ''True'' else ''False'')"
| "py_repr fr (PInt i) = str_of_int i"
| "py_repr fr (PFloat q) = fr q"
| "py_repr fr (PStr s) = repr_str s"
| "py_repr fr (PList xs) = ''['' @ join '', '' (List.map (py_repr fr) xs) @ '']''"
| "py_repr fr (PDict d) =
     ''{'' @ join '', '' (List.map (\<lambda>(k, v). repr_str k @ '': '' @ py_repr fr v) d) @ ''}''"

definition py_str :: "(rat \<Rightarrow> string) \<Rightarrow> pyval \<Rightarrow> string" where
  "py_str fr v = (case v of PStr s \<Rightarrow> s | _ \<Rightarrow> py_repr fr v)"

lemma py_str_PStr [simp]: "py_str fr (PStr s) = s"
  by (simp add: py_str_def)

text \<open>
  \<open>int(s)\<close> of a text: blanks around, one sign, digits with single underscores between them, at most
  4300 digits.
\<close>

fun digit_groups :: "string \<Rightarrow> string option" where
  "digit_groups [] = None"
| "digit_groups [c] = (if is_digit c then Some [c] else None)"
| "digit_groups (c # d # s) =
     (if \<not> is_digit c then None
      else map_option (Cons c) (if d = CHR ''_'' then digit_groups s else digit_groups (d # s)))"

definition int_of_text :: "string \<Rightarrow> int res" where
  "int_of_text s =
     (let t = strip s;
          body = (if t \<noteq> [] \<and> hd t \<in> {CHR ''-'', CHR ''+''} then tl t else t)
      in case digit_groups body of
           None \<Rightarrow> Inl (ValueError (''invalid literal for int() with base 10: '' @ repr_str s))
         | Some ds \<Rightarrow>
             if length ds > 4300 then Inl (ValueError ''Exceeds the limit for integer string conversion'')
             else Inr (if t \<noteq> [] \<and> hd t = CHR ''-'' then - num_of 10 ds else num_of 10 ds))"

end
