(* ===== verification/Py_Float.thy ===== *)
theory Py_Float
  imports Complex_Main
begin

text \<open>
  Python floats as the rationals they denote: every operation computes the exact result
  and rounds it to the nearest multiple of the last place of a 53-bit significand, ties
  to even (IEEE 754 binary64 in its normal range, where all values of the program lie).
  \<open>round(x, n)\<close> rounds the exact value to \<open>n\<close> decimals, ties to even, and returns the
  nearest float of that decimal.
\<close>

definition round_half_even :: "rat \<Rightarrow> int" where
  "round_half_even x =
     (let f = \<lfloor>x\<rfloor>; d = x - of_int f
      in if d < 1/2 then f else if d > 1/2 then f + 1 else if even f then f else f + 1)"

lemma round_half_even_of_int [simp]: "round_half_even (of_int i) = i"
  by (simp add: round_half_even_def Let_def)

lemma round_half_even_ge_floor: "\<lfloor>x\<rfloor> \<le> round_half_even x"
  by (simp add: round_half_even_def Let_def)

lemma round_half_even_le_floor: "round_half_even x \<le> \<lfloor>x\<rfloor> + 1"
  by (simp add: round_half_even_def Let_def)

lemma round_half_even_mono: "x \<le> y \<Longrightarrow> round_half_even x \<le> round_half_even y"
proof -
  assume xy: "x \<le> y"
  show ?thesis
  proof (cases "\<lfloor>x\<rfloor> = \<lfloor>y\<rfloor>")
    case True
    with xy show ?thesis by (auto simp: round_half_even_def Let_def)
  next
    case False
    with xy have "\<lfloor>x\<rfloor> + 1 \<le> \<lfloor>y\<rfloor>" using floor_mono [of x y] by linarith
    then show ?thesis
      using round_half_even_le_floor [of x] round_half_even_ge_floor [of y] by linarith
  qed
qed

lemma round_half_even_ge: "of_int i \<le> x \<Longrightarrow> i \<le> round_half_even x"
  using round_half_even_mono [of "of_int i" x] by simp

lemma round_half_even_le: "x \<le> of_int i \<Longrightarrow> round_half_even x \<le> i"
  using round_half_even_mono [of x "of_int i"] by simp

subsection \<open>The binade of a positive number\<close>

text \<open>\<open>ilog2 x\<close> is the \<open>e\<close> with \<open>2 ^ e \<le> x < 2 ^ (e + 1)\<close>.\<close>

function ilog2 :: "rat \<Rightarrow> int" where
  "ilog2 x =
     (if x \<le> 0 then 0
      else if x \<ge> 2 then ilog2 (x / 2) + 1
      else if x < 1 then ilog2 (x * 2) - 1
      else 0)"
  by pat_completeness auto
termination
proof (relation "measure (\<lambda>x. if x \<ge> 1 then nat \<lfloor>x\<rfloor> else 1 + nat \<lfloor>1 / x\<rfloor>)", goal_cases)
  case 1
  show ?case by simp
next
  case (2 x)
  then have "1 \<le> x / 2" and "\<lfloor>x / 2\<rfloor> < \<lfloor>x\<rfloor>" by linarith+
  with 2 show ?case by simp
next
  case (3 x)
  define y where "y = 1 / x"
  have "y > 1" and half: "1 / (x * 2) = y / 2"
    using 3 by (simp_all add: y_def)
  then have "1 \<le> \<lfloor>y\<rfloor>" by linarith
  moreover from this have "\<lfloor>y / 2\<rfloor> < \<lfloor>y\<rfloor>" unfolding floor_less_iff by linarith
  moreover have "\<lfloor>x * 2\<rfloor> \<le> 1" using 3 by linarith
  ultimately have "nat \<lfloor>x * 2\<rfloor> < 1 + nat \<lfloor>y\<rfloor>" and "nat \<lfloor>y / 2\<rfloor> < nat \<lfloor>y\<rfloor>" by linarith+
  with 3 show ?case by (simp add: half flip: y_def)
qed

declare ilog2.simps [simp del]

lemma ilog2_bounds: "0 < x \<Longrightarrow> 2 powi ilog2 x \<le> x \<and> x < 2 powi (ilog2 x + 1)"
proof (induction x rule: ilog2.induct)
  case (1 x)
  consider (big) "x \<ge> 2" | (small) "x < 1" | (mid) "1 \<le> x" "x < 2" by linarith
  then show ?case
  proof cases
    case big
    then have eq: "ilog2 x = ilog2 (x / 2) + 1" using "1.prems" by (simp add: ilog2.simps [of x])
    have "2 powi ilog2 (x / 2) \<le> x / 2 \<and> x / 2 < 2 powi (ilog2 (x / 2) + 1)"
      using "1.IH"(1) "1.prems" big by simp
    then show ?thesis by (simp add: eq power_int_add)
  next
    case small
    then have eq: "ilog2 x = ilog2 (x * 2) - 1" using "1.prems" by (simp add: ilog2.simps [of x])
    have "2 powi ilog2 (x * 2) \<le> x * 2 \<and> x * 2 < 2 powi (ilog2 (x * 2) + 1)"
      using "1.IH"(2) "1.prems" small by simp
    then show ?thesis by (simp add: eq power_int_add power_int_diff)
  next
    case mid
    then have "ilog2 x = 0" by (simp add: ilog2.simps [of x])
    with mid show ?thesis by simp
  qed
qed

lemma two_powi_less_iff: "(2::rat) powi i < 2 powi j \<longleftrightarrow> i < j"
  by (metis linorder_not_less one_less_numeral_iff power_int_increasing
      power_int_strict_increasing semiring_norm(76) less_imp_le)

lemma ilog2_mono: "0 < x \<Longrightarrow> x \<le> y \<Longrightarrow> ilog2 x \<le> ilog2 y"
proof -
  assume "0 < x" and "x \<le> y"
  then have "2 powi ilog2 x < (2::rat) powi (ilog2 y + 1)"
    using ilog2_bounds [of x] ilog2_bounds [of y] by linarith
  then show ?thesis by (simp add: two_powi_less_iff)
qed

subsection \<open>Rounding to a float\<close>

definition ulp :: "rat \<Rightarrow> rat" where
  "ulp x = 2 powi (ilog2 x - 52)"

definition fl_pos :: "rat \<Rightarrow> rat" where
  "fl_pos x = of_int (round_half_even (x / ulp x)) * ulp x"

definition fl :: "rat \<Rightarrow> rat" where
  "fl x = (if x = 0 then 0 else if x < 0 then - fl_pos (- x) else fl_pos x)"

definition fmul :: "rat \<Rightarrow> rat \<Rightarrow> rat" where
  "fmul x y = fl (x * y)"

text \<open>\<open>round(x, n)\<close>.\<close>

definition py_round :: "rat \<Rightarrow> nat \<Rightarrow> rat" where
  "py_round x n = fl (of_int (round_half_even (x * 10 ^ n)) / 10 ^ n)"

lemma ulp_pos [simp]: "0 < ulp x"
  by (simp add: ulp_def)

lemma fl_0 [simp]: "fl 0 = 0"
  by (simp add: fl_def)

lemma fl_pos_binade: "0 < x \<Longrightarrow> 2 powi ilog2 x \<le> fl_pos x \<and> fl_pos x \<le> 2 powi (ilog2 x + 1)"
proof -
  assume x: "0 < x"
  have u: "2 powi ilog2 x = 2 ^ 52 * ulp x" and v: "2 powi (ilog2 x + 1) = 2 ^ 53 * ulp x"
    by (simp_all add: ulp_def power_int_diff power_int_add)
  have "of_int (2 ^ 52) \<le> x / ulp x" and "x / ulp x \<le> of_int (2 ^ 53)"
    using ilog2_bounds [OF x] u v by (simp_all add: pos_le_divide_eq pos_divide_le_eq)
  then have "2 ^ 52 \<le> round_half_even (x / ulp x)" and "round_half_even (x / ulp x) \<le> 2 ^ 53"
    using round_half_even_ge round_half_even_le by blast+
  then have "of_int (2 ^ 52) \<le> (of_int (round_half_even (x / ulp x)) :: rat)"
    and "(of_int (round_half_even (x / ulp x)) :: rat) \<le> of_int (2 ^ 53)"
    by (simp_all only: of_int_le_iff)
  then show ?thesis unfolding fl_pos_def u v by simp
qed

lemma fl_pos_mono: "0 < x \<Longrightarrow> x \<le> y \<Longrightarrow> fl_pos x \<le> fl_pos y"
proof -
  assume x: "0 < x" and xy: "x \<le> y"
  then have y: "0 < y" by simp
  show ?thesis
  proof (cases "ilog2 x = ilog2 y")
    case True
    then have u: "ulp x = ulp y" by (simp add: ulp_def)
    have "x / ulp y \<le> y / ulp y" using xy by (simp add: divide_right_mono less_imp_le)
    then have "round_half_even (x / ulp y) \<le> round_half_even (y / ulp y)"
      by (rule round_half_even_mono)
    then show ?thesis by (simp add: fl_pos_def u)
  next
    case False
    then have "ilog2 x + 1 \<le> ilog2 y" using ilog2_mono [OF x xy] by simp
    then have "(2::rat) powi (ilog2 x + 1) \<le> 2 powi ilog2 y"
      by (simp add: power_int_increasing)
    then show ?thesis using fl_pos_binade [OF x] fl_pos_binade [OF y] by linarith
  qed
qed

lemma fl_pos_nonneg: "0 < x \<Longrightarrow> 0 \<le> fl_pos x"
  using fl_pos_binade [of x] by (meson order_trans zero_le_power_int zero_le_numeral)

lemma fl_mono: "0 \<le> x \<Longrightarrow> x \<le> y \<Longrightarrow> fl x \<le> fl y"
  by (auto simp: fl_def fl_pos_mono fl_pos_nonneg)

lemma fl_nonneg: "0 \<le> x \<Longrightarrow> 0 \<le> fl x"
  by (auto simp: fl_def fl_pos_nonneg)

lemma fmul_mono:
  "0 \<le> x \<Longrightarrow> 0 \<le> y \<Longrightarrow> x \<le> x' \<Longrightarrow> y \<le> y' \<Longrightarrow> fmul x y \<le> fmul x' y'"
  unfolding fmul_def by (intro fl_mono mult_mono) auto

lemma fmul_nonneg: "0 \<le> x \<Longrightarrow> 0 \<le> y \<Longrightarrow> 0 \<le> fmul x y"
  unfolding fmul_def by (intro fl_nonneg) simp

lemma py_round_mono: "0 \<le> x \<Longrightarrow> x \<le> y \<Longrightarrow> py_round x n \<le> py_round y n"
proof -
  assume x: "0 \<le> x" and xy: "x \<le> y"
  then have "0 \<le> round_half_even (x * 10 ^ n)" by (intro round_half_even_ge) simp
  moreover have "round_half_even (x * 10 ^ n) \<le> round_half_even (y * 10 ^ n)"
    using xy by (intro round_half_even_mono) simp
  ultimately show ?thesis
    unfolding py_round_def by (intro fl_mono) (simp_all add: divide_right_mono)
qed

lemma py_round_0 [simp]: "py_round 0 n = 0"
  using round_half_even_of_int [of 0] by (simp add: py_round_def)

end
