(* ===== verification/Domain.thy ===== *)
theory Domain
  imports Py_Val Py_Float
begin

text \<open>
  The domain model (\<open>vantage/domain/\<close>): the enumerations, the pydantic models as records,
  their field validators and the methods of the models.  Timestamps are integers on one
  clock, floats are the rationals of \<^theory_text>\<open>Py_Float\<close>, and a model that fails its
  validation is an \<open>Inl (ValidationError _)\<close>.
\<close>

subsection \<open>common.py: ranks\<close>

datatype Severity = INFO | LOW | MEDIUM | HIGH | CRITICAL

fun severity_rank :: "Severity \<Rightarrow> int" where
  "severity_rank INFO = 0"
| "severity_rank LOW = 1"
| "severity_rank MEDIUM = 2"
| "severity_rank HIGH = 3"
| "severity_rank CRITICAL = 4"

fun severity_value :: "Severity \<Rightarrow> string" where
  "severity_value INFO = ''info''"
| "severity_value LOW = ''low''"
| "severity_value MEDIUM = ''medium''"
| "severity_value HIGH = ''high''"
| "severity_value CRITICAL = ''critical''"

datatype Confidence = TENTATIVE | FIRM | CONFIRMED | FALSE_POSITIVE

fun confidence_rank :: "Confidence \<Rightarrow> int" where
  "confidence_rank FALSE_POSITIVE = - 1"
| "confidence_rank TENTATIVE = 0"
| "confidence_rank FIRM = 1"
| "confidence_rank CONFIRMED = 2"

fun confidence_value :: "Confidence \<Rightarrow> string" where
  "confidence_value TENTATIVE = ''tentative''"
| "confidence_value FIRM = ''firm''"
| "confidence_value CONFIRMED = ''confirmed''"
| "confidence_value FALSE_POSITIVE = ''false_positive''"

text \<open>An enumeration ordered by an injective rank.\<close>

locale ranked =
  fixes rank :: "'e \<Rightarrow> int"
  assumes rank_inj: "rank a = rank b \<Longrightarrow> a = b"
begin

lemma rank_antisym: "rank a \<le> rank b \<Longrightarrow> rank b \<le> rank a \<Longrightarrow> a = b"
  by (auto intro: rank_inj)

lemma rank_eq_iff: "rank a = rank b \<longleftrightarrow> a = b"
  by (auto dest: rank_inj)

lemma max_by_unique: "m \<in> insert x (set xs) \<Longrightarrow> \<forall>y \<in> insert x (set xs). rank y \<le> rank m \<Longrightarrow>
    max_by rank x xs = m"
  using max_by_ge [of m x xs rank] max_by_in [of rank x xs] by (blast intro: rank_antisym)

end

interpretation sev: ranked severity_rank
proof unfold_locales
  fix a b :: Severity
  show "severity_rank a = severity_rank b \<Longrightarrow> a = b"
    by (cases a; cases b) simp_all
qed

interpretation conf: ranked confidence_rank
proof unfold_locales
  fix a b :: Confidence
  show "confidence_rank a = confidence_rank b \<Longrightarrow> a = b"
    by (cases a; cases b) simp_all
qed

instantiation Severity :: linorder
begin

definition less_eq_Severity :: "Severity \<Rightarrow> Severity \<Rightarrow> bool" where
  "less_eq_Severity a b \<longleftrightarrow> severity_rank a \<le> severity_rank b"

definition less_Severity :: "Severity \<Rightarrow> Severity \<Rightarrow> bool" where
  "less_Severity a b \<longleftrightarrow> severity_rank a < severity_rank b"

instance
  by standard (auto simp: less_eq_Severity_def less_Severity_def intro: sev.rank_antisym)

end

instantiation Confidence :: linorder
begin

definition less_eq_Confidence :: "Confidence \<Rightarrow> Confidence \<Rightarrow> bool" where
  "less_eq_Confidence a b \<longleftrightarrow> confidence_rank a \<le> confidence_rank b"

definition less_Confidence :: "Confidence \<Rightarrow> Confidence \<Rightarrow> bool" where
  "less_Confidence a b \<longleftrightarrow> confidence_rank a < confidence_rank b"

instance
  by standard (auto simp: less_eq_Confidence_def less_Confidence_def intro: conf.rank_antisym)

end

text \<open>\<open>Severity.max(*values)\<close> of a first and further values.\<close>

definition severity_max :: "Severity \<Rightarrow> Severity list \<Rightarrow> Severity" where
  "severity_max s ss = max_by severity_rank s ss"

lemma severity_max_Max: "severity_max s ss = Max (insert s (set ss))"
proof (rule sym, rule Max_eqI)
  show "y \<le> severity_max s ss" if "y \<in> insert s (set ss)" for y
    using max_by_ge [OF that, of severity_rank] by (simp add: severity_max_def less_eq_Severity_def)
  show "severity_max s ss \<in> insert s (set ss)"
    unfolding severity_max_def by (rule max_by_in)
qed simp

datatype LicenseClass = GREEN | YELLOW | RED | UNKNOWN

fun license_class_value :: "LicenseClass \<Rightarrow> string" where
  "license_class_value GREEN = ''GREEN''"
| "license_class_value YELLOW = ''YELLOW''"
| "license_class_value RED = ''RED''"
| "license_class_value UNKNOWN = ''UNKNOWN''"

datatype ApprovalStatus = APPROVED | PENDING_REVIEW | REJECTED

fun approval_value :: "ApprovalStatus \<Rightarrow> string" where
  "approval_value APPROVED = ''approved''"
| "approval_value PENDING_REVIEW = ''pending_review''"
| "approval_value REJECTED = ''rejected''"

text \<open>The \<open>Identifier\<close> constraint.\<close>

definition is_identifier :: "string \<Rightarrow> bool" where
  "is_identifier s \<longleftrightarrow>
     1 \<le> length s \<and> length s \<le> 64 \<and>
     list_all (\<lambda>c. is_upper c \<or> is_lower c \<or> is_digit c \<or> c \<in> set ''_.:-'') s"

subsection \<open>target.py\<close>

datatype ApplicationKind =
  KIND_UNKNOWN | TRADITIONAL_WEB | SPA | REST_API | GRAPHQL_API | SOAP_API | WEBSOCKET

fun kind_value :: "ApplicationKind \<Rightarrow> string" where
  "kind_value KIND_UNKNOWN = ''unknown''"
| "kind_value TRADITIONAL_WEB = ''traditional_web''"
| "kind_value SPA = ''spa''"
| "kind_value REST_API = ''rest_api''"
| "kind_value GRAPHQL_API = ''graphql_api''"
| "kind_value SOAP_API = ''soap_api''"
| "kind_value WEBSOCKET = ''websocket''"

datatype AuthorizationMethod = DNS_TXT | HTTP_FILE | SIGNED_ATTESTATION | INTERNAL_ASSET

record AuthorizationRecord =
  ar_method :: AuthorizationMethod
  ar_verified_at :: int
  ar_verified_by :: string
  ar_expires_at :: "int option"
  ar_reference :: "string option"

definition auth_is_valid :: "int \<Rightarrow> AuthorizationRecord \<Rightarrow> bool" where
  "auth_is_valid now a =
     (case ar_expires_at a of None \<Rightarrow> True | Some e \<Rightarrow> e > now)"

datatype ScopeRuleKind = INCLUDE | EXCLUDE

record ScopeRule =
  r_kind :: ScopeRuleKind
  r_host :: string
  r_schemes :: "string list"
  r_ports :: "int list option"
  r_path_prefix :: string
  r_path_regex :: "string option"
  r_methods :: "string list option"

definition lower_host :: "string \<Rightarrow> string" where
  "lower_host v = rstrip (\<lambda>c. c = CHR ''.'') (lower (strip v))"

definition check_schemes :: "string list \<Rightarrow> string list res" where
  "check_schemes v =
     (let out = List.map lower v;
          bad = List.filter (\<lambda>s. s \<notin> {''http'', ''https'', ''ws'', ''wss''}) out
      in if bad \<noteq> [] then Inl (ValidationError ''unsupported scheme(s)'') else Inr out)"

definition check_path_prefix :: "string \<Rightarrow> string res" where
  "check_path_prefix v =
     (if \<not> startswith v ''/'' then Inl (ValidationError ''path_prefix must start with a slash'')
      else Inr v)"

text \<open>Building a rule: the length bounds on the given host, then the field validators.\<close>

definition ScopeRule_validate :: "ScopeRule \<Rightarrow> ScopeRule res" where
  "ScopeRule_validate r =
     (if length (r_host r) < 1 \<or> length (r_host r) > 253
      then Inl (ValidationError ''host length'')
      else bind_res (check_schemes (r_schemes r)) (\<lambda>schemes.
           bind_res (check_path_prefix (r_path_prefix r)) (\<lambda>prefix.
           Inr (r\<lparr>r_host := lower_host (r_host r), r_schemes := schemes,
                  r_path_prefix := prefix,
                  r_methods := map_option (List.map upper) (r_methods r)\<rparr>))))"

record RateLimits =
  rl_max_requests_per_second :: rat
  rl_max_concurrency :: int
  rl_max_total_requests :: "int option"

definition RateLimits_ok :: "RateLimits \<Rightarrow> bool" where
  "RateLimits_ok l \<longleftrightarrow>
     0 < rl_max_requests_per_second l \<and> rl_max_requests_per_second l \<le> 1000 \<and>
     1 \<le> rl_max_concurrency l \<and> rl_max_concurrency l \<le> 256 \<and>
     (case rl_max_total_requests l of None \<Rightarrow> True | Some n \<Rightarrow> 1 \<le> n)"

text \<open>The base URLs of a target are the texts \<open>str(u)\<close> of its \<open>HttpUrl\<close> values.\<close>

record Target =
  t_id :: string
  t_tenant_id :: string
  t_name :: string
  t_base_urls :: "string list"
  t_kind :: ApplicationKind
  t_scope_rules :: "ScopeRule list"
  t_rate_limits :: RateLimits
  t_authorization :: "AuthorizationRecord option"
  t_api_definitions :: "string list"
  t_tags :: "string list"
  t_created_at :: int

definition is_authorized :: "int \<Rightarrow> Target \<Rightarrow> bool" where
  "is_authorized now t =
     (case t_authorization t of None \<Rightarrow> False | Some a \<Rightarrow> auth_is_valid now a)"

subsection \<open>finding.py\<close>

datatype EvidenceKind =
    HTTP_EXCHANGE | RESPONSE_MATCH | DOM_OBSERVATION | OOB_INTERACTION
  | TLS_OBSERVATION | HEADER_OBSERVATION | VALIDATION_RESULT | NOTE

fun evidence_kind_value :: "EvidenceKind \<Rightarrow> string" where
  "evidence_kind_value HTTP_EXCHANGE = ''http_exchange''"
| "evidence_kind_value RESPONSE_MATCH = ''response_match''"
| "evidence_kind_value DOM_OBSERVATION = ''dom_observation''"
| "evidence_kind_value OOB_INTERACTION = ''oob_interaction''"
| "evidence_kind_value TLS_OBSERVATION = ''tls_observation''"
| "evidence_kind_value HEADER_OBSERVATION = ''header_observation''"
| "evidence_kind_value VALIDATION_RESULT = ''validation_result''"
| "evidence_kind_value NOTE = ''note''"

record HttpMessage =
  hm_method :: "string option"
  hm_url :: "string option"
  hm_status :: "int option"
  hm_headers :: "(string, string) dict"
  hm_body :: "string option"
  hm_body_truncated :: bool

definition MAX_EVIDENCE_BODY :: nat where
  "MAX_EVIDENCE_BODY = 64 * 1024"

text \<open>The body validator: on ASCII text one byte is one character.\<close>

definition cap_body :: "string option \<Rightarrow> string option" where
  "cap_body v =
     (case v of None \<Rightarrow> None
      | Some b \<Rightarrow> if length b > MAX_EVIDENCE_BODY then Some (take MAX_EVIDENCE_BODY b) else Some b)"

definition HttpMessage_validate :: "HttpMessage \<Rightarrow> HttpMessage" where
  "HttpMessage_validate m = m\<lparr>hm_body := cap_body (hm_body m)\<rparr>"

record Evidence =
  ev_id :: string
  ev_kind :: EvidenceKind
  ev_engine_id :: string
  ev_summary :: string
  ev_request :: "HttpMessage option"
  ev_response :: "HttpMessage option"
  ev_matched :: "string list"
  ev_artifact_refs :: "string list"
  ev_data :: "(string \<times> pyval) list"
  ev_captured_at :: int

text \<open>The length constraint on the summary of a piece of evidence.\<close>

definition MAX_SUMMARY :: nat where
  "MAX_SUMMARY = 2000"

definition summary_ok :: "string \<Rightarrow> bool" where
  "summary_ok s \<longleftrightarrow> length s \<le> MAX_SUMMARY"

definition opt_text :: "string option \<Rightarrow> string" where
  "opt_text v = (case v of None \<Rightarrow> ''None'' | Some s \<Rightarrow> s)"

text \<open>
  \<open>Evidence.digest\<close>: the bytes fed to SHA-256 in order, and their hash; the hash function
  (hex digest of a text) is the argument \<open>sha\<close>.
\<close>

definition digest_text :: "Evidence \<Rightarrow> string" where
  "digest_text e =
     evidence_kind_value (ev_kind e) @ ev_summary e @ concat (sort (ev_matched e)) @
     (case ev_request e of None \<Rightarrow> []
      | Some rq \<Rightarrow> opt_text (hm_method rq) @ '' '' @ opt_text (hm_url rq)) @
     (case ev_response e of None \<Rightarrow> []
      | Some rs \<Rightarrow> (case hm_status rs of None \<Rightarrow> [] | Some n \<Rightarrow> str_of_int n))"

definition digest :: "(string \<Rightarrow> string) \<Rightarrow> Evidence \<Rightarrow> string" where
  "digest sha e = sha (digest_text e)"

record Location =
  loc_scheme :: string
  loc_host :: string
  loc_port :: int
  loc_path :: string
  loc_method :: "string option"
  loc_parameter :: "string option"
  loc_parameter_location :: "string option"

definition Location_validate :: "Location \<Rightarrow> Location" where
  "Location_validate l =
     l\<lparr>loc_host := rstrip (\<lambda>c. c = CHR ''.'') (lower (loc_host l)),
       loc_method := map_option upper (loc_method l)\<rparr>"

record Observation =
  obs_id :: string
  obs_scan_id :: string
  obs_run_id :: string
  obs_engine_id :: string
  obs_engine_version :: string
  obs_detector_id :: string
  obs_title :: string
  obs_vuln_class :: string
  obs_severity :: Severity
  obs_confidence :: Confidence
  obs_cwe :: "int list"
  obs_location :: Location
  obs_description :: string
  obs_remediation :: string
  obs_references :: "string list"
  obs_evidence :: "Evidence list"
  obs_raw_ref :: "string option"
  obs_observed_at :: int

datatype FindingStatus = OPEN | TRIAGED | ACCEPTED_RISK | FIXED | STATUS_FALSE_POSITIVE

record UnifiedFinding =
  f_id :: string
  f_tenant_id :: string
  f_scan_id :: string
  f_target_id :: string
  f_fingerprint :: string
  f_title :: string
  f_category :: string
  f_severity :: Severity
  f_confidence :: Confidence
  f_risk_score :: rat
  f_cwe :: "int list"
  f_owasp :: "string list"
  f_host :: string
  f_port :: int
  f_endpoint :: string
  f_method :: "string option"
  f_parameter :: "string option"
  f_affected_urls :: "string list"
  f_description :: string
  f_remediation :: string
  f_references :: "string list"
  f_engines :: "string list"
  f_detectors :: "string list"
  f_observation_ids :: "string list"
  f_evidence :: "Evidence list"
  f_status :: FindingStatus
  f_first_seen :: int
  f_last_seen :: int

subsection \<open>engine.py\<close>

datatype Capability =
    CRAWL_HTTP | CRAWL_BROWSER | DISCOVERY_CONTENT | DISCOVERY_JS | DISCOVERY_API_SPEC
  | DISCOVERY_SUBDOMAIN | RECON_HTTP | FINGERPRINT_TECH | ANALYSIS_TLS | ANALYSIS_DNS
  | ANALYSIS_HEADERS | ANALYSIS_SECRETS | AUDIT_PASSIVE | AUDIT_ACTIVE | AUDIT_TEMPLATES
  | AUDIT_API_REST | AUDIT_API_GRAPHQL | AUDIT_API_SOAP | AUDIT_WEBSOCKET | AUDIT_AUTHZ
  | OOB_CALLBACK | CAP_VALIDATION

text \<open>\<open>list(Capability)\<close>: the members in declaration order.\<close>

definition all_capabilities :: "Capability list" where
  "all_capabilities =
     [CRAWL_HTTP, CRAWL_BROWSER, DISCOVERY_CONTENT, DISCOVERY_JS, DISCOVERY_API_SPEC,
      DISCOVERY_SUBDOMAIN, RECON_HTTP, FINGERPRINT_TECH, ANALYSIS_TLS, ANALYSIS_DNS,
      ANALYSIS_HEADERS, ANALYSIS_SECRETS, AUDIT_PASSIVE, AUDIT_ACTIVE, AUDIT_TEMPLATES,
      AUDIT_API_REST, AUDIT_API_GRAPHQL, AUDIT_API_SOAP, AUDIT_WEBSOCKET, AUDIT_AUTHZ,
      OOB_CALLBACK, CAP_VALIDATION]"

fun capability_value :: "Capability \<Rightarrow> string" where
  "capability_value CRAWL_HTTP = ''crawl.http''"
| "capability_value CRAWL_BROWSER = ''crawl.browser''"
| "capability_value DISCOVERY_CONTENT = ''discovery.content''"
| "capability_value DISCOVERY_JS = ''discovery.js''"
| "capability_value DISCOVERY_API_SPEC = ''discovery.api_spec''"
| "capability_value DISCOVERY_SUBDOMAIN = ''discovery.subdomain''"
| "capability_value RECON_HTTP = ''recon.http''"
| "capability_value FINGERPRINT_TECH = ''fingerprint.tech''"
| "capability_value ANALYSIS_TLS = ''analysis.tls''"
| "capability_value ANALYSIS_DNS = ''analysis.dns''"
| "capability_value ANALYSIS_HEADERS = ''analysis.headers''"
| "capability_value ANALYSIS_SECRETS = ''analysis.secrets''"
| "capability_value AUDIT_PASSIVE = ''audit.passive''"
| "capability_value AUDIT_ACTIVE = ''audit.active''"
| "capability_value AUDIT_TEMPLATES = ''audit.templates''"
| "capability_value AUDIT_API_REST = ''audit.api.rest''"
| "capability_value AUDIT_API_GRAPHQL = ''audit.api.graphql''"
| "capability_value AUDIT_API_SOAP = ''audit.api.soap''"
| "capability_value AUDIT_WEBSOCKET = ''audit.websocket''"
| "capability_value AUDIT_AUTHZ = ''audit.authz''"
| "capability_value OOB_CALLBACK = ''oob.callback''"
| "capability_value CAP_VALIDATION = ''validation''"

datatype IntegrationType = NATIVE | LIBRARY | CONTAINER_CLI | CONTAINER_API | EXTERNAL_SERVICE

fun integration_value :: "IntegrationType \<Rightarrow> string" where
  "integration_value NATIVE = ''native''"
| "integration_value LIBRARY = ''library''"
| "integration_value CONTAINER_CLI = ''container_cli''"
| "integration_value CONTAINER_API = ''container_api''"
| "integration_value EXTERNAL_SERVICE = ''external_service''"

datatype NetworkMode = NET_NONE | SCOPED_EGRESS

record ResourceLimits =
  lim_cpus :: rat
  lim_memory_mb :: int
  lim_pids :: int
  lim_timeout_seconds :: int
  lim_max_output_bytes :: int
  lim_tmpfs_mb :: int

definition ResourceLimits_ok :: "ResourceLimits \<Rightarrow> bool" where
  "ResourceLimits_ok l \<longleftrightarrow>
     0 < lim_cpus l \<and> lim_cpus l \<le> 64 \<and>
     64 \<le> lim_memory_mb l \<and> lim_memory_mb l \<le> 262144 \<and>
     16 \<le> lim_pids l \<and> lim_pids l \<le> 65536 \<and>
     10 \<le> lim_timeout_seconds l \<and> lim_timeout_seconds l \<le> 86400 \<and>
     1024 \<le> lim_max_output_bytes l \<and>
     16 \<le> lim_tmpfs_mb l \<and> lim_tmpfs_mb l \<le> 65536"

record EngineMetadata =
  em_id :: string
  em_name :: string
  em_version :: string
  em_vendor :: string
  em_license_spdx :: string
  em_license_class :: LicenseClass
  em_approval_status :: ApprovalStatus
  em_integration :: IntegrationType
  em_capabilities :: "Capability list"
  em_image :: "string option"
  em_homepage :: "string option"

datatype HealthState = HEALTHY | DEGRADED | UNAVAILABLE

record HealthStatus =
  hs_state :: HealthState
  hs_detail :: string
  hs_checked_at :: int

record EngineRunRequest =
  rq_run_id :: string
  rq_scan_id :: string
  rq_tenant_id :: string
  rq_engine_id :: string
  rq_capabilities :: "Capability list"
  rq_seed_urls :: "string list"
  rq_scope_rules :: "ScopeRule list"
  rq_max_requests_per_second :: rat
  rq_max_concurrency :: int
  rq_options :: "(string \<times> pyval) list"
  rq_auth_context :: "(string \<times> pyval) list option"
  rq_proxy_url :: "string option"

text \<open>The non-empty and range constraints of a request.\<close>

definition EngineRunRequest_ok :: "EngineRunRequest \<Rightarrow> bool" where
  "EngineRunRequest_ok q \<longleftrightarrow>
     is_identifier (rq_engine_id q) \<and> rq_capabilities q \<noteq> [] \<and> rq_seed_urls q \<noteq> [] \<and>
     0 < rq_max_requests_per_second q \<and> 1 \<le> rq_max_concurrency q"

datatype RunStatus =
  RUN_PENDING | RUN_RUNNING | SUCCEEDED | RUN_FAILED | TIMED_OUT | RUN_CANCELLED | REJECTED_OUTPUT

record EngineRunResult =
  rr_run_id :: string
  rr_engine_id :: string
  rr_engine_version :: string
  rr_status :: RunStatus
  rr_started_at :: int
  rr_finished_at :: int
  rr_exit_code :: "int option"
  rr_raw_artifacts :: "string list"
  rr_observations_count :: int
  rr_error :: "string option"
  rr_stats :: "(string \<times> pyval) list"

subsection \<open>scan.py\<close>

datatype ScanProfile = PASSIVE | STANDARD | DEEP

fun profile_value :: "ScanProfile \<Rightarrow> string" where
  "profile_value PASSIVE = ''passive''"
| "profile_value STANDARD = ''standard''"
| "profile_value DEEP = ''deep''"

record ScanPolicy =
  sp_profile :: ScanProfile
  sp_capabilities :: "Capability list option"
  sp_disabled_engines :: "string list"
  sp_allowed_methods :: "string list"
  sp_max_duration_minutes :: int
  sp_max_total_requests :: "int option"
  sp_template_tags_denylist :: "string list"

datatype ScanState =
    CREATED | QUEUED | PLANNING | RUNNING | PAUSED | CORRELATING | VALIDATING | REPORTING
  | COMPLETED | CANCELLING | CANCELLED | FAILED

fun scan_state_value :: "ScanState \<Rightarrow> string" where
  "scan_state_value CREATED = ''created''"
| "scan_state_value QUEUED = ''queued''"
| "scan_state_value PLANNING = ''planning''"
| "scan_state_value RUNNING = ''running''"
| "scan_state_value PAUSED = ''paused''"
| "scan_state_value CORRELATING = ''correlating''"
| "scan_state_value VALIDATING = ''validating''"
| "scan_state_value REPORTING = ''reporting''"
| "scan_state_value COMPLETED = ''completed''"
| "scan_state_value CANCELLING = ''cancelling''"
| "scan_state_value CANCELLED = ''cancelled''"
| "scan_state_value FAILED = ''failed''"

definition TERMINAL_STATES :: "ScanState list" where
  "TERMINAL_STATES = [COMPLETED, CANCELLED, FAILED]"

datatype StageKind = STAGE_FINGERPRINT | STAGE_DISCOVERY | STAGE_AUDIT | STAGE_VALIDATION

record PlannedTask =
  pt_id :: string
  pt_engine_id :: string
  pt_capabilities :: "Capability list"
  pt_seed_urls :: "string list"
  pt_options :: "(string \<times> pyval) list"
  pt_reason :: string

record PlanStage =
  ps_kind :: StageKind
  ps_tasks :: "PlannedTask list"

record ScanPlan =
  plan_scan_id :: string
  plan_stages :: "PlanStage list"
  plan_skipped :: "string list"
  plan_created_at :: int

record Scan =
  s_id :: string
  s_tenant_id :: string
  s_target_id :: string
  s_policy :: ScanPolicy
  s_state :: ScanState
  s_state_reason :: "string option"
  s_created_by :: string
  s_created_at :: int
  s_started_at :: "int option"
  s_finished_at :: "int option"

subsection \<open>What the validators establish\<close>

lemma check_schemes_Inr:
  "check_schemes v = Inr out \<longleftrightarrow>
     out = List.map lower v \<and> set out \<subseteq> {''http'', ''https'', ''ws'', ''wss''}"
  by (auto simp: check_schemes_def Let_def filter_empty_conv)

lemma lower_rstrip: "lower (rstrip P s) = rstrip P s" if "lower s = s"
proof -
  obtain k where "rstrip P s = take k s"
    unfolding rstrip_def by (metis dropWhile_eq_drop rev_drop rev_rev_ident length_rev)
  with that show ?thesis by (metis lower_def take_map)
qed

lemma lower_host_normal: "lower (lower_host v) = lower_host v"
  by (simp add: lower_host_def lower_rstrip)

lemma lower_host_no_trailing_dot: "lower_host v \<noteq> [] \<Longrightarrow> last (lower_host v) \<noteq> CHR ''.''"
  unfolding lower_host_def using rstrip_last by blast

lemma cap_body_length: "cap_body v = Some b \<Longrightarrow> length b \<le> MAX_EVIDENCE_BODY"
  by (auto simp: cap_body_def split: option.splits if_splits)

lemma cap_body_idem: "cap_body (cap_body v) = cap_body v"
  by (auto simp: cap_body_def split: option.splits)

lemma Location_validate_idem: "Location_validate (Location_validate l) = Location_validate l"
  by (simp add: Location_validate_def lower_rstrip option.map_comp comp_def)

text \<open>A finding for the witnesses.\<close>

definition demo_unified :: "string \<Rightarrow> UnifiedFinding" where
  "demo_unified fid =
     \<lparr>f_id = fid, f_tenant_id = ''acme'', f_scan_id = ''s'', f_target_id = ''t'', f_fingerprint = ''fp'',
      f_title = ''t'', f_category = ''xss'', f_severity = HIGH, f_confidence = TENTATIVE, f_risk_score = 0,
      f_cwe = [79], f_owasp = [], f_host = ''a'', f_port = 8, f_endpoint = ''/'', f_method = None,
      f_parameter = None, f_affected_urls = [], f_description = [], f_remediation = [], f_references = [],
      f_engines = [''zap''], f_detectors = [], f_observation_ids = [], f_evidence = [], f_status = OPEN,
      f_first_seen = 0, f_last_seen = 0\<rparr>"

end
