(* ===== verification/Py_Net.thy ===== *)
theory Py_Net
  imports Py_Str
begin

text \<open>
  The parts of Python 3.11's \<open>ipaddress\<close> and \<open>urllib.parse\<close> modules the sources
  call: \<open>ip_address\<close>, \<open>ip_network(\<dots>, strict=False)\<close>, membership of an address in a
  network, the classification flags of addresses, and \<open>urlsplit\<close> with the
  \<open>hostname\<close> and \<open>port\<close> properties of its result.  An address is its number; a
  network of prefix length \<open>p\<close> holds the addresses that agree with its base above
  the lowest \<open>w - p\<close> bits.  \<open>None\<close> and \<open>Inl\<close> stand for \<open>ValueError\<close>.
\<close>

subsection \<open>IPv4\<close>

datatype ipaddr = V4 int | V6 int "string option"

definition parse_octet :: "string \<Rightarrow> int option" where
  "parse_octet s =
     (if s = [] \<or> \<not> isdigit s then None
      else if length s > 3 then None
      else if s \<noteq> ''0'' \<and> hd s = CHR ''0'' then None
      else if num_of 10 s > 255 then None
      else Some (num_of 10 s))"

definition ip4_of_string :: "string \<Rightarrow> int option" where
  "ip4_of_string s =
     (case split_on CHR ''.'' s of
        [a, b, c, d] \<Rightarrow>
          (case (parse_octet a, parse_octet b, parse_octet c, parse_octet d) of
             (Some a, Some b, Some c, Some d) \<Rightarrow> Some (((a * 256 + b) * 256 + c) * 256 + d)
           | _ \<Rightarrow> None)
      | _ \<Rightarrow> None)"

subsection \<open>IPv6\<close>

fun hex_rev :: "nat \<Rightarrow> nat list" where
  "hex_rev n = (if n < 16 then [n] else n mod 16 # hex_rev (n div 16))"

declare hex_rev.simps [simp del]

definition hex_str :: "nat \<Rightarrow> string" where
  "hex_str n = rev (List.map (\<lambda>k. ''0123456789abcdef'' ! (k mod 16)) (hex_rev n))"

definition parse_hextet :: "string \<Rightarrow> int option" where
  "parse_hextet s =
     (if list_all is_hex s \<and> length s \<le> 4 \<and> s \<noteq> [] then Some (num_of 16 s) else None)"

fun hextets :: "int \<Rightarrow> string list \<Rightarrow> int option" where
  "hextets acc [] = Some acc"
| "hextets acc (h # hs) =
     (case parse_hextet h of None \<Rightarrow> None | Some n \<Rightarrow> hextets (acc * 65536 + n) hs)"

text \<open>An IPv4-style last part is replaced by its two hextets.\<close>

definition v4_suffix :: "string list \<Rightarrow> string list option" where
  "v4_suffix parts =
     (if CHR ''.'' \<in> set (last parts)
      then (case ip4_of_string (last parts) of
              None \<Rightarrow> None
            | Some n \<Rightarrow> Some (butlast parts @ [hex_str (nat (n div 65536)), hex_str (nat (n mod 65536))]))
      else Some parts)"

definition v6_value :: "string list \<Rightarrow> int option" where
  "v6_value parts =
     (case List.filter (\<lambda>i. parts ! i = []) [1..<length parts - 1] of
        [] \<Rightarrow>
          (if length parts \<noteq> 8 \<or> hd parts = [] \<or> last parts = [] then None
           else hextets 0 parts)
      | [k] \<Rightarrow>
          (let hi = k - (if hd parts = [] then 1 else 0);
               lo = length parts - k - 1 - (if last parts = [] then 1 else 0)
           in if (hd parts = [] \<and> hi \<noteq> 0) \<or> (last parts = [] \<and> lo \<noteq> 0) \<or> hi + lo \<ge> 8 then None
              else (case hextets 0 (take hi parts) of
                      None \<Rightarrow> None
                    | Some a \<Rightarrow>
                        hextets (a * 2 ^ (16 * (8 - (hi + lo)))) (drop (length parts - lo) parts)))
      | _ \<Rightarrow> None)"

definition ip6_of_string :: "string \<Rightarrow> int option" where
  "ip6_of_string s =
     (let parts = split_on CHR '':'' s
      in if length parts < 3 then None
         else (case v4_suffix parts of
                 None \<Rightarrow> None
               | Some ps \<Rightarrow> if length ps > 9 then None else v6_value ps))"

definition split_scope_id :: "string \<Rightarrow> (string \<times> string option) option" where
  "split_scope_id s =
     (case partition_on CHR ''%'' s of
        (addr, sep, zone) \<Rightarrow>
          if \<not> sep then Some (addr, None)
          else if zone = [] \<or> CHR ''%'' \<in> set zone then None
          else Some (addr, Some zone))"

definition ip6_address :: "string \<Rightarrow> ipaddr option" where
  "ip6_address s =
     (if CHR ''/'' \<in> set s then None
      else case split_scope_id s of
             None \<Rightarrow> None
           | Some (addr, zone) \<Rightarrow> map_option (\<lambda>n. V6 n zone) (ip6_of_string addr))"

definition ip_address :: "string \<Rightarrow> ipaddr option" where
  "ip_address s =
     (case (if CHR ''/'' \<in> set s then None else ip4_of_string s) of
        Some n \<Rightarrow> Some (V4 n)
      | None \<Rightarrow> ip6_address s)"

subsection \<open>Networks\<close>

datatype ipnet = N4 int nat | N6 int nat

definition in_prefix :: "nat \<Rightarrow> int \<Rightarrow> int \<Rightarrow> nat \<Rightarrow> bool" where
  "in_prefix w ip base p \<longleftrightarrow> ip div 2 ^ (w - p) = base div 2 ^ (w - p)"

fun in_network :: "ipaddr \<Rightarrow> ipnet \<Rightarrow> bool" where
  "in_network (V4 ip) (N4 base p) = in_prefix 32 ip base p"
| "in_network (V6 ip _) (N6 base p) = in_prefix 128 ip base p"
| "in_network _ _ = False"

definition prefix_length :: "nat \<Rightarrow> string \<Rightarrow> nat option" where
  "prefix_length w s =
     (if isdigit s \<and> num_of 10 s \<le> int w then Some (nat (num_of 10 s)) else None)"

text \<open>An IPv4 mask may also be a dotted netmask or host mask.\<close>

definition prefix_of_mask :: "int \<Rightarrow> nat option" where
  "prefix_of_mask m = List.find (\<lambda>p. m + 2 ^ (32 - p) = 2 ^ 32) [0..<33]"

definition v4_prefix :: "string \<Rightarrow> nat option" where
  "v4_prefix s =
     (case prefix_length 32 s of
        Some p \<Rightarrow> Some p
      | None \<Rightarrow>
          (case ip4_of_string s of
             None \<Rightarrow> None
           | Some m \<Rightarrow>
               (case prefix_of_mask m of
                  Some p \<Rightarrow> Some p
                | None \<Rightarrow> prefix_of_mask (2 ^ 32 - 1 - m))))"

definition ip4_network :: "string \<Rightarrow> ipnet option" where
  "ip4_network s =
     (case split_on CHR ''/'' s of
        [a] \<Rightarrow> map_option (\<lambda>n. N4 n 32) (ip4_of_string a)
      | [a, m] \<Rightarrow>
          (case (ip4_of_string a, v4_prefix m) of
             (Some n, Some p) \<Rightarrow> Some (N4 n p)
           | _ \<Rightarrow> None)
      | _ \<Rightarrow> None)"

definition ip6_network :: "string \<Rightarrow> ipnet option" where
  "ip6_network s =
     (case split_on CHR ''/'' s of
        [a] \<Rightarrow> (case ip6_address a of Some (V6 n _) \<Rightarrow> Some (N6 n 128) | _ \<Rightarrow> None)
      | [a, m] \<Rightarrow>
          (case (ip6_address a, prefix_length 128 m) of
             (Some (V6 n _), Some p) \<Rightarrow> Some (N6 n p)
           | _ \<Rightarrow> None)
      | _ \<Rightarrow> None)"

definition ip_network :: "string \<Rightarrow> ipnet option" where
  "ip_network s = (case ip4_network s of Some n \<Rightarrow> Some n | None \<Rightarrow> ip6_network s)"

subsection \<open>Classification flags\<close>

definition v4 :: "int \<Rightarrow> int \<Rightarrow> int \<Rightarrow> int \<Rightarrow> int" where
  "v4 a b c d = ((a * 256 + b) * 256 + c) * 256 + d"

definition v4_private_networks :: "(int \<times> nat) list" where
  "v4_private_networks =
     [(v4 0 0 0 0, 8), (v4 10 0 0 0, 8), (v4 127 0 0 0, 8), (v4 169 254 0 0, 16),
      (v4 172 16 0 0, 12), (v4 192 0 0 0, 24), (v4 192 0 0 170, 31), (v4 192 0 2 0, 24),
      (v4 192 168 0 0, 16), (v4 198 18 0 0, 15), (v4 198 51 100 0, 24), (v4 203 0 113 0, 24),
      (v4 240 0 0 0, 4), (v4 255 255 255 255, 32)]"

definition v4_private_exceptions :: "(int \<times> nat) list" where
  "v4_private_exceptions = [(v4 192 0 0 9, 32), (v4 192 0 0 10, 32)]"

definition in_any :: "nat \<Rightarrow> int \<Rightarrow> (int \<times> nat) list \<Rightarrow> bool" where
  "in_any w ip nets = list_ex (\<lambda>(b, p). in_prefix w ip b p) nets"

definition v4_is_private :: "int \<Rightarrow> bool" where
  "v4_is_private ip \<longleftrightarrow>
     in_any 32 ip v4_private_networks \<and> \<not> in_any 32 ip v4_private_exceptions"

text \<open>The first hextets of an IPv6 network's base address.\<close>

definition v6 :: "int \<Rightarrow> int \<Rightarrow> int \<Rightarrow> int" where
  "v6 a b c = a * 2 ^ 112 + b * 2 ^ 96 + c * 2 ^ 80"

definition v6_private_networks :: "(int \<times> nat) list" where
  "v6_private_networks =
     [(1, 128), (0, 128), (65535 * 2 ^ 32, 96), (v6 0x64 0xff9b 1, 48), (v6 0x100 0 0, 64),
      (v6 0x2001 0 0, 23), (v6 0x2001 0xdb8 0, 32), (v6 0x2002 0 0, 16), (v6 0xfc00 0 0, 7),
      (v6 0xfe80 0 0, 10)]"

definition v6_private_exceptions :: "(int \<times> nat) list" where
  "v6_private_exceptions =
     [(v6 0x2001 1 0 + 1, 128), (v6 0x2001 1 0 + 2, 128), (v6 0x2001 3 0, 32),
      (v6 0x2001 4 0x112, 48), (v6 0x2001 0x20 0, 28), (v6 0x2001 0x30 0, 28)]"

definition v6_reserved_networks :: "(int \<times> nat) list" where
  "v6_reserved_networks =
     [(0, 8), (v6 0x100 0 0, 8), (v6 0x200 0 0, 7), (v6 0x400 0 0, 6), (v6 0x800 0 0, 5),
      (v6 0x1000 0 0, 4), (v6 0x4000 0 0, 3), (v6 0x6000 0 0, 3), (v6 0x8000 0 0, 3),
      (v6 0xA000 0 0, 3), (v6 0xC000 0 0, 3), (v6 0xE000 0 0, 4), (v6 0xF000 0 0, 5),
      (v6 0xF800 0 0, 6), (v6 0xFE00 0 0, 9)]"

fun is_private :: "ipaddr \<Rightarrow> bool" where
  "is_private (V4 ip) = v4_is_private ip"
| "is_private (V6 ip _) =
     (if ip div 2 ^ 32 = 65535 then v4_is_private (ip mod 2 ^ 32)
      else in_any 128 ip v6_private_networks \<and> \<not> in_any 128 ip v6_private_exceptions)"

fun is_loopback :: "ipaddr \<Rightarrow> bool" where
  "is_loopback (V4 ip) = in_prefix 32 ip (v4 127 0 0 0) 8"
| "is_loopback (V6 ip _) = (ip = 1)"

fun is_link_local :: "ipaddr \<Rightarrow> bool" where
  "is_link_local (V4 ip) = in_prefix 32 ip (v4 169 254 0 0) 16"
| "is_link_local (V6 ip _) = in_prefix 128 ip (v6 0xfe80 0 0) 10"

fun is_reserved :: "ipaddr \<Rightarrow> bool" where
  "is_reserved (V4 ip) = in_prefix 32 ip (v4 240 0 0 0) 4"
| "is_reserved (V6 ip _) = in_any 128 ip v6_reserved_networks"

fun is_multicast :: "ipaddr \<Rightarrow> bool" where
  "is_multicast (V4 ip) = in_prefix 32 ip (v4 224 0 0 0) 4"
| "is_multicast (V6 ip _) = in_prefix 128 ip (v6 0xff00 0 0) 8"

fun is_unspecified :: "ipaddr \<Rightarrow> bool" where
  "is_unspecified (V4 ip) = (ip = 0)"
| "is_unspecified (V6 ip _) = (ip = 0)"

subsection \<open>urlsplit\<close>

record split_result =
  sr_scheme :: string
  sr_netloc :: string
  sr_path :: string
  sr_query :: string
  sr_fragment :: string

definition is_alpha :: "char \<Rightarrow> bool" where
  "is_alpha c \<longleftrightarrow> is_upper c \<or> is_lower c"

definition is_scheme_char :: "char \<Rightarrow> bool" where
  "is_scheme_char c \<longleftrightarrow> is_alpha c \<or> is_digit c \<or> c \<in> set ''+-.''"

definition split_scheme :: "string \<Rightarrow> string \<times> string" where
  "split_scheme url =
     (let pre = takeWhile (\<lambda>c. c \<noteq> CHR '':'') url
      in if CHR '':'' \<in> set url \<and> pre \<noteq> [] \<and> is_alpha (hd pre) \<and> list_all is_scheme_char pre
         then (lower pre, drop (length pre + 1) url)
         else ([], url))"

text \<open>The text between brackets is an IPv6 address or an IPvFuture literal.\<close>

definition bracketed_host_ok :: "string \<Rightarrow> bool" where
  "bracketed_host_ok h =
     (if startswith h ''v''
      then (case partition_on CHR ''.'' (tl h) of
              (a, dot, b) \<Rightarrow> dot \<and> a \<noteq> [] \<and> list_all is_hex a \<and> b \<noteq> [])
      else (case ip_address h of Some (V6 _ _) \<Rightarrow> True | _ \<Rightarrow> False))"

definition netloc_ok :: "string \<Rightarrow> bool" where
  "netloc_ok n \<longleftrightarrow>
     (CHR ''['' \<in> set n \<longleftrightarrow> CHR '']'' \<in> set n) \<and>
     (CHR ''['' \<in> set n \<longrightarrow>
        bracketed_host_ok (fst (partition_on CHR '']'' (snd (snd (partition_on CHR ''['' n))))))"

definition split_first :: "char \<Rightarrow> string \<Rightarrow> string \<times> string" where
  "split_first d s = (case partition_on d s of (a, _, b) \<Rightarrow> (a, b))"

definition urlsplit :: "string \<Rightarrow> split_result res" where
  "urlsplit url0 =
     (let url1 = List.filter (\<lambda>c. c \<notin> {CHR 0x09, CHR 0x0D, CHR 0x0A})
                   (lstrip (\<lambda>c. c \<le> CHR '' '') url0);
          (scheme, url2) = split_scheme url1;
          has = startswith url2 ''//'';
          netloc = (if has then takeWhile (\<lambda>c. c \<notin> set ''/?#'') (drop 2 url2) else []);
          url3 = (if has then drop (2 + length netloc) url2 else url2)
      in if has \<and> \<not> netloc_ok netloc then Inl (ValueError ''Invalid IPv6 URL'')
         else (let (url4, fragment) = split_first CHR ''#'' url3;
                   (path, query) = split_first CHR ''?'' url4
               in Inr \<lparr>sr_scheme = scheme, sr_netloc = netloc, sr_path = path,
                       sr_query = query, sr_fragment = fragment\<rparr>))"

text \<open>The \<open>_hostinfo\<close> pair: host text and port text (empty for none).\<close>

definition hostinfo :: "split_result \<Rightarrow> string \<times> string" where
  "hostinfo r =
     (let info = snd (snd (rpartition_on CHR ''@'' (sr_netloc r)));
          (_, br, inside) = partition_on CHR ''['' info
      in if br
         then (let (host, _, after) = partition_on CHR '']'' inside
               in (host, snd (snd (partition_on CHR '':'' after))))
         else (let (host, _, port) = partition_on CHR '':'' info in (host, port)))"

definition url_hostname :: "split_result \<Rightarrow> string option" where
  "url_hostname r =
     (let host = fst (hostinfo r)
      in if host = [] then None
         else (let (h, pct, zone) = partition_on CHR ''%'' host
               in Some (lower h @ (if pct then ''%'' else []) @ zone)))"

definition url_port :: "split_result \<Rightarrow> int option res" where
  "url_port r =
     (let p = snd (hostinfo r)
      in if p = [] then Inr None
         else if \<not> isdigit p then Inl (ValueError ''Port could not be cast to integer value'')
         else if num_of 10 p > 65535 then Inl (ValueError ''Port out of range 0-65535'')
         else Inr (Some (num_of 10 p)))"

lemma url_port_range: "url_port r = Inr (Some p) \<Longrightarrow> p \<le> 65535"
  by (auto simp: url_port_def Let_def split: if_splits)

lemma url_hostname_nonempty: "url_hostname r = Some h \<Longrightarrow> h \<noteq> []"
  by (auto simp: url_hostname_def Let_def partition_on_def split: if_splits)

end
