(* ===== verification/Scope.thy ===== *)
theory Scope
  imports Domain Py_Net
begin

text \<open>
  The scope engine (\<open>vantage/scope/engine.py\<close>): the one decision on whether a URL may be
  requested.  A user-supplied \<open>path_regex\<close> is run by \<open>re.search\<close>, the argument
  \<open>re_search\<close> of every definition that reaches it; it answers \<open>Inl\<close> where the pattern does not
  compile (\<open>re.error\<close>), and the code lets that exception through.
\<close>

type_synonym regex_search = "string \<Rightarrow> string \<Rightarrow> bool res"

definition DEFAULT_PORTS :: "(string, int) dict" where
  "DEFAULT_PORTS = [(''http'', 80), (''https'', 443), (''ws'', 80), (''wss'', 443)]"

record ScopeDecision =
  sd_allowed :: bool
  sd_reason :: string
  sd_matched_rule :: "nat option"

record ParsedUrl =
  pu_scheme :: string
  pu_host :: string
  pu_port :: int
  pu_path :: string
  pu_method :: "string option"

definition opt_upper :: "string option \<Rightarrow> string option" where
  "opt_upper m = (case m of None \<Rightarrow> None | Some s \<Rightarrow> if s = [] then None else Some (upper s))"

definition scope_parse :: "string \<Rightarrow> string option \<Rightarrow> ParsedUrl option" where
  "scope_parse url mth =
     (case urlsplit url of
        Inl _ \<Rightarrow> None
      | Inr parts \<Rightarrow>
          (case url_hostname parts of
             None \<Rightarrow> None
           | Some hostname \<Rightarrow>
               if sr_scheme parts = [] \<or> hostname = [] then None
               else (let scheme = lower (sr_scheme parts);
                         host = rstrip (\<lambda>c. c = CHR ''.'') (lower hostname)
                     in case url_port parts of
                          Inl _ \<Rightarrow> None
                        | Inr p \<Rightarrow>
                            (let port = (case p of
                                           Some n \<Rightarrow> if n = 0 then dget_or DEFAULT_PORTS scheme 0 else n
                                         | None \<Rightarrow> dget_or DEFAULT_PORTS scheme 0)
                             in if port = 0 then None
                                else Some \<lparr>pu_scheme = scheme, pu_host = host, pu_port = port,
                                           pu_path = sor (sr_path parts) ''/'',
                                           pu_method = opt_upper mth\<rparr>))))"

definition host_matches :: "string \<Rightarrow> string \<Rightarrow> bool" where
  "host_matches rule_host host =
     (if rule_host = host then True
      else if startswith rule_host ''*.''
        then (let suffix = tl rule_host in endswith host suffix \<and> host \<noteq> tl suffix)
      else case ip_address host of
             None \<Rightarrow> False
           | Some addr \<Rightarrow>
               if CHR ''/'' \<in> set rule_host
               then (case ip_network rule_host of None \<Rightarrow> False | Some n \<Rightarrow> in_network addr n)
               else (case ip_address rule_host of None \<Rightarrow> False | Some a \<Rightarrow> addr = a))"

definition is_private_literal :: "string \<Rightarrow> bool" where
  "is_private_literal host =
     (case ip_address host of
        None \<Rightarrow> False
      | Some addr \<Rightarrow>
          is_private addr \<or> is_loopback addr \<or> is_link_local addr \<or> is_reserved addr \<or>
          is_multicast addr \<or> is_unspecified addr)"

definition rule_allows_private :: "ScopeRule \<Rightarrow> bool" where
  "rule_allows_private rule \<longleftrightarrow> is_private_literal (r_host rule) \<or> CHR ''/'' \<in> set (r_host rule)"

record ScopeEngine =
  se_rules :: "ScopeRule list"
  se_authorized :: bool
  se_private_optin :: bool

definition from_rules :: "ScopeRule list \<Rightarrow> bool \<Rightarrow> ScopeEngine" where
  "from_rules rules authorized =
     \<lparr>se_rules = rules, se_authorized = authorized,
      se_private_optin = list_ex rule_allows_private rules\<rparr>"

definition ScopeEngine_init :: "int \<Rightarrow> Target \<Rightarrow> ScopeEngine" where
  "ScopeEngine_init now t =
     \<lparr>se_rules = t_scope_rules t, se_authorized = is_authorized now t,
      se_private_optin = list_ex rule_allows_private (t_scope_rules t)\<rparr>"

definition rule_matches :: "regex_search \<Rightarrow> ScopeRule \<Rightarrow> ParsedUrl \<Rightarrow> bool res" where
  "rule_matches re_search rule u =
     (if pu_scheme u \<notin> set (r_schemes rule) then Inr False
      else if \<not> host_matches (r_host rule) (pu_host u) then Inr False
      else if (case r_ports rule of
                 Some ports \<Rightarrow> pu_port u \<notin> set ports
               | None \<Rightarrow> pu_port u \<noteq> dget_or DEFAULT_PORTS (pu_scheme u) (- 1)) then Inr False
      else if \<not> startswith (pu_path u) (r_path_prefix rule) then Inr False
      else bind_res
             (case r_path_regex rule of None \<Rightarrow> Inr True | Some rx \<Rightarrow> re_search rx (pu_path u))
             (\<lambda>found.
                if \<not> found then Inr False
                else Inr (\<not> (case (r_methods rule, pu_method u) of
                                (Some ms, Some mth) \<Rightarrow> mth \<notin> set ms
                              | _ \<Rightarrow> False))))"

text \<open>The loops over \<open>enumerate(self._rules)\<close> that stop at the first match of one kind.\<close>

fun first_match ::
  "regex_search \<Rightarrow> ScopeRuleKind \<Rightarrow> ParsedUrl \<Rightarrow> nat \<Rightarrow> ScopeRule list \<Rightarrow> nat option res" where
  "first_match re_search kind u idx [] = Inr None"
| "first_match re_search kind u idx (rule # rules) =
     (if r_kind rule = kind
      then bind_res (rule_matches re_search rule u) (\<lambda>hit.
             if hit then Inr (Some idx) else first_match re_search kind u (Suc idx) rules)
      else first_match re_search kind u (Suc idx) rules)"

definition refuse :: "string \<Rightarrow> nat option \<Rightarrow> ScopeDecision" where
  "refuse reason idx = \<lparr>sd_allowed = False, sd_reason = reason, sd_matched_rule = idx\<rparr>"

definition scope_check ::
  "regex_search \<Rightarrow> ScopeEngine \<Rightarrow> string \<Rightarrow> string option \<Rightarrow> ScopeDecision res" where
  "scope_check re_search e url mth =
     (if \<not> se_authorized e then Inr (refuse ''target has no valid authorization record'' None)
      else case scope_parse url mth of
        None \<Rightarrow> Inr (refuse (''unparseable or portless url: '' @ repr_str url) None)
      | Some u \<Rightarrow>
          if is_private_literal (pu_host u) \<and> \<not> se_private_optin e
          then Inr (refuse (''private/loopback address '' @ pu_host u
                            @ '' not explicitly in scope'') None)
          else bind_res (first_match re_search EXCLUDE u 0 (se_rules e)) (\<lambda>ex.
            case ex of
              Some idx \<Rightarrow> Inr (refuse (''excluded by rule #'' @ str_of_nat idx) (Some idx))
            | None \<Rightarrow>
                bind_res (first_match re_search INCLUDE u 0 (se_rules e)) (\<lambda>inc.
                  case inc of
                    Some idx \<Rightarrow>
                      Inr \<lparr>sd_allowed = True, sd_reason = ''included by rule #'' @ str_of_nat idx,
                           sd_matched_rule = Some idx\<rparr>
                  | None \<Rightarrow> Inr (refuse ''not covered by any include rule'' None))))"

definition scope_allows ::
  "regex_search \<Rightarrow> ScopeEngine \<Rightarrow> string \<Rightarrow> string option \<Rightarrow> bool res" where
  "scope_allows re_search e url mth =
     bind_res (scope_check re_search e url mth) (\<lambda>d. Inr (sd_allowed d))"

text \<open>\<open>parts.path.rsplit(''/'', 1)[0]\<close>.\<close>

definition before_last_slash :: "string \<Rightarrow> string" where
  "before_last_slash p =
     (case rpartition_on CHR ''/'' p of (a, sep, b) \<Rightarrow> if sep then a else b)"

definition default_rule :: "string \<Rightarrow> ScopeRule option res" where
  "default_rule base =
     bind_res (urlsplit base) (\<lambda>parts.
       case url_hostname parts of
         None \<Rightarrow> Inr None
       | Some host \<Rightarrow>
           (let scheme = lower (sor (sr_scheme parts) ''https'');
                prefix = (if endswith (sr_path parts) ''/'' then sr_path parts
                          else before_last_slash (sr_path parts) @ ''/'')
            in bind_res (url_port parts) (\<lambda>port.
               bind_res (ScopeRule_validate
                 \<lparr>r_kind = INCLUDE, r_host = host, r_schemes = [scheme],
                  r_ports = (case port of Some n \<Rightarrow> if n = 0 then None else Some [n] | None \<Rightarrow> None),
                  r_path_prefix = sor prefix ''/'', r_path_regex = None, r_methods = None\<rparr>)
                 (\<lambda>rule. Inr (Some rule)))))"

fun default_rules :: "string list \<Rightarrow> ScopeRule list res" where
  "default_rules [] = Inr []"
| "default_rules (base # bases) =
     bind_res (default_rule base) (\<lambda>r.
     bind_res (default_rules bases) (\<lambda>rs.
       Inr (case r of None \<Rightarrow> rs | Some rule \<Rightarrow> rule # rs)))"

definition default_scope_rules_for :: "Target \<Rightarrow> ScopeRule list res" where
  "default_scope_rules_for t = default_rules (t_base_urls t)"

subsection \<open>The loops and the decision\<close>

lemma first_match_Some:
  "first_match re k u n rules = Inr (Some i) \<longleftrightarrow>
     (\<exists>pre r post. rules = pre @ r # post \<and> i = n + length pre \<and> r_kind r = k \<and>
        rule_matches re r u = Inr True \<and>
        (\<forall>q \<in> set pre. r_kind q = k \<longrightarrow> rule_matches re q u = Inr False))"
    (is "_ \<longleftrightarrow> (\<exists>pre r post. ?P n rules pre r post)")
proof (induction rules arbitrary: n)
  case (Cons rule rules)
  have step: "(\<exists>pre r post. ?P n (rule # rules) pre r post) \<longleftrightarrow>
      i = n \<and> r_kind rule = k \<and> rule_matches re rule u = Inr True \<or>
      (r_kind rule = k \<longrightarrow> rule_matches re rule u = Inr False) \<and>
      (\<exists>pre r post. ?P (Suc n) rules pre r post)" (is "?L \<longleftrightarrow> ?here \<or> ?c \<and> ?rest")
  proof
    assume ?L
    then obtain pre post and r :: ScopeRule where eq: "rule # rules = pre @ r # post" and i: "i = n + length pre"
      and r: "r_kind r = k" "rule_matches re r u = Inr True"
      and miss: "\<forall>q \<in> set pre. r_kind q = k \<longrightarrow> rule_matches re q u = Inr False"
      by blast
    show "?here \<or> ?c \<and> ?rest"
    proof (cases pre)
      case Nil
      with eq i r show ?thesis by simp
    next
      case (Cons q qs)
      with eq have "q = rule" "rules = qs @ r # post" by simp_all
      with Cons miss have ?c and "\<forall>q \<in> set qs. r_kind q = k \<longrightarrow> rule_matches re q u = Inr False"
        by simp_all
      with \<open>rules = qs @ r # post\<close> Cons i r have "?P (Suc n) rules qs r post" by simp
      with \<open>?c\<close> show ?thesis by blast
    qed
  next
    assume "?here \<or> ?c \<and> ?rest"
    then show ?L
    proof
      assume ?here
      then have "?P n (rule # rules) [] rule rules" by simp
      then show ?L by blast
    next
      assume h: "?c \<and> ?rest"
      then obtain pre r post where "?P (Suc n) rules pre r post" by blast
      with h have "?P n (rule # rules) (rule # pre) r post" by simp
      then show ?L by blast
    qed
  qed
  consider (other) "r_kind rule \<noteq> k" | (err) e where "r_kind rule = k" "rule_matches re rule u = Inl e"
    | (hit) "r_kind rule = k" "rule_matches re rule u = Inr True"
    | (miss) "r_kind rule = k" "rule_matches re rule u = Inr False"
    by (metis (full_types) sum.exhaust)
  then show ?case
    unfolding step by cases (use Cons.IH in auto)
qed simp

lemma first_match_None:
  "first_match re k u n rules = Inr None \<longleftrightarrow>
     (\<forall>r \<in> set rules. r_kind r = k \<longrightarrow> rule_matches re r u = Inr False)"
proof (induction re k u n rules rule: first_match.induct)
  case (2 re k u n rule rules)
  show ?case
  proof (cases "rule_matches re rule u")
    case (Inr b)
    with 2 show ?thesis by (cases b) auto
  qed (use 2 in auto)
qed simp

lemma scope_check_allowed_cases:
  assumes "scope_check re e url m = Inr d" and "sd_allowed d"
  obtains u i where "se_authorized e" "scope_parse url m = Some u"
    "is_private_literal (pu_host u) \<longrightarrow> se_private_optin e"
    "first_match re EXCLUDE u 0 (se_rules e) = Inr None"
    "first_match re INCLUDE u 0 (se_rules e) = Inr (Some i)" "sd_matched_rule d = Some i"
  using assms
  by (auto simp: scope_check_def refuse_def bind_res_Inr_iff split: if_splits option.splits)


lemma scope_check_Inr_iff:
  assumes "scope_check re e url m = Inr d"
  shows "sd_allowed d \<longleftrightarrow>
     se_authorized e \<and>
     (\<exists>u. scope_parse url m = Some u \<and>
          (is_private_literal (pu_host u) \<longrightarrow> se_private_optin e) \<and>
          (\<forall>r \<in> set (se_rules e). r_kind r = EXCLUDE \<longrightarrow> rule_matches re r u = Inr False) \<and>
          (\<exists>r \<in> set (se_rules e). r_kind r = INCLUDE \<and> rule_matches re r u = Inr True))"
    (is "_ \<longleftrightarrow> ?R")
proof
  assume "sd_allowed d"
  with assms obtain u i where h: "se_authorized e" "scope_parse url m = Some u"
    "is_private_literal (pu_host u) \<longrightarrow> se_private_optin e"
    "first_match re EXCLUDE u 0 (se_rules e) = Inr None"
    "first_match re INCLUDE u 0 (se_rules e) = Inr (Some i)"
    by (rule scope_check_allowed_cases)
  from h(5) have "\<exists>r \<in> set (se_rules e). r_kind r = INCLUDE \<and> rule_matches re r u = Inr True"
    unfolding first_match_Some by fastforce
  with h(1-3) h(4) [unfolded first_match_None] show ?R by blast
next
  assume ?R
  then obtain u r where h: "se_authorized e" "scope_parse url m = Some u"
    "is_private_literal (pu_host u) \<longrightarrow> se_private_optin e"
    "first_match re EXCLUDE u 0 (se_rules e) = Inr None"
    "r \<in> set (se_rules e)" "r_kind r = INCLUDE" "rule_matches re r u = Inr True"
    by (auto simp: first_match_None)
  then have "first_match re INCLUDE u 0 (se_rules e) \<noteq> Inr None"
    unfolding first_match_None by auto
  with assms h show "sd_allowed d"
    by (auto simp: scope_check_def refuse_def bind_res_Inr_iff split: option.splits)
qed

lemma rule_matches_no_regex: "r_path_regex r = None \<Longrightarrow> \<exists>b. rule_matches re r u = Inr b"
proof -
  assume "r_path_regex r = None"
  then have "\<not> isl (rule_matches re r u)" by (simp add: rule_matches_def)
  then show ?thesis by (cases "rule_matches re r u") simp_all
qed

lemma excluded_not_allowed:
  assumes "scope_parse url m = Some u" "r \<in> set (se_rules e)" "r_kind r = EXCLUDE"
    "rule_matches re r u = Inr True"
  shows "scope_allows re e url m \<noteq> Inr True"
proof
  assume "scope_allows re e url m = Inr True"
  then obtain d where "scope_check re e url m = Inr d" "sd_allowed d"
    by (auto simp: scope_allows_def bind_res_Inr_iff)
  with assms show False by (auto simp: scope_check_Inr_iff)
qed

subsection \<open>Host patterns\<close>

lemma star_not_ip4: "ip4_of_string (CHR ''*'' # s) = None"
proof -
  have "parse_octet x = None" if "split_on CHR ''.'' (CHR ''*'' # s) = x # xs" for x xs
  proof -
    from that obtain t where "x = CHR ''*'' # t" by (auto split: list.splits)
    then show ?thesis by (simp add: parse_octet_def isdigit_def is_digit_def less_eq_char_def)
  qed
  then show ?thesis by (auto simp: ip4_of_string_def split: list.splits)
qed

lemma wildcard_host_iff:
  "host_matches (''*.'' @ d) h \<longleftrightarrow> h = ''*.'' @ d \<or> (\<exists>p. h = p @ ''.'' @ d)"
  by (auto simp: host_matches_def startswith_def endswith_iff Let_def)

subsection \<open>The default rules cover their own base URLs\<close>

lemma rpartition_on_join:
  assumes "d \<in> set s"
  shows "s = rev (tl (dropWhile (\<lambda>c. c \<noteq> d) (rev s))) @ d # rev (takeWhile (\<lambda>c. c \<noteq> d) (rev s))"
proof -
  let ?dw = "dropWhile (\<lambda>c. c \<noteq> d) (rev s)"
  have ne: "?dw \<noteq> []" using assms by (auto simp: dropWhile_eq_Nil_conv)
  then have "hd ?dw = d" using hd_dropWhile by blast
  with ne have "?dw = d # tl ?dw" by (metis list.collapse)
  then have "rev s = takeWhile (\<lambda>c. c \<noteq> d) (rev s) @ d # tl ?dw"
    by (metis takeWhile_dropWhile_id)
  then show ?thesis by (metis append.assoc append_Cons append_Nil rev.simps(2) rev_append rev_rev_ident)
qed

lemma before_last_slash_prefix:
  assumes "startswith (before_last_slash p @ ''/'') ''/''" "\<not> endswith p ''/''"
  shows "startswith (sor p ''/'') (before_last_slash p @ ''/'')"
proof (cases "CHR ''/'' \<in> set p")
  case True
  define t where "t = rev (takeWhile (\<lambda>c. c \<noteq> CHR ''/'') (rev p))"
  have "p = before_last_slash p @ ''/'' @ t"
    using rpartition_on_join [OF True] True
    by (simp add: before_last_slash_def rpartition_on_def t_def)
  then have "startswith p (before_last_slash p @ ''/'')" "p \<noteq> []"
    by (auto simp: startswith_iff)
  then show ?thesis by (simp add: sor_def)
next
  case False
  then have "before_last_slash p = p" by (simp add: before_last_slash_def rpartition_on_def)
  with assms False have "p = []" by (cases p) (auto simp: startswith_def)
  then show ?thesis by (simp add: before_last_slash_def rpartition_on_def startswith_def sor_def)
qed


lemma default_rule_matches:
  assumes rule: "default_rule url = Inr (Some r)" and parts: "urlsplit url = Inr parts"
    and sch: "sr_scheme parts \<noteq> []" and host: "url_hostname parts = Some h" "strip h = h"
  shows "\<exists>u. scope_parse url m = Some u \<and> r_kind r = INCLUDE \<and> rule_matches re r u = Inr True \<and>
             pu_host u = r_host r"
proof -
  let ?prefix = "if endswith (sr_path parts) ''/'' then sr_path parts
                 else before_last_slash (sr_path parts) @ ''/''"
  have h: "h \<noteq> []" using url_hostname_nonempty host(1) .
  from rule parts host sch obtain port where port: "url_port parts = Inr port"
    and val: "ScopeRule_validate
      \<lparr>r_kind = INCLUDE, r_host = h, r_schemes = [lower (sr_scheme parts)],
       r_ports = (case port of Some n \<Rightarrow> if n = 0 then None else Some [n] | None \<Rightarrow> None),
       r_path_prefix = sor ?prefix ''/'', r_path_regex = None, r_methods = None\<rparr> = Inr r"
    by (auto simp: default_rule_def bind_res_Inr_iff sor_def Let_def)
  have ne: "?prefix \<noteq> []" by (auto simp: endswith_def startswith_def)
  from val ne have r: "r_kind r = INCLUDE" "r_host r = lower_host h"
    "r_schemes r = [lower (sr_scheme parts)]" "r_path_prefix r = ?prefix"
    "r_ports r = (case port of Some n \<Rightarrow> if n = 0 then None else Some [n] | None \<Rightarrow> None)"
    "r_path_regex r = None" "r_methods r = None"
    and pre: "startswith ?prefix ''/''"
    and ok: "lower (sr_scheme parts) \<in> {''http'', ''https'', ''ws'', ''wss''}"
    by (auto simp: ScopeRule_validate_def bind_res_Inr_iff check_schemes_Inr check_path_prefix_def
        sor_def split: if_splits)
  from ok have dp: "dget_or DEFAULT_PORTS (lower (sr_scheme parts)) 0 \<noteq> 0"
    "dget_or DEFAULT_PORTS (lower (sr_scheme parts)) (- 1) =
     dget_or DEFAULT_PORTS (lower (sr_scheme parts)) 0"
    by (auto simp: DEFAULT_PORTS_def dget_or_def)
  have path: "startswith (sor (sr_path parts) ''/'') ?prefix"
  proof (cases "endswith (sr_path parts) ''/''")
    case True
    then show ?thesis by (auto simp: sor_def startswith_iff endswith_iff)
  next
    case False
    with before_last_slash_prefix pre show ?thesis by simp
  qed
  define port' where "port' = (case port of Some n \<Rightarrow>
       if n = 0 then dget_or DEFAULT_PORTS (lower (sr_scheme parts)) 0 else n
     | None \<Rightarrow> dget_or DEFAULT_PORTS (lower (sr_scheme parts)) 0)"
  have port': "port' \<noteq> 0" using dp(1) by (simp add: port'_def split: option.split)
  define u where "u = \<lparr>pu_scheme = lower (sr_scheme parts), pu_host = lower_host h,
    pu_port = port', pu_path = sor (sr_path parts) ''/'', pu_method = opt_upper m\<rparr>"
  have u: "scope_parse url m = Some u"
    using port' by (simp add: scope_parse_def parts host sch h port Let_def u_def lower_host_def
        flip: port'_def)
  have pu: "pu_scheme u = lower (sr_scheme parts)" "pu_host u = lower_host h"
    "pu_path u = sor (sr_path parts) ''/''" "pu_port u = port'"
    by (simp_all add: u_def)
  have "rule_matches re r u = Inr True"
    using path dp by (simp add: rule_matches_def r pu host_matches_def port'_def split: option.split)
  with u r(1,2) pu(2) show ?thesis by auto
qed

lemma default_rules_member:
  "default_rules urls = Inr rules \<Longrightarrow> url \<in> set urls \<Longrightarrow>
     \<exists>v. default_rule url = Inr v \<and> (\<forall>r. v = Some r \<longrightarrow> r \<in> set rules)"
  by (induction urls arbitrary: rules rule: default_rules.induct)
     (auto simp: bind_res_Inr_iff split: option.splits)

lemma ScopeRule_validate_keeps:
  "ScopeRule_validate r = Inr r' \<Longrightarrow> r_kind r' = r_kind r \<and> r_path_regex r' = r_path_regex r"
  by (auto simp: ScopeRule_validate_def bind_res_Inr_iff split: if_splits)

lemma default_rule_include:
  "default_rule url = Inr (Some r) \<Longrightarrow> r_kind r = INCLUDE \<and> r_path_regex r = None"
  unfolding default_rule_def Let_def bind_res_Inr_iff
  by (elim exE conjE) (auto simp: bind_res_Inr_iff dest!: ScopeRule_validate_keeps split: option.splits)

lemma default_rules_include:
  "default_rules urls = Inr rules \<Longrightarrow> r \<in> set rules \<Longrightarrow>
     r_kind r = INCLUDE \<and> r_path_regex r = None"
  by (induction urls arbitrary: rules rule: default_rules.induct)
     (auto simp: bind_res_Inr_iff dest: default_rule_include split: option.splits)

subsection \<open>Properties\<close>

text \<open>
  C3: the decision.  A URL is allowed with matched rule \<open>i\<close> exactly when the target is
  authorized, the URL parses, its host is no private literal unless a rule opts in, no exclude
  rule matches, and rule \<open>i\<close> is the first include rule that matches.
\<close>

theorem scope_allowed_spec:
  "(\<exists>d. scope_check re e url m = Inr d \<and> sd_allowed d \<and> sd_matched_rule d = Some i) \<longleftrightarrow>
   se_authorized e \<and>
   (\<exists>u pre r post. scope_parse url m = Some u \<and>
      (is_private_literal (pu_host u) \<longrightarrow> se_private_optin e) \<and>
      (\<forall>q \<in> set (se_rules e). r_kind q = EXCLUDE \<longrightarrow> rule_matches re q u = Inr False) \<and>
      se_rules e = pre @ r # post \<and> i = length pre \<and>
      r_kind r = INCLUDE \<and> rule_matches re r u = Inr True \<and>
      (\<forall>q \<in> set pre. r_kind q = INCLUDE \<longrightarrow> rule_matches re q u = Inr False))"
    (is "?L \<longleftrightarrow> ?R")
proof
  assume ?L
  then obtain d where d: "scope_check re e url m = Inr d" "sd_allowed d" "sd_matched_rule d = Some i"
    by blast
  from d(1,2) obtain u j where h: "se_authorized e" "scope_parse url m = Some u"
    "is_private_literal (pu_host u) \<longrightarrow> se_private_optin e"
    "first_match re EXCLUDE u 0 (se_rules e) = Inr None"
    "first_match re INCLUDE u 0 (se_rules e) = Inr (Some j)" "sd_matched_rule d = Some j"
    by (rule scope_check_allowed_cases)
  with d(3) have "j = i" by simp
  with h(5) have inc: "first_match re INCLUDE u 0 (se_rules e) = Inr (Some i)" by simp
  show ?R
    using h(1-3) h(4) [unfolded first_match_None] inc [unfolded first_match_Some]
    by (simp del: split_paired_Ex)
next
  assume ?R
  then obtain u where h: "se_authorized e" "scope_parse url m = Some u"
    "is_private_literal (pu_host u) \<longrightarrow> se_private_optin e"
    and ex: "first_match re EXCLUDE u 0 (se_rules e) = Inr None"
    and inc: "first_match re INCLUDE u 0 (se_rules e) = Inr (Some i)"
    unfolding first_match_None first_match_Some by (simp del: split_paired_Ex) blast
  then show ?L
    by (cases "is_private_literal (pu_host u)") (simp_all add: scope_check_def)
qed

definition demo_rule :: "ScopeRuleKind \<Rightarrow> string \<Rightarrow> string \<Rightarrow> ScopeRule" where
  "demo_rule k host pfx =
     \<lparr>r_kind = k, r_host = host, r_schemes = [''https'', ''http''], r_ports = None,
      r_path_prefix = pfx, r_path_regex = None, r_methods = None\<rparr>"

definition demo_engine :: ScopeEngine where
  "demo_engine = from_rules
     [demo_rule EXCLUDE ''app.example'' ''/admin'', demo_rule INCLUDE ''app.example'' ''/''] True"

definition demo_url :: "string \<Rightarrow> ParsedUrl" where
  "demo_url path = \<lparr>pu_scheme = ''http'', pu_host = ''app.example'', pu_port = 80,
                    pu_path = path, pu_method = None\<rparr>"

theorem scope_allowed_spec_witness:
  "\<exists>d. scope_check (\<lambda>_ _. Inr True) demo_engine ''http://app.example/shop'' None = Inr d \<and>
       sd_allowed d \<and> sd_matched_rule d = Some 1"
proof (rule scope_allowed_spec [THEN iffD2], intro conjI exI)
  let ?x = "demo_rule EXCLUDE ''app.example'' ''/admin''"
  let ?i = "demo_rule INCLUDE ''app.example'' ''/''"
  show "se_authorized demo_engine" by code_simp
  show "scope_parse ''http://app.example/shop'' None = Some (demo_url ''/shop'')" by code_simp
  show "is_private_literal (pu_host (demo_url ''/shop'')) \<longrightarrow> se_private_optin demo_engine"
    by code_simp
  show "\<forall>q \<in> set (se_rules demo_engine). r_kind q = EXCLUDE \<longrightarrow>
      rule_matches (\<lambda>_ _. Inr True) q (demo_url ''/shop'') = Inr False"
    by code_simp
  show "se_rules demo_engine = [?x] @ ?i # []" by (simp add: demo_engine_def from_rules_def)
  show "1 = length [?x]" by simp
  show "r_kind ?i = INCLUDE" by code_simp
  show "rule_matches (\<lambda>_ _. Inr True) ?i (demo_url ''/shop'') = Inr True" by code_simp
  show "\<forall>q \<in> set [?x]. r_kind q = INCLUDE \<longrightarrow>
      rule_matches (\<lambda>_ _. Inr True) q (demo_url ''/shop'') = Inr False"
    by code_simp
qed

text \<open>
  an exclude rule that matches the URL is never outvoted: whatever the other rules, their
  order and the target, the URL is not allowed.
\<close>

theorem exclude_wins:
  assumes "scope_parse url m = Some u" and "r \<in> set (se_rules e)" and "r_kind r = EXCLUDE"
    and "rule_matches re r u = Inr True"
  shows "scope_allows re e url m \<noteq> Inr True"
  using assms by (rule excluded_not_allowed)

theorem exclude_wins_witness:
  "scope_allows (\<lambda>_ _. Inr True) demo_engine ''http://app.example/admin/x'' None \<noteq> Inr True"
  by (rule exclude_wins [where u = "demo_url ''/admin/x''"
        and r = "demo_rule EXCLUDE ''app.example'' ''/admin''"])
    (code_simp, simp add: demo_engine_def from_rules_def, code_simp, code_simp)

text \<open>
  adding an exclude rule anywhere in the list never lets a further URL in, provided the
  added rule names neither a private address nor a network.
\<close>

theorem adding_exclude_restricts:
  assumes "r_kind ex = EXCLUDE" and "\<not> rule_allows_private ex"
    and "scope_allows re (from_rules (xs @ ex # ys) a) url m = Inr True"
  shows "scope_allows re (from_rules (xs @ ys) a) url m = Inr True"
proof -
  from assms(3) obtain d u i where d: "scope_parse url m = Some u" "a"
    "is_private_literal (pu_host u) \<longrightarrow> list_ex rule_allows_private (xs @ ex # ys)"
    "first_match re EXCLUDE u 0 (xs @ ex # ys) = Inr None"
    "first_match re INCLUDE u 0 (xs @ ex # ys) = Inr (Some i)"
    by (auto simp: scope_allows_def bind_res_Inr_iff from_rules_def elim!: scope_check_allowed_cases)
  have skip: "first_match re INCLUDE u n (xs @ ex # ys) = Inr (Some i) \<Longrightarrow>
      \<exists>j. first_match re INCLUDE u n (xs @ ys) = Inr (Some j)" for n
  proof (induction xs arbitrary: n)
    case Nil
    with assms(1) have "first_match re INCLUDE u (Suc n) ys = Inr (Some i)" by simp
    then show ?case
      unfolding first_match_Some by (simp del: split_paired_Ex) blast
  qed (fastforce simp: bind_res_Inr_iff split: if_splits)
  from d(4) have ex: "first_match re EXCLUDE u 0 (xs @ ys) = Inr None"
    by (simp add: first_match_None)
  from skip [OF d(5)] obtain j where "first_match re INCLUDE u 0 (xs @ ys) = Inr (Some j)" ..
  with d(1-3) ex assms(2) show ?thesis
    by (cases "is_private_literal (pu_host u)")
      (auto simp: scope_allows_def scope_check_def from_rules_def)
qed

theorem adding_exclude_restricts_witness:
  "scope_allows (\<lambda>_ _. Inr True)
     (from_rules ([] @ [demo_rule INCLUDE ''app.example'' ''/'']) True)
     ''http://app.example/shop'' None = Inr True"
  by (rule adding_exclude_restricts [where ex = "demo_rule EXCLUDE ''app.example'' ''/admin''"])
    code_simp+

text \<open>
  without that proviso it does.  An exclude rule for a public network counts as the opt-in
  for private addresses, so adding it turns the refusal of a loopback address into a permission.
\<close>

theorem exclude_network_opts_in:
  "let star = demo_rule INCLUDE ''*.0.0.1'' ''/'';
       cidr = demo_rule EXCLUDE ''8.8.8.0/24'' ''/'';
       re = (\<lambda>_ _. Inr True)
   in scope_allows re (from_rules [star] True) ''http://127.0.0.1/'' None = Inr False \<and>
      scope_allows re (from_rules [cidr, star] True) ''http://127.0.0.1/'' None = Inr True"
  by code_simp

text \<open>
  a literal address of a private, loopback, link-local, reserved, multicast or unspecified
  range is refused when no rule names a private address or a network.
\<close>

theorem private_refused:
  assumes "scope_parse url m = Some u" and "is_private_literal (pu_host u)"
    and "\<forall>r \<in> set rules. \<not> is_private_literal (r_host r) \<and> CHR ''/'' \<notin> set (r_host r)"
  shows "scope_allows re (from_rules rules a) url m = Inr False"
  using assms
  by (simp add: scope_allows_def scope_check_def from_rules_def list_ex_iff rule_allows_private_def
      refuse_def)

theorem private_refused_witness:
  "scope_allows (\<lambda>_ _. Inr True) (from_rules [demo_rule INCLUDE ''*.0.0.1'' ''/''] True)
     ''http://127.0.0.1/'' None = Inr False"
  by (rule private_refused [where u = "demo_url ''/'' \<lparr>pu_host := ''127.0.0.1''\<rparr>"]) code_simp+

text \<open>
  a wildcard rule covers the names below its domain (and its own literal text), never the
  domain itself or a name that only ends in the same letters.
\<close>

theorem wildcard_subdomains_only:
  "host_matches (''*.'' @ d) h \<longleftrightarrow> h = ''*.'' @ d \<or> (\<exists>p. h = p @ ''.'' @ d)"
  by (rule wildcard_host_iff)

text \<open>
  the rules derived for a target without rules cover the target's own base URLs: each base
  URL is allowed by the engine built from them, unless its host is a private literal.
\<close>

theorem default_rules_cover_base:
  assumes "default_scope_rules_for t = Inr rules" and "url \<in> set (t_base_urls t)"
    and "urlsplit url = Inr parts" and "sr_scheme parts \<noteq> []"
    and "url_hostname parts = Some h" and "strip h = h" and "\<not> is_private_literal (lower_host h)"
  shows "scope_allows re (from_rules rules True) url m = Inr True"
proof -
  from assms(1,2) obtain v where v: "default_rule url = Inr v" "\<And>r. v = Some r \<Longrightarrow> r \<in> set rules"
    using default_rules_member by (fastforce simp: default_scope_rules_for_def)
  from v(1) assms(3,5) obtain r where r: "default_rule url = Inr (Some r)"
    by (auto simp: default_rule_def Let_def bind_res_Inr_iff)
  with v have mem: "r \<in> set rules" by simp
  from default_rule_matches [OF r assms(3-6)] obtain u where
    u: "scope_parse url m = Some u" "r_kind r = INCLUDE" "rule_matches re r u = Inr True"
    by blast
  have "\<not> is_private_literal (pu_host u)"
    using u(1) assms(3,5,7)
    by (auto simp: scope_parse_def lower_host_def Let_def assms(6) split: option.splits sum.splits if_splits)
  moreover have "\<exists>b. first_match re INCLUDE u n rs = Inr (Some b)"
    if "r \<in> set rs" "set rs \<subseteq> set rules" for n rs
    using that
  proof (induction rs arbitrary: n)
    case (Cons q rs)
    then have "r_path_regex q = None" using default_rules_include assms(1)
      by (auto simp: default_scope_rules_for_def)
    then obtain b where "rule_matches re q u = Inr b" using rule_matches_no_regex by blast
    with Cons u default_rules_include assms(1) show ?case
      by (cases b) (auto simp: default_scope_rules_for_def)
  qed simp
  moreover have "first_match re EXCLUDE u 0 rules = Inr None"
    using default_rules_include assms(1) by (fastforce simp: first_match_None default_scope_rules_for_def)
  ultimately obtain b where "first_match re INCLUDE u 0 rules = Inr (Some b)" using mem by blast
  with u(1) \<open>\<not> is_private_literal (pu_host u)\<close> \<open>first_match re EXCLUDE u 0 rules = Inr None\<close>
  show ?thesis by (simp add: scope_allows_def scope_check_def from_rules_def)
qed

definition demo_limits :: RateLimits where
  "demo_limits = \<lparr>rl_max_requests_per_second = 10, rl_max_concurrency = 4,
                  rl_max_total_requests = None\<rparr>"

definition demo_target :: "string list \<Rightarrow> Target" where
  "demo_target urls =
     \<lparr>t_id = ''t1'', t_tenant_id = ''acme'', t_name = ''shop'', t_base_urls = urls,
      t_kind = TRADITIONAL_WEB, t_scope_rules = [], t_rate_limits = demo_limits,
      t_authorization = Some \<lparr>ar_method = DNS_TXT, ar_verified_at = 0, ar_verified_by = ''ops'',
        ar_expires_at = None, ar_reference = None\<rparr>,
      t_api_definitions = [], t_tags = [], t_created_at = 0\<rparr>"

theorem default_rules_cover_base_witness:
  "scope_allows (\<lambda>_ _. Inr True)
     (from_rules [demo_rule INCLUDE ''app.example'' ''/a/''
        \<lparr>r_schemes := [''http''], r_ports := Some [8080]\<rparr>] True)
     ''http://App.example:8080/a/b'' (Some ''get'') = Inr True"
  by (rule default_rules_cover_base [where t = "demo_target [''http://App.example:8080/a/b'']"
        and h = "''app.example''"
        and parts = "\<lparr>sr_scheme = ''http'', sr_netloc = ''App.example:8080'', sr_path = ''/a/b'',
                      sr_query = [], sr_fragment = []\<rparr>"])
    code_simp+

end
