(* ===== verification/Taxonomy.thy ===== *)
theory Taxonomy
  imports Domain
begin

text \<open>
  The vulnerability taxonomy (\<open>vantage/findings/taxonomy.py\<close>): the table of canonical classes,
  the two dictionaries the module builds from it when it is loaded, and the lookups.  A set of
  CWE numbers is the list of its elements.
\<close>

record VulnClass =
  vc_key :: string
  vc_title :: string
  vc_cwes :: "int list"
  vc_owasp_2021 :: "string list"

definition vc :: "string \<Rightarrow> string \<Rightarrow> int list \<Rightarrow> string list \<Rightarrow> VulnClass" where
  "vc key title cwes owasp =
     \<lparr>vc_key = key, vc_title = title, vc_cwes = cwes, vc_owasp_2021 = owasp\<rparr>"

definition OTHER :: string where "OTHER = ''other''"

definition A01 :: string where "A01 = ''A01:2021-Broken Access Control''"
definition A02 :: string where "A02 = ''A02:2021-Cryptographic Failures''"
definition A03 :: string where "A03 = ''A03:2021-Injection''"
definition A04 :: string where "A04 = ''A04:2021-Insecure Design''"
definition A05 :: string where "A05 = ''A05:2021-Security Misconfiguration''"
definition A06 :: string where "A06 = ''A06:2021-Vulnerable and Outdated Components''"
definition A07 :: string where "A07 = ''A07:2021-Identification and Authentication Failures''"
definition A08 :: string where "A08 = ''A08:2021-Software and Data Integrity Failures''"
definition A09 :: string where "A09 = ''A09:2021-Security Logging and Monitoring Failures''"
definition A10 :: string where "A10 = ''A10:2021-Server-Side Request Forgery''"

definition CLASSES :: "VulnClass list" where
  "CLASSES = [
     vc ''xss'' ''Cross-Site Scripting'' [79, 80, 83, 87] [A03],
     vc ''sql_injection'' ''SQL Injection'' [89, 564] [A03],
     vc ''nosql_injection'' ''NoSQL Injection'' [943] [A03],
     vc ''command_injection'' ''OS Command Injection'' [77, 78] [A03],
     vc ''code_injection'' ''Code Injection'' [94, 95] [A03],
     vc ''template_injection'' ''Server-Side Template Injection'' [1336] [A03],
     vc ''ldap_injection'' ''LDAP Injection'' [90] [A03],
     vc ''xpath_injection'' ''XPath Injection'' [643] [A03],
     vc ''header_injection'' ''HTTP Header Injection'' [93, 113] [A03],
     vc ''path_traversal'' ''Path Traversal'' [22, 23, 35, 36] [A01],
     vc ''ssrf'' ''Server-Side Request Forgery'' [918] [A10],
     vc ''xxe'' ''XML External Entity Processing'' [611, 776] [A05],
     vc ''open_redirect'' ''Open Redirect'' [601] [A01],
     vc ''csrf'' ''Cross-Site Request Forgery'' [352] [A01],
     vc ''broken_object_authz'' ''Broken Object Level Authorization'' [639] [A01],
     vc ''broken_access_control'' ''Broken Access Control'' [284, 285, 862, 863] [A01],
     vc ''authentication'' ''Authentication Weakness'' [287, 306, 307, 521, 1391] [A07],
     vc ''session_management'' ''Session Management Weakness'' [384, 613] [A07],
     vc ''insecure_cookie'' ''Insecure Cookie Attributes'' [614, 1004, 1275] [A05],
     vc ''secret_exposure'' ''Exposed Secret or Credential'' [798, 312, 540] [A07],
     vc ''information_disclosure'' ''Information Disclosure'' [200, 209, 359, 532, 538] [A01],
     vc ''directory_listing'' ''Directory Listing'' [548] [A05],
     vc ''debug_exposure'' ''Debug or Diagnostic Interface Exposed'' [215, 489] [A05],
     vc ''missing_security_header'' ''Missing or Weak Security Header'' [693] [A05],
     vc ''clickjacking'' ''Clickjacking'' [1021] [A04],
     vc ''cors_misconfiguration'' ''CORS Misconfiguration'' [942, 346] [A05],
     vc ''tls_weakness'' ''TLS / Transport Weakness'' [295, 319, 326, 327] [A02],
     vc ''vulnerable_component'' ''Vulnerable or Outdated Component'' [937, 1035, 1104] [A06],
     vc ''insecure_deserialization'' ''Insecure Deserialization'' [502] [A08],
     vc ''unrestricted_upload'' ''Unrestricted File Upload'' [434] [A04],
     vc ''security_misconfiguration'' ''Security Misconfiguration'' [16, 1188] [A05],
     vc OTHER ''Other'' [] []]"

text \<open>\<open>{c.key: c for c in CLASSES}\<close>.\<close>

definition build_by_key :: "VulnClass list \<Rightarrow> (string, VulnClass) dict" where
  "build_by_key cs = foldl (\<lambda>d c. dset d (vc_key c) c) [] cs"

definition BY_KEY :: "(string, VulnClass) dict" where
  "BY_KEY = build_by_key CLASSES"

text \<open>The loop that fills \<open>_BY_CWE\<close> and refuses a CWE number of two classes.\<close>

fun add_cwes :: "VulnClass \<Rightarrow> int list \<Rightarrow> (int, VulnClass) dict \<Rightarrow> (int, VulnClass) dict res" where
  "add_cwes c [] d = Inr d"
| "add_cwes c (w # ws) d =
     (if w \<in> set (dkeys d)
      then Inl (RuntimeError (''CWE-'' @ str_of_int w @ '' mapped twice''))
      else add_cwes c ws (dset d w c))"

fun build_by_cwe :: "VulnClass list \<Rightarrow> (int, VulnClass) dict \<Rightarrow> (int, VulnClass) dict res" where
  "build_by_cwe [] d = Inr d"
| "build_by_cwe (c # cs) d = bind_res (add_cwes c (vc_cwes c) d) (build_by_cwe cs)"

definition BY_CWE :: "(int, VulnClass) dict" where
  "BY_CWE = (case build_by_cwe CLASSES [] of Inr d \<Rightarrow> d | Inl _ \<Rightarrow> [])"

definition class_for_cwe :: "int \<Rightarrow> VulnClass option" where
  "class_for_cwe cwe = dget BY_CWE cwe"

text \<open>\<open>BY_KEY[OTHER]\<close> with the other entries: the subscript of a key the table holds.\<close>

definition other_class :: VulnClass where
  "other_class = (case dget BY_KEY OTHER of Some c \<Rightarrow> c | None \<Rightarrow> vc [] [] [] [])"

fun first_class :: "int list \<Rightarrow> VulnClass option" where
  "first_class [] = None"
| "first_class (cwe # cwes) =
     (case dget BY_CWE cwe of Some c \<Rightarrow> Some c | None \<Rightarrow> first_class cwes)"

definition classify_cwes :: "int list \<Rightarrow> string option \<Rightarrow> VulnClass" where
  "classify_cwes cwes hint =
     (case first_class cwes of
        Some c \<Rightarrow> c
      | None \<Rightarrow>
          (case hint of
             None \<Rightarrow> other_class
           | Some h \<Rightarrow> if h \<noteq> [] then (case dget BY_KEY h of Some c \<Rightarrow> c | None \<Rightarrow> other_class)
                       else other_class))"

definition owasp_for :: "string \<Rightarrow> string list" where
  "owasp_for key = (case dget BY_KEY key of Some c \<Rightarrow> vc_owasp_2021 c | None \<Rightarrow> [])"

subsection \<open>The tables\<close>

lemma add_cwes_Inr:
  "add_cwes c ws d = Inr d' \<Longrightarrow>
     dkeys d' = dkeys d @ ws \<and> (\<forall>w. dget d' w = (if w \<in> set ws then Some c else dget d w)) \<and>
     distinct ws \<and> set ws \<inter> set (dkeys d) = {}"
proof (induction c ws d rule: add_cwes.induct)
  case (2 c w ws d)
  then have "w \<notin> set (dkeys d)" and "add_cwes c ws (dset d w c) = Inr d'"
    by (auto split: if_splits)
  with "2.IH" [OF this] show ?case by (auto simp: dkeys_dset)
qed simp

lemma build_by_cwe_Inr:
  "build_by_cwe cs d = Inr d' \<Longrightarrow>
     (\<forall>w c. dget d' w = Some c \<longrightarrow> dget d w = Some c \<or> (c \<in> set cs \<and> w \<in> set (vc_cwes c))) \<and>
     (\<forall>c \<in> set cs. \<forall>w \<in> set (vc_cwes c). dget d' w = Some c) \<and>
     (\<forall>w \<in> set (dkeys d). dget d' w = dget d w)"
proof (induction cs d rule: build_by_cwe.induct)
  case (2 c cs d)
  then obtain e where e: "add_cwes c (vc_cwes c) d = Inr e" "build_by_cwe cs e = Inr d'"
    by (auto simp: bind_res_Inr_iff)
  note ih = "2.IH" [OF e(2)] and ad = add_cwes_Inr [OF e(1)]
  have "dget d w = Some c' \<or> (c' \<in> set (c # cs) \<and> w \<in> set (vc_cwes c'))"
    if "dget d' w = Some c'" for w c'
  proof -
    from ih that have "dget e w = Some c' \<or> (c' \<in> set cs \<and> w \<in> set (vc_cwes c'))" by blast
    with ad show ?thesis by (cases "w \<in> set (vc_cwes c)") auto
  qed
  moreover have "dget d' w = Some c'" if "c' \<in> set (c # cs)" "w \<in> set (vc_cwes c')" for w c'
    using that ih ad by auto
  moreover have "dget d' w = dget d w" if "w \<in> set (dkeys d)" for w
    using that ih ad by auto
  ultimately show ?case by blast
qed simp

lemma add_cwes_ok: "distinct (dkeys d @ ws) \<Longrightarrow> \<exists>d'. add_cwes c ws d = Inr d' \<and> dkeys d' = dkeys d @ ws"
proof (induction ws arbitrary: d)
  case (Cons w ws)
  then have "dkeys (dset d w c) = dkeys d @ [w]" by (simp add: dkeys_dset)
  with Cons.IH [of "dset d w c"] Cons.prems show ?case by simp
qed simp

lemma build_by_cwe_ok:
  "distinct (dkeys d @ concat (map vc_cwes cs)) \<Longrightarrow> \<exists>d'. build_by_cwe cs d = Inr d'"
proof (induction cs arbitrary: d)
  case (Cons c cs)
  then have "distinct (dkeys d @ vc_cwes c)" by auto
  then obtain e where "add_cwes c (vc_cwes c) d = Inr e" "dkeys e = dkeys d @ vc_cwes c"
    using add_cwes_ok by blast
  moreover from this(2) Cons.prems have "distinct (dkeys e @ concat (map vc_cwes cs))" by auto
  then obtain d' where "build_by_cwe cs e = Inr d'" using Cons.IH by blast
  ultimately show ?case by simp
qed simp

lemma distinct_cwes: "distinct (concat (map vc_cwes CLASSES))"
  unfolding CLASSES_def vc_def list.map VulnClass.simps by simp

lemma build_CLASSES: "build_by_cwe CLASSES [] = Inr BY_CWE"
proof -
  obtain d where "build_by_cwe CLASSES [] = Inr d"
    using build_by_cwe_ok [of "[]" CLASSES] distinct_cwes by (auto simp: dkeys_def)
  then show ?thesis by (simp add: BY_CWE_def)
qed

lemma BY_CWE_iff: "dget BY_CWE w = Some c \<longleftrightarrow> c \<in> set CLASSES \<and> w \<in> set (vc_cwes c)"
proof -
  have "dget [] w \<noteq> Some c" by simp
  then show ?thesis using build_by_cwe_Inr [OF build_CLASSES] by blast
qed

lemma distinct_keys: "distinct (map vc_key CLASSES)"
  unfolding CLASSES_def vc_def OTHER_def list.map VulnClass.simps by simp

lemma build_by_key_get:
  "distinct (map vc_key cs) \<Longrightarrow>
     dget (build_by_key cs) k = Some c \<longleftrightarrow> c \<in> set cs \<and> vc_key c = k"
proof (induction cs rule: rev_induct)
  case (snoc x xs)
  then have "dget (build_by_key (xs @ [x])) k =
      (if vc_key x = k then Some x else dget (build_by_key xs) k)"
    by (simp add: build_by_key_def)
  with snoc show ?case by (auto simp: image_iff)
qed (simp add: build_by_key_def)

lemma BY_KEY_iff: "dget BY_KEY k = Some c \<longleftrightarrow> c \<in> set CLASSES \<and> vc_key c = k"
  by (simp add: BY_KEY_def build_by_key_get distinct_keys)

lemma other_class_in: "other_class \<in> set CLASSES" "vc_key other_class = OTHER"
proof -
  have "vc OTHER ''Other'' [] [] \<in> set CLASSES" by (simp add: CLASSES_def)
  then have "dget BY_KEY OTHER = Some (vc OTHER ''Other'' [] [])"
    by (simp add: BY_KEY_iff vc_def)
  then have "dget BY_KEY OTHER = Some other_class" by (simp add: other_class_def)
  then show "other_class \<in> set CLASSES" "vc_key other_class = OTHER"
    by (simp_all add: BY_KEY_iff)
qed

lemma first_class_Some: "first_class cwes = Some c \<Longrightarrow> c \<in> set CLASSES \<and> set cwes \<inter> set (vc_cwes c) \<noteq> {}"
  by (induction cwes rule: first_class.induct) (auto simp: BY_CWE_iff split: option.splits)

lemma first_class_None: "first_class cwes = None \<longleftrightarrow> (\<forall>w \<in> set cwes. class_for_cwe w = None)"
  by (induction cwes rule: first_class.induct) (auto simp: class_for_cwe_def split: option.splits)

lemma classify_in_CLASSES: "classify_cwes cwes hint \<in> set CLASSES"
  using other_class_in(1) first_class_Some [of cwes] BY_KEY_iff
  by (auto simp: classify_cwes_def split: option.splits)

lemma classify_key_inj: "vc_key (classify_cwes a h) = vc_key (classify_cwes b k) \<Longrightarrow>
    classify_cwes a h = classify_cwes b k"
  using distinct_keys classify_in_CLASSES by (auto simp: distinct_map dest: inj_onD)

subsection \<open>Properties\<close>

text \<open>
  loading the module succeeds (no CWE number belongs to two classes), and the table it builds
  answers a CWE number with a class exactly when the class lists the number.
\<close>

theorem taxonomy_unambiguous:
  "build_by_cwe CLASSES [] = Inr BY_CWE \<and>
   (class_for_cwe w = Some c \<longleftrightarrow> c \<in> set CLASSES \<and> w \<in> set (vc_cwes c))"
  by (simp add: build_CLASSES class_for_cwe_def BY_CWE_iff)

end
