(* ===== verification/Correlation.thy ===== *)
theory Correlation
  imports Taxonomy
begin

text \<open>
  The correlation engine (\<open>vantage/findings/correlation.py\<close>): observations of the same weakness
  become one finding.  The hash is an argument \<open>sha\<close> (hex digest of a text); fresh
  finding identifiers come from the supply \<open>ids\<close>.
\<close>

subsection \<open>Endpoint templates\<close>

text \<open>
  The three compiled patterns, tried with \<open>match\<close>: their final \<open>$\<close> also matches before one
  newline at the end of the text.
\<close>

definition before_nl :: "string \<Rightarrow> string" where
  "before_nl s = (if s \<noteq> [] \<and> last s = CHR 0x0A then butlast s else s)"

definition is_NUMERIC :: "string \<Rightarrow> bool" where
  "is_NUMERIC s \<longleftrightarrow> isdigit (before_nl s)"

definition is_HEXLIKE :: "string \<Rightarrow> bool" where
  "is_HEXLIKE s \<longleftrightarrow> list_all is_hex (before_nl s) \<and> 8 \<le> length (before_nl s)"

definition is_UUID :: "string \<Rightarrow> bool" where
  "is_UUID s \<longleftrightarrow>
     (let parts = split_on CHR ''-'' (before_nl s)
      in List.map length parts = [8, 4, 4, 4, 12] \<and> list_all (list_all is_hex) parts)"

definition normalize_segment :: "string \<Rightarrow> string" where
  "normalize_segment seg =
     (if seg = [] then seg
      else if is_UUID seg then ''{uuid}''
      else if is_NUMERIC seg then ''{id}''
      else if is_HEXLIKE seg then ''{hash}''
      else seg)"

definition normalize_endpoint :: "string \<Rightarrow> string" where
  "normalize_endpoint path =
     sor (join ''/'' (List.map normalize_segment (split_on CHR ''/'' path))) ''/''"

subsection \<open>Fingerprints\<close>

definition fingerprint_parts :: "string \<Rightarrow> Location \<Rightarrow> string list" where
  "fingerprint_parts category loc =
     [category, loc_host loc, str_of_int (loc_port loc), normalize_endpoint (loc_path loc),
      osor (loc_method loc) ''*'', osor (loc_parameter loc) ''*'']"

definition fingerprint :: "(string \<Rightarrow> string) \<Rightarrow> string \<Rightarrow> Location \<Rightarrow> string" where
  "fingerprint sha category loc = take 32 (sha (join ''|'' (fingerprint_parts category loc)))"

definition confidence_from_engines :: "string list \<Rightarrow> bool \<Rightarrow> Confidence" where
  "confidence_from_engines engines any_confirmed =
     (if any_confirmed then CONFIRMED
      else if length (remdups engines) \<ge> 2 then FIRM
      else TENTATIVE)"

record CorrelationEngine =
  ce_tenant_id :: string
  ce_scan_id :: string
  ce_target_id :: string

definition obs_class :: "Observation \<Rightarrow> VulnClass" where
  "obs_class o1 = classify_cwes (obs_cwe o1) (Some (obs_vuln_class o1))"

definition obs_fingerprint :: "(string \<Rightarrow> string) \<Rightarrow> Observation \<Rightarrow> string" where
  "obs_fingerprint sha o1 = fingerprint sha (vc_key (obs_class o1)) (obs_location o1)"

definition obs_key :: "Observation \<Rightarrow> int \<times> int" where
  "obs_key o1 = (severity_rank (obs_severity o1), confidence_rank (obs_confidence o1))"

definition obs_url :: "Observation \<Rightarrow> string" where
  "obs_url o1 =
     (let l = obs_location o1
      in loc_scheme l @ ''://'' @ loc_host l @ '':'' @ str_of_int (loc_port l) @ loc_path l)"

definition obs_detector :: "Observation \<Rightarrow> string" where
  "obs_detector o1 = obs_engine_id o1 @ '':'' @ obs_detector_id o1"

definition group_confidence :: "Observation list \<Rightarrow> Confidence" where
  "group_confidence g =
     (if list_all (\<lambda>x. obs_confidence x = FALSE_POSITIVE) g then FALSE_POSITIVE
      else confidence_from_engines (List.map obs_engine_id g)
             (list_ex (\<lambda>x. obs_confidence x = CONFIRMED) g))"

text \<open>\<open>_merge\<close>; the groups it is called on are not empty.\<close>

definition merge_group ::
  "(string \<Rightarrow> string) \<Rightarrow> CorrelationEngine \<Rightarrow> string \<Rightarrow> string \<Rightarrow> Observation list \<Rightarrow> UnifiedFinding" where
  "merge_group sha ce fid fp g =
     (let primary = max_by obs_key (hd g) (tl g);
          c = obs_class primary
      in \<lparr>f_id = fid, f_tenant_id = ce_tenant_id ce, f_scan_id = ce_scan_id ce,
          f_target_id = ce_target_id ce, f_fingerprint = fp,
          f_title = sor (obs_title primary) (vc_title c),
          f_category = vc_key c,
          f_severity = severity_max (obs_severity (hd g)) (List.map obs_severity (tl g)),
          f_confidence = group_confidence g,
          f_risk_score = 0,
          f_cwe = sorted_set (concat (List.map obs_cwe g) @ vc_cwes c),
          f_owasp = vc_owasp_2021 c,
          f_host = loc_host (obs_location primary),
          f_port = loc_port (obs_location primary),
          f_endpoint = normalize_endpoint (loc_path (obs_location primary)),
          f_method = loc_method (obs_location primary),
          f_parameter = loc_parameter (obs_location primary),
          f_affected_urls = sorted_set (List.map obs_url g),
          f_description = obs_description primary,
          f_remediation = obs_remediation primary,
          f_references = sorted_set (concat (List.map obs_references g)),
          f_engines = sorted_set (List.map obs_engine_id g),
          f_detectors = sorted_set (List.map obs_detector g),
          f_observation_ids = List.map obs_id g,
          f_evidence = uniq_by (digest sha) {} (concat (List.map obs_evidence g)),
          f_status = OPEN,
          f_first_seen = min_by id (obs_observed_at (hd g)) (List.map obs_observed_at (tl g)),
          f_last_seen = max_by id (obs_observed_at (hd g)) (List.map obs_observed_at (tl g))\<rparr>)"

definition finding_key :: "UnifiedFinding \<Rightarrow> int \<times> int" where
  "finding_key f = (severity_rank (f_severity f), confidence_rank (f_confidence f))"

definition correlate ::
  "(string \<Rightarrow> string) \<Rightarrow> (nat \<Rightarrow> string) \<Rightarrow> CorrelationEngine \<Rightarrow> Observation list \<Rightarrow>
   UnifiedFinding list" where
  "correlate sha ids ce observations =
     (let groups = group_by (obs_fingerprint sha) observations;
          findings = List.map (\<lambda>(fid, (fp, g)). merge_group sha ce fid fp g) (numbered ids 0 groups)
      in sort_desc finding_key findings)"

text \<open>\<open>merge_across_scans\<close>: \<open>{f.fingerprint: f for f in previous}\<close>, then the loop.\<close>

definition by_fingerprint :: "UnifiedFinding list \<Rightarrow> (string, UnifiedFinding) dict" where
  "by_fingerprint fs = foldl (\<lambda>d f. dset d (f_fingerprint f) f) [] fs"

definition merge_across_scans ::
  "int \<Rightarrow> UnifiedFinding list \<Rightarrow> UnifiedFinding list \<Rightarrow> UnifiedFinding list" where
  "merge_across_scans now previous current =
     (let prev_by_fp = by_fingerprint previous
      in List.map (\<lambda>f. case dget prev_by_fp (f_fingerprint f) of
                         None \<Rightarrow> f
                       | Some old \<Rightarrow> f\<lparr>f_first_seen := f_first_seen old, f_last_seen := now\<rparr>) current)"


subsection \<open>Endpoint templates collapse identifiers once\<close>

lemma before_nl_append: "x \<noteq> [] \<Longrightarrow> last x \<noteq> CHR 0x0A \<Longrightarrow> before_nl x = x"
  by (simp add: before_nl_def)

lemma normalize_segment_idem [simp]:
  "normalize_segment (normalize_segment seg) = normalize_segment seg"
proof -
  have ids: "normalize_segment ''{uuid}'' = ''{uuid}''" "normalize_segment ''{id}'' = ''{id}''"
    "normalize_segment ''{hash}'' = ''{hash}''"
    by code_simp+
  have "normalize_segment seg \<in> {seg, ''{uuid}'', ''{id}'', ''{hash}''}"
    by (simp add: normalize_segment_def)
  with ids show ?thesis by (metis empty_iff insert_iff)
qed

lemma normalize_segment_no_slash: "CHR ''/'' \<notin> set seg \<Longrightarrow> CHR ''/'' \<notin> set (normalize_segment seg)"
  by (simp add: normalize_segment_def)

lemma normalize_segment_slash: "split_on CHR ''/'' ''/'' = [[], []]" "normalize_segment [] = []"
  by (simp_all add: normalize_segment_def)

lemma normalize_endpoint_idem: "normalize_endpoint (normalize_endpoint p) = normalize_endpoint p"
proof -
  let ?segs = "map normalize_segment (split_on CHR ''/'' p)"
  have split: "split_on CHR ''/'' (join ''/'' ?segs) = ?segs"
    by (rule split_on_join) (auto dest: split_on_no_sep intro!: normalize_segment_no_slash)
  show ?thesis
  proof (cases "join ''/'' ?segs = []")
    case True
    then show ?thesis by (simp add: normalize_endpoint_def sor_def normalize_segment_slash)
  next
    case False
    then have "normalize_endpoint p = join ''/'' ?segs" by (simp add: normalize_endpoint_def sor_def)
    moreover have "normalize_endpoint (join ''/'' ?segs) = join ''/'' ?segs"
      using False by (simp add: normalize_endpoint_def sor_def split comp_def)
    ultimately show ?thesis by simp
  qed
qed

lemma digits_normalize: "isdigit n \<Longrightarrow> normalize_segment n = ''{id}''"
proof -
  assume d: "isdigit n"
  have nl: "\<not> is_digit (CHR 0x0A)" "\<not> is_digit (CHR ''-'')"
    by (simp_all add: is_digit_def less_eq_char_def)
  from d have "n \<noteq> []" "list_all is_digit n" by (simp_all add: isdigit_def)
  then have "is_digit (last n)" by (simp add: list_all_iff)
  with nl(1) have b: "before_nl n = n" by (metis before_nl_def)
  have "CHR ''-'' \<notin> set n" using \<open>list_all is_digit n\<close> nl(2) by (auto simp: list_all_iff)
  then have "\<not> is_UUID n" by (simp add: is_UUID_def b split_on_single)
  with d b \<open>n \<noteq> []\<close> show ?thesis by (simp add: normalize_segment_def is_NUMERIC_def)
qed

lemma normalize_endpoint_ids:
  assumes "isdigit m" "isdigit n" "CHR ''/'' \<notin> set m" "CHR ''/'' \<notin> set n"
  shows "normalize_endpoint (a @ ''/'' @ m @ ''/'' @ b) = normalize_endpoint (a @ ''/'' @ n @ ''/'' @ b)"
proof -
  have sp: "split_on CHR ''/'' (a @ CHR ''/'' # k @ CHR ''/'' # b) =
      split_on CHR ''/'' a @ k # split_on CHR ''/'' b" if "CHR ''/'' \<notin> set k" for k
  proof -
    have "split_on CHR ''/'' (a @ CHR ''/'' # r) = split_on CHR ''/'' a @ split_on CHR ''/'' r" for r
      by (induction a) (auto split: list.splits)
    then show ?thesis using that by (simp add: split_on_append_sep)
  qed
  show ?thesis
    using assms by (simp add: normalize_endpoint_def sp digits_normalize)
qed


subsection \<open>The groups and their findings\<close>

definition obs_group :: "(string \<Rightarrow> string) \<Rightarrow> Observation list \<Rightarrow> string \<Rightarrow> Observation list" where
  "obs_group sha os fp = filter (\<lambda>x. obs_fingerprint sha x = fp) os"

lemma groups_mem: "(fp, g) \<in> set (group_by (obs_fingerprint sha) os) \<longleftrightarrow>
    fp \<in> obs_fingerprint sha ` set os \<and> g = obs_group sha os fp"
  by (simp add: group_by_mem_iff obs_group_def)

lemma obs_group_nonempty: "fp \<in> obs_fingerprint sha ` set os \<longleftrightarrow> obs_group sha os fp \<noteq> []"
  by (auto simp: obs_group_def filter_empty_conv)

lemma merge_group_simps [simp]:
  "f_fingerprint (merge_group sha ce fid fp g) = fp"
  "f_observation_ids (merge_group sha ce fid fp g) = map obs_id g"
  "f_severity (merge_group sha ce fid fp g) =
     severity_max (obs_severity (hd g)) (map obs_severity (tl g))"
  "f_confidence (merge_group sha ce fid fp g) = group_confidence g"
  "f_engines (merge_group sha ce fid fp g) = sorted_set (map obs_engine_id g)"
  "f_detectors (merge_group sha ce fid fp g) = sorted_set (map obs_detector g)"
  "f_references (merge_group sha ce fid fp g) = sorted_set (concat (map obs_references g))"
  "f_affected_urls (merge_group sha ce fid fp g) = sorted_set (map obs_url g)"
  "f_evidence (merge_group sha ce fid fp g) = uniq_by (digest sha) {} (concat (map obs_evidence g))"
  "f_status (merge_group sha ce fid fp g) = OPEN"
  "f_risk_score (merge_group sha ce fid fp g) = 0"
  "f_first_seen (merge_group sha ce fid fp g) =
     min_by id (obs_observed_at (hd g)) (map obs_observed_at (tl g))"
  "f_last_seen (merge_group sha ce fid fp g) =
     max_by id (obs_observed_at (hd g)) (map obs_observed_at (tl g))"
  by (simp_all add: merge_group_def Let_def)

lemma mset_correlate_view:
  assumes "\<And>fid fp g. view (merge_group sha ce fid fp g) = v fp g"
  shows "mset (map view (correlate sha ids ce os)) =
         mset (map (\<lambda>(fp, g). v fp g) (group_by (obs_fingerprint sha) os))"
proof -
  let ?gs = "group_by (obs_fingerprint sha) os"
  let ?m = "\<lambda>(fid, (fp, g)). merge_group sha ce fid fp g"
  have "mset (map view (correlate sha ids ce os)) = mset (map view (map ?m (numbered ids 0 ?gs)))"
    by (simp only: correlate_def Let_def mset_map mset_sort_desc)
  also have "map view (map ?m (numbered ids 0 ?gs)) =
      map (\<lambda>(i, p). (\<lambda>(fp, g). v fp g) p) (numbered ids 0 ?gs)"
    unfolding map_map by (rule map_cong) (auto simp: assms)
  finally show ?thesis by (simp only: map_numbered)
qed

lemma correlate_memD:
  assumes "f \<in> set (correlate sha ids ce os)"
  obtains fid where "f = merge_group sha ce fid (f_fingerprint f) (obs_group sha os (f_fingerprint f))"
    and "obs_group sha os (f_fingerprint f) \<noteq> []"
proof -
  from assms obtain fid fp g where f: "f = merge_group sha ce fid fp g"
    and "(fid, (fp, g)) \<in> set (numbered ids 0 (group_by (obs_fingerprint sha) os))"
    by (auto simp: correlate_def Let_def)
  then have "(fp, g) \<in> set (group_by (obs_fingerprint sha) os)"
    using snd_set_numbered by (metis image_eqI snd_conv)
  then have "fp \<in> obs_fingerprint sha ` set os" "g = obs_group sha os fp"
    by (simp_all add: groups_mem)
  with that f show ?thesis by (simp add: obs_group_nonempty)
qed

lemma mset_fingerprints: "mset (map f_fingerprint (correlate sha ids ce os)) =
    mset (dkeys (group_by (obs_fingerprint sha) os))"
  by (subst mset_correlate_view [where v = "\<lambda>fp g. fp"]) (simp_all add: dkeys_def case_prod_unfold)

lemma distinct_fingerprints: "distinct (map f_fingerprint (correlate sha ids ce os))"
  using distinct_dkeys_group_by mset_fingerprints by (metis mset_eq_imp_distinct_iff)

lemma set_fingerprints:
  "f_fingerprint ` set (correlate sha ids ce os) = obs_fingerprint sha ` set os"
  using set_dkeys_group_by mset_fingerprints by (metis list.set_map set_mset_mset)

lemma mset_concat_cong: "mset xss = mset yss \<Longrightarrow> mset (concat xss) = mset (concat yss)"
  by (metis mset_concat mset_map sum_mset_sum_list)

lemma concat_observation_ids:
  "mset (concat (map f_observation_ids (correlate sha ids ce os))) = mset (map obs_id os)"
proof -
  let ?gs = "group_by (obs_fingerprint sha) os"
  have "mset (map f_observation_ids (correlate sha ids ce os)) =
      mset (map (\<lambda>(fp, g). map obs_id g) ?gs)"
    by (rule mset_correlate_view) simp
  then have "mset (concat (map f_observation_ids (correlate sha ids ce os))) =
      mset (concat (map (\<lambda>(fp, g). map obs_id g) ?gs))"
    by (rule mset_concat_cong)
  also have "concat (map (\<lambda>(fp, g). map obs_id g) ?gs) = map obs_id (concat (dvalues ?gs))"
    by (simp add: dvalues_def map_concat comp_def case_prod_unfold)
  finally show ?thesis by (metis mset_concat_group_by mset_map)
qed

lemma group_severity: "g \<noteq> [] \<Longrightarrow>
    severity_max (obs_severity (hd g)) (map obs_severity (tl g)) = Max (obs_severity ` set g)"
  by (cases g) (simp_all add: severity_max_Max)

lemma group_confidence_iff:
  assumes "g \<noteq> []"
  shows "group_confidence g = CONFIRMED \<longleftrightarrow> (\<exists>x \<in> set g. obs_confidence x = CONFIRMED)"
    and "group_confidence g = FALSE_POSITIVE \<longleftrightarrow> (\<forall>x \<in> set g. obs_confidence x = FALSE_POSITIVE)"
    and "group_confidence g = FIRM \<longleftrightarrow>
      (\<forall>x \<in> set g. obs_confidence x \<noteq> CONFIRMED) \<and> (\<exists>x \<in> set g. obs_confidence x \<noteq> FALSE_POSITIVE) \<and>
      2 \<le> card (obs_engine_id ` set g)"
  using assms
  by (auto simp: group_confidence_def confidence_from_engines_def list_all_iff list_ex_iff
      length_remdups_card_conv neq_Nil_conv)

lemma group_evidence:
  "distinct (map (digest sha) (uniq_by (digest sha) {} es))"
  "digest sha ` set (uniq_by (digest sha) {} es) = digest sha ` set es"
  "set (uniq_by (digest sha) {} es) \<subseteq> set es"
  by (simp_all add: uniq_by_distinct uniq_by_keys uniq_by_subset)

lemma group_seen:
  assumes "x \<in> set g"
  shows "min_by id (obs_observed_at (hd g)) (map obs_observed_at (tl g)) \<le> obs_observed_at x"
    and "obs_observed_at x \<le> max_by id (obs_observed_at (hd g)) (map obs_observed_at (tl g))"
proof -
  from assms have "obs_observed_at x \<in> insert (obs_observed_at (hd g)) (set (map obs_observed_at (tl g)))"
    by (cases g) auto
  from min_by_le [OF this, of id] max_by_ge [OF this, of id]
  show "min_by id (obs_observed_at (hd g)) (map obs_observed_at (tl g)) \<le> obs_observed_at x"
    and "obs_observed_at x \<le> max_by id (obs_observed_at (hd g)) (map obs_observed_at (tl g))"
    by simp_all
qed

subsection \<open>Properties\<close>

text \<open>
  C5: correlation loses and invents nothing.  The findings have pairwise different
  fingerprints, which are exactly those of the observations, and the observation identifiers
  they carry are, with multiplicity, the identifiers of the observations.
\<close>

theorem correlate_partition:
  "distinct (map f_fingerprint (correlate sha ids ce os)) \<and>
   f_fingerprint ` set (correlate sha ids ce os) = obs_fingerprint sha ` set os \<and>
   mset (concat (map f_observation_ids (correlate sha ids ce os))) = mset (map obs_id os)"
  by (simp only: distinct_fingerprints set_fingerprints concat_observation_ids)

text \<open>
  C29: what a merged finding says follows its group, the observations of its fingerprint in
  order: the severity is the greatest reported one, the evidence is that of the group with one
  piece per content digest, the engines are those of the group, and the group was
  seen between \<open>first_seen\<close> and \<open>last_seen\<close>.
\<close>

theorem correlate_finding:
  assumes "f \<in> set (correlate sha ids ce os)"
    and "g = filter (\<lambda>x. obs_fingerprint sha x = f_fingerprint f) os"
  shows "g \<noteq> [] \<and> f_observation_ids f = map obs_id g \<and>
    f_severity f = Max (obs_severity ` set g) \<and>
    set (f_engines f) = obs_engine_id ` set g \<and> distinct (f_engines f) \<and>
    distinct (map (digest sha) (f_evidence f)) \<and>
    digest sha ` set (f_evidence f) = digest sha ` (\<Union>x \<in> set g. set (obs_evidence x)) \<and>
    (\<forall>x \<in> set g. f_first_seen f \<le> obs_observed_at x \<and> obs_observed_at x \<le> f_last_seen f)"
proof -
  from assms(1) obtain fid where m: "f = merge_group sha ce fid (f_fingerprint f) g" and ne: "g \<noteq> []"
    unfolding assms(2) by (rule correlate_memD) (simp add: obs_group_def)
  show ?thesis
    by (subst (1 2 3 4 5 6 7 8) m)
       (simp only: merge_group_simps group_severity [OF ne], simp add: ne group_evidence group_seen)
qed


text \<open>
  how sure a merged finding is: confirmed when one observation is, a false positive when
  all are, and otherwise firm exactly when two or more engines reported it.
\<close>

theorem correlate_confidence:
  assumes "f \<in> set (correlate sha ids ce os)"
    and "g = filter (\<lambda>x. obs_fingerprint sha x = f_fingerprint f) os"
  shows "(f_confidence f = CONFIRMED \<longleftrightarrow> (\<exists>x \<in> set g. obs_confidence x = CONFIRMED)) \<and>
    (f_confidence f = FALSE_POSITIVE \<longleftrightarrow> (\<forall>x \<in> set g. obs_confidence x = FALSE_POSITIVE)) \<and>
    (f_confidence f = FIRM \<longleftrightarrow> (\<forall>x \<in> set g. obs_confidence x \<noteq> CONFIRMED) \<and>
       (\<exists>x \<in> set g. obs_confidence x \<noteq> FALSE_POSITIVE) \<and> 2 \<le> card (obs_engine_id ` set g))"
proof -
  from assms(1) obtain fid where m: "f = merge_group sha ce fid (f_fingerprint f) g" and ne: "g \<noteq> []"
    unfolding assms(2) by (rule correlate_memD) (simp add: obs_group_def)
  have "f_confidence f = group_confidence g" by (subst m) simp
  then show ?thesis by (simp add: group_confidence_iff [OF ne])
qed

text \<open>
  findings are listed by falling severity and, within a severity, by falling confidence;
  equally ranked findings keep the order in which their first observations came.
\<close>

theorem correlate_order:
  "sorted_wrt (\<lambda>x y. finding_key y \<le> finding_key x) (correlate sha ids ce os) \<and>
   filter (\<lambda>f. finding_key f = k) (correlate sha ids ce os) =
   filter (\<lambda>f. finding_key f = k)
     (map (\<lambda>(fid, (fp, g)). merge_group sha ce fid fp g)
        (numbered ids 0 (group_by (obs_fingerprint sha) os)))"
  by (simp only: correlate_def Let_def sort_desc_sorted sort_desc_stable simp_thms)

text \<open>The part of a finding that does not depend on the order of its observations.\<close>

definition finding_view where
  "finding_view f =
     (f_fingerprint f, f_severity f, f_confidence f, f_engines f, f_detectors f, f_references f,
      f_affected_urls f, f_first_seen f, f_last_seen f, mset (f_observation_ids f))"

lemma min_by_id: "min_by id m xs = Min (insert m (set xs))"
  using min_by_in [of id m xs] min_by_le [of _ m xs id] by (intro Min_eqI [symmetric]) auto

lemma max_by_id: "max_by id m xs = Max (insert m (set xs))"
  using max_by_in [of id m xs] max_by_ge [of _ m xs id] by (intro Max_eqI [symmetric]) auto

lemma merge_view:
  assumes "g \<noteq> []"
  shows "finding_view (merge_group sha ce fid fp g) =
    (fp, Max (obs_severity ` set g), group_confidence g, sorted_set (map obs_engine_id g),
     sorted_set (map obs_detector g), sorted_set (concat (map obs_references g)),
     sorted_set (map obs_url g), Min (obs_observed_at ` set g), Max (obs_observed_at ` set g),
     mset (map obs_id g))"
  using assms by (cases g) (simp_all add: finding_view_def severity_max_Max min_by_id max_by_id)

lemma group_confidence_cong: "set g = set h \<Longrightarrow> group_confidence g = group_confidence h"
  by (simp add: group_confidence_def confidence_from_engines_def length_remdups_card_conv
      list_all_iff list_ex_iff)

lemma merge_view_cong:
  assumes "mset g = mset h" "g \<noteq> []"
  shows "finding_view (merge_group sha ce i fp g) = finding_view (merge_group sha ce j fp h)"
proof -
  from assms have st: "set g = set h" and h: "h \<noteq> []"
    by (auto dest: mset_eq_setD)
  have "sorted_set (map k g) = sorted_set (map k h)" for k :: "Observation \<Rightarrow> string"
    using st by (intro sorted_set_cong) simp
  moreover have "sorted_set (concat (map obs_references g)) = sorted_set (concat (map obs_references h))"
    using st by (intro sorted_set_cong) simp
  ultimately show ?thesis
    using group_confidence_cong [OF st] by (simp add: merge_view assms h st)
qed

lemma correlate_views:
  "finding_view ` set (correlate sha ids ce os) =
   (\<lambda>fp. finding_view (merge_group sha ce [] fp (obs_group sha os fp))) ` obs_fingerprint sha ` set os"
    (is "?L = ?R")
proof (rule set_eqI, rule iffI)
  fix v assume "v \<in> ?L"
  then obtain f where f: "f \<in> set (correlate sha ids ce os)" "v = finding_view f" by blast
  from f(1) obtain fid where
    m: "f = merge_group sha ce fid (f_fingerprint f) (obs_group sha os (f_fingerprint f))"
    and ne: "obs_group sha os (f_fingerprint f) \<noteq> []" by (rule correlate_memD)
  have "v = finding_view (merge_group sha ce [] (f_fingerprint f) (obs_group sha os (f_fingerprint f)))"
    unfolding f(2) by (subst m) (rule merge_view_cong [OF refl ne])
  moreover from f(1) have "f_fingerprint f \<in> obs_fingerprint sha ` set os"
    using set_fingerprints by blast
  ultimately show "v \<in> ?R" by blast
next
  fix v assume "v \<in> ?R"
  then obtain fp where v: "v = finding_view (merge_group sha ce [] fp (obs_group sha os fp))"
    and fp: "fp \<in> obs_fingerprint sha ` set os" by blast
  from fp obtain f where f: "f \<in> set (correlate sha ids ce os)" "f_fingerprint f = fp"
    using set_fingerprints by (metis imageE)
  from f(1) obtain fid where
    m: "f = merge_group sha ce fid (f_fingerprint f) (obs_group sha os (f_fingerprint f))"
    by (rule correlate_memD)
  have "finding_view f = v"
    unfolding v by (subst m) (use f fp in \<open>auto intro: merge_view_cong simp: obs_group_nonempty\<close>)
  with f(1) show "v \<in> ?L" by blast
qed

text \<open>
  C37: the order in which the engines reported does not matter.  Permuting the observations
  yields the same number of findings with the same fingerprints, and for each the same severity,
  confidence, engines, detectors, references, affected URLs, times and observations.
\<close>

theorem correlate_order_independent:
  assumes "mset os = mset os'"
  shows "finding_view ` set (correlate sha ids ce os) = finding_view ` set (correlate sha ids' ce os') \<and>
         length (correlate sha ids ce os) = length (correlate sha ids' ce os')"
proof -
  have st: "set os = set os'" using assms by (rule mset_eq_setD)
  have "finding_view (merge_group sha ce [] fp (obs_group sha os fp)) =
      finding_view (merge_group sha ce [] fp (obs_group sha os' fp))"
    if "fp \<in> obs_fingerprint sha ` set os" for fp
  proof (rule merge_view_cong)
    show "mset (obs_group sha os fp) = mset (obs_group sha os' fp)"
      unfolding obs_group_def mset_filter assms ..
  qed (use that in \<open>simp add: obs_group_nonempty\<close>)
  then have "finding_view ` set (correlate sha ids ce os) = finding_view ` set (correlate sha ids' ce os')"
    unfolding correlate_views st by (intro image_cong) auto
  moreover have "length (correlate sha i ce xs) = card (obs_fingerprint sha ` set xs)" for i xs
    using distinct_card [OF distinct_fingerprints [of sha i ce xs]]
    by (simp add: set_fingerprints)
  ultimately show ?thesis using st by simp
qed


text \<open>
  endpoint templates are stable, and paths that differ in one number share their
  template.
\<close>

theorem normalize_endpoint_template:
  "normalize_endpoint (normalize_endpoint p) = normalize_endpoint p \<and>
   (isdigit m \<and> isdigit n \<longrightarrow>
      normalize_endpoint (a @ ''/'' @ m @ ''/'' @ b) = normalize_endpoint (a @ ''/'' @ n @ ''/'' @ b))"
proof (intro conjI impI)
  assume d: "isdigit m \<and> isdigit n"
  have "\<not> is_digit (CHR ''/'')" by (simp add: is_digit_def less_eq_char_def)
  with d have "CHR ''/'' \<notin> set m" "CHR ''/'' \<notin> set n" by (auto simp: isdigit_def list_all_iff)
  with d show "normalize_endpoint (a @ ''/'' @ m @ ''/'' @ b) =
      normalize_endpoint (a @ ''/'' @ n @ ''/'' @ b)" by (intro normalize_endpoint_ids) simp_all
qed (rule normalize_endpoint_idem)

theorem normalize_endpoint_template_witness:
  "normalize_endpoint (''/users'' @ ''/'' @ ''1'' @ ''/'' @ ''orders'') =
   normalize_endpoint (''/users'' @ ''/'' @ ''22'' @ ''/'' @ ''orders'')"
  by (rule normalize_endpoint_template [THEN conjunct2, rule_format]) code_simp

text \<open>
  C34: where the shortened hash does not collide on the two texts, two locations with separator-free
  parts share a fingerprint exactly when category, host, port, endpoint template, method
  and parameter agree (an absent method or parameter counting as \<open>*\<close>).
\<close>

theorem fingerprint_separates:
  assumes "inj_on (\<lambda>t. take 32 (sha t))
      {join ''|'' (fingerprint_parts c l), join ''|'' (fingerprint_parts c' l')}"
    and "\<forall>p \<in> set (fingerprint_parts c l). CHR ''|'' \<notin> set p"
    and "\<forall>p \<in> set (fingerprint_parts c' l'). CHR ''|'' \<notin> set p"
  shows "fingerprint sha c l = fingerprint sha c' l' \<longleftrightarrow>
    c = c' \<and> loc_host l = loc_host l' \<and> loc_port l = loc_port l' \<and>
    normalize_endpoint (loc_path l) = normalize_endpoint (loc_path l') \<and>
    osor (loc_method l) ''*'' = osor (loc_method l') ''*'' \<and>
    osor (loc_parameter l) ''*'' = osor (loc_parameter l') ''*''"
proof -
  have "fingerprint sha c l = fingerprint sha c' l' \<longleftrightarrow>
      join ''|'' (fingerprint_parts c l) = join ''|'' (fingerprint_parts c' l')"
    unfolding fingerprint_def by (rule inj_on_eq_iff [OF assms(1)]) simp_all
  also have "\<dots> \<longleftrightarrow> fingerprint_parts c l = fingerprint_parts c' l'"
    using join_inj [OF _ _ _ assms(2,3)] by (metis fingerprint_parts_def list.distinct(1))
  finally show ?thesis by (auto simp: fingerprint_parts_def str_of_int_inj)
qed

definition demo_location :: "string \<Rightarrow> string option \<Rightarrow> Location" where
  "demo_location path param =
     \<lparr>loc_scheme = ''https'', loc_host = ''app.example'', loc_port = 443, loc_path = path,
      loc_method = Some ''GET'', loc_parameter = param, loc_parameter_location = None\<rparr>"

lemma demo_parts:
  "fingerprint_parts c (demo_location ''/u/1'' None) =
     [c, ''app.example'', ''443'', ''/u/{id}'', ''GET'', ''*'']"
  "fingerprint_parts c (demo_location ''/u/2'' None) =
     [c, ''app.example'', ''443'', ''/u/{id}'', ''GET'', ''*'']"
proof -
  have "normalize_endpoint ''/u/1'' = ''/u/{id}''" "normalize_endpoint ''/u/2'' = ''/u/{id}''"
    by code_simp+
  moreover have "str_of_int 443 = ''443''"
    by (simp add: str_of_int_def str_of_nat_def digits_rev.simps digit_char_def)
  ultimately show
    "fingerprint_parts c (demo_location ''/u/1'' None) =
       [c, ''app.example'', ''443'', ''/u/{id}'', ''GET'', ''*'']"
    "fingerprint_parts c (demo_location ''/u/2'' None) =
       [c, ''app.example'', ''443'', ''/u/{id}'', ''GET'', ''*'']"
    by (simp_all add: fingerprint_parts_def demo_location_def osor_def sor_def)
qed

theorem fingerprint_separates_witness:
  "fingerprint rev ''xss'' (demo_location ''/u/1'' None) \<noteq>
   fingerprint rev ''ssrf'' (demo_location ''/u/2'' None)"
proof (subst fingerprint_separates)
  show "inj_on (\<lambda>t. take 32 (rev t))
      {join ''|'' (fingerprint_parts ''xss'' (demo_location ''/u/1'' None)),
       join ''|'' (fingerprint_parts ''ssrf'' (demo_location ''/u/2'' None))}"
    unfolding demo_parts inj_on_def by simp
qed (simp_all add: demo_parts)

text \<open>
  with a separator inside a part the fingerprint is ambiguous, whatever the hash: two
  locations with different templates and parameters share it.
\<close>

theorem fingerprint_ambiguous:
  "let l1 = demo_location ''/a'' (Some ''GET|q'');
       l2 = demo_location ''/a|GET'' (Some ''q'')
   in fingerprint sha c l1 = fingerprint sha c l2 \<and>
      normalize_endpoint (loc_path l1) \<noteq> normalize_endpoint (loc_path l2) \<and>
      loc_parameter l1 \<noteq> loc_parameter l2"
proof -
  have n: "normalize_endpoint ''/a'' = ''/a''" "normalize_endpoint ''/a|GET'' = ''/a|GET''"
    by code_simp+
  show ?thesis
    by (simp add: Let_def demo_location_def fingerprint_def fingerprint_parts_def n osor_def sor_def)
qed

lemma by_fingerprint_get: "dget (by_fingerprint fs) fp = List.find (\<lambda>f. f_fingerprint f = fp) (rev fs)"
proof (induction fs rule: rev_induct)
  case (snoc f fs)
  have "by_fingerprint (fs @ [f]) = dset (by_fingerprint fs) (f_fingerprint f) f"
    by (simp add: by_fingerprint_def)
  with snoc show ?case by simp
qed (simp add: by_fingerprint_def)

text \<open>
  C26: carrying findings over to a later scan changes no finding but its two times: a finding
  whose fingerprint was seen before takes the earlier \<open>first_seen\<close>, that of the last previous
  finding with the fingerprint, and is marked as seen now; any other finding is unchanged.
\<close>

theorem merge_across_scans_times:
  "merge_across_scans now previous current =
     map (\<lambda>f. case List.find (\<lambda>p. f_fingerprint p = f_fingerprint f) (rev previous) of
                None \<Rightarrow> f
              | Some old \<Rightarrow> f\<lparr>f_first_seen := f_first_seen old, f_last_seen := now\<rparr>) current"
  by (simp add: merge_across_scans_def by_fingerprint_get)

subsection \<open>Witnesses\<close>

definition demo_obs :: "string \<Rightarrow> string \<Rightarrow> Severity \<Rightarrow> Confidence \<Rightarrow> string \<Rightarrow> Observation" where
  "demo_obs i engine sev conf path =
     \<lparr>obs_id = i, obs_scan_id = ''s'', obs_run_id = ''r'', obs_engine_id = engine,
      obs_engine_version = ''1'', obs_detector_id = ''d'', obs_title = ''t'',
      obs_vuln_class = ''xss'', obs_severity = sev, obs_confidence = conf, obs_cwe = [],
      obs_location = demo_location path None, obs_description = [], obs_remediation = [],
      obs_references = [], obs_evidence = [], obs_raw_ref = None, obs_observed_at = 5\<rparr>"

definition demo_observations :: "Observation list" where
  "demo_observations =
     [demo_obs ''o1'' ''zap'' MEDIUM TENTATIVE ''/u/1'',
      demo_obs ''o2'' ''nuclei'' HIGH TENTATIVE ''/u/2'']"

definition demo_ce :: CorrelationEngine where
  "demo_ce = \<lparr>ce_tenant_id = ''acme'', ce_scan_id = ''s'', ce_target_id = ''t1''\<rparr>"


definition demo_finding :: UnifiedFinding where
  "demo_finding = hd (correlate (\<lambda>_. ''h'') (\<lambda>_. ''f'') demo_ce demo_observations)"

lemma demo_finding_mem:
  "demo_finding \<in> set (correlate (\<lambda>_. ''h'') (\<lambda>_. ''f'') demo_ce demo_observations)"
proof -
  have "correlate (\<lambda>_. ''h'') (\<lambda>_. ''f'') demo_ce demo_observations \<noteq> []"
    using set_fingerprints [of "\<lambda>_. ''h''" "\<lambda>_. ''f''" demo_ce demo_observations]
    by (auto simp: demo_observations_def)
  then show ?thesis unfolding demo_finding_def by (rule hd_in_set)
qed

lemma demo_finding_group:
  "demo_observations =
     filter (\<lambda>x. obs_fingerprint (\<lambda>_. ''h'') x = f_fingerprint demo_finding) demo_observations"
proof -
  have "f_fingerprint demo_finding \<in> obs_fingerprint (\<lambda>_. ''h'') ` set demo_observations"
    using demo_finding_mem set_fingerprints by blast
  then show ?thesis by (auto simp: obs_fingerprint_def fingerprint_def)
qed

theorem correlate_finding_witness:
  "f_severity demo_finding = HIGH \<and> f_observation_ids demo_finding = [''o1'', ''o2'']"
proof -
  have "f_severity demo_finding = Max (obs_severity ` set demo_observations) \<and>
      f_observation_ids demo_finding = map obs_id demo_observations"
    using correlate_finding [OF demo_finding_mem demo_finding_group] by blast
  then show ?thesis by (simp add: demo_observations_def demo_obs_def max_def less_eq_Severity_def)
qed

theorem correlate_confidence_witness: "f_confidence demo_finding = FIRM"
proof -
  have "(f_confidence demo_finding = FIRM) = ((\<forall>x \<in> set demo_observations. obs_confidence x \<noteq> CONFIRMED) \<and>
      (\<exists>x \<in> set demo_observations. obs_confidence x \<noteq> FALSE_POSITIVE) \<and>
      2 \<le> card (obs_engine_id ` set demo_observations))"
    using correlate_confidence [OF demo_finding_mem demo_finding_group] by blast
  then show ?thesis by (simp add: demo_observations_def demo_obs_def)
qed

theorem correlate_order_independent_witness:
  "finding_view ` set (correlate rev (\<lambda>_. ''f'') demo_ce demo_observations) =
   finding_view ` set (correlate rev (\<lambda>_. ''g'') demo_ce (rev demo_observations))"
  by (rule correlate_order_independent [THEN conjunct1]) simp

end
