(* ===== verification/Risk.thy ===== *)
theory Risk
  imports Domain
begin

text \<open>
  The risk engine (\<open>vantage/findings/risk.py\<close>).  Float literals are the doubles nearest to them
  and every product is rounded, so a score is the number the program computes, not the real
  product.
\<close>

fun SEVERITY_BASE :: "Severity \<Rightarrow> rat" where
  "SEVERITY_BASE INFO = 5"
| "SEVERITY_BASE LOW = 25"
| "SEVERITY_BASE MEDIUM = 50"
| "SEVERITY_BASE HIGH = 75"
| "SEVERITY_BASE CRITICAL = 95"

fun CONFIDENCE_FACTOR :: "Confidence \<Rightarrow> rat" where
  "CONFIDENCE_FACTOR FALSE_POSITIVE = 0"
| "CONFIDENCE_FACTOR TENTATIVE = fl (6 / 10)"
| "CONFIDENCE_FACTOR FIRM = fl (85 / 100)"
| "CONFIDENCE_FACTOR CONFIRMED = 1"

definition EXPOSURE_BUMP :: "(string, rat) dict" where
  "EXPOSURE_BUMP =
     [(''sql_injection'', fl (110 / 100)), (''command_injection'', fl (110 / 100)),
      (''code_injection'', fl (110 / 100)), (''insecure_deserialization'', fl (110 / 100)),
      (''ssrf'', fl (108 / 100)), (''xxe'', fl (106 / 100)),
      (''broken_object_authz'', fl (106 / 100)), (''broken_access_control'', fl (106 / 100)),
      (''secret_exposure'', fl (105 / 100)), (''xss'', fl (103 / 100))]"

definition EXPOSURE_DISCOUNT :: "(string, rat) dict" where
  "EXPOSURE_DISCOUNT =
     [(''missing_security_header'', fl (9 / 10)), (''information_disclosure'', fl (92 / 100)),
      (''directory_listing'', fl (92 / 100)), (''clickjacking'', fl (9 / 10))]"

record RiskBreakdown =
  rb_score :: rat
  rb_factors :: "(string, rat) dict"
  rb_notes :: "string list"

definition corroboration_factor :: "nat \<Rightarrow> rat" where
  "corroboration_factor n_engines =
     (if n_engines \<ge> 3 then fl (108 / 100)
      else if n_engines = 2 then fl (104 / 100)
      else 1)"

definition exposure_factor :: "string \<Rightarrow> rat" where
  "exposure_factor category =
     fmul (dget_or EXPOSURE_BUMP category 1) (dget_or EXPOSURE_DISCOUNT category 1)"

definition raw_risk :: "UnifiedFinding \<Rightarrow> rat" where
  "raw_risk f =
     fmul (fmul (fmul (SEVERITY_BASE (f_severity f)) (CONFIDENCE_FACTOR (f_confidence f)))
                (corroboration_factor (length (f_engines f))))
          (exposure_factor (f_category f))"

definition risk_score :: "UnifiedFinding \<Rightarrow> RiskBreakdown" where
  "risk_score f =
     (let n_engines = length (f_engines f)
      in \<lparr>rb_score = max 0 (min 100 (py_round (raw_risk f) 1)),
          rb_factors =
            [(''severity_base'', SEVERITY_BASE (f_severity f)),
             (''confidence_factor'', CONFIDENCE_FACTOR (f_confidence f)),
             (''corroboration'', corroboration_factor n_engines),
             (''exposure'', py_round (exposure_factor (f_category f)) 3)],
          rb_notes =
            (if f_confidence f = CONFIRMED then [''validated by Vantage validation engine''] else [])
            @ (if n_engines \<ge> 2
               then [''corroborated by '' @ str_of_nat n_engines @ '' engines''] else [])
            @ (if f_confidence f = FALSE_POSITIVE
               then [''classified false positive; scored 0''] else [])\<rparr>)"

definition risk_apply :: "UnifiedFinding \<Rightarrow> UnifiedFinding" where
  "risk_apply f = f\<lparr>f_risk_score := rb_score (risk_score f)\<rparr>"

subsection \<open>The factors\<close>

lemma SEVERITY_BASE_mono:
  "severity_rank s \<le> severity_rank t \<Longrightarrow> SEVERITY_BASE s \<le> SEVERITY_BASE t"
  by (cases s; cases t) simp_all

lemma SEVERITY_BASE_nonneg: "0 \<le> SEVERITY_BASE s"
  by (cases s) simp_all

lemma fl_between: "0 \<le> a \<Longrightarrow> a \<le> x \<Longrightarrow> x \<le> b \<Longrightarrow> fl a = a \<Longrightarrow> fl b = b \<Longrightarrow> a \<le> fl x \<and> fl x \<le> b"
  using fl_mono [of a x] fl_mono [of x b] by simp

lemma fl_1: "fl 1 = 1"
proof -
  have "ulp 1 = 1 / 2 ^ 52" by (simp add: ulp_def ilog2.simps power_int_def power_one_over)
  then have "1 / ulp 1 = of_int (2 ^ 52)" by (simp only: divide_divide_eq_right) simp
  then have "round_half_even (1 / ulp 1) = 2 ^ 52" by (simp only: round_half_even_of_int)
  with \<open>ulp 1 = 1 / 2 ^ 52\<close> show ?thesis by (simp add: fl_def fl_pos_def)
qed

lemma CONFIDENCE_FACTOR_nonneg: "0 \<le> CONFIDENCE_FACTOR c"
  by (cases c) (simp_all add: fl_nonneg)

lemma CONFIDENCE_FACTOR_mono:
  "confidence_rank c \<le> confidence_rank d \<Longrightarrow> CONFIDENCE_FACTOR c \<le> CONFIDENCE_FACTOR d"
  using fl_mono [of "6 / 10" "85 / 100"] fl_between [of 0 "85 / 100" 1] fl_between [of 0 "6 / 10" 1]
  by (cases c; cases d) (simp_all add: fl_1 fl_nonneg)

lemma corroboration_nonneg: "0 \<le> corroboration_factor n"
  by (simp add: corroboration_factor_def fl_nonneg)

lemma corroboration_mono: "m \<le> n \<Longrightarrow> corroboration_factor m \<le> corroboration_factor n"
  using fl_mono [of 1 "104 / 100"] fl_mono [of "104 / 100" "108 / 100"]
  by (auto simp: corroboration_factor_def fl_1)

lemma dget_or_nonneg: "list_all (\<lambda>(k, v). 0 \<le> v) d \<Longrightarrow> 0 \<le> dflt \<Longrightarrow> 0 \<le> dget_or d k (dflt :: rat)"
  by (auto simp: dget_or_def list_all_iff dest: dget_Some_mem split: option.split)

lemma exposure_nonneg: "0 \<le> exposure_factor c"
  unfolding exposure_factor_def
  by (intro fmul_nonneg dget_or_nonneg) (simp_all add: EXPOSURE_BUMP_def EXPOSURE_DISCOUNT_def fl_nonneg)

lemmas factors_nonneg =
  SEVERITY_BASE_nonneg CONFIDENCE_FACTOR_nonneg corroboration_nonneg exposure_nonneg

lemma raw_risk_nonneg: "0 \<le> raw_risk f"
  unfolding raw_risk_def by (intro fmul_nonneg factors_nonneg)

lemma raw_risk_mono:
  assumes "severity_rank (f_severity f) \<le> severity_rank (f_severity g)"
    and "confidence_rank (f_confidence f) \<le> confidence_rank (f_confidence g)"
    and "length (f_engines f) \<le> length (f_engines g)" and "f_category f = f_category g"
  shows "raw_risk f \<le> raw_risk g"
  unfolding raw_risk_def assms(4)
  by (intro fmul_mono fmul_nonneg factors_nonneg order_refl SEVERITY_BASE_mono CONFIDENCE_FACTOR_mono
      corroboration_mono assms(1-3))

subsection \<open>Properties\<close>

text \<open>
  every score lies between 0 and 100, so applying the engine keeps the model's constraint, and
  a finding classified as a false positive scores 0.
\<close>

theorem risk_score_range:
  "0 \<le> f_risk_score (risk_apply f) \<and> f_risk_score (risk_apply f) \<le> 100 \<and>
   f_risk_score (risk_apply (f\<lparr>f_confidence := FALSE_POSITIVE\<rparr>)) = 0"
  by (simp add: risk_apply_def risk_score_def Let_def raw_risk_def fmul_def)

text \<open>
  within a category the score never falls when the severity rises, when the finding becomes
  more certain or when more engines agree, rounding to doubles included.
\<close>

theorem risk_score_monotone:
  assumes "severity_rank (f_severity f) \<le> severity_rank (f_severity g)"
    and "confidence_rank (f_confidence f) \<le> confidence_rank (f_confidence g)"
    and "length (f_engines f) \<le> length (f_engines g)" and "f_category f = f_category g"
  shows "rb_score (risk_score f) \<le> rb_score (risk_score g)"
proof -
  have "py_round (raw_risk f) 1 \<le> py_round (raw_risk g) 1"
    by (intro py_round_mono raw_risk_nonneg raw_risk_mono assms)
  then show ?thesis by (simp add: risk_score_def Let_def)
qed

definition demo_scored :: "Severity \<Rightarrow> Confidence \<Rightarrow> string list \<Rightarrow> UnifiedFinding" where
  "demo_scored sev conf engines =
     \<lparr>f_id = ''f'', f_tenant_id = ''acme'', f_scan_id = ''s'', f_target_id = ''t1'',
      f_fingerprint = ''fp'', f_title = ''t'', f_category = ''ssrf'', f_severity = sev,
      f_confidence = conf, f_risk_score = 0, f_cwe = [], f_owasp = [], f_host = ''h'', f_port = 443,
      f_endpoint = ''/'', f_method = None, f_parameter = None, f_affected_urls = [],
      f_description = [], f_remediation = [], f_references = [], f_engines = engines,
      f_detectors = [], f_observation_ids = [], f_evidence = [], f_status = OPEN,
      f_first_seen = 0, f_last_seen = 0\<rparr>"

theorem risk_score_monotone_witness:
  "rb_score (risk_score (demo_scored LOW TENTATIVE [''zap''])) \<le>
   rb_score (risk_score (demo_scored HIGH FIRM [''nuclei'', ''zap'']))"
  by (rule risk_score_monotone) (simp_all add: demo_scored_def)

end
