(* ===== verification/License_Policy.thy ===== *)
theory License_Policy
  imports Domain
begin

text \<open>
  The license policy (\<open>vantage/governance/policy.py\<close>): the table built from the parsed policy file
  and the classification of an SPDX expression.  Reading and parsing the file is not modelled; its
  parsed value is the argument of \<open>policy_load\<close>.
\<close>

record PolicyDecision =
  pd_license_id :: string
  pd_license_class :: LicenseClass
  pd_action :: pyval
  pd_reason :: string

record LicensePolicy =
  lp_class_to_spdx :: "(LicenseClass, pyval list) dict"
  lp_unknown_action :: pyval
  lp_arms_length :: "pyval list"
  lp_spdx_to_class :: "(string, LicenseClass) dict"

definition in_quotes :: "string \<Rightarrow> string" where
  "in_quotes s = CHR 0x27 # s @ [CHR 0x27]"

subsection \<open>Loading\<close>

definition py_lower :: "pyval \<Rightarrow> string res" where
  "py_lower v = (case v of PStr s \<Rightarrow> Inr (lower s) | _ \<Rightarrow> Inl (AttributeError ''lower''))"

fun add_spdx ::
  "LicenseClass \<Rightarrow> pyval list \<Rightarrow> (string, LicenseClass) dict \<Rightarrow> (string, LicenseClass) dict res" where
  "add_spdx cls [] d = Inr d"
| "add_spdx cls (spdx # ids) d =
     bind_res (py_lower spdx) (\<lambda>k. add_spdx cls ids (dset d k cls))"

fun add_classes ::
  "(LicenseClass, pyval list) dict \<Rightarrow> (string, LicenseClass) dict \<Rightarrow> (string, LicenseClass) dict res" where
  "add_classes [] d = Inr d"
| "add_classes ((cls, ids) # rest) d = bind_res (add_spdx cls ids d) (add_classes rest)"

definition LicensePolicy_init ::
  "(LicenseClass, pyval list) dict \<Rightarrow> pyval \<Rightarrow> pyval list \<Rightarrow> LicensePolicy res" where
  "LicensePolicy_init class_to_spdx unknown_action arms =
     bind_res (add_classes class_to_spdx []) (\<lambda>d.
       Inr \<lparr>lp_class_to_spdx = class_to_spdx, lp_unknown_action = unknown_action,
            lp_arms_length = arms, lp_spdx_to_class = d\<rparr>)"

definition license_class_of :: "string \<Rightarrow> LicenseClass res" where
  "license_class_of s =
     (case List.find (\<lambda>c. license_class_value c = s) [GREEN, YELLOW, RED, UNKNOWN] of
        Some c \<Rightarrow> Inr c
      | None \<Rightarrow> Inl (ValueError ''LicenseClass''))"

text \<open>\<open>frozenset(v)\<close> of a parsed value, as the list of its elements.\<close>

fun hashable :: "pyval \<Rightarrow> bool" where
  "hashable (PList _) = False"
| "hashable (PDict _) = False"
| "hashable _ = True"

definition frozenset_of :: "pyval \<Rightarrow> pyval list res" where
  "frozenset_of v =
     (case v of
        PList xs \<Rightarrow> if list_all hashable xs then Inr xs else Inl (TypeError ''unhashable type'')
      | PStr s \<Rightarrow> Inr (List.map (\<lambda>c. PStr [c]) s)
      | PDict d \<Rightarrow> Inr (List.map (\<lambda>(k, _). PStr k) d)
      | _ \<Rightarrow> Inl (TypeError ''not iterable''))"

definition as_dict :: "pyval \<Rightarrow> (string \<times> pyval) list res" where
  "as_dict v = (case v of PDict d \<Rightarrow> Inr d | _ \<Rightarrow> Inl (AttributeError ''get''))"

fun load_classes ::
  "(string \<times> pyval) list \<Rightarrow> (LicenseClass, pyval list) dict \<Rightarrow> (LicenseClass, pyval list) dict res" where
  "load_classes [] d = Inr d"
| "load_classes ((name, body) # rest) d =
     bind_res (license_class_of name) (\<lambda>cls.
     bind_res (as_dict body) (\<lambda>b.
     bind_res (frozenset_of (pget b ''spdx'' (PList []))) (\<lambda>ids.
       load_classes rest (dset d cls ids))))"

definition policy_load :: "pyval \<Rightarrow> LicensePolicy res" where
  "policy_load data =
     bind_res (as_dict data) (\<lambda>d.
     bind_res (as_dict (pget d ''classes'' (PDict []))) (\<lambda>classes.
     bind_res (load_classes classes []) (\<lambda>table.
     bind_res (frozenset_of (pget d ''arms_length_integration_types'' (PList []))) (\<lambda>arms.
       LicensePolicy_init table (pget d ''unknown_action'' (PStr ''block'')) arms))))"

subsection \<open>Classification\<close>

definition ACTION_BY_CLASS :: "(LicenseClass, pyval) dict" where
  "ACTION_BY_CLASS = [(GREEN, PStr ''allow''), (YELLOW, PStr ''review''), (RED, PStr ''block'')]"

fun class_severity :: "LicenseClass \<Rightarrow> int" where
  "class_severity GREEN = 0"
| "class_severity YELLOW = 1"
| "class_severity UNKNOWN = 2"
| "class_severity RED = 3"

interpretation lic: ranked class_severity
proof unfold_locales
  fix a b :: LicenseClass
  show "class_severity a = class_severity b \<Longrightarrow> a = b"
    by (cases a; cases b) simp_all
qed

text \<open>\<open>re.split(re.escape(sep), expr, flags=re.IGNORECASE)\<close>: leftmost matches that do not overlap.\<close>

fun find_ci :: "string \<Rightarrow> string \<Rightarrow> nat option" where
  "find_ci sep [] = None"
| "find_ci sep (c # s) =
     (if startswith (upper (c # s)) sep then Some 0 else map_option Suc (find_ci sep s))"

lemma find_ci_bound: "find_ci sep s = Some i \<Longrightarrow> i < length s"
  by (induction sep s arbitrary: i rule: find_ci.induct) (auto split: if_splits)

lemma after_match_shorter:
  "find_ci sep s = Some i \<Longrightarrow> sep \<noteq> [] \<Longrightarrow> length (drop (i + length sep) s) < length s"
  using find_ci_bound [of sep s i] by (cases sep) auto

function split_ci :: "string \<Rightarrow> string \<Rightarrow> string list" where
  "split_ci sep s =
     (if sep = [] then [s]
      else case find_ci sep s of
        None \<Rightarrow> [s]
      | Some i \<Rightarrow> take i s # split_ci sep (drop (i + length sep) s))"
  by pat_completeness auto

termination split_ci
  by (relation "measure (\<lambda>(sep, s). length s)") 
    (simp, simp only: in_measure prod.case, erule after_match_shorter)

declare split_ci.simps [simp del]

definition split_operands :: "string \<Rightarrow> string \<Rightarrow> string list" where
  "split_operands expr sep =
     List.map (\<lambda>p. strip (strip_chars (\<lambda>c. c \<in> set ''()'') (strip p)))
       (List.filter (\<lambda>p. strip p \<noteq> []) (split_ci sep expr))"

lemma length_split_ci:
  "p \<in> set (split_ci sep s) \<Longrightarrow> length p \<le> length s"
  "find_ci sep s = Some i \<Longrightarrow> sep \<noteq> [] \<Longrightarrow> p \<in> set (split_ci sep s) \<Longrightarrow> length p < length s"
proof -
  show le: "p \<in> set (split_ci sep s) \<Longrightarrow> length p \<le> length s" for p s
  proof (induction sep s rule: split_ci.induct)
    case (1 sep s)
    then show ?case
      by (subst (asm) split_ci.simps) (fastforce split: if_splits option.splits)
  qed
  assume h: "find_ci sep s = Some i" "sep \<noteq> []" "p \<in> set (split_ci sep s)"
  from h(3) have "p = take i s \<or> p \<in> set (split_ci sep (drop (i + length sep) s))"
    by (subst (asm) split_ci.simps) (simp add: h(1,2))
  moreover have "i < length s" and "length (drop (i + length sep) s) < length s"
    by (rule find_ci_bound [OF h(1)], rule after_match_shorter [OF h(1,2)])
  ultimately show "length p < length s"
    using le [of p "drop (i + length sep) s"] by (auto simp del: length_drop)
qed

lemma contains_find_ci: "contains sep (upper s) \<Longrightarrow> sep \<noteq> [] \<Longrightarrow> \<exists>i. find_ci sep s = Some i"
  by (induction s) (auto simp: upper_def)

lemma split_operands_shorter:
  assumes "contains sep (upper raw)" "sep \<noteq> []" "p \<in> set (split_operands raw sep)"
  shows "length p < length raw"
proof -
  from assms(3) obtain q where q: "q \<in> set (split_ci sep raw)"
    and p: "p = strip (strip_chars (\<lambda>c. c \<in> set ''()'') (strip q))"
    by (auto simp: split_operands_def)
  from contains_find_ci [OF assms(1,2)] obtain i where "find_ci sep raw = Some i" ..
  from length_split_ci(2) [OF this assms(2) q] have "length q < length raw" .
  moreover have "length p \<le> length q"
    unfolding p by (meson le_trans length_strip length_strip_chars)
  ultimately show ?thesis by simp
qed

definition pick_operand :: "(LicenseClass \<Rightarrow> int) \<Rightarrow> string \<Rightarrow> string \<Rightarrow> PolicyDecision list \<Rightarrow> PolicyDecision res" where
  "pick_operand key raw label parts =
     (case parts of
        [] \<Rightarrow> Inl (ValueError ''arg is an empty sequence'')
      | d # ds \<Rightarrow>
          (let best = min_by (\<lambda>x. key (pd_license_class x)) d ds
           in Inr \<lparr>pd_license_id = raw, pd_license_class = pd_license_class best,
                   pd_action = pd_action best, pd_reason = label @ pd_license_id best\<rparr>))"

function classify_license :: "LicensePolicy \<Rightarrow> string \<Rightarrow> PolicyDecision res" where
  "classify_license pol license_id =
     (let raw = strip license_id
      in if raw = []
         then Inr \<lparr>pd_license_id = license_id, pd_license_class = UNKNOWN,
                   pd_action = lp_unknown_action pol, pd_reason = ''empty''\<rparr>
         else if contains '' OR '' (upper raw)
         then bind_res (map_res (classify_license pol) (split_operands raw '' OR ''))
                (pick_operand class_severity raw ''OR -> most permissive: '')
         else if contains '' AND '' (upper raw)
         then bind_res (map_res (classify_license pol) (split_operands raw '' AND ''))
                (pick_operand (\<lambda>c. - class_severity c) raw ''AND -> most restrictive: '')
         else case dget (lp_spdx_to_class pol) (lower raw) of
                None \<Rightarrow> Inr \<lparr>pd_license_id = raw, pd_license_class = UNKNOWN,
                             pd_action = lp_unknown_action pol, pd_reason = ''not in policy table''\<rparr>
              | Some cls \<Rightarrow>
                  (case dget ACTION_BY_CLASS cls of
                     None \<Rightarrow> Inl (KeyError (license_class_value cls))
                   | Some action \<Rightarrow>
                       Inr \<lparr>pd_license_id = raw, pd_license_class = cls, pd_action = action,
                            pd_reason = ''policy table''\<rparr>))"
  by pat_completeness auto

termination classify_license
proof (relation "measure (\<lambda>(pol, s). length s)")
  fix pol :: LicensePolicy and s raw p :: string
  assume "raw = strip s" "contains '' OR '' (upper raw)" "p \<in> set (split_operands raw '' OR '')"
  then show "((pol, p), (pol, s)) \<in> measure (\<lambda>(pol, s). length s)"
    using split_operands_shorter [of "'' OR ''" raw p] length_strip [of s] by simp
next
  fix pol :: LicensePolicy and s raw p :: string
  assume "raw = strip s" "contains '' AND '' (upper raw)" "p \<in> set (split_operands raw '' AND '')"
  then show "((pol, p), (pol, s)) \<in> measure (\<lambda>(pol, s). length s)"
    using split_operands_shorter [of "'' AND ''" raw p] length_strip [of s] by simp
qed simp

declare classify_license.simps [simp del]


subsection \<open>Operands\<close>

lemma split_operands_nonempty:
  assumes "strip raw = raw" "raw \<noteq> []" "contains (CHR '' '' # sep) (upper raw)"
  shows "split_operands raw (CHR '' '' # sep) \<noteq> []"
proof -
  obtain i where i: "find_ci (CHR '' '' # sep) raw = Some i"
    using contains_find_ci [OF assms(3)] by blast
  obtain c cs where raw: "raw = c # cs" using assms(2) by (cases raw) auto
  have c: "\<not> is_space c" using strip_hd [of raw] assms(1) raw by simp
  have "upper_char c \<noteq> CHR '' ''"
  proof
    assume "upper_char c = CHR '' ''"
    then have "c = CHR '' '' \<or> is_lower c" by (auto simp: upper_char_def split: if_splits)
    then show False
    proof
      assume "is_lower c"
      then have "CHR ''a'' \<le> c" "c \<le> CHR ''z''" by (simp_all add: is_lower_def)
      then have u: "upper_char c = set_bit5 False c" by (simp add: upper_char_def is_lower_def)
      obtain b0 b1 b2 b3 b4 b5 b6 b7 where ch: "c = Char b0 b1 b2 b3 b4 b5 b6 b7" by (cases c)
      with u \<open>upper_char c = CHR '' ''\<close> show False by (simp add: set_bit5_def)
    qed (use c in \<open>simp add: is_space_def less_eq_char_def\<close>)
  qed
  then have "i \<noteq> 0" using i raw by (auto simp: upper_def startswith_def split: if_splits)
  then have "c \<in> set (take i raw)" using raw by (cases i) auto
  then have "strip (take i raw) \<noteq> []" using strip_keeps c by fastforce
  moreover have "take i raw \<in> set (split_ci (CHR '' '' # sep) raw)"
    by (subst split_ci.simps) (simp add: i)
  ultimately show ?thesis by (auto simp: split_operands_def filter_empty_conv)
qed

lemma pick_operand_Inr: "ds \<noteq> [] \<Longrightarrow> \<exists>d. pick_operand key raw l ds = Inr d"
  by (cases ds) (simp_all add: pick_operand_def Let_def)

lemma pick_operand_least:
  assumes "pick_operand key raw l ds = Inr d"
  shows "\<exists>e \<in> set ds. pd_license_class d = pd_license_class e \<and> pd_action d = pd_action e"
    and "\<forall>x \<in> set ds. key (pd_license_class d) \<le> key (pd_license_class x)"
proof -
  let ?k = "\<lambda>x. key (pd_license_class x)"
  from assms obtain e es where ds: "ds = e # es"
    and d: "pd_license_class d = pd_license_class (min_by ?k e es)"
      "pd_action d = pd_action (min_by ?k e es)"
    by (auto simp: pick_operand_def Let_def split: list.splits)
  have "min_by ?k e es \<in> set ds" using min_by_in [of ?k e es] ds by simp
  then show "\<exists>e \<in> set ds. pd_license_class d = pd_license_class e \<and> pd_action d = pd_action e"
    using d by blast
  show "\<forall>x \<in> set ds. key (pd_license_class d) \<le> key (pd_license_class x)"
    unfolding d(1) using min_by_le [of _ e es ?k] ds by simp
qed

lemma classify_license_atom:
  assumes "strip a = a" "a \<noteq> []" "CHR '' '' \<notin> set (upper a)"
  shows "classify_license pol a =
    (case dget (lp_spdx_to_class pol) (lower a) of
       None \<Rightarrow> Inr \<lparr>pd_license_id = a, pd_license_class = UNKNOWN,
                    pd_action = lp_unknown_action pol, pd_reason = ''not in policy table''\<rparr>
     | Some cls \<Rightarrow>
         (case dget ACTION_BY_CLASS cls of
            None \<Rightarrow> Inl (KeyError (license_class_value cls))
          | Some action \<Rightarrow> Inr \<lparr>pd_license_id = a, pd_license_class = cls, pd_action = action,
                               pd_reason = ''policy table''\<rparr>))"
proof -
  have "\<not> contains (CHR '' '' # x) (upper a)" for x
    using assms(3) by (auto simp: contains_iff)
  then show ?thesis by (subst classify_license.simps) (simp add: assms(1,2) Let_def)
qed

definition spdx_atom :: "string \<Rightarrow> bool" where
  "spdx_atom a \<longleftrightarrow> a \<noteq> [] \<and> list_all (\<lambda>c. \<not> is_space c \<and> upper_char c \<noteq> CHR '' '' \<and> c \<notin> set ''()'') a"

lemma spdx_atom_clean:
  assumes "spdx_atom a"
  shows "strip a = a" "strip (strip_chars (\<lambda>c. c \<in> set ''()'') (strip a)) = a"
    "CHR '' '' \<notin> set (upper a)"
proof -
  have "\<forall>c \<in> set a. \<not> is_space c" "\<forall>c \<in> set a. \<not> c \<in> set ''()''"
    using assms by (auto simp: spdx_atom_def list_all_iff)
  then show st: "strip a = a" and "strip (strip_chars (\<lambda>c. c \<in> set ''()'') (strip a)) = a"
    by (simp_all only: strip_def strip_chars_id)
  have "\<forall>c \<in> set a. upper_char c \<noteq> CHR '' ''"
    using assms by (simp only: spdx_atom_def list_all_iff) blast
  then show "CHR '' '' \<notin> set (upper a)" unfolding upper_def set_map by (metis imageE)
qed

lemma find_ci_atom:
  assumes "CHR '' '' \<notin> set (upper a)" "startswith (upper r) (CHR '' '' # sep)"
  shows "find_ci (CHR '' '' # sep) (a @ r) = Some (length a)"
  using assms
proof (induction a)
  case Nil
  then show ?case by (cases r) (auto simp: upper_def startswith_def)
next
  case (Cons c a)
  then show ?case by (auto simp: upper_def startswith_def)
qed

lemma find_ci_none: "CHR '' '' \<notin> set (upper a) \<Longrightarrow> find_ci (CHR '' '' # sep) a = None"
  by (induction a) (auto simp: upper_def startswith_def)

lemma split_ci_join:
  assumes "\<forall>a \<in> set as. CHR '' '' \<notin> set (upper a)" "as \<noteq> []" "upper sep = sep"
  shows "split_ci (CHR '' '' # sep) (join (CHR '' '' # sep) as) = as"
  using assms(1,2)
proof (induction as)
  case (Cons a as)
  show ?case
  proof (cases "as = []")
    case True
    with Cons.prems show ?thesis by (subst split_ci.simps) (simp add: find_ci_none)
  next
    case False
    let ?r = "CHR '' '' # sep @ join (CHR '' '' # sep) as"
    have "startswith (upper ?r) (CHR '' '' # sep)"
      using assms(3) by (simp add: upper_def startswith_def upper_char_def is_lower_def less_eq_char_def)
    then have "find_ci (CHR '' '' # sep) (a @ ?r) = Some (length a)"
      using Cons.prems by (intro find_ci_atom) simp_all
    with Cons False show ?thesis
      by (simp add: join_Cons) (subst split_ci.simps, simp)
  qed
qed simp

lemma split_operands_join:
  assumes "\<forall>a \<in> set as. spdx_atom a" "as \<noteq> []" "upper sep = sep"
  shows "split_operands (join (CHR '' '' # sep) as) (CHR '' '' # sep) = as"
proof -
  have "split_ci (CHR '' '' # sep) (join (CHR '' '' # sep) as) = as"
    using assms spdx_atom_clean(3) by (intro split_ci_join) auto
  moreover have "\<forall>a \<in> set as. strip a \<noteq> []"
    using assms(1) spdx_atom_clean(1) by (metis spdx_atom_def)
  then have "filter (\<lambda>p. strip p \<noteq> []) as = as" by (simp add: filter_id_conv)
  moreover have "map (\<lambda>p. strip (strip_chars (\<lambda>c. c \<in> set ''()'') (strip p))) as = as"
    using assms(1) by (simp only: spdx_atom_clean(2) map_idI)
  ultimately show ?thesis unfolding split_operands_def by simp
qed

lemma strip_join:
  assumes "\<forall>a \<in> set as. spdx_atom a" "as \<noteq> []"
  shows "strip (join sep as) = join sep as"
proof -
  have "join sep as \<noteq> []" and h: "hd (join sep as) = hd (hd as)" and l: "last (join sep as) = last (last as)"
    using assms by (induction as) (auto simp: join_Cons spdx_atom_def hd_append)
  moreover have "hd as \<in> set as" "last as \<in> set as" using assms(2) by simp_all
  then have "\<not> is_space (hd (hd as))" "\<not> is_space (last (last as))"
    using assms(1) by (auto simp: spdx_atom_def list_all_iff)
  ultimately have "dropWhile is_space (join sep as) = join sep as"
    "dropWhile is_space (rev (join sep as)) = rev (join sep as)"
    by (simp_all add: dropWhile_eq_self_iff hd_rev)
  then show ?thesis by (simp add: strip_def strip_chars_def lstrip_def rstrip_def)
qed

text \<open>Texts the table knows, and what classification says of them.\<close>

definition known_atoms :: "LicensePolicy \<Rightarrow> (string \<Rightarrow> LicenseClass) \<Rightarrow> string list \<Rightarrow> bool" where
  "known_atoms pol cls as \<longleftrightarrow>
     (\<forall>a \<in> set as. spdx_atom a \<and> dget (lp_spdx_to_class pol) (lower a) = Some (cls a) \<and> cls a \<noteq> UNKNOWN)"

lemma classify_known:
  assumes "known_atoms pol cls as"
  obtains ds where "map_res (classify_license pol) as = Inr ds"
    and "pd_license_class ` set ds = cls ` set as"
    and "\<forall>d \<in> set ds. dget ACTION_BY_CLASS (pd_license_class d) = Some (pd_action d)"
proof -
  define dec where "dec a = \<lparr>pd_license_id = a, pd_license_class = cls a,
    pd_action = the (dget ACTION_BY_CLASS (cls a)), pd_reason = ''policy table''\<rparr>" for a
  have act: "\<exists>x. dget ACTION_BY_CLASS (cls a) = Some x" if "a \<in> set as" for a
  proof -
    have "cls a \<noteq> UNKNOWN" using assms that by (auto simp: known_atoms_def)
    then show ?thesis by (cases "cls a") (simp_all add: ACTION_BY_CLASS_def)
  qed
  have "classify_license pol a = Inr (dec a)" if "a \<in> set as" for a
  proof -
    have at: "spdx_atom a" "dget (lp_spdx_to_class pol) (lower a) = Some (cls a)"
      using assms that by (auto simp: known_atoms_def)
    then show ?thesis
      using act [OF that] spdx_atom_clean [OF at(1)]
      by (subst classify_license_atom) (auto simp: dec_def spdx_atom_def)
  qed
  then have "map_res (classify_license pol) as = Inr (map dec as)" by (rule map_res_Inr_map)
  moreover have "pd_license_class ` set (map dec as) = cls ` set as"
    by (simp add: image_image dec_def)
  moreover have "\<forall>d \<in> set (map dec as). dget ACTION_BY_CLASS (pd_license_class d) = Some (pd_action d)"
    using act by (force simp: dec_def)
  ultimately show thesis by (rule that)
qed

lemma join_contains:
  assumes "2 \<le> length as" "upper sep = sep"
  shows "contains sep (upper (join sep as))"
proof -
  from assms(1) obtain a b cs where as: "as = a # b # cs"
    by (metis One_nat_def Suc_1 Suc_le_length_iff)
  have "upper (join sep as) = upper a @ sep @ upper (join sep (b # cs))"
    using assms(2) by (simp add: as upper_def)
  then show ?thesis by (auto simp: contains_iff)
qed

subsection \<open>Properties\<close>

text \<open>
  when no entry of the policy table is of class UNKNOWN, classification answers every
  license text; it never raises, however the text is nested or malformed.
\<close>

theorem classify_total:
  assumes "UNKNOWN \<notin> set (dvalues (lp_spdx_to_class pol))"
  shows "\<exists>d. classify_license pol s = Inr d"
  using assms
proof (induction pol s rule: classify_license.induct)
  case (1 pol s)
  let ?raw = "strip s"
  have idem: "strip ?raw = ?raw"
    by (simp add: strip_idem)
  note IH = "1.IH" [OF refl]
  show ?case
  proof (cases "?raw = []")
    case False
    note ne = False
    show ?thesis
    proof (cases "contains '' OR '' (upper ?raw)")
      case True
      have "\<exists>ds. map_res (classify_license pol) (split_operands ?raw '' OR '') = Inr ds"
        by (rule map_res_total) (rule IH(1) [OF ne True _ "1.prems"])
      then obtain ds where ds: "map_res (classify_license pol) (split_operands ?raw '' OR '') = Inr ds" ..
      then have "ds \<noteq> []"
        using split_operands_nonempty [OF idem ne True] by (auto simp: map_res_Inr_iff)
      with ds show ?thesis
        by (subst classify_license.simps) (simp add: Let_def ne True pick_operand_Inr)
    next
      case nOR: False
      show ?thesis
      proof (cases "contains '' AND '' (upper ?raw)")
        case True
        have "\<exists>ds. map_res (classify_license pol) (split_operands ?raw '' AND '') = Inr ds"
          by (rule map_res_total) (rule IH(2) [OF ne nOR True _ "1.prems"])
        then obtain ds where ds: "map_res (classify_license pol) (split_operands ?raw '' AND '') = Inr ds" ..
        then have "ds \<noteq> []"
          using split_operands_nonempty [OF idem ne True] by (auto simp: map_res_Inr_iff)
        with ds show ?thesis
          by (subst classify_license.simps) (simp add: Let_def ne nOR True pick_operand_Inr)
      next
        case False
        have "\<exists>a. dget ACTION_BY_CLASS c = Some a" if "dget (lp_spdx_to_class pol) k = Some c" for k c
          using dget_Some_mem [OF that] "1.prems"
          by (cases c) (force simp: ACTION_BY_CLASS_def dvalues_def)+
        with ne nOR False show ?thesis
          by (subst classify_license.simps) (fastforce simp: Let_def split: option.split)
      qed
    qed
  qed (subst classify_license.simps, simp)
qed


theorem classify_total_witness:
  "\<exists>d. classify_license
     \<lparr>lp_class_to_spdx = [], lp_unknown_action = PStr ''block'', lp_arms_length = [],
      lp_spdx_to_class = [(''mit'', GREEN)]\<rparr> ''(MIT OR ()) AND'' = Inr d"
  by (rule classify_total) (simp add: dvalues_def)

text \<open>
  of licenses the table knows, joined by OR, the class of the expression is the most permissive
  one of its operands, with the action the policy prescribes for that class.
\<close>

theorem or_most_permissive:
  assumes "2 \<le> length as" and "known_atoms pol cls as"
  shows "\<exists>d. classify_license pol (join '' OR '' as) = Inr d \<and>
    class_severity (pd_license_class d) = Min (class_severity ` cls ` set as) \<and>
    dget ACTION_BY_CLASS (pd_license_class d) = Some (pd_action d)"
proof -
  let ?s = "join '' OR '' as"
  have at: "\<forall>a \<in> set as. spdx_atom a" using assms(2) by (auto simp: known_atoms_def)
  have ne: "as \<noteq> []" using assms(1) by auto
  have ops: "split_operands ?s '' OR '' = as"
    by (rule split_operands_join [OF at ne]) code_simp
  have has: "contains '' OR '' (upper ?s)" by (rule join_contains [OF assms(1)]) code_simp
  then have "?s \<noteq> []" by (auto simp: upper_def)
  from assms(2) obtain ds where ds: "map_res (classify_license pol) as = Inr ds"
    and cl: "pd_license_class ` set ds = cls ` set as"
    and act: "\<forall>d \<in> set ds. dget ACTION_BY_CLASS (pd_license_class d) = Some (pd_action d)"
    by (rule classify_known)
  have "ds \<noteq> []" using cl ne by auto
  then obtain d where d: "pick_operand class_severity ?s ''OR -> most permissive: '' ds = Inr d"
    using pick_operand_Inr by blast
  note least = pick_operand_least [OF d]
  have "class_severity (pd_license_class d) = Min (class_severity ` cls ` set as)"
    unfolding cl [symmetric] using least by (intro Min_eqI [symmetric]) auto
  moreover have "dget ACTION_BY_CLASS (pd_license_class d) = Some (pd_action d)"
    using least(1) act by auto
  moreover have "classify_license pol ?s = Inr d"
    by (subst classify_license.simps)
       (simp only: Let_def strip_join [OF at ne] \<open>?s \<noteq> []\<close> has ops ds d bind_res_simps if_True if_False)
  ultimately show ?thesis by blast
qed

text \<open>
  joined by AND, the class is the most restrictive one (no operand reading OR).
\<close>

theorem and_most_restrictive:
  assumes "2 \<le> length as" and "known_atoms pol cls as"
    and "\<not> contains '' OR '' (upper (join '' AND '' as))"
  shows "\<exists>d. classify_license pol (join '' AND '' as) = Inr d \<and>
    class_severity (pd_license_class d) = Max (class_severity ` cls ` set as) \<and>
    dget ACTION_BY_CLASS (pd_license_class d) = Some (pd_action d)"
proof -
  let ?s = "join '' AND '' as"
  have at: "\<forall>a \<in> set as. spdx_atom a" using assms(2) by (auto simp: known_atoms_def)
  have ne: "as \<noteq> []" using assms(1) by auto
  have ops: "split_operands ?s '' AND '' = as"
    by (rule split_operands_join [OF at ne]) code_simp
  have has: "contains '' AND '' (upper ?s)" by (rule join_contains [OF assms(1)]) code_simp
  then have "?s \<noteq> []" by (auto simp: upper_def)
  from assms(2) obtain ds where ds: "map_res (classify_license pol) as = Inr ds"
    and cl: "pd_license_class ` set ds = cls ` set as"
    and act: "\<forall>d \<in> set ds. dget ACTION_BY_CLASS (pd_license_class d) = Some (pd_action d)"
    by (rule classify_known)
  have "ds \<noteq> []" using cl ne by auto
  then obtain d where
    d: "pick_operand (\<lambda>c. - class_severity c) ?s ''AND -> most restrictive: '' ds = Inr d"
    using pick_operand_Inr by blast
  note least = pick_operand_least [OF d]
  have "class_severity (pd_license_class d) = Max (class_severity ` cls ` set as)"
    unfolding cl [symmetric] using least by (intro Max_eqI [symmetric]) auto
  moreover have "dget ACTION_BY_CLASS (pd_license_class d) = Some (pd_action d)"
    using least(1) act by auto
  moreover have "classify_license pol ?s = Inr d"
    by (subst classify_license.simps)
       (simp only: Let_def strip_join [OF at ne] \<open>?s \<noteq> []\<close> has assms(3) ops ds d bind_res_simps
          if_True if_False)
  ultimately show ?thesis by blast
qed

definition demo_policy :: LicensePolicy where
  "demo_policy =
     \<lparr>lp_class_to_spdx = [(GREEN, [PStr ''MIT'']), (RED, [PStr ''AGPL-3.0-only''])],
      lp_unknown_action = PStr ''block'', lp_arms_length = [PStr ''container_cli''],
      lp_spdx_to_class = [(''mit'', GREEN), (''agpl-3.0-only'', RED)]\<rparr>"

definition demo_class :: "string \<Rightarrow> LicenseClass" where
  "demo_class a = (if a = ''MIT'' then GREEN else RED)"

lemma demo_atoms: "known_atoms demo_policy demo_class [''AGPL-3.0-only'', ''MIT'']"
  unfolding known_atoms_def by code_simp

theorem or_most_permissive_witness:
  "\<exists>d. classify_license demo_policy (join '' OR '' [''AGPL-3.0-only'', ''MIT'']) = Inr d \<and>
       class_severity (pd_license_class d) = 0"
  using or_most_permissive [OF _ demo_atoms] by (auto simp: demo_class_def)

theorem and_most_restrictive_witness:
  "\<exists>d. classify_license demo_policy (join '' AND '' [''AGPL-3.0-only'', ''MIT'']) = Inr d \<and>
       class_severity (pd_license_class d) = 3"
proof -
  have "\<not> contains '' OR '' (upper (join '' AND '' [''AGPL-3.0-only'', ''MIT'']))" by code_simp
  from and_most_restrictive [OF _ demo_atoms this] show ?thesis by (auto simp: demo_class_def)
qed

text \<open>
  parentheses are not respected: an expression in which the blocked license is
  required is split at the inner OR first and comes out as allowed.
\<close>

theorem parenthesised_and_bypass:
  "map_sum id (\<lambda>d. (pd_license_class d, pd_action d))
     (classify_license demo_policy ''(MIT OR GPL-3.0-only) AND AGPL-3.0-only'') =
   Inr (GREEN, PStr ''allow'')"
  by code_simp

end
