(* ===== verification/Inventory.thy ===== *)
theory Inventory
  imports License_Policy
begin

text \<open>
  The third-party inventory and its license gate (\<open>vantage/governance/inventory.py\<close>).  An
  inventory is its record here; the theory \<open>Loading\<close> makes it of the parsed file.
\<close>

datatype InventoryIntegration =
  LIBRARY_STATIC | LIBRARY_DYNAMIC | INV_CONTAINER_CLI | INV_CONTAINER_API | CONTENT | BUILD_ONLY

fun inventory_integration_value :: "InventoryIntegration \<Rightarrow> string" where
  "inventory_integration_value LIBRARY_STATIC = ''library_static''"
| "inventory_integration_value LIBRARY_DYNAMIC = ''library_dynamic''"
| "inventory_integration_value INV_CONTAINER_CLI = ''container_cli''"
| "inventory_integration_value INV_CONTAINER_API = ''container_api''"
| "inventory_integration_value CONTENT = ''content''"
| "inventory_integration_value BUILD_ONLY = ''build_only''"

record Component =
  co_name :: string
  co_version :: string
  co_repository :: string
  co_license :: string
  co_copyright :: string
  co_integration_type :: InventoryIntegration
  co_source_distribution_required :: bool
  co_modification_required :: bool
  co_network_service :: bool
  co_static_linking :: bool
  co_dynamic_linking :: bool
  co_containerized :: bool
  co_redistribution_allowed :: bool
  co_commercial_risk :: string
  co_approval_status :: ApprovalStatus
  co_approval_reference :: string
  co_notes :: string

record Inventory =
  inv_version :: int
  inv_components :: "Component list"

record Violation =
  vi_component :: string
  vi_version :: string
  vi_severity :: string
  vi_code :: string
  vi_message :: string

record CheckReport =
  cr_violations :: "Violation list"
  cr_checked :: nat

definition cr_errors :: "CheckReport \<Rightarrow> Violation list" where
  "cr_errors r = List.filter (\<lambda>v. vi_severity v = ''error'') (cr_violations r)"

definition cr_warnings :: "CheckReport \<Rightarrow> Violation list" where
  "cr_warnings r = List.filter (\<lambda>v. vi_severity v = ''warning'') (cr_violations r)"

definition cr_ok :: "CheckReport \<Rightarrow> bool" where
  "cr_ok r \<longleftrightarrow> cr_errors r = []"

definition violation :: "Component \<Rightarrow> string \<Rightarrow> string \<Rightarrow> string \<Rightarrow> Violation" where
  "violation cmp severity code message =
     \<lparr>vi_component = co_name cmp, vi_version = co_version cmp, vi_severity = severity,
      vi_code = code, vi_message = message\<rparr>"

definition is_arms_length :: "LicensePolicy \<Rightarrow> Component \<Rightarrow> bool" where
  "is_arms_length pol cmp \<longleftrightarrow>
     PStr (inventory_integration_value (co_integration_type cmp)) \<in> set (lp_arms_length pol)"

text \<open>The body of the loop: the violations of one component.\<close>

definition check_component :: "LicensePolicy \<Rightarrow> Component \<Rightarrow> Violation list res" where
  "check_component pol cmp =
     bind_res (classify_license pol (co_license cmp)) (\<lambda>decision. Inr (
       case pd_license_class decision of
         UNKNOWN \<Rightarrow>
           [violation cmp ''error'' ''license.unknown''
              (''License '' @ in_quotes (co_license cmp) @ '' is not classified by policy (''
               @ pd_reason decision
               @ ''); add it to the policy table and record a review.'')]
       | RED \<Rightarrow>
           if is_arms_length pol cmp \<and> co_approval_status cmp = APPROVED
           then violation cmp ''warning'' ''license.red.arms_length_approved''
                  (''RED license '' @ in_quotes (co_license cmp) @ '' shipped as isolated ''
                   @ inventory_integration_value (co_integration_type cmp)
                   @ '' under recorded approval ''
                   @ sor (co_approval_reference cmp) ''(missing ref)'' @ ''.'')
                # (if co_approval_reference cmp = []
                   then [violation cmp ''error'' ''license.approval.no_reference''
                           ''Approved component is missing approval_reference.'']
                   else [])
           else [violation cmp ''error'' ''license.red.blocked''
                   (''RED license '' @ in_quotes (co_license cmp) @ '' cannot ship as ''
                    @ inventory_integration_value (co_integration_type cmp)
                    @ '' (approval='' @ approval_value (co_approval_status cmp)
                    @ ''). Isolate as an unmodified container engine and record legal approval, ''
                    @ ''or replace the component.'')]
       | YELLOW \<Rightarrow>
           if co_approval_status cmp \<noteq> APPROVED
           then [violation cmp ''error'' ''license.yellow.needs_review''
                   (''YELLOW license '' @ in_quotes (co_license cmp)
                    @ '' requires recorded approval before distribution (current: ''
                    @ approval_value (co_approval_status cmp) @ '').'')]
           else []
       | GREEN \<Rightarrow>
           if co_approval_status cmp = REJECTED
           then [violation cmp ''error'' ''component.rejected''
                   ''Component is marked rejected but still present in the inventory.'']
           else []))"

definition check_inventory :: "Inventory \<Rightarrow> LicensePolicy \<Rightarrow> CheckReport res" where
  "check_inventory ivt pol =
     bind_res (map_res (check_component pol) (inv_components ivt)) (\<lambda>vs.
       Inr \<lparr>cr_violations = concat vs, cr_checked = length (inv_components ivt)\<rparr>)"

subsection \<open>What the gate lets pass\<close>

definition component_admissible :: "LicensePolicy \<Rightarrow> Component \<Rightarrow> bool" where
  "component_admissible pol cmp \<longleftrightarrow>
     (case classify_license pol (co_license cmp) of
        Inl _ \<Rightarrow> False
      | Inr d \<Rightarrow>
          (case pd_license_class d of
             UNKNOWN \<Rightarrow> False
           | RED \<Rightarrow> is_arms_length pol cmp \<and> co_approval_status cmp = APPROVED \<and>
                    co_approval_reference cmp \<noteq> []
           | YELLOW \<Rightarrow> co_approval_status cmp = APPROVED
           | GREEN \<Rightarrow> co_approval_status cmp \<noteq> REJECTED))"

lemma violation_simps [simp]:
  "vi_severity (violation c s k m) = s" "vi_code (violation c s k m) = k"
  "vi_component (violation c s k m) = co_name c"
  by (simp_all add: violation_def)

lemma check_component_ok:
  assumes "check_component pol cmp = Inr vs"
  shows "(\<forall>v \<in> set vs. vi_severity v \<noteq> ''error'') \<longleftrightarrow> component_admissible pol cmp"
proof -
  from assms obtain d where d: "classify_license pol (co_license cmp) = Inr d"
    by (auto simp: check_component_def bind_res_Inr_iff simp del: append_Cons)
  note vs = assms [unfolded check_component_def d bind_res_simps, symmetric, THEN Inr_inject]
  show ?thesis
  proof (cases "pd_license_class d")
    case GREEN
    then show ?thesis by (simp add: vs component_admissible_def d)
  next
    case YELLOW
    then show ?thesis by (simp add: vs component_admissible_def d)
  next
    case RED
    then show ?thesis by (simp add: vs component_admissible_def d) blast
  next
    case UNKNOWN
    then show ?thesis by (simp add: vs component_admissible_def d)
  qed
qed

lemma list_all2_ball:
  "list_all2 (\<lambda>x y. P x y) xs ys \<Longrightarrow> (\<And>x y. P x y \<Longrightarrow> Q x \<longleftrightarrow> R y) \<Longrightarrow>
     (\<forall>x \<in> set xs. Q x) \<longleftrightarrow> (\<forall>y \<in> set ys. R y)"
  by (induction xs ys rule: list_all2_induct) auto

subsection \<open>Properties\<close>

text \<open>
  the release gate passes exactly the inventories all of whose components are admissible: a known
  license class; RED only as an arms-length component approved with a reference; YELLOW only
  when approved; GREEN unless rejected.
\<close>

theorem inventory_gate:
  assumes "check_inventory ivt pol = Inr report"
  shows "(cr_ok report \<longleftrightarrow> (\<forall>cmp \<in> set (inv_components ivt). component_admissible pol cmp)) \<and>
         cr_checked report = length (inv_components ivt)"
proof -
  from assms obtain vs where vs: "list_all2 (\<lambda>c v. check_component pol c = Inr v) (inv_components ivt) vs"
    and r: "report = \<lparr>cr_violations = concat vs, cr_checked = length (inv_components ivt)\<rparr>"
    by (auto simp: check_inventory_def bind_res_Inr_iff map_res_Inr_iff)
  have "(\<forall>cmp \<in> set (inv_components ivt). component_admissible pol cmp) \<longleftrightarrow>
      (\<forall>v \<in> set vs. \<forall>x \<in> set v. vi_severity x \<noteq> ''error'')"
    by (rule list_all2_ball [OF vs]) (simp add: check_component_ok)
  then show ?thesis by (auto simp: r cr_ok_def cr_errors_def filter_empty_conv)
qed

definition demo_component :: "string \<Rightarrow> ApprovalStatus \<Rightarrow> string \<Rightarrow> Component" where
  "demo_component license status reference =
     \<lparr>co_name = ''lib'', co_version = ''1'', co_repository = [], co_license = license,
      co_copyright = [], co_integration_type = INV_CONTAINER_CLI,
      co_source_distribution_required = False, co_modification_required = False,
      co_network_service = False, co_static_linking = False, co_dynamic_linking = False,
      co_containerized = True, co_redistribution_allowed = True, co_commercial_risk = ''low'',
      co_approval_status = status, co_approval_reference = reference, co_notes = []\<rparr>"

definition demo_inventory :: "Component list \<Rightarrow> Inventory" where
  "demo_inventory cs = \<lparr>inv_version = 1, inv_components = cs\<rparr>"

theorem inventory_gate_witness:
  "map_sum id cr_ok (check_inventory (demo_inventory
     [demo_component ''MIT'' PENDING_REVIEW [], demo_component ''AGPL-3.0-only'' APPROVED ''LEGAL-1'']) demo_policy)
   = Inr True"
proof -
  let ?ivt = "demo_inventory [demo_component ''MIT'' PENDING_REVIEW [],
                              demo_component ''AGPL-3.0-only'' APPROVED ''LEGAL-1'']"
  have "isl (check_inventory ?ivt demo_policy) = False" by code_simp
  then obtain r where r: "check_inventory ?ivt demo_policy = Inr r"
    by (cases "check_inventory ?ivt demo_policy") auto
  have "\<forall>cmp \<in> set (inv_components ?ivt). component_admissible demo_policy cmp" by code_simp
  with inventory_gate [OF r] r show ?thesis by simp
qed

end
