(* ===== verification/Registry.thy ===== *)
theory Registry
  imports License_Policy
begin

text \<open>
  The engine registry (\<open>vantage/engines/registry.py\<close>) and the catalog interface the planner
  sees (\<open>vantage/engines/catalog.py\<close>).  Adapters are opaque values of a type parameter.  Manifests
  and locks are their records here; the theory \<open>Loading\<close> makes them of the parsed files.
\<close>

record EngineManifest =
  mf_id :: string
  mf_name :: string
  mf_vendor :: string
  mf_homepage :: string
  mf_license :: string
  mf_integration :: IntegrationType
  mf_capabilities :: "Capability list"
  mf_adapter :: string
  mf_image :: "string option"
  mf_default_limits :: ResourceLimits
  mf_enabled :: bool
  mf_options_schema :: "(string \<times> pyval) list"

record EngineLockEntry =
  lk_version :: string
  lk_image_digest :: "string option"
  lk_license :: string
  lk_verified_date :: string

type_synonym EngineLock = "(string, EngineLockEntry) dict"

record 'ad RegisteredEngine =
  re_manifest :: EngineManifest
  re_lock :: EngineLockEntry
  re_metadata :: EngineMetadata
  re_adapter :: "'ad option"
  re_problems :: "string list"
  re_notes :: "string list"

definition usable :: "'ad RegisteredEngine \<Rightarrow> bool" where
  "usable e \<longleftrightarrow>
     re_problems e = [] \<and> mf_enabled (re_manifest e) \<and>
     em_approval_status (re_metadata e) = APPROVED"

record 'ad EngineRegistry =
  er_policy :: LicensePolicy
  er_engines :: "(string, 'ad RegisteredEngine) dict"

definition EngineRegistry_init :: "LicensePolicy \<Rightarrow> 'ad EngineRegistry" where
  "EngineRegistry_init policy = \<lparr>er_policy = policy, er_engines = []\<rparr>"

subsection \<open>Registering a manifest\<close>

definition unpinned_lock :: "string \<Rightarrow> EngineManifest \<Rightarrow> EngineLockEntry" where
  "unpinned_lock version m =
     \<lparr>lk_version = version, lk_image_digest = None, lk_license = mf_license m, lk_verified_date = []\<rparr>"

text \<open>\<open>EngineMetadata(\<dots>)\<close>: the identifier constraint may reject it.\<close>

definition engine_metadata ::
  "EngineManifest \<Rightarrow> EngineLockEntry \<Rightarrow> LicenseClass \<Rightarrow> ApprovalStatus \<Rightarrow> string option \<Rightarrow>
   EngineMetadata res" where
  "engine_metadata m lock cls approval img =
     (if \<not> is_identifier (mf_id m) then Inl (ValidationError ''id'')
      else Inr \<lparr>em_id = mf_id m, em_name = mf_name m, em_version = lk_version lock,
                em_vendor = mf_vendor m, em_license_spdx = mf_license m, em_license_class = cls,
                em_approval_status = approval, em_integration = mf_integration m,
                em_capabilities = mf_capabilities m, em_image = img,
                em_homepage = (if mf_homepage m = [] then None else Some (mf_homepage m))\<rparr>)"

definition put_engine ::
  "'ad EngineRegistry \<Rightarrow> EngineManifest \<Rightarrow> EngineLockEntry \<Rightarrow> EngineMetadata \<Rightarrow> string list \<Rightarrow>
   string list \<Rightarrow> 'ad EngineRegistry" where
  "put_engine reg m lock md problems nts =
     reg\<lparr>er_engines := dset (er_engines reg) (mf_id m)
       \<lparr>re_manifest = m, re_lock = lock, re_metadata = md, re_adapter = None,
        re_problems = problems, re_notes = nts\<rparr>\<rparr>"

text \<open>The license branch: the approval status and the problem it adds.\<close>

definition license_gate :: "LicensePolicy \<Rightarrow> EngineManifest \<Rightarrow> LicenseClass \<Rightarrow> ApprovalStatus \<times> string list" where
  "license_gate pol m cls =
     (case cls of
        UNKNOWN \<Rightarrow> (REJECTED, [''license '' @ in_quotes (mf_license m) @ '' is UNKNOWN to policy''])
      | RED \<Rightarrow>
          if PStr (integration_value (mf_integration m)) \<in> set (lp_arms_length pol)
          then (PENDING_REVIEW, [''RED license '' @ in_quotes (mf_license m)
                  @ '' allowed only as isolated engine after recorded legal approval''])
          else (REJECTED, [''RED license '' @ in_quotes (mf_license m) @ '' cannot be embedded (''
                  @ integration_value (mf_integration m) @ '')''])
      | YELLOW \<Rightarrow> (PENDING_REVIEW, [''YELLOW license '' @ in_quotes (mf_license m)
                  @ '' requires recorded review''])
      | GREEN \<Rightarrow> (APPROVED, []))"

definition lock_problems :: "EngineManifest \<Rightarrow> EngineLockEntry \<Rightarrow> string list" where
  "lock_problems m lock =
     (if lk_license lock \<noteq> [] \<and> lk_license lock \<noteq> mf_license m
      then [''license mismatch: manifest='' @ mf_license m @ '' lock='' @ lk_license lock] else [])"

definition image_problems :: "EngineManifest \<Rightarrow> EngineLockEntry \<Rightarrow> string list" where
  "image_problems m lock =
     (if mf_integration m \<in> {CONTAINER_CLI, CONTAINER_API}
      then (if osor (mf_image m) [] = [] then [''containerized engine has no image'']
            else if osor (lk_image_digest lock) [] \<noteq> [] \<and> \<not> contains ''@sha256:'' (osor (mf_image m) [])
            then [''image is not pinned by digest'']
            else [])
      else [])"

definition lock_or :: "string \<Rightarrow> EngineLock \<Rightarrow> EngineManifest \<Rightarrow> EngineLockEntry" where
  "lock_or version locks m =
     (case dget locks (mf_id m) of Some l \<Rightarrow> l | None \<Rightarrow> unpinned_lock version m)"

definition pin_problems :: "EngineLock \<Rightarrow> EngineManifest \<Rightarrow> string list" where
  "pin_problems locks m =
     (case dget locks (mf_id m) of Some _ \<Rightarrow> [] | None \<Rightarrow> [''not pinned in engine-lock.yaml''])"

definition register_native ::
  "'ad EngineRegistry \<Rightarrow> EngineManifest \<Rightarrow> EngineLock \<Rightarrow> 'ad EngineRegistry res" where
  "register_native reg m locks =
     (let lock = lock_or (mf_name m) locks m
      in bind_res (engine_metadata m lock GREEN APPROVED None) (\<lambda>md.
           Inr (put_engine reg m lock md [] [])))"

definition register_external ::
  "'ad EngineRegistry \<Rightarrow> EngineManifest \<Rightarrow> EngineLock \<Rightarrow> 'ad EngineRegistry res" where
  "register_external reg m locks =
     (let lock = lock_or (mf_name m) locks m;
          nts = [''bring-your-own-license: requires a customer-provided, separately licensed ''
                 @ in_quotes (mf_vendor m) @ '' instance; Vantage distributes only the API client'']
      in bind_res (classify_license (er_policy reg) (mf_license m)) (\<lambda>decision.
         bind_res (engine_metadata m lock (pd_license_class decision) APPROVED None) (\<lambda>md.
           Inr (put_engine reg m lock md [] nts))))"

definition register_third_party ::
  "'ad EngineRegistry \<Rightarrow> EngineManifest \<Rightarrow> EngineLock \<Rightarrow> 'ad EngineRegistry res" where
  "register_third_party reg m locks =
     (let lock = lock_or ''UNPINNED'' locks m
      in bind_res (classify_license (er_policy reg) (mf_license m)) (\<lambda>decision.
         (let gate = license_gate (er_policy reg) m (pd_license_class decision);
              problems = pin_problems locks m @ snd gate @ lock_problems m lock @ image_problems m lock
          in bind_res (engine_metadata m lock (pd_license_class decision) (fst gate) (mf_image m))
               (\<lambda>md. Inr (put_engine reg m lock md problems [])))))"

definition register_manifest ::
  "'ad EngineRegistry \<Rightarrow> EngineManifest \<Rightarrow> EngineLock \<Rightarrow> 'ad EngineRegistry res" where
  "register_manifest reg m locks =
     (if mf_integration m = NATIVE then register_native reg m locks
      else if mf_integration m = EXTERNAL_SERVICE then register_external reg m locks
      else register_third_party reg m locks)"

text \<open>\<open>load\<close>: the manifests in the order of their file names.\<close>

fun register_all ::
  "'ad EngineRegistry \<Rightarrow> EngineManifest list \<Rightarrow> EngineLock \<Rightarrow> 'ad EngineRegistry res" where
  "register_all reg [] locks = Inr reg"
| "register_all reg (m # ms) locks =
     bind_res (register_manifest reg m locks) (\<lambda>reg'. register_all reg' ms locks)"

definition registry_load :: "EngineManifest list \<Rightarrow> EngineLock \<Rightarrow> LicensePolicy \<Rightarrow> 'ad EngineRegistry res" where
  "registry_load manifests locks policy = register_all (EngineRegistry_init policy) manifests locks"

subsection \<open>The other operations\<close>

definition update_engine ::
  "'ad EngineRegistry \<Rightarrow> string \<Rightarrow> ('ad RegisteredEngine \<Rightarrow> 'ad RegisteredEngine) \<Rightarrow>
   'ad EngineRegistry res" where
  "update_engine reg engine_id f =
     (case dget (er_engines reg) engine_id of
        None \<Rightarrow> Inl (KeyError engine_id)
      | Some e \<Rightarrow> Inr (reg\<lparr>er_engines := dset (er_engines reg) engine_id (f e)\<rparr>))"

definition bind_adapter :: "'ad EngineRegistry \<Rightarrow> string \<Rightarrow> 'ad \<Rightarrow> 'ad EngineRegistry res" where
  "bind_adapter reg engine_id adapter =
     update_engine reg engine_id (\<lambda>e. e\<lparr>re_adapter := Some adapter\<rparr>)"

definition enable :: "'ad EngineRegistry \<Rightarrow> string \<Rightarrow> bool \<Rightarrow> 'ad EngineRegistry res" where
  "enable reg engine_id enabled =
     update_engine reg engine_id (\<lambda>e. e\<lparr>re_manifest := re_manifest e\<lparr>mf_enabled := enabled\<rparr>\<rparr>)"

definition approve :: "'ad EngineRegistry \<Rightarrow> string \<Rightarrow> string \<Rightarrow> 'ad EngineRegistry res" where
  "approve reg engine_id reference =
     update_engine reg engine_id (\<lambda>e.
       e\<lparr>re_metadata := re_metadata e\<lparr>em_approval_status := APPROVED\<rparr>,
         re_problems := List.filter (\<lambda>p. \<not> contains ''recorded'' p \<and> \<not> contains ''legal'' p) (re_problems e)
                        @ [''approved: '' @ reference]\<rparr>)"

definition registry_all :: "'ad EngineRegistry \<Rightarrow> 'ad RegisteredEngine list" where
  "registry_all reg = dvalues (er_engines reg)"

definition registry_get :: "'ad EngineRegistry \<Rightarrow> string \<Rightarrow> 'ad RegisteredEngine option" where
  "registry_get reg engine_id = dget (er_engines reg) engine_id"

definition enabled_engines :: "'ad EngineRegistry \<Rightarrow> EngineMetadata list" where
  "enabled_engines reg =
     List.map re_metadata (List.filter (\<lambda>e. usable e \<and> re_adapter e \<noteq> None) (registry_all reg))"

definition engines_for :: "'ad EngineRegistry \<Rightarrow> Capability \<Rightarrow> EngineMetadata list" where
  "engines_for reg capability =
     (let found = List.filter (\<lambda>e. usable e \<and> re_adapter e \<noteq> None \<and>
                      capability \<in> set (em_capabilities (re_metadata e))) (registry_all reg)
      in List.map re_metadata
           (sort_key (\<lambda>e. if em_integration (re_metadata e) = NATIVE then 0 else (1::int)) found))"

definition adapter_for :: "'ad EngineRegistry \<Rightarrow> string \<Rightarrow> 'ad option" where
  "adapter_for reg engine_id =
     (case dget (er_engines reg) engine_id of
        None \<Rightarrow> None
      | Some e \<Rightarrow> if usable e then re_adapter e else None)"

subsection \<open>The catalog interface\<close>

locale catalog =
  fixes enabled :: "EngineMetadata list"
    and for_capability :: "Capability \<Rightarrow> EngineMetadata list"
  assumes for_capability_set:
    "set (for_capability c) = {e \<in> set enabled. c \<in> set (em_capabilities e)}"
begin

lemma for_capability_enabled: "e \<in> set (for_capability c) \<Longrightarrow> e \<in> set enabled"
  by (simp add: for_capability_set)

lemma for_capability_advertises: "e \<in> set (for_capability c) \<Longrightarrow> c \<in> set (em_capabilities e)"
  by (simp add: for_capability_set)

lemma for_capability_empty:
  "for_capability c = [] \<longleftrightarrow> (\<forall>e \<in> set enabled. c \<notin> set (em_capabilities e))"
  unfolding set_empty [of "for_capability c", symmetric] for_capability_set by blast

end

text \<open>\<open>StaticCatalog\<close>.\<close>

definition static_enabled_engines :: "EngineMetadata list \<Rightarrow> EngineMetadata list" where
  "static_enabled_engines engines = engines"

definition static_engines_for :: "EngineMetadata list \<Rightarrow> Capability \<Rightarrow> EngineMetadata list" where
  "static_engines_for engines capability =
     List.filter (\<lambda>e. capability \<in> set (em_capabilities e)) engines"

interpretation static_cat: catalog "static_enabled_engines es" "static_engines_for es" for es
  by unfold_locales (auto simp: static_enabled_engines_def static_engines_for_def)

interpretation reg_cat: catalog "enabled_engines reg" "engines_for reg" for reg :: "'ad EngineRegistry"
  by unfold_locales (auto simp: enabled_engines_def engines_for_def Let_def)


subsection \<open>Registries reached by the operations\<close>

text \<open>The calls that change a registry.\<close>

datatype 'ad registry_call =
    Register EngineManifest EngineLock
  | Bind string 'ad
  | Enable string bool
  | Approve string string

fun registry_step :: "'ad registry_call \<Rightarrow> 'ad EngineRegistry \<Rightarrow> 'ad EngineRegistry res" where
  "registry_step (Register m locks) reg = register_manifest reg m locks"
| "registry_step (Bind i a) reg = bind_adapter reg i a"
| "registry_step (Enable i b) reg = enable reg i b"
| "registry_step (Approve i ref) reg = approve reg i ref"

inductive registry_reachable :: "LicensePolicy \<Rightarrow> 'ad EngineRegistry \<Rightarrow> bool" for pol where
  init: "registry_reachable pol (EngineRegistry_init pol)"
| step: "registry_reachable pol reg \<Longrightarrow> registry_step call reg = Inr reg' \<Longrightarrow>
         registry_reachable pol reg'"

definition third_party :: "'ad RegisteredEngine \<Rightarrow> bool" where
  "third_party e \<longleftrightarrow> mf_integration (re_manifest e) \<notin> {NATIVE, EXTERNAL_SERVICE}"

text \<open>
  An entry without problems is first-party or external, or it went through every gate of
  \<open>_register_manifest\<close>.
\<close>

definition entry_ok :: "LicensePolicy \<Rightarrow> 'ad RegisteredEngine \<Rightarrow> bool" where
  "entry_ok pol e \<longleftrightarrow>
     (re_problems e = [] \<and> third_party e \<longrightarrow>
        (\<exists>d. classify_license pol (mf_license (re_manifest e)) = Inr d \<and> pd_license_class d = GREEN) \<and>
        (lk_license (re_lock e) \<noteq> [] \<longrightarrow> lk_license (re_lock e) = mf_license (re_manifest e)) \<and>
        (mf_integration (re_manifest e) \<in> {CONTAINER_CLI, CONTAINER_API} \<longrightarrow>
           osor (mf_image (re_manifest e)) [] \<noteq> []))"

definition registry_ok :: "LicensePolicy \<Rightarrow> 'ad EngineRegistry \<Rightarrow> bool" where
  "registry_ok pol reg \<longleftrightarrow>
     er_policy reg = pol \<and> dict_ok (er_engines reg) \<and>
     (\<forall>(i, e) \<in> set (er_engines reg). entry_ok pol e \<and> em_id (re_metadata e) = i)"

lemma registry_ok_put:
  assumes "registry_ok pol reg" "entry_ok pol e" "em_id (re_metadata e) = i"
  shows "registry_ok pol (reg\<lparr>er_engines := dset (er_engines reg) i e\<rparr>)"
  using assms by (auto simp: registry_ok_def set_dset_ok)

lemma registry_ok_update:
  assumes "registry_ok pol reg" "update_engine reg i f = Inr reg'" "\<And>e. entry_ok pol e \<Longrightarrow> entry_ok pol (f e)"
    "\<And>e. em_id (re_metadata (f e)) = em_id (re_metadata e)"
  shows "registry_ok pol reg'"
proof -
  from assms(2) obtain e where e: "dget (er_engines reg) i = Some e"
    "reg' = reg\<lparr>er_engines := dset (er_engines reg) i (f e)\<rparr>"
    by (auto simp: update_engine_def split: option.splits)
  from dget_Some_mem [OF e(1)] assms(1) have "entry_ok pol e" "em_id (re_metadata e) = i"
    by (auto simp: registry_ok_def)
  with assms(1,3,4) show ?thesis unfolding e(2) by (intro registry_ok_put) auto
qed

lemma engine_metadata_id: "engine_metadata m lock cls ap img = Inr md \<Longrightarrow> em_id md = mf_id m"
  by (auto simp: engine_metadata_def split: if_splits)

lemma register_manifest_put:
  assumes "register_manifest reg m locks = Inr reg'"
  obtains lock md problems nts where "reg' = put_engine reg m lock md problems nts"
    and "em_id md = mf_id m" and "problems = [] \<and> mf_integration m \<notin> {NATIVE, EXTERNAL_SERVICE} \<longrightarrow>
      (\<exists>d. classify_license (er_policy reg) (mf_license m) = Inr d \<and> pd_license_class d = GREEN) \<and>
      pin_problems locks m = [] \<and> lock_problems m lock = [] \<and> image_problems m lock = []"
proof -
  consider "mf_integration m = NATIVE" | "mf_integration m = EXTERNAL_SERVICE"
    | "mf_integration m \<notin> {NATIVE, EXTERNAL_SERVICE}" by auto
  then show thesis
  proof cases
    case 1
    with assms that show ?thesis
      by (auto simp: register_manifest_def register_native_def bind_res_Inr_iff Let_def engine_metadata_id)
  next
    case 2
    with assms that show ?thesis
      by (auto simp: register_manifest_def register_external_def bind_res_Inr_iff Let_def engine_metadata_id)
  next
    case 3
    with assms have "register_third_party reg m locks = Inr reg'" by (simp add: register_manifest_def)
    then obtain d md where d: "classify_license (er_policy reg) (mf_license m) = Inr d"
      and reg': "reg' = put_engine reg m (lock_or ''UNPINNED'' locks m) md
        (pin_problems locks m @ snd (license_gate (er_policy reg) m (pd_license_class d)) @
         lock_problems m (lock_or ''UNPINNED'' locks m) @ image_problems m (lock_or ''UNPINNED'' locks m)) []"
      and em: "em_id md = mf_id m"
      by (simp add: register_third_party_def bind_res_Inr_iff Let_def) (blast dest: engine_metadata_id)
    have "pd_license_class d = GREEN" if "snd (license_gate (er_policy reg) m (pd_license_class d)) = []"
      using that by (simp add: license_gate_def split: LicenseClass.splits if_splits)
    with d em show ?thesis by (intro that [OF reg']) auto
  qed
qed

lemma lock_problems_Nil:
  "lock_problems m lock = [] \<Longrightarrow> lk_license lock = [] \<or> lk_license lock = mf_license m"
  by (simp add: lock_problems_def split: if_splits)

lemma image_problems_Nil:
  "image_problems m lock = [] \<Longrightarrow> mf_integration m \<in> {CONTAINER_CLI, CONTAINER_API} \<Longrightarrow>
     osor (mf_image m) [] \<noteq> []"
  by (simp add: image_problems_def split: if_splits)

lemma register_manifest_ok:
  assumes "registry_ok pol reg" "register_manifest reg m locks = Inr reg'"
  shows "registry_ok pol reg'"
proof -
  from assms(2) obtain lock md problems nts where reg': "reg' = put_engine reg m lock md problems nts" and em: "em_id md = mf_id m"
    and clean: "problems = [] \<and> mf_integration m \<notin> {NATIVE, EXTERNAL_SERVICE} \<longrightarrow>
      (\<exists>d. classify_license (er_policy reg) (mf_license m) = Inr d \<and> pd_license_class d = GREEN) \<and>
      pin_problems locks m = [] \<and> lock_problems m lock = [] \<and> image_problems m lock = []"
    by (rule register_manifest_put)
  from assms(1) have "er_policy reg = pol" by (simp add: registry_ok_def)
  have "entry_ok pol \<lparr>re_manifest = m, re_lock = lock, re_metadata = md, re_adapter = None,
      re_problems = problems, re_notes = nts\<rparr>"
    using clean \<open>er_policy reg = pol\<close> lock_problems_Nil [of m lock] image_problems_Nil [of m lock]
    by (auto simp: entry_ok_def third_party_def)
  then show ?thesis unfolding reg' put_engine_def by (rule registry_ok_put [OF assms(1)]) (simp add: em)
qed

lemma registry_step_ok:
  assumes "registry_ok pol reg" "registry_step call reg = Inr reg'"
  shows "registry_ok pol reg'"
proof (cases call)
  case (Register m locks)
  with assms register_manifest_ok show ?thesis by simp
next
  case (Bind i a)
  with assms(2) have "update_engine reg i (\<lambda>e. e\<lparr>re_adapter := Some a\<rparr>) = Inr reg'"
    by (simp add: bind_adapter_def)
  with assms(1) show ?thesis
    by (rule registry_ok_update) (simp_all add: entry_ok_def third_party_def)
next
  case (Enable i b)
  with assms(2) have "update_engine reg i (\<lambda>e. e\<lparr>re_manifest := re_manifest e\<lparr>mf_enabled := b\<rparr>\<rparr>) = Inr reg'"
    by (simp add: enable_def)
  with assms(1) show ?thesis
    by (rule registry_ok_update) (simp_all add: entry_ok_def third_party_def)
next
  case (Approve i ref)
  with assms(2) have "approve reg i ref = Inr reg'" by simp
  with assms(1) show ?thesis
    unfolding approve_def by (rule registry_ok_update) (simp_all add: entry_ok_def)
qed

lemma reachable_ok: "registry_reachable pol reg \<Longrightarrow> registry_ok pol reg"
proof (induction rule: registry_reachable.induct)
  case init
  then show ?case by (simp add: registry_ok_def EngineRegistry_init_def)
next
  case (step reg call reg')
  then show ?case using registry_step_ok by blast
qed


fun registry_run :: "'ad registry_call list \<Rightarrow> 'ad EngineRegistry \<Rightarrow> 'ad EngineRegistry res" where
  "registry_run [] reg = Inr reg"
| "registry_run (call # calls) reg = bind_res (registry_step call reg) (registry_run calls)"

definition stuck :: "string \<Rightarrow> 'ad EngineRegistry \<Rightarrow> bool" where
  "stuck i reg \<longleftrightarrow> (\<exists>e. dget (er_engines reg) i = Some e \<and> re_problems e \<noteq> [])"

lemma stuck_update:
  assumes "stuck i reg" "update_engine reg j f = Inr reg'"
    and "\<And>e. re_problems e \<noteq> [] \<Longrightarrow> re_problems (f e) \<noteq> []"
  shows "stuck i reg'"
  using assms by (auto simp: stuck_def update_engine_def split: option.splits)

lemma stuck_step:
  assumes "stuck i reg" "registry_step call reg = Inr reg'"
    and "\<And>m locks. call = Register m locks \<Longrightarrow> mf_id m \<noteq> i"
  shows "stuck i reg'"
proof (cases call)
  case (Register m locks)
  with assms(2) obtain lock md problems nts where "reg' = put_engine reg m lock md problems nts"
    using register_manifest_put by (metis registry_step.simps(1))
  with assms(1) assms(3) [OF Register] show ?thesis by (simp add: stuck_def put_engine_def)
next
  case (Bind j a)
  with assms(2) have "bind_adapter reg j a = Inr reg'" by simp
  from stuck_update [OF assms(1) this [unfolded bind_adapter_def]] show ?thesis by simp
next
  case (Enable j b)
  with assms(2) have "enable reg j b = Inr reg'" by simp
  from stuck_update [OF assms(1) this [unfolded enable_def]] show ?thesis by simp
next
  case (Approve j ref)
  with assms(2) have "approve reg j ref = Inr reg'" by simp
  from stuck_update [OF assms(1) this [unfolded approve_def]] show ?thesis by simp
qed

lemma stuck_run:
  "stuck i reg \<Longrightarrow> registry_run calls reg = Inr reg' \<Longrightarrow>
     \<forall>m locks. Register m locks \<in> set calls \<longrightarrow> mf_id m \<noteq> i \<Longrightarrow> stuck i reg'"
proof (induction calls arbitrary: reg)
  case (Cons call calls)
  then obtain r where r: "registry_step call reg = Inr r" "registry_run calls r = Inr reg'"
    by (auto simp: bind_res_Inr_iff)
  have "stuck i r" by (rule stuck_step [OF Cons.prems(1) r(1)]) (use Cons.prems(3) in auto)
  with r(2) Cons.prems(3) show ?case by (intro Cons.IH) auto
qed simp

subsection \<open>Properties\<close>


text \<open>
  C21: recording an approval never makes an engine usable: \<open>approve\<close> leaves a note among the
  blocking problems, so after it the engine stays unusable through every later enable, bind and
  approval, until its manifest is registered again.
\<close>

theorem approve_blocks:
  assumes "approve reg i ref = Inr reg'" and "registry_run calls reg' = Inr reg''"
    and "\<forall>m locks. Register m locks \<in> set calls \<longrightarrow> mf_id m \<noteq> i"
  shows "\<exists>e. registry_get reg'' i = Some e \<and> \<not> usable e \<and> adapter_for reg'' i = None"
proof -
  have "stuck i reg'"
    using assms(1) by (auto simp: approve_def update_engine_def stuck_def split: option.splits)
  from stuck_run [OF this assms(2,3)] show ?thesis
    by (auto simp: stuck_def registry_get_def usable_def adapter_for_def)
qed

lemma sort_key_01: "sort_key (\<lambda>x. if P x then 0 else (1::int)) xs = filter P xs @ filter (\<lambda>x. \<not> P x) xs"
proof (rule properties_for_sort_key)
  show "mset (filter P xs @ filter (\<lambda>x. \<not> P x) xs) = mset xs" by simp
  show "sorted (map (\<lambda>x. if P x then 0 else (1::int)) (filter P xs @ filter (\<lambda>x. \<not> P x) xs))"
  proof -
    let ?k = "\<lambda>x. if P x then 0 else (1::int)"
    have "sorted (map ?k (filter P xs))" "sorted (map ?k (filter (\<lambda>x. \<not> P x) xs))"
      by (induction xs) auto
    then show ?thesis by (auto simp: sorted_append)
  qed
qed (auto intro: filter_cong)

text \<open>
  the engines offered for a capability are the enabled ones that advertise it, first-party
  engines before the others, each group in registration order.
\<close>

theorem engines_for_native_first:
  "engines_for reg c =
     (let offered = filter (\<lambda>m. c \<in> set (em_capabilities m)) (enabled_engines reg)
      in filter (\<lambda>m. em_integration m = NATIVE) offered @
         filter (\<lambda>m. em_integration m \<noteq> NATIVE) offered)"
  by (simp add: engines_for_def enabled_engines_def sort_key_01 filter_map comp_def Let_def conj_assoc
      conj_commute conj_left_commute)

definition demo_manifest :: EngineManifest where
  "demo_manifest =
     \<lparr>mf_id = ''tool'', mf_name = ''Tool'', mf_vendor = ''v'', mf_homepage = [], mf_license = ''MIT'',
      mf_integration = CONTAINER_CLI, mf_capabilities = [AUDIT_TEMPLATES], mf_adapter = ''a'',
      mf_image = Some ''r/tool@sha256:ab'',
      mf_default_limits = \<lparr>lim_cpus = 1, lim_memory_mb = 1024, lim_pids = 512,
        lim_timeout_seconds = 3600, lim_max_output_bytes = 1024, lim_tmpfs_mb = 512\<rparr>,
      mf_enabled = True, mf_options_schema = []\<rparr>"

definition demo_lock :: EngineLock where
  "demo_lock = [(''tool'', \<lparr>lk_version = ''1'', lk_image_digest = Some ''sha256:ab'',
                            lk_license = ''MIT'', lk_verified_date = []\<rparr>)]"

definition demo_entry :: "unit RegisteredEngine" where
  "demo_entry =
     \<lparr>re_manifest = demo_manifest,
      re_lock = \<lparr>lk_version = ''1'', lk_image_digest = Some ''sha256:ab'', lk_license = ''MIT'',
                 lk_verified_date = []\<rparr>,
      re_metadata = \<lparr>em_id = ''tool'', em_name = ''Tool'', em_version = ''1'', em_vendor = ''v'',
        em_license_spdx = ''MIT'', em_license_class = GREEN, em_approval_status = APPROVED,
        em_integration = CONTAINER_CLI, em_capabilities = [AUDIT_TEMPLATES],
        em_image = Some ''r/tool@sha256:ab'', em_homepage = None\<rparr>,
      re_adapter = None, re_problems = [], re_notes = []\<rparr>"

definition demo_registry :: "unit EngineRegistry" where
  "demo_registry = \<lparr>er_policy = demo_policy, er_engines = [(''tool'', demo_entry)]\<rparr>"

lemma demo_registry_step:
  "registry_step (Register demo_manifest demo_lock) (EngineRegistry_init demo_policy) = Inr demo_registry"
  by code_simp


theorem approve_blocks_witness:
  "\<exists>r1 r2. approve demo_registry ''tool'' ''LEGAL-7'' = Inr r1 \<and>
     registry_run [Bind ''tool'' (), Enable ''tool'' True] r1 = Inr r2 \<and>
     adapter_for r2 ''tool'' = None"
proof -
  have "isl (approve demo_registry ''tool'' ''LEGAL-7'') = False" by code_simp
  then obtain r1 where r1: "approve demo_registry ''tool'' ''LEGAL-7'' = Inr r1"
    by (cases "approve demo_registry ''tool'' ''LEGAL-7''") auto
  have "isl (bind_res (approve demo_registry ''tool'' ''LEGAL-7'')
      (registry_run [Bind ''tool'' (), Enable ''tool'' True])) = False" by code_simp
  then obtain r2 where r2: "registry_run [Bind ''tool'' (), Enable ''tool'' True] r1 = Inr r2"
    unfolding r1 bind_res_simps
    by (cases "registry_run [Bind ''tool'' (), Enable ''tool'' True] r1") auto
  from approve_blocks [OF r1 r2] have "adapter_for r2 ''tool'' = None" by auto
  with r1 r2 show ?thesis by blast
qed

end
