(* ===== verification/Planner.thy ===== *)
theory Planner
  imports Registry Scope
begin

text \<open>
  The scan planner (\<open>vantage/planner/planner.py\<close>): profile and application kind give the wanted
  capabilities, the catalog gives engines for each, and the tasks are collected into stages.
  The catalog is used through its lookup \<open>for_capability\<close>; fresh task identifiers come from
  \<open>ids\<close>.  The dictionary with one entry per stage kind is a function of the stage kind.
\<close>

fun PROFILE_CAPS :: "ScanProfile \<Rightarrow> Capability list" where
  "PROFILE_CAPS PASSIVE =
     [FINGERPRINT_TECH, CRAWL_HTTP, ANALYSIS_TLS, ANALYSIS_HEADERS, ANALYSIS_SECRETS, AUDIT_PASSIVE]"
| "PROFILE_CAPS STANDARD =
     [FINGERPRINT_TECH, CRAWL_HTTP, DISCOVERY_JS, DISCOVERY_CONTENT, ANALYSIS_TLS, ANALYSIS_HEADERS,
      ANALYSIS_SECRETS, AUDIT_PASSIVE, AUDIT_TEMPLATES, AUDIT_ACTIVE, CAP_VALIDATION]"
| "PROFILE_CAPS DEEP = all_capabilities"

definition KIND_CAPS :: "(ApplicationKind, Capability list) dict" where
  "KIND_CAPS =
     [(TRADITIONAL_WEB, [CRAWL_HTTP, DISCOVERY_CONTENT, AUDIT_ACTIVE, AUDIT_TEMPLATES]),
      (SPA, [CRAWL_BROWSER, DISCOVERY_JS, DISCOVERY_API_SPEC, AUDIT_ACTIVE, AUDIT_TEMPLATES]),
      (REST_API, [DISCOVERY_API_SPEC, AUDIT_API_REST, AUDIT_AUTHZ, AUDIT_TEMPLATES]),
      (GRAPHQL_API, [DISCOVERY_API_SPEC, AUDIT_API_GRAPHQL, AUDIT_AUTHZ]),
      (SOAP_API, [DISCOVERY_API_SPEC, AUDIT_API_SOAP, AUDIT_API_REST]),
      (WEBSOCKET, [AUDIT_WEBSOCKET])]"

definition UNIVERSAL_CAPS :: "Capability list" where
  "UNIVERSAL_CAPS =
     [FINGERPRINT_TECH, ANALYSIS_TLS, ANALYSIS_HEADERS, ANALYSIS_SECRETS, AUDIT_PASSIVE,
      CAP_VALIDATION, OOB_CALLBACK]"

fun CAP_STAGE :: "Capability \<Rightarrow> StageKind" where
  "CAP_STAGE FINGERPRINT_TECH = STAGE_FINGERPRINT"
| "CAP_STAGE DISCOVERY_SUBDOMAIN = STAGE_FINGERPRINT"
| "CAP_STAGE RECON_HTTP = STAGE_FINGERPRINT"
| "CAP_STAGE ANALYSIS_DNS = STAGE_FINGERPRINT"
| "CAP_STAGE CRAWL_HTTP = STAGE_DISCOVERY"
| "CAP_STAGE CRAWL_BROWSER = STAGE_DISCOVERY"
| "CAP_STAGE DISCOVERY_CONTENT = STAGE_DISCOVERY"
| "CAP_STAGE DISCOVERY_JS = STAGE_DISCOVERY"
| "CAP_STAGE DISCOVERY_API_SPEC = STAGE_DISCOVERY"
| "CAP_STAGE ANALYSIS_TLS = STAGE_AUDIT"
| "CAP_STAGE ANALYSIS_HEADERS = STAGE_AUDIT"
| "CAP_STAGE ANALYSIS_SECRETS = STAGE_AUDIT"
| "CAP_STAGE AUDIT_PASSIVE = STAGE_AUDIT"
| "CAP_STAGE AUDIT_ACTIVE = STAGE_AUDIT"
| "CAP_STAGE AUDIT_TEMPLATES = STAGE_AUDIT"
| "CAP_STAGE AUDIT_API_REST = STAGE_AUDIT"
| "CAP_STAGE AUDIT_API_GRAPHQL = STAGE_AUDIT"
| "CAP_STAGE AUDIT_API_SOAP = STAGE_AUDIT"
| "CAP_STAGE AUDIT_WEBSOCKET = STAGE_AUDIT"
| "CAP_STAGE AUDIT_AUTHZ = STAGE_AUDIT"
| "CAP_STAGE OOB_CALLBACK = STAGE_AUDIT"
| "CAP_STAGE CAP_VALIDATION = STAGE_VALIDATION"

definition STAGE_ORDER :: "StageKind list" where
  "STAGE_ORDER = [STAGE_FINGERPRINT, STAGE_DISCOVERY, STAGE_AUDIT, STAGE_VALIDATION]"

record PlannerConfig =
  pc_redundant_engines :: bool

definition wanted_capabilities :: "Target \<Rightarrow> ScanPolicy \<Rightarrow> Capability list" where
  "wanted_capabilities target policy =
     (let profile_caps = (case sp_capabilities policy of
                            Some (c # cs) \<Rightarrow> c # cs
                          | _ \<Rightarrow> PROFILE_CAPS (sp_profile policy));
          allowed = (if t_kind target = KIND_UNKNOWN then profile_caps
                     else UNIVERSAL_CAPS @ dget_or KIND_CAPS (t_kind target) [])
      in List.filter (\<lambda>c. c \<in> set allowed) profile_caps)"

record plan_state =
  st_stages :: "StageKind \<Rightarrow> PlannedTask list"
  st_skipped :: "string list"
  st_next :: nat

definition chosen_engines ::
  "PlannerConfig \<Rightarrow> (Capability \<Rightarrow> EngineMetadata list) \<Rightarrow> ScanPolicy \<Rightarrow> Capability \<Rightarrow>
   EngineMetadata list" where
  "chosen_engines cfg for_capability policy c =
     (let engines = List.filter (\<lambda>m. em_id m \<notin> set (sp_disabled_engines policy)) (for_capability c)
      in if pc_redundant_engines cfg then engines else take 1 engines)"

text \<open>Appending a capability to the first task of an engine, if it has one.\<close>

fun extend_task :: "string \<Rightarrow> Capability \<Rightarrow> PlannedTask list \<Rightarrow> PlannedTask list option" where
  "extend_task eid c [] = None"
| "extend_task eid c (t # ts) =
     (if pt_engine_id t = eid
      then Some (t\<lparr>pt_capabilities := pt_capabilities t @ [c],
                   pt_reason := pt_reason t @ ''; +'' @ capability_value c\<rparr> # ts)
      else map_option (Cons t) (extend_task eid c ts))"

definition plan_reason :: "Target \<Rightarrow> ScanPolicy \<Rightarrow> Capability \<Rightarrow> EngineMetadata \<Rightarrow> string" where
  "plan_reason target policy c meta =
     ''selected '' @ em_id meta @ '' for '' @ capability_value c
     @ '' (profile='' @ profile_value (sp_profile policy)
     @ '', app='' @ kind_value (t_kind target) @ '')''"

definition add_engine ::
  "(nat \<Rightarrow> string) \<Rightarrow> Target \<Rightarrow> ScanPolicy \<Rightarrow> string list \<Rightarrow> Capability \<Rightarrow> plan_state \<Rightarrow>
   EngineMetadata \<Rightarrow> plan_state" where
  "add_engine ids target policy seeds c st meta =
     (let stage = CAP_STAGE c; tasks = st_stages st stage
      in case extend_task (em_id meta) c tasks of
           Some tasks' \<Rightarrow> st\<lparr>st_stages := (st_stages st)(stage := tasks')\<rparr>
         | None \<Rightarrow>
             st\<lparr>st_stages := (st_stages st)(stage := tasks @
                  [\<lparr>pt_id = ids (st_next st), pt_engine_id = em_id meta, pt_capabilities = [c],
                    pt_seed_urls = seeds, pt_options = [], pt_reason = plan_reason target policy c meta\<rparr>]),
                st_next := Suc (st_next st)\<rparr>)"

definition skip_note :: "Capability \<Rightarrow> string" where
  "skip_note c = capability_value c @ '': no enabled engine provides this capability''"

definition add_capability ::
  "(nat \<Rightarrow> string) \<Rightarrow> PlannerConfig \<Rightarrow> (Capability \<Rightarrow> EngineMetadata list) \<Rightarrow> Target \<Rightarrow> ScanPolicy \<Rightarrow>
   string list \<Rightarrow> plan_state \<Rightarrow> Capability \<Rightarrow> plan_state" where
  "add_capability ids cfg for_capability target policy seeds st c =
     (case chosen_engines cfg for_capability policy c of
        [] \<Rightarrow> st\<lparr>st_skipped := st_skipped st @ [skip_note c]\<rparr>
      | chosen \<Rightarrow> foldl (add_engine ids target policy seeds c) st chosen)"

definition plan_state0 :: plan_state where
  "plan_state0 = \<lparr>st_stages = (\<lambda>_. []), st_skipped = [], st_next = 0\<rparr>"

definition plan_scan ::
  "(nat \<Rightarrow> string) \<Rightarrow> int \<Rightarrow> PlannerConfig \<Rightarrow> (Capability \<Rightarrow> EngineMetadata list) \<Rightarrow> Target \<Rightarrow>
   ScanPolicy \<Rightarrow> string list \<Rightarrow> ScanPlan" where
  "plan_scan ids now cfg for_capability target policy seeds =
     (let st = foldl (add_capability ids cfg for_capability target policy seeds) plan_state0
                 (wanted_capabilities target policy)
      in \<lparr>plan_scan_id = [],
          plan_stages = List.map (\<lambda>s. \<lparr>ps_kind = s, ps_tasks = st_stages st s\<rparr>)
                          (List.filter (\<lambda>s. st_stages st s \<noteq> []) STAGE_ORDER),
          plan_skipped = st_skipped st, plan_created_at = now\<rparr>)"

subsection \<open>The invariant of the planning loop\<close>

definition stage_ok ::
  "(Capability \<Rightarrow> EngineMetadata list) \<Rightarrow> Capability set \<Rightarrow> StageKind \<Rightarrow> PlannedTask list \<Rightarrow> bool" where
  "stage_ok chosen done s ts \<longleftrightarrow>
     distinct (map pt_engine_id ts) \<and>
     (\<forall>t \<in> set ts. pt_capabilities t \<noteq> [] \<and>
        (\<forall>c \<in> set (pt_capabilities t). CAP_STAGE c = s \<and> c \<in> done \<and>
           (\<exists>m \<in> set (chosen c). em_id m = pt_engine_id t)))"

definition covered :: "PlannedTask list \<Rightarrow> Capability \<Rightarrow> string \<Rightarrow> bool" where
  "covered ts c eid \<longleftrightarrow> (\<exists>t \<in> set ts. pt_engine_id t = eid \<and> c \<in> set (pt_capabilities t))"

lemma extend_task_None: "extend_task eid c ts = None \<longleftrightarrow> eid \<notin> pt_engine_id ` set ts"
  by (induction ts) auto

lemma extend_task_Some:
  "extend_task eid c ts = Some ts' \<Longrightarrow>
     map pt_engine_id ts' = map pt_engine_id ts \<and> covered ts' c eid \<and>
     (\<forall>d e. covered ts d e \<longrightarrow> covered ts' d e) \<and>
     (\<forall>t \<in> set ts'. t \<in> set ts \<or> (pt_engine_id t = eid \<and>
        (\<exists>u \<in> set ts. pt_engine_id u = eid \<and> pt_capabilities t = pt_capabilities u @ [c] \<and>
           pt_seed_urls t = pt_seed_urls u)))"
proof (induction ts arbitrary: ts')
  case (Cons t ts)
  show ?case
  proof (cases "pt_engine_id t = eid")
    case True
    with Cons.prems show ?thesis by (auto simp: covered_def)
  next
    case False
    with Cons.prems obtain us where us: "extend_task eid c ts = Some us" "ts' = t # us" by auto
    from Cons.IH [OF us(1)] us(2) show ?thesis
      by (simp add: covered_def) blast
  qed
qed simp

lemma stage_ok_mono: "stage_ok chosen done s ts \<Longrightarrow> done \<subseteq> done' \<Longrightarrow> stage_ok chosen done' s ts"
  by (fastforce simp: stage_ok_def)


lemma stage_ok_extend:
  assumes "stage_ok chosen D s ts" "extend_task (em_id m) c ts = Some ts'"
    and "CAP_STAGE c = s" "c \<in> D" "m \<in> set (chosen c)"
  shows "stage_ok chosen D s ts'"
proof -
  note ex = extend_task_Some [OF assms(2)]
  have "distinct (map pt_engine_id ts')" using ex assms(1) by (simp add: stage_ok_def)
  moreover have "pt_capabilities t \<noteq> [] \<and> (\<forall>d \<in> set (pt_capabilities t). CAP_STAGE d = s \<and> d \<in> D \<and>
      (\<exists>n \<in> set (chosen d). em_id n = pt_engine_id t))" if "t \<in> set ts'" for t
  proof -
    from ex that consider "t \<in> set ts" | u where "u \<in> set ts" "pt_engine_id u = em_id m"
      "pt_engine_id t = em_id m" "pt_capabilities t = pt_capabilities u @ [c]" by blast
    then show ?thesis
    proof cases
      case 1
      with assms(1) show ?thesis by (simp add: stage_ok_def)
    next
      case 2
      then have "\<forall>d \<in> set (pt_capabilities u). CAP_STAGE d = s \<and> d \<in> D \<and>
          (\<exists>n \<in> set (chosen d). em_id n = em_id m)"
        using assms(1) by (auto simp: stage_ok_def)
      with 2 assms(3-5) show ?thesis by auto
    qed
  qed
  ultimately show ?thesis by (simp add: stage_ok_def)
qed

lemma stage_ok_append:
  assumes "stage_ok chosen D s ts" "extend_task (em_id m) c ts = None" "pt_engine_id t = em_id m"
    and "pt_capabilities t = [c]" "CAP_STAGE c = s" "c \<in> D" "m \<in> set (chosen c)"
  shows "stage_ok chosen D s (ts @ [t])"
  using assms by (auto simp: stage_ok_def extend_task_None)

lemma covered_append: "covered ts d e \<Longrightarrow> covered (ts @ us) d e"
  by (auto simp: covered_def)

definition plan_inv where
  "plan_inv chosen seeds D st \<longleftrightarrow>
     (\<forall>s. stage_ok chosen D s (st_stages st s) \<and> (\<forall>t \<in> set (st_stages st s). pt_seed_urls t = seeds))"

lemma add_engine_inv:
  fixes ids target policy
  assumes "plan_inv chosen seeds D st" "c \<in> D" "m \<in> set (chosen c)"
  defines "st' \<equiv> add_engine ids target policy seeds c st m"
  shows "plan_inv chosen seeds D st'" "covered (st_stages st' (CAP_STAGE c)) c (em_id m)"
    "\<And>s d e. covered (st_stages st s) d e \<Longrightarrow> covered (st_stages st' s) d e"
    "st_skipped st' = st_skipped st"
proof -
  let ?ts = "st_stages st (CAP_STAGE c)"
  have ok: "stage_ok chosen D (CAP_STAGE c) ?ts" and sd: "\<forall>t \<in> set ?ts. pt_seed_urls t = seeds"
    using assms(1) by (auto simp: plan_inv_def)
  show "st_skipped st' = st_skipped st"
    by (simp add: st'_def add_engine_def Let_def split: option.split)
  obtain ts' where st': "st_stages st' = (st_stages st)(CAP_STAGE c := ts')"
    and ok': "stage_ok chosen D (CAP_STAGE c) ts'" and cov: "covered ts' c (em_id m)"
    and keep: "\<And>d e. covered ?ts d e \<Longrightarrow> covered ts' d e" and sd': "\<forall>t \<in> set ts'. pt_seed_urls t = seeds"
  proof (cases "extend_task (em_id m) c ?ts")
    case (Some ts')
    have "stage_ok chosen D (CAP_STAGE c) ts'"
      by (rule stage_ok_extend [OF ok Some refl assms(2,3)])
    moreover have "\<forall>t \<in> set ts'. pt_seed_urls t = seeds" using extend_task_Some [OF Some] sd by fastforce
    ultimately show ?thesis
      using extend_task_Some [OF Some] Some
      by (intro that [of ts']) (auto simp: st'_def add_engine_def Let_def)
  next
    case None
    let ?t = "\<lparr>pt_id = ids (st_next st), pt_engine_id = em_id m, pt_capabilities = [c],
      pt_seed_urls = seeds, pt_options = [], pt_reason = plan_reason target policy c m\<rparr>"
    have "stage_ok chosen D (CAP_STAGE c) (?ts @ [?t])"
      by (rule stage_ok_append [where chosen = chosen, OF ok None]) (use assms(2,3) in auto)
    then show ?thesis
      using None sd
      by (intro that [of "?ts @ [?t]"]) (auto simp: st'_def add_engine_def Let_def covered_def)
  qed
  show "plan_inv chosen seeds D st'" using assms(1) st' ok' sd' by (auto simp: plan_inv_def)
  show "covered (st_stages st' (CAP_STAGE c)) c (em_id m)" using st' cov by simp
  show "covered (st_stages st' s) d e" if "covered (st_stages st s) d e" for s d e
    using that st' keep by (cases "s = CAP_STAGE c") auto
qed

lemma add_engines_inv:
  fixes ids target policy
  assumes "plan_inv chosen seeds D st" "c \<in> D" "set ms \<subseteq> set (chosen c)"
  defines "st' \<equiv> foldl (add_engine ids target policy seeds c) st ms"
  shows "plan_inv chosen seeds D st' \<and> (\<forall>m \<in> set ms. covered (st_stages st' (CAP_STAGE c)) c (em_id m)) \<and>
    (\<forall>s d e. covered (st_stages st s) d e \<longrightarrow> covered (st_stages st' s) d e) \<and>
    st_skipped st' = st_skipped st"
  using assms(1,3) unfolding st'_def
proof (induction ms arbitrary: st)
  case (Cons m ms)
  let ?st = "add_engine ids target policy seeds c st m"
  have m: "m \<in> set (chosen c)" using Cons.prems(2) by simp
  note a = add_engine_inv [where chosen = chosen and ids = ids and target = target and policy = policy,
      OF Cons.prems(1) assms(2) m]
  have sub: "set ms \<subseteq> set (chosen c)" using Cons.prems(2) by simp
  from Cons.IH [OF a(1) sub] a(2-4) show ?case by simp
qed simp

lemma plan_inv_mono: "plan_inv chosen seeds D st \<Longrightarrow> D \<subseteq> E \<Longrightarrow> plan_inv chosen seeds E st"
  by (auto simp: plan_inv_def intro: stage_ok_mono)

lemma planning_inv:
  fixes ids cfg fc target policy seeds
  defines "chosen \<equiv> chosen_engines cfg fc policy"
  shows "plan_inv chosen seeds (set cs) (foldl (add_capability ids cfg fc target policy seeds) plan_state0 cs) \<and>
    (\<forall>c \<in> set cs. \<forall>m \<in> set (chosen c).
       covered (st_stages (foldl (add_capability ids cfg fc target policy seeds) plan_state0 cs)
                  (CAP_STAGE c)) c (em_id m)) \<and>
    st_skipped (foldl (add_capability ids cfg fc target policy seeds) plan_state0 cs) =
      map skip_note (filter (\<lambda>c. chosen c = []) cs)"
proof (induction cs rule: rev_induct)
  case Nil
  show ?case by (simp add: plan_inv_def plan_state0_def stage_ok_def)
next
  case (snoc c cs)
  let ?st = "foldl (add_capability ids cfg fc target policy seeds) plan_state0 cs"
  let ?st' = "foldl (add_capability ids cfg fc target policy seeds) plan_state0 (cs @ [c])"
  have inv: "plan_inv chosen seeds (set (cs @ [c])) ?st"
    by (rule plan_inv_mono [OF snoc [THEN conjunct1]]) auto
  show ?case
  proof (cases "chosen c = []")
    case True
    then have st': "?st' = ?st\<lparr>st_skipped := st_skipped ?st @ [skip_note c]\<rparr>"
      by (simp add: add_capability_def chosen_def)
    from inv have "plan_inv chosen seeds (set (cs @ [c])) ?st'"
      unfolding st' by (simp add: plan_inv_def)
    with snoc True show ?thesis unfolding st' by auto
  next
    case False
    then have st': "?st' = foldl (add_engine ids target policy seeds c) ?st (chosen c)"
      by (cases "chosen c") (simp_all add: add_capability_def chosen_def)
    from add_engines_inv [where chosen = chosen and ids = ids and target = target and policy = policy,
        OF inv _ order_refl, of c]
    have a: "plan_inv chosen seeds (set (cs @ [c])) ?st' \<and>
      (\<forall>m \<in> set (chosen c). covered (st_stages ?st' (CAP_STAGE c)) c (em_id m)) \<and>
      (\<forall>s d e. covered (st_stages ?st s) d e \<longrightarrow> covered (st_stages ?st' s) d e) \<and>
      st_skipped ?st' = st_skipped ?st"
      unfolding st' by simp
    with snoc False show ?thesis by auto
  qed
qed


lemma plan_stage_memD:
  assumes "s \<in> set (plan_stages (plan_scan ids now cfg fc target policy seeds))"
  shows "stage_ok (chosen_engines cfg fc policy) (set (wanted_capabilities target policy)) (ps_kind s) (ps_tasks s)"
    and "ps_tasks s \<noteq> []" and "\<forall>t \<in> set (ps_tasks s). pt_seed_urls t = seeds"
  using assms planning_inv [of cfg fc policy seeds "wanted_capabilities target policy" ids target]
  by (auto simp: plan_scan_def Let_def plan_inv_def)

lemma chosen_enabled: "m \<in> set (chosen_engines cfg fc policy c) \<Longrightarrow>
    m \<in> set (fc c) \<and> em_id m \<notin> set (sp_disabled_engines policy)"
  by (auto simp: chosen_engines_def Let_def dest: in_set_takeD split: if_splits)

lemma chosen_empty: "chosen_engines cfg fc policy c = [] \<longleftrightarrow>
    (\<forall>m \<in> set (fc c). em_id m \<in> set (sp_disabled_engines policy))"
  by (auto simp: chosen_engines_def Let_def filter_empty_conv take_eq_Nil)

lemma plan_covers:
  assumes "c \<in> set (wanted_capabilities target policy)" "m \<in> set (chosen_engines cfg fc policy c)"
  shows "\<exists>s \<in> set (plan_stages (plan_scan ids now cfg fc target policy seeds)).
    ps_kind s = CAP_STAGE c \<and> covered (ps_tasks s) c (em_id m)"
proof -
  let ?st = "foldl (add_capability ids cfg fc target policy seeds) plan_state0 (wanted_capabilities target policy)"
  have cov: "covered (st_stages ?st (CAP_STAGE c)) c (em_id m)"
    using planning_inv [of cfg fc policy seeds "wanted_capabilities target policy" ids target] assms
    by blast
  then have "st_stages ?st (CAP_STAGE c) \<noteq> []" by (auto simp: covered_def)
  moreover have "CAP_STAGE c \<in> set STAGE_ORDER" by (cases c) (simp_all add: STAGE_ORDER_def)
  ultimately show ?thesis using cov by (auto simp: plan_scan_def Let_def)
qed

context catalog
begin

text \<open>Whatever the catalog, a planned engine is an enabled one that advertises what it is run for.\<close>

lemma planned_engine:
  assumes "s \<in> set (plan_stages (plan_scan ids now cfg for_capability target policy seeds))"
    and "t \<in> set (ps_tasks s)" and "c \<in> set (pt_capabilities t)"
  shows "\<exists>m \<in> set enabled. em_id m = pt_engine_id t \<and> c \<in> set (em_capabilities m) \<and>
    pt_engine_id t \<notin> set (sp_disabled_engines policy)"
proof -
  from plan_stage_memD(1) [OF assms(1)] assms(2,3)
  obtain m where m: "m \<in> set (chosen_engines cfg for_capability policy c)" "em_id m = pt_engine_id t"
    unfolding stage_ok_def by blast
  from chosen_enabled [OF m(1)] m(2) show ?thesis
    using for_capability_enabled for_capability_advertises by auto
qed

lemma skipped_only_without_engine:
  "plan_skipped (plan_scan ids now cfg for_capability target policy seeds) =
     map skip_note (filter (\<lambda>c. \<forall>m \<in> set enabled. c \<in> set (em_capabilities m) \<longrightarrow>
       em_id m \<in> set (sp_disabled_engines policy)) (wanted_capabilities target policy))"
  using planning_inv [of cfg for_capability policy seeds "wanted_capabilities target policy" ids target]
  by (auto simp: plan_scan_def Let_def chosen_empty for_capability_set intro!: arg_cong [where f = "map skip_note"] filter_cong)

end

subsection \<open>Properties\<close>

text \<open>
  the shape of every plan: its stages are non-empty and in the fixed order, each kind at most
  once; an engine has at most one task per stage; and a task is run for at least one
  capability, all of them wanted and of that stage, with the given seeds.
\<close>

theorem plan_shape:
  "(let p = plan_scan ids now cfg fc target policy seeds in
     subseq (map ps_kind (plan_stages p)) STAGE_ORDER \<and> distinct (map ps_kind (plan_stages p)) \<and>
     (\<forall>s \<in> set (plan_stages p). ps_tasks s \<noteq> [] \<and> distinct (map pt_engine_id (ps_tasks s)) \<and>
        (\<forall>t \<in> set (ps_tasks s). pt_capabilities t \<noteq> [] \<and> pt_seed_urls t = seeds \<and>
           set (pt_capabilities t) \<subseteq> {c \<in> set (wanted_capabilities target policy). CAP_STAGE c = ps_kind s})))"
proof -
  let ?p = "plan_scan ids now cfg fc target policy seeds"
  have kinds: "\<exists>P. map ps_kind (plan_stages ?p) = filter P STAGE_ORDER"
    by (auto simp: plan_scan_def Let_def comp_def)
  then have "subseq (map ps_kind (plan_stages ?p)) STAGE_ORDER" by (metis subseq_filter_left)
  moreover have "distinct (map ps_kind (plan_stages ?p))"
    using kinds distinct_filter [of STAGE_ORDER] by (auto simp: STAGE_ORDER_def)
  moreover have "ps_tasks s \<noteq> [] \<and> distinct (map pt_engine_id (ps_tasks s)) \<and>
      (\<forall>t \<in> set (ps_tasks s). pt_capabilities t \<noteq> [] \<and> pt_seed_urls t = seeds \<and>
         set (pt_capabilities t) \<subseteq> {c \<in> set (wanted_capabilities target policy). CAP_STAGE c = ps_kind s})"
    if "s \<in> set (plan_stages ?p)" for s
    using plan_stage_memD [OF that] by (auto simp: stage_ok_def)
  ultimately show ?thesis by (simp add: Let_def)
qed

text \<open>
  every wanted capability is either run by a task of its stage for each engine chosen
  for it, or reported as skipped; and it is reported exactly when no engine that is not disabled
  provides it.
\<close>

theorem plan_complete:
  "(let p = plan_scan ids now cfg fc target policy seeds in
     (\<forall>c \<in> set (wanted_capabilities target policy). \<forall>m \<in> set (chosen_engines cfg fc policy c).
        \<exists>s \<in> set (plan_stages p). ps_kind s = CAP_STAGE c \<and>
          (\<exists>t \<in> set (ps_tasks s). pt_engine_id t = em_id m \<and> c \<in> set (pt_capabilities t))) \<and>
     plan_skipped p = map skip_note (filter (\<lambda>c. \<forall>m \<in> set (fc c). em_id m \<in> set (sp_disabled_engines policy))
                                       (wanted_capabilities target policy)))"
  using plan_covers [unfolded covered_def] planning_inv [of cfg fc policy seeds "wanted_capabilities target policy" ids target]
  by (auto simp: plan_scan_def Let_def chosen_empty)


lemma planned_task_runnable:
  assumes "registry_reachable pol reg"
    and "s \<in> set (plan_stages (plan_scan ids now cfg (engines_for reg) target policy seeds))"
    and "t \<in> set (ps_tasks s)" and "c \<in> set (pt_capabilities t)"
  shows "adapter_for reg (pt_engine_id t) \<noteq> None \<and>
    (\<exists>e. registry_get reg (pt_engine_id t) = Some e \<and> c \<in> set (em_capabilities (re_metadata e))) \<and>
    pt_engine_id t \<notin> set (sp_disabled_engines policy)"
proof -
  from reg_cat.planned_engine [OF assms(2-4)] obtain m where
    m: "m \<in> set (enabled_engines reg)" "em_id m = pt_engine_id t" "c \<in> set (em_capabilities m)"
      "pt_engine_id t \<notin> set (sp_disabled_engines policy)" by blast
  from m(1) obtain i e where e: "(i, e) \<in> set (er_engines reg)" "usable e" "re_adapter e \<noteq> None"
    "m = re_metadata e"
    by (auto simp: enabled_engines_def registry_all_def dvalues_def)
  have ok: "registry_ok pol reg" using assms(1) by (rule reachable_ok)
  with e(1) have "dget (er_engines reg) i = Some e" "em_id (re_metadata e) = i"
    by (auto simp: registry_ok_def intro: dget_mem)
  with e m show ?thesis by (auto simp: adapter_for_def registry_get_def)
qed

text \<open>
  C6: planning over a registry: whatever calls built the registry, every planned task names an
  engine whose adapter the registry hands out, which advertises each capability it is run for
  and which the policy has not disabled.
\<close>

theorem plan_runnable:
  assumes "registry_reachable pol reg"
    and "s \<in> set (plan_stages (plan_scan ids now cfg (engines_for reg) target policy seeds))"
    and "t \<in> set (ps_tasks s)" and "c \<in> set (pt_capabilities t)"
  shows "adapter_for reg (pt_engine_id t) \<noteq> None \<and>
    (\<exists>e. registry_get reg (pt_engine_id t) = Some e \<and> c \<in> set (em_capabilities (re_metadata e))) \<and>
    pt_engine_id t \<notin> set (sp_disabled_engines policy)"
  using assms by (rule planned_task_runnable)

text \<open>
  under the PASSIVE profile without an explicit capability list no task is planned for anything
  but the six passive capabilities: no active audit, template check or content discovery.
\<close>

theorem passive_plan:
  assumes "sp_profile policy = PASSIVE" and "sp_capabilities policy = None"
    and "s \<in> set (plan_stages (plan_scan ids now cfg fc target policy seeds))"
    and "t \<in> set (ps_tasks s)"
  shows "set (pt_capabilities t) \<subseteq>
    {FINGERPRINT_TECH, CRAWL_HTTP, ANALYSIS_TLS, ANALYSIS_HEADERS, ANALYSIS_SECRETS, AUDIT_PASSIVE}"
proof -
  have "set (pt_capabilities t) \<subseteq> set (wanted_capabilities target policy)"
    using plan_stage_memD(1) [OF assms(3)] assms(4) by (auto simp: stage_ok_def)
  also have "\<dots> \<subseteq> set (PROFILE_CAPS PASSIVE)"
    using assms(1,2) by (auto simp: wanted_capabilities_def Let_def)
  finally show ?thesis by simp
qed

text \<open>
  unless redundant engines are asked for, a capability is run by one engine only, the first
  the catalog offers that is not disabled.
\<close>

theorem one_engine_per_capability:
  assumes "\<not> pc_redundant_engines cfg"
    and "s \<in> set (plan_stages (plan_scan ids now cfg fc target policy seeds))"
    and "t \<in> set (ps_tasks s)" and "c \<in> set (pt_capabilities t)"
  shows "\<exists>m rest. filter (\<lambda>m. em_id m \<notin> set (sp_disabled_engines policy)) (fc c) = m # rest \<and>
    pt_engine_id t = em_id m"
proof -
  from plan_stage_memD(1) [OF assms(2)] assms(3,4)
  obtain m where "m \<in> set (chosen_engines cfg fc policy c)" "em_id m = pt_engine_id t"
    unfolding stage_ok_def by blast
  then show ?thesis using assms(1)
    by (cases "filter (\<lambda>m. em_id m \<notin> set (sp_disabled_engines policy)) (fc c)")
       (auto simp: chosen_engines_def Let_def)
qed

text \<open>
  an explicit empty capability list is not an allowlist of nothing: it plans the same as no
  list at all.
\<close>

theorem empty_allowlist_is_default:
  "plan_scan ids now cfg fc target (policy\<lparr>sp_capabilities := Some []\<rparr>) seeds =
   plan_scan ids now cfg fc target (policy\<lparr>sp_capabilities := None\<rparr>) seeds"
proof -
  have "wanted_capabilities target (policy\<lparr>sp_capabilities := Some []\<rparr>) =
      wanted_capabilities target (policy\<lparr>sp_capabilities := None\<rparr>)"
    by (simp add: wanted_capabilities_def)
  moreover have "add_capability ids cfg fc target (policy\<lparr>sp_capabilities := Some []\<rparr>) seeds =
      add_capability ids cfg fc target (policy\<lparr>sp_capabilities := None\<rparr>) seeds"
  proof -
    have prof: "sp_profile (policy\<lparr>sp_capabilities := z\<rparr>) = sp_profile policy" for z by simp
    have "plan_reason target (policy\<lparr>sp_capabilities := Some []\<rparr>) = plan_reason target (policy\<lparr>sp_capabilities := None\<rparr>)"
      by (intro ext) (simp only: plan_reason_def prof)
    moreover have "chosen_engines cfg fc (policy\<lparr>sp_capabilities := Some []\<rparr>) =
        chosen_engines cfg fc (policy\<lparr>sp_capabilities := None\<rparr>)"
      by (intro ext) (simp add: chosen_engines_def)
    ultimately show ?thesis by (intro ext) (simp only: add_capability_def add_engine_def [abs_def])
  qed
  ultimately show ?thesis by (simp only: plan_scan_def)
qed

subsection \<open>Witnesses\<close>

definition demo_scan_policy :: "ScanProfile \<Rightarrow> ScanPolicy" where
  "demo_scan_policy prof =
     \<lparr>sp_profile = prof, sp_capabilities = None, sp_disabled_engines = [''old''],
      sp_allowed_methods = [''GET''], sp_max_duration_minutes = 240, sp_max_total_requests = None,
      sp_template_tags_denylist = []\<rparr>"

definition demo_engine_md :: "string \<Rightarrow> Capability list \<Rightarrow> EngineMetadata" where
  "demo_engine_md i caps =
     \<lparr>em_id = i, em_name = i, em_version = ''1'', em_vendor = ''v'', em_license_spdx = ''MIT'',
      em_license_class = GREEN, em_approval_status = APPROVED, em_integration = NATIVE,
      em_capabilities = caps, em_image = None, em_homepage = None\<rparr>"

definition demo_catalog :: "EngineMetadata list" where
  "demo_catalog =
     [demo_engine_md ''old'' [ANALYSIS_TLS],
      demo_engine_md ''hdr'' [ANALYSIS_HEADERS, AUDIT_PASSIVE],
      demo_engine_md ''crawl'' [CRAWL_HTTP]]"

definition demo_plan :: ScanPlan where
  "demo_plan = plan_scan (\<lambda>n. str_of_nat n) 7 \<lparr>pc_redundant_engines = False\<rparr>
     (static_engines_for demo_catalog) (demo_target [''http://a/'']) (demo_scan_policy PASSIVE) [''http://a/'']"

definition demo_task :: PlannedTask where
  "demo_task = hd (ps_tasks (plan_stages demo_plan ! 1))"

lemma demo_plan_facts:
  "plan_stages demo_plan ! 1 \<in> set (plan_stages demo_plan)"
  "demo_task \<in> set (ps_tasks (plan_stages demo_plan ! 1))"
  "AUDIT_PASSIVE \<in> set (pt_capabilities demo_task)" "pt_engine_id demo_task = ''hdr''"
proof -
  show "plan_stages demo_plan ! 1 \<in> set (plan_stages demo_plan)"
    by (rule nth_mem) code_simp
  show "demo_task \<in> set (ps_tasks (plan_stages demo_plan ! 1))"
    unfolding demo_task_def by (rule hd_in_set) code_simp
qed (code_simp, code_simp)

theorem plan_shape_witness:
  "distinct (map pt_engine_id (ps_tasks (plan_stages demo_plan ! 1)))"
  using demo_plan_facts(1) unfolding demo_plan_def
  using plan_shape [of "\<lambda>n. str_of_nat n" 7 "\<lparr>pc_redundant_engines = False\<rparr>"
      "static_engines_for demo_catalog" "demo_target [''http://a/'']" "demo_scan_policy PASSIVE"
      "[''http://a/'']"]
  by (simp only: Let_def)

theorem plan_complete_witness:
  "plan_skipped demo_plan = map skip_note [FINGERPRINT_TECH, ANALYSIS_TLS, ANALYSIS_SECRETS]"
proof -
  have "plan_skipped demo_plan =
     map skip_note (filter (\<lambda>c. \<forall>m \<in> set (static_engines_for demo_catalog c).
       em_id m \<in> set (sp_disabled_engines (demo_scan_policy PASSIVE)))
       (wanted_capabilities (demo_target [''http://a/'']) (demo_scan_policy PASSIVE)))"
    unfolding demo_plan_def
    using plan_complete [of "\<lambda>n. str_of_nat n" 7 "\<lparr>pc_redundant_engines = False\<rparr>"
        "static_engines_for demo_catalog" "demo_target [''http://a/'']" "demo_scan_policy PASSIVE"
        "[''http://a/'']"]
    by (simp only: Let_def)
  also have "filter (\<lambda>c. \<forall>m \<in> set (static_engines_for demo_catalog c).
       em_id m \<in> set (sp_disabled_engines (demo_scan_policy PASSIVE)))
       (wanted_capabilities (demo_target [''http://a/'']) (demo_scan_policy PASSIVE)) =
     [FINGERPRINT_TECH, ANALYSIS_TLS, ANALYSIS_SECRETS]"
    by code_simp
  finally show ?thesis .
qed

theorem passive_plan_witness: "AUDIT_ACTIVE \<notin> set (pt_capabilities demo_task)"
proof -
  have "set (pt_capabilities demo_task) \<subseteq> {FINGERPRINT_TECH, CRAWL_HTTP, ANALYSIS_TLS, ANALYSIS_HEADERS,
      ANALYSIS_SECRETS, AUDIT_PASSIVE}"
    by (rule passive_plan [OF _ _ demo_plan_facts(1) [unfolded demo_plan_def] demo_plan_facts(2) [unfolded demo_plan_def]])
       (simp_all add: demo_scan_policy_def)
  then show ?thesis by auto
qed

theorem one_engine_per_capability_witness:
  "\<exists>m rest. filter (\<lambda>m. em_id m \<notin> set [''old'']) (static_engines_for demo_catalog AUDIT_PASSIVE) = m # rest \<and>
     ''hdr'' = em_id m"
proof -
  have "\<exists>m rest. filter (\<lambda>m. em_id m \<notin> set (sp_disabled_engines (demo_scan_policy PASSIVE)))
      (static_engines_for demo_catalog AUDIT_PASSIVE) = m # rest \<and> pt_engine_id demo_task = em_id m"
    by (rule one_engine_per_capability [OF _ demo_plan_facts(1) [unfolded demo_plan_def]
          demo_plan_facts(2) [unfolded demo_plan_def] demo_plan_facts(3)]) simp
  then show ?thesis by (simp add: demo_plan_facts(4) demo_scan_policy_def)
qed

definition demo_bound_registry :: "unit EngineRegistry" where
  "demo_bound_registry = demo_registry\<lparr>er_engines := [(''tool'', demo_entry\<lparr>re_adapter := Some ()\<rparr>)]\<rparr>"

lemma demo_bound_reachable: "registry_reachable demo_policy demo_bound_registry"
proof -
  have "registry_step (Bind ''tool'' ()) demo_registry = Inr demo_bound_registry" by code_simp
  then show ?thesis
    by (rule registry_reachable.step [OF registry_reachable.step [OF registry_reachable.init demo_registry_step]])
qed

definition demo_reg_plan :: ScanPlan where
  "demo_reg_plan = plan_scan (\<lambda>n. str_of_nat n) 7 \<lparr>pc_redundant_engines = False\<rparr>
     (engines_for demo_bound_registry) (demo_target [''http://a/'']) (demo_scan_policy STANDARD) [''http://a/'']"

theorem plan_runnable_witness:
  "adapter_for demo_bound_registry (pt_engine_id (hd (ps_tasks (hd (plan_stages demo_reg_plan))))) \<noteq> None"
proof -
  have s: "hd (plan_stages demo_reg_plan) \<in> set (plan_stages demo_reg_plan)"
    by (rule hd_in_set) code_simp
  have t: "hd (ps_tasks (hd (plan_stages demo_reg_plan))) \<in> set (ps_tasks (hd (plan_stages demo_reg_plan)))"
    by (rule hd_in_set) code_simp
  have c: "AUDIT_TEMPLATES \<in> set (pt_capabilities (hd (ps_tasks (hd (plan_stages demo_reg_plan)))))"
    by code_simp
  show ?thesis
    by (rule plan_runnable [OF demo_bound_reachable s [unfolded demo_reg_plan_def]
          t [unfolded demo_reg_plan_def] c [unfolded demo_reg_plan_def],
          folded demo_reg_plan_def, THEN conjunct1])
qed

end
