(* ===== verification/Knowledge.thy ===== *)
theory Knowledge
  imports Correlation
begin

text \<open>
  The request knowledge base of a scan (\<open>vantage/knowledge/base.py\<close>): which (endpoint, method,
  parameter) keys were tested for which class of test.  A set of test classes is a list without
  duplicates.
\<close>

definition coverage_key :: "string \<Rightarrow> int \<Rightarrow> string \<Rightarrow> string \<Rightarrow> string option \<Rightarrow> string" where
  "coverage_key host port path mth parameter =
     join ''|'' [lower host, str_of_int port, normalize_endpoint path, upper mth, osor parameter ''*'']"

record RequestKnowledgeBase =
  kb_covered :: "(string, string list) dict"

definition knowledge_init :: RequestKnowledgeBase where
  "knowledge_init = \<lparr>kb_covered = []\<rparr>"

definition mark :: "string \<Rightarrow> string \<Rightarrow> RequestKnowledgeBase \<Rightarrow> RequestKnowledgeBase" where
  "mark key test_class kb =
     kb\<lparr>kb_covered := dset (kb_covered kb) key (List.insert test_class (dget_or (kb_covered kb) key []))\<rparr>"

definition seen :: "string \<Rightarrow> string \<Rightarrow> RequestKnowledgeBase \<Rightarrow> bool" where
  "seen key test_class kb \<longleftrightarrow> test_class \<in> set (dget_or (kb_covered kb) key [])"

definition should_test :: "string \<Rightarrow> string \<Rightarrow> RequestKnowledgeBase \<Rightarrow> bool \<times> RequestKnowledgeBase" where
  "should_test key test_class kb =
     (if seen key test_class kb then (False, kb) else (True, mark key test_class kb))"

definition coverage :: "RequestKnowledgeBase \<Rightarrow> (string, string list) dict" where
  "coverage kb = kb_covered kb"

definition knowledge_len :: "RequestKnowledgeBase \<Rightarrow> nat" where
  "knowledge_len kb = sum_list (List.map length (dvalues (kb_covered kb)))"

subsection \<open>Coverage stores\<close>

text \<open>
  What an engine may rely on: a record of intents that answers a membership question.  The client
  operation asks and records in one call.
\<close>

locale coverage_store =
  fixes note_test :: "'k \<Rightarrow> 'c \<Rightarrow> 's \<Rightarrow> 's"
    and tested :: "'k \<Rightarrow> 'c \<Rightarrow> 's \<Rightarrow> bool"
    and empty_store :: 's
  assumes tested_empty: "\<not> tested k c empty_store"
    and tested_note: "tested k c (note_test k' c' s) \<longleftrightarrow> (k = k' \<and> c = c') \<or> tested k c s"
begin

definition ask :: "'k \<times> 'c \<Rightarrow> 's \<Rightarrow> bool \<times> 's" where
  "ask q s = (if tested (fst q) (snd q) s then (False, s) else (True, note_test (fst q) (snd q) s))"

fun ask_all :: "('k \<times> 'c) list \<Rightarrow> 's \<Rightarrow> bool list \<times> 's" where
  "ask_all [] s = ([], s)"
| "ask_all (q # qs) s = (let (b, s') = ask q s; (bs, s'') = ask_all qs s' in (b # bs, s''))"

lemma ask_state: "tested k c (snd (ask q s)) \<longleftrightarrow> tested k c s \<or> (k, c) = q"
  by (cases q) (auto simp: ask_def tested_note)

lemma ask_answer: "fst (ask q s) \<longleftrightarrow> \<not> tested (fst q) (snd q) s"
  by (simp add: ask_def)

lemma ask_all_Cons:
  "fst (ask_all (q # qs) s) = fst (ask q s) # fst (ask_all qs (snd (ask q s)))"
  "snd (ask_all (q # qs) s) = snd (ask_all qs (snd (ask q s)))"
  by (simp_all add: Let_def split: prod.split)

lemma ask_all_state: "tested k c (snd (ask_all qs s)) \<longleftrightarrow> tested k c s \<or> (k, c) \<in> set qs"
  by (induction qs arbitrary: s) (auto simp: ask_all_Cons(2) ask_state simp del: ask_all.simps(2))

lemma length_ask_all: "length (fst (ask_all qs s)) = length qs"
  by (induction qs arbitrary: s) (simp_all add: ask_all_Cons(1) del: ask_all.simps(2))

lemma ask_all_answers:
  "i < length qs \<Longrightarrow> fst (ask_all qs s) ! i \<longleftrightarrow>
     \<not> tested (fst (qs ! i)) (snd (qs ! i)) s \<and> qs ! i \<notin> set (take i qs)"
proof (induction qs arbitrary: s i)
  case (Cons q qs)
  show ?case
  proof (cases i)
    case 0
    then show ?thesis by (simp add: ask_all_Cons(1) ask_answer del: ask_all.simps(2))
  next
    case (Suc j)
    with Cons.prems have "j < length qs" by simp
    from Cons.IH [OF this, of "snd (ask q s)"] Suc show ?thesis
      by (auto simp: ask_all_Cons(1) ask_state simp del: ask_all.simps(2))
  qed
qed simp

end

interpretation kb: coverage_store mark seen knowledge_init
  by unfold_locales (auto simp: seen_def mark_def knowledge_init_def dget_or_def)

lemma should_test_ask: "should_test k c = kb.ask (k, c)"
  by (intro ext) (simp add: should_test_def kb.ask_def)

lemma knowledge_ok: "dict_ok (kb_covered kb) \<Longrightarrow> dict_ok (kb_covered (mark k c kb))"
  by (simp add: mark_def)


subsection \<open>Properties\<close>

text \<open>The answers of a sequence of \<open>should_test\<close> calls.\<close>

fun should_test_all ::
  "(string \<times> string) list \<Rightarrow> RequestKnowledgeBase \<Rightarrow> bool list \<times> RequestKnowledgeBase" where
  "should_test_all [] kb = ([], kb)"
| "should_test_all ((k, c) # qs) kb =
     (let (b, kb') = should_test k c kb; (bs, kb'') = should_test_all qs kb' in (b # bs, kb''))"

lemma should_test_all_ask: "should_test_all qs = kb.ask_all qs"
  by (induction qs rule: list.induct) (auto simp: should_test_ask intro!: ext)

text \<open>
  C37: starting from an empty knowledge base, a sequence of \<open>should_test\<close> calls says yes to a
  pair of coverage key and test class the first time it is asked about and never again, and
  afterwards exactly the pairs asked about count as seen.
\<close>

theorem should_test_once:
  assumes "i < length qs"
  shows "(fst (should_test_all qs knowledge_init) ! i \<longleftrightarrow> qs ! i \<notin> set (take i qs)) \<and>
    (seen k c (snd (should_test_all qs knowledge_init)) \<longleftrightarrow> (k, c) \<in> set qs)"
  using kb.ask_all_answers [OF assms, of knowledge_init] kb.ask_all_state [of k c qs knowledge_init]
    kb.tested_empty
  by (simp add: should_test_all_ask)

theorem should_test_once_witness:
  "\<not> fst (should_test_all [(''k'', ''xss''), (''k'', ''xss'')] knowledge_init) ! 1"
  by (subst should_test_once [THEN conjunct1]) simp_all

text \<open>
  a request is counted under the template of its path: two numeric instances of one endpoint
  share their coverage key, whatever the case of host and method.
\<close>

theorem coverage_key_template:
  assumes "isdigit m" and "isdigit n"
  shows "coverage_key host port (a @ ''/'' @ m @ ''/'' @ b) mth prm =
         coverage_key (lower host) port (a @ ''/'' @ n @ ''/'' @ b) (upper mth) prm"
proof -
  have "\<not> is_digit (CHR ''/'')" by (simp add: is_digit_def less_eq_char_def)
  with assms have "CHR ''/'' \<notin> set m" "CHR ''/'' \<notin> set n" by (auto simp: isdigit_def list_all_iff)
  with assms have "normalize_endpoint (a @ ''/'' @ m @ ''/'' @ b) = normalize_endpoint (a @ ''/'' @ n @ ''/'' @ b)"
    by (intro normalize_endpoint_ids)
  then show ?thesis by (simp add: coverage_key_def)
qed

theorem coverage_key_template_witness:
  "coverage_key ''H'' 80 (''/u'' @ ''/'' @ ''1'' @ ''/'' @ ''x'') ''get'' None =
   coverage_key (lower ''H'') 80 (''/u'' @ ''/'' @ ''23'' @ ''/'' @ ''x'') (upper ''get'') None"
  by (rule coverage_key_template) code_simp+

end
