(* ===== verification/Validation.thy ===== *)
theory Validation
  imports Domain
begin

text \<open>
  The validation engine (\<open>vantage/scan/validation.py\<close>).  A prober is a fallible fetch (its
  exceptions reach the caller); the identifier and the time of the new evidence are arguments.
\<close>

datatype Verdict = VERDICT_CONFIRMED | REFUTED | INCONCLUSIVE

record ProbeResponse =
  pr_status :: int
  pr_headers :: "(string, string) dict"
  pr_body :: string
  pr_url :: string
  pr_elapsed_ms :: rat

type_synonym prober = "string \<Rightarrow> ProbeResponse res"

record ValidationResult =
  vr_verdict :: Verdict
  vr_confidence :: Confidence
  vr_evidence :: "Evidence option"
  vr_detail :: string

record ValidationStrategy =
  vs_handles :: "Observation \<Rightarrow> bool"
  vs_validate :: "string \<Rightarrow> int \<Rightarrow> Observation \<Rightarrow> prober \<Rightarrow> ValidationResult res"

definition url_of :: "Observation \<Rightarrow> string" where
  "url_of ob =
     (let loc = obs_location ob
      in loc_scheme loc @ ''://'' @ loc_host loc @ '':'' @ str_of_int (loc_port loc) @ loc_path loc)"

definition validation_evidence ::
  "string \<Rightarrow> int \<Rightarrow> string \<Rightarrow> HttpMessage option \<Rightarrow> string list \<Rightarrow> (string \<times> pyval) list \<Rightarrow> Evidence" where
  "validation_evidence eid now summary response matched data =
     \<lparr>ev_id = eid, ev_kind = VALIDATION_RESULT, ev_engine_id = ''vantage-validator'',
      ev_summary = summary, ev_request = None, ev_response = response, ev_matched = matched,
      ev_artifact_refs = [], ev_data = data, ev_captured_at = now\<rparr>"

subsection \<open>Re-verifying configuration findings\<close>

definition CONFIG_CATEGORIES :: "string list" where
  "CONFIG_CATEGORIES =
     [''missing_security_header'', ''insecure_cookie'', ''cors_misconfiguration'',
      ''directory_listing'', ''clickjacking'']"

definition header_prefixes :: "string list" where
  "header_prefixes = [''content-security'', ''strict-transport'', ''x-'', ''referrer'']"

definition expected_header :: "Observation \<Rightarrow> string option" where
  "expected_header ob =
     (case List.find (\<lambda>name. list_ex (startswith (lower name)) header_prefixes)
             (concat (List.map ev_matched (obs_evidence ob))) of
        Some name \<Rightarrow> Some (lower name)
      | None \<Rightarrow>
          (case partition_on CHR '':'' (obs_detector_id ob) of
             (_, sep, after) \<Rightarrow> if sep then Some (lower after) else None))"

definition condition_holds :: "Observation \<Rightarrow> ProbeResponse \<Rightarrow> string list \<Rightarrow> bool" where
  "condition_holds ob resp header_names =
     (let cat = obs_vuln_class ob
      in if cat = ''missing_security_header''
         then (case expected_header ob of None \<Rightarrow> False | Some h \<Rightarrow> h \<notin> set header_names)
         else if cat = ''clickjacking''
         then ''x-frame-options'' \<notin> set header_names \<and> ''content-security-policy'' \<notin> set header_names
         else if cat = ''insecure_cookie''
         then (let set_cookie = sor (dget_or (pr_headers resp) ''set-cookie'' [])
                                    (dget_or (pr_headers resp) ''Set-Cookie'' [])
               in \<not> contains ''secure'' (lower set_cookie) \<or> \<not> contains ''httponly'' (lower set_cookie))
         else if cat = ''directory_listing''
         then (let body = lower (pr_body resp)
               in contains ''index of /'' body \<or> contains ''<title>directory listing'' body)
         else if cat = ''cors_misconfiguration''
         then ''access-control-allow-origin'' \<in> set header_names
         else False)"

definition config_validate :: "string \<Rightarrow> int \<Rightarrow> Observation \<Rightarrow> prober \<Rightarrow> ValidationResult res" where
  "config_validate eid now ob get =
     bind_res (get (url_of ob)) (\<lambda>resp.
       (let header_names = List.map lower (dkeys (pr_headers resp));
            still_present = condition_holds ob resp header_names;
            ev = validation_evidence eid now
                   (''Re-verified '' @ obs_vuln_class ob @ '': condition ''
                    @ (if still_present then ''holds'' else ''no longer holds'') @ '' on fresh request'')
                   (Some \<lparr>hm_method = None, hm_url = Some (pr_url resp), hm_status = Some (pr_status resp),
                          hm_headers = pr_headers resp, hm_body = None, hm_body_truncated = False\<rparr>)
                   [] [(''category'', PStr (obs_vuln_class ob))]
        in Inr (if still_present
                then \<lparr>vr_verdict = VERDICT_CONFIRMED, vr_confidence = CONFIRMED, vr_evidence = Some ev,
                      vr_detail = ''condition holds''\<rparr>
                else \<lparr>vr_verdict = REFUTED, vr_confidence = FALSE_POSITIVE, vr_evidence = Some ev,
                      vr_detail = ''condition not reproduced''\<rparr>)))"

definition ConfigReverifyStrategy :: ValidationStrategy where
  "ConfigReverifyStrategy =
     \<lparr>vs_handles = (\<lambda>ob. obs_vuln_class ob \<in> set CONFIG_CATEGORIES), vs_validate = config_validate\<rparr>"

subsection \<open>Reflection indicators\<close>

definition REFLECTION_CATEGORIES :: "string list" where
  "REFLECTION_CATEGORIES = [''xss'', ''open_redirect'', ''header_injection'']"

fun reflection_marker :: "Evidence list \<Rightarrow> string option" where
  "reflection_marker [] = None"
| "reflection_marker (ev # evs) =
     (case ev_matched ev of m # _ \<Rightarrow> Some m | [] \<Rightarrow> reflection_marker evs)"

definition reflection_validate :: "string \<Rightarrow> int \<Rightarrow> Observation \<Rightarrow> prober \<Rightarrow> ValidationResult res" where
  "reflection_validate eid now ob get =
     (case osor (reflection_marker (obs_evidence ob)) [] of
        [] \<Rightarrow> Inr \<lparr>vr_verdict = INCONCLUSIVE, vr_confidence = obs_confidence ob, vr_evidence = None,
                   vr_detail = ''no reproducible marker''\<rparr>
      | marker \<Rightarrow>
          bind_res (get (url_of ob)) (\<lambda>base.
            (let baseline_clean = (\<not> contains marker (pr_body base));
                 ev = validation_evidence eid now
                        (''Baseline differential for '' @ obs_vuln_class ob @ '': marker ''
                         @ (if baseline_clean then ''absent from'' else ''present in'') @ '' clean baseline'')
                        None [marker] [(''baseline_clean'', PBool baseline_clean)]
             in Inr (if baseline_clean
                     then \<lparr>vr_verdict = INCONCLUSIVE, vr_confidence = FIRM, vr_evidence = Some ev,
                           vr_detail = ''marker absent from baseline; reflection is meaningful''\<rparr>
                     else \<lparr>vr_verdict = REFUTED, vr_confidence = FALSE_POSITIVE, vr_evidence = Some ev,
                           vr_detail = ''marker present in clean baseline; likely coincidental''\<rparr>))))"

definition ReflectionConsistencyStrategy :: ValidationStrategy where
  "ReflectionConsistencyStrategy =
     \<lparr>vs_handles = (\<lambda>ob. obs_vuln_class ob \<in> set REFLECTION_CATEGORIES \<and>
                         osor (reflection_marker (obs_evidence ob)) [] \<noteq> []),
      vs_validate = reflection_validate\<rparr>"

subsection \<open>The engine\<close>

definition default_strategies :: "ValidationStrategy list" where
  "default_strategies = [ConfigReverifyStrategy, ReflectionConsistencyStrategy]"

text \<open>\<open>strategies or [\<dots>]\<close>.\<close>

definition ValidationEngine_init :: "ValidationStrategy list option \<Rightarrow> ValidationStrategy list" where
  "ValidationEngine_init strategies =
     (case strategies of Some (s # ss) \<Rightarrow> s # ss | _ \<Rightarrow> default_strategies)"

definition apply_result :: "int \<Rightarrow> Observation \<Rightarrow> ValidationResult \<Rightarrow> Observation" where
  "apply_result now ob result =
     (let updated = obs_evidence ob @ (case vr_evidence result of None \<Rightarrow> [] | Some ev \<Rightarrow> [ev]);
          new_conf = (if obs_confidence ob = CONFIRMED \<and> vr_confidence result \<noteq> FALSE_POSITIVE
                      then CONFIRMED else vr_confidence result)
      in ob\<lparr>obs_confidence := new_conf, obs_evidence := updated, obs_observed_at := now\<rparr>)"

fun validate_with ::
  "ValidationStrategy list \<Rightarrow> string \<Rightarrow> int \<Rightarrow> Observation \<Rightarrow> prober \<Rightarrow> Observation res" where
  "validate_with [] eid now ob get = Inr ob"
| "validate_with (strat # strats) eid now ob get =
     (if vs_handles strat ob
      then bind_res (vs_validate strat eid now ob get) (\<lambda>result. Inr (apply_result now ob result))
      else validate_with strats eid now ob get)"

definition validate :: "string \<Rightarrow> int \<Rightarrow> Observation \<Rightarrow> prober \<Rightarrow> Observation res" where
  "validate = validate_with default_strategies"

subsection \<open>The contract of a strategy\<close>

text \<open>
  A strategy that refutes marks the observation as a false positive and says why; it raises an
  observation it handles to confirmed only together with that verdict, with evidence.
\<close>

locale validation_strategy =
  fixes strat :: ValidationStrategy
  assumes refutes: "vs_handles strat ob \<Longrightarrow> vs_validate strat eid now ob get = Inr r \<Longrightarrow>
      vr_confidence r = FALSE_POSITIVE \<longleftrightarrow> vr_verdict r = REFUTED"
    and confirms: "vs_handles strat ob \<Longrightarrow> vs_validate strat eid now ob get = Inr r \<Longrightarrow>
      vr_confidence r = CONFIRMED \<longleftrightarrow> vr_verdict r = VERDICT_CONFIRMED"
    and justified: "vs_handles strat ob \<Longrightarrow> vs_validate strat eid now ob get = Inr r \<Longrightarrow>
      vr_evidence r \<noteq> None"
begin

lemma applied:
  assumes "vs_handles strat ob" "vs_validate strat eid now ob get = Inr r"
  shows "length (obs_evidence (apply_result now ob r)) = Suc (length (obs_evidence ob))"
    and "obs_confidence (apply_result now ob r) = FALSE_POSITIVE \<longleftrightarrow> vr_verdict r = REFUTED"
    and "obs_confidence (apply_result now ob r) = CONFIRMED \<longleftrightarrow>
      vr_verdict r = VERDICT_CONFIRMED \<or> obs_confidence ob = CONFIRMED \<and> vr_verdict r \<noteq> REFUTED"
  using justified [OF assms] refutes [OF assms] confirms [OF assms]
  by (auto simp: apply_result_def Let_def split: option.splits)

end

lemma config_result:
  assumes "config_validate eid now ob get = Inr r"
  obtains resp where "get (url_of ob) = Inr resp" and "vr_evidence r \<noteq> None"
    and "vr_verdict r = (if condition_holds ob resp (map lower (dkeys (pr_headers resp)))
                         then VERDICT_CONFIRMED else REFUTED)"
    and "vr_confidence r = (if condition_holds ob resp (map lower (dkeys (pr_headers resp)))
                            then CONFIRMED else FALSE_POSITIVE)"
proof -
  from assms obtain resp where resp: "get (url_of ob) = Inr resp"
    unfolding config_validate_def bind_res_Inr_iff by blast
  note r = assms [unfolded config_validate_def resp bind_res_simps Let_def, THEN Inr_inject, symmetric]
  show thesis
    by (rule that [OF resp]; subst r; cases "condition_holds ob resp (map lower (dkeys (pr_headers resp)))";
        simp only: if_True if_False ValidationResult.simps not_None_eq; blast?)
qed

lemma reflection_result:
  assumes "reflection_validate eid now ob get = Inr r" "osor (reflection_marker (obs_evidence ob)) [] \<noteq> []"
  shows "vr_evidence r \<noteq> None \<and>
    (vr_verdict r = INCONCLUSIVE \<and> vr_confidence r = FIRM \<or> vr_verdict r = REFUTED \<and> vr_confidence r = FALSE_POSITIVE)"
proof -
  obtain c cs where m: "osor (reflection_marker (obs_evidence ob)) [] = c # cs"
    using assms(2) by (cases "osor (reflection_marker (obs_evidence ob)) []") auto
  from assms(1) obtain base where base: "get (url_of ob) = Inr base"
    unfolding reflection_validate_def m list.case bind_res_Inr_iff by blast
  note r = assms(1) [unfolded reflection_validate_def m list.case base bind_res_simps Let_def,
      THEN Inr_inject, symmetric]
  show ?thesis
    by (subst (1 2 3 4 5) r; cases "contains (c # cs) (pr_body base)";
        simp only: if_True if_False simp_thms ValidationResult.simps not_None_eq; blast?)
qed

interpretation config: validation_strategy ConfigReverifyStrategy
proof unfold_locales
  fix ob eid now get r
  assume "vs_validate ConfigReverifyStrategy eid now ob get = Inr r"
  then have r: "config_validate eid now ob get = Inr r" by (simp add: ConfigReverifyStrategy_def)
  show "vr_confidence r = FALSE_POSITIVE \<longleftrightarrow> vr_verdict r = REFUTED"
    and "vr_confidence r = CONFIRMED \<longleftrightarrow> vr_verdict r = VERDICT_CONFIRMED"
    and "vr_evidence r \<noteq> None"
    by (rule config_result [OF r]; simp)+
qed

interpretation reflection: validation_strategy ReflectionConsistencyStrategy
proof unfold_locales
  fix ob eid now get r
  assume "vs_handles ReflectionConsistencyStrategy ob"
    "vs_validate ReflectionConsistencyStrategy eid now ob get = Inr r"
  then have "osor (reflection_marker (obs_evidence ob)) [] \<noteq> []" "reflection_validate eid now ob get = Inr r"
    by (simp_all add: ReflectionConsistencyStrategy_def)
  from reflection_result [OF this(2,1)]
  show "vr_confidence r = FALSE_POSITIVE \<longleftrightarrow> vr_verdict r = REFUTED"
    and "vr_confidence r = CONFIRMED \<longleftrightarrow> vr_verdict r = VERDICT_CONFIRMED"
    and "vr_evidence r \<noteq> None"
    by auto
qed

lemma validate_cases:
  assumes "validate eid now ob get = Inr ob'"
  obtains (unhandled) "ob' = ob" "\<not> vs_handles ConfigReverifyStrategy ob" "\<not> vs_handles ReflectionConsistencyStrategy ob"
  | (config) r where "vs_handles ConfigReverifyStrategy ob"
      "vs_validate ConfigReverifyStrategy eid now ob get = Inr r" "ob' = apply_result now ob r"
  | (reflection) r where "vs_handles ReflectionConsistencyStrategy ob"
      "vs_validate ReflectionConsistencyStrategy eid now ob get = Inr r" "ob' = apply_result now ob r"
proof -
  from assms have h: "validate_with [ConfigReverifyStrategy, ReflectionConsistencyStrategy] eid now ob get = Inr ob'"
    by (simp only: validate_def default_strategies_def)
  show thesis
  proof (cases "vs_handles ConfigReverifyStrategy ob")
    case True
    with h obtain r where "vs_validate ConfigReverifyStrategy eid now ob get = Inr r"
      "ob' = apply_result now ob r" by (auto simp: bind_res_Inr_iff)
    then show thesis by (rule config [OF True])
  next
    case nc: False
    show thesis
    proof (cases "vs_handles ReflectionConsistencyStrategy ob")
      case True
      with h nc obtain r where "vs_validate ReflectionConsistencyStrategy eid now ob get = Inr r"
        "ob' = apply_result now ob r" by (auto simp: bind_res_Inr_iff)
      then show thesis by (rule reflection [OF True])
    next
      case False
      with h nc have "ob' = ob" by simp
      then show thesis using nc False by (rule unhandled)
    qed
  qed
qed

subsection \<open>Properties\<close>

text \<open>
  validation only adds.  It changes nothing of an observation but its confidence, its
  time and its evidence, which it extends by at most one piece; a confirmed
  observation stays confirmed or is refuted.
\<close>

theorem validate_preserves:
  assumes "validate eid now ob get = Inr ob'"
  shows "\<exists>evs conf time. ob' = ob\<lparr>obs_confidence := conf, obs_evidence := obs_evidence ob @ evs,
           obs_observed_at := time\<rparr> \<and> length evs \<le> 1 \<and>
         (obs_confidence ob = CONFIRMED \<longrightarrow> conf \<in> {CONFIRMED, FALSE_POSITIVE})"
  using assms
proof (cases rule: validate_cases)
  case unhandled
  then show ?thesis
    by (intro exI [of _ "[]"] exI [of _ "obs_confidence ob"] exI [of _ "obs_observed_at ob"]) simp
next
  case (config r)
  then show ?thesis
    by (intro exI [of _ "case vr_evidence r of None \<Rightarrow> [] | Some ev \<Rightarrow> [ev]"]
        exI [of _ "obs_confidence ob'"] exI [of _ now])
      (auto simp: apply_result_def Let_def split: option.split)
next
  case (reflection r)
  then show ?thesis
    by (intro exI [of _ "case vr_evidence r of None \<Rightarrow> [] | Some ev \<Rightarrow> [ev]"]
        exI [of _ "obs_confidence ob'"] exI [of _ now])
      (auto simp: apply_result_def Let_def split: option.split)
qed

text \<open>
  C38: an observation becomes confirmed only by re-verification: it is of a configuration category,
  its URL was fetched again, and the reported condition holds of the fresh response.
\<close>

theorem confirmed_only_by_reverification:
  assumes "validate eid now ob get = Inr ob'" and "obs_confidence ob' = CONFIRMED"
    and "obs_confidence ob \<noteq> CONFIRMED"
  shows "obs_vuln_class ob \<in> set CONFIG_CATEGORIES \<and>
    (\<exists>resp. get (url_of ob) = Inr resp \<and>
       condition_holds ob resp (map lower (dkeys (pr_headers resp))))"
  using assms(1)
proof (cases rule: validate_cases)
  case unhandled
  with assms(2,3) show ?thesis by simp
next
  case (config r)
  with assms(2,3) have "vr_verdict r = VERDICT_CONFIRMED" using config.applied(3) by blast
  moreover from config(2) have "config_validate eid now ob get = Inr r"
    by (simp add: ConfigReverifyStrategy_def)
  ultimately obtain resp where "get (url_of ob) = Inr resp"
    "condition_holds ob resp (map lower (dkeys (pr_headers resp)))"
    by (elim config_result) (simp split: if_splits)
  moreover from config(1) have "obs_vuln_class ob \<in> set CONFIG_CATEGORIES"
    by (simp add: ConfigReverifyStrategy_def)
  ultimately show ?thesis by blast
next
  case (reflection r)
  with assms(2,3) have v: "vr_verdict r = VERDICT_CONFIRMED" using reflection.applied(3) by blast
  from reflection(1,2) have "osor (reflection_marker (obs_evidence ob)) [] \<noteq> []"
    "reflection_validate eid now ob get = Inr r"
    by (simp_all add: ReflectionConsistencyStrategy_def)
  from reflection_result [OF this(2,1)] v show ?thesis by simp
qed

text \<open>
  the verdicts are not only CONFIRMED and FALSE_POSITIVE: a reflection whose marker is absent from
  the baseline comes out as FIRM, even when the observation had been marked a false positive.
\<close>

theorem reflection_raises_to_firm:
  assumes "obs_vuln_class ob = ''xss''" and "reflection_marker (obs_evidence ob) = Some marker"
    and "marker \<noteq> []" and "get (url_of ob) = Inr base" and "\<not> contains marker (pr_body base)"
    and "obs_confidence ob = FALSE_POSITIVE"
  shows "\<exists>ob'. validate eid now ob get = Inr ob' \<and> obs_confidence ob' = FIRM"
proof -
  have "\<not> vs_handles ConfigReverifyStrategy ob"
    by (simp add: ConfigReverifyStrategy_def CONFIG_CATEGORIES_def assms(1))
  moreover have "vs_handles ReflectionConsistencyStrategy ob"
    using assms(1-3) by (simp add: ReflectionConsistencyStrategy_def REFLECTION_CATEGORIES_def osor_def sor_def)
  moreover obtain c cs where "marker = c # cs" using assms(3) by (cases marker) auto
  then have "\<exists>r. vs_validate ReflectionConsistencyStrategy eid now ob get = Inr r \<and> vr_confidence r = FIRM"
    using assms by (simp add: ReflectionConsistencyStrategy_def reflection_validate_def osor_def sor_def Let_def)
  ultimately show ?thesis
    using assms(6) by (auto simp: validate_def default_strategies_def apply_result_def Let_def)
qed


subsection \<open>Witnesses\<close>

definition demo_candidate :: "string \<Rightarrow> Confidence \<Rightarrow> string list \<Rightarrow> Observation" where
  "demo_candidate cls conf matched =
     \<lparr>obs_id = ''o1'', obs_scan_id = ''s'', obs_run_id = ''r'', obs_engine_id = ''zap'',
      obs_engine_version = ''1'', obs_detector_id = ''missing-header:x-frame-options'', obs_title = ''t'',
      obs_vuln_class = cls, obs_severity = MEDIUM, obs_confidence = conf, obs_cwe = [],
      obs_location = \<lparr>loc_scheme = ''https'', loc_host = ''a'', loc_port = 8, loc_path = ''/'',
        loc_method = None, loc_parameter = None, loc_parameter_location = None\<rparr>,
      obs_description = [], obs_remediation = [], obs_references = [],
      obs_evidence = [validation_evidence ''e0'' 0 ''seen'' None matched []], obs_raw_ref = None,
      obs_observed_at = 5\<rparr>"

definition demo_probe :: prober where
  "demo_probe url = Inr \<lparr>pr_status = 200, pr_headers = [(''Server'', ''x'')], pr_body = ''hello'',
                         pr_url = url, pr_elapsed_ms = 1\<rparr>"

definition demo_header_finding :: Observation where
  "demo_header_finding = demo_candidate ''missing_security_header'' TENTATIVE []"

lemma demo_validated:
  obtains ob' where "validate ''v'' 9 demo_header_finding demo_probe = Inr ob'"
    and "obs_confidence ob' = CONFIRMED"
proof -
  have "map_sum id obs_confidence (validate ''v'' 9 demo_header_finding demo_probe) = Inr CONFIRMED"
    by code_simp
  then show thesis
    by (cases "validate ''v'' 9 demo_header_finding demo_probe") (auto intro: that)
qed

theorem validate_preserves_witness:
  "\<exists>ob'. validate ''v'' 9 demo_header_finding demo_probe = Inr ob' \<and>
     obs_id ob' = ''o1'' \<and> take 1 (obs_evidence ob') = obs_evidence demo_header_finding"
proof -
  obtain ob' where ob': "validate ''v'' 9 demo_header_finding demo_probe = Inr ob'"
    by (rule demo_validated)
  from validate_preserves [OF this] obtain evs conf time where
    "ob' = demo_header_finding\<lparr>obs_confidence := conf,
       obs_evidence := obs_evidence demo_header_finding @ evs, obs_observed_at := time\<rparr>"
    by blast
  with ob' show ?thesis by (simp add: demo_header_finding_def demo_candidate_def)
qed

theorem confirmed_only_by_reverification_witness:
  "\<exists>resp. demo_probe (url_of demo_header_finding) = Inr resp \<and>
     condition_holds demo_header_finding resp (map lower (dkeys (pr_headers resp)))"
proof -
  obtain ob' where "validate ''v'' 9 demo_header_finding demo_probe = Inr ob'" "obs_confidence ob' = CONFIRMED"
    by (rule demo_validated)
  from confirmed_only_by_reverification [OF this] show ?thesis
    by (simp add: demo_header_finding_def demo_candidate_def)
qed

theorem reflection_raises_to_firm_witness:
  "\<exists>ob'. validate ''v'' 9 (demo_candidate ''xss'' FALSE_POSITIVE [''vq7'']) demo_probe = Inr ob' \<and>
     obs_confidence ob' = FIRM"
proof (rule reflection_raises_to_firm)
  show "reflection_marker (obs_evidence (demo_candidate ''xss'' FALSE_POSITIVE [''vq7''])) = Some ''vq7''"
    by (simp add: demo_candidate_def validation_evidence_def)
  show "demo_probe (url_of (demo_candidate ''xss'' FALSE_POSITIVE [''vq7''])) =
    Inr \<lparr>pr_status = 200, pr_headers = [(''Server'', ''x'')], pr_body = ''hello'',
         pr_url = url_of (demo_candidate ''xss'' FALSE_POSITIVE [''vq7'']), pr_elapsed_ms = 1\<rparr>"
    by (simp add: demo_probe_def)
  show "\<not> contains ''vq7'' (pr_body \<lparr>pr_status = 200, pr_headers = [(''Server'', ''x'')], pr_body = ''hello'',
         pr_url = url_of (demo_candidate ''xss'' FALSE_POSITIVE [''vq7'']), pr_elapsed_ms = 1\<rparr>)"
    unfolding ProbeResponse.simps by code_simp
qed (simp_all add: demo_candidate_def)

end
