(* ===== verification/Repositories.thy ===== *)
theory Repositories
  imports Domain
begin

text \<open>
  Persistence (\<open>vantage/persistence/models.py\<close>, \<open>vantage/persistence/repositories.py\<close>): one list of rows per
  table, in insertion order.  A row keeps its payload as the domain object it was dumped from; the
  columns are those the repositories write.  The order of a query result is an argument of the query
  (\<open>order\<close>: what \<open>ORDER BY \<dots> DESC\<close> makes of the selected rows); primary keys and the unique index are
  checked when a unit of work commits, and a failing unit of work leaves the database as it was.
\<close>

subsection \<open>models.py\<close>

record TargetRow =
  tr_id :: string
  tr_tenant_id :: string
  tr_name :: string
  tr_kind :: string
  tr_authorized :: bool
  tr_created_at :: int
  tr_payload :: Target

record ScanRow =
  sr_id :: string
  sr_tenant_id :: string
  sr_target_id :: string
  sr_state :: string
  sr_created_by :: string
  sr_created_at :: int
  sr_started_at :: "int option"
  sr_finished_at :: "int option"
  sr_payload :: Scan

record ObservationRow =
  or_id :: string
  or_scan_id :: string
  or_run_id :: string
  or_engine_id :: string
  or_vuln_class :: string
  or_severity :: string
  or_host :: string
  or_payload :: Observation

record FindingRow =
  fr_id :: string
  fr_tenant_id :: string
  fr_scan_id :: string
  fr_target_id :: string
  fr_fingerprint :: string
  fr_category :: string
  fr_severity :: string
  fr_confidence :: string
  fr_risk_score :: rat
  fr_status :: string
  fr_payload :: UnifiedFinding

record KnowledgeRow =
  kr_scan_id :: string
  kr_key :: string
  kr_engine_id :: string
  kr_test_class :: string
  kr_result :: string
  kr_created_at :: int

record AuditRow =
  au_tenant_id :: string
  au_actor :: string
  au_action :: string
  au_resource :: string
  au_at :: int
  au_detail :: string

record Database =
  db_targets :: "TargetRow list"
  db_scans :: "ScanRow list"
  db_observations :: "ObservationRow list"
  db_findings :: "FindingRow list"
  db_knowledge :: "KnowledgeRow list"
  db_audit :: "AuditRow list"

definition Database_init :: Database where
  "Database_init = \<lparr>db_targets = [], db_scans = [], db_observations = [], db_findings = [],
     db_knowledge = [], db_audit = []\<rparr>"

fun status_value :: "FindingStatus \<Rightarrow> string" where
  "status_value OPEN = ''open''"
| "status_value TRIAGED = ''triaged''"
| "status_value ACCEPTED_RISK = ''accepted_risk''"
| "status_value FIXED = ''fixed''"
| "status_value STATUS_FALSE_POSITIVE = ''false_positive''"

subsection \<open>Selecting and replacing rows\<close>

text \<open>Changing the first row with a key, or adding a new one at the end.\<close>

fun put_row :: "('r \<Rightarrow> 'k) \<Rightarrow> 'k \<Rightarrow> ('r \<Rightarrow> 'r) \<Rightarrow> 'r \<Rightarrow> 'r list \<Rightarrow> 'r list" where
  "put_row key k change new [] = [new]"
| "put_row key k change new (r # rs) =
     (if key r = k then change r # rs else r # put_row key k change new rs)"

definition find_row :: "('r \<Rightarrow> 'k) \<Rightarrow> 'k \<Rightarrow> 'r list \<Rightarrow> 'r option" where
  "find_row key k rs = List.find (\<lambda>r. key r = k) rs"

subsection \<open>TargetRepository\<close>

definition target_upsert :: "int \<Rightarrow> Target \<Rightarrow> Database \<Rightarrow> Database" where
  "target_upsert now t db =
     db\<lparr>db_targets := put_row tr_id (t_id t)
          (\<lambda>row. row\<lparr>tr_tenant_id := t_tenant_id t, tr_name := t_name t, tr_kind := kind_value (t_kind t),
                    tr_authorized := is_authorized now t, tr_payload := t\<rparr>)
          \<lparr>tr_id = t_id t, tr_tenant_id = t_tenant_id t, tr_name = t_name t,
           tr_kind = kind_value (t_kind t), tr_authorized = is_authorized now t,
           tr_created_at = t_created_at t, tr_payload = t\<rparr>
          (db_targets db)\<rparr>"

definition target_get :: "string \<Rightarrow> Database \<Rightarrow> Target option" where
  "target_get target_id db = map_option tr_payload (find_row tr_id target_id (db_targets db))"

definition target_list :: "string \<Rightarrow> Database \<Rightarrow> Target list" where
  "target_list tenant_id db =
     List.map tr_payload (List.filter (\<lambda>r. tr_tenant_id r = tenant_id) (db_targets db))"

subsection \<open>ScanRepository\<close>

definition scan_upsert :: "Scan \<Rightarrow> Database \<Rightarrow> Database" where
  "scan_upsert s db =
     db\<lparr>db_scans := put_row sr_id (s_id s)
          (\<lambda>row. row\<lparr>sr_state := scan_state_value (s_state s), sr_started_at := s_started_at s,
                    sr_finished_at := s_finished_at s, sr_payload := s\<rparr>)
          \<lparr>sr_id = s_id s, sr_tenant_id = s_tenant_id s, sr_target_id = s_target_id s,
           sr_state = scan_state_value (s_state s), sr_created_by = s_created_by s,
           sr_created_at = s_created_at s, sr_started_at = s_started_at s,
           sr_finished_at = s_finished_at s, sr_payload = s\<rparr>
          (db_scans db)\<rparr>"

definition scan_get :: "string \<Rightarrow> Database \<Rightarrow> Scan option" where
  "scan_get scan_id db = map_option sr_payload (find_row sr_id scan_id (db_scans db))"

definition scan_list ::
  "(ScanRow list \<Rightarrow> ScanRow list) \<Rightarrow> string \<Rightarrow> ScanState option \<Rightarrow> Database \<Rightarrow> Scan list" where
  "scan_list order tenant_id state db =
     List.map sr_payload (order
       (List.filter (\<lambda>r. sr_tenant_id r = tenant_id \<and>
          (case state of None \<Rightarrow> True | Some st \<Rightarrow> sr_state r = scan_state_value st)) (db_scans db)))"

subsection \<open>ObservationRepository\<close>

definition observation_row :: "Observation \<Rightarrow> ObservationRow" where
  "observation_row ob =
     \<lparr>or_id = obs_id ob, or_scan_id = obs_scan_id ob, or_run_id = obs_run_id ob,
      or_engine_id = obs_engine_id ob, or_vuln_class = obs_vuln_class ob,
      or_severity = severity_value (obs_severity ob), or_host = loc_host (obs_location ob),
      or_payload = ob\<rparr>"

definition observations_add_many :: "Observation list \<Rightarrow> Database \<Rightarrow> Database" where
  "observations_add_many observations db =
     db\<lparr>db_observations := db_observations db @ List.map observation_row observations\<rparr>"

definition observations_for_scan :: "string \<Rightarrow> Database \<Rightarrow> Observation list" where
  "observations_for_scan scan_id db =
     List.map or_payload (List.filter (\<lambda>r. or_scan_id r = scan_id) (db_observations db))"

subsection \<open>FindingRepository\<close>

definition finding_row_key :: "FindingRow \<Rightarrow> string \<times> string" where
  "finding_row_key r = (fr_scan_id r, fr_fingerprint r)"

definition finding_row_of :: "UnifiedFinding \<Rightarrow> FindingRow" where
  "finding_row_of f =
     \<lparr>fr_id = f_id f, fr_tenant_id = f_tenant_id f, fr_scan_id = f_scan_id f, fr_target_id = f_target_id f,
      fr_fingerprint = f_fingerprint f, fr_category = f_category f,
      fr_severity = severity_value (f_severity f), fr_confidence = confidence_value (f_confidence f),
      fr_risk_score = f_risk_score f, fr_status = status_value (f_status f), fr_payload = f\<rparr>"

definition finding_upsert :: "UnifiedFinding \<Rightarrow> Database \<Rightarrow> Database res" where
  "finding_upsert f db =
     (if 1 < length (List.filter (\<lambda>r. finding_row_key r = (f_scan_id f, f_fingerprint f)) (db_findings db))
      then Inl (RuntimeError ''MultipleResultsFound'')
      else Inr (db\<lparr>db_findings := put_row finding_row_key (f_scan_id f, f_fingerprint f)
          (\<lambda>row. row\<lparr>fr_severity := severity_value (f_severity f),
                    fr_confidence := confidence_value (f_confidence f), fr_risk_score := f_risk_score f,
                    fr_status := status_value (f_status f), fr_payload := f\<rparr>)
          (finding_row_of f) (db_findings db)\<rparr>))"

definition findings_for_scan ::
  "(FindingRow list \<Rightarrow> FindingRow list) \<Rightarrow> string \<Rightarrow> Severity option \<Rightarrow> Database \<Rightarrow> UnifiedFinding list" where
  "findings_for_scan order scan_id min_severity db =
     (let findings = List.map fr_payload
            (order (List.filter (\<lambda>r. fr_scan_id r = scan_id) (db_findings db)))
      in case min_severity of
           None \<Rightarrow> findings
         | Some m \<Rightarrow> List.filter (\<lambda>f. severity_rank (f_severity f) \<ge> severity_rank m) findings)"

subsection \<open>KnowledgeRepository and AuditRepository\<close>

definition knowledge_record ::
  "int \<Rightarrow> string \<Rightarrow> string \<Rightarrow> string \<Rightarrow> string \<Rightarrow> string \<Rightarrow> Database \<Rightarrow> Database" where
  "knowledge_record now scan_id key engine_id test_class result db =
     db\<lparr>db_knowledge := db_knowledge db @
          [\<lparr>kr_scan_id = scan_id, kr_key = key, kr_engine_id = engine_id, kr_test_class = test_class,
            kr_result = result, kr_created_at = now\<rparr>]\<rparr>"

definition knowledge_seen :: "string \<Rightarrow> string \<Rightarrow> string \<Rightarrow> Database \<Rightarrow> bool" where
  "knowledge_seen scan_id key test_class db =
     list_ex (\<lambda>r. kr_scan_id r = scan_id \<and> kr_key r = key \<and> kr_test_class r = test_class) (db_knowledge db)"

definition audit_record ::
  "int \<Rightarrow> string \<Rightarrow> string \<Rightarrow> string \<Rightarrow> string \<Rightarrow> string \<Rightarrow> int option \<Rightarrow> Database \<Rightarrow> Database" where
  "audit_record now tenant_id actor action resource detail at_time db =
     db\<lparr>db_audit := db_audit db @
          [\<lparr>au_tenant_id = tenant_id, au_actor = actor, au_action = action, au_resource = resource,
            au_at = (case at_time of Some t \<Rightarrow> t | None \<Rightarrow> now), au_detail = detail\<rparr>]\<rparr>"

definition audit_recent ::
  "(AuditRow list \<Rightarrow> AuditRow list) \<Rightarrow> string \<Rightarrow> nat \<Rightarrow> Database \<Rightarrow> AuditRow list" where
  "audit_recent order tenant_id limit db =
     take limit (order (List.filter (\<lambda>r. au_tenant_id r = tenant_id) (db_audit db)))"

subsection \<open>Units of work\<close>

text \<open>The constraints of the schema: primary keys and the unique index on findings.\<close>

definition constraints_ok :: "Database \<Rightarrow> bool" where
  "constraints_ok db \<longleftrightarrow>
     distinct (List.map tr_id (db_targets db)) \<and> distinct (List.map sr_id (db_scans db)) \<and>
     distinct (List.map or_id (db_observations db)) \<and> distinct (List.map fr_id (db_findings db)) \<and>
     distinct (List.map finding_row_key (db_findings db))"

definition unit_of_work :: "(Database \<Rightarrow> Database res) \<Rightarrow> Database \<Rightarrow> unit res \<times> Database" where
  "unit_of_work body db =
     (case body db of
        Inl e \<Rightarrow> (Inl e, db)
      | Inr db' \<Rightarrow> if constraints_ok db' then (Inr (), db')
                  else (Inl (RuntimeError ''IntegrityError''), db))"

subsection \<open>Stores with keys\<close>

text \<open>
  What the callers of \<open>upsert\<close> and \<open>get\<close> rely on: a \<open>get\<close> answers with the value last put under its key.
\<close>

locale keyed_store =
  fixes put :: "'v \<Rightarrow> 's \<Rightarrow> 's"
    and get :: "'k \<Rightarrow> 's \<Rightarrow> 'v option"
    and key :: "'v \<Rightarrow> 'k"
  assumes get_put: "get k (put v s) = (if k = key v then Some v else get k s)"
begin

text \<open>The store as a map, and the refinement: putting values is updating the map.\<close>

definition abs_store :: "'s \<Rightarrow> 'k \<rightharpoonup> 'v" where
  "abs_store s = (\<lambda>k. get k s)"

lemma abs_put: "abs_store (put v s) = (abs_store s)(key v \<mapsto> v)"
  by (simp add: abs_store_def get_put fun_eq_iff)

lemma abs_put_all:
  "abs_store (foldl (\<lambda>s v. put v s) s vs) = abs_store s ++ map_of (rev (map (\<lambda>v. (key v, v)) vs))"
  by (induction vs arbitrary: s) (simp_all add: abs_put map_add_assoc)

end

lemma find_put_row:
  assumes "\<And>r. key (change r) = key r" "key new = k"
  shows "find_row key k' (put_row key k change new rs) =
    (if k' = k then Some (case find_row key k rs of None \<Rightarrow> new | Some r \<Rightarrow> change r) else find_row key k' rs)"
  using assms by (induction rs) (auto simp: find_row_def)

interpretation scans: keyed_store scan_upsert scan_get s_id
  by unfold_locales (simp add: scan_upsert_def scan_get_def find_put_row split: option.split)

interpretation targets: keyed_store "target_upsert now" target_get t_id for now
  by unfold_locales (simp add: target_upsert_def target_get_def find_put_row split: option.split)

subsection \<open>Rows and their payloads\<close>

lemma put_row_keys:
  assumes "\<And>r. key (change r) = key r" "key new = k"
  shows "map key (put_row key k change new rs) =
    (if k \<in> key ` set rs then map key rs else map key rs @ [k])"
  using assms by (induction rs) auto

lemma put_row_mem:
  "r \<in> set (put_row key k change new rs) \<Longrightarrow>
     r \<in> set rs \<or> r = new \<or> (\<exists>r' \<in> set rs. key r' = k \<and> r = change r')"
  by (induction rs) (auto split: if_splits)

lemma put_row_distinct:
  assumes "\<And>r. key (change r) = key r" "key new = k" "distinct (map key rs)"
  shows "distinct (map key (put_row key k change new rs))"
  using assms(3) by (auto simp: put_row_keys assms(1,2))

text \<open>
  The columns that both writes of an \<open>upsert\<close> set say what the payload says.  The primary key of a finding is not one
  of them: it stays that of the first finding stored.  The authorization of a target is that of the last write.
\<close>

definition target_row_ok :: "TargetRow \<Rightarrow> bool" where
  "target_row_ok r \<longleftrightarrow>
     tr_id r = t_id (tr_payload r) \<and> tr_tenant_id r = t_tenant_id (tr_payload r) \<and>
     tr_name r = t_name (tr_payload r) \<and> tr_kind r = kind_value (t_kind (tr_payload r)) \<and>
     (\<exists>now. tr_authorized r = is_authorized now (tr_payload r))"

definition scan_row_ok :: "ScanRow \<Rightarrow> bool" where
  "scan_row_ok r \<longleftrightarrow>
     sr_id r = s_id (sr_payload r) \<and> sr_state r = scan_state_value (s_state (sr_payload r)) \<and>
     sr_started_at r = s_started_at (sr_payload r) \<and> sr_finished_at r = s_finished_at (sr_payload r)"

definition finding_row_ok :: "FindingRow \<Rightarrow> bool" where
  "finding_row_ok r \<longleftrightarrow>
     finding_row_key r = (f_scan_id (fr_payload r), f_fingerprint (fr_payload r)) \<and>
     fr_severity r = severity_value (f_severity (fr_payload r)) \<and>
     fr_confidence r = confidence_value (f_confidence (fr_payload r)) \<and>
     fr_risk_score r = f_risk_score (fr_payload r) \<and> fr_status r = status_value (f_status (fr_payload r))"

definition rows_ok :: "Database \<Rightarrow> bool" where
  "rows_ok db \<longleftrightarrow>
     (\<forall>r \<in> set (db_targets db). target_row_ok r) \<and>
     (\<forall>r \<in> set (db_scans db). scan_row_ok r) \<and> (\<forall>r \<in> set (db_findings db). finding_row_ok r) \<and>
     (\<forall>r \<in> set (db_observations db). r = observation_row (or_payload r))"

lemma rows_ok_scan_upsert: "rows_ok db \<Longrightarrow> rows_ok (scan_upsert s db)"
  by (auto simp: rows_ok_def scan_upsert_def scan_row_ok_def dest!: put_row_mem)

lemma rows_ok_finding_upsert: "rows_ok db \<Longrightarrow> finding_upsert f db = Inr db' \<Longrightarrow> rows_ok db'"
  by (auto simp: rows_ok_def finding_upsert_def finding_row_ok_def finding_row_of_def finding_row_key_def
      dest!: put_row_mem split: if_splits)

lemma rows_ok_target_upsert: "rows_ok db \<Longrightarrow> rows_ok (target_upsert now t db)"
  by (auto simp: rows_ok_def target_upsert_def target_row_ok_def dest!: put_row_mem)

lemma rows_ok_other:
  "rows_ok db \<Longrightarrow> rows_ok (observations_add_many obs db)"
  "rows_ok db \<Longrightarrow> rows_ok (knowledge_record now a b c d e db)"
  "rows_ok db \<Longrightarrow> rows_ok (audit_record now u v w x y z db)"
  by (auto simp: rows_ok_def observations_add_many_def knowledge_record_def audit_record_def observation_row_def)

lemma scan_state_value_inj: "scan_state_value a = scan_state_value b \<longleftrightarrow> a = b"
  by (cases a; cases b) simp_all

lemma unit_of_work_cases:
  assumes "unit_of_work body db = (r, db')"
  obtains (rolled_back) e where "r = Inl e" "db' = db"
  | (committed) "r = Inr ()" "body db = Inr db'" "constraints_ok db'"
  using assms by (auto simp: unit_of_work_def split: sum.splits if_splits)

text \<open>The calls a unit of work is made of, and the databases units of work lead to.\<close>

datatype db_call =
    UpsertTarget int Target
  | UpsertScan Scan
  | AddObservations "Observation list"
  | UpsertFinding UnifiedFinding
  | RecordKnowledge int string string string string string
  | RecordAudit int string string string string string "int option"

fun db_exec :: "db_call \<Rightarrow> Database \<Rightarrow> Database res" where
  "db_exec (UpsertTarget now t) db = Inr (target_upsert now t db)"
| "db_exec (UpsertScan s) db = Inr (scan_upsert s db)"
| "db_exec (AddObservations obs) db = Inr (observations_add_many obs db)"
| "db_exec (UpsertFinding f) db = finding_upsert f db"
| "db_exec (RecordKnowledge now scan_id key engine_id test_class result) db =
     Inr (knowledge_record now scan_id key engine_id test_class result db)"
| "db_exec (RecordAudit now tenant actor action resource detail at_time) db =
     Inr (audit_record now tenant actor action resource detail at_time db)"

fun db_exec_all :: "db_call list \<Rightarrow> Database \<Rightarrow> Database res" where
  "db_exec_all [] db = Inr db"
| "db_exec_all (c # cs) db = bind_res (db_exec c db) (db_exec_all cs)"

inductive db_reachable :: "Database \<Rightarrow> bool" where
  db_start: "db_reachable Database_init"
| db_commit: "db_reachable db \<Longrightarrow> unit_of_work (db_exec_all calls) db = (r, db') \<Longrightarrow> db_reachable db'"

lemma rows_ok_exec: "db_exec c db = Inr db' \<Longrightarrow> rows_ok db \<Longrightarrow> rows_ok db'"
  by (cases c) (auto simp: rows_ok_target_upsert rows_ok_scan_upsert rows_ok_finding_upsert rows_ok_other)

lemma rows_ok_exec_all: "db_exec_all cs db = Inr db' \<Longrightarrow> rows_ok db \<Longrightarrow> rows_ok db'"
  by (induction cs arbitrary: db) (auto simp: bind_res_Inr_iff dest: rows_ok_exec)

lemma reachable_rows_ok: "db_reachable db \<Longrightarrow> constraints_ok db \<and> rows_ok db"
proof (induction rule: db_reachable.induct)
  case db_start
  then show ?case by (simp add: Database_init_def constraints_ok_def rows_ok_def)
next
  case (db_commit db calls r db')
  from db_commit.hyps(2) show ?case
    by (cases rule: unit_of_work_cases) (use db_commit.IH in \<open>auto dest: rows_ok_exec_all\<close>)
qed

lemma find_row_distinct:
  "distinct (map key rs) \<Longrightarrow> r \<in> set rs \<Longrightarrow> find_row key (key r) rs = Some r"
  by (induction rs) (auto simp: find_row_def)

lemma filter_key_distinct: "distinct (map key rs) \<Longrightarrow> length (filter (\<lambda>r. key r = k) rs) \<le> 1"
  by (induction rs) (auto simp: filter_empty_conv image_iff)

lemma find_row_filter:
  "distinct (map key rs) \<Longrightarrow> find_row key k rs = Some r \<Longrightarrow> filter (\<lambda>r. key r = k) rs = [r]"
  by (induction rs) (auto simp: find_row_def filter_empty_conv image_iff split: if_splits)

lemma finding_upsert_single:
  assumes "constraints_ok db" "rows_ok db"
  shows "\<exists>db'. finding_upsert f db = Inr db' \<and>
       filter (\<lambda>g. f_fingerprint g = f_fingerprint f)
         (map fr_payload (filter (\<lambda>r. fr_scan_id r = f_scan_id f) (db_findings db'))) = [f]"
proof -
  let ?k = "(f_scan_id f, f_fingerprint f)"
  define change where "change = (\<lambda>row :: FindingRow. row\<lparr>fr_severity := severity_value (f_severity f),
      fr_confidence := confidence_value (f_confidence f), fr_risk_score := f_risk_score f,
      fr_status := status_value (f_status f), fr_payload := f\<rparr>)"
  define rows where "rows = put_row finding_row_key ?k change (finding_row_of f) (db_findings db)"
  have key: "finding_row_key (change r) = finding_row_key r" for r
    by (simp add: finding_row_key_def change_def)
  have new: "finding_row_key (finding_row_of f) = ?k" by (simp add: finding_row_key_def finding_row_of_def)
  have d: "distinct (map finding_row_key (db_findings db))" using assms(1) by (simp add: constraints_ok_def)
  have up: "finding_upsert f db = Inr (db\<lparr>db_findings := rows\<rparr>)"
    using filter_key_distinct [OF d, of ?k] by (simp add: finding_upsert_def rows_def change_def)
  have "rows_ok (db\<lparr>db_findings := rows\<rparr>)" by (rule rows_ok_finding_upsert [OF assms(2) up])
  then have fk: "\<forall>r \<in> set rows. finding_row_key r = (f_scan_id (fr_payload r), f_fingerprint (fr_payload r))"
    by (simp add: rows_ok_def finding_row_ok_def)
  obtain r where r: "find_row finding_row_key ?k rows = Some r" "fr_payload r = f"
    unfolding rows_def find_put_row [where key = finding_row_key, OF key new]
    by (auto simp: finding_row_of_def change_def split: option.splits)
  have "filter (\<lambda>r. finding_row_key r = ?k) rows = [r]"
    by (rule find_row_filter [OF _ r(1)]) (simp add: rows_def put_row_distinct [OF key new d])
  moreover have "filter (\<lambda>g. f_fingerprint g = f_fingerprint f)
      (map fr_payload (filter (\<lambda>r. fr_scan_id r = f_scan_id f) rows)) =
      map fr_payload (filter (\<lambda>r. finding_row_key r = ?k) rows)"
    unfolding filter_map filter_filter comp_def
    by (rule arg_cong [where f = "map fr_payload"], rule filter_cong)
      (use fk in \<open>auto simp: finding_row_key_def\<close>)
  ultimately show ?thesis using up r(2) by simp
qed

subsection \<open>Properties\<close>

text \<open>
  C29: the scan and target repositories refine maps from identifiers: after any sequence of \<open>upsert\<close> calls
  \<open>get\<close> answers as the map updated in that order, the last call for an identifier deciding.
\<close>

theorem repositories_refine_maps:
  "(\<lambda>i. scan_get i (foldl (\<lambda>db s. scan_upsert s db) db scans)) =
     (\<lambda>i. scan_get i db) ++ map_of (rev (map (\<lambda>s. (s_id s, s)) scans)) \<and>
   (\<lambda>i. target_get i (foldl (\<lambda>db t. target_upsert now t db) db targets)) =
     (\<lambda>i. target_get i db) ++ map_of (rev (map (\<lambda>t. (t_id t, t)) targets))"
  using scans.abs_put_all [of db scans] targets.abs_put_all [of now db targets]
  by (simp add: scans.abs_store_def targets.abs_store_def)

lemma scan_list_state:
  assumes ok: "constraints_ok db" "rows_ok db" and order: "\<And>rows. mset (order rows) = mset rows"
  shows "s \<in> set (scan_list order tenant (Some st) db) \<longleftrightarrow>
      (\<exists>row. find_row sr_id (s_id s) (db_scans db) = Some row \<and> sr_payload row = s \<and>
             sr_tenant_id row = tenant \<and> s_state s = st)"
    (is "?l \<longleftrightarrow> ?r")
proof -
  have set_order: "set (order rows) = set rows" for rows using order by (metis mset_eq_setD)
  have row: "sr_id r = s_id (sr_payload r)" "sr_state r = scan_state_value (s_state (sr_payload r))"
    if "r \<in> set (db_scans db)" for r using ok(2) that by (auto simp: rows_ok_def scan_row_ok_def)
  show ?thesis
  proof
    assume ?l
    then obtain r where r: "r \<in> set (db_scans db)" "sr_tenant_id r = tenant"
      "sr_state r = scan_state_value st" "sr_payload r = s"
      by (auto simp: scan_list_def set_order)
    moreover have "find_row sr_id (sr_id r) (db_scans db) = Some r"
      using ok(1) r(1) by (intro find_row_distinct) (simp_all add: constraints_ok_def)
    ultimately show ?r using row [OF r(1)] by (auto simp: scan_state_value_inj)
  next
    assume ?r
    then obtain r where r: "find_row sr_id (s_id s) (db_scans db) = Some r" "sr_payload r = s"
      "sr_tenant_id r = tenant" "s_state s = st" by blast
    from r(1) have "r \<in> set (db_scans db)" by (auto simp: find_row_def find_Some_iff)
    with r row [OF this] show ?l by (auto simp: scan_list_def set_order intro!: image_eqI [of _ _ r])
  qed
qed

text \<open>
  C28: in every database that units of work lead to, committed or rolled back, each column that an \<open>upsert\<close> of a
  known key writes says what the payload of its row says, and so do the keys it is found by: of a
  scan the identifier, the state and the two times, of a finding the scan, the fingerprint, the severity, the
  confidence, the risk score and the status, of a target the identifier, the tenant, the name, the kind and its
  authorization at some time; an observation row is the row of its payload.  The id column of a finding is
  not among them.  Primary keys and pairs of scan and fingerprint are unique.  So the scans listed for a
  state are the current versions of the scans in that state, \<open>FindingRepository.upsert\<close> never meets two rows for
  one fingerprint, and it leaves one row for it.
\<close>

theorem repository_invariant:
  assumes "db_reachable db" and "\<And>rows. mset (order rows) = mset rows"
  shows "(\<forall>r \<in> set (db_scans db).
        sr_id r = s_id (sr_payload r) \<and> sr_state r = scan_state_value (s_state (sr_payload r)) \<and>
        sr_started_at r = s_started_at (sr_payload r) \<and> sr_finished_at r = s_finished_at (sr_payload r)) \<and>
    (\<forall>r \<in> set (db_findings db).
        fr_scan_id r = f_scan_id (fr_payload r) \<and> fr_fingerprint r = f_fingerprint (fr_payload r) \<and>
        fr_severity r = severity_value (f_severity (fr_payload r)) \<and>
        fr_confidence r = confidence_value (f_confidence (fr_payload r)) \<and>
        fr_risk_score r = f_risk_score (fr_payload r) \<and> fr_status r = status_value (f_status (fr_payload r))) \<and>
    (\<forall>r \<in> set (db_targets db).
        tr_id r = t_id (tr_payload r) \<and> tr_tenant_id r = t_tenant_id (tr_payload r) \<and>
        tr_name r = t_name (tr_payload r) \<and> tr_kind r = kind_value (t_kind (tr_payload r)) \<and>
        (\<exists>now. tr_authorized r = is_authorized now (tr_payload r))) \<and>
    (\<forall>r \<in> set (db_observations db). r = observation_row (or_payload r)) \<and>
    distinct (map tr_id (db_targets db)) \<and> distinct (map sr_id (db_scans db)) \<and>
    distinct (map or_id (db_observations db)) \<and> distinct (map fr_id (db_findings db)) \<and>
    distinct (map (\<lambda>r. (fr_scan_id r, fr_fingerprint r)) (db_findings db)) \<and>
    (s \<in> set (scan_list order tenant (Some st) db) \<longleftrightarrow>
      (\<exists>row. find_row sr_id (s_id s) (db_scans db) = Some row \<and> sr_payload row = s \<and>
             sr_tenant_id row = tenant \<and> s_state s = st)) \<and>
    (\<exists>db'. finding_upsert f db = Inr db' \<and>
       filter (\<lambda>g. f_fingerprint g = f_fingerprint f)
         (map fr_payload (filter (\<lambda>r. fr_scan_id r = f_scan_id f) (db_findings db'))) = [f])"
proof -
  have ok: "constraints_ok db" "rows_ok db" using reachable_rows_ok [OF assms(1)] by simp_all
  note rows = ok(2) [unfolded rows_ok_def target_row_ok_def scan_row_ok_def finding_row_ok_def finding_row_key_def prod.inject]
  note keys = ok(1) [unfolded constraints_ok_def, folded finding_row_key_def]
  have key: "finding_row_key = (\<lambda>r. (fr_scan_id r, fr_fingerprint r))" by (simp add: finding_row_key_def fun_eq_iff)
  show ?thesis
    using rows keys [unfolded key] scan_list_state [OF ok assms(2)] finding_upsert_single [OF ok]
    by (intro conjI) blast+
qed

text \<open>A scan and a finding are stored, then both are stored again with other values.\<close>

definition stored_scan :: "ScanState \<Rightarrow> Scan" where
  "stored_scan st =
     \<lparr>s_id = ''s'', s_tenant_id = ''acme'', s_target_id = ''t'',
      s_policy = \<lparr>sp_profile = PASSIVE, sp_capabilities = None, sp_disabled_engines = [], sp_allowed_methods = [''GET''],
        sp_max_duration_minutes = 240, sp_max_total_requests = None, sp_template_tags_denylist = []\<rparr>,
      s_state = st, s_state_reason = None, s_created_by = ''me'', s_created_at = 0,
      s_started_at = Some 1, s_finished_at = None\<rparr>"

definition stored_twice :: "Database res" where
  "stored_twice = db_exec_all
     [UpsertScan (stored_scan RUNNING), UpsertFinding (demo_unified ''f1''), UpsertScan (stored_scan COMPLETED),
      UpsertFinding ((demo_unified ''f2'')\<lparr>f_severity := LOW, f_status := FIXED\<rparr>)] Database_init"

lemma stored_twice_rows:
  obtains db r q where "stored_twice = Inr db" "db_scans db = [r]" "db_findings db = [q]" "fr_id q = ''f1''"
    "sr_payload r = stored_scan COMPLETED" "sr_tenant_id r = ''acme''"
    "fr_payload q = (demo_unified ''f2'')\<lparr>f_severity := LOW, f_status := FIXED\<rparr>" "db_targets db = []" "db_observations db = []"
proof -
  let ?f = "(demo_unified ''f2'')\<lparr>f_severity := LOW, f_status := FIXED\<rparr>"
  have "\<exists>db r q. stored_twice = Inr db \<and> db_scans db = [r] \<and> db_findings db = [q] \<and> fr_id q = ''f1'' \<and>
      sr_payload r = stored_scan COMPLETED \<and> sr_tenant_id r = ''acme'' \<and> fr_payload q = ?f \<and>
      db_targets db = [] \<and> db_observations db = []"
    by (simp add: stored_twice_def Database_init_def scan_upsert_def stored_scan_def finding_upsert_def
        demo_unified_def finding_row_of_def finding_row_key_def)
  then show thesis using that by blast
qed

lemma stored_twice_reachable:
  assumes "stored_twice = Inr db"
  shows "db_reachable db"
proof -
  have "constraints_ok db"
  proof (rule stored_twice_rows)
    fix db' r q
    assume same: "stored_twice = Inr db'" and rows: "db_scans db' = [r]" "db_findings db' = [q]" "db_targets db' = []"
      "db_observations db' = []"
    from same assms have "db' = db" by (rule Inr_inject [OF trans [OF sym]])
    with rows show ?thesis by (simp add: constraints_ok_def)
  qed
  then have "unit_of_work (db_exec_all
     [UpsertScan (stored_scan RUNNING), UpsertFinding (demo_unified ''f1''), UpsertScan (stored_scan COMPLETED),
      UpsertFinding ((demo_unified ''f2'')\<lparr>f_severity := LOW, f_status := FIXED\<rparr>)]) Database_init = (Inr (), db)"
    using assms unfolding stored_twice_def unit_of_work_def by simp
  with db_start show ?thesis by (rule db_commit)
qed

theorem repository_invariant_witness:
  "\<exists>db r q. stored_twice = Inr db \<and> db_reachable db \<and> db_scans db = [r] \<and> db_findings db = [q] \<and>
     sr_state r = ''completed'' \<and> fr_severity q = ''low'' \<and> fr_status q = ''fixed'' \<and> fr_id q = ''f1'' \<and>
     stored_scan COMPLETED \<in> set (scan_list id ''acme'' (Some COMPLETED) db)"
proof (rule stored_twice_rows)
  fix db r q
  assume db: "stored_twice = Inr db" and rows: "db_scans db = [r]" "db_findings db = [q]" "fr_id q = ''f1''"
    "sr_payload r = stored_scan COMPLETED" "sr_tenant_id r = ''acme''"
    "fr_payload q = (demo_unified ''f2'')\<lparr>f_severity := LOW, f_status := FIXED\<rparr>"
  note reach = stored_twice_reachable [OF db]
  from repository_invariant [OF reach, where order = id and tenant = "''acme''" and st = COMPLETED
      and s = "stored_scan COMPLETED"]
  have "sr_id r = ''s''" "sr_state r = ''completed''" "fr_severity q = ''low''" "fr_status q = ''fixed''"
    and "stored_scan COMPLETED \<in> set (scan_list id ''acme'' (Some COMPLETED) db) \<longleftrightarrow>
      (\<exists>row. find_row sr_id (s_id (stored_scan COMPLETED)) (db_scans db) = Some row \<and> sr_payload row = stored_scan COMPLETED \<and>
             sr_tenant_id row = ''acme'' \<and> s_state (stored_scan COMPLETED) = COMPLETED)"
    using rows by (simp_all add: stored_scan_def)
  then have mem: "stored_scan COMPLETED \<in> set (scan_list id ''acme'' (Some COMPLETED) db)"
    using rows by (simp add: find_row_def stored_scan_def)
  show ?thesis
    by (intro exI [of _ db] exI [of _ r] exI [of _ q] conjI) fact+
qed

end
