(* ===== verification/Py_Json.thy ===== *)
theory Py_Json
  imports Py_Val
begin

text \<open>
  \<open>json.dumps\<close> as the program calls it: compact with sorted keys
  (\<open>sort_keys=True, separators=(',', ':')\<close>) and indented by two (\<open>indent=2\<close>), with the ASCII
  escapes of the default encoder.  The shortest decimal form of a float is the argument \<open>fr\<close>.
  On values without floats the compact text determines the value.
\<close>

definition json_char :: "char \<Rightarrow> string" where
  "json_char c =
     (if c = CHR 0x22 \<or> c = CHR 0x5C then [CHR 0x5C, c]
      else if c = CHR 0x0A then [CHR 0x5C, CHR ''n'']
      else if c = CHR 0x0D then [CHR 0x5C, CHR ''r'']
      else if c = CHR 0x09 then [CHR 0x5C, CHR ''t'']
      else if c = CHR 0x0C then [CHR 0x5C, CHR ''f'']
      else if c = CHR 0x08 then [CHR 0x5C, CHR ''b'']
      else if CHR '' '' \<le> c \<and> c \<le> CHR 0x7E then [c]
      else [CHR 0x5C, CHR ''u'', CHR ''0'', CHR ''0'', hex_digit (of_char c div 16), hex_digit (of_char c)])"

definition json_str :: "string \<Rightarrow> string" where
  "json_str s = CHR 0x22 # concat (List.map json_char s) @ [CHR 0x22]"

fun json_compact :: "(rat \<Rightarrow> string) \<Rightarrow> pyval \<Rightarrow> string" where
  "json_compact fr PNone = ''null''"
| "json_compact fr (PBool b) = (if b then ''true'' else ''false'')"
| "json_compact fr (PInt i) = str_of_int i"
| "json_compact fr (PFloat q) = fr q"
| "json_compact fr (PStr s) = json_str s"
| "json_compact fr (PList xs) = ''['' @ join '','' (List.map (json_compact fr) xs) @ '']''"
| "json_compact fr (PDict d) =
     ''{'' @ join '','' (List.map (\<lambda>(k, v). json_str k @ '':'' @ json_compact fr v) d) @ ''}''"

fun key_sorted :: "pyval \<Rightarrow> pyval" where
  "key_sorted (PList xs) = PList (List.map key_sorted xs)"
| "key_sorted (PDict d) = PDict (sort_key fst (List.map (\<lambda>(k, v). (k, key_sorted v)) d))"
| "key_sorted v = v"

definition json_dumps_sorted :: "(rat \<Rightarrow> string) \<Rightarrow> pyval \<Rightarrow> string" where
  "json_dumps_sorted fr v = json_compact fr (key_sorted v)"

text \<open>The line break and indentation in front of an item at depth \<open>n\<close>.\<close>

definition json_newline :: "nat \<Rightarrow> string" where
  "json_newline n = CHR 0x0A # replicate (2 * n) (CHR '' '')"

fun json_indented :: "(rat \<Rightarrow> string) \<Rightarrow> nat \<Rightarrow> pyval \<Rightarrow> string" where
  "json_indented fr n (PList []) = ''[]''"
| "json_indented fr n (PList (x # xs)) =
     ''['' @ json_newline (Suc n) @
     join ('','' @ json_newline (Suc n)) (List.map (json_indented fr (Suc n)) (x # xs)) @
     json_newline n @ '']''"
| "json_indented fr n (PDict []) = ''{}''"
| "json_indented fr n (PDict (kv # d)) =
     ''{'' @ json_newline (Suc n) @
     join ('','' @ json_newline (Suc n))
       (List.map (\<lambda>(k, v). json_str k @ '': '' @ json_indented fr (Suc n) v) (kv # d)) @
     json_newline n @ ''}''"
| "json_indented fr n v = json_compact fr v"

definition json_dumps_indent :: "(rat \<Rightarrow> string) \<Rightarrow> pyval \<Rightarrow> string" where
  "json_dumps_indent fr v = json_indented fr 0 v"

subsection \<open>The compact text determines the value\<close>

fun float_free :: "pyval \<Rightarrow> bool" where
  "float_free (PFloat q) = False"
| "float_free (PList xs) = list_all float_free xs"
| "float_free (PDict d) = list_all (\<lambda>(k, v). float_free v) d"
| "float_free v = True"

definition hex_value :: "char \<Rightarrow> nat" where
  "hex_value c = (if is_digit c then of_char c - 48 else of_char c - 87)"

lemma hex_value_digit: "hex_value (hex_digit n) = n mod 16"
proof -
  have "\<forall>k \<in> {0..<16}. hex_value (hex_digit k) = k"
    by code_simp
  then have "hex_value (hex_digit (n mod 16)) = n mod 16" by simp
  then show ?thesis by (simp add: hex_digit_def)
qed

lemma hex_digit_inj: "hex_digit m = hex_digit n \<Longrightarrow> m mod 16 = n mod 16"
  using hex_value_digit by metis

text \<open>Reading one escaped character back.\<close>

fun json_unchar :: "string \<Rightarrow> char \<times> string" where
  "json_unchar (b # x # r) =
     (if b \<noteq> CHR 0x5C then (b, x # r)
      else if x = CHR ''n'' then (CHR 0x0A, r)
      else if x = CHR ''r'' then (CHR 0x0D, r)
      else if x = CHR ''t'' then (CHR 0x09, r)
      else if x = CHR ''f'' then (CHR 0x0C, r)
      else if x = CHR ''b'' then (CHR 0x08, r)
      else if x = CHR ''u''
        then (char_of (16 * hex_value (r ! 2) + hex_value (r ! 3)), drop 4 r)
      else (x, r))"
| "json_unchar s = (hd s, tl s)"

lemma json_unchar_hex:
  "char_of (16 * hex_value (hex_digit (of_char c div 16)) + hex_value (hex_digit (of_char c))) = c"
proof -
  have "(of_char c :: nat) div 16 mod 16 = of_char c div 16"
    using nat_of_char_less_256 [of c] by (simp add: div_less_iff_less_mult)
  then show ?thesis by (simp add: hex_value_digit)
qed

lemma json_unchar_char: "json_unchar (json_char c @ r) = (c, r)"
proof (cases "CHR '' '' \<le> c \<and> c \<le> CHR 0x7E \<and> c \<noteq> CHR 0x22 \<and> c \<noteq> CHR 0x5C")
  case True
  then have "json_char c = [c]" by (auto simp: json_char_def less_eq_char_def)
  with True show ?thesis by (cases r) simp_all
next
  case False
  then show ?thesis using json_unchar_hex [of c] by (auto simp: json_char_def)
qed

lemma json_char_prefix: "json_char c @ r = json_char d @ s \<Longrightarrow> c = d \<and> r = s"
  by (metis json_unchar_char prod.inject)

lemma json_char_hd: "json_char c \<noteq> CHR 0x22 # xs" "CHR 0x22 # xs \<noteq> json_char c"
  by (auto simp: json_char_def split: if_splits)

lemma json_char_nonempty: "json_char c \<noteq> []"
  by (simp add: json_char_def)

lemma json_chars_prefix:
  "concat (map json_char s) @ CHR 0x22 # r = concat (map json_char t) @ CHR 0x22 # r' \<Longrightarrow> s = t \<and> r = r'"
proof (induction s arbitrary: t)
  case Nil
  then show ?case using json_char_hd json_char_nonempty
    by (cases t) (auto simp: Cons_eq_append_conv)
next
  case (Cons c s)
  show ?case
  proof (cases t)
    case Nil
    with Cons.prems show ?thesis using json_char_hd json_char_nonempty
      by (auto simp: append_eq_Cons_conv)
  next
    case (Cons d t')
    with Cons.prems have "json_char c @ (concat (map json_char s) @ CHR 0x22 # r) =
      json_char d @ (concat (map json_char t') @ CHR 0x22 # r')" by simp
    from json_char_prefix [OF this] Cons.IH [of t'] Cons show ?thesis by simp
  qed
qed

lemma json_str_prefix: "json_str s @ r = json_str t @ r' \<Longrightarrow> s = t \<and> r = r'"
  using json_chars_prefix [of s r t r'] by (simp add: json_str_def)

text \<open>What may follow a value.\<close>

definition value_end :: "string \<Rightarrow> bool" where
  "value_end r \<longleftrightarrow> r = [] \<or> hd r \<in> set '',]}''"

lemma str_of_int_chars: "c \<in> set (str_of_int i) \<Longrightarrow> is_digit c \<or> c = CHR ''-''"
  using str_of_nat_digits(1) by (auto simp: str_of_int_def list_all_iff split: if_splits)

lemma str_of_int_nonempty: "str_of_int i \<noteq> []"
  using str_of_nat_digits(2) by (simp add: str_of_int_def)

lemma str_of_int_prefix:
  assumes "str_of_int i @ r = str_of_int j @ r'" "value_end r" "value_end r'"
  shows "i = j \<and> r = r'"
proof -
  let ?P = "\<lambda>c. is_digit c \<or> c = CHR ''-''"
  have tw: "takeWhile ?P (str_of_int k @ t) = str_of_int k" if "value_end t" for k t
  proof -
    have "takeWhile ?P t = []"
      using that by (cases t) (auto simp: value_end_def is_digit_def less_eq_char_def)
    moreover have "\<forall>c \<in> set (str_of_int k). ?P c" using str_of_int_chars by blast
    ultimately show ?thesis by (simp add: takeWhile_append2)
  qed
  from assms tw have "str_of_int i = str_of_int j" by metis
  with assms(1) show ?thesis by (simp add: str_of_int_inj)
qed

lemma join_prefix:
  assumes "\<And>x y r r'. x \<in> set xs \<Longrightarrow> y \<in> set ys \<Longrightarrow> value_end r \<Longrightarrow> value_end r' \<Longrightarrow>
      f x @ r = f y @ r' \<Longrightarrow> x = y \<and> r = r'"
    and start: "\<And>x. \<not> value_end (f x)"
    and c: "c \<in> {CHR '']'', CHR ''}''}"
    and "join '','' (map f xs) @ c # r = join '','' (map f ys) @ c # r'"
  shows "xs = ys \<and> r = r'"
  using assms(1,4)
proof (induction xs arbitrary: ys)
  case Nil
  show ?case
  proof (cases ys)
    case (Cons y ys')
    with Nil.prems(2) have "c # r = f y @ (if ys' = [] then [] else '','' @ join '','' (map f ys')) @ c # r'"
      by (simp add: join_Cons)
    then have "value_end (f y)" using c by (cases "f y") (auto simp: value_end_def)
    with start show ?thesis by blast
  qed (use Nil in simp)
next
  case (Cons x xs)
  define rest where "rest zs t = (if zs = [] then [] else '','' @ join '','' (map f zs)) @ c # t" for zs t
  have split: "join '','' (map f (z # zs)) @ c # t = f z @ rest zs t" for z zs t
    by (simp add: join_Cons rest_def)
  have ve: "value_end (rest zs t)" for zs t using c by (auto simp: rest_def value_end_def)
  show ?case
  proof (cases ys)
    case Nil
    with Cons.prems(2) have "f x @ rest xs r = c # r'" by (simp only: split) simp
    then have "value_end (f x)" using c by (cases "f x") (auto simp: value_end_def)
    with start show ?thesis by blast
  next
    case ys: (Cons y ys')
    from Cons.prems(2) have "f x @ rest xs r = f y @ rest ys' r'" by (simp only: split ys)
    with Cons.prems(1) [of x y] ve ys have xy: "x = y" and rr: "rest xs r = rest ys' r'" by auto
    then have "join '','' (map f xs) @ c # r = join '','' (map f ys') @ c # r'"
      using c by (auto simp: rest_def split: if_splits)
    with Cons.IH [of ys'] Cons.prems(1) ys xy show ?thesis by auto
  qed
qed

lemma value_end_not:
  "\<not> value_end (json_str s)" "\<not> value_end (json_str s @ r)" "\<not> value_end (str_of_int i)"
proof -
  show "\<not> value_end (json_str s)" "\<not> value_end (json_str s @ r)" by (simp_all add: json_str_def value_end_def)
  obtain c cs where "str_of_int i = c # cs" using str_of_int_nonempty by (cases "str_of_int i") auto
  with str_of_int_chars [of c i] show "\<not> value_end (str_of_int i)"
    by (auto simp: value_end_def is_digit_def less_eq_char_def)
qed

lemma json_compact_not_end: "float_free v \<Longrightarrow> \<not> value_end (json_compact fr v)"
  by (cases v) (simp_all add: value_end_def [of "_ # _"] value_end_not)

text \<open>The first character tells the kind of value.\<close>

definition json_head :: "string \<Rightarrow> char" where
  "json_head s = (if is_digit (hd s) then CHR ''-'' else hd s)"

lemma json_head_simps:
  "json_head (c # s) = (if is_digit c then CHR ''-'' else c)"
  "json_head (str_of_int i @ r) = CHR ''-''"
  "json_head (json_str s @ r) = CHR 0x22"
proof -
  show "json_head (c # s) = (if is_digit c then CHR ''-'' else c)" by (simp add: json_head_def)
  obtain c cs where "str_of_int i = c # cs" using str_of_int_nonempty by (cases "str_of_int i") auto
  with str_of_int_chars [of c i] show "json_head (str_of_int i @ r) = CHR ''-''"
    by (auto simp: json_head_def)
  show "json_head (json_str s @ r) = CHR 0x22"
    by (simp add: json_head_def json_str_def is_digit_def less_eq_char_def)
qed

fun json_kind :: "pyval \<Rightarrow> char" where
  "json_kind PNone = CHR ''n''"
| "json_kind (PBool b) = (if b then CHR ''t'' else CHR ''f'')"
| "json_kind (PInt i) = CHR ''-''"
| "json_kind (PFloat q) = CHR ''-''"
| "json_kind (PStr s) = CHR 0x22"
| "json_kind (PList xs) = CHR ''[''"
| "json_kind (PDict d) = CHR ''{''"

lemma json_head_compact: "float_free v \<Longrightarrow> json_head (json_compact fr v @ r) = json_kind v"
  by (cases v) (simp_all add: json_head_simps is_digit_def less_eq_char_def)

theorem json_compact_prefix:
  "float_free v \<Longrightarrow> float_free w \<Longrightarrow> value_end r \<Longrightarrow> value_end r' \<Longrightarrow>
     json_compact fr v @ r = json_compact fr w @ r' \<Longrightarrow> v = w \<and> r = r'"
proof (induction v arbitrary: w r r')
  case (PList xs)
  have "json_kind w = CHR ''[''" using json_head_compact [of w fr r'] PList.prems(2,5)
    by (metis PList.prems(1) json_head_compact json_kind.simps(6))
  then obtain ys where w: "w = PList ys" by (cases w) (auto split: if_splits)
  define f where "f v = (if float_free v then json_compact fr v else ''x'')" for v
  have fm: "map (json_compact fr) zs = map f zs" if "list_all float_free zs" for zs
    using that by (auto simp: f_def list_all_iff)
  have "xs = ys \<and> r = r'"
  proof (rule join_prefix [where f = f and c = "CHR '']''"])
    show "join '','' (map f xs) @ CHR '']'' # r = join '','' (map f ys) @ CHR '']'' # r'"
      using PList.prems(1,2,5) by (simp add: w fm)
    show "\<not> value_end (f x)" for x
      using json_compact_not_end [of x fr] by (simp add: f_def value_end_def [of "''x''"])
  qed (use PList.IH PList.prems(1,2) in \<open>auto simp: w f_def list_all_iff\<close>)
  with w show ?case by simp
next
  case (PDict d)
  have "json_kind w = CHR ''{''" using json_head_compact [of w fr r'] PDict.prems(2,5)
    by (metis PDict.prems(1) json_head_compact json_kind.simps(7))
  then obtain e where w: "w = PDict e" by (cases w) (auto split: if_splits)
  define f where "f = (\<lambda>(k, v). json_str k @ '':'' @ json_compact fr v)"
  have "d = e \<and> r = r'"
  proof (rule join_prefix [where f = f and c = "CHR ''}''"])
    show "join '','' (map f d) @ CHR ''}'' # r = join '','' (map f e) @ CHR ''}'' # r'"
      using PDict.prems(5) by (simp add: w f_def)
    show "\<not> value_end (f x)" for x by (cases x) (simp add: f_def value_end_not)
    fix x y r r'
    assume xy: "x \<in> set d" "y \<in> set e" "value_end r" "value_end r'" "f x @ r = f y @ r'"
    obtain k v k' v' where [simp]: "x = (k, v)" "y = (k', v')" by fastforce
    from xy(5) have "json_str k @ '':'' @ json_compact fr v @ r = json_str k' @ '':'' @ json_compact fr v' @ r'"
      by (simp add: f_def)
    from json_str_prefix [OF this] have k: "k = k'" "json_compact fr v @ r = json_compact fr v' @ r'" by simp_all
    have "float_free v" "float_free v'" using xy(1,2) PDict.prems(1,2) by (auto simp: w list_all_iff)
    with PDict.IH [of "(k, v)" v v' r r'] k(2) xy have "v = v' \<and> r = r'" by simp
    with k(1) show "x = y \<and> r = r'" by simp
  qed simp
  with w show ?case by simp
next
  case (PInt i)
  have "json_kind w = CHR ''-''" using json_head_compact [of w fr r'] PInt.prems(2,5)
    by (metis PInt.prems(1) json_head_compact json_kind.simps(3))
  with PInt.prems(2) obtain j where w: "w = PInt j" by (cases w) (auto split: if_splits)
  with PInt.prems str_of_int_prefix [of i r j r'] show ?case by simp
next
  case (PStr s)
  have "json_kind w = CHR 0x22" using json_head_compact [of w fr r'] PStr.prems(2,5)
    by (metis PStr.prems(1) json_head_compact json_kind.simps(5))
  then obtain t where w: "w = PStr t" by (cases w) (auto split: if_splits)
  with PStr.prems json_str_prefix [of s r t r'] show ?case by simp
next
  case PNone
  have "json_kind w = CHR ''n''" using json_head_compact [of w fr r'] PNone.prems(2,5)
    by (metis PNone.prems(1) json_head_compact json_kind.simps(1))
  then have "w = PNone" by (cases w) (auto split: if_splits)
  with PNone.prems show ?case by simp
next
  case (PBool b)
  have "json_kind w = json_kind (PBool b)" using json_head_compact [of w fr r'] PBool.prems(2,5)
    by (metis PBool.prems(1) json_head_compact)
  then have "w = PBool b" by (cases w; cases b) (auto split: if_splits)
  with PBool.prems show ?case by simp
qed simp

corollary json_compact_inj:
  "float_free v \<Longrightarrow> float_free w \<Longrightarrow> json_compact fr v = json_compact fr w \<longleftrightarrow> v = w"
  using json_compact_prefix [of v w "[]" "[]" fr] by (auto simp: value_end_def)

lemma float_free_key_sorted [simp]: "float_free (key_sorted v) \<longleftrightarrow> float_free v"
  by (induction v) (auto simp: list_all_iff split_beta)

corollary json_dumps_sorted_inj:
  "float_free v \<Longrightarrow> float_free w \<Longrightarrow>
     json_dumps_sorted fr v = json_dumps_sorted fr w \<longleftrightarrow> key_sorted v = key_sorted w"
  by (simp add: json_dumps_sorted_def json_compact_inj)

end
