(* ===== verification/Proof_Bundle.thy ===== *)
theory Proof_Bundle
  imports Domain Py_Json
begin

text \<open>
  Proof-of-vulnerability bundles (\<open>vantage/findings/proof.py\<close>).  The SHA-256 and HMAC functions (hex
  digests of texts) are the arguments \<open>sha\<close> and \<open>mac\<close>, the environment's evidence key is an
  argument of the engine's constructor, and floats do not occur in a bundle.
\<close>

definition PV_CONFIRMED :: string where "PV_CONFIRMED = ''confirmed''"
definition PV_CORROBORATED :: string where "PV_CORROBORATED = ''corroborated''"
definition PV_REPORTED :: string where "PV_REPORTED = ''reported''"
definition PV_DISPUTED :: string where "PV_DISPUTED = ''disputed''"

record ReplayStep =
  rs_order :: int
  rs_action :: string
  rs_detail :: string

record ProofOfVulnerability =
  pv_finding_id :: string
  pv_fingerprint :: string
  pv_category :: string
  pv_verdict :: string
  pv_severity :: string
  pv_confidence :: string
  pv_corroborating_engines :: "string list"
  pv_endpoint :: string
  pv_baseline :: "(string \<times> pyval) list option"
  pv_observed :: "(string \<times> pyval) list option"
  pv_differential :: string
  pv_markers :: "string list"
  pv_reproduction :: "ReplayStep list"
  pv_references :: "string list"
  pv_integrity_sha256 :: string
  pv_signature_hmac_sha256 :: "string option"
  pv_signed :: bool

definition opt_val :: "string option \<Rightarrow> pyval" where
  "opt_val v = (case v of None \<Rightarrow> PNone | Some s \<Rightarrow> PStr s)"

definition strs_val :: "string list \<Rightarrow> pyval" where
  "strs_val xs = PList (List.map PStr xs)"

definition step_val :: "ReplayStep \<Rightarrow> pyval" where
  "step_val s =
     PDict [(''order'', PInt (rs_order s)), (''action'', PStr (rs_action s)), (''detail'', PStr (rs_detail s))]"

definition opt_dict_val :: "(string \<times> pyval) list option \<Rightarrow> pyval" where
  "opt_dict_val d = (case d of None \<Rightarrow> PNone | Some kvs \<Rightarrow> PDict kvs)"

text \<open>\<open>asdict\<close>.\<close>

definition proof_to_dict :: "ProofOfVulnerability \<Rightarrow> (string \<times> pyval) list" where
  "proof_to_dict p =
     [(''finding_id'', PStr (pv_finding_id p)), (''fingerprint'', PStr (pv_fingerprint p)),
      (''category'', PStr (pv_category p)), (''verdict'', PStr (pv_verdict p)),
      (''severity'', PStr (pv_severity p)), (''confidence'', PStr (pv_confidence p)),
      (''corroborating_engines'', strs_val (pv_corroborating_engines p)),
      (''endpoint'', PStr (pv_endpoint p)), (''baseline'', opt_dict_val (pv_baseline p)),
      (''observed'', opt_dict_val (pv_observed p)), (''differential'', PStr (pv_differential p)),
      (''markers'', strs_val (pv_markers p)),
      (''reproduction'', PList (List.map step_val (pv_reproduction p))),
      (''references'', strs_val (pv_references p)),
      (''integrity_sha256'', PStr (pv_integrity_sha256 p)),
      (''signature_hmac_sha256'', opt_val (pv_signature_hmac_sha256 p)),
      (''signed'', PBool (pv_signed p))]"

definition verdict_for :: "UnifiedFinding \<Rightarrow> string" where
  "verdict_for f =
     (if f_confidence f = FALSE_POSITIVE then PV_DISPUTED
      else if f_confidence f = CONFIRMED then PV_CONFIRMED
      else if length (f_engines f) \<ge> 2 \<or> f_confidence f = FIRM then PV_CORROBORATED
      else PV_REPORTED)"

definition pick :: "Evidence list \<Rightarrow> EvidenceKind \<Rightarrow> Evidence option" where
  "pick evidence kind = List.find (\<lambda>ev. ev_kind ev = kind) evidence"

text \<open>\<open>HttpMessage.model_dump(mode="json")\<close>.\<close>

definition message_dump :: "HttpMessage \<Rightarrow> (string \<times> pyval) list" where
  "message_dump m =
     [(''method'', opt_val (hm_method m)), (''url'', opt_val (hm_url m)),
      (''status'', case hm_status m of None \<Rightarrow> PNone | Some n \<Rightarrow> PInt n),
      (''headers'', PDict (List.map (\<lambda>(k, v). (k, PStr v)) (hm_headers m))),
      (''body'', opt_val (hm_body m)), (''body_truncated'', PBool (hm_body_truncated m))]"

definition msg :: "Evidence option \<Rightarrow> (Evidence \<Rightarrow> HttpMessage option) \<Rightarrow> (string \<times> pyval) list option" where
  "msg ev which = (case ev of None \<Rightarrow> None | Some e \<Rightarrow> map_option message_dump (which e))"

definition step :: "int \<Rightarrow> string \<Rightarrow> string \<Rightarrow> ReplayStep" where
  "step n action detail = \<lparr>rs_order = n, rs_action = action, rs_detail = detail\<rparr>"

definition category_step :: "string \<Rightarrow> string list \<Rightarrow> ReplayStep" where
  "category_step cat markers =
     (if cat \<in> {''missing_security_header'', ''insecure_cookie'', ''cors_misconfiguration'', ''clickjacking''}
      then step 2 ''Inspect the response headers'' ''Confirm the reported header/attribute state.''
      else if cat = ''tls_weakness''
      then step 2 ''Inspect the negotiated TLS protocol and certificate'' ''Confirm the reported weakness.''
      else if cat \<in> {''xss'', ''open_redirect'', ''header_injection''}
      then step 2 ''Confirm the benign marker reflected by the application''
             (''Marker(s): '' @ (if markers \<noteq> [] then join '', '' markers else ''(see evidence)'')
              @ ''. The marker is inert; no active payload is required to observe reflection.'')
      else step 2 ''Compare the observed response against the baseline'' [])"

definition reproduction :: "UnifiedFinding \<Rightarrow> string list \<Rightarrow> ReplayStep list" where
  "reproduction f markers =
     (let url = f_host f @ '':'' @ str_of_int (f_port f) @ f_endpoint f;
          mth = osor (f_method f) ''GET''
      in [step 1 (''Send an authorized '' @ mth @ '' request to '' @ url) ''Within the agreed scope.'',
          category_step (f_category f) markers,
          step 3 ''Compare against the recorded baseline''
            ''The differential in this proof establishes the behaviour.''])"

definition canonical_payload :: "ProofOfVulnerability \<Rightarrow> (string \<times> pyval) list" where
  "canonical_payload p =
     List.filter (\<lambda>(k, v). k \<notin> {''integrity_sha256'', ''signature_hmac_sha256'', ''signed''}) (proof_to_dict p)"

definition canonical :: "ProofOfVulnerability \<Rightarrow> string" where
  "canonical p = json_dumps_sorted (\<lambda>_. []) (PDict (canonical_payload p))"

record ProofEngine =
  pe_key :: "string option"

definition ProofEngine_init :: "string option \<Rightarrow> string option \<Rightarrow> ProofEngine" where
  "ProofEngine_init env signing_key =
     \<lparr>pe_key = (case signing_key of Some k \<Rightarrow> Some k | None \<Rightarrow> env)\<rparr>"

definition describe_without :: "UnifiedFinding \<Rightarrow> string" where
  "describe_without f =
     (if f_confidence f = CONFIRMED
      then ''Validation reproduced the reported behaviour against a clean baseline.''
      else if length (f_engines f) \<ge> 2
      then ''Independently reported by '' @ str_of_nat (length (f_engines f)) @ '' engines: ''
           @ join '', '' (f_engines f) @ ''.''
      else ''Single-engine indicator; baseline differential recorded in evidence.'')"

definition describe_differential :: "UnifiedFinding \<Rightarrow> Evidence option \<Rightarrow> string" where
  "describe_differential f validation =
     (case validation of
        None \<Rightarrow> describe_without f
      | Some v \<Rightarrow> if ev_summary v \<noteq> [] then ev_summary v else describe_without f)"

text \<open>\<open>a or b\<close> on optional dictionaries.\<close>

definition dict_or ::
  "(string \<times> pyval) list option \<Rightarrow> (string \<times> pyval) list option \<Rightarrow> (string \<times> pyval) list option" where
  "dict_or a b = (case a of Some (kv # d) \<Rightarrow> Some (kv # d) | _ \<Rightarrow> b)"

text \<open>The bundle before it is sealed.\<close>

definition unsealed :: "UnifiedFinding \<Rightarrow> ProofOfVulnerability" where
  "unsealed f =
     (let markers = sorted_set (concat (List.map ev_matched (f_evidence f)));
          http = pick (f_evidence f) HTTP_EXCHANGE;
          validation = pick (f_evidence f) VALIDATION_RESULT
      in \<lparr>pv_finding_id = f_id f, pv_fingerprint = f_fingerprint f, pv_category = f_category f,
          pv_verdict = verdict_for f, pv_severity = severity_value (f_severity f),
          pv_confidence = confidence_value (f_confidence f), pv_corroborating_engines = f_engines f,
          pv_endpoint = osor (f_method f) ''ANY'' @ '' '' @ f_host f @ '':'' @ str_of_int (f_port f) @ f_endpoint f,
          pv_baseline = dict_or (msg validation ev_response) (msg http ev_request),
          pv_observed = dict_or (msg http ev_response) (msg (pick (f_evidence f) RESPONSE_MATCH) ev_response),
          pv_differential = describe_differential f validation, pv_markers = markers,
          pv_reproduction = reproduction f markers, pv_references = f_references f,
          pv_integrity_sha256 = [], pv_signature_hmac_sha256 = None, pv_signed = False\<rparr>)"

definition seal ::
  "(string \<Rightarrow> string) \<Rightarrow> (string \<Rightarrow> string \<Rightarrow> string) \<Rightarrow> ProofEngine \<Rightarrow> ProofOfVulnerability \<Rightarrow>
   ProofOfVulnerability" where
  "seal sha mac eng p0 =
     (let p = p0\<lparr>pv_integrity_sha256 := sha (canonical p0)\<rparr>
      in case pe_key eng of
           Some (c # k) \<Rightarrow> p\<lparr>pv_signature_hmac_sha256 := Some (mac (c # k) (canonical p)), pv_signed := True\<rparr>
         | _ \<Rightarrow> p)"

definition proof_build ::
  "(string \<Rightarrow> string) \<Rightarrow> (string \<Rightarrow> string \<Rightarrow> string) \<Rightarrow> ProofEngine \<Rightarrow> UnifiedFinding \<Rightarrow>
   ProofOfVulnerability" where
  "proof_build sha mac eng f = seal sha mac eng (unsealed f)"

definition proof_verify ::
  "(string \<Rightarrow> string) \<Rightarrow> (string \<Rightarrow> string \<Rightarrow> string) \<Rightarrow> ProofEngine \<Rightarrow> ProofOfVulnerability \<Rightarrow> bool" where
  "proof_verify sha mac eng p =
     (if sha (canonical p) \<noteq> pv_integrity_sha256 p then False
      else if pv_signed p then
        (case (pe_key eng, pv_signature_hmac_sha256 p) of
           (Some (c # k), Some sig) \<Rightarrow> mac (c # k) (canonical p) = sig
         | _ \<Rightarrow> False)
      else True)"

definition CONFIRMED_VERDICTS :: "string list" where
  "CONFIRMED_VERDICTS = [PV_CONFIRMED, PV_CORROBORATED]"

record ProofReport =
  pr_proofs :: "ProofOfVulnerability list"
  pr_signed :: bool

definition proofs_confirmed :: "ProofReport \<Rightarrow> ProofOfVulnerability list" where
  "proofs_confirmed r = List.filter (\<lambda>p. pv_verdict p \<in> set CONFIRMED_VERDICTS) (pr_proofs r)"

definition build_proofs ::
  "(string \<Rightarrow> string) \<Rightarrow> (string \<Rightarrow> string \<Rightarrow> string) \<Rightarrow> string option \<Rightarrow> UnifiedFinding list \<Rightarrow>
   string option \<Rightarrow> ProofReport" where
  "build_proofs sha mac env findings signing_key =
     (let proofs = List.map (proof_build sha mac (ProofEngine_init env signing_key)) findings
      in \<lparr>pr_proofs = proofs, pr_signed = list_ex pv_signed proofs\<rparr>)"

subsection \<open>What the digest covers\<close>

lemma dget_sort_key:
  assumes "dict_ok d"
  shows "dget (sort_key fst d) k = dget d k"
proof -
  have "mset (map fst (sort_key fst d)) = mset (map fst d)" by simp
  then have "dict_ok (sort_key fst d)"
    using assms mset_eq_imp_distinct_iff unfolding dict_ok_def dkeys_def by blast
  note found = dget_mem [OF this, of k]
  show ?thesis
  proof (cases "dget d k")
    case None
    then have "k \<notin> set (dkeys (sort_key fst d))" by (simp add: dget_None_iff dkeys_def)
    with None show ?thesis by (simp add: dget_None_iff [THEN iffD2])
  next
    case (Some v)
    then have "(k, v) \<in> set d" by (rule dget_Some_mem)
    with Some found show ?thesis by simp
  qed
qed

lemma dget_map_snd: "dget (map (\<lambda>(k, v). (k, g v)) d) k = map_option g (dget d k)"
  by (induction d) auto

lemma key_sorted_dget:
  assumes "key_sorted (PDict d) = key_sorted (PDict e)" "dict_ok d" "dict_ok e"
  shows "map_option key_sorted (dget d k) = map_option key_sorted (dget e k)"
proof -
  have "dget (sort_key fst (map (\<lambda>(k, v). (k, key_sorted v)) c)) k = map_option key_sorted (dget c k)"
    if "dict_ok c" for c
  proof -
    from that have "dict_ok (map (\<lambda>(k, v). (k, key_sorted v)) c)"
      by (simp add: dict_ok_def dkeys_def comp_def split_beta)
    from dget_sort_key [OF this, of k] show ?thesis by (simp add: dget_map_snd)
  qed
  from this [OF assms(2)] this [OF assms(3)] assms(1) show ?thesis by simp
qed

lemma key_sorted_atoms [simp]:
  "key_sorted (opt_val v) = opt_val v" "key_sorted (strs_val xs) = strs_val xs"
  by (simp_all add: opt_val_def strs_val_def comp_def split: option.split)

lemma strs_val_inj [simp]: "strs_val xs = strs_val ys \<longleftrightarrow> xs = ys"
  by (simp add: strs_val_def inj_map_eq_map inj_def)

text \<open>The part of a bundle its digest covers, dictionaries up to the order of their keys.\<close>

definition same_content :: "ProofOfVulnerability \<Rightarrow> ProofOfVulnerability \<Rightarrow> bool" where
  "same_content p q \<longleftrightarrow>
     pv_finding_id p = pv_finding_id q \<and> pv_fingerprint p = pv_fingerprint q \<and>
     pv_category p = pv_category q \<and> pv_verdict p = pv_verdict q \<and> pv_severity p = pv_severity q \<and>
     pv_confidence p = pv_confidence q \<and> pv_corroborating_engines p = pv_corroborating_engines q \<and>
     pv_endpoint p = pv_endpoint q \<and> pv_differential p = pv_differential q \<and>
     pv_markers p = pv_markers q \<and> pv_reproduction p = pv_reproduction q \<and>
     pv_references p = pv_references q \<and>
     key_sorted (opt_dict_val (pv_baseline p)) = key_sorted (opt_dict_val (pv_baseline q)) \<and>
     key_sorted (opt_dict_val (pv_observed p)) = key_sorted (opt_dict_val (pv_observed q))"

lemma canonical_payload_eq:
  "canonical_payload p =
     [(''finding_id'', PStr (pv_finding_id p)), (''fingerprint'', PStr (pv_fingerprint p)),
      (''category'', PStr (pv_category p)), (''verdict'', PStr (pv_verdict p)),
      (''severity'', PStr (pv_severity p)), (''confidence'', PStr (pv_confidence p)),
      (''corroborating_engines'', strs_val (pv_corroborating_engines p)),
      (''endpoint'', PStr (pv_endpoint p)), (''baseline'', opt_dict_val (pv_baseline p)),
      (''observed'', opt_dict_val (pv_observed p)), (''differential'', PStr (pv_differential p)),
      (''markers'', strs_val (pv_markers p)),
      (''reproduction'', PList (List.map step_val (pv_reproduction p))),
      (''references'', strs_val (pv_references p))]"
  by (simp add: canonical_payload_def proof_to_dict_def)

lemma key_sorted_step: "key_sorted (step_val a) = key_sorted (step_val b) \<Longrightarrow> a = b"
proof -
  assume eq: "key_sorted (step_val a) = key_sorted (step_val b)"
  have "map_option key_sorted (dget [(''order'', PInt (rs_order a)), (''action'', PStr (rs_action a)),
        (''detail'', PStr (rs_detail a))] k) =
      map_option key_sorted (dget [(''order'', PInt (rs_order b)), (''action'', PStr (rs_action b)),
        (''detail'', PStr (rs_detail b))] k)" for k
    by (rule key_sorted_dget) (use eq in \<open>simp_all add: step_val_def dict_ok_def dkeys_def\<close>)
  from this [of "''order''"] this [of "''action''"] this [of "''detail''"] show "a = b"
    by simp
qed

lemma same_content_payload:
  assumes "key_sorted (PDict (canonical_payload p)) = key_sorted (PDict (canonical_payload q))"
  shows "same_content p q"
proof -
  have "dict_ok (canonical_payload r)" for r
    by (simp add: canonical_payload_eq dict_ok_def dkeys_def)
  note get = key_sorted_dget [OF assms this this, unfolded canonical_payload_eq]
  have steps: "map key_sorted (map step_val (pv_reproduction p)) = map key_sorted (map step_val (pv_reproduction q))"
    using get [of "''reproduction''"] by simp
  have "inj (\<lambda>s. key_sorted (step_val s))" using key_sorted_step by (auto simp: inj_def)
  then have "pv_reproduction p = pv_reproduction q"
    using steps unfolding map_map comp_def by (rule map_injective [rotated])
  then show ?thesis
    using get [of "''finding_id''"] get [of "''fingerprint''"] get [of "''category''"] get [of "''verdict''"]
      get [of "''severity''"] get [of "''confidence''"] get [of "''corroborating_engines''"]
      get [of "''endpoint''"] get [of "''baseline''"] get [of "''observed''"] get [of "''differential''"]
      get [of "''markers''"] get [of "''references''"]
    by (simp add: same_content_def)
qed

lemma canonical_unaffected [simp]:
  "canonical (p\<lparr>pv_integrity_sha256 := i\<rparr>) = canonical p"
  "canonical (p\<lparr>pv_signature_hmac_sha256 := s\<rparr>) = canonical p"
  "canonical (p\<lparr>pv_signed := b\<rparr>) = canonical p"
  by (simp_all add: canonical_def canonical_payload_eq)

text \<open>A bundle whose messages hold no floats; those built from findings are such.\<close>

definition float_free_bundle :: "ProofOfVulnerability \<Rightarrow> bool" where
  "float_free_bundle p \<longleftrightarrow> float_free (opt_dict_val (pv_baseline p)) \<and> float_free (opt_dict_val (pv_observed p))"

lemma float_free_atoms [simp]: "float_free (opt_val v)" "float_free (strs_val xs)" "float_free (step_val st)"
  by (simp_all add: opt_val_def strs_val_def step_val_def list_all_iff split: option.split)

lemma float_free_payload: "float_free_bundle p \<Longrightarrow> float_free (PDict (canonical_payload p))"
  by (simp add: canonical_payload_eq float_free_bundle_def list_all_iff)

lemma float_free_message: "float_free (PDict (message_dump m))"
  by (simp add: message_dump_def list_all_iff split_beta split: option.split)

lemma float_free_msg: "float_free (opt_dict_val (msg ev which))"
  using float_free_message by (auto simp: msg_def opt_dict_val_def split: option.splits)

lemma float_free_or:
  "float_free (opt_dict_val a) \<Longrightarrow> float_free (opt_dict_val b) \<Longrightarrow> float_free (opt_dict_val (dict_or a b))"
  by (auto simp: dict_or_def split: option.split list.split)

lemma seal_keeps:
  "float_free_bundle (seal sha mac eng p) \<longleftrightarrow> float_free_bundle p"
  "canonical (seal sha mac eng p) = canonical p"
  "pv_integrity_sha256 (seal sha mac eng p) = sha (canonical p)"
  "pv_verdict (seal sha mac eng p) = pv_verdict p" "pv_finding_id (seal sha mac eng p) = pv_finding_id p"
  by (simp_all add: seal_def Let_def float_free_bundle_def split: option.split list.split)

lemma seal_signature:
  "pv_signature_hmac_sha256 p = None \<Longrightarrow> pv_signature_hmac_sha256 (seal sha mac eng p) = Some sig \<Longrightarrow>
     \<exists>k. k \<noteq> [] \<and> pe_key eng = Some k \<and> sig = mac k (canonical p)"
  by (auto simp: seal_def Let_def split: option.splits list.splits)

lemma verify_seal: "\<not> pv_signed p \<Longrightarrow> proof_verify sha mac eng (seal sha mac eng p)"
  by (simp add: proof_verify_def seal_def Let_def split: option.split list.split)

lemma unsealed_simps:
  "\<not> pv_signed (unsealed f)" "pv_signature_hmac_sha256 (unsealed f) = None"
  "pv_verdict (unsealed f) = verdict_for f" "pv_finding_id (unsealed f) = f_id f"
  "float_free_bundle (unsealed f)"
  by (simp_all add: unsealed_def Let_def float_free_bundle_def float_free_or float_free_msg)

lemma canonical_same_content:
  "canonical p = canonical q \<Longrightarrow> float_free_bundle p \<Longrightarrow> float_free_bundle q \<Longrightarrow> same_content p q"
  unfolding canonical_def
  by (rule same_content_payload) (simp only: json_dumps_sorted_inj float_free_payload)

subsection \<open>Properties\<close>

text \<open>
  a bundle verifies under the engine that built it, signed or not.
\<close>

theorem build_then_verify: "proof_verify sha mac eng (proof_build sha mac eng f)"
  unfolding proof_build_def by (rule verify_seal) (rule unsealed_simps)

text \<open>
  C27: tamper evidence.  A bundle that verifies and carries the digest, or a signature, of a bundle built
  for a finding has the same content as that one, if the hash (the keyed hash) does not collide on
  the two.
\<close>

theorem tamper_evident:
  assumes "proof_verify sha mac eng q" and "float_free_bundle q"
    and "pv_integrity_sha256 q = pv_integrity_sha256 (proof_build sha mac eng f) \<or>
         pv_signed q \<and> pv_signature_hmac_sha256 q = pv_signature_hmac_sha256 (proof_build sha mac eng f)"
    and "sha (canonical q) = sha (canonical (proof_build sha mac eng f)) \<longrightarrow>
         canonical q = canonical (proof_build sha mac eng f)"
    and "\<forall>k. mac k (canonical q) = mac k (canonical (proof_build sha mac eng f)) \<longrightarrow>
         canonical q = canonical (proof_build sha mac eng f)"
  shows "same_content q (proof_build sha mac eng f)"
proof (rule canonical_same_content [OF _ assms(2)])
  let ?p = "proof_build sha mac eng f"
  note can = seal_keeps(2) [of sha mac eng "unsealed f", folded proof_build_def]
  from assms(1) have q: "sha (canonical q) = pv_integrity_sha256 q"
    by (simp add: proof_verify_def split: if_splits)
  from assms(3) show "canonical q = canonical ?p"
  proof
    assume "pv_integrity_sha256 q = pv_integrity_sha256 ?p"
    then have "sha (canonical q) = sha (canonical ?p)"
      using q by (simp add: proof_build_def seal_keeps)
    with assms(4) show ?thesis by blast
  next
    assume s: "pv_signed q \<and> pv_signature_hmac_sha256 q = pv_signature_hmac_sha256 ?p"
    with assms(1) obtain c k where k: "pe_key eng = Some (c # k)"
      "pv_signature_hmac_sha256 q = Some (mac (c # k) (canonical q))"
      by (auto simp: proof_verify_def split: if_splits option.splits list.splits)
    with s seal_signature [OF unsealed_simps(2)]
    have "mac (c # k) (canonical q) = mac (c # k) (canonical (unsealed f))"
      by (fastforce simp: proof_build_def)
    with assms(5) show ?thesis unfolding can by blast
  qed
  show "float_free_bundle ?p" by (simp add: proof_build_def seal_keeps unsealed_simps)
qed

text \<open>
  C49: the signature can be stripped.  The flag \<open>signed\<close> is outside the digest, so for any bundle, altered
  as one likes, dropping the flag and recomputing the plain hash gives a bundle that an engine with a
  signing key accepts too.
\<close>

theorem signature_strippable:
  "proof_verify sha mac eng
     ((proof_build sha mac eng f)\<lparr>pv_verdict := forged, pv_signature_hmac_sha256 := None, pv_signed := False,
        pv_integrity_sha256 := sha (canonical ((proof_build sha mac eng f)\<lparr>pv_verdict := forged\<rparr>))\<rparr>)"
  by (simp add: proof_verify_def)

lemma confirmed_bundles:
  "proofs_confirmed (build_proofs sha mac env findings key) =
     map (proof_build sha mac (ProofEngine_init env key))
       (filter (\<lambda>f. f_confidence f \<in> {CONFIRMED, FIRM} \<or>
                     f_confidence f = TENTATIVE \<and> 2 \<le> length (f_engines f)) findings)"
proof -
  have "pv_verdict (proof_build sha mac eng f) \<in> set CONFIRMED_VERDICTS \<longleftrightarrow>
      f_confidence f \<in> {CONFIRMED, FIRM} \<or> f_confidence f = TENTATIVE \<and> 2 \<le> length (f_engines f)" for f eng
    by (cases "f_confidence f") (simp_all add: proof_build_def seal_keeps unsealed_simps verdict_for_def
        CONFIRMED_VERDICTS_def PV_CONFIRMED_def PV_CORROBORATED_def PV_REPORTED_def PV_DISPUTED_def)
  then show ?thesis
    unfolding proofs_confirmed_def build_proofs_def by (simp only: Let_def ProofReport.simps filter_map comp_def)
qed

lemma proof_build_finding: "pv_finding_id (proof_build sha mac eng f) = f_id f"
  by (simp add: proof_build_def seal_keeps unsealed_simps)

text \<open>
  the confirmed bundles of a report are those of the findings that are confirmed or firm, or
  tentative and reported by at least two engines; a false positive is never among them, and the
  report counts as signed exactly when there is a non-empty key and a finding.
\<close>

theorem confirmed_proofs:
  "map pv_finding_id (proofs_confirmed (build_proofs sha mac env findings key)) =
     map f_id (filter (\<lambda>f. f_confidence f \<in> {CONFIRMED, FIRM} \<or>
                          f_confidence f = TENTATIVE \<and> 2 \<le> length (f_engines f)) findings) \<and>
   (pr_signed (build_proofs sha mac env findings key) \<longleftrightarrow>
      findings \<noteq> [] \<and> (case key of None \<Rightarrow> env | Some k \<Rightarrow> key) \<notin> {None, Some []})"
proof -
  let ?eng = "ProofEngine_init env key"
  have s: "pv_signed (proof_build sha mac ?eng f) \<longleftrightarrow> pe_key ?eng \<notin> {None, Some []}" for f
    by (simp add: proof_build_def seal_def Let_def unsealed_simps split: option.split list.split)
  have "pr_signed (build_proofs sha mac env findings key) \<longleftrightarrow>
      findings \<noteq> [] \<and> pe_key ?eng \<notin> {None, Some []}"
    unfolding build_proofs_def Let_def ProofReport.simps list_ex_iff set_map
    by (simp only: bex_simps s) (cases findings; auto)
  moreover have "pe_key ?eng = (case key of None \<Rightarrow> env | Some k \<Rightarrow> key)"
    by (simp add: ProofEngine_init_def split: option.split)
  ultimately show ?thesis by (simp add: confirmed_bundles proof_build_finding comp_def)
qed

subsection \<open>Witnesses\<close>

theorem tamper_evident_witness:
  "same_content (proof_build id (\<lambda>k s. k @ s) \<lparr>pe_key = Some ''key''\<rparr> (demo_unified ''f1''))
     (proof_build id (\<lambda>k s. k @ s) \<lparr>pe_key = Some ''key''\<rparr> (demo_unified ''f1''))"
  by (rule tamper_evident [where sha = id and mac = "\<lambda>k s. k @ s" and eng = "\<lparr>pe_key = Some ''key''\<rparr>"])
    (simp_all add: proof_build_def verify_seal seal_keeps unsealed_simps)

end
