(* ===== verification/Analyst.thy ===== *)
theory Analyst
  imports Domain Py_Json
begin

text \<open>
  The advisory AI layer (\<open>vantage/ai/analyst.py\<close>, \<open>vantage/ai/provider.py\<close>).  A provider is a record of its
  names and its two fallible calls; \<open>loads\<close> is \<open>json.loads\<close>, with \<open>None\<close> for a
  \<open>JSONDecodeError\<close>.
\<close>

subsection \<open>provider.py\<close>

record LLMResponse =
  llm_text :: string
  llm_model :: string
  llm_provider :: string
  llm_usage :: "(string, int) dict"

text \<open>\<open>s.find(p)\<close>, \<open>s.rfind(c)\<close> of a character, \<open>s.split(sep, n)\<close> and \<open>s.removeprefix(p)\<close>.\<close>

fun find_sub :: "string \<Rightarrow> string \<Rightarrow> nat option" where
  "find_sub p [] = (if p = [] then Some 0 else None)"
| "find_sub p (c # s) = (if startswith (c # s) p then Some 0 else map_option Suc (find_sub p s))"

fun rfind_char :: "char \<Rightarrow> string \<Rightarrow> nat option" where
  "rfind_char c [] = None"
| "rfind_char c (d # s) =
     (case rfind_char c s of Some i \<Rightarrow> Some (Suc i) | None \<Rightarrow> if d = c then Some 0 else None)"

fun split_max :: "string \<Rightarrow> nat \<Rightarrow> string \<Rightarrow> string list" where
  "split_max sep 0 s = [s]"
| "split_max sep (Suc n) s =
     (case find_sub sep s of
        None \<Rightarrow> [s]
      | Some i \<Rightarrow> take i s # split_max sep n (drop (i + length sep) s))"

definition removeprefix :: "string \<Rightarrow> string \<Rightarrow> string" where
  "removeprefix p s = (if startswith s p then drop (length p) s else s)"

definition fence :: string where
  "fence = ''```''"

definition response_text :: "string \<Rightarrow> string" where
  "response_text raw =
     (let text = strip raw
      in if startswith text fence
         then (let text = (if contains fence (drop 3 text) then split_max fence 2 text ! 1 else text)
               in strip_chars (\<lambda>c. c \<in> {CHR ''`'', CHR 0x0A, CHR '' ''}) (removeprefix ''json'' text))
         else text)"

text \<open>The outermost braces, then the outermost brackets.\<close>

fun grab :: "(string \<Rightarrow> pyval option) \<Rightarrow> string \<Rightarrow> (char \<times> char) list \<Rightarrow> pyval" where
  "grab loads text [] = PNone"
| "grab loads text ((opener, closer) # rest) =
     (case (find_sub [opener] text, rfind_char closer text) of
        (Some i, Some j) \<Rightarrow>
          if i < j then (case loads (take (j + 1 - i) (drop i text)) of
                           Some v \<Rightarrow> v
                         | None \<Rightarrow> grab loads text rest)
          else grab loads text rest
      | _ \<Rightarrow> grab loads text rest)"

definition response_json :: "(string \<Rightarrow> pyval option) \<Rightarrow> LLMResponse \<Rightarrow> pyval" where
  "response_json loads r =
     (let text = response_text (llm_text r)
      in case loads text of
           Some v \<Rightarrow> v
         | None \<Rightarrow> grab loads text [(CHR ''{'', CHR ''}''), (CHR ''['', CHR '']'')])"

record LLMProvider =
  lp_name :: string
  lp_model_id :: string
  lp_model_license :: string
  lp_available :: "bool res"
  lp_complete :: "string \<Rightarrow> string option \<Rightarrow> int \<Rightarrow> LLMResponse res"

definition NullProvider :: LLMProvider where
  "NullProvider =
     \<lparr>lp_name = ''null'', lp_model_id = ''none'', lp_model_license = ''n/a'', lp_available = Inr False,
      lp_complete = (\<lambda>prompt system max_tokens.
        Inr \<lparr>llm_text = [], llm_model = ''none'', llm_provider = ''null'', llm_usage = []\<rparr>)\<rparr>"

subsection \<open>analyst.py\<close>

record AiAnnotation =
  aa_finding_id :: string
  aa_priority_rank :: "int option"
  aa_likely_false_positive :: bool
  aa_explanation :: string
  aa_remediation :: string
  aa_group_id :: "string option"
  aa_rationale :: string

record AiAssessment =
  as_provider :: string
  as_model :: string
  as_model_license :: string
  as_annotations :: "(string, AiAnnotation) dict"
  as_groups :: "(string, string list) dict"
  as_enabled :: bool
  as_notes :: "string list"

definition assessment_disabled :: AiAssessment where
  "assessment_disabled =
     \<lparr>as_provider = ''null'', as_model = ''none'', as_model_license = ''n/a'', as_annotations = [],
      as_groups = [], as_enabled = False, as_notes = []\<rparr>"

definition SYSTEM_PROMPT :: string where
  "SYSTEM_PROMPT =
     ''You are a defensive application-security analyst assisting a DAST platform. '' @
     ''You are given already-detected, evidence-backed findings. Your job is to '' @
     ''explain, prioritize and group them for a human reviewer. '' @
     ''STRICT RULES: Only reference findings by the exact '' @ [CHR 0x27] @ ''id'' @ [CHR 0x27] @
     '' values provided. '' @
     ''Never invent findings, evidence, endpoints, CVEs or CWEs. Never claim a '' @
     ''vulnerability that is not in the input. If unsure, say so. Respond with '' @
     ''JSON only, no prose.''"

definition compact_finding :: "UnifiedFinding \<Rightarrow> pyval" where
  "compact_finding f =
     PDict [(''id'', PStr (f_id f)), (''title'', PStr (f_title f)), (''category'', PStr (f_category f)),
            (''severity'', PStr (severity_value (f_severity f))),
            (''confidence'', PStr (confidence_value (f_confidence f))),
            (''risk_score'', PFloat (f_risk_score f)),
            (''endpoint'', PStr (osor (f_method f) ''ANY'' @ '' '' @ f_host f @ '':'' @
               str_of_int (f_port f) @ f_endpoint f)),
            (''engines'', PList (List.map PStr (f_engines f))), (''cwe'', PList (List.map PInt (f_cwe f)))]"

definition quoted :: "string \<Rightarrow> string" where
  "quoted s = CHR 0x22 # s @ [CHR 0x22]"

definition build_prompt :: "(rat \<Rightarrow> string) \<Rightarrow> UnifiedFinding list \<Rightarrow> string" where
  "build_prompt fr findings =
     ''Findings (JSON):'' @ [CHR 0x0A] @ json_dumps_indent fr (PList (List.map compact_finding findings)) @
     [CHR 0x0A, CHR 0x0A] @ ''Return JSON of the form:'' @ [CHR 0x0A] @
     ''{'' @ quoted ''findings'' @ '': [{'' @ quoted ''id'' @ '': '' @ quoted ''<one of the ids above>'' @ '', '' @
     quoted ''priority_rank'' @ '': <int, 1=first>, '' @ quoted ''likely_false_positive'' @ '': <bool>, '' @
     quoted ''group_id'' @ '': '' @ quoted ''<optional cluster label>'' @ '', '' @
     quoted ''explanation'' @ '': '' @ quoted ''<short>'' @ '', '' @
     quoted ''remediation'' @ '': '' @ quoted ''<short>'' @ '', '' @
     quoted ''rationale'' @ '': '' @ quoted ''<short>'' @ ''}]}'' @ [CHR 0x0A] @
     ''Only use ids from the input. Do not add findings.''"

definition int_or_none :: "pyval \<Rightarrow> int option res" where
  "int_or_none value =
     (case value of
        PInt i \<Rightarrow> Inr (Some i)
      | PStr s \<Rightarrow> if isdigit (lstrip (\<lambda>c. c = CHR ''-'') (strip s))
                  then bind_res (int_of_text s) (\<lambda>i. Inr (Some i)) else Inr None
      | _ \<Rightarrow> Inr None)"

definition item_annotation :: "(rat \<Rightarrow> string) \<Rightarrow> string \<Rightarrow> (string \<times> pyval) list \<Rightarrow> AiAnnotation res" where
  "item_annotation fr fid item =
     bind_res (int_or_none (pget item ''priority_rank'' PNone)) (\<lambda>rank.
       Inr \<lparr>aa_finding_id = fid, aa_priority_rank = rank,
            aa_likely_false_positive = truthy (pget item ''likely_false_positive'' (PBool False)),
            aa_explanation = take 2000 (py_str fr (pget item ''explanation'' (PStr []))),
            aa_remediation = take 2000 (py_str fr (pget item ''remediation'' (PStr []))),
            aa_group_id = (if truthy (pget item ''group_id'' PNone)
                           then Some (py_str fr (pget item ''group_id'' PNone)) else None),
            aa_rationale = take 1000 (py_str fr (pget item ''rationale'' (PStr [])))\<rparr>)"

text \<open>The loop over the returned items: the annotations so far and the number of dropped references.\<close>

fun annotate ::
  "(rat \<Rightarrow> string) \<Rightarrow> string list \<Rightarrow> (string, AiAnnotation) dict \<Rightarrow> nat \<Rightarrow> pyval list \<Rightarrow>
   ((string, AiAnnotation) dict \<times> nat) res" where
  "annotate fr valid_ids anns dropped [] = Inr (anns, dropped)"
| "annotate fr valid_ids anns dropped (PDict item # items) =
     (let fid = py_str fr (pget item ''id'' (PStr []))
      in if fid \<notin> set valid_ids then annotate fr valid_ids anns (Suc dropped) items
         else bind_res (item_annotation fr fid item)
                (\<lambda>ann. annotate fr valid_ids (dset anns fid ann) dropped items))"
| "annotate fr valid_ids anns dropped (_ # items) = annotate fr valid_ids anns dropped items"

definition add_group ::
  "(string, string list) dict \<Rightarrow> string \<times> AiAnnotation \<Rightarrow> (string, string list) dict" where
  "add_group groups fa =
     (case aa_group_id (snd fa) of
        Some (c # g) \<Rightarrow> dappend groups (c # g) (fst fa)
      | _ \<Rightarrow> groups)"

definition assess_data ::
  "(rat \<Rightarrow> string) \<Rightarrow> LLMProvider \<Rightarrow> string list \<Rightarrow> pyval \<Rightarrow> AiAssessment res" where
  "assess_data fr prov valid_ids data =
     (let a = \<lparr>as_provider = lp_name prov, as_model = lp_model_id prov,
               as_model_license = lp_model_license prov, as_annotations = [], as_groups = [],
               as_enabled = True, as_notes = []\<rparr>
      in case data of
           PDict d \<Rightarrow>
             bind_res (annotate fr valid_ids [] 0 (case pget d ''findings'' PNone of PList xs \<Rightarrow> xs | _ \<Rightarrow> []))
               (\<lambda>(anns, dropped).
                  Inr (a\<lparr>as_annotations := anns, as_groups := foldl add_group [] anns,
                         as_notes := (if dropped \<noteq> 0
                           then [''Dropped '' @ str_of_nat dropped
                                 @ '' AI reference(s) to unknown finding ids.''] else [])\<rparr>))
         | _ \<Rightarrow> Inr (a\<lparr>as_enabled := False,
                        as_notes := [''AI output was not valid JSON; ignored.'']\<rparr>))"

definition assess ::
  "(rat \<Rightarrow> string) \<Rightarrow> (string \<Rightarrow> pyval option) \<Rightarrow> LLMProvider \<Rightarrow> UnifiedFinding list \<Rightarrow> AiAssessment res" where
  "assess fr loads prov findings =
     (if findings = [] then Inr assessment_disabled
      else bind_res (lp_available prov) (\<lambda>up.
        if \<not> up then Inr assessment_disabled
        else case lp_complete prov (build_prompt fr findings) (Some SYSTEM_PROMPT) 2048 of
               Inl _ \<Rightarrow> Inr assessment_disabled
             | Inr resp \<Rightarrow> assess_data fr prov (List.map f_id findings) (response_json loads resp)))"

definition priority_key :: "AiAssessment \<Rightarrow> UnifiedFinding \<Rightarrow> int \<times> rat" where
  "priority_key a f =
     ((case dget (as_annotations a) (f_id f) of
         None \<Rightarrow> 10000
       | Some ann \<Rightarrow> (case aa_priority_rank ann of
                        None \<Rightarrow> 10000 | Some r \<Rightarrow> if r \<noteq> 0 then r else 10000)),
      - f_risk_score f)"

definition prioritized_order :: "UnifiedFinding list \<Rightarrow> AiAssessment \<Rightarrow> UnifiedFinding list" where
  "prioritized_order findings a =
     (if \<not> as_enabled a then sort_desc f_risk_score findings else sort_key (priority_key a) findings)"

subsection \<open>Annotations and groups\<close>

lemma item_annotation_id: "item_annotation fr fid item = Inr ann \<Longrightarrow> aa_finding_id ann = fid"
  by (auto simp: item_annotation_def bind_res_Inr_iff)

definition annotations_ok :: "string list \<Rightarrow> (string, AiAnnotation) dict \<Rightarrow> bool" where
  "annotations_ok valid_ids anns \<longleftrightarrow>
     dict_ok anns \<and> (\<forall>(fid, ann) \<in> set anns. fid \<in> set valid_ids \<and> aa_finding_id ann = fid)"

lemma annotate_ok:
  "annotate fr valid_ids anns dropped items = Inr (anns', dropped') \<Longrightarrow> annotations_ok valid_ids anns \<Longrightarrow>
     annotations_ok valid_ids anns' \<and> dropped \<le> dropped' \<and>
     dropped' - dropped = length (filter (\<lambda>v. case v of
       PDict item \<Rightarrow> py_str fr (pget item ''id'' (PStr [])) \<notin> set valid_ids | _ \<Rightarrow> False) items)"
proof (induction fr valid_ids anns dropped items rule: annotate.induct)
  case (2 fr valid_ids anns dropped item items)
  let ?fid = "py_str fr (pget item ''id'' (PStr []))"
  show ?case
  proof (cases "?fid \<in> set valid_ids")
    case True
    with 2(3) obtain ann where ann: "item_annotation fr ?fid item = Inr ann"
      "annotate fr valid_ids (dset anns ?fid ann) dropped items = Inr (anns', dropped')"
      by (auto simp: bind_res_Inr_iff Let_def)
    have "annotations_ok valid_ids (dset anns ?fid ann)"
      using 2(4) True item_annotation_id [OF ann(1)] by (auto simp: annotations_ok_def set_dset_ok)
    with 2(2) [OF refl _ ann(2)] True show ?thesis by simp
  next
    case False
    with 2(1) [OF refl] 2(3,4) show ?thesis by (fastforce simp: Let_def)
  qed
qed auto

lemma add_group_get:
  "dget_or (add_group groups fa) g [] =
     (if g \<noteq> [] \<and> aa_group_id (snd fa) = Some g then dget_or groups g [] @ [fst fa] else dget_or groups g [])"
  by (auto simp: add_group_def dappend_def dget_or_def split: option.split list.split)

lemma groups_get:
  "dget_or (foldl add_group [] anns) g [] =
     (if g = [] then [] else map fst (filter (\<lambda>fa. aa_group_id (snd fa) = Some g) anns))"
  by (induction anns rule: rev_induct) (auto simp: add_group_get dget_or_def [of "[]"])

lemma assess_data_cases:
  assumes "assess_data fr prov valid_ids data = Inr a"
  obtains (off) "as_annotations a = []" "as_groups a = []" "\<not> as_enabled a"
  | (on) items dropped where "as_enabled a"
      "annotate fr valid_ids [] 0 items = Inr (as_annotations a, dropped)"
      "as_groups a = foldl add_group [] (as_annotations a)"
proof (cases "\<exists>d. data = PDict d")
  case True
  then obtain d where d: "data = PDict d" by blast
  define items where "items = (case pget d ''findings'' PNone of PList xs \<Rightarrow> xs | _ \<Rightarrow> [])"
  from assms obtain anns dropped where "annotate fr valid_ids [] 0 items = Inr (anns, dropped)"
    "as_annotations a = anns" "as_groups a = foldl add_group [] anns" "as_enabled a"
    by (auto simp: assess_data_def d bind_res_Inr_iff Let_def items_def)
  then show thesis by (intro on) auto
next
  case False
  with assms have "as_annotations a = []" "as_groups a = []" "\<not> as_enabled a"
    by (auto simp: assess_data_def Let_def split: pyval.splits)
  then show thesis by (rule off)
qed

lemma assess_disabled_fields:
  "as_annotations assessment_disabled = []" "as_groups assessment_disabled = []" "\<not> as_enabled assessment_disabled"
  by (simp_all add: assessment_disabled_def)

lemma assess_cases:
  assumes "assess fr loads prov findings = Inr a"
  obtains (off) "as_annotations a = []" "as_groups a = []" "\<not> as_enabled a"
  | (on) items dropped where "as_enabled a"
      "annotate fr (map f_id findings) [] 0 items = Inr (as_annotations a, dropped)"
      "as_groups a = foldl add_group [] (as_annotations a)"
proof -
  have "a = assessment_disabled \<or> (\<exists>data. assess_data fr prov (map f_id findings) data = Inr a)"
  proof (cases "lp_complete prov (build_prompt fr findings) (Some SYSTEM_PROMPT) 2048")
    case (Inl e)
    show ?thesis using assms unfolding assess_def Inl
      by (simp only: sum.case bind_res_Inr_iff if_cancel split: if_split_asm) simp_all
  next
    case (Inr resp)
    show ?thesis using assms unfolding assess_def Inr
      by (simp only: sum.case bind_res_Inr_iff split: if_split_asm) auto
  qed
  then consider "a = assessment_disabled" | data where
    "assess_data fr prov (map f_id findings) data = Inr a" by blast
  then show thesis
  proof cases
    case 1
    then show thesis using assess_disabled_fields by (intro off) auto
  next
    case 2
    then show thesis by (rule assess_data_cases) (use off on in blast)+
  qed
qed

lemma find_sub_first: "CHR ''`'' \<notin> set a \<Longrightarrow> find_sub fence (a @ fence @ b) = Some (length a)"
  by (induction a) (auto simp: fence_def startswith_def)

lemma strip_chars_ends:
  assumes "s \<noteq> []" "\<not> P (hd s)" "\<not> P (last s)" "\<forall>c \<in> set a. P c" "\<forall>c \<in> set b. P c"
  shows "strip_chars P (a @ s @ b) = s"
proof -
  have "lstrip P (a @ s @ b) = s @ b"
    using assms(1,2,4) by (cases s) (simp_all add: lstrip_def dropWhile_append2)
  moreover have "dropWhile P (rev b @ rev s) = dropWhile P (rev s)"
    using assms(5) by (intro dropWhile_append2) simp
  then have "dropWhile P (rev b @ rev s) = rev s"
    using assms(1,3) by (cases s rule: rev_cases) simp_all
  then have "rstrip P (s @ b) = s" by (simp add: rstrip_def)
  ultimately show ?thesis by (simp add: strip_chars_def)
qed

subsection \<open>Properties\<close>

text \<open>
  the analyst annotates existing findings only.  Whatever the model answers, every annotation is about
  the id of a finding that was passed in, under that id and once per id, and a group lists, in
  annotation order, exactly the annotated findings that carry its non-empty label.
\<close>

theorem assess_known_findings:
  assumes "assess fr loads prov findings = Inr a"
  shows "distinct (dkeys (as_annotations a)) \<and> set (dkeys (as_annotations a)) \<subseteq> f_id ` set findings \<and>
    list_all (\<lambda>(fid, ann). aa_finding_id ann = fid) (as_annotations a) \<and>
    dget_or (as_groups a) g [] =
      (if g = [] then [] else map fst (filter (\<lambda>fa. aa_group_id (snd fa) = Some g) (as_annotations a)))"
  using assms
proof (cases rule: assess_cases)
  case off
  then show ?thesis by (simp add: dkeys_def dget_or_def)
next
  case (on items dropped)
  have ok: "annotations_ok (map f_id findings) (as_annotations a)"
    using annotate_ok [OF on(2)] by (simp add: annotations_ok_def)
  then have "distinct (dkeys (as_annotations a))" by (simp add: annotations_ok_def dict_ok_def)
  moreover from ok have "set (dkeys (as_annotations a)) \<subseteq> f_id ` set findings"
    by (auto simp: annotations_ok_def dkeys_def)
  moreover from ok have "list_all (\<lambda>(fid, ann). aa_finding_id ann = fid) (as_annotations a)"
    by (auto simp: annotations_ok_def list_all_iff)
  ultimately show ?thesis unfolding on(3) groups_get by blast
qed

text \<open>
  the advisory order only reorders: it is a permutation of the findings, by decreasing risk without an
  assessment, and otherwise by the model's rank (10000 when it gave none or zero) with the higher risk
  first among equal ranks.
\<close>

theorem prioritized_order_spec:
  "mset (prioritized_order findings a) = mset findings \<and>
   (if as_enabled a then sorted_wrt (\<lambda>f g. priority_key a f \<le> priority_key a g) (prioritized_order findings a)
    else sorted_wrt (\<lambda>f g. f_risk_score g \<le> f_risk_score f) (prioritized_order findings a))"
proof (cases "as_enabled a")
  case True
  have "sorted (map (priority_key a) (sort_key (priority_key a) findings))" by simp
  with True show ?thesis by (simp add: prioritized_order_def sorted_map)
next
  case False
  then show ?thesis using sort_desc_sorted [of f_risk_score findings] by (simp add: prioritized_order_def)
qed

text \<open>
  a reply that is a JSON document inside a code fence, with or without the language tag, is read as
  that document.
\<close>

theorem fenced_reply:
  assumes "llm_text resp = fence @ tag @ [CHR 0x0A] @ doc @ [CHR 0x0A] @ fence" and "tag = [] \<or> tag = ''json''"
    and "CHR ''`'' \<notin> set doc" and "doc \<noteq> []" and "hd doc \<notin> {CHR '' '', CHR 0x0A}"
    and "last doc \<notin> {CHR '' '', CHR 0x0A}" and "loads doc = Some v"
  shows "response_json loads resp = v"
proof -
  let ?raw = "fence @ tag @ [CHR 0x0A] @ doc @ [CHR 0x0A] @ fence"
  let ?in = "tag @ [CHR 0x0A] @ doc @ [CHR 0x0A]"
  let ?P = "\<lambda>c. c \<in> {CHR ''`'', CHR 0x0A, CHR '' ''}"
  have "\<not> is_space (CHR ''`'')" by (simp add: is_space_def less_eq_char_def)
  then have strip: "strip ?raw = ?raw"
    using strip_chars_ends [of ?raw is_space "[]" "[]"] by (simp add: strip_def fence_def)
  have "CHR ''`'' \<notin> set ?in" using assms(2,3) by auto
  from find_sub_first [OF this, of "[]"] have "split_max fence 2 ?raw ! 1 = ?in"
    by (simp add: numeral_2_eq_2 fence_def startswith_def) (simp add: fence_def [symmetric] fence_def startswith_def)?
  moreover have "contains fence (drop 3 ?raw)"
    unfolding contains_iff by (rule exI [of _ ?in], rule exI [of _ "[]"]) (simp add: fence_def)
  moreover have "strip_chars ?P (removeprefix ''json'' ?in) = doc"
  proof -
    have "hd doc \<noteq> CHR ''`''" "last doc \<noteq> CHR ''`''" using assms(3,4) by (metis hd_in_set last_in_set)+
    then have "strip_chars ?P ([CHR 0x0A] @ doc @ [CHR 0x0A]) = doc"
      using assms(4-6) by (intro strip_chars_ends) auto
    then show ?thesis using assms(2) by (auto simp: removeprefix_def startswith_def)
  qed
  ultimately have "response_text ?raw = doc"
    by (simp only: response_text_def Let_def strip) (simp add: fence_def startswith_def)
  with assms(1,7) show ?thesis by (simp add: response_json_def Let_def)
qed

text \<open>
  C52: the analyst is not always a no-op on a malformed answer: a rank such as \<open>--5\<close> passes the digit test
  and then makes the assessment, and with it the run that asked for it, raise a \<open>ValueError\<close>.
\<close>

theorem malformed_rank_raises:
  assumes "f \<in> set findings" and "lp_available prov = Inr True"
    and "lp_complete prov (build_prompt fr findings) (Some SYSTEM_PROMPT) 2048 = Inr resp"
    and "response_json loads resp =
      PDict [(''findings'', PList [PDict [(''id'', PStr (f_id f)), (''priority_rank'', PStr ''--5'')]])]"
  shows "\<exists>t. assess fr loads prov findings = Inl (ValueError t)"
proof -
  have "map_sum (\<lambda>e. case e of ValueError t \<Rightarrow> True | _ \<Rightarrow> False) id (int_or_none (PStr ''--5'')) = Inl True"
    by code_simp
  then obtain t where "int_or_none (PStr ''--5'') = Inl (ValueError t)"
    by (cases "int_or_none (PStr ''--5'')") (auto split: exn.splits)
  then have "item_annotation fr (f_id f) [(''id'', PStr (f_id f)), (''priority_rank'', PStr ''--5'')] = Inl (ValueError t)"
    by (simp add: item_annotation_def pget_def)
  then have "assess_data fr prov (map f_id findings) (response_json loads resp) = Inl (ValueError t)"
    using assms(1) unfolding assms(4) by (simp add: assess_data_def pget_def Let_def)
  moreover have "findings \<noteq> []" using assms(1) by auto
  ultimately show ?thesis using assms(2,3) by (simp add: assess_def)
qed

subsection \<open>Witnesses\<close>

definition demo_reply :: LLMResponse where
  "demo_reply = \<lparr>llm_text = ''{}'', llm_model = ''m'', llm_provider = ''fake'', llm_usage = []\<rparr>"

definition demo_llm :: LLMProvider where
  "demo_llm = \<lparr>lp_name = ''fake'', lp_model_id = ''m'', lp_model_license = ''MIT'', lp_available = Inr True,
     lp_complete = (\<lambda>prompt system max_tokens. Inr demo_reply)\<rparr>"

definition demo_loads :: "string \<Rightarrow> string \<Rightarrow> string \<Rightarrow> pyval option" where
  "demo_loads fid rank doc =
     Some (PDict [(''findings'', PList [PDict [(''id'', PStr fid), (''priority_rank'', PStr rank)]])])"

theorem assess_known_findings_witness:
  "\<exists>a. assess (\<lambda>_. []) (demo_loads ''f9'' ''1'') demo_llm [demo_unified ''f1''] = Inr a \<and>
     set (dkeys (as_annotations a)) \<subseteq> {''f1''}"
proof -
  obtain a where a: "assess (\<lambda>_. []) (demo_loads ''f9'' ''1'') demo_llm [demo_unified ''f1''] = Inr a"
    by (simp add: assess_def demo_llm_def response_json_def demo_loads_def assess_data_def pget_def
        demo_unified_def Let_def)
  with assess_known_findings [OF a] show ?thesis by (simp add: demo_unified_def)
qed

theorem fenced_reply_witness:
  "response_json (\<lambda>d. if d = ''{}'' then Some (PDict []) else None)
     \<lparr>llm_text = fence @ ''json'' @ [CHR 0x0A] @ ''{}'' @ [CHR 0x0A] @ fence, llm_model = [],
      llm_provider = [], llm_usage = []\<rparr> = PDict []"
  by (rule fenced_reply [where tag = "''json''" and doc = "''{}''"]) simp_all

theorem malformed_rank_raises_witness:
  "\<exists>t. assess (\<lambda>_. []) (demo_loads ''f1'' ''--5'') demo_llm [demo_unified ''f1''] = Inl (ValueError t)"
  by (rule malformed_rank_raises [where f = "demo_unified ''f1''" and resp = demo_reply])
    (simp_all add: demo_llm_def response_json_def demo_loads_def demo_unified_def Let_def)

end
