(* ===== verification/Orchestrator.thy ===== *)
theory Orchestrator
  imports Planner Knowledge Validation Risk Repositories Proof_Bundle Analyst
begin

text \<open>
  The scan orchestrator (\<open>vantage/scan/orchestrator.py\<close>) over the models of the components it drives.  An
  action reads and writes the database and the clock and may raise; what the orchestrator takes from
  outside (clock, fresh identifiers, hashes, JSON parsing, query order) is a record, and an adapter is
  a record of the fallible calls of \<open>vantage/engines/adapter.py\<close>.
\<close>

subsection \<open>Bounds of the discovery loop\<close>

definition MAX_DISCOVERED :: nat where "MAX_DISCOVERED = 60"
definition MAX_FED_SEEDS :: nat where "MAX_FED_SEEDS = 40"

fun collect_evidence ::
  "regex_search \<Rightarrow> ScopeEngine \<Rightarrow> nat \<Rightarrow> string list \<Rightarrow> Evidence list \<Rightarrow> string list res" where
  "collect_evidence re_search scope cap into [] = Inr into"
| "collect_evidence re_search scope cap into (ev # evs) =
     (case pget (ev_data ev) ''url'' PNone of
        PStr url \<Rightarrow>
          if url \<in> set into then collect_evidence re_search scope cap into evs
          else bind_res (scope_allows re_search scope url None) (\<lambda>ok.
            if \<not> ok then collect_evidence re_search scope cap into evs
            else if length (into @ [url]) \<ge> cap then Inr (into @ [url])
            else collect_evidence re_search scope cap (into @ [url]) evs)
      | _ \<Rightarrow> collect_evidence re_search scope cap into evs)"

definition collect_discovered ::
  "regex_search \<Rightarrow> Observation list \<Rightarrow> ScopeEngine \<Rightarrow> string list \<Rightarrow> nat \<Rightarrow> string list res" where
  "collect_discovered re_search observations scope into cap =
     collect_evidence re_search scope cap into (concat (List.map obs_evidence observations))"

fun merge_seeds_loop :: "nat \<Rightarrow> string list \<Rightarrow> string list \<Rightarrow> string list" where
  "merge_seeds_loop cap out [] = out"
| "merge_seeds_loop cap out (url # urls) =
     (let out' = (if url \<in> set out then out else out @ [url])
      in if length out' \<ge> cap then out' else merge_seeds_loop cap out' urls)"

definition merge_seeds :: "string list \<Rightarrow> string list \<Rightarrow> nat \<Rightarrow> string list" where
  "merge_seeds seeds discovered cap = merge_seeds_loop cap seeds discovered"

subsection \<open>Scan states\<close>

fun TRANSITIONS :: "ScanState \<Rightarrow> ScanState list" where
  "TRANSITIONS CREATED = [QUEUED, CANCELLED]"
| "TRANSITIONS QUEUED = [PLANNING, CANCELLING, CANCELLED]"
| "TRANSITIONS PLANNING = [RUNNING, FAILED, CANCELLING]"
| "TRANSITIONS RUNNING = [CORRELATING, PAUSED, FAILED, CANCELLING]"
| "TRANSITIONS PAUSED = [RUNNING, CANCELLING, CANCELLED]"
| "TRANSITIONS CORRELATING = [VALIDATING, FAILED, CANCELLING]"
| "TRANSITIONS VALIDATING = [REPORTING, FAILED, CANCELLING]"
| "TRANSITIONS REPORTING = [COMPLETED, FAILED]"
| "TRANSITIONS CANCELLING = [CANCELLED]"
| "TRANSITIONS _ = []"

definition can_transition :: "ScanState \<Rightarrow> ScanState \<Rightarrow> bool" where
  "can_transition src dst \<longleftrightarrow> dst \<in> set (TRANSITIONS src)"

subsection \<open>Actions\<close>

record World =
  w_db :: Database
  w_tick :: nat

type_synonym 'a act = "World \<Rightarrow> 'a res \<times> World"

definition act_return :: "'a \<Rightarrow> 'a act" where
  "act_return x w = (Inr x, w)"

definition act_res :: "'a res \<Rightarrow> 'a act" where
  "act_res r w = (r, w)"

definition act_bind :: "'a act \<Rightarrow> ('a \<Rightarrow> 'b act) \<Rightarrow> 'b act" where
  "act_bind m f w = (case m w of (Inl e, w') \<Rightarrow> (Inl e, w') | (Inr x, w') \<Rightarrow> f x w')"

definition act_read :: "(Database \<Rightarrow> 'a) \<Rightarrow> 'a act" where
  "act_read f w = (Inr (f (w_db w)), w)"

definition act_uow :: "(Database \<Rightarrow> Database res) \<Rightarrow> unit act" where
  "act_uow body w = (case unit_of_work body (w_db w) of (r, db) \<Rightarrow> (r, w\<lparr>w_db := db\<rparr>))"

record Outside =
  out_clock :: "nat \<Rightarrow> int"
  out_ids :: "nat \<Rightarrow> nat \<Rightarrow> string"
  out_search :: regex_search
  out_sha :: "string \<Rightarrow> string"
  out_mac :: "string \<Rightarrow> string \<Rightarrow> string"
  out_float_repr :: "rat \<Rightarrow> string"
  out_loads :: "string \<Rightarrow> pyval option"
  out_environ_key :: "string option"
  out_scan_order :: "ScanRow list \<Rightarrow> ScanRow list"
  out_finding_order :: "FindingRow list \<Rightarrow> FindingRow list"

text \<open>\<open>utcnow()\<close>, and the fresh identifiers of one step.\<close>

definition utcnow :: "Outside \<Rightarrow> int act" where
  "utcnow out w = (Inr (out_clock out (w_tick w)), w\<lparr>w_tick := Suc (w_tick w)\<rparr>)"

definition fresh_ids :: "Outside \<Rightarrow> (nat \<Rightarrow> string) act" where
  "fresh_ids out w = (Inr (out_ids out (w_tick w)), w\<lparr>w_tick := Suc (w_tick w)\<rparr>)"

definition moved_scan :: "int \<Rightarrow> Scan \<Rightarrow> ScanState \<Rightarrow> string option \<Rightarrow> Scan" where
  "moved_scan now scan dst reason =
     (let scan = scan\<lparr>s_state := dst, s_state_reason := reason\<rparr>;
          scan = (if dst = RUNNING \<and> s_started_at scan = None then scan\<lparr>s_started_at := Some now\<rparr> else scan)
      in if dst \<in> {COMPLETED, FAILED, CANCELLED} then scan\<lparr>s_finished_at := Some now\<rparr> else scan)"

definition store_state :: "int \<Rightarrow> Scan \<Rightarrow> string option \<Rightarrow> Database \<Rightarrow> Database res" where
  "store_state now scan reason db =
     Inr (audit_record now (s_tenant_id scan) (s_created_by scan) ''scan.state'' (s_id scan)
            (scan_state_value (s_state scan) @ '':'' @ osor reason []) None (scan_upsert scan db))"

definition set_state :: "Outside \<Rightarrow> Scan \<Rightarrow> ScanState \<Rightarrow> string option \<Rightarrow> Scan act" where
  "set_state out scan dst reason =
     (if s_state scan = dst then act_return scan
      else if \<not> can_transition (s_state scan) dst
      then act_res (Inl (IllegalTransition (scan_state_value (s_state scan) @ '' -> '' @ scan_state_value dst)))
      else act_bind (utcnow out) (\<lambda>now. act_bind (utcnow out) (\<lambda>audit_now.
           act_bind (act_uow (store_state audit_now (moved_scan now scan dst reason) reason))
             (\<lambda>_. act_return (moved_scan now scan dst reason)))))"

subsection \<open>Running engines\<close>

text \<open>\<open>EngineAdapter\<close>: the types are those of prepared runs, outcomes and raw results.\<close>

record ('p, 'o, 'r) EngineAdapter =
  ad_metadata :: EngineMetadata
  ad_health_check :: "HealthStatus res"
  ad_prepare_target :: "EngineRunRequest \<Rightarrow> 'p res"
  ad_execute_scan :: "'p \<Rightarrow> 'o res"
  ad_collect_results :: "'o \<Rightarrow> 'r res"
  ad_normalize_results :: "'r \<Rightarrow> EngineRunRequest \<Rightarrow> Observation list res"
  ad_cleanup :: "'p \<Rightarrow> unit res"

definition run_request ::
  "string \<Rightarrow> Scan \<Rightarrow> Target \<Rightarrow> EngineMetadata \<Rightarrow> Capability list \<Rightarrow> string list \<Rightarrow> EngineRunRequest res" where
  "run_request rid scan target meta capabilities seed_urls =
     (let q = \<lparr>rq_run_id = rid, rq_scan_id = s_id scan, rq_tenant_id = s_tenant_id scan,
               rq_engine_id = em_id meta, rq_capabilities = capabilities, rq_seed_urls = seed_urls,
               rq_scope_rules = t_scope_rules target,
               rq_max_requests_per_second = rl_max_requests_per_second (t_rate_limits target),
               rq_max_concurrency = rl_max_concurrency (t_rate_limits target),
               rq_options = [], rq_auth_context = None, rq_proxy_url = None\<rparr>
      in if EngineRunRequest_ok q then Inr q else Inl (ValidationError ''EngineRunRequest''))"

text \<open>The guarded calls of one engine; \<open>None\<close> is the early return for an unavailable engine.\<close>

definition engine_calls ::
  "('p, 'o, 'r) EngineAdapter \<Rightarrow> EngineRunRequest \<Rightarrow> Observation list option res" where
  "engine_calls adapter request =
     bind_res (ad_health_check adapter) (\<lambda>health.
       if hs_state health = UNAVAILABLE then Inr None
       else bind_res (ad_prepare_target adapter request) (\<lambda>prepared.
            bind_res (ad_execute_scan adapter prepared) (\<lambda>outcome.
            bind_res (ad_collect_results adapter outcome) (\<lambda>raw.
            bind_res (ad_normalize_results adapter raw request) (\<lambda>observations.
            bind_res (ad_cleanup adapter prepared) (\<lambda>_. Inr (Some observations)))))))"

definition observation_key :: "Observation \<Rightarrow> string" where
  "observation_key ob =
     (let loc = obs_location ob
      in coverage_key (loc_host loc) (loc_port loc) (loc_path loc) (osor (loc_method loc) ''GET'') (loc_parameter loc))"

definition mark_observations :: "Observation list \<Rightarrow> RequestKnowledgeBase \<Rightarrow> RequestKnowledgeBase" where
  "mark_observations observations kb =
     foldl (\<lambda>kb ob. mark (observation_key ob) (obs_vuln_class ob) kb) kb observations"

definition run_engine ::
  "string \<Rightarrow> Scan \<Rightarrow> Target \<Rightarrow> ('p, 'o, 'r) EngineAdapter \<Rightarrow> Capability list \<Rightarrow> string list \<Rightarrow>
   RequestKnowledgeBase \<Rightarrow> (Observation list \<times> RequestKnowledgeBase) res" where
  "run_engine rid scan target adapter capabilities seed_urls kb =
     bind_res (run_request rid scan target (ad_metadata adapter) capabilities seed_urls) (\<lambda>request.
       case engine_calls adapter request of
         Inl _ \<Rightarrow> Inr ([], kb)
       | Inr None \<Rightarrow> Inr ([], kb)
       | Inr (Some observations) \<Rightarrow> Inr (observations, mark_observations observations kb))"

record RunState =
  ru_kb :: RequestKnowledgeBase
  ru_obs :: "Observation list"
  ru_engines_run :: "string list"
  ru_engines_failed :: "string list"
  ru_discovered :: "string list"
  ru_runs :: nat

definition task_seeds :: "StageKind \<Rightarrow> PlannedTask \<Rightarrow> RunState \<Rightarrow> string list" where
  "task_seeds stage task st =
     (if stage = STAGE_AUDIT \<and> ru_discovered st \<noteq> []
      then merge_seeds (pt_seed_urls task) (ru_discovered st) MAX_FED_SEEDS else pt_seed_urls task)"

definition run_task ::
  "regex_search \<Rightarrow> (nat \<Rightarrow> string) \<Rightarrow> (string \<Rightarrow> ('p, 'o, 'r) EngineAdapter option) \<Rightarrow> Scan \<Rightarrow> Target \<Rightarrow>
   ScopeEngine \<Rightarrow> StageKind \<Rightarrow> PlannedTask \<Rightarrow> RunState \<Rightarrow> RunState res" where
  "run_task re_search run_ids adapter_of scan target scope stage task st =
     (case adapter_of (pt_engine_id task) of
        None \<Rightarrow> Inr (st\<lparr>ru_engines_failed := ru_engines_failed st @ [pt_engine_id task]\<rparr>)
      | Some adapter \<Rightarrow>
          bind_res (run_engine (run_ids (ru_runs st)) scan target adapter (pt_capabilities task)
                      (task_seeds stage task st) (ru_kb st)) (\<lambda>(obs, kb).
          bind_res (collect_discovered re_search obs scope (ru_discovered st) MAX_DISCOVERED) (\<lambda>discovered.
            Inr (st\<lparr>ru_kb := kb, ru_obs := ru_obs st @ obs,
                   ru_engines_run := ru_engines_run st @ [pt_engine_id task],
                   ru_discovered := discovered, ru_runs := Suc (ru_runs st)\<rparr>))))"

text \<open>The two nested loops, as one over the tasks with the kind of their stage.\<close>

definition staged_tasks :: "ScanPlan \<Rightarrow> (StageKind \<times> PlannedTask) list" where
  "staged_tasks plan = concat (List.map (\<lambda>s. List.map (Pair (ps_kind s)) (ps_tasks s)) (plan_stages plan))"

fun run_tasks ::
  "regex_search \<Rightarrow> (nat \<Rightarrow> string) \<Rightarrow> (string \<Rightarrow> ('p, 'o, 'r) EngineAdapter option) \<Rightarrow> Scan \<Rightarrow> Target \<Rightarrow>
   ScopeEngine \<Rightarrow> (StageKind \<times> PlannedTask) list \<Rightarrow> RunState \<Rightarrow> RunState res" where
  "run_tasks re_search run_ids adapter_of scan target scope [] st = Inr st"
| "run_tasks re_search run_ids adapter_of scan target scope ((stage, task) # tasks) st =
     bind_res (run_task re_search run_ids adapter_of scan target scope stage task st)
       (run_tasks re_search run_ids adapter_of scan target scope tasks)"

definition run_state0 :: RunState where
  "run_state0 = \<lparr>ru_kb = knowledge_init, ru_obs = [], ru_engines_run = [], ru_engines_failed = [],
     ru_discovered = [], ru_runs = 0\<rparr>"

subsection \<open>The run\<close>

record ScanReport =
  rp_scan :: Scan
  rp_findings :: "UnifiedFinding list"
  rp_observations :: nat
  rp_engines_run :: "string list"
  rp_engines_failed :: "string list"
  rp_skipped_capabilities :: "string list"
  rp_stats :: "(string \<times> pyval) list"
  rp_ai :: "AiAssessment option"
  rp_proofs :: "ProofReport option"

record ('p, 'o, 'r) Orchestrator =
  or_registry :: "('p, 'o, 'r) EngineAdapter EngineRegistry"
  or_planner_config :: PlannerConfig
  or_validation :: "ValidationStrategy list"
  or_prober_factory :: "(Target \<Rightarrow> prober res) option"
  or_validate :: bool
  or_analyst :: LLMProvider
  or_evidence_key :: "string option"

definition Orchestrator_init ::
  "('p, 'o, 'r) EngineAdapter EngineRegistry \<Rightarrow> ValidationStrategy list option \<Rightarrow>
   (Target \<Rightarrow> prober res) option \<Rightarrow> PlannerConfig option \<Rightarrow> bool \<Rightarrow> LLMProvider option \<Rightarrow> string option \<Rightarrow>
   ('p, 'o, 'r) Orchestrator" where
  "Orchestrator_init registry validation_engine prober_factory planner_config validate_findings analyst key =
     \<lparr>or_registry = registry,
      or_planner_config = (case planner_config of Some c \<Rightarrow> c | None \<Rightarrow> \<lparr>pc_redundant_engines = False\<rparr>),
      or_validation = ValidationEngine_init validation_engine,
      or_prober_factory = prober_factory, or_validate = validate_findings,
      or_analyst = (case analyst of Some a \<Rightarrow> a | None \<Rightarrow> NullProvider), or_evidence_key = key\<rparr>"

fun validate_all ::
  "Outside \<Rightarrow> ValidationStrategy list \<Rightarrow> prober \<Rightarrow> Observation list \<Rightarrow> Observation list act" where
  "validate_all out strategies prober [] = act_return []"
| "validate_all out strategies prober (ob # obs) =
     act_bind (fresh_ids out) (\<lambda>ids. act_bind (utcnow out) (\<lambda>now.
       (let validated = (case validate_with strategies (ids 0) now ob prober of Inl _ \<Rightarrow> ob | Inr ob' \<Rightarrow> ob')
        in act_bind (validate_all out strategies prober obs) (\<lambda>rest. act_return (validated # rest)))))"

definition validation_pass ::
  "Outside \<Rightarrow> ('p, 'o, 'r) Orchestrator \<Rightarrow> Target \<Rightarrow> Observation list \<Rightarrow> Observation list act" where
  "validation_pass out orch target obs =
     (if or_validate orch
      then (case or_prober_factory orch of
              None \<Rightarrow> act_return obs
            | Some factory \<Rightarrow> act_bind (act_res (factory target))
                (\<lambda>prober. validate_all out (or_validation orch) prober obs))
      else act_return obs)"

definition merge_history ::
  "Outside \<Rightarrow> Scan \<Rightarrow> Target \<Rightarrow> UnifiedFinding list \<Rightarrow> UnifiedFinding list act" where
  "merge_history out scan target findings =
     act_bind (act_read (\<lambda>db. List.filter (\<lambda>s. s_target_id s = t_id target \<and> s_id s \<noteq> s_id scan)
                                (scan_list (out_scan_order out) (s_tenant_id scan) (Some COMPLETED) db)))
       (\<lambda>prev_scans. case prev_scans of
          [] \<Rightarrow> act_return findings
        | latest # _ \<Rightarrow>
            act_bind (act_read (findings_for_scan (out_finding_order out) (s_id latest) None)) (\<lambda>previous.
            act_bind (utcnow out) (\<lambda>now. act_return (merge_across_scans now previous findings))))"

fun upsert_findings :: "UnifiedFinding list \<Rightarrow> Database \<Rightarrow> Database res" where
  "upsert_findings [] db = Inr db"
| "upsert_findings (f # fs) db = bind_res (finding_upsert f db) (upsert_findings fs)"

text \<open>From the queue to the end of the engine runs.\<close>

definition make_plan ::
  "Outside \<Rightarrow> ('p, 'o, 'r) Orchestrator \<Rightarrow> Scan \<Rightarrow> Target \<Rightarrow> (Scan \<times> ScanPlan) act" where
  "make_plan out orch scan target =
     act_bind (set_state out scan QUEUED None) (\<lambda>scan.
     act_bind (set_state out scan PLANNING None) (\<lambda>scan.
     act_bind (fresh_ids out) (\<lambda>task_ids.
     act_bind (utcnow out) (\<lambda>now.
       act_return (scan,
         (plan_scan task_ids now (or_planner_config orch) (engines_for (or_registry orch)) target
            (s_policy scan) (t_base_urls target))\<lparr>plan_scan_id := s_id scan\<rparr>)))))"

definition execute_plan ::
  "Outside \<Rightarrow> ('p, 'o, 'r) Orchestrator \<Rightarrow> Scan \<Rightarrow> Target \<Rightarrow> ScanPlan \<Rightarrow> (Scan \<times> RunState) act" where
  "execute_plan out orch scan target plan =
     act_bind (set_state out scan RUNNING None) (\<lambda>scan.
     act_bind (utcnow out) (\<lambda>now.
     act_bind (fresh_ids out) (\<lambda>run_ids.
     act_bind (act_res (run_tasks (out_search out) run_ids (adapter_for (or_registry orch)) scan target
                          (ScopeEngine_init now target) (staged_tasks plan) run_state0)) (\<lambda>st.
       act_return (scan, st)))))"

definition run_engines ::
  "Outside \<Rightarrow> ('p, 'o, 'r) Orchestrator \<Rightarrow> Scan \<Rightarrow> Target \<Rightarrow> (Scan \<times> ScanPlan \<times> RunState) act" where
  "run_engines out orch scan target =
     act_bind (make_plan out orch scan target) (\<lambda>(scan, plan).
     act_bind (execute_plan out orch scan target plan) (\<lambda>(scan, st).
       act_return (scan, plan, st)))"

text \<open>Observations to scored, stored findings.\<close>

definition collect_findings ::
  "Outside \<Rightarrow> ('p, 'o, 'r) Orchestrator \<Rightarrow> Scan \<Rightarrow> Target \<Rightarrow> Observation list \<Rightarrow>
   (nat \<times> UnifiedFinding list) act" where
  "collect_findings out orch scan target all_obs =
     act_bind (validation_pass out orch target all_obs) (\<lambda>all_obs.
     act_bind (fresh_ids out) (\<lambda>finding_ids.
     act_bind (merge_history out scan target
        (correlate (out_sha out) finding_ids
           \<lparr>ce_tenant_id = s_tenant_id scan, ce_scan_id = s_id scan, ce_target_id = t_id target\<rparr> all_obs))
       (\<lambda>findings. act_return (length all_obs, findings))))"

definition store_findings ::
  "Outside \<Rightarrow> Scan \<Rightarrow> UnifiedFinding list \<Rightarrow> (Scan \<times> UnifiedFinding list) act" where
  "store_findings out scan findings =
     act_bind (set_state out scan VALIDATING None) (\<lambda>scan.
       (let findings = List.map risk_apply findings
        in act_bind (set_state out scan REPORTING None) (\<lambda>scan.
           act_bind (act_uow (upsert_findings findings)) (\<lambda>_. act_return (scan, findings)))))"

definition analyse ::
  "Outside \<Rightarrow> ('p, 'o, 'r) Orchestrator \<Rightarrow> Scan \<Rightarrow> Target \<Rightarrow> Observation list \<Rightarrow>
   (Scan \<times> nat \<times> UnifiedFinding list) act" where
  "analyse out orch scan target all_obs =
     act_bind (if all_obs = [] then act_return ()
               else act_uow (\<lambda>db. Inr (observations_add_many all_obs db))) (\<lambda>_.
     act_bind (set_state out scan CORRELATING None) (\<lambda>scan.
     act_bind (collect_findings out orch scan target all_obs) (\<lambda>(n_obs, findings).
     act_bind (store_findings out scan findings) (\<lambda>(scan, findings).
       act_return (scan, n_obs, findings)))))"

text \<open>The advisory layer, the proofs and the end of the scan.\<close>

definition finish ::
  "Outside \<Rightarrow> ('p, 'o, 'r) Orchestrator \<Rightarrow> ScanPlan \<Rightarrow> RunState \<Rightarrow> Scan \<Rightarrow> nat \<Rightarrow> UnifiedFinding list \<Rightarrow>
   ScanReport act" where
  "finish out orch plan st scan n_obs findings =
     act_bind (act_res (assess (out_float_repr out) (out_loads out) (or_analyst orch) findings)) (\<lambda>ai.
       (let findings = (if as_enabled ai then prioritized_order findings ai else findings);
            proofs = build_proofs (out_sha out) (out_mac out) (out_environ_key out) findings
                       (or_evidence_key orch)
        in act_bind (set_state out scan COMPLETED (Some (str_of_nat (length findings) @ '' findings'')))
             (\<lambda>scan.
                act_return \<lparr>rp_scan = scan, rp_findings = findings, rp_observations = n_obs,
                   rp_engines_run = ru_engines_run st, rp_engines_failed = ru_engines_failed st,
                   rp_skipped_capabilities = plan_skipped plan,
                   rp_stats = [(''coverage_entries'', PInt (int (knowledge_len (ru_kb st))))],
                   rp_ai = Some ai, rp_proofs = Some proofs\<rparr>)))"

definition run_authorized ::
  "Outside \<Rightarrow> ('p, 'o, 'r) Orchestrator \<Rightarrow> Scan \<Rightarrow> Target \<Rightarrow> ScanReport act" where
  "run_authorized out orch scan target =
     act_bind (run_engines out orch scan target) (\<lambda>(scan, plan, st).
     act_bind (analyse out orch scan target (ru_obs st)) (\<lambda>(scan, n_obs, findings).
       finish out orch plan st scan n_obs findings))"

definition run_refused :: "Outside \<Rightarrow> Scan \<Rightarrow> ScanReport act" where
  "run_refused out scan =
     act_bind (set_state out scan QUEUED None) (\<lambda>scan.
     act_bind (set_state out scan PLANNING None) (\<lambda>scan.
     act_bind (set_state out scan FAILED (Some ''target not authorized'')) (\<lambda>scan.
       act_return \<lparr>rp_scan = scan, rp_findings = [], rp_observations = 0, rp_engines_run = [],
          rp_engines_failed = [], rp_skipped_capabilities = [''all: target not authorized''],
          rp_stats = [], rp_ai = None, rp_proofs = None\<rparr>)))"

definition run ::
  "Outside \<Rightarrow> ('p, 'o, 'r) Orchestrator \<Rightarrow> Scan \<Rightarrow> Target \<Rightarrow> ScanReport act" where
  "run out orch scan target =
     act_bind (utcnow out) (\<lambda>now.
       if \<not> is_authorized now target then run_refused out scan else run_authorized out orch scan target)"

subsection \<open>Actions and the audit trail\<close>

lemma act_bind_Inr_iff:
  "act_bind m f w = (Inr y, w') \<longleftrightarrow> (\<exists>x w1. m w = (Inr x, w1) \<and> f x w1 = (Inr y, w'))"
  by (auto simp: act_bind_def split: prod.split sum.split)

text \<open>The states a scan was moved to, as its audit records tell.\<close>

definition trail :: "string \<Rightarrow> World \<Rightarrow> string list" where
  "trail sid w = List.map (\<lambda>r. takeWhile (\<lambda>c. c \<noteq> CHR '':'') (au_detail r))
     (List.filter (\<lambda>r. au_action r = ''scan.state'' \<and> au_resource r = sid) (db_audit (w_db w)))"

text \<open>
  The action moves the scan through a prefix of the given states, through all of them when it does not
  raise, and then its result is as described.
\<close>

definition emits :: "string \<Rightarrow> 'a act \<Rightarrow> string list \<Rightarrow> ('a \<Rightarrow> bool) \<Rightarrow> bool" where
  "emits sid m ts Q \<longleftrightarrow>
     (\<forall>w r w'. m w = (r, w') \<longrightarrow>
        (\<exists>us vs. ts = us @ vs \<and> trail sid w' = trail sid w @ us \<and> (\<forall>x. r = Inr x \<longrightarrow> vs = [] \<and> Q x)))"

lemma emits_bind:
  assumes "emits sid m ts P" "\<And>x. P x \<Longrightarrow> emits sid (f x) us Q"
  shows "emits sid (act_bind m f) (ts @ us) Q"
  unfolding emits_def
proof (intro allI impI)
  fix w r w'
  assume run: "act_bind m f w = (r, w')"
  obtain r1 w1 where m: "m w = (r1, w1)" by fastforce
  from assms(1) [unfolded emits_def, rule_format, OF m]
  obtain as bs where 1: "ts = as @ bs" "trail sid w1 = trail sid w @ as"
    "\<forall>x. r1 = Inr x \<longrightarrow> bs = [] \<and> P x" by blast
  show "\<exists>as vs. ts @ us = as @ vs \<and> trail sid w' = trail sid w @ as \<and> (\<forall>x. r = Inr x \<longrightarrow> vs = [] \<and> Q x)"
  proof (cases r1)
    case (Inl e)
    with run m have "r = Inl e" "w' = w1" by (simp_all add: act_bind_def)
    with 1 show ?thesis by (intro exI [of _ as] exI [of _ "bs @ us"]) simp
  next
    case (Inr x)
    with run m have "f x w1 = (r, w')" by (simp add: act_bind_def)
    from 1(3) Inr have "emits sid (f x) us Q" by (intro assms(2)) simp
    from this [unfolded emits_def, rule_format, OF \<open>f x w1 = (r, w')\<close>]
    obtain cs ds where "us = cs @ ds" "trail sid w' = trail sid w1 @ cs"
      "\<forall>y. r = Inr y \<longrightarrow> ds = [] \<and> Q y" by blast
    with 1 Inr show ?thesis by (intro exI [of _ "as @ cs"] exI [of _ ds]) simp
  qed
qed

lemma emits_silent_bind:
  "emits sid m [] P \<Longrightarrow> (\<And>x. P x \<Longrightarrow> emits sid (f x) us Q) \<Longrightarrow> emits sid (act_bind m f) us Q"
  using emits_bind [of sid m "[]" P f us Q] by simp

lemma emits_cons_bind:
  "emits sid m [t] P \<Longrightarrow> (\<And>x. P x \<Longrightarrow> emits sid (f x) us Q) \<Longrightarrow> emits sid (act_bind m f) (t # us) Q"
  using emits_bind [of sid m "[t]" P f us Q] by simp

lemma emits_return: "Q x \<Longrightarrow> emits sid (act_return x) [] Q"
  by (simp add: emits_def act_return_def)

lemma emits_quiet:
  "emits sid (act_res r) [] (\<lambda>x. r = Inr x)" "emits sid (act_read f) [] (\<lambda>_. True)"
  "emits sid (utcnow out) [] (\<lambda>_. True)" "emits sid (fresh_ids out) [] (\<lambda>_. True)"
  by (auto simp: emits_def act_res_def act_read_def utcnow_def fresh_ids_def trail_def)

lemma emits_uow:
  assumes "\<And>db db'. body db = Inr db' \<Longrightarrow> db_audit db' = db_audit db"
  shows "emits sid (act_uow body) [] (\<lambda>_. True)"
  unfolding emits_def
proof (intro allI impI)
  fix w r w'
  assume "act_uow body w = (r, w')"
  then obtain db' where u: "unit_of_work body (w_db w) = (r, db')" "w' = w\<lparr>w_db := db'\<rparr>"
    by (auto simp: act_uow_def split: prod.splits)
  from u(1) have "db_audit db' = db_audit (w_db w)"
    by (cases rule: unit_of_work_cases) (use assms in auto)
  with u(2) show "\<exists>us vs. [] = us @ vs \<and> trail sid w' = trail sid w @ us \<and> (\<forall>x. r = Inr x \<longrightarrow> vs = [] \<and> True)"
    by (simp add: trail_def)
qed

lemma scan_state_value_no_colon: "CHR '':'' \<notin> set (scan_state_value st)"
  by (cases st) simp_all

lemma emits_set_state:
  assumes "s_id scan = sid" "s_state scan \<noteq> dst"
  shows "emits sid (set_state out scan dst reason) [scan_state_value dst] (\<lambda>s. s_id s = sid \<and> s_state s = dst)"
  unfolding emits_def
proof (intro allI impI)
  fix w r w'
  assume run: "set_state out scan dst reason w = (r, w')"
  let ?goal = "\<exists>us vs. [scan_state_value dst] = us @ vs \<and> trail sid w' = trail sid w @ us \<and>
      (\<forall>x. r = Inr x \<longrightarrow> vs = [] \<and> s_id x = sid \<and> s_state x = dst)"
  show ?goal
  proof (cases "can_transition (s_state scan) dst")
    case False
    with run assms show ?thesis by (auto simp: set_state_def act_res_def)
  next
    case True
    define sc where "sc = moved_scan (out_clock out (w_tick w)) scan dst reason"
    have sc: "s_id sc = sid" "s_state sc = dst" using assms(1) by (simp_all add: sc_def moved_scan_def Let_def)
    define now where "now = out_clock out (Suc (w_tick w))"
    obtain r1 db1 where u: "unit_of_work (store_state now sc reason) (w_db w) = (r1, db1)" by fastforce
    have "set_state out scan dst reason w =
        (case r1 of Inl e \<Rightarrow> Inl e | Inr _ \<Rightarrow> Inr sc, w\<lparr>w_tick := Suc (Suc (w_tick w)), w_db := db1\<rparr>)"
      using True assms(2) u
      by (simp add: set_state_def act_bind_def utcnow_def act_uow_def act_return_def now_def sc_def split: sum.split)
    with run have res: "w_db w' = db1" "r = (case r1 of Inl e \<Rightarrow> Inl e | Inr _ \<Rightarrow> Inr sc)" by auto
    from u show ?thesis
    proof (cases rule: unit_of_work_cases)
      case (rolled_back e)
      with res show ?thesis by (simp add: trail_def)
    next
      case committed
      then have "db_audit db1 = db_audit (w_db w) @ [\<lparr>au_tenant_id = s_tenant_id sc, au_actor = s_created_by sc,
          au_action = ''scan.state'', au_resource = sid, au_at = now,
          au_detail = scan_state_value dst @ '':'' @ osor reason []\<rparr>]"
        by (auto simp: store_state_def audit_record_def scan_upsert_def sc)
      moreover have "takeWhile (\<lambda>c. c \<noteq> CHR '':'') (scan_state_value dst @ '':'' @ osor reason []) = scan_state_value dst"
        using scan_state_value_no_colon [of dst] by (subst takeWhile_append2) auto
      ultimately show ?thesis using res committed(1) sc by (simp add: trail_def)
    qed
  qed
qed

subsection \<open>The states of a run\<close>

lemma set_state_same: "s_state scan = dst \<Longrightarrow> set_state out scan dst reason = act_return scan"
  by (simp add: set_state_def fun_eq_iff)

definition at_state :: "string \<Rightarrow> ScanState \<Rightarrow> Scan \<Rightarrow> bool" where
  "at_state sid st s \<longleftrightarrow> s_id s = sid \<and> s_state s = st"

lemma emits_move:
  "at_state sid st scan \<Longrightarrow> st \<noteq> dst \<Longrightarrow>
     emits sid (set_state out scan dst reason) [scan_state_value dst] (at_state sid dst)"
  using emits_set_state [of scan sid dst out reason] by (simp add: at_state_def [abs_def])

lemma emits_if: "(b \<Longrightarrow> emits sid m ts Q) \<Longrightarrow> (\<not> b \<Longrightarrow> emits sid n ts Q) \<Longrightarrow> emits sid (if b then m else n) ts Q"
  by simp

lemma emits_validate_all: "emits sid (validate_all out strategies prober obs) [] (\<lambda>_. True)"
  by (induction obs)
    (auto simp: Let_def intro!: emits_return emits_silent_bind [OF emits_quiet(3)]
      emits_silent_bind [OF emits_quiet(4)] elim!: emits_silent_bind)

lemma emits_validation_pass: "emits sid (validation_pass out orch target obs) [] (\<lambda>_. True)"
  by (auto simp: validation_pass_def intro!: emits_return emits_silent_bind [OF emits_quiet(1)]
      emits_validate_all split: option.split)

lemma emits_merge_history: "emits sid (merge_history out scan target findings) [] (\<lambda>_. True)"
  unfolding merge_history_def
  by (rule emits_silent_bind [OF emits_quiet(2)])
    (auto intro!: emits_return emits_silent_bind [OF emits_quiet(2)] emits_silent_bind [OF emits_quiet(3)]
      split: list.split)

lemma finding_upsert_audit: "finding_upsert f db = Inr db' \<Longrightarrow> db_audit db' = db_audit db"
  by (auto simp: finding_upsert_def split: if_splits)

lemma upsert_findings_audit: "upsert_findings fs db = Inr db' \<Longrightarrow> db_audit db' = db_audit db"
  by (induction fs arbitrary: db) (auto simp: bind_res_Inr_iff dest: finding_upsert_audit)

lemma emits_collect_findings: "emits sid (collect_findings out orch scan target obs) [] (\<lambda>_. True)"
  unfolding collect_findings_def
  by (intro emits_silent_bind [OF emits_validation_pass] emits_silent_bind [OF emits_quiet(4)]
      emits_silent_bind [OF emits_merge_history] emits_return) simp

lemma emits_store_findings:
  assumes "at_state sid CORRELATING scan"
  shows "emits sid (store_findings out scan fs) [''validating'', ''reporting''] (\<lambda>(s, _). at_state sid REPORTING s)"
  unfolding store_findings_def Let_def
  by (rule emits_cons_bind [OF emits_move [OF assms, where dst = VALIDATING], simplified]
    emits_cons_bind [OF emits_move [where dst = REPORTING], simplified]
    emits_silent_bind [OF emits_uow [OF upsert_findings_audit]] emits_return | assumption | simp)+

lemma emits_analyse:
  assumes "at_state sid RUNNING scan"
  shows "emits sid (analyse out orch scan target obs) [''correlating'', ''validating'', ''reporting'']
    (\<lambda>(s, _, _). at_state sid REPORTING s)"
proof -
  have "emits sid (if obs = [] then act_return () else act_uow (\<lambda>db. Inr (observations_add_many obs db))) [] (\<lambda>_. True)"
    by (intro emits_if emits_return emits_uow) (auto simp: observations_add_many_def)
  then have "emits sid (analyse out orch scan target obs) (''correlating'' # ([''validating'', ''reporting''] @ []))
      (\<lambda>(s, _, _). at_state sid REPORTING s)"
    unfolding analyse_def
    by (elim emits_silent_bind, intro emits_cons_bind [OF emits_move [OF assms, where dst = CORRELATING], simplified])
      (rule emits_silent_bind [OF emits_collect_findings], clarify,
       rule emits_bind [OF emits_store_findings], assumption, clarify, rule emits_return, simp)
  then show ?thesis by simp
qed

definition queue_trail :: "ScanState \<Rightarrow> string list" where
  "queue_trail st = (if st = QUEUED then [] else [''queued''])"

lemma emits_queue:
  assumes "s_id scan = sid"
  shows "emits sid (set_state out scan QUEUED None) (queue_trail (s_state scan)) (at_state sid QUEUED)"
proof (cases "s_state scan = QUEUED")
  case True
  with assms show ?thesis
    by (simp add: set_state_same queue_trail_def emits_return at_state_def)
next
  case False
  with emits_move [of sid "s_state scan" scan QUEUED out None] assms show ?thesis
    by (simp add: queue_trail_def at_state_def)
qed

lemma emits_make_plan:
  assumes "s_id scan = sid"
  shows "emits sid (make_plan out orch scan target) (queue_trail (s_state scan) @ [''planning''])
    (\<lambda>(s, _). at_state sid PLANNING s)"
  unfolding make_plan_def
  by (rule emits_bind [OF emits_queue [OF assms]])
    (rule emits_cons_bind [OF emits_move [where dst = PLANNING], simplified]
      emits_silent_bind [OF emits_quiet(4)] emits_silent_bind [OF emits_quiet(3)] emits_return
      | assumption | simp)+

lemma emits_execute_plan:
  assumes "at_state sid PLANNING scan"
  shows "emits sid (execute_plan out orch scan target plan) [''running''] (\<lambda>(s, _). at_state sid RUNNING s)"
  unfolding execute_plan_def
  by (rule emits_cons_bind [OF emits_move [OF assms, where dst = RUNNING], simplified]
      emits_silent_bind [OF emits_quiet(4)] emits_silent_bind [OF emits_quiet(3)]
      emits_silent_bind [OF emits_quiet(1)] emits_return | assumption | simp)+

lemma emits_run_engines:
  assumes "s_id scan = sid"
  shows "emits sid (run_engines out orch scan target) (queue_trail (s_state scan) @ [''planning'', ''running''])
    (\<lambda>(s, _, _). at_state sid RUNNING s)"
proof -
  have "emits sid (run_engines out orch scan target) ((queue_trail (s_state scan) @ [''planning'']) @ ([''running''] @ []))
      (\<lambda>(s, _, _). at_state sid RUNNING s)"
    unfolding run_engines_def
    by (rule emits_bind [OF emits_make_plan [OF assms]], clarify, rule emits_bind [OF emits_execute_plan],
        assumption, clarify, rule emits_return) simp
  then show ?thesis by simp
qed

definition completed_trail :: "ScanState \<Rightarrow> string list" where
  "completed_trail st = queue_trail st @
     [''planning'', ''running'', ''correlating'', ''validating'', ''reporting'', ''completed'']"

lemma emits_finish:
  assumes "at_state sid REPORTING scan"
  shows "emits sid (finish out orch plan st scan n fs) [''completed''] (\<lambda>rep. at_state sid COMPLETED (rp_scan rep))"
  unfolding finish_def Let_def
  by (rule emits_silent_bind [OF emits_quiet(1)],
      rule emits_cons_bind [OF emits_move [OF assms, where dst = COMPLETED], simplified],
      rule emits_return) simp

lemma emits_run_authorized:
  assumes "s_id scan = sid"
  shows "emits sid (run_authorized out orch scan target) (completed_trail (s_state scan))
    (\<lambda>rep. at_state sid COMPLETED (rp_scan rep))"
proof -
  have "emits sid (run_authorized out orch scan target)
      ((queue_trail (s_state scan) @ [''planning'', ''running'']) @
       ([''correlating'', ''validating'', ''reporting''] @ [''completed'']))
      (\<lambda>rep. at_state sid COMPLETED (rp_scan rep))"
    unfolding run_authorized_def
    by (rule emits_bind [OF emits_run_engines [OF assms]], clarify)
      (rule emits_bind [OF emits_analyse], assumption, clarify, rule emits_finish)
  then show ?thesis by (simp add: completed_trail_def)
qed

lemma emits_run_refused:
  assumes "s_id scan = sid"
  shows "emits sid (run_refused out scan) (queue_trail (s_state scan) @ [''planning'', ''failed''])
    (\<lambda>rep. at_state sid FAILED (rp_scan rep) \<and> rp_findings rep = [] \<and> rp_engines_run rep = [])"
  unfolding run_refused_def
  by (rule emits_bind [OF emits_queue [OF assms]])
    (rule emits_cons_bind [OF emits_move [where dst = PLANNING], simplified]
      emits_cons_bind [OF emits_move [where dst = FAILED], simplified] emits_return | assumption | simp)+

subsection \<open>What a run that raises has recorded\<close>

text \<open>
  An action that moves the scan through all of the given states exactly if it does not raise.
\<close>

definition emits_all :: "string \<Rightarrow> 'a act \<Rightarrow> string list \<Rightarrow> ('a \<Rightarrow> bool) \<Rightarrow> bool" where
  "emits_all sid m ts Q \<longleftrightarrow> emits sid m ts Q \<and>
     (\<forall>w e w'. m w = (Inl e, w') \<longrightarrow> trail sid w' \<noteq> trail sid w @ ts)"

lemma emits_all_bind:
  assumes "emits sid m ts P" "\<And>x. P x \<Longrightarrow> emits_all sid (f x) us Q" "us \<noteq> []"
  shows "emits_all sid (act_bind m f) (ts @ us) Q"
  unfolding emits_all_def
proof (intro conjI allI impI)
  show "emits sid (act_bind m f) (ts @ us) Q"
    using assms(2) by (intro emits_bind [OF assms(1)]) (simp add: emits_all_def)
next
  fix w e w'
  assume run: "act_bind m f w = (Inl e, w')"
  obtain r1 w1 where m: "m w = (r1, w1)" by fastforce
  from assms(1) [unfolded emits_def, rule_format, OF m]
  obtain as bs where 1: "ts = as @ bs" "trail sid w1 = trail sid w @ as" "\<forall>x. r1 = Inr x \<longrightarrow> bs = [] \<and> P x" by blast
  show "trail sid w' \<noteq> trail sid w @ ts @ us"
  proof (cases r1)
    case (Inl e')
    with run m have "w' = w1" by (simp add: act_bind_def)
    with 1 assms(3) show ?thesis by (auto dest: arg_cong [where f = length])
  next
    case (Inr x)
    with run m have "f x w1 = (Inl e, w')" by (simp add: act_bind_def)
    moreover have "emits_all sid (f x) us Q" using 1(3) Inr by (intro assms(2)) simp
    ultimately have "trail sid w' \<noteq> trail sid w1 @ us" by (auto simp: emits_all_def)
    with 1 Inr show ?thesis by simp
  qed
qed

lemma emits_all_then:
  assumes "emits_all sid m ts P" "\<And>x. P x \<Longrightarrow> Q (g x)"
  shows "emits_all sid (act_bind m (\<lambda>x. act_return (g x))) ts Q"
proof -
  have "emits sid (act_bind m (\<lambda>x. act_return (g x))) (ts @ []) Q"
    using assms by (intro emits_bind [where P = P] emits_return) (simp_all add: emits_all_def)
  moreover have "m w = (Inl e, w')" if "act_bind m (\<lambda>x. act_return (g x)) w = (Inl e, w')" for w e w'
    using that by (auto simp: act_bind_def act_return_def split: prod.splits sum.splits)
  ultimately show ?thesis using assms(1) by (auto simp: emits_all_def)
qed

lemma emits_all_move:
  assumes "at_state sid st scan" "st \<noteq> dst"
  shows "emits_all sid (set_state out scan dst reason) [scan_state_value dst] (at_state sid dst)"
proof -
  have "w_db w' = w_db w" if "set_state out scan dst reason w = (Inl e, w')" for w e w'
    using that by (auto simp: set_state_def act_return_def act_res_def act_bind_def utcnow_def act_uow_def
        elim!: unit_of_work_cases split: if_splits prod.splits sum.splits)
  then show ?thesis
    using emits_move [OF assms] by (auto simp: emits_all_def trail_def)
qed

lemma emits_all_finish:
  assumes "at_state sid REPORTING scan"
  shows "emits_all sid (finish out orch plan st scan n fs) [''completed''] (\<lambda>rep. at_state sid COMPLETED (rp_scan rep))"
proof -
  have "emits_all sid (finish out orch plan st scan n fs) ([] @ [''completed''])
      (\<lambda>rep. at_state sid COMPLETED (rp_scan rep))"
    unfolding finish_def Let_def
    by (rule emits_all_bind [OF emits_quiet(1)],
        rule emits_all_then [OF emits_all_move [OF assms, where dst = COMPLETED], simplified]) simp_all
  then show ?thesis by simp
qed

lemma emits_all_run_authorized:
  assumes "s_id scan = sid"
  shows "emits_all sid (run_authorized out orch scan target) (completed_trail (s_state scan))
    (\<lambda>rep. at_state sid COMPLETED (rp_scan rep))"
proof -
  have "emits_all sid (run_authorized out orch scan target)
      ((queue_trail (s_state scan) @ [''planning'', ''running'']) @
       ([''correlating'', ''validating'', ''reporting''] @ [''completed'']))
      (\<lambda>rep. at_state sid COMPLETED (rp_scan rep))"
    unfolding run_authorized_def
    by (rule emits_all_bind [OF emits_run_engines [OF assms]], clarify)
      (rule emits_all_bind [OF emits_analyse], assumption, clarify, rule emits_all_finish, simp_all)
  then show ?thesis by (simp add: completed_trail_def)
qed

definition refused_trail :: "ScanState \<Rightarrow> string list" where
  "refused_trail st = queue_trail st @ [''planning'', ''failed'']"

lemma emits_all_run_refused:
  assumes "s_id scan = sid"
  shows "emits_all sid (run_refused out scan) (refused_trail (s_state scan)) (\<lambda>rep. at_state sid FAILED (rp_scan rep))"
proof -
  have "emits_all sid (run_refused out scan) (queue_trail (s_state scan) @ [''planning''] @ [''failed''])
      (\<lambda>rep. at_state sid FAILED (rp_scan rep))"
    unfolding run_refused_def
    by (rule emits_all_bind [OF emits_queue [OF assms]],
        rule emits_all_bind [OF emits_move [where dst = PLANNING, unfolded scan_state_value.simps]], assumption, simp,
        rule emits_all_then [OF emits_all_move [where dst = FAILED, unfolded scan_state_value.simps]], assumption)
      simp_all
  then show ?thesis by (simp add: refused_trail_def)
qed

end
