(* ===== verification/Orchestrator_Laws.thy ===== *)
theory Orchestrator_Laws
  imports Orchestrator
begin

text \<open>
  What a run of the orchestrator guarantees: the states it goes through, what it stores, which engines it
  runs and on which URLs, and what a failing engine can do to it.
\<close>

subsection \<open>The life cycle\<close>

text \<open>The states reachable by legal transitions.\<close>

inductive scan_reaches :: "ScanState \<Rightarrow> ScanState \<Rightarrow> bool" where
  here: "scan_reaches st st"
| move: "scan_reaches src mid \<Longrightarrow> can_transition mid dst \<Longrightarrow> scan_reaches src dst"

inductive_cases scan_reachesE: "scan_reaches src dst"

lemma no_transition_from_terminal: "src \<in> set TERMINAL_STATES \<Longrightarrow> \<not> can_transition src dst"
  by (auto simp: can_transition_def TERMINAL_STATES_def)

lemma reaches_from_terminal: "scan_reaches src dst \<Longrightarrow> src \<in> set TERMINAL_STATES \<Longrightarrow> dst = src"
  by (induction rule: scan_reaches.induct) (auto dest: no_transition_from_terminal)

lemma reaches_trans: "scan_reaches b c \<Longrightarrow> scan_reaches a b \<Longrightarrow> scan_reaches a c"
  by (induction rule: scan_reaches.induct) (auto intro: scan_reaches.intros)

lemma reaches_step: "can_transition a b \<Longrightarrow> scan_reaches b c \<Longrightarrow> scan_reaches a c"
  by (blast intro: reaches_trans scan_reaches.intros)

text \<open>
  a finished scan is never restarted, and every scan that is not finished can still end: from each
  state some terminal state is reachable by legal transitions.
\<close>

theorem terminal_states_final:
  "(src \<in> set TERMINAL_STATES \<longleftrightarrow> (\<nexists>dst. can_transition src dst)) \<and>
   (\<exists>dst \<in> set TERMINAL_STATES. scan_reaches src dst) \<and>
   (scan_reaches COMPLETED dst \<longleftrightarrow> dst = COMPLETED)"
proof (intro conjI)
  show "src \<in> set TERMINAL_STATES \<longleftrightarrow> (\<nexists>dst. can_transition src dst)"
    by (cases src) (auto simp: TERMINAL_STATES_def can_transition_def)
  have cancel: "scan_reaches CANCELLING CANCELLED"
    by (rule reaches_step [OF _ here]) (simp add: can_transition_def)
  have "src \<in> {COMPLETED, FAILED, CANCELLED} \<or> can_transition src CANCELLED \<or> can_transition src FAILED \<or>
      can_transition src CANCELLING"
    by (cases src) (simp_all add: can_transition_def)
  then show "\<exists>dst \<in> set TERMINAL_STATES. scan_reaches src dst"
    using cancel by (auto simp: TERMINAL_STATES_def intro: here reaches_step)
  show "scan_reaches COMPLETED dst \<longleftrightarrow> dst = COMPLETED"
    using reaches_from_terminal [of COMPLETED dst] by (auto simp: TERMINAL_STATES_def intro: here)
qed

lemma run_emits:
  assumes "run out orch scan target w = (r, w')"
  obtains us vs where
    "(if is_authorized (out_clock out (w_tick w)) target then completed_trail (s_state scan)
      else refused_trail (s_state scan)) = us @ vs"
    "trail (s_id scan) w' = trail (s_id scan) w @ us" "vs = [] \<longleftrightarrow> (\<exists>rep. r = Inr rep)"
    "\<And>rep. r = Inr rep \<Longrightarrow> at_state (s_id scan)
       (if is_authorized (out_clock out (w_tick w)) target then COMPLETED else FAILED) (rp_scan rep)"
proof -
  define ok where "ok = is_authorized (out_clock out (w_tick w)) target"
  define ts where "ts = (if ok then completed_trail (s_state scan) else refused_trail (s_state scan))"
  let ?m = "if ok then run_authorized out orch scan target else run_refused out scan"
  let ?w = "w\<lparr>w_tick := Suc (w_tick w)\<rparr>"
  have run: "?m ?w = (r, w')" using assms by (simp add: run_def act_bind_def utcnow_def ok_def split: if_splits)
  have all: "emits_all (s_id scan) ?m ts (\<lambda>rep. at_state (s_id scan) (if ok then COMPLETED else FAILED) (rp_scan rep))"
    unfolding ts_def by (simp add: emits_all_run_authorized emits_all_run_refused)
  then obtain us vs where e: "ts = us @ vs" "trail (s_id scan) w' = trail (s_id scan) ?w @ us"
    "\<forall>rep. r = Inr rep \<longrightarrow> vs = [] \<and> at_state (s_id scan) (if ok then COMPLETED else FAILED) (rp_scan rep)"
    using run unfolding emits_all_def emits_def by blast
  moreover have "trail (s_id scan) ?w = trail (s_id scan) w" by (simp add: trail_def)
  moreover have "vs \<noteq> []" if "r = Inl x" for x
    using all run e(1,2) that unfolding emits_all_def by auto
  then have "vs = [] \<longleftrightarrow> (\<exists>rep. r = Inr rep)" using e(3) by (cases r) auto
  ultimately show thesis using that unfolding ts_def ok_def by presburger
qed

lemma run_not_startable:
  assumes "run out orch scan target w = (r, w')" and "s_state scan \<notin> {CREATED, QUEUED}"
  shows "w_db w' = w_db w \<and> (\<exists>m. r = Inl (IllegalTransition m))"
proof -
  have "\<not> can_transition (s_state scan) QUEUED" "s_state scan \<noteq> QUEUED"
    using assms(2) by (cases "s_state scan"; simp add: can_transition_def)+
  with assms(1) show ?thesis
    by (auto simp: run_def utcnow_def run_refused_def run_authorized_def run_engines_def make_plan_def
        set_state_def act_bind_def act_res_def split: if_splits)
qed

text \<open>
  C1: whatever happens in a run, the audit records written for its scan are a prefix of the life cycle, which is
  that of a completed scan when the target is authorized at the time the run reads the clock and queued,
  planning, failed when it is not.  The prefix is all of it exactly if the run returns a report, and then
  the scan is left completed or failed.  A run that raises has recorded a proper part of its life cycle only.  A
  scan that is neither new nor queued is refused with \<open>IllegalTransition\<close> before anything is written.
\<close>

theorem run_lifecycle:
  assumes "run out orch scan target w = (r, w')"
  shows "\<exists>us vs. (if is_authorized (out_clock out (w_tick w)) target then completed_trail (s_state scan)
        else refused_trail (s_state scan)) = us @ vs \<and>
      trail (s_id scan) w' = trail (s_id scan) w @ us \<and>
      (vs = [] \<longleftrightarrow> (\<exists>rep. r = Inr rep)) \<and>
      (\<forall>rep. r = Inr rep \<longrightarrow> s_id (rp_scan rep) = s_id scan \<and> s_state (rp_scan rep) =
         (if is_authorized (out_clock out (w_tick w)) target then COMPLETED else FAILED)) \<and>
      (s_state scan \<notin> {CREATED, QUEUED} \<longrightarrow> w_db w' = w_db w \<and> (\<exists>m. r = Inl (IllegalTransition m)))"
proof (rule run_emits [OF assms])
  fix us vs
  assume "(if is_authorized (out_clock out (w_tick w)) target then completed_trail (s_state scan)
      else refused_trail (s_state scan)) = us @ vs" "trail (s_id scan) w' = trail (s_id scan) w @ us"
    "vs = [] \<longleftrightarrow> (\<exists>rep. r = Inr rep)"
    "\<And>rep. r = Inr rep \<Longrightarrow> at_state (s_id scan)
       (if is_authorized (out_clock out (w_tick w)) target then COMPLETED else FAILED) (rp_scan rep)"
  with run_not_startable [OF assms] show ?thesis
    by (intro exI [of _ us] exI [of _ vs]) (simp add: at_state_def)
qed

text \<open>
  C31: without a valid authorization no engine runs: the scan ends as failed, with an empty report, the
  observation and finding tables are untouched, and only the states queued, planning and failed are
  recorded.
\<close>

theorem unauthorized_runs_nothing:
  assumes "\<not> is_authorized (out_clock out (w_tick w)) target" and "run out orch scan target w = (Inr rep, w')"
  shows "s_state (rp_scan rep) = FAILED \<and> rp_findings rep = [] \<and> rp_engines_run rep = [] \<and>
    trail (s_id scan) w' = trail (s_id scan) w @ queue_trail (s_state scan) @ [''planning'', ''failed''] \<and>
    db_observations (w_db w') = db_observations (w_db w) \<and> db_findings (w_db w') = db_findings (w_db w)"
proof -
  let ?w = "w\<lparr>w_tick := Suc (w_tick w)\<rparr>"
  have run: "run_refused out scan ?w = (Inr rep, w')"
    using assms by (simp add: run_def act_bind_def utcnow_def)
  from emits_run_refused [OF refl, unfolded emits_def, rule_format, OF this]
  have "s_state (rp_scan rep) = FAILED \<and> rp_findings rep = [] \<and> rp_engines_run rep = [] \<and>
      trail (s_id scan) w' = trail (s_id scan) w @ queue_trail (s_state scan) @ [''planning'', ''failed'']"
    by (auto simp: at_state_def trail_def)
  moreover have keep: "db_observations (w_db v') = db_observations (w_db v) \<and> db_findings (w_db v') = db_findings (w_db v)"
    if "set_state out s dst reason v = (r, v')" for s dst reason v r v'
    using that by (auto simp: set_state_def act_return_def act_res_def act_bind_def utcnow_def act_uow_def
        unit_of_work_def store_state_def audit_record_def scan_upsert_def split: if_splits)
  moreover from run obtain s1 w1 s2 w2 s3 where steps: "set_state out scan QUEUED None ?w = (Inr s1, w1)"
    "set_state out s1 PLANNING None w1 = (Inr s2, w2)"
    "set_state out s2 FAILED (Some ''target not authorized'') w2 = (Inr s3, w')"
    by (auto simp: run_refused_def act_bind_Inr_iff act_return_def)
  ultimately show ?thesis
    using keep [OF steps(1)] keep [OF steps(2)] keep [OF steps(3)] by simp
qed

subsection \<open>Discovered URLs\<close>

lemma collect_evidence_spec:
  "collect_evidence re_search scope cap into evs = Inr into' \<Longrightarrow>
     \<exists>new. into' = into @ new \<and> distinct new \<and> set new \<inter> set into = {} \<and>
       (\<forall>u \<in> set new. scope_allows re_search scope u None = Inr True) \<and>
       length into' \<le> max cap (Suc (length into))"
proof (induction evs arbitrary: into)
  case (Cons ev evs)
  show ?case
  proof (cases "\<exists>u. pget (ev_data ev) ''url'' PNone = PStr u \<and> u \<notin> set into \<and>
      scope_allows re_search scope u None = Inr True")
    case False
    have "collect_evidence re_search scope cap into evs = Inr into'"
      using Cons.prems False by (auto simp: bind_res_Inr_iff split: pyval.splits if_splits)
    from Cons.IH [OF this] show ?thesis .
  next
    case True
    then obtain u where u: "pget (ev_data ev) ''url'' PNone = PStr u" "u \<notin> set into"
      "scope_allows re_search scope u None = Inr True" by blast
    show ?thesis
    proof (cases "length (into @ [u]) \<ge> cap")
      case True
      with Cons.prems u have "into' = into @ [u]" by simp
      with u show ?thesis by (intro exI [of _ "[u]"]) auto
    next
      case False
      with Cons.prems u have "collect_evidence re_search scope cap (into @ [u]) evs = Inr into'" by simp
      from Cons.IH [OF this] obtain new where "into' = (into @ [u]) @ new" "distinct new"
        "set new \<inter> set (into @ [u]) = {}" "\<forall>v \<in> set new. scope_allows re_search scope v None = Inr True"
        "length into' \<le> max cap (Suc (length (into @ [u])))" by blast
      with u False show ?thesis by (intro exI [of _ "u # new"]) auto
    qed
  qed
qed simp

lemma merge_seeds_spec:
  "\<exists>new. merge_seeds_loop cap out urls = out @ new \<and> distinct new \<and> set new \<inter> set out = {} \<and>
     set new \<subseteq> set urls \<and> length (out @ new) \<le> max cap (Suc (length out))"
proof (induction urls arbitrary: out)
  case (Cons u urls)
  let ?out = "if u \<in> set out then out else out @ [u]"
  show ?case
  proof (cases "length ?out \<ge> cap")
    case True
    then have "merge_seeds_loop cap out (u # urls) = ?out" by (simp add: Let_def)
    then show ?thesis by (intro exI [of _ "if u \<in> set out then [] else [u]"]) auto
  next
    case False
    from Cons.IH [of ?out] obtain new where "merge_seeds_loop cap ?out urls = ?out @ new" "distinct new"
      "set new \<inter> set ?out = {}" "set new \<subseteq> set urls" "length (?out @ new) \<le> max cap (Suc (length ?out))"
      by blast
    with False show ?thesis
      by (intro exI [of _ "(if u \<in> set out then [] else [u]) @ new"]) (auto simp: Let_def split: if_splits)
  qed
qed simp

lemma run_task_cases:
  assumes "run_task re_search run_ids adapter_of scan target scope stage task st = Inr st'"
  obtains (unbound) "adapter_of (pt_engine_id task) = None"
      "st' = st\<lparr>ru_engines_failed := ru_engines_failed st @ [pt_engine_id task]\<rparr>"
  | (ran) adapter obs kb discovered where "adapter_of (pt_engine_id task) = Some adapter"
      "run_engine (run_ids (ru_runs st)) scan target adapter (pt_capabilities task) (task_seeds stage task st)
         (ru_kb st) = Inr (obs, kb)"
      "collect_discovered re_search obs scope (ru_discovered st) MAX_DISCOVERED = Inr discovered"
      "st' = st\<lparr>ru_kb := kb, ru_obs := ru_obs st @ obs, ru_engines_run := ru_engines_run st @ [pt_engine_id task],
               ru_discovered := discovered, ru_runs := Suc (ru_runs st)\<rparr>"
  using assms unfolding run_task_def
  by (cases "adapter_of (pt_engine_id task)") (auto simp: bind_res_Inr_iff)

lemma run_tasks_invariant:
  assumes "run_tasks re_search run_ids adapter_of scan target scope tasks st = Inr st'" "I st"
    and "\<And>stage task st st'. (stage, task) \<in> set tasks \<Longrightarrow> I st \<Longrightarrow>
      run_task re_search run_ids adapter_of scan target scope stage task st = Inr st' \<Longrightarrow> I st'"
  shows "I st'"
  using assms
proof (induction tasks arbitrary: st)
  case (Cons x tasks)
  obtain stage task where x: "x = (stage, task)" by fastforce
  from Cons.prems(1) x obtain st1 where
    1: "run_task re_search run_ids adapter_of scan target scope stage task st = Inr st1"
       "run_tasks re_search run_ids adapter_of scan target scope tasks st1 = Inr st'"
    by (auto simp: bind_res_Inr_iff)
  have "I st1" using Cons.prems(3) [OF _ Cons.prems(2) 1(1)] x by simp
  from Cons.IH [OF 1(2) this] Cons.prems(3) show ?case by (meson list.set_intros(2))
qed simp

definition discovered_ok :: "regex_search \<Rightarrow> ScopeEngine \<Rightarrow> RunState \<Rightarrow> bool" where
  "discovered_ok re_search scope st \<longleftrightarrow>
     distinct (ru_discovered st) \<and> length (ru_discovered st) \<le> MAX_DISCOVERED + ru_runs st \<and>
     (\<forall>u \<in> set (ru_discovered st). scope_allows re_search scope u None = Inr True)"

lemma discovered_ok_task:
  assumes "discovered_ok re_search scope st"
    and "run_task re_search run_ids adapter_of scan target scope stage task st = Inr st'"
  shows "discovered_ok re_search scope st'"
  using assms(2)
proof (cases rule: run_task_cases)
  case unbound
  with assms(1) show ?thesis by (simp add: discovered_ok_def)
next
  case (ran adapter obs kb discovered)
  from collect_evidence_spec [OF ran(3) [unfolded collect_discovered_def]] obtain new where
    "discovered = ru_discovered st @ new" "distinct new" "set new \<inter> set (ru_discovered st) = {}"
    "\<forall>u \<in> set new. scope_allows re_search scope u None = Inr True"
    "length discovered \<le> max MAX_DISCOVERED (Suc (length (ru_discovered st)))" by blast
  with assms(1) ran(4) show ?thesis by (auto simp: discovered_ok_def)
qed

text \<open>
  C4: an engine only gets URLs its task was planned with, and in an audit stage also URLs that earlier
  engines reported and that the scope of the target allows.  The lists stay small: at most 40 seeds (or
  one more than the planned ones), no repetition, and at most 60 discovered URLs plus one per engine run.
\<close>

theorem fed_urls_in_scope:
  assumes "run_tasks re_search run_ids adapter_of scan target scope done run_state0 = Inr st"
    and "u \<in> set (task_seeds stage task st)" and "u \<notin> set (pt_seed_urls task)"
  shows "stage = STAGE_AUDIT \<and> scope_allows re_search scope u None = Inr True \<and>
    length (task_seeds stage task st) \<le> max MAX_FED_SEEDS (Suc (length (pt_seed_urls task))) \<and>
    (distinct (pt_seed_urls task) \<longrightarrow> distinct (task_seeds stage task st)) \<and>
    length (ru_discovered st) \<le> MAX_DISCOVERED + ru_runs st"
proof -
  have start: "discovered_ok re_search scope run_state0" by (simp add: discovered_ok_def run_state0_def)
  have "discovered_ok re_search scope st"
    by (rule run_tasks_invariant [where I = "discovered_ok re_search scope", OF assms(1) start]) (rule discovered_ok_task)
  moreover obtain new where "merge_seeds (pt_seed_urls task) (ru_discovered st) MAX_FED_SEEDS = pt_seed_urls task @ new"
    "distinct new" "set new \<inter> set (pt_seed_urls task) = {}" "set new \<subseteq> set (ru_discovered st)"
    "length (pt_seed_urls task @ new) \<le> max MAX_FED_SEEDS (Suc (length (pt_seed_urls task)))"
    unfolding merge_seeds_def using merge_seeds_spec by blast
  ultimately show ?thesis using assms(2,3)
    by (auto simp: task_seeds_def discovered_ok_def split: if_splits)
qed

text \<open>
  the caps of the feedback loop are tested after appending, so a list that is already full still grows by
  one: a 61st discovered URL is taken, and a task with 40 seeds is given a 41st.
\<close>

theorem caps_exceeded_by_one:
  assumes "scope_allows re_search scope u None = Inr True" and "u \<notin> set into" and "length into = MAX_DISCOVERED"
    and "pget (ev_data ev) ''url'' PNone = PStr u" and "obs_evidence ob = [ev]"
    and "length seeds = MAX_FED_SEEDS" and "u \<notin> set seeds"
  shows "collect_discovered re_search [ob] scope into MAX_DISCOVERED = Inr (into @ [u]) \<and>
    merge_seeds seeds [u] MAX_FED_SEEDS = seeds @ [u]"
  using assms by (simp add: collect_discovered_def merge_seeds_def)

subsection \<open>Engines\<close>

lemma run_engine_cases:
  assumes "run_engine rid scan target adapter caps seeds kb = Inr (obs, kb')"
  obtains (nothing) "obs = []" "kb' = kb"
  | (observed) request where "run_request rid scan target (ad_metadata adapter) caps seeds = Inr request"
      "engine_calls adapter request = Inr (Some obs)" "kb' = mark_observations obs kb"
proof -
  from assms have "\<exists>request. run_request rid scan target (ad_metadata adapter) caps seeds = Inr request"
    by (cases "run_request rid scan target (ad_metadata adapter) caps seeds") (simp_all add: run_engine_def)
  then obtain request where q: "run_request rid scan target (ad_metadata adapter) caps seeds = Inr request" ..
  show thesis
  proof (cases "engine_calls adapter request")
    case (Inl e)
    with assms q have "obs = []" "kb' = kb" by (simp_all add: run_engine_def)
    then show thesis by (rule nothing)
  next
    case (Inr os)
    show thesis
    proof (cases os)
      case None
      with Inr assms q have "obs = []" "kb' = kb" by (simp_all add: run_engine_def)
      then show thesis by (rule nothing)
    next
      case (Some xs)
      with Inr assms q have "engine_calls adapter request = Inr (Some obs)" "kb' = mark_observations obs kb"
        by (auto simp: run_engine_def)
      with q show thesis by (rule observed)
    qed
  qed
qed

text \<open>
  C32: a failing engine is isolated.  When a call of an engine raises, or the engine reports itself
  unavailable, the run goes on with nothing changed but that the engine counts as run; the request itself
  is the only thing that can raise.
\<close>

theorem engine_failure_isolated:
  assumes "adapter_of (pt_engine_id task) = Some adapter"
    and "run_request (run_ids (ru_runs st)) scan target (ad_metadata adapter) (pt_capabilities task)
           (task_seeds stage task st) = Inr request"
    and "\<forall>obs. engine_calls adapter request \<noteq> Inr (Some obs)"
  shows "run_task re_search run_ids adapter_of scan target scope stage task st =
    Inr (st\<lparr>ru_engines_run := ru_engines_run st @ [pt_engine_id task], ru_runs := Suc (ru_runs st)\<rparr>)"
proof -
  have "run_engine (run_ids (ru_runs st)) scan target adapter (pt_capabilities task) (task_seeds stage task st)
      (ru_kb st) = Inr ([], ru_kb st)"
    using assms(2,3) unfolding run_engine_def
    by (cases "engine_calls adapter request") (auto split: option.split)
  then show ?thesis using assms(1) by (simp add: run_task_def collect_discovered_def)
qed

lemma seen_mark_observations:
  "seen k c (mark_observations obs kb) \<longleftrightarrow>
     seen k c kb \<or> (\<exists>ob \<in> set obs. observation_key ob = k \<and> obs_vuln_class ob = c)"
  unfolding mark_observations_def
  by (induction obs arbitrary: kb) (auto simp: kb.tested_note)

text \<open>
  after the engine runs the knowledge base holds the coverage of the observations collected, no more and no
  less.
\<close>

theorem coverage_of_observations:
  assumes "run_tasks re_search run_ids adapter_of scan target scope tasks run_state0 = Inr st"
  shows "seen k c (ru_kb st) \<longleftrightarrow> (\<exists>ob \<in> set (ru_obs st). observation_key ob = k \<and> obs_vuln_class ob = c)"
proof -
  let ?I = "\<lambda>st. seen k c (ru_kb st) \<longleftrightarrow> (\<exists>ob \<in> set (ru_obs st). observation_key ob = k \<and> obs_vuln_class ob = c)"
  have start: "?I run_state0" using kb.tested_empty by (simp add: run_state0_def)
  have "?I st'" if I: "?I st" and
    t: "run_task re_search run_ids adapter_of scan target scope stage task st = Inr st'" for stage task st st'
    using t
  proof (cases rule: run_task_cases)
    case unbound
    with I show ?thesis by simp
  next
    case (ran adapter obs kb discovered)
    from ran(2) show ?thesis
      by (cases rule: run_engine_cases) (use I ran(4) in \<open>auto simp: seen_mark_observations\<close>)
  qed
  then show ?thesis by (rule run_tasks_invariant [where I = ?I, OF assms start])
qed

lemma staged_task_iff:
  "(stage, task) \<in> set (staged_tasks plan) \<longleftrightarrow>
     (\<exists>s \<in> set (plan_stages plan). ps_kind s = stage \<and> task \<in> set (ps_tasks s))"
  by (auto simp: staged_tasks_def)

lemma plan_runs_bound:
  assumes "registry_reachable pol (or_registry orch)"
    and "(stage, task) \<in> set (staged_tasks ((plan_scan ids now cfg (engines_for (or_registry orch)) target policy seeds)
           \<lparr>plan_scan_id := i\<rparr>))"
  shows "adapter_for (or_registry orch) (pt_engine_id task) \<noteq> None \<and>
    pt_engine_id task \<notin> set (sp_disabled_engines policy)"
proof -
  from assms(2) obtain s where s: "s \<in> set (plan_stages (plan_scan ids now cfg (engines_for (or_registry orch))
      target policy seeds))" "task \<in> set (ps_tasks s)" by (auto simp: staged_task_iff)
  have "pt_capabilities task \<noteq> []"
    using plan_stage_memD(1) [OF s(1)] s(2) by (simp add: stage_ok_def)
  then obtain c where "c \<in> set (pt_capabilities task)" by (cases "pt_capabilities task") auto
  from planned_task_runnable [OF assms(1) s this] show ?thesis by blast
qed

lemma moved_scan_keeps:
  "s_id (moved_scan now scan dst reason) = s_id scan" "s_policy (moved_scan now scan dst reason) = s_policy scan"
  by (simp_all add: moved_scan_def Let_def)

lemma set_state_result:
  assumes "set_state out s dst reason v = (Inr t, v')"
  obtains (same) "t = s" "v' = v" "s_state s = dst"
  | (moved) now audit_now where "t = moved_scan now s dst reason"
      "unit_of_work (store_state audit_now t reason) (w_db v) = (Inr (), w_db v')"
proof (cases "s_state s = dst")
  case True
  with assms show thesis by (intro same) (simp_all add: set_state_def act_return_def)
next
  case False
  with assms have "can_transition (s_state s) dst"
    by (cases "can_transition (s_state s) dst") (simp_all add: set_state_def act_res_def)
  define now where "now = out_clock out (w_tick v)"
  define audit_now where "audit_now = out_clock out (Suc (w_tick v))"
  obtain r db where u: "unit_of_work (store_state audit_now (moved_scan now s dst reason) reason) (w_db v) = (r, db)"
    by fastforce
  have "set_state out s dst reason v =
      (case r of Inl e \<Rightarrow> Inl e | Inr _ \<Rightarrow> Inr (moved_scan now s dst reason), v\<lparr>w_tick := Suc (Suc (w_tick v)), w_db := db\<rparr>)"
    using False \<open>can_transition (s_state s) dst\<close> u
    by (simp add: set_state_def act_bind_def utcnow_def act_uow_def act_return_def now_def audit_now_def split: sum.split)
  with assms u show thesis by (cases r) (auto intro: moved)
qed

lemma set_state_keeps:
  assumes "set_state out s dst reason v = (Inr t, v')"
  shows "s_id t = s_id s \<and> s_policy t = s_policy s"
  using assms by (cases rule: set_state_result) (simp_all add: moved_scan_keeps)

lemma finish_result:
  assumes "finish out orch plan st s2 n findings w2 = (Inr rep, w')"
  obtains ai s3 where
    "set_state out s2 COMPLETED (Some (str_of_nat (length (rp_findings rep)) @ '' findings'')) w2 = (Inr s3, w')"
    "rp_findings rep = (if as_enabled ai then prioritized_order findings ai else findings)"
    "rp_scan rep = s3" "rp_engines_run rep = ru_engines_run st" "rp_engines_failed rep = ru_engines_failed st"
    "rp_proofs rep = Some (build_proofs (out_sha out) (out_mac out) (out_environ_key out) (rp_findings rep)
       (or_evidence_key orch))"
proof -
  from assms obtain ai where
    ai: "assess (out_float_repr out) (out_loads out) (or_analyst orch) findings = Inr ai"
    by (cases "assess (out_float_repr out) (out_loads out) (or_analyst orch) findings")
      (simp_all add: finish_def act_bind_def act_res_def)
  define fs where "fs = (if as_enabled ai then prioritized_order findings ai else findings)"
  define reason where "reason = Some (str_of_nat (length fs) @ '' findings'')"
  have fin: "finish out orch plan st s2 n findings w2 =
      act_bind (set_state out s2 COMPLETED reason) (\<lambda>scan. act_return
         \<lparr>rp_scan = scan, rp_findings = fs, rp_observations = n, rp_engines_run = ru_engines_run st,
          rp_engines_failed = ru_engines_failed st, rp_skipped_capabilities = plan_skipped plan,
          rp_stats = [(''coverage_entries'', PInt (int (knowledge_len (ru_kb st))))], rp_ai = Some ai,
          rp_proofs = Some (build_proofs (out_sha out) (out_mac out) (out_environ_key out) fs
            (or_evidence_key orch))\<rparr>) w2"
    unfolding fs_def reason_def by (simp add: finish_def act_bind_def [of "act_res _"] act_res_def ai Let_def)
  obtain r w3 where set: "set_state out s2 COMPLETED reason w2 = (r, w3)" by fastforce
  show thesis
  proof (cases r)
    case (Inl e)
    with assms fin set show thesis by (simp add: act_bind_def)
  next
    case (Inr s3)
    with assms fin set show thesis
      by (intro that [of s3 ai]) (auto simp: act_bind_def act_return_def fs_def [symmetric] reason_def)
  qed
qed

lemma run_report:
  assumes "run out orch scan target w = (Inr rep, w')" "is_authorized (out_clock out (w_tick w)) target"
  obtains s1 plan st w1 s2 n findings w2 ai s3 where
    "run_engines out orch scan target (w\<lparr>w_tick := Suc (w_tick w)\<rparr>) = (Inr (s1, plan, st), w1)"
    "analyse out orch s1 target (ru_obs st) w1 = (Inr (s2, n, findings), w2)"
    "set_state out s2 COMPLETED (Some (str_of_nat (length (rp_findings rep)) @ '' findings'')) w2 = (Inr s3, w')"
    "rp_findings rep = (if as_enabled ai then prioritized_order findings ai else findings)"
    "rp_scan rep = s3" "rp_engines_run rep = ru_engines_run st" "rp_engines_failed rep = ru_engines_failed st"
    "rp_proofs rep = Some (build_proofs (out_sha out) (out_mac out) (out_environ_key out) (rp_findings rep)
       (or_evidence_key orch))"
proof -
  let ?w = "w\<lparr>w_tick := Suc (w_tick w)\<rparr>"
  have "run_authorized out orch scan target ?w = (Inr rep, w')"
    using assms by (simp add: run_def act_bind_def utcnow_def)
  from act_bind_Inr_iff [THEN iffD1, OF this [unfolded run_authorized_def]] obtain x w1 where
    1: "run_engines out orch scan target ?w = (Inr x, w1)" and
    x: "(case x of (scan, plan, st) \<Rightarrow> act_bind (analyse out orch scan target (ru_obs st))
        (\<lambda>(scan, n_obs, findings). finish out orch plan st scan n_obs findings)) w1 = (Inr rep, w')"
    by (elim exE conjE) (rule that)
  obtain s1 plan st where xs: "x = (s1, plan, st)" by (cases x)
  from act_bind_Inr_iff [THEN iffD1, OF x [unfolded xs prod.case]] obtain y w2 where
    2: "analyse out orch s1 target (ru_obs st) w1 = (Inr y, w2)" and
    y: "(case y of (scan, n_obs, findings) \<Rightarrow> finish out orch plan st scan n_obs findings) w2 = (Inr rep, w')"
    by (elim exE conjE) (rule that)
  obtain s2 n findings where ys: "y = (s2, n, findings)" by (cases y)
  from y [unfolded ys prod.case] show thesis
    by (rule finish_result) (rule that [OF 1 [unfolded xs] 2 [unfolded ys]])
qed

lemma run_engines_result:
  assumes "run_engines out orch scan target w = (Inr (s1, plan, st), w1)"
  obtains ids now scope run_ids where
    "plan = (plan_scan ids now (or_planner_config orch) (engines_for (or_registry orch)) target (s_policy scan)
       (t_base_urls target))\<lparr>plan_scan_id := s_id scan\<rparr>"
    "run_tasks (out_search out) run_ids (adapter_for (or_registry orch)) s1 target scope (staged_tasks plan)
       run_state0 = Inr st"
    "s_id s1 = s_id scan"
proof -
  note keep = set_state_keeps
  from assms obtain t2 v2 where mp: "make_plan out orch scan target w = (Inr (t2, plan), v2)"
    and ep: "execute_plan out orch t2 target plan v2 = (Inr (s1, st), w1)"
    by (auto simp: run_engines_def act_bind_Inr_iff act_return_def)
  from mp obtain t1 v1 v3 ids now where
    1: "set_state out scan QUEUED None w = (Inr t1, v1)" "set_state out t1 PLANNING None v1 = (Inr t2, v3)"
    and p: "plan = (plan_scan ids now (or_planner_config orch) (engines_for (or_registry orch)) target (s_policy t2)
       (t_base_urls target))\<lparr>plan_scan_id := s_id t2\<rparr>"
    by (auto simp: make_plan_def act_bind_Inr_iff act_return_def)
  from ep obtain v5 now2 run_ids where 2: "set_state out t2 RUNNING None v2 = (Inr s1, v5)"
    and r: "run_tasks (out_search out) run_ids (adapter_for (or_registry orch)) s1 target
       (ScopeEngine_init now2 target) (staged_tasks plan) run_state0 = Inr st"
    by (auto simp: execute_plan_def act_bind_Inr_iff act_return_def act_res_def)
  show thesis
    by (rule that [OF _ r]) (use p keep [OF 1(1)] keep [OF 1(2)] keep [OF 2] in auto)
qed

text \<open>
  with a registry built by its own operations, a run never finds an engine without an adapter: it reports no
  failed engine, and the engines it ran are the planned ones, none of them disabled by the policy.
\<close>

theorem run_engines_all_bound:
  assumes "registry_reachable pol (or_registry orch)" and "is_authorized (out_clock out (w_tick w)) target"
    and "run out orch scan target w = (Inr rep, w')"
  shows "rp_engines_failed rep = [] \<and> set (rp_engines_run rep) \<inter> set (sp_disabled_engines (s_policy scan)) = {}"
proof (rule run_report [OF assms(3,2)])
  fix s1 plan st w1 s2 n findings w2 ai s3
  assume re: "run_engines out orch scan target (w\<lparr>w_tick := Suc (w_tick w)\<rparr>) = (Inr (s1, plan, st), w1)"
    and rep: "rp_engines_run rep = ru_engines_run st" "rp_engines_failed rep = ru_engines_failed st"
  from re obtain ids now scope run_ids where
    plan: "plan = (plan_scan ids now (or_planner_config orch) (engines_for (or_registry orch)) target (s_policy scan)
       (t_base_urls target))\<lparr>plan_scan_id := s_id scan\<rparr>"
    and r: "run_tasks (out_search out) run_ids (adapter_for (or_registry orch)) s1 target scope (staged_tasks plan)
       run_state0 = Inr st" by (rule run_engines_result)
  let ?I = "\<lambda>st. ru_engines_failed st = [] \<and> set (ru_engines_run st) \<inter> set (sp_disabled_engines (s_policy scan)) = {}"
  have start: "?I run_state0" by (simp add: run_state0_def)
  have "?I st"
  proof (rule run_tasks_invariant [where I = ?I, OF r start])
    fix stage task a b
    assume m: "(stage, task) \<in> set (staged_tasks plan)" and I: "?I a"
      and t: "run_task (out_search out) run_ids (adapter_for (or_registry orch)) s1 target scope stage task a = Inr b"
    have bound: "adapter_for (or_registry orch) (pt_engine_id task) \<noteq> None \<and>
        pt_engine_id task \<notin> set (sp_disabled_engines (s_policy scan))"
      by (rule plan_runs_bound [OF assms(1) m [unfolded plan]])
    from t show "?I b" by (cases rule: run_task_cases) (use I bound in auto)
  qed
  with rep show ?thesis by simp
qed

subsection \<open>What a run stores\<close>

definition finding_get :: "string \<times> string \<Rightarrow> Database \<Rightarrow> UnifiedFinding option" where
  "finding_get k db = map_option fr_payload (find_row finding_row_key k (db_findings db))"

definition finding_key_of :: "UnifiedFinding \<Rightarrow> string \<times> string" where
  "finding_key_of f = (f_scan_id f, f_fingerprint f)"

lemma finding_upsert_get:
  "finding_upsert f db = Inr db' \<Longrightarrow>
     finding_get k db' = (if k = finding_key_of f then Some f else finding_get k db)"
  by (auto simp: finding_upsert_def finding_get_def find_put_row finding_row_key_def finding_row_of_def
      finding_key_of_def split: if_splits option.splits)

lemma upsert_findings_get:
  "upsert_findings fs db = Inr db' \<Longrightarrow> distinct (map finding_key_of fs) \<Longrightarrow>
     finding_get k db' = (case List.find (\<lambda>f. finding_key_of f = k) fs of Some f \<Rightarrow> Some f | None \<Rightarrow> finding_get k db)"
proof (induction fs arbitrary: db)
  case (Cons f fs)
  from Cons.prems(1) obtain db1 where 1: "finding_upsert f db = Inr db1" "upsert_findings fs db1 = Inr db'"
    by (auto simp: bind_res_Inr_iff)
  have "List.find (\<lambda>g. finding_key_of g = finding_key_of f) fs = None"
    using Cons.prems(2) by (auto simp: find_None_iff image_iff)
  then show ?case
    using Cons.IH [OF 1(2)] Cons.prems(2) finding_upsert_get [OF 1(1), of k] by (auto split: option.splits)
qed simp

lemma merge_history_result:
  assumes "merge_history out scan target fs w = (Inr fs', w')"
  shows "map finding_key_of fs' = map finding_key_of fs \<and> map f_tenant_id fs' = map f_tenant_id fs"
proof -
  have keys: "map finding_key_of (merge_across_scans now previous fs) = map finding_key_of fs \<and>
      map f_tenant_id (merge_across_scans now previous fs) = map f_tenant_id fs" for now previous
    by (auto simp: merge_across_scans_def Let_def finding_key_of_def split: option.split)
  from assms show ?thesis
    unfolding merge_history_def act_bind_Inr_iff act_read_def act_return_def
    using keys by (auto split: list.splits simp: act_bind_Inr_iff)
qed

lemma merge_group_scan: "f_scan_id (merge_group sha ce fid fp g) = ce_scan_id ce"
  by (simp add: merge_group_def Let_def)

lemma collect_findings_result:
  assumes "collect_findings out orch scan target obs w = (Inr (n, fs), w')"
  shows "distinct (map finding_key_of fs)" "\<forall>f \<in> set fs. f_scan_id f = s_id scan"
proof -
  from assms obtain ids all_obs fs0 w2 where
    mh: "merge_history out scan target fs0 w2 = (Inr fs, w')" and
    c: "fs0 = correlate (out_sha out) ids
      \<lparr>ce_tenant_id = s_tenant_id scan, ce_scan_id = s_id scan, ce_target_id = t_id target\<rparr> all_obs"
    unfolding collect_findings_def by (auto simp: act_bind_Inr_iff act_return_def)
  have sid: "f_scan_id f = s_id scan" if "f \<in> set fs0" for f
  proof -
    from that obtain fid g where "f = merge_group (out_sha out)
        \<lparr>ce_tenant_id = s_tenant_id scan, ce_scan_id = s_id scan, ce_target_id = t_id target\<rparr> fid (f_fingerprint f) g"
      unfolding c by (elim correlate_memD)
    then show ?thesis by (metis CorrelationEngine.select_convs(2) merge_group_scan)
  qed
  have "distinct (map f_fingerprint fs0)" unfolding c by (rule distinct_fingerprints)
  then have "distinct (map finding_key_of fs0)"
    by (auto simp: distinct_map inj_on_def finding_key_of_def)
  then show "distinct (map finding_key_of fs)" using merge_history_result [OF mh] by simp
  have "fst ` set (map finding_key_of fs) = fst ` set (map finding_key_of fs0)"
    using merge_history_result [OF mh] by simp
  then have "f_scan_id ` set fs = f_scan_id ` set fs0" by (simp add: image_image finding_key_of_def)
  with sid show "\<forall>f \<in> set fs. f_scan_id f = s_id scan" by fastforce
qed

lemma set_state_state: "set_state out s dst reason v = (Inr t, v') \<Longrightarrow> s_state t = dst"
  by (erule set_state_result) (simp_all add: moved_scan_def Let_def)

lemma store_state_findings: "store_state now s reason db = Inr db' \<Longrightarrow> db_findings db' = db_findings db"
  by (auto simp: store_state_def audit_record_def scan_upsert_def)

lemma store_state_scans:
  assumes "store_state now s reason db = Inr db'"
  shows "db_scans db' = db_scans (scan_upsert s db)"
  using assms [unfolded store_state_def, THEN Inr_inject, symmetric] by (simp add: audit_record_def)

lemma set_state_findings:
  assumes "set_state out s dst reason v = (Inr t, v')"
  shows "db_findings (w_db v') = db_findings (w_db v)"
  using assms
proof (cases rule: set_state_result)
  case (moved now audit_now)
  from moved(2) show ?thesis by (elim unit_of_work_cases) (auto dest: store_state_findings)
qed simp

lemma store_findings_result:
  assumes "store_findings out scan fs w = (Inr (s, fs'), w')"
  obtains db where "fs' = map risk_apply fs" "upsert_findings fs' db = Inr (w_db w')" "s_id s = s_id scan"
    "s_state s = REPORTING"
proof -
  from assms obtain s1 w1 w2 where
    1: "set_state out scan VALIDATING None w = (Inr s1, w1)" "set_state out s1 REPORTING None w1 = (Inr s, w2)"
    and u: "act_uow (upsert_findings (map risk_apply fs)) w2 = (Inr (), w')" and f: "fs' = map risk_apply fs"
    by (auto simp: store_findings_def act_bind_Inr_iff act_return_def Let_def)
  from u obtain db where db: "unit_of_work (upsert_findings fs') (w_db w2) = (Inr (), db)" "w_db w' = db"
    unfolding f by (auto simp: act_uow_def split: prod.splits)
  from db have "upsert_findings fs' (w_db w2) = Inr (w_db w')" by (elim unit_of_work_cases) auto
  then show thesis
    using f set_state_keeps [OF 1(1)] set_state_keeps [OF 1(2)] set_state_state [OF 1(2)]
    by (intro that) simp_all
qed

lemma analyse_result:
  assumes "analyse out orch scan target obs w = (Inr (s, n, fs), w')"
  shows "\<forall>f \<in> set fs. f_scan_id f = s_id scan \<and> finding_get (finding_key_of f) (w_db w') = Some f"
    and "s_id s = s_id scan" and "s_state s = REPORTING"
proof -
  from assms obtain s1 w1 w2 fs0 w3 where
    1: "set_state out scan CORRELATING None w1 = (Inr s1, w2)" and
    c: "collect_findings out orch s1 target obs w2 = (Inr (n, fs0), w3)" and
    st: "store_findings out s1 fs0 w3 = (Inr (s, fs), w')"
    unfolding analyse_def by (auto simp: act_bind_Inr_iff act_return_def)
  from st obtain db where s: "fs = map risk_apply fs0" "upsert_findings fs db = Inr (w_db w')" "s_id s = s_id s1"
    "s_state s = REPORTING" by (rule store_findings_result)
  then show "s_id s = s_id scan" "s_state s = REPORTING" using set_state_keeps [OF 1] by simp_all
  have key: "finding_key_of (risk_apply f) = finding_key_of f" "f_scan_id (risk_apply f) = f_scan_id f" for f
    by (simp_all add: finding_key_of_def risk_apply_def)
  have d: "distinct (map finding_key_of fs)"
    using collect_findings_result(1) [OF c] by (simp add: s(1) comp_def key)
  have "finding_get (finding_key_of f) (w_db w') = Some f" if f: "f \<in> set fs" for f
  proof -
    obtain g where g: "List.find (\<lambda>h. finding_key_of h = finding_key_of f) fs = Some g"
      using f by (cases "List.find (\<lambda>h. finding_key_of h = finding_key_of f) fs") (auto simp: find_None_iff)
    then have "g \<in> set fs" "finding_key_of g = finding_key_of f" by (auto simp: find_Some_iff)
    with d f have "g = f" by (simp add: distinct_map inj_on_def)
    with g upsert_findings_get [OF s(2) d, of "finding_key_of f"] show ?thesis by simp
  qed
  moreover have "f_scan_id f = s_id scan" if "f \<in> set fs" for f
    using that collect_findings_result(2) [OF c] set_state_keeps [OF 1] by (auto simp: s(1) key)
  ultimately show "\<forall>f \<in> set fs. f_scan_id f = s_id scan \<and> finding_get (finding_key_of f) (w_db w') = Some f" by blast
qed

lemma built_proof:
  assumes "f \<in> set fs"
  shows "\<exists>p \<in> set (pr_proofs (build_proofs sha mac env fs key)). pv_finding_id p = f_id f \<and>
    proof_verify sha mac (ProofEngine_init env key) p"
proof (rule bexI)
  let ?p = "proof_build sha mac (ProofEngine_init env key) f"
  show "?p \<in> set (pr_proofs (build_proofs sha mac env fs key))"
    using assms by (simp add: build_proofs_def Let_def)
  show "pv_finding_id ?p = f_id f \<and> proof_verify sha mac (ProofEngine_init env key) ?p"
    by (simp add: proof_build_def seal_keeps unsealed_simps verify_seal)
qed

text \<open>
  C2: what a completed run reports is what the database holds: each finding of the report is stored under the
  scan and its fingerprint, scores included, with a proof bundle that verifies, and the stored scan is the
  reported one.
\<close>

theorem report_is_stored:
  assumes "is_authorized (out_clock out (w_tick w)) target" and "run out orch scan target w = (Inr rep, w')"
  shows "scan_get (s_id scan) (w_db w') = Some (rp_scan rep) \<and>
    (\<forall>f \<in> set (rp_findings rep). finding_get (s_id scan, f_fingerprint f) (w_db w') = Some f \<and>
       (\<exists>reports p. rp_proofs rep = Some reports \<and> p \<in> set (pr_proofs reports) \<and> pv_finding_id p = f_id f \<and>
          proof_verify (out_sha out) (out_mac out)
            (ProofEngine_init (out_environ_key out) (or_evidence_key orch)) p))"
proof (rule run_report [OF assms(2,1)])
  fix s1 plan st w1 s2 n findings w2 ai s3
  assume re: "run_engines out orch scan target (w\<lparr>w_tick := Suc (w_tick w)\<rparr>) = (Inr (s1, plan, st), w1)"
    and an: "analyse out orch s1 target (ru_obs st) w1 = (Inr (s2, n, findings), w2)"
    and se: "set_state out s2 COMPLETED (Some (str_of_nat (length (rp_findings rep)) @ '' findings'')) w2 = (Inr s3, w')"
    and fs: "rp_findings rep = (if as_enabled ai then prioritized_order findings ai else findings)"
    and rep: "rp_scan rep = s3" "rp_proofs rep = Some (build_proofs (out_sha out) (out_mac out) (out_environ_key out)
        (rp_findings rep) (or_evidence_key orch))"
  from re have sid: "s_id s1 = s_id scan" by (rule run_engines_result) simp
  note a = analyse_result [OF an]
  have "mset (prioritized_order findings ai) = mset findings"
    by (simp add: prioritized_order_def)
  then have set_fs: "set (rp_findings rep) = set findings" using fs by (metis mset_eq_setD)
  from se have "scan_get (s_id scan) (w_db w') = Some s3"
  proof (cases rule: set_state_result)
    case same
    with a(3) show ?thesis by simp
  next
    case (moved now audit_now)
    from moved(2) have "store_state audit_now s3 (Some (str_of_nat (length (rp_findings rep)) @ '' findings''))
        (w_db w2) = Inr (w_db w')" by (elim unit_of_work_cases) auto
    from store_state_scans [OF this]
    have "scan_get (s_id s3) (w_db w') = scan_get (s_id s3) (scan_upsert s3 (w_db w2))"
      by (simp add: scan_get_def)
    then show ?thesis using scans.get_put [of "s_id s3"] set_state_keeps [OF se] a(2) sid by simp
  qed
  moreover have "finding_get (s_id scan, f_fingerprint f) (w_db w') = Some f" if "f \<in> set (rp_findings rep)" for f
    using that a(1) sid set_state_findings [OF se] by (auto simp: set_fs finding_get_def finding_key_of_def)
  moreover have "\<exists>reports p. rp_proofs rep = Some reports \<and> p \<in> set (pr_proofs reports) \<and> pv_finding_id p = f_id f \<and>
      proof_verify (out_sha out) (out_mac out) (ProofEngine_init (out_environ_key out) (or_evidence_key orch)) p"
    if "f \<in> set (rp_findings rep)" for f
    using built_proof [OF that] rep(2) by blast
  ultimately show ?thesis using rep(1) by blast
qed

subsection \<open>Completion\<close>

lemma constraints_scan_upsert: "constraints_ok db \<Longrightarrow> constraints_ok (scan_upsert s db)"
  by (auto simp: constraints_ok_def scan_upsert_def intro!: put_row_distinct)

lemma store_state_ok:
  assumes "constraints_ok db"
  obtains db' where "store_state now s reason db = Inr db'" "constraints_ok db'"
    "db_observations db' = db_observations db" "db_findings db' = db_findings db"
proof (rule that)
  have ok: "constraints_ok (scan_upsert s db)" by (rule constraints_scan_upsert [OF assms])
  then show "constraints_ok (audit_record now (s_tenant_id s) (s_created_by s) ''scan.state'' (s_id s)
      (scan_state_value (s_state s) @ '':'' @ osor reason []) None (scan_upsert s db))"
    by (simp add: constraints_ok_def audit_record_def)
qed (simp_all add: store_state_def audit_record_def scan_upsert_def)

lemma set_state_total:
  assumes "s_state s = dst \<or> can_transition (s_state s) dst" "constraints_ok (w_db v)"
  obtains t v' where "set_state out s dst reason v = (Inr t, v')" "s_state t = dst" "constraints_ok (w_db v')"
    "db_observations (w_db v') = db_observations (w_db v)" "db_findings (w_db v') = db_findings (w_db v)"
    "s_id t = s_id s" "s_policy t = s_policy s"
proof (cases "s_state s = dst")
  case True
  with assms show thesis by (intro that [of s v]) (simp_all add: set_state_def act_return_def)
next
  case False
  define now where "now = out_clock out (w_tick v)"
  define audit_now where "audit_now = out_clock out (Suc (w_tick v))"
  define t where "t = moved_scan now s dst reason"
  obtain db' where db': "store_state audit_now t reason (w_db v) = Inr db'" "constraints_ok db'"
    "db_observations db' = db_observations (w_db v)" "db_findings db' = db_findings (w_db v)"
    by (rule store_state_ok [OF assms(2)])
  let ?v = "v\<lparr>w_tick := Suc (Suc (w_tick v)), w_db := db'\<rparr>"
  have "set_state out s dst reason v = (Inr t, ?v)"
    using False assms(1) db'(1,2)
    by (simp add: set_state_def act_bind_def utcnow_def act_uow_def unit_of_work_def act_return_def
        now_def audit_now_def t_def)
  then show thesis
    by (rule that) (use db' in \<open>simp_all add: t_def moved_scan_keeps, simp add: moved_scan_def Let_def\<close>)
qed

definition same_tables :: "World \<Rightarrow> World \<Rightarrow> bool" where
  "same_tables v v' \<longleftrightarrow> constraints_ok (w_db v') \<and> db_observations (w_db v') = db_observations (w_db v) \<and>
     db_findings (w_db v') = db_findings (w_db v)"

lemma bind_total:
  assumes "m w = (Inr x, w1)" "f x w1 = (Inr y, w2)"
  shows "act_bind m f w = (Inr y, w2)"
  using assms by (simp add: act_bind_def)

lemma validate_all_total:
  "\<exists>obs' v'. validate_all out strategies prober obs v = (Inr obs', v') \<and> w_db v' = w_db v"
proof (induction obs arbitrary: v)
  case (Cons ob obs)
  from Cons.IH [of "v\<lparr>w_tick := Suc (Suc (w_tick v))\<rparr>"] show ?case
    by (auto simp: act_bind_def fresh_ids_def utcnow_def act_return_def Let_def)
qed (simp add: act_return_def)

lemma merge_history_total:
  "\<exists>fs' v'. merge_history out scan target fs v = (Inr fs', v') \<and> w_db v' = w_db v \<and> map f_id fs' = map f_id fs"
proof -
  have "map f_id (merge_across_scans now previous fs) = map f_id fs" for now previous
    by (auto simp: merge_across_scans_def Let_def split: option.split)
  then show ?thesis
    by (auto simp: merge_history_def act_bind_def act_read_def act_return_def utcnow_def split: list.split)
qed

lemma disjoint_insert: "C \<subseteq> insert x B \<Longrightarrow> x \<notin> A \<Longrightarrow> A \<inter> B = {} \<Longrightarrow> A \<inter> C = {}"
  by blast

lemma disjoint_range: "A \<subseteq> range g \<Longrightarrow> (\<And>k. g k \<notin> B) \<Longrightarrow> A \<inter> B = {}"
  by blast

lemma upsert_findings_total:
  assumes "constraints_ok db" "distinct (map f_id fs)" "f_id ` set fs \<inter> fr_id ` set (db_findings db) = {}"
  shows "\<exists>db'. upsert_findings fs db = Inr db' \<and> constraints_ok db'"
  using assms
proof (induction fs arbitrary: db)
  case (Cons f fs)
  let ?k = "(f_scan_id f, f_fingerprint f)"
  define change where "change = (\<lambda>row :: FindingRow. row\<lparr>fr_severity := severity_value (f_severity f),
      fr_confidence := confidence_value (f_confidence f), fr_risk_score := f_risk_score f,
      fr_status := status_value (f_status f), fr_payload := f\<rparr>)"
  define rows where "rows = put_row finding_row_key ?k change (finding_row_of f) (db_findings db)"
  have d: "distinct (map finding_row_key (db_findings db))" using Cons.prems(1) by (simp add: constraints_ok_def)
  have up: "finding_upsert f db = Inr (db\<lparr>db_findings := rows\<rparr>)"
    using filter_key_distinct [OF d, of ?k] by (simp add: finding_upsert_def rows_def change_def)
  have key: "finding_row_key (change r) = finding_row_key r" "fr_id (change r) = fr_id r" for r
    by (simp_all add: finding_row_key_def change_def)
  have new: "finding_row_key (finding_row_of f) = ?k" "fr_id (finding_row_of f) = f_id f"
    by (simp_all add: finding_row_key_def finding_row_of_def)
  have ids: "map fr_id (put_row finding_row_key ?k change (finding_row_of f) rs) =
      map fr_id rs @ (if ?k \<in> finding_row_key ` set rs then [] else [f_id f])" for rs
    by (induction rs) (auto simp: key new)
  have c: "constraints_ok (db\<lparr>db_findings := rows\<rparr>)"
    using Cons.prems(1,3) put_row_distinct [where key = finding_row_key, OF key(1) new(1) d]
    by (auto simp: constraints_ok_def rows_def ids)
  have "f_id ` set fs \<inter> fr_id ` set rows = {}"
  proof -
    have "fr_id ` set rows \<subseteq> insert (f_id f) (fr_id ` set (db_findings db))"
      using arg_cong [where f = set, OF ids [of "db_findings db"]] by (auto simp: rows_def)
    moreover have "f_id f \<notin> f_id ` set fs" "f_id ` set fs \<inter> fr_id ` set (db_findings db) = {}"
      using Cons.prems(2,3) by auto
    ultimately show ?thesis by (rule disjoint_insert)
  qed
  then have disj: "f_id ` set fs \<inter> fr_id ` set (db_findings (db\<lparr>db_findings := rows\<rparr>)) = {}" by simp
  have "distinct (map f_id fs)" using Cons.prems(2) by simp
  from Cons.IH [OF c this disj] obtain db' where
    "upsert_findings fs (db\<lparr>db_findings := rows\<rparr>) = Inr db'" "constraints_ok db'" by blast
  then show ?case by (intro exI [of _ db'] conjI) (simp_all only: upsert_findings.simps up bind_res_simps)
qed simp

lemma constraints_add_observations:
  assumes "constraints_ok db" "distinct (map obs_id obs)" "obs_id ` set obs \<inter> or_id ` set (db_observations db) = {}"
  shows "constraints_ok (observations_add_many obs db)"
proof -
  have "or_id (observation_row ob) = obs_id ob" for ob by (simp add: observation_row_def)
  then show ?thesis using assms
    by (auto simp: constraints_ok_def observations_add_many_def comp_def image_image)
qed

lemma correlate_ids:
  assumes "inj ids"
  shows "distinct (map f_id (correlate sha ids ce obs))" "f_id ` set (correlate sha ids ce obs) \<subseteq> range ids"
proof -
  define gs where "gs = group_by (obs_fingerprint sha) obs"
  have fid: "f_id (merge_group sha ce i fp g) = i" for i fp g by (simp add: merge_group_def Let_def)
  have "map f_id (map (\<lambda>(fid, fp, g). merge_group sha ce fid fp g) (numbered ids 0 gs)) = map ids [0..<length gs]"
    by (rule nth_equalityI) (simp_all add: numbered_def enumerate_eq_zip fid split_beta)
  moreover have "mset (map f_id (correlate sha ids ce obs)) =
      mset (map f_id (map (\<lambda>(fid, fp, g). merge_group sha ce fid fp g) (numbered ids 0 gs)))"
    unfolding correlate_def Let_def gs_def by (simp only: mset_map mset_sort_desc)
  ultimately have m: "mset (map f_id (correlate sha ids ce obs)) = mset (map ids [0..<length gs])" by simp
  have "distinct (map ids [0..<length gs])" using assms by (auto simp: distinct_map inj_on_def)
  with m show "distinct (map f_id (correlate sha ids ce obs))" by (metis mset_eq_imp_distinct_iff)
  from m have "set (map f_id (correlate sha ids ce obs)) = set (map ids [0..<length gs])" by (rule mset_eq_setD)
  then show "f_id ` set (correlate sha ids ce obs) \<subseteq> range ids" by auto
qed

lemma analyse_total:
  assumes "s_state scan = RUNNING" "constraints_ok (w_db v)"
    and obs: "distinct (map obs_id obs)" "obs_id ` set obs \<inter> or_id ` set (db_observations (w_db v)) = {}"
    and prober: "case or_prober_factory orch of None \<Rightarrow> True | Some factory \<Rightarrow> isl (factory target) = False"
    and ids: "\<And>n. inj (out_ids out n)" "\<And>n k. out_ids out n k \<notin> fr_id ` set (db_findings (w_db v))"
  obtains s n fs v' where "analyse out orch scan target obs v = (Inr (s, n, fs), v')" "s_state s = REPORTING"
    "constraints_ok (w_db v')"
proof -
  obtain v1 where store: "(if obs = [] then act_return () else act_uow (\<lambda>db. Inr (observations_add_many obs db))) v =
      (Inr (), v1)" and v1: "constraints_ok (w_db v1)" "db_findings (w_db v1) = db_findings (w_db v)"
    using constraints_add_observations [OF assms(2) obs] assms(2)
    by (cases "obs = []") (auto simp: act_return_def act_uow_def unit_of_work_def observations_add_many_def)
  obtain s1 v2 where s1: "set_state out scan CORRELATING None v1 = (Inr s1, v2)" "s_state s1 = CORRELATING"
    "constraints_ok (w_db v2)" "db_findings (w_db v2) = db_findings (w_db v1)"
    by (rule set_state_total [OF _ v1(1), of scan CORRELATING out None]) (use assms(1) in \<open>auto simp: can_transition_def\<close>)
  obtain obs' v3 where vp: "validation_pass out orch target obs v2 = (Inr obs', v3)" "w_db v3 = w_db v2"
  proof (cases "or_validate orch \<and> or_prober_factory orch \<noteq> None")
    case True
    then obtain factory where factory: "or_prober_factory orch = Some factory" by auto
    with prober obtain prober where "factory target = Inr prober" by (cases "factory target") auto
    with True factory validate_all_total [of out "or_validation orch" prober obs v2] show thesis
      by (auto simp: validation_pass_def act_bind_def act_res_def intro: that)
  qed (auto simp: validation_pass_def act_return_def intro: that split: option.split)
  define ce where "ce = \<lparr>ce_tenant_id = s_tenant_id s1, ce_scan_id = s_id s1, ce_target_id = t_id target\<rparr>"
  define fs0 where "fs0 = correlate (out_sha out) (out_ids out (w_tick v3)) ce obs'"
  obtain fs1 v4 where mh: "merge_history out s1 target fs0 (v3\<lparr>w_tick := Suc (w_tick v3)\<rparr>) = (Inr fs1, v4)"
    "w_db v4 = w_db v3" "map f_id fs1 = map f_id fs0"
    using merge_history_total [of out s1 target fs0 "v3\<lparr>w_tick := Suc (w_tick v3)\<rparr>"] by auto
  have cf: "collect_findings out orch s1 target obs v2 = (Inr (length obs', fs1), v4)"
    unfolding collect_findings_def
    by (rule bind_total, rule vp(1), rule bind_total, simp only: fresh_ids_def,
        rule bind_total, rule mh(1) [unfolded fs0_def ce_def]) (simp add: act_return_def)
  define fs where "fs = map risk_apply fs1"
  have risk_id: "f_id (risk_apply f) = f_id f" for f by (simp add: risk_apply_def)
  have fids: "map f_id fs = map f_id fs0" by (simp add: fs_def comp_def risk_id mh(3))
  obtain s2 v5 where s2: "set_state out s1 VALIDATING None v4 = (Inr s2, v5)" "s_state s2 = VALIDATING"
    "constraints_ok (w_db v5)" "db_findings (w_db v5) = db_findings (w_db v4)"
    by (rule set_state_total [of s1 VALIDATING v4 out None]) (use s1 vp mh in \<open>auto simp: can_transition_def\<close>)
  obtain s3 v6 where s3: "set_state out s2 REPORTING None v5 = (Inr s3, v6)" "s_state s3 = REPORTING"
    "constraints_ok (w_db v6)" "db_findings (w_db v6) = db_findings (w_db v5)"
    by (rule set_state_total [of s2 REPORTING v5 out None]) (use s2 in \<open>auto simp: can_transition_def\<close>)
  have same: "db_findings (w_db v6) = db_findings (w_db v)"
    using s3(4) s2(4) mh(2) vp(2) s1(4) v1(2) by simp
  have "f_id ` set fs = f_id ` set fs0" using arg_cong [where f = set, OF fids] by simp
  then have fresh: "f_id ` set fs \<inter> fr_id ` set (db_findings (w_db v6)) = {}"
    using disjoint_range [OF correlate_ids(2) [OF ids(1)] ids(2)] unfolding fs0_def same by metis
  have "distinct (map f_id fs)" unfolding fids fs0_def by (rule correlate_ids(1) [OF ids(1)])
  from upsert_findings_total [OF s3(3) this fresh] obtain db' where
    db': "upsert_findings fs (w_db v6) = Inr db'" "constraints_ok db'" by blast
  have "store_findings out s1 fs1 v4 = (Inr (s3, fs), v6\<lparr>w_db := db'\<rparr>)"
    unfolding store_findings_def Let_def fs_def [symmetric]
    by (rule bind_total, rule s2(1), rule bind_total, rule s3(1))
      (simp add: act_bind_def act_uow_def unit_of_work_def db' act_return_def)
  note sf = this
  have "analyse out orch scan target obs v = (Inr (s3, length obs', fs), v6\<lparr>w_db := db'\<rparr>)"
    unfolding analyse_def
    by (rule bind_total, rule store, rule bind_total, rule s1(1), rule bind_total, rule cf,
        simp only: prod.case, rule bind_total, rule sf) (simp add: act_return_def)
  then show thesis by (rule that) (simp_all add: s3 db')
qed

lemma run_engines_total:
  assumes "s_state scan \<in> {CREATED, QUEUED}" "constraints_ok (w_db v)"
    and runs: "\<And>ids now run_ids now' s plan.
      plan = (plan_scan ids now (or_planner_config orch) (engines_for (or_registry orch)) target (s_policy scan)
        (t_base_urls target))\<lparr>plan_scan_id := s_id scan\<rparr> \<Longrightarrow> s_id s = s_id scan \<Longrightarrow>
      \<exists>st. run_tasks (out_search out) run_ids (adapter_for (or_registry orch)) s target
        (ScopeEngine_init now' target) (staged_tasks plan) run_state0 = Inr st \<and> P st"
  obtains s plan st v' where "run_engines out orch scan target v = (Inr (s, plan, st), v')" "P st"
    "s_state s = RUNNING" "constraints_ok (w_db v')"
    "db_observations (w_db v') = db_observations (w_db v)" "db_findings (w_db v') = db_findings (w_db v)"
proof -
  obtain s1 v1 where s1: "set_state out scan QUEUED None v = (Inr s1, v1)" "s_state s1 = QUEUED"
    "constraints_ok (w_db v1)" "db_observations (w_db v1) = db_observations (w_db v)"
    "db_findings (w_db v1) = db_findings (w_db v)" "s_id s1 = s_id scan" "s_policy s1 = s_policy scan"
    by (rule set_state_total [of scan QUEUED v out None]) (use assms(1,2) in \<open>auto simp: can_transition_def\<close>)
  obtain s2 v2 where s2: "set_state out s1 PLANNING None v1 = (Inr s2, v2)" "s_state s2 = PLANNING"
    "constraints_ok (w_db v2)" "db_observations (w_db v2) = db_observations (w_db v1)"
    "db_findings (w_db v2) = db_findings (w_db v1)" "s_id s2 = s_id s1" "s_policy s2 = s_policy s1"
    by (rule set_state_total [of s1 PLANNING v1 out None]) (use s1 in \<open>auto simp: can_transition_def\<close>)
  define v3 where "v3 = v2\<lparr>w_tick := Suc (Suc (w_tick v2))\<rparr>"
  define plan where "plan = (plan_scan (out_ids out (w_tick v2)) (out_clock out (Suc (w_tick v2))) (or_planner_config orch)
      (engines_for (or_registry orch)) target (s_policy s2) (t_base_urls target))\<lparr>plan_scan_id := s_id s2\<rparr>"
  have mp: "make_plan out orch scan target v = (Inr (s2, plan), v3)"
    unfolding make_plan_def
    by (rule bind_total, rule s1(1), rule bind_total, rule s2(1))
      (simp add: act_bind_def fresh_ids_def utcnow_def act_return_def plan_def v3_def)
  obtain s3 v4 where s3: "set_state out s2 RUNNING None v3 = (Inr s3, v4)" "s_state s3 = RUNNING"
    "constraints_ok (w_db v4)" "db_observations (w_db v4) = db_observations (w_db v3)"
    "db_findings (w_db v4) = db_findings (w_db v3)" "s_id s3 = s_id s2"
    by (rule set_state_total [of s2 RUNNING v3 out None]) (use s2 in \<open>auto simp: can_transition_def v3_def\<close>)
  obtain st where st: "run_tasks (out_search out) (out_ids out (Suc (w_tick v4))) (adapter_for (or_registry orch)) s3 target
      (ScopeEngine_init (out_clock out (w_tick v4)) target) (staged_tasks plan) run_state0 = Inr st" "P st"
    using runs [of plan "out_ids out (w_tick v2)" "out_clock out (Suc (w_tick v2))" s3] s1 s2 s3
    by (auto simp: plan_def)
  have "execute_plan out orch s2 target plan v3 = (Inr (s3, st), v4\<lparr>w_tick := Suc (Suc (w_tick v4))\<rparr>)"
    unfolding execute_plan_def
    by (rule bind_total, rule s3(1)) (simp add: act_bind_def fresh_ids_def utcnow_def act_res_def st act_return_def)
  note ep = this
  have "run_engines out orch scan target v = (Inr (s3, plan, st), v4\<lparr>w_tick := Suc (Suc (w_tick v4))\<rparr>)"
    unfolding run_engines_def
    by (rule bind_total, rule mp, simp only: prod.case, rule bind_total, rule ep) (simp add: act_return_def)
  then show thesis by (rule that) (use st s1 s2 s3 in \<open>simp_all add: v3_def\<close>)
qed

lemma run_returns:
  assumes "is_authorized (out_clock out (w_tick w)) target" and "s_state scan \<in> {CREATED, QUEUED}"
    and "constraints_ok (w_db w)"
    and "\<And>ids now run_ids now' s plan.
      plan = (plan_scan ids now (or_planner_config orch) (engines_for (or_registry orch)) target (s_policy scan)
        (t_base_urls target))\<lparr>plan_scan_id := s_id scan\<rparr> \<Longrightarrow> s_id s = s_id scan \<Longrightarrow>
      \<exists>st. run_tasks (out_search out) run_ids (adapter_for (or_registry orch)) s target
        (ScopeEngine_init now' target) (staged_tasks plan) run_state0 = Inr st \<and>
        distinct (map obs_id (ru_obs st)) \<and> obs_id ` set (ru_obs st) \<inter> or_id ` set (db_observations (w_db w)) = {}"
    and "case or_prober_factory orch of None \<Rightarrow> True | Some factory \<Rightarrow> isl (factory target) = False"
    and "\<And>n. inj (out_ids out n)" and "\<And>n k. out_ids out n k \<notin> fr_id ` set (db_findings (w_db w))"
    and "\<And>fs. isl (assess (out_float_repr out) (out_loads out) (or_analyst orch) fs) = False"
  shows "\<exists>rep w'. run out orch scan target w = (Inr rep, w') \<and> s_state (rp_scan rep) = COMPLETED"
proof -
  let ?w = "w\<lparr>w_tick := Suc (w_tick w)\<rparr>"
  let ?P = "\<lambda>st. distinct (map obs_id (ru_obs st)) \<and> obs_id ` set (ru_obs st) \<inter> or_id ` set (db_observations (w_db w)) = {}"
  have cw: "constraints_ok (w_db ?w)" using assms(3) by simp
  obtain s plan st v where re: "run_engines out orch scan target ?w = (Inr (s, plan, st), v)" "?P st"
    "s_state s = RUNNING" "constraints_ok (w_db v)" "db_observations (w_db v) = db_observations (w_db w)"
    "db_findings (w_db v) = db_findings (w_db w)"
    by (rule run_engines_total [where P = ?P, OF assms(2) cw assms(4)]) simp_all
  obtain s2 n fs v2 where an: "analyse out orch s target (ru_obs st) v = (Inr (s2, n, fs), v2)"
    "s_state s2 = REPORTING" "constraints_ok (w_db v2)"
    by (rule analyse_total [where obs = "ru_obs st" and orch = orch and target = target and out = out, OF re(3,4)])
      (use re assms(5-7) in simp_all)
  obtain ai where ai: "assess (out_float_repr out) (out_loads out) (or_analyst orch) fs = Inr ai"
    using assms(8) [of fs] by (cases "assess (out_float_repr out) (out_loads out) (or_analyst orch) fs") simp_all
  obtain s3 v3 where s3: "set_state out s2 COMPLETED (Some (str_of_nat (length (if as_enabled ai
      then prioritized_order fs ai else fs)) @ '' findings'')) v2 = (Inr s3, v3)" "s_state s3 = COMPLETED"
    by (rule set_state_total [of s2 COMPLETED v2 out]) (use an in \<open>auto simp: can_transition_def\<close>)
  obtain rep where fin: "finish out orch plan st s2 n fs v2 = (Inr rep, v3)" "rp_scan rep = s3"
    using s3(1) by (simp add: finish_def act_bind_def act_res_def ai act_return_def Let_def)
  have "run_authorized out orch scan target ?w = (Inr rep, v3)"
    unfolding run_authorized_def
    by (rule bind_total, rule re(1), simp only: prod.case, rule bind_total, rule an(1), simp only: prod.case, rule fin(1))
  then have "run out orch scan target w = (Inr rep, v3)"
    using assms(1) by (simp add: run_def act_bind_def utcnow_def)
  with fin(2) s3(2) show ?thesis by blast
qed

text \<open>
  C30: a run comes to its end.  The run of a scan returns a report and leaves the scan completed if the target is
  authorized when it starts, the scan is new or queued, the constraints of the database hold, the engine phase,
  under any task ids and times its plan may get, raises nothing and collects observations with new, distinct ids, a
  prober can be made wherever a factory is set, generated finding ids are new and distinct, and the analyst does not
  raise.  Given these, correlation, validation, the merge with the history, scoring and storing always return.
\<close>

theorem run_completes:
  assumes "is_authorized (out_clock out (w_tick w)) target" and "s_state scan \<in> {CREATED, QUEUED}"
    and "constraints_ok (w_db w)"
    and "\<And>ids now run_ids now' s plan.
      plan = (plan_scan ids now (or_planner_config orch) (engines_for (or_registry orch)) target (s_policy scan)
        (t_base_urls target))\<lparr>plan_scan_id := s_id scan\<rparr> \<Longrightarrow> s_id s = s_id scan \<Longrightarrow>
      \<exists>st. run_tasks (out_search out) run_ids (adapter_for (or_registry orch)) s target
        (ScopeEngine_init now' target) (staged_tasks plan) run_state0 = Inr st \<and>
        distinct (map obs_id (ru_obs st)) \<and> obs_id ` set (ru_obs st) \<inter> or_id ` set (db_observations (w_db w)) = {}"
    and "case or_prober_factory orch of None \<Rightarrow> True | Some factory \<Rightarrow> isl (factory target) = False"
    and "\<And>n. inj (out_ids out n)" and "\<And>n k. out_ids out n k \<notin> fr_id ` set (db_findings (w_db w))"
    and "\<And>fs. isl (assess (out_float_repr out) (out_loads out) (or_analyst orch) fs) = False"
  shows "\<exists>rep w'. run out orch scan target w = (Inr rep, w') \<and> s_state (rp_scan rep) = COMPLETED"
  using assms by (rule run_returns)

subsection \<open>Witnesses\<close>

text \<open>A deployment with one engine that reports one observation, and a new scan.\<close>

definition demo_outside :: Outside where
  "demo_outside =
     \<lparr>out_clock = int, out_ids = (\<lambda>n k. replicate k (CHR ''f'')), out_search = (\<lambda>_ _. Inr False),
      out_sha = (\<lambda>s. ''h''), out_mac = (\<lambda>k s. k), out_float_repr = (\<lambda>_. ''0''), out_loads = (\<lambda>_. None),
      out_environ_key = None, out_scan_order = (\<lambda>rs. rs), out_finding_order = (\<lambda>rs. rs)\<rparr>"

definition demo_adapter :: "(unit, unit, unit) EngineAdapter" where
  "demo_adapter =
     \<lparr>ad_metadata = re_metadata demo_entry,
      ad_health_check = Inr \<lparr>hs_state = HEALTHY, hs_detail = [], hs_checked_at = 0\<rparr>,
      ad_prepare_target = (\<lambda>_. Inr ()), ad_execute_scan = (\<lambda>_. Inr ()), ad_collect_results = (\<lambda>_. Inr ()),
      ad_normalize_results = (\<lambda>_ _. Inr [demo_obs ''o1'' ''tool'' HIGH FIRM ''/u/1'']),
      ad_cleanup = (\<lambda>_. Inr ())\<rparr>"

definition demo_bound_entry :: "(unit, unit, unit) EngineAdapter RegisteredEngine" where
  "demo_bound_entry =
     \<lparr>re_manifest = re_manifest demo_entry, re_lock = re_lock demo_entry, re_metadata = re_metadata demo_entry,
      re_adapter = Some demo_adapter, re_problems = [], re_notes = []\<rparr>"

definition demo_orchestrator :: "(unit, unit, unit) Orchestrator" where
  "demo_orchestrator =
     Orchestrator_init \<lparr>er_policy = demo_policy, er_engines = [(''tool'', demo_bound_entry)]\<rparr>
       None None None True None None"

definition demo_scan :: "ScanState \<Rightarrow> Scan" where
  "demo_scan st =
     \<lparr>s_id = ''s'', s_tenant_id = ''acme'', s_target_id = ''t1'', s_policy = demo_scan_policy STANDARD,
      s_state = st, s_state_reason = None, s_created_by = ''me'', s_created_at = 0,
      s_started_at = None, s_finished_at = None\<rparr>"

definition demo_world :: World where
  "demo_world = \<lparr>w_db = Database_init, w_tick = 0\<rparr>"

lemma demo_planned:
  "staged_tasks ((plan_scan ids now (or_planner_config demo_orchestrator) (engines_for (or_registry demo_orchestrator))
     (demo_target [''http://a/'']) (demo_scan_policy STANDARD) [''http://a/''])\<lparr>plan_scan_id := i\<rparr>) =
   [(STAGE_AUDIT, \<lparr>pt_id = ids 0, pt_engine_id = ''tool'', pt_capabilities = [AUDIT_TEMPLATES],
      pt_seed_urls = [''http://a/''], pt_options = [],
      pt_reason = plan_reason (demo_target [''http://a/'']) (demo_scan_policy STANDARD) AUDIT_TEMPLATES
        (re_metadata demo_entry)\<rparr>)]"
  by code_simp

lemma demo_runs:
  assumes "s_id s = ''s''"
  shows "\<exists>st. run_tasks (out_search demo_outside) run_ids (adapter_for (or_registry demo_orchestrator)) s
      (demo_target [''http://a/'']) scope
      [(STAGE_AUDIT, \<lparr>pt_id = i, pt_engine_id = ''tool'', pt_capabilities = [AUDIT_TEMPLATES],
        pt_seed_urls = [''http://a/''], pt_options = [], pt_reason = reason\<rparr>)] run_state0 = Inr st \<and>
    ru_obs st = [demo_obs ''o1'' ''tool'' HIGH FIRM ''/u/1''] \<and> ru_engines_run st = [''tool'']"
proof -
  have "adapter_for (or_registry demo_orchestrator) ''tool'' = Some demo_adapter"
  proof -
    have "usable demo_bound_entry" by code_simp
    then show ?thesis
      by (simp add: adapter_for_def demo_orchestrator_def Orchestrator_init_def)
        (simp add: demo_bound_entry_def)
  qed
  moreover have "EngineRunRequest_ok \<lparr>rq_run_id = r, rq_scan_id = a, rq_tenant_id = b,
               rq_engine_id = ''tool'', rq_capabilities = [AUDIT_TEMPLATES], rq_seed_urls = [''http://a/''],
               rq_scope_rules = [],
               rq_max_requests_per_second = rl_max_requests_per_second demo_limits,
               rq_max_concurrency = rl_max_concurrency demo_limits,
               rq_options = [], rq_auth_context = None, rq_proxy_url = None\<rparr>" for r a b
    by (simp add: EngineRunRequest_ok_def is_identifier_def is_lower_def less_eq_char_def demo_limits_def)
  ultimately show ?thesis
    by (simp add: run_task_def run_engine_def run_request_def task_seeds_def demo_target_def engine_calls_def
        demo_adapter_def demo_entry_def collect_discovered_def demo_obs_def run_state0_def Let_def)
qed

lemma demo_engine_phase:
  assumes "plan = (plan_scan ids now (or_planner_config demo_orchestrator) (engines_for (or_registry demo_orchestrator))
      (demo_target [''http://a/'']) (s_policy (demo_scan CREATED)) (t_base_urls (demo_target [''http://a/''])))
      \<lparr>plan_scan_id := s_id (demo_scan CREATED)\<rparr>" and "s_id s = s_id (demo_scan CREATED)"
  shows "\<exists>st. run_tasks (out_search demo_outside) run_ids (adapter_for (or_registry demo_orchestrator)) s
      (demo_target [''http://a/'']) (ScopeEngine_init now' (demo_target [''http://a/''])) (staged_tasks plan)
      run_state0 = Inr st \<and> distinct (map obs_id (ru_obs st)) \<and>
      obs_id ` set (ru_obs st) \<inter> or_id ` set (db_observations (w_db demo_world)) = {}"
proof -
  have plan: "staged_tasks plan = [(STAGE_AUDIT, \<lparr>pt_id = ids 0, pt_engine_id = ''tool'',
      pt_capabilities = [AUDIT_TEMPLATES], pt_seed_urls = [''http://a/''], pt_options = [],
      pt_reason = plan_reason (demo_target [''http://a/'']) (demo_scan_policy STANDARD) AUDIT_TEMPLATES
        (re_metadata demo_entry)\<rparr>)]"
    unfolding assms(1) using demo_planned [where ids = ids and now = now and i = "''s''"]
    by (simp add: demo_scan_def demo_target_def)
  have s: "s_id s = ''s''" using assms(2) by (simp add: demo_scan_def)
  show ?thesis
    unfolding plan by (rule ex_forward [OF demo_runs [OF s]]) (auto simp: demo_world_def Database_init_def)
qed

lemma demo_ready:
  "is_authorized (out_clock demo_outside (w_tick demo_world)) (demo_target [''http://a/''])"
  "s_state (demo_scan st) = st" "s_id (demo_scan st) = ''s''" "constraints_ok (w_db demo_world)"
  "case or_prober_factory demo_orchestrator of None \<Rightarrow> True | Some factory \<Rightarrow>
     isl (factory (demo_target [''http://a/''])) = False"
  "inj (out_ids demo_outside n)" "out_ids demo_outside n k \<notin> fr_id ` set (db_findings (w_db demo_world))"
  "isl (assess (out_float_repr demo_outside) (out_loads demo_outside) (or_analyst demo_orchestrator) fs) = False"
  by (simp_all add: demo_scan_def demo_target_def is_authorized_def auth_is_valid_def demo_world_def
      Database_init_def constraints_ok_def demo_orchestrator_def Orchestrator_init_def demo_outside_def inj_def
      assess_def NullProvider_def)

theorem run_completes_witness:
  "\<exists>rep w'. run demo_outside demo_orchestrator (demo_scan CREATED) (demo_target [''http://a/'']) demo_world =
     (Inr rep, w') \<and> s_state (rp_scan rep) = COMPLETED"
  by (rule run_completes [OF demo_ready(1) _ demo_ready(4) demo_engine_phase demo_ready(5-8)])
    (simp_all add: demo_ready)

lemma demo_returns:
  obtains rep w' where "run demo_outside demo_orchestrator (demo_scan CREATED) (demo_target [''http://a/'']) demo_world =
      (Inr rep, w')"
proof -
  have "\<exists>rep w'. run demo_outside demo_orchestrator (demo_scan CREATED) (demo_target [''http://a/'']) demo_world =
      (Inr rep, w') \<and> s_state (rp_scan rep) = COMPLETED"
    by (rule run_returns [OF demo_ready(1) _ demo_ready(4) demo_engine_phase demo_ready(5-8)])
      (simp_all add: demo_ready)
  then show thesis using that by blast
qed

theorem run_lifecycle_witness:
  "\<exists>rep w'. run demo_outside demo_orchestrator (demo_scan CREATED) (demo_target [''http://a/'']) demo_world =
     (Inr rep, w') \<and> trail ''s'' w' = completed_trail CREATED"
proof (rule demo_returns)
  fix rep w'
  assume r: "run demo_outside demo_orchestrator (demo_scan CREATED) (demo_target [''http://a/'']) demo_world = (Inr rep, w')"
  have "trail ''s'' demo_world = []" by (simp add: trail_def demo_world_def Database_init_def)
  with run_lifecycle [OF r] have "trail ''s'' w' = completed_trail CREATED"
    using demo_ready(1) by (auto simp: demo_ready)
  with r show ?thesis by blast
qed

theorem report_is_stored_witness:
  "\<exists>rep w'. run demo_outside demo_orchestrator (demo_scan CREATED) (demo_target [''http://a/'']) demo_world =
     (Inr rep, w') \<and> scan_get ''s'' (w_db w') = Some (rp_scan rep)"
proof (rule demo_returns)
  fix rep w'
  assume r: "run demo_outside demo_orchestrator (demo_scan CREATED) (demo_target [''http://a/'']) demo_world = (Inr rep, w')"
  from report_is_stored [OF demo_ready(1) r] r show ?thesis by (auto simp: demo_ready)
qed

theorem unauthorized_runs_nothing_witness:
  "\<exists>rep w'. run demo_outside demo_orchestrator (demo_scan CREATED)
     ((demo_target [''http://a/''])\<lparr>t_authorization := None\<rparr>) demo_world = (Inr rep, w') \<and>
     s_state (rp_scan rep) = FAILED \<and> db_findings (w_db w') = []"
proof -
  let ?t = "(demo_target [''http://a/''])\<lparr>t_authorization := None\<rparr>"
  have n: "\<not> is_authorized (out_clock demo_outside (w_tick demo_world)) ?t" by (simp add: is_authorized_def)
  let ?w = "demo_world\<lparr>w_tick := Suc (w_tick demo_world)\<rparr>"
  have cw: "constraints_ok (w_db ?w)" by (simp add: demo_ready)
  obtain s1 v1 where 1: "set_state demo_outside (demo_scan CREATED) QUEUED None ?w = (Inr s1, v1)" "s_state s1 = QUEUED"
    "constraints_ok (w_db v1)"
    by (rule set_state_total [OF _ cw, of "demo_scan CREATED" QUEUED demo_outside None])
      (auto simp: demo_ready can_transition_def)
  obtain s2 v2 where 2: "set_state demo_outside s1 PLANNING None v1 = (Inr s2, v2)" "s_state s2 = PLANNING"
    "constraints_ok (w_db v2)"
    by (rule set_state_total [OF _ 1(3), of s1 PLANNING demo_outside None]) (use 1 in \<open>auto simp: can_transition_def\<close>)
  obtain s3 v3 where 3: "set_state demo_outside s2 FAILED (Some ''target not authorized'') v2 = (Inr s3, v3)"
    by (rule set_state_total [OF _ 2(3), of s2 FAILED demo_outside "Some ''target not authorized''"])
      (use 2 in \<open>auto simp: can_transition_def\<close>)
  have "run demo_outside demo_orchestrator (demo_scan CREATED) ?t demo_world =
      run_refused demo_outside (demo_scan CREATED) ?w"
    using n by (simp add: run_def act_bind_def utcnow_def)
  also have "\<exists>rep. \<dots> = (Inr rep, v3)"
    unfolding run_refused_def
    by (intro exI, rule bind_total, rule 1(1), rule bind_total, rule 2(1), rule bind_total, rule 3) (simp only: act_return_def)
  finally obtain rep where r: "run demo_outside demo_orchestrator (demo_scan CREATED) ?t demo_world = (Inr rep, v3)" ..
  from unauthorized_runs_nothing [OF n r] r show ?thesis by (auto simp: demo_world_def Database_init_def)
qed

theorem engine_failure_isolated_witness:
  "run_task (\<lambda>_ _. Inr False) (\<lambda>_. ''r'') (\<lambda>_. Some (demo_adapter\<lparr>ad_health_check := Inl (AdapterError ''down'')\<rparr>))
     (demo_scan RUNNING) (demo_target [''http://a/'']) (ScopeEngine_init 0 (demo_target [])) STAGE_AUDIT
     \<lparr>pt_id = ''p'', pt_engine_id = ''tool'', pt_capabilities = [AUDIT_TEMPLATES], pt_seed_urls = [''http://a/''],
      pt_options = [], pt_reason = []\<rparr> run_state0 =
   Inr (run_state0\<lparr>ru_engines_run := [''tool''], ru_runs := 1\<rparr>)"
  (is "run_task ?re ?ids ?of ?scan ?t ?sc ?stage ?task run_state0 = _")
proof -
  let ?a = "demo_adapter\<lparr>ad_health_check := Inl (AdapterError ''down'')\<rparr>"
  obtain request where "run_request (?ids (ru_runs run_state0)) ?scan ?t (ad_metadata ?a) (pt_capabilities ?task)
      (task_seeds ?stage ?task run_state0) = Inr request"
    by (simp add: run_request_def demo_adapter_def demo_entry_def task_seeds_def run_state0_def demo_target_def
        demo_limits_def EngineRunRequest_ok_def is_identifier_def is_lower_def less_eq_char_def Let_def)
  from engine_failure_isolated [OF _ this, of ?of ?re ?sc] show ?thesis
    by (simp add: engine_calls_def run_state0_def)
qed

text \<open>A scope that allows one host, and a crawler that reports one URL of it.\<close>

definition demo_scope :: ScopeEngine where
  "demo_scope = from_rules [\<lparr>r_kind = INCLUDE, r_host = ''a'', r_schemes = [''http''], r_ports = None,
     r_path_prefix = ''/'', r_path_regex = None, r_methods = None\<rparr>] True"

lemma demo_scope_allows: "scope_allows (\<lambda>_ _. Inr False) demo_scope ''http://a/x'' None = Inr True"
  by code_simp

definition demo_page :: Evidence where
  "demo_page = validation_evidence ''e'' 0 [] None [] [(''url'', PStr ''http://a/x'')]"

definition demo_page_obs :: Observation where
  "demo_page_obs = (demo_obs ''o2'' ''tool'' INFO FIRM ''/x'')\<lparr>obs_evidence := [demo_page]\<rparr>"

definition demo_crawler :: "(unit, unit, unit) EngineAdapter" where
  "demo_crawler = demo_adapter\<lparr>ad_normalize_results := (\<lambda>_ _. Inr [demo_page_obs])\<rparr>"

definition demo_task :: PlannedTask where
  "demo_task = \<lparr>pt_id = ''p'', pt_engine_id = ''tool'', pt_capabilities = [AUDIT_TEMPLATES],
     pt_seed_urls = [''http://a/''], pt_options = [], pt_reason = []\<rparr>"

lemma demo_crawl:
  obtains st where "run_tasks (\<lambda>_ _. Inr False) (\<lambda>_. ''r'') (\<lambda>_. Some demo_crawler) (demo_scan RUNNING)
      (demo_target [''http://a/'']) demo_scope [(STAGE_DISCOVERY, demo_task)] run_state0 = Inr st"
    "ru_discovered st = [''http://a/x'']" "ru_obs st = [demo_page_obs]"
proof -
  have "EngineRunRequest_ok \<lparr>rq_run_id = r, rq_scan_id = a, rq_tenant_id = b,
               rq_engine_id = ''tool'', rq_capabilities = [AUDIT_TEMPLATES], rq_seed_urls = [''http://a/''],
               rq_scope_rules = [],
               rq_max_requests_per_second = rl_max_requests_per_second demo_limits,
               rq_max_concurrency = rl_max_concurrency demo_limits,
               rq_options = [], rq_auth_context = None, rq_proxy_url = None\<rparr>" for r a b
    by (simp add: EngineRunRequest_ok_def is_identifier_def is_lower_def less_eq_char_def demo_limits_def)
  then have "\<exists>st. run_tasks (\<lambda>_ _. Inr False) (\<lambda>_. ''r'') (\<lambda>_. Some demo_crawler) (demo_scan RUNNING)
      (demo_target [''http://a/'']) demo_scope [(STAGE_DISCOVERY, demo_task)] run_state0 = Inr st \<and>
    ru_discovered st = [''http://a/x''] \<and> ru_obs st = [demo_page_obs]"
    by (simp add: run_task_def run_engine_def run_request_def task_seeds_def demo_target_def engine_calls_def
        demo_crawler_def demo_adapter_def demo_entry_def collect_discovered_def demo_page_obs_def demo_page_def
        validation_evidence_def pget_def run_state0_def demo_task_def demo_scope_allows MAX_DISCOVERED_def Let_def)
  then show thesis using that by blast
qed

theorem fed_urls_in_scope_witness:
  "\<exists>st. set (task_seeds STAGE_AUDIT demo_task st) = {''http://a/'', ''http://a/x''} \<and>
     scope_allows (\<lambda>_ _. Inr False) demo_scope ''http://a/x'' None = Inr True \<and>
     length (task_seeds STAGE_AUDIT demo_task st) \<le> 40"
proof (rule demo_crawl)
  fix st
  assume st: "run_tasks (\<lambda>_ _. Inr False) (\<lambda>_. ''r'') (\<lambda>_. Some demo_crawler) (demo_scan RUNNING)
      (demo_target [''http://a/'']) demo_scope [(STAGE_DISCOVERY, demo_task)] run_state0 = Inr st"
    "ru_discovered st = [''http://a/x'']"
  have seeds: "set (task_seeds STAGE_AUDIT demo_task st) = {''http://a/'', ''http://a/x''}"
    using st(2) by (auto simp: task_seeds_def demo_task_def merge_seeds_def MAX_FED_SEEDS_def)
  have new: "''http://a/x'' \<in> set (task_seeds STAGE_AUDIT demo_task st)" "''http://a/x'' \<notin> set (pt_seed_urls demo_task)"
    using seeds by (simp_all add: demo_task_def)
  from fed_urls_in_scope [OF st(1) new] have
    "scope_allows (\<lambda>_ _. Inr False) demo_scope ''http://a/x'' None = Inr True"
    "length (task_seeds STAGE_AUDIT demo_task st) \<le> max MAX_FED_SEEDS (Suc (length (pt_seed_urls demo_task)))" by auto
  with seeds show ?thesis by (intro exI [of _ st]) (simp add: MAX_FED_SEEDS_def demo_task_def)
qed

theorem caps_exceeded_by_one_witness:
  "collect_discovered (\<lambda>_ _. Inr False) [demo_page_obs] demo_scope (replicate 60 ''http://a/'') 60 =
     Inr (replicate 60 ''http://a/'' @ [''http://a/x''])"
  using caps_exceeded_by_one [OF demo_scope_allows, of "replicate 60 ''http://a/''" demo_page demo_page_obs
      "replicate 40 ''http://a/''"]
  by (simp add: MAX_DISCOVERED_def MAX_FED_SEEDS_def demo_page_def demo_page_obs_def validation_evidence_def pget_def)

theorem coverage_of_observations_witness:
  "\<exists>st :: RunState. ru_obs st = [demo_page_obs] \<and> seen (observation_key demo_page_obs) ''xss'' (ru_kb st)"
proof (rule demo_crawl)
  fix st
  assume st: "run_tasks (\<lambda>_ _. Inr False) (\<lambda>_. ''r'') (\<lambda>_. Some demo_crawler) (demo_scan RUNNING)
      (demo_target [''http://a/'']) demo_scope [(STAGE_DISCOVERY, demo_task)] run_state0 = Inr st"
    "ru_obs st = [demo_page_obs]"
  from coverage_of_observations [OF st(1), of "observation_key demo_page_obs" "''xss''"] st(2)
  have "seen (observation_key demo_page_obs) ''xss'' (ru_kb st)"
    by (simp add: demo_page_obs_def demo_obs_def)
  with st(2) show ?thesis by blast
qed

text \<open>A deployment without engines.\<close>

definition demo_bare :: "(unit, unit, unit) Orchestrator" where
  "demo_bare = Orchestrator_init (EngineRegistry_init demo_policy) None None None True None None"

theorem run_engines_all_bound_witness:
  "\<exists>rep w'. run demo_outside demo_bare (demo_scan CREATED) (demo_target [''http://a/'']) demo_world = (Inr rep, w') \<and>
     rp_engines_failed rep = []"
proof -
  have none: "staged_tasks ((plan_scan ids now (or_planner_config demo_bare) (engines_for (or_registry demo_bare))
      (demo_target [''http://a/'']) (demo_scan_policy STANDARD) [''http://a/''])\<lparr>plan_scan_id := i\<rparr>) = []" for ids now i
    by code_simp
  have "\<exists>rep w'. run demo_outside demo_bare (demo_scan CREATED) (demo_target [''http://a/'']) demo_world =
      (Inr rep, w') \<and> s_state (rp_scan rep) = COMPLETED"
  proof (rule run_returns [OF demo_ready(1) _ demo_ready(4) _ _ demo_ready(6,7)])
    fix ids now run_ids now' plan and s :: Scan
    assume "plan = (plan_scan ids now (or_planner_config demo_bare) (engines_for (or_registry demo_bare))
        (demo_target [''http://a/'']) (s_policy (demo_scan CREATED)) (t_base_urls (demo_target [''http://a/''])))
        \<lparr>plan_scan_id := s_id (demo_scan CREATED)\<rparr>"
    then have "staged_tasks plan = []"
      using none [where ids = ids and now = now and i = "''s''"] by (simp add: demo_scan_def demo_target_def)
    then show "\<exists>st. run_tasks (out_search demo_outside) run_ids (adapter_for (or_registry demo_bare)) s
        (demo_target [''http://a/'']) (ScopeEngine_init now' (demo_target [''http://a/''])) (staged_tasks plan)
        run_state0 = Inr st \<and> distinct (map obs_id (ru_obs st)) \<and>
        obs_id ` set (ru_obs st) \<inter> or_id ` set (db_observations (w_db demo_world)) = {}"
      by (simp add: run_state0_def)
  qed (simp_all add: demo_ready demo_bare_def Orchestrator_init_def assess_def NullProvider_def)
  then obtain rep w' where r: "run demo_outside demo_bare (demo_scan CREATED) (demo_target [''http://a/'']) demo_world =
      (Inr rep, w')" by blast
  have "registry_reachable demo_policy (or_registry demo_bare)"
    by (simp add: demo_bare_def Orchestrator_init_def registry_reachable.init)
  from run_engines_all_bound [OF this demo_ready(1) r] r show ?thesis by blast
qed

end
