(* ===== verification/Http_Client.thy ===== *)
theory Http_Client
  imports Scope Risk
begin

text \<open>
  The scope-enforcing HTTP client of the native engines (\<open>vantage/adapters/http.py\<close>).  The network
  below it (\<open>httpx\<close>), the monotonic clock and the decoding of response bytes by the name of a codec
  are the fields of a record; a client counts its clock readings and keeps what it put on the wire.
  A client is used by one task at a time, so its lock and its semaphore never block.
\<close>

definition DEFAULT_MAX_BODY :: nat where
  "DEFAULT_MAX_BODY = 4 * 1024 * 1024"

definition DEFAULT_UA :: string where
  "DEFAULT_UA = ''VantageDAST/0.1 (+authorized-security-testing)''"

record FetchResult =
  ft_url :: string
  ft_status :: int
  ft_headers :: "(string, string) dict"
  ft_body :: string
  ft_elapsed_ms :: rat
  ft_error :: "string option"
  ft_out_of_scope :: bool

definition fetch_ok :: "FetchResult \<Rightarrow> bool" where
  "fetch_ok r \<longleftrightarrow> ft_error r = None \<and> \<not> ft_out_of_scope r"

subsection \<open>The token bucket\<close>

record TokenBucket =
  tb_rate :: rat
  tb_tokens :: rat
  tb_updated :: rat

definition TokenBucket_init :: "rat \<Rightarrow> rat \<Rightarrow> TokenBucket" where
  "TokenBucket_init now rate_per_sec =
     (let rate = max rate_per_sec (fl (1/10)) in \<lparr>tb_rate = rate, tb_tokens = rate, tb_updated = now\<rparr>)"

text \<open>One \<open>take\<close> at the clock reading \<open>now\<close>: how long it sleeps, and the bucket it leaves.\<close>

definition bucket_take :: "rat \<Rightarrow> TokenBucket \<Rightarrow> rat \<times> TokenBucket" where
  "bucket_take now b =
     (let refill = fmul (fl (now - tb_updated b)) (tb_rate b);
          tokens = min (tb_rate b) (fl (tb_tokens b + refill));
          b = b\<lparr>tb_updated := now\<rparr>
      in if tokens < 1 then (fl (fl (1 - tokens) / tb_rate b), b\<lparr>tb_tokens := 0\<rparr>)
         else (0, b\<lparr>tb_tokens := fl (tokens - 1)\<rparr>))"

subsection \<open>The client\<close>

record WireResponse =
  wr_url :: string
  wr_status :: int
  wr_headers :: "(string, string) dict"
  wr_content :: string
  wr_encoding :: "string option"

text \<open>The network answers the n-th request; the clock gives the n-th reading.\<close>

record Network =
  nw_request :: "nat \<Rightarrow> string \<Rightarrow> string \<Rightarrow> (string, string) dict option \<Rightarrow> string option \<Rightarrow> WireResponse res"
  nw_monotonic :: "nat \<Rightarrow> rat"
  nw_decode :: "string \<Rightarrow> string \<Rightarrow> string res"

record ScopedHttpClient =
  hc_scope :: ScopeEngine
  hc_bucket :: TokenBucket
  hc_concurrency :: int
  hc_max_body :: nat
  hc_timeout :: rat
  hc_ua :: string
  hc_open :: bool
  hc_ticks :: nat
  hc_sent :: "(string \<times> string) list"

definition ScopedHttpClient_init :: "Network \<Rightarrow> ScopeEngine \<Rightarrow> rat \<Rightarrow> int \<Rightarrow> ScopedHttpClient" where
  "ScopedHttpClient_init net scope rate_per_sec concurrency =
     \<lparr>hc_scope = scope, hc_bucket = TokenBucket_init (nw_monotonic net 0) rate_per_sec,
      hc_concurrency = concurrency, hc_max_body = DEFAULT_MAX_BODY, hc_timeout = 20, hc_ua = DEFAULT_UA,
      hc_open = False, hc_ticks = 1, hc_sent = []\<rparr>"

definition ensure_client :: "ScopedHttpClient \<Rightarrow> ScopedHttpClient" where
  "ensure_client c = c\<lparr>hc_open := True\<rparr>"

definition client_aclose :: "ScopedHttpClient \<Rightarrow> ScopedHttpClient" where
  "client_aclose c = c\<lparr>hc_open := False\<rparr>"

fun exn_text :: "exn \<Rightarrow> string" where
  "exn_text (ValueError s) = s"
| "exn_text (KeyError s) = repr_str s"
| "exn_text (TypeError s) = s"
| "exn_text (AttributeError s) = s"
| "exn_text (RegexError s) = s"
| "exn_text (RuntimeError s) = s"
| "exn_text (IllegalTransition s) = s"
| "exn_text (AdapterError s) = s"
| "exn_text (ValidationError s) = s"

definition failed_fetch :: "string \<Rightarrow> rat \<Rightarrow> bool \<Rightarrow> string \<Rightarrow> FetchResult" where
  "failed_fetch url elapsed out_of_scope error =
     \<lparr>ft_url = url, ft_status = 0, ft_headers = [], ft_body = [], ft_elapsed_ms = elapsed,
      ft_error = Some error, ft_out_of_scope = out_of_scope\<rparr>"

definition read_response :: "Network \<Rightarrow> nat \<Rightarrow> rat \<Rightarrow> WireResponse \<Rightarrow> FetchResult res" where
  "read_response net max_body elapsed resp =
     bind_res (nw_decode net (osor (wr_encoding resp) ''utf-8'') (take max_body (wr_content resp)))
       (\<lambda>body. Inr \<lparr>ft_url = wr_url resp, ft_status = wr_status resp, ft_headers = wr_headers resp,
                    ft_body = body, ft_elapsed_ms = elapsed, ft_error = None, ft_out_of_scope = False\<rparr>)"

definition scoped_fetch ::
  "regex_search \<Rightarrow> Network \<Rightarrow> string \<Rightarrow> string \<Rightarrow> (string, string) dict option \<Rightarrow> string option \<Rightarrow>
   ScopedHttpClient \<Rightarrow> FetchResult res \<times> ScopedHttpClient" where
  "scoped_fetch re_search net mth url headers body c =
     (case scope_check re_search (hc_scope c) url (Some mth) of
        Inl e \<Rightarrow> (Inl e, c)
      | Inr decision \<Rightarrow>
          if \<not> sd_allowed decision then (Inr (failed_fetch url 0 True (sd_reason decision)), c)
          else
            (let c = ensure_client c;
                 n = hc_ticks c;
                 c = c\<lparr>hc_bucket := snd (bucket_take (nw_monotonic net n) (hc_bucket c))\<rparr>;
                 elapsed = fmul (fl (nw_monotonic net (n + 2) - nw_monotonic net (n + 1))) 1000;
                 answer = bind_res (nw_request net (length (hc_sent c)) mth url headers body)
                            (read_response net (hc_max_body c) elapsed);
                 c = c\<lparr>hc_ticks := n + 3, hc_sent := hc_sent c @ [(mth, url)]\<rparr>
             in (case answer of Inl e \<Rightarrow> Inr (failed_fetch url elapsed False (exn_text e)) | Inr r \<Rightarrow> Inr r, c)))"

subsection \<open>The client of the tests\<close>

record FakeHttpClient =
  fk_responses :: "(string, FetchResult) dict"
  fk_scope :: "ScopeEngine option"
  fk_calls :: "(string \<times> string) list"

definition fake_fetch ::
  "regex_search \<Rightarrow> string \<Rightarrow> string \<Rightarrow> (string, string) dict option \<Rightarrow> string option \<Rightarrow> FakeHttpClient \<Rightarrow>
   FetchResult res \<times> FakeHttpClient" where
  "fake_fetch re_search mth url headers body c =
     (let c = c\<lparr>fk_calls := fk_calls c @ [(mth, url)]\<rparr>;
          found = (case dget (fk_responses c) url of
                     None \<Rightarrow> \<lparr>ft_url = url, ft_status = 404, ft_headers = [], ft_body = [],
                              ft_elapsed_ms = 0, ft_error = None, ft_out_of_scope = False\<rparr>
                   | Some r \<Rightarrow> r)
      in (case fk_scope c of
            None \<Rightarrow> Inr found
          | Some scope \<Rightarrow> bind_res (scope_allows re_search scope url (Some mth)) (\<lambda>allowed.
              Inr (if \<not> allowed then failed_fetch url 0 True ''out of scope'' else found)), c))"

subsection \<open>What an engine may rely on\<close>

text \<open>
  \<open>HttpClient\<close>: \<open>fetch\<close> with the client as its state; \<open>allowed\<close> says which requests it may answer.
\<close>

type_synonym 'c fetch =
  "string \<Rightarrow> string \<Rightarrow> (string, string) dict option \<Rightarrow> string option \<Rightarrow> 'c \<Rightarrow> FetchResult res \<times> 'c"

definition http_get :: "'c fetch \<Rightarrow> string \<Rightarrow> 'c \<Rightarrow> FetchResult res \<times> 'c" where
  "http_get fetch url c = fetch ''GET'' url None None c"

text \<open>
  The loop of the passive analyzers: each URL is fetched once, an answer that is not \<open>ok\<close> is
  skipped, an exception ends the loop.
\<close>

fun visit ::
  "'c fetch \<Rightarrow> (FetchResult \<Rightarrow> 'o list res) \<Rightarrow> string list \<Rightarrow> 'c \<Rightarrow> 'o list res \<times> 'c" where
  "visit fetch page [] c = (Inr [], c)"
| "visit fetch page (url # urls) c =
     (case http_get fetch url c of
        (Inl e, c) \<Rightarrow> (Inl e, c)
      | (Inr res, c) \<Rightarrow>
          if \<not> fetch_ok res then visit fetch page urls c
          else (case page res of
                  Inl e \<Rightarrow> (Inl e, c)
                | Inr obs \<Rightarrow>
                    (case visit fetch page urls c of
                       (Inl e, c) \<Rightarrow> (Inl e, c)
                     | (Inr rest, c) \<Rightarrow> (Inr (obs @ rest), c))))"

text \<open>
  The page behind an observation: what the client answers for \<open>url\<close>, one of the URLs of the loop, in the state the
  URLs before it have left it in.
\<close>

definition page_of ::
  "'c fetch \<Rightarrow> (FetchResult \<Rightarrow> 'o list res) \<Rightarrow> string list \<Rightarrow> 'c \<Rightarrow> string \<Rightarrow> 'c \<Rightarrow> FetchResult \<Rightarrow> bool" where
  "page_of fetch page urls c url c1 r \<longleftrightarrow>
     (\<exists>pre post before c2. urls = pre @ url # post \<and> visit fetch page pre c = (Inr before, c1) \<and>
        http_get fetch url c1 = (Inr r, c2) \<and> fetch_ok r)"

lemma page_of_hd: "http_get fetch url c = (Inr r, c2) \<Longrightarrow> fetch_ok r \<Longrightarrow> page_of fetch page (url # urls) c url c r"
  unfolding page_of_def by (intro exI [of _ "[]"] exI [of _ urls] exI [of _ c2]) simp

lemma page_of_tl:
  assumes "page_of fetch page urls c1 url d r" and "http_get fetch u c = (Inr res, c1)"
    and "fetch_ok res \<Longrightarrow> \<exists>found. page res = Inr found"
  shows "page_of fetch page (u # urls) c url d r"
proof -
  from assms(1) obtain pre post before c2 where p: "urls = pre @ url # post"
    "visit fetch page pre c1 = (Inr before, d)" "http_get fetch url d = (Inr r, c2)" "fetch_ok r"
    unfolding page_of_def by blast
  have "\<exists>before'. visit fetch page (u # pre) c = (Inr before', d)"
    using assms(2,3) p(2) by (cases "fetch_ok res") auto
  then obtain before' where v: "visit fetch page (u # pre) c = (Inr before', d)" ..
  show ?thesis
    unfolding page_of_def
    by (intro exI [of _ "u # pre"] exI [of _ post] exI [of _ before'] exI [of _ c2]) (use p v in simp)
qed

lemma visit_fetched:
  assumes "visit fetch page urls c = (Inr obs, c')" and "x \<in> set obs"
  shows "\<exists>url c1 r found. url \<in> set urls \<and> page_of fetch page urls c url c1 r \<and> page r = Inr found \<and> x \<in> set found"
  using assms
proof (induction urls arbitrary: c obs)
  case (Cons url urls)
  obtain r c1 where f: "http_get fetch url c = (r, c1)" by fastforce
  obtain res where r: "r = Inr res" using Cons.prems(1) f by (cases r) auto
  note f = f [unfolded r]
  show ?case
  proof (cases "fetch_ok res")
    case False
    then have "visit fetch page urls c1 = (Inr obs, c')" using Cons.prems(1) f by simp
    from Cons.IH [OF this Cons.prems(2)] page_of_tl [OF _ f] False show ?thesis by fastforce
  next
    case True
    with Cons.prems(1) f obtain found rest where p: "page res = Inr found"
      and v: "visit fetch page urls c1 = (Inr rest, c')" and obs: "obs = found @ rest"
      by (auto split: sum.splits prod.splits)
    show ?thesis
    proof (cases "x \<in> set found")
      case True
      with p page_of_hd [OF f \<open>fetch_ok res\<close>] show ?thesis by fastforce
    next
      case False
      with Cons.prems(2) obs have "x \<in> set rest" by simp
      from Cons.IH [OF v this] page_of_tl [OF _ f] p show ?thesis by fastforce
    qed
  qed
qed simp

locale http_client =
  fixes fetch :: "'c fetch"
    and allowed :: "'c \<Rightarrow> string \<Rightarrow> string \<Rightarrow> bool"
  assumes answered_allowed:
      "fetch mth url headers body c = (Inr r, c') \<Longrightarrow> fetch_ok r \<Longrightarrow> allowed c mth url"
    and allowed_kept: "fetch mth url headers body c = (answer, c') \<Longrightarrow> allowed c' = allowed c"
begin

lemma visit_kept: "visit fetch page urls c = (r, c') \<Longrightarrow> allowed c' = allowed c"
proof (induction urls arbitrary: c r)
  case (Cons url urls)
  obtain q c1 where f: "http_get fetch url c = (q, c1)" by fastforce
  then have "allowed c1 = allowed c" unfolding http_get_def by (rule allowed_kept)
  with Cons f show ?case by (auto split: sum.splits prod.splits if_splits)
qed simp

lemma page_of_allowed:
  assumes "page_of fetch page urls c url c1 r"
  shows "allowed c ''GET'' url"
proof -
  from assms obtain pre post before c2 where p: "visit fetch page pre c = (Inr before, c1)"
    "http_get fetch url c1 = (Inr r, c2)" "fetch_ok r"
    unfolding page_of_def by blast
  from p(2,3) have "allowed c1 ''GET'' url" unfolding http_get_def by (rule answered_allowed)
  then show ?thesis unfolding visit_kept [OF p(1)] .
qed

end


subsection \<open>The token bucket stays in bounds\<close>

text \<open>A rate is a float: rounding leaves it alone.\<close>

definition bucket_ok :: "TokenBucket \<Rightarrow> bool" where
  "bucket_ok b \<longleftrightarrow> fl (tb_rate b) = tb_rate b \<and> fl (1/10) \<le> tb_rate b \<and>
     0 \<le> tb_tokens b \<and> tb_tokens b \<le> tb_rate b"

lemma fl_tenth: "fl (fl (1/10)) = fl (1/10)" "0 < fl (1/10)"
  by code_simp+

lemma bucket_ok_init: "fl rate = rate \<Longrightarrow> bucket_ok (TokenBucket_init now rate)"
  using fl_tenth by (auto simp: bucket_ok_def TokenBucket_init_def Let_def max_def)

lemma bucket_take_ok:
  assumes ok: "bucket_ok b" and now: "tb_updated b \<le> now"
  shows "bucket_ok (snd (bucket_take now b))" "tb_updated (snd (bucket_take now b)) = now"
    "tb_rate (snd (bucket_take now b)) = tb_rate b"
    "0 \<le> fst (bucket_take now b)" "fst (bucket_take now b) \<le> fl (1 / tb_rate b)"
proof -
  have r: "0 < tb_rate b" using ok fl_tenth(2) unfolding bucket_ok_def by linarith
  define tokens where
    "tokens = min (tb_rate b) (fl (tb_tokens b + fmul (fl (now - tb_updated b)) (tb_rate b)))"
  have t: "0 \<le> tokens" "tokens \<le> tb_rate b"
    using ok now r by (auto simp: tokens_def bucket_ok_def fl_nonneg fmul_nonneg)
  have take: "bucket_take now b =
      (if tokens < 1 then (fl (fl (1 - tokens) / tb_rate b), b\<lparr>tb_updated := now, tb_tokens := 0\<rparr>)
       else (0, b\<lparr>tb_updated := now, tb_tokens := fl (tokens - 1)\<rparr>))"
    by (simp add: bucket_take_def tokens_def Let_def)
  have "0 \<le> fl (tokens - 1) \<and> fl (tokens - 1) \<le> tb_rate b" if "1 \<le> tokens"
    using that t ok fl_mono [of "tokens - 1" "tb_rate b"] by (simp add: fl_nonneg bucket_ok_def)
  then show "bucket_ok (snd (bucket_take now b))"
    using ok r by (simp add: take bucket_ok_def)
  show "tb_updated (snd (bucket_take now b)) = now" "tb_rate (snd (bucket_take now b)) = tb_rate b"
    by (simp_all add: take)
  have "0 \<le> fl (1 - tokens) \<and> fl (1 - tokens) \<le> 1" if "tokens < 1"
    using that t fl_mono [of "1 - tokens" 1] fl_1 by (simp add: fl_nonneg)
  then show "0 \<le> fst (bucket_take now b)" "fst (bucket_take now b) \<le> fl (1 / tb_rate b)"
    using r by (auto simp: take fl_nonneg intro!: fl_mono divide_right_mono)
qed

text \<open>Callers that ask again as soon as the last request went out, and when theirs go out.\<close>

fun back_to_back :: "nat \<Rightarrow> rat \<Rightarrow> TokenBucket \<Rightarrow> rat list" where
  "back_to_back 0 now b = []"
| "back_to_back (Suc n) now b =
     (case bucket_take now b of (wait, b') \<Rightarrow> fl (now + wait) # back_to_back n (fl (now + wait)) b')"

lemma fl_of_int: "0 \<le> n \<Longrightarrow> n < 2 ^ 53 \<Longrightarrow> fl (of_int n) = of_int n"
proof (cases "n = 0")
  case False
  assume n: "0 \<le> n" "n < 2 ^ 53"
  define x :: rat where "x = of_int n"
  have x: "1 \<le> x" "x < 2 ^ 53" using n False of_int_less_iff [of n "2 ^ 53", where ?'a = rat]
    by (simp_all add: x_def)
  then have "2 powi ilog2 x < (2::rat) powi 53" "(2::rat) powi 0 < 2 powi (ilog2 x + 1)"
    using ilog2_bounds [of x] by simp_all
  then have e: "0 \<le> ilog2 x" "ilog2 x \<le> 52" by (simp_all only: two_powi_less_iff)
  have u: "ulp x = 1 / 2 ^ nat (52 - ilog2 x)"
    using e by (simp add: ulp_def power_int_def power_one_over)
  then have r: "x / ulp x = of_int (n * 2 ^ nat (52 - ilog2 x))" by (simp add: x_def)
  have "fl_pos x = of_int (n * 2 ^ nat (52 - ilog2 x)) * ulp x"
    by (simp only: fl_pos_def r round_half_even_of_int)
  also have "\<dots> = x" unfolding u by (simp add: x_def)
  finally have "fl_pos x = x" .
  with x show ?thesis by (simp add: fl_def x_def)
qed simp

lemmas fl_of_nat = fl_of_int [of "int n" for n, simplified]

text \<open>
  The time slept is credited to the bucket a second time, by the next caller: at one request per
  second, two requests go out in every second.
\<close>

lemma back_to_back_idle:
  assumes "t + n < 2 ^ 52"
  shows "back_to_back (2 * n) (of_nat t) \<lparr>tb_rate = 1, tb_tokens = 0, tb_updated = of_nat t\<rparr> =
    concat (List.map (\<lambda>i. [of_nat (t + i + 1), of_nat (t + i + 1)]) [0..<n])"
  using assms
proof (induction n arbitrary: t)
  case (Suc n)
  have fl: "fl (of_nat t + 1) = of_nat t + 1" using fl_of_nat [of "t + 1"] Suc.prems by (simp add: add.commute)
  have "concat (List.map (\<lambda>i. [of_nat (t + i + 1), of_nat (t + i + 1)]) [0..<Suc n]) =
      [of_nat t + 1, of_nat t + 1] @
      concat (List.map (\<lambda>i. [of_nat (Suc t + i + 1), of_nat (Suc t + i + 1) :: rat]) [0..<n])"
    unfolding upt_conv_Cons [OF zero_less_Suc] map_Suc_upt [symmetric] by (simp add: comp_def add_ac)
  then show ?case
    using Suc.IH [of "Suc t"] Suc.prems fl fl_1
    by (simp add: bucket_take_def fmul_def add.commute)
qed simp

lemma bucket_doubles_rate:
  assumes "n < 2 ^ 52"
  shows "back_to_back (Suc (2 * n)) 0 (TokenBucket_init 0 1) =
    0 # concat (List.map (\<lambda>i. [of_nat (i + 1), of_nat (i + 1)]) [0..<n])"
proof -
  have "max 1 (fl (1 / 10)) = 1" using fl_mono [of "1 / 10" 1] fl_1 by simp
  then show ?thesis
    using back_to_back_idle [of 0 n] assms fl_1
    by (simp add: TokenBucket_init_def bucket_take_def fmul_def)
qed

subsection \<open>Only requests in scope reach the network\<close>

definition scope_permits :: "regex_search \<Rightarrow> ScopeEngine \<Rightarrow> string \<Rightarrow> string \<Rightarrow> bool" where
  "scope_permits re_search scope mth url \<longleftrightarrow> scope_allows re_search scope url (Some mth) = Inr True"

lemma scope_check_allows:
  "scope_check re_search scope url m = Inr d \<Longrightarrow> scope_allows re_search scope url m = Inr (sd_allowed d)"
  by (simp add: scope_allows_def)

lemma case_answered: "\<exists>x. (case a of Inl e \<Rightarrow> Inr (f e) | Inr y \<Rightarrow> Inr y) = Inr x"
  by (cases a) auto

lemma scoped_fetch_cases:
  assumes "scoped_fetch re_search net mth url headers body c = (r, c')"
  shows "(scope_permits re_search (hc_scope c) mth url \<and> hc_sent c' = hc_sent c @ [(mth, url)] \<and>
      hc_ticks c' = hc_ticks c + 3 \<and>
      hc_bucket c' = snd (bucket_take (nw_monotonic net (hc_ticks c)) (hc_bucket c)) \<and>
      hc_scope c' = hc_scope c \<and> hc_max_body c' = hc_max_body c \<and> (\<exists>x. r = Inr x)) \<or>
    (c' = c \<and> (\<forall>x. r = Inr x \<longrightarrow> \<not> fetch_ok x))"
proof (cases "scope_check re_search (hc_scope c) url (Some mth)")
  case (Inl e)
  with assms show ?thesis by (auto simp: scoped_fetch_def)
next
  case (Inr d)
  show ?thesis
  proof (cases "sd_allowed d")
    case False
    with assms Inr show ?thesis by (auto simp: scoped_fetch_def failed_fetch_def fetch_ok_def)
  next
    case True
    then have "scope_permits re_search (hc_scope c) mth url"
      using scope_check_allows [OF Inr] by (simp add: scope_permits_def)
    with assms Inr True show ?thesis
      by (auto simp: scoped_fetch_def Let_def ensure_client_def case_answered)
  qed
qed

interpretation scoped: http_client "scoped_fetch re_search net" "\<lambda>c. scope_permits re_search (hc_scope c)"
  for re_search net
proof
  fix mth url headers body c r c' answer
  show "scope_permits re_search (hc_scope c) mth url"
    if "scoped_fetch re_search net mth url headers body c = (Inr r, c')" and "fetch_ok r"
    using scoped_fetch_cases [OF that(1)] that(2) by blast
  show "scope_permits re_search (hc_scope c') = scope_permits re_search (hc_scope c)"
    if "scoped_fetch re_search net mth url headers body c = (answer, c')"
    using scoped_fetch_cases [OF that] by (elim disjE conjE) simp_all
qed

lemma scoped_visit_sent:
  assumes "visit (scoped_fetch re_search net) page urls c = (r, c')"
  shows "hc_scope c' = hc_scope c \<and> (\<exists>sent. hc_sent c' = hc_sent c @ sent \<and>
    list_all (\<lambda>(mth, url). mth = ''GET'' \<and> url \<in> set urls \<and> scope_permits re_search (hc_scope c) mth url) sent)"
  using assms
proof (induction urls arbitrary: c r)
  case (Cons url urls)
  obtain q c1 where f: "http_get (scoped_fetch re_search net) url c = (q, c1)" by fastforce
  then have 1: "hc_scope c1 = hc_scope c" "\<exists>sent. hc_sent c1 = hc_sent c @ sent \<and>
      list_all (\<lambda>(mth, u). mth = ''GET'' \<and> u = url \<and> scope_permits re_search (hc_scope c) mth u) sent"
    using scoped_fetch_cases unfolding http_get_def by fastforce+
  have "c' = c1 \<or> (\<exists>r'. visit (scoped_fetch re_search net) page urls c1 = (r', c'))"
    using Cons.prems f by (auto split: sum.splits prod.splits if_splits)
  then show ?case
  proof
    assume "c' = c1"
    with 1 show ?thesis by (auto simp: list_all_iff)
  next
    assume "\<exists>r'. visit (scoped_fetch re_search net) page urls c1 = (r', c')"
    then obtain r' where "visit (scoped_fetch re_search net) page urls c1 = (r', c')" ..
    from Cons.IH [OF this] 1 obtain s t where "hc_sent c1 = hc_sent c @ s" "hc_sent c' = hc_sent c1 @ t"
      "list_all (\<lambda>(mth, u). mth = ''GET'' \<and> u = url \<and> scope_permits re_search (hc_scope c) mth u) s"
      "list_all (\<lambda>(mth, u). mth = ''GET'' \<and> u \<in> set urls \<and> scope_permits re_search (hc_scope c) mth u) t"
      "hc_scope c' = hc_scope c" by auto
    then show ?thesis by (auto simp: list_all_iff)
  qed
qed simp

definition fake_allowed :: "regex_search \<Rightarrow> FakeHttpClient \<Rightarrow> string \<Rightarrow> string \<Rightarrow> bool" where
  "fake_allowed re_search c mth url \<longleftrightarrow>
     (case fk_scope c of None \<Rightarrow> True | Some scope \<Rightarrow> scope_permits re_search scope mth url)"

interpretation fake: http_client "fake_fetch re_search" "fake_allowed re_search" for re_search
  by unfold_locales
    (auto simp: fake_fetch_def fake_allowed_def fun_eq_iff Let_def bind_res_Inr_iff scope_permits_def
      failed_fetch_def fetch_ok_def split: option.splits if_splits)

text \<open>The clients that calls of \<open>fetch\<close> make of a new one.\<close>

inductive client_reachable ::
  "regex_search \<Rightarrow> Network \<Rightarrow> ScopedHttpClient \<Rightarrow> ScopedHttpClient \<Rightarrow> bool"
  for re_search net c0 where
  start: "client_reachable re_search net c0 c0"
| fetched: "client_reachable re_search net c0 c \<Longrightarrow>
    scoped_fetch re_search net mth url headers body c = (r, c') \<Longrightarrow> client_reachable re_search net c0 c'"
| closed: "client_reachable re_search net c0 c \<Longrightarrow> client_reachable re_search net c0 (client_aclose c)"

definition client_ok :: "regex_search \<Rightarrow> Network \<Rightarrow> ScopeEngine \<Rightarrow> rat \<Rightarrow> ScopedHttpClient \<Rightarrow> bool" where
  "client_ok re_search net scope rate c \<longleftrightarrow>
     hc_scope c = scope \<and> list_all (\<lambda>(mth, url). scope_permits re_search scope mth url) (hc_sent c) \<and>
     hc_ticks c = 1 + 3 * length (hc_sent c) \<and> bucket_ok (hc_bucket c) \<and> tb_rate (hc_bucket c) = rate \<and>
     tb_updated (hc_bucket c) \<le> nw_monotonic net (hc_ticks c)"

lemma client_ok_step:
  assumes ok: "client_ok re_search net scope rate c" and mono: "mono (nw_monotonic net)"
    and step: "scoped_fetch re_search net mth url headers body c = (r, c')"
  shows "client_ok re_search net scope rate c'"
  using scoped_fetch_cases [OF step]
proof (elim disjE conjE)
  assume sent: "scope_permits re_search (hc_scope c) mth url" "hc_sent c' = hc_sent c @ [(mth, url)]"
    "hc_ticks c' = hc_ticks c + 3" "hc_scope c' = hc_scope c"
    and b: "hc_bucket c' = snd (bucket_take (nw_monotonic net (hc_ticks c)) (hc_bucket c))"
  note take = bucket_take_ok [of "hc_bucket c" "nw_monotonic net (hc_ticks c)"]
  have "nw_monotonic net (hc_ticks c) \<le> nw_monotonic net (hc_ticks c + 3)"
    using mono by (simp add: monoD)
  moreover have "bucket_ok (hc_bucket c)" "tb_updated (hc_bucket c) \<le> nw_monotonic net (hc_ticks c)"
    using ok unfolding client_ok_def by blast+
  note take = take [OF this]
  ultimately show ?thesis using ok sent take by (simp add: client_ok_def b)
qed (use ok in blast)

lemma client_reachable_ok:
  assumes "mono (nw_monotonic net)" and "fl rate = rate"
    and "client_reachable re_search net (ScopedHttpClient_init net scope rate conc) c"
  shows "client_ok re_search net scope (max rate (fl (1/10))) c"
  using assms(3)
proof (induction rule: client_reachable.induct)
  case start
  have "nw_monotonic net 0 \<le> nw_monotonic net 1" using assms(1) by (simp add: monoD)
  then show ?case
    using bucket_ok_init [OF assms(2)]
    by (simp add: client_ok_def ScopedHttpClient_init_def TokenBucket_init_def Let_def)
next
  case (fetched c mth url headers body r c')
  then show ?case using client_ok_step [OF _ assms(1)] by blast
next
  case (closed c)
  have same: "hc_scope (client_aclose c) = hc_scope c" "hc_sent (client_aclose c) = hc_sent c"
    "hc_ticks (client_aclose c) = hc_ticks c" "hc_bucket (client_aclose c) = hc_bucket c"
    by (simp_all add: client_aclose_def)
  show ?case using closed.IH unfolding client_ok_def same .
qed


text \<open>
  C9: every client that calls of \<open>fetch\<close> and \<open>aclose\<close> make of a new one has put only requests on the
  wire that its scope engine allows, in the method it used, whatever the network answered; and its
  token bucket holds at least nothing and at most one second's worth of requests.
\<close>

theorem scoped_client_invariant:
  assumes "mono (nw_monotonic net)" and "fl rate = rate"
    and "client_reachable re_search net (ScopedHttpClient_init net scope rate conc) c"
  shows "list_all (\<lambda>(mth, url). scope_allows re_search scope url (Some mth) = Inr True) (hc_sent c) \<and>
    hc_scope c = scope \<and> 0 \<le> tb_tokens (hc_bucket c) \<and>
    tb_tokens (hc_bucket c) \<le> max rate (fl (1/10))"
  using client_reachable_ok [OF assms] unfolding client_ok_def bucket_ok_def scope_permits_def by simp

text \<open>
  C36: \<open>fetch\<close> answers whenever the scope engine does: a refusal names its reason and leaves the client
  alone, an exception of the network or of the codec becomes a result with status 0 and an error, and
  an answer reads at most the first \<open>max_body\<close> bytes of the body.
\<close>

theorem fetch_answers:
  assumes "scope_check re_search (hc_scope c) url (Some mth) = Inr d"
  shows "\<exists>r. fst (scoped_fetch re_search net mth url headers body c) = Inr r \<and>
    (if \<not> sd_allowed d
     then snd (scoped_fetch re_search net mth url headers body c) = c \<and> ft_out_of_scope r \<and>
       ft_error r = Some (sd_reason d) \<and> ft_status r = 0
     else (case nw_request net (length (hc_sent c)) mth url headers body of
             Inl e \<Rightarrow> ft_error r = Some (exn_text e) \<and> ft_status r = 0 \<and> ft_url r = url
           | Inr resp \<Rightarrow>
               (case nw_decode net (osor (wr_encoding resp) ''utf-8'') (take (hc_max_body c) (wr_content resp)) of
                  Inl e \<Rightarrow> ft_error r = Some (exn_text e) \<and> ft_status r = 0 \<and> ft_url r = url
                | Inr text \<Rightarrow> fetch_ok r \<and> ft_body r = text \<and> ft_status r = wr_status resp \<and>
                    ft_headers r = wr_headers resp \<and> ft_url r = wr_url resp)))"
  using assms
  by (auto simp: scoped_fetch_def Let_def ensure_client_def failed_fetch_def read_response_def fetch_ok_def
      split: sum.splits)

subsection \<open>Witnesses\<close>

definition demo_network :: Network where
  "demo_network = \<lparr>nw_request = (\<lambda>n mth url headers body. Inr \<lparr>wr_url = url, wr_status = 200,
       wr_headers = [(''server'', ''nginx/1.25'')], wr_content = ''hello'', wr_encoding = None\<rparr>),
     nw_monotonic = of_nat, nw_decode = (\<lambda>_ bytes. Inr bytes)\<rparr>"

definition demo_client :: ScopedHttpClient where
  "demo_client = ScopedHttpClient_init demo_network demo_engine 5 4"

definition demo_fetched :: "FetchResult res \<times> ScopedHttpClient" where
  "demo_fetched = scoped_fetch (\<lambda>_ _. Inr True) demo_network ''GET'' ''http://app.example/shop'' None None demo_client"

lemma demo_fetched_eq:
  "scoped_fetch (\<lambda>_ _. Inr True) demo_network ''GET'' ''http://app.example/shop'' None None demo_client =
     (fst demo_fetched, snd demo_fetched)"
  by (simp add: demo_fetched_def)

lemma demo_check:
  "scope_check (\<lambda>_ _. Inr True) demo_engine ''http://app.example/shop'' (Some ''GET'') =
     Inr \<lparr>sd_allowed = True, sd_reason = ''included by rule #1'', sd_matched_rule = Some 1\<rparr>"
  by code_simp

lemma demo_sent: "hc_sent (snd demo_fetched) = [(''GET'', ''http://app.example/shop'')]"
  using scoped_fetch_cases [OF demo_fetched_eq] demo_check
  by (simp add: demo_fetched_def demo_client_def ScopedHttpClient_init_def scoped_fetch_def Let_def ensure_client_def)

theorem scoped_client_invariant_witness:
  "hc_sent (snd demo_fetched) = [(''GET'', ''http://app.example/shop'')] \<and>
   list_all (\<lambda>(mth, url). scope_allows (\<lambda>_ _. Inr True) demo_engine url (Some mth) = Inr True)
     (hc_sent (snd demo_fetched)) \<and>
   hc_scope (snd demo_fetched) = demo_engine \<and> 0 \<le> tb_tokens (hc_bucket (snd demo_fetched)) \<and>
   tb_tokens (hc_bucket (snd demo_fetched)) \<le> max 5 (fl (1/10))"
proof (rule conjI [OF demo_sent], rule scoped_client_invariant [where net = demo_network and conc = 4])
  show "mono (nw_monotonic demo_network)" by (simp add: demo_network_def mono_def)
  show "fl (5 :: rat) = 5" using fl_of_nat [of 5] by simp
  show "client_reachable (\<lambda>_ _. Inr True) demo_network (ScopedHttpClient_init demo_network demo_engine 5 4)
     (snd demo_fetched)"
    using client_reachable.fetched [OF client_reachable.start demo_fetched_eq] unfolding demo_client_def .
qed

lemma demo_client_scope: "hc_scope demo_client = demo_engine"
  by (simp add: demo_client_def ScopedHttpClient_init_def)

theorem fetch_answers_witness:
  "\<exists>r. fst demo_fetched = Inr r \<and> fetch_ok r \<and> ft_body r = ''hello'' \<and> ft_status r = 200"
  using fetch_answers [OF demo_check [folded demo_client_scope], of demo_network None None]
  by (auto simp: demo_fetched_def demo_network_def demo_client_def ScopedHttpClient_init_def DEFAULT_MAX_BODY_def)

end
