(* ===== verification/Native.thy ===== *)
theory Native
  imports Http_Client Orchestrator
begin

text \<open>
  The base of the native engines (\<open>vantage/adapters/native/base.py\<close>) with the records of the adapter
  contract (\<open>vantage/engines/adapter.py\<close>).  The arguments of \<open>_new_observation\<close> are a record; the
  identifiers and times a run takes are functions of the number of the observation.  A client is the
  state of its \<open>fetch\<close>; dumping an observation and loading it again runs the validators of the model.
  Fields of the contract that a native engine leaves at their default (\<open>spec\<close>, \<open>workspace\<close>,
  \<open>sandbox\<close>, \<open>rejected_records\<close>, \<open>artifact\<close>, \<open>notes\<close>) are left out, and \<open>state\<close> is its one entry,
  the client.
\<close>

subsection \<open>Data of the contract\<close>

record NewEvidence =
  ne_kind :: EvidenceKind
  ne_summary :: string
  ne_matched :: "string list"
  ne_response :: "HttpMessage option"
  ne_data :: "(string \<times> pyval) list"

record NewObservation =
  na_detector_id :: string
  na_title :: string
  na_vuln_class :: string
  na_severity :: Severity
  na_cwe :: "int list"
  na_location :: Location
  na_description :: string
  na_remediation :: string
  na_evidence :: "NewEvidence list"

record 'c PreparedRun =
  pn_request :: EngineRunRequest
  pn_client :: "'c option"

record 'c ExecutionOutcome =
  eo_prepared :: "'c PreparedRun"
  eo_native_output :: "Observation list"

record RawResults =
  rw_engine_id :: string
  rw_engine_version :: string
  rw_format :: string
  rw_records :: "Observation list"

subsection \<open>NativeAdapter\<close>

definition FIRST_PARTY_LICENSE :: string where
  "FIRST_PARTY_LICENSE = ''LicenseRef-Vantage-Proprietary''"

definition NATIVE_VERSION :: string where
  "NATIVE_VERSION = ''0.1.0''"

record 'c NativeEngine =
  nv_engine_id :: string
  nv_engine_name :: string
  nv_capabilities :: "Capability list"
  nv_analyze :: "EngineRunRequest \<Rightarrow> 'c \<Rightarrow> NewObservation list res \<times> 'c"

record Stamps =
  st_ids :: "nat \<Rightarrow> nat \<Rightarrow> string"
  st_times :: "nat \<Rightarrow> int"

definition native_metadata :: "'c NativeEngine \<Rightarrow> EngineMetadata" where
  "native_metadata e =
     \<lparr>em_id = nv_engine_id e, em_name = nv_engine_name e, em_version = NATIVE_VERSION,
      em_vendor = ''Vantage DAST'', em_license_spdx = FIRST_PARTY_LICENSE, em_license_class = GREEN,
      em_approval_status = APPROVED, em_integration = NATIVE, em_capabilities = nv_capabilities e,
      em_image = None, em_homepage = None\<rparr>"

definition native_health :: "int \<Rightarrow> HealthStatus" where
  "native_health now = \<lparr>hs_state = HEALTHY, hs_detail = ''native engine'', hs_checked_at = now\<rparr>"

definition new_evidence :: "string \<Rightarrow> int \<Rightarrow> string \<Rightarrow> NewEvidence \<Rightarrow> Evidence" where
  "new_evidence eid now engine_id a =
     \<lparr>ev_id = eid, ev_kind = ne_kind a, ev_engine_id = engine_id, ev_summary = ne_summary a,
      ev_request = None, ev_response = map_option HttpMessage_validate (ne_response a),
      ev_matched = ne_matched a, ev_artifact_refs = [], ev_data = ne_data a, ev_captured_at = now\<rparr>"

definition new_observation ::
  "Stamps \<Rightarrow> 'c NativeEngine \<Rightarrow> EngineRunRequest \<Rightarrow> nat \<Rightarrow> NewObservation \<Rightarrow> Observation" where
  "new_observation st e request n a =
     \<lparr>obs_id = st_ids st n 0, obs_scan_id = rq_scan_id request, obs_run_id = rq_run_id request,
      obs_engine_id = nv_engine_id e, obs_engine_version = NATIVE_VERSION,
      obs_detector_id = na_detector_id a, obs_title = na_title a, obs_vuln_class = na_vuln_class a,
      obs_severity = na_severity a, obs_confidence = TENTATIVE, obs_cwe = na_cwe a,
      obs_location = na_location a, obs_description = na_description a,
      obs_remediation = na_remediation a, obs_references = [],
      obs_evidence = List.map (\<lambda>(i, ev). new_evidence (st_ids st n (Suc i)) (st_times st n) (nv_engine_id e) ev)
                       (enumerate 0 (na_evidence a)),
      obs_raw_ref = None, obs_observed_at = st_times st n\<rparr>"

definition Evidence_validate :: "Evidence \<Rightarrow> Evidence" where
  "Evidence_validate ev =
     ev\<lparr>ev_request := map_option HttpMessage_validate (ev_request ev),
        ev_response := map_option HttpMessage_validate (ev_response ev)\<rparr>"

definition Observation_validate :: "Observation \<Rightarrow> Observation" where
  "Observation_validate ob =
     ob\<lparr>obs_location := Location_validate (obs_location ob),
        obs_evidence := List.map Evidence_validate (obs_evidence ob)\<rparr>"

definition native_prepare ::
  "(EngineRunRequest \<Rightarrow> 'c res) \<Rightarrow> EngineRunRequest \<Rightarrow> 'c PreparedRun res" where
  "native_prepare client_factory request =
     bind_res (client_factory request) (\<lambda>client.
       Inr \<lparr>pn_request = request, pn_client = Some client\<rparr>)"

definition native_execute ::
  "Stamps \<Rightarrow> 'c NativeEngine \<Rightarrow> 'c PreparedRun \<Rightarrow> 'c ExecutionOutcome res" where
  "native_execute st e prepared =
     (case pn_client prepared of
        None \<Rightarrow> Inl (KeyError ''client'')
      | Some client \<Rightarrow>
          bind_res (fst (nv_analyze e (pn_request prepared) client)) (\<lambda>found.
            Inr \<lparr>eo_prepared = prepared,
                 eo_native_output = List.map (\<lambda>(n, a). new_observation st e (pn_request prepared) n a)
                                      (enumerate 0 found)\<rparr>))"

definition native_collect :: "'c NativeEngine \<Rightarrow> 'c ExecutionOutcome \<Rightarrow> RawResults" where
  "native_collect e outcome =
     \<lparr>rw_engine_id = nv_engine_id e, rw_engine_version = NATIVE_VERSION,
      rw_format = ''vantage.observations'', rw_records = eo_native_output outcome\<rparr>"

definition native_normalize :: "RawResults \<Rightarrow> EngineRunRequest \<Rightarrow> Observation list" where
  "native_normalize raw request = List.map Observation_validate (rw_records raw)"

definition native_adapter ::
  "Stamps \<Rightarrow> int \<Rightarrow> (EngineRunRequest \<Rightarrow> 'c res) \<Rightarrow> 'c NativeEngine \<Rightarrow>
   ('c PreparedRun, 'c ExecutionOutcome, RawResults) EngineAdapter" where
  "native_adapter st now client_factory e =
     \<lparr>ad_metadata = native_metadata e,
      ad_health_check = Inr (native_health now),
      ad_prepare_target = native_prepare client_factory,
      ad_execute_scan = native_execute st e,
      ad_collect_results = (\<lambda>outcome. Inr (native_collect e outcome)),
      ad_normalize_results = (\<lambda>raw request. Inr (native_normalize raw request)),
      ad_cleanup = (\<lambda>prepared. Inr ())\<rparr>"

definition default_client_factory :: "Network \<Rightarrow> EngineRunRequest \<Rightarrow> ScopedHttpClient res" where
  "default_client_factory net request =
     bind_res (map_res ScopeRule_validate (rq_scope_rules request)) (\<lambda>rules.
       Inr (ScopedHttpClient_init net (from_rules rules True)
              (rq_max_requests_per_second request) (rq_max_concurrency request)))"

text \<open>\<open>vantage-validator\<close> (\<open>native/validator.py\<close>): it finds nothing of its own.\<close>

definition ValidatorAdapter :: "'c NativeEngine" where
  "ValidatorAdapter =
     \<lparr>nv_engine_id = ''vantage-validator'', nv_engine_name = ''Vantage Validation Engine'',
      nv_capabilities = [CAP_VALIDATION], nv_analyze = (\<lambda>request c. (Inr [], c))\<rparr>"

subsection \<open>Helpers the analyzers share\<close>

text \<open>\<open>taxonomy.BY_KEY[k].key\<close>.\<close>

definition class_key :: "string \<Rightarrow> string res" where
  "class_key k = (case dget BY_KEY k of Some c \<Rightarrow> Inr (vc_key c) | None \<Rightarrow> Inl (KeyError k))"

text \<open>\<open>_location\<close>, the same function in each of the analyzers.\<close>

definition native_location :: "string \<Rightarrow> Location res" where
  "native_location url =
     bind_res (urlsplit url) (\<lambda>parts.
       (let scheme = lower (sor (sr_scheme parts) ''https'')
        in bind_res (url_port parts) (\<lambda>p.
             Inr (Location_validate
               \<lparr>loc_scheme = scheme,
                loc_host = lower (osor (url_hostname parts) []),
                loc_port = (case p of
                              Some n \<Rightarrow> if n = 0 then (if scheme = ''https'' then 443 else 80) else n
                            | None \<Rightarrow> if scheme = ''https'' then 443 else 80),
                loc_path = sor (sr_path parts) ''/'',
                loc_method = Some ''GET'', loc_parameter = None, loc_parameter_location = None\<rparr>))))"

subsection \<open>Facts\<close>

lemma class_key_known: "k \<in> set (List.map vc_key CLASSES) \<Longrightarrow> class_key k = Inr k"
  by (auto simp: class_key_def BY_KEY_iff [THEN iffD2] split: option.splits)

text \<open>The keys the analyzers use.\<close>

lemma class_key_uses [simp]:
  "class_key ''missing_security_header'' = Inr ''missing_security_header''"
  "class_key ''insecure_cookie'' = Inr ''insecure_cookie''"
  "class_key ''cors_misconfiguration'' = Inr ''cors_misconfiguration''"
  "class_key ''information_disclosure'' = Inr ''information_disclosure''"
  "class_key ''secret_exposure'' = Inr ''secret_exposure''"
  by (intro class_key_known; simp add: CLASSES_def vc_def)+

definition location_ok :: "Location \<Rightarrow> bool" where
  "location_ok l \<longleftrightarrow> Location_validate l = l \<and> lower (loc_scheme l) = loc_scheme l \<and>
     0 < loc_port l \<and> loc_port l \<le> 65535 \<and> loc_path l \<noteq> [] \<and> loc_method l = Some ''GET''"

lemma upper_GET: "upper ''GET'' = ''GET''"
  by code_simp

lemma native_location_ok: "native_location url = Inr l \<Longrightarrow> location_ok l"
proof -
  assume "native_location url = Inr l"
  then obtain parts p where parts: "urlsplit url = Inr parts" and p: "url_port parts = Inr p"
    and l: "l = Location_validate \<lparr>loc_scheme = lower (sor (sr_scheme parts) ''https''),
        loc_host = lower (osor (url_hostname parts) []),
        loc_port = (case p of Some n \<Rightarrow> if n = 0 then (if lower (sor (sr_scheme parts) ''https'') = ''https'' then 443 else 80) else n
          | None \<Rightarrow> if lower (sor (sr_scheme parts) ''https'') = ''https'' then 443 else 80),
        loc_path = sor (sr_path parts) ''/'', loc_method = Some ''GET'', loc_parameter = None,
        loc_parameter_location = None\<rparr>"
    unfolding native_location_def Let_def bind_res_Inr_iff by blast
  have "0 \<le> n" if "p = Some n" for n
    using p that num_of_nonneg by (auto simp: url_port_def Let_def split: if_splits)
  then have "case p of Some n \<Rightarrow> 0 \<le> n \<and> n \<le> 65535 | None \<Rightarrow> True"
    using p url_port_range by (auto split: option.split)
  then have "0 < loc_port l \<and> loc_port l \<le> 65535"
    by (auto simp: l Location_validate_def split: option.splits)
  moreover have "Location_validate l = l" by (simp only: l Location_validate_idem)
  ultimately show ?thesis
    by (simp add: location_ok_def) (simp add: l Location_validate_def upper_GET sor_def)
qed


text \<open>Dumping and loading an observation the base class made gives it back.\<close>

lemma HttpMessage_validate_idem: "HttpMessage_validate (HttpMessage_validate m) = HttpMessage_validate m"
  by (simp add: HttpMessage_validate_def cap_body_idem)

lemma validate_new_observation:
  "Location_validate (na_location a) = na_location a \<Longrightarrow>
     Observation_validate (new_observation st e request n a) = new_observation st e request n a"
  by (simp add: Observation_validate_def new_observation_def Evidence_validate_def new_evidence_def
      HttpMessage_validate_idem option.map_comp comp_def split_def)

definition made_observations ::
  "Stamps \<Rightarrow> 'c NativeEngine \<Rightarrow> EngineRunRequest \<Rightarrow> NewObservation list \<Rightarrow> Observation list" where
  "made_observations st e request found =
     List.map (\<lambda>(n, a). new_observation st e request n a) (enumerate 0 found)"

lemma made_observations_mem:
  assumes "ob \<in> set (made_observations st e request found)"
  obtains n a where "a \<in> set found" "ob = new_observation st e request n a"
proof -
  from assms obtain n a where mem: "(n, a) \<in> set (enumerate 0 found)" and ob: "ob = new_observation st e request n a"
    by (auto simp: made_observations_def)
  have "a \<in> snd ` set (enumerate 0 found)" using image_eqI [OF _ mem, of a snd] by simp
  then have "a \<in> set found" unfolding set_map [symmetric] map_snd_enumerate .
  then show ?thesis using ob that by simp
qed

lemma made_observations_nth:
  "n < length found \<Longrightarrow> made_observations st e request found ! n = new_observation st e request n (found ! n)"
  by (simp add: made_observations_def nth_enumerate_eq)

lemma length_made_observations [simp]: "length (made_observations st e request found) = length found"
  by (simp add: made_observations_def)

lemma native_normalize_made:
  assumes "list_all (\<lambda>a. Location_validate (na_location a) = na_location a) found"
  shows "List.map Observation_validate (made_observations st e request found) =
    made_observations st e request found"
proof (rule map_idI)
  fix ob
  assume "ob \<in> set (made_observations st e request found)"
  then obtain n a where "a \<in> set found" "ob = new_observation st e request n a"
    by (rule made_observations_mem)
  with assms show "Observation_validate ob = ob"
    by (auto simp: list_all_iff validate_new_observation)
qed

text \<open>What the orchestrator's calls of a native engine amount to.\<close>

lemma native_engine_calls:
  assumes "client_factory request = Inr client" and "nv_analyze e request client = (Inr found, client')"
    and "list_all (\<lambda>a. Location_validate (na_location a) = na_location a) found"
  shows "engine_calls (native_adapter st now client_factory e) request =
    Inr (Some (made_observations st e request found))"
  using assms native_normalize_made [OF assms(3), of st e request]
  by (simp add: engine_calls_def native_adapter_def native_health_def native_prepare_def native_execute_def
      native_collect_def native_normalize_def made_observations_def)

lemma native_calls_raise:
  assumes "client_factory request = Inr client" and "nv_analyze e request client = (Inl ex, client')"
  shows "engine_calls (native_adapter st now client_factory e) request = Inl ex"
  using assms
  by (simp add: engine_calls_def native_adapter_def native_health_def native_prepare_def native_execute_def)

lemma native_calls_Some:
  assumes "engine_calls (native_adapter st now client_factory e) request = Inr (Some obs)"
  obtains client found client' where "client_factory request = Inr client"
    "nv_analyze e request client = (Inr found, client')"
    "obs = List.map Observation_validate (made_observations st e request found)"
proof -
  from assms obtain client where c: "client_factory request = Inr client"
    by (auto simp: engine_calls_def native_adapter_def native_health_def native_prepare_def bind_res_Inr_iff)
  obtain r client' where a: "nv_analyze e request client = (r, client')" by fastforce
  show ?thesis
  proof (cases r)
    case (Inl ex)
    with native_calls_raise [where client_factory = client_factory, OF c] a assms show ?thesis by simp
  next
    case (Inr found)
    with assms c a have "obs = List.map Observation_validate (made_observations st e request found)"
      by (simp add: engine_calls_def native_adapter_def native_health_def native_prepare_def
          native_execute_def native_collect_def native_normalize_def made_observations_def)
    with c a Inr show ?thesis using that by blast
  qed
qed

text \<open>
  With the default client, over stored rules the scope model has validated and an authorized target,
  an engine that visits its seeds puts only requests for seeds in scope on the wire, and each of its
  observations is made of the page the client fetched from such a seed.
\<close>

lemma map_res_fixed: "list_all (\<lambda>r. f r = Inr r) rs \<Longrightarrow> map_res f rs = Inr rs"
  by (induction rs) auto

lemma default_client_scope:
  assumes "run_request rid scan target meta capabilities seeds = Inr request"
    and "list_all (\<lambda>r. ScopeRule_validate r = Inr r) (t_scope_rules target)" and "is_authorized now target"
  obtains c where "default_client_factory net request = Inr c" "hc_scope c = ScopeEngine_init now target"
    "rq_seed_urls request = seeds" "hc_sent c = []"
  using assms map_res_fixed [OF assms(2)]
  by (auto simp: run_request_def default_client_factory_def Let_def ScopedHttpClient_init_def from_rules_def
      ScopeEngine_init_def split: if_splits)

lemma native_pages_in_scope:
  assumes "run_request rid scan target meta capabilities seeds = Inr request"
    and "list_all (\<lambda>r. ScopeRule_validate r = Inr r) (t_scope_rules target)" and "is_authorized now target"
    and "nv_analyze e = (\<lambda>request. visit (scoped_fetch re_search net) page (rq_seed_urls request))"
    and "engine_calls (native_adapter st hnow (default_client_factory net) e) request = Inr (Some obs)"
    and "ob \<in> set obs"
  shows "\<exists>c. default_client_factory net request = Inr c \<and>
    (\<exists>all c'. visit (scoped_fetch re_search net) page seeds c = (Inr all, c') \<and>
      list_all (\<lambda>(mth, url). mth = ''GET'' \<and> url \<in> set seeds \<and>
        scope_allows re_search (ScopeEngine_init now target) url (Some mth) = Inr True) (hc_sent c')) \<and>
    (\<exists>url \<in> set seeds. scope_allows re_search (ScopeEngine_init now target) url (Some ''GET'') = Inr True \<and>
      (\<exists>c1 r found a n. page_of (scoped_fetch re_search net) page seeds c url c1 r \<and> page r = Inr found \<and>
         a \<in> set found \<and> ob = Observation_validate (new_observation st e request n a)))"
proof -
  obtain c where c: "default_client_factory net request = Inr c" "hc_scope c = ScopeEngine_init now target"
    "rq_seed_urls request = seeds" "hc_sent c = []"
    using default_client_scope [OF assms(1-3)] by metis
  obtain c' all client' where "default_client_factory net request = Inr c'"
    and "nv_analyze e request c' = (Inr all, client')"
    and obs: "obs = List.map Observation_validate (made_observations st e request all)"
    by (rule native_calls_Some [OF assms(5)])
  with c(1,3) assms(4) have v: "visit (scoped_fetch re_search net) page seeds c = (Inr all, client')" by simp
  from obs assms(6) obtain n a where a: "a \<in> set all" "ob = Observation_validate (new_observation st e request n a)"
    by (auto elim!: made_observations_mem)
  from visit_fetched [OF v a(1)] obtain url c1 r found where p: "url \<in> set seeds"
    "page_of (scoped_fetch re_search net) page seeds c url c1 r" "page r = Inr found" "a \<in> set found" by blast
  have "scope_allows re_search (ScopeEngine_init now target) url (Some ''GET'') = Inr True"
    using scoped.page_of_allowed [OF p(2)] by (simp add: scope_permits_def c(2))
  with p a(2) have page: "\<exists>url \<in> set seeds. scope_allows re_search (ScopeEngine_init now target) url (Some ''GET'') = Inr True \<and>
      (\<exists>c1 r found a n. page_of (scoped_fetch re_search net) page seeds c url c1 r \<and> page r = Inr found \<and>
         a \<in> set found \<and> ob = Observation_validate (new_observation st e request n a))" by blast
  have "list_all (\<lambda>(mth, url). mth = ''GET'' \<and> url \<in> set seeds \<and>
        scope_allows re_search (ScopeEngine_init now target) url (Some mth) = Inr True) (hc_sent client')"
    using scoped_visit_sent [OF v] by (auto simp: c(2,4) scope_permits_def)
  with c(1) v page show ?thesis by blast
qed

subsection \<open>What an analyzer reports is well formed\<close>

definition new_observation_ok :: "NewObservation \<Rightarrow> bool" where
  "new_observation_ok a \<longleftrightarrow>
     vc_key (classify_cwes (na_cwe a) (Some (na_vuln_class a))) = na_vuln_class a \<and>
     list_all (\<lambda>w. 0 < w) (na_cwe a) \<and> location_ok (na_location a) \<and> na_title a \<noteq> [] \<and>
     na_evidence a \<noteq> [] \<and> list_all (\<lambda>ev. ne_matched ev \<noteq> []) (na_evidence a)"

lemma classify_first:
  assumes "vc key title cwes owasp \<in> set CLASSES" and "w \<in> set cwes"
  shows "vc_key (classify_cwes (w # ws) h) = key"
proof -
  have "dget BY_CWE w = Some (vc key title cwes owasp)" using assms by (simp add: BY_CWE_iff vc_def)
  then show ?thesis by (simp add: classify_cwes_def vc_def)
qed

text \<open>The classes of the CWE numbers the analyzers report.\<close>

lemma classify_uses [simp]:
  "vc_key (classify_cwes [693] h) = ''missing_security_header''"
  "vc_key (classify_cwes [614, 1004] h) = ''insecure_cookie''"
  "vc_key (classify_cwes [942] h) = ''cors_misconfiguration''"
  "vc_key (classify_cwes [200] h) = ''information_disclosure''"
  "vc_key (classify_cwes [540, 312] h) = ''secret_exposure''"
  "vc_key (classify_cwes [295, 326] h) = ''tls_weakness''"
  by (rule classify_first [where title = "''Missing or Weak Security Header''" and cwes = "[693]" and owasp = "[A05]"]
      classify_first [where title = "''Insecure Cookie Attributes''" and cwes = "[614, 1004, 1275]" and owasp = "[A05]"]
      classify_first [where title = "''CORS Misconfiguration''" and cwes = "[942, 346]" and owasp = "[A05]"]
      classify_first [where title = "''Information Disclosure''" and cwes = "[200, 209, 359, 532, 538]" and owasp = "[A01]"]
      classify_first [where title = "''Exposed Secret or Credential''" and cwes = "[798, 312, 540]" and owasp = "[A07]"]
      classify_first [where title = "''TLS / Transport Weakness''" and cwes = "[295, 319, 326, 327]" and owasp = "[A02]"];
      simp add: CLASSES_def)+

lemma classify_information [simp]:
  "vc_key (classify_cwes [] (Some ''information_disclosure'')) = ''information_disclosure''"
  using class_key_uses(4) by (simp add: class_key_def classify_cwes_def split: option.splits)

lemma map_res_all:
  assumes "map_res f xs = Inr ys" and "\<forall>x \<in> set xs. \<forall>y. f x = Inr y \<longrightarrow> P y"
  shows "list_all P ys"
  using assms by (induction xs arbitrary: ys) (auto simp: bind_res_Inr_iff)

lemma enumerate_empty: "enumerate n xs = [] \<longleftrightarrow> xs = []"
  by (cases xs) simp_all

lemma native_observations_typed:
  assumes "nv_analyze e = (\<lambda>request. visit fetch page (rq_seed_urls request))"
    and page: "\<And>r found. page r = Inr found \<Longrightarrow> list_all new_observation_ok found"
    and "engine_calls (native_adapter st now factory e) request = Inr (Some obs)" and "ob \<in> set obs"
  shows "obs_scan_id ob = rq_scan_id request \<and> obs_run_id ob = rq_run_id request \<and>
    obs_engine_id ob = nv_engine_id e \<and> obs_confidence ob = TENTATIVE \<and> obs_evidence ob \<noteq> [] \<and>
    location_ok (obs_location ob) \<and> vc_key (obs_class ob) = obs_vuln_class ob \<and>
    obs_vuln_class ob \<in> set (List.map vc_key CLASSES)"
proof -
  obtain client found client' where v: "visit fetch page (rq_seed_urls request) client = (Inr found, client')"
    and obs: "obs = List.map Observation_validate (made_observations st e request found)"
    by (rule native_calls_Some [OF assms(3)]) (simp add: assms(1))
  from assms(4) obs obtain n a where a: "a \<in> set found"
    and ob: "ob = Observation_validate (new_observation st e request n a)"
    by (auto elim!: made_observations_mem)
  from visit_fetched [OF v a] have ok: "new_observation_ok a"
    using page by (auto simp: list_all_iff)
  then have "ob = new_observation st e request n a"
    unfolding ob by (intro validate_new_observation) (simp add: new_observation_ok_def location_ok_def)
  moreover have "obs_vuln_class ob \<in> set (List.map vc_key CLASSES)" if "vc_key (obs_class ob) = obs_vuln_class ob"
    using that classify_in_CLASSES [of "obs_cwe ob" "Some (obs_vuln_class ob)"] by (force simp: obs_class_def)
  ultimately show ?thesis
    using ok by (simp add: new_observation_ok_def new_observation_def obs_class_def enumerate_empty)
qed

end
