(* ===== verification/Py_Regex.thy ===== *)
theory Py_Regex
  imports Py_Str
begin

text \<open>
  The regular expressions the program writes itself, as data, with the backtracking search of
  Python's \<open>re\<close>: \<open>rx_ends\<close> lists what is left of the text after each way to match at its start, in
  the order in which \<open>re\<close> tries them, so the head of the list is the match it reports.  Repetition
  is greedy and over single characters; with \<open>re.I\<close> a class takes a character whose other case it
  holds.
\<close>

datatype regex =
    Rx_Class "char \<Rightarrow> bool"
  | Rx_Rep "char \<Rightarrow> bool" nat "nat option"
  | Rx_Empty
  | Rx_Seq regex regex
  | Rx_Alt regex regex

definition rx_text :: "string \<Rightarrow> regex" where
  "rx_text s = foldr (\<lambda>c r. Rx_Seq (Rx_Class (\<lambda>d. d = c)) r) s Rx_Empty"

definition rx_seq :: "regex list \<Rightarrow> regex" where
  "rx_seq rs = foldr Rx_Seq rs Rx_Empty"

fun rx_alt :: "regex list \<Rightarrow> regex" where
  "rx_alt [] = Rx_Empty"
| "rx_alt [r] = r"
| "rx_alt (r # rs) = Rx_Alt r (rx_alt rs)"

definition rx_opt :: "regex \<Rightarrow> regex" where
  "rx_opt r = Rx_Alt r Rx_Empty"

text \<open>The class of a flag: \<open>True\<close> for \<open>re.I\<close>.\<close>

definition rx_case :: "bool \<Rightarrow> (char \<Rightarrow> bool) \<Rightarrow> char \<Rightarrow> bool" where
  "rx_case ignore P c \<longleftrightarrow> P c \<or> ignore \<and> (P (lower_char c) \<or> P (upper_char c))"

definition rep_ends :: "(char \<Rightarrow> bool) \<Rightarrow> nat \<Rightarrow> nat option \<Rightarrow> string \<Rightarrow> string list" where
  "rep_ends P lo hi s =
     (let n = length (takeWhile P s); m = (case hi of None \<Rightarrow> n | Some h \<Rightarrow> min n h)
      in List.map (\<lambda>k. drop k s) (rev [lo..<Suc m]))"

fun rx_ends :: "bool \<Rightarrow> regex \<Rightarrow> string \<Rightarrow> string list" where
  "rx_ends ignore (Rx_Class P) s = (case s of [] \<Rightarrow> [] | c # cs \<Rightarrow> if rx_case ignore P c then [cs] else [])"
| "rx_ends ignore (Rx_Rep P lo hi) s = rep_ends (rx_case ignore P) lo hi s"
| "rx_ends ignore Rx_Empty s = [s]"
| "rx_ends ignore (Rx_Seq a b) s = concat (List.map (rx_ends ignore b) (rx_ends ignore a s))"
| "rx_ends ignore (Rx_Alt a b) s = rx_ends ignore a s @ rx_ends ignore b s"

text \<open>\<open>pattern.search(text)\<close>: the text of \<open>group(0)\<close>.\<close>

fun rx_search :: "bool \<Rightarrow> regex \<Rightarrow> string \<Rightarrow> string option" where
  "rx_search ignore r [] = (case rx_ends ignore r [] of [] \<Rightarrow> None | _ \<Rightarrow> Some [])"
| "rx_search ignore r (c # cs) =
     (case rx_ends ignore r (c # cs) of
        e # _ \<Rightarrow> Some (take (length (c # cs) - length e) (c # cs))
      | [] \<Rightarrow> rx_search ignore r cs)"

definition rx_found :: "bool \<Rightarrow> regex \<Rightarrow> string \<Rightarrow> bool" where
  "rx_found ignore r s \<longleftrightarrow> rx_search ignore r s \<noteq> None"

subsection \<open>A match is a part of the text, of at least the least length\<close>

fun rx_min :: "regex \<Rightarrow> nat" where
  "rx_min (Rx_Class P) = 1"
| "rx_min (Rx_Rep P lo hi) = lo"
| "rx_min Rx_Empty = 0"
| "rx_min (Rx_Seq a b) = rx_min a + rx_min b"
| "rx_min (Rx_Alt a b) = min (rx_min a) (rx_min b)"

lemma rep_ends_mem:
  assumes "e \<in> set (rep_ends P lo hi s)"
  obtains k where "lo \<le> k" "k \<le> length (takeWhile P s)" "e = drop k s"
proof -
  define m where "m = (case hi of None \<Rightarrow> length (takeWhile P s) | Some h \<Rightarrow> min (length (takeWhile P s)) h)"
  from assms obtain k where "k \<in> {lo..<Suc m}" and e: "e = drop k s"
    unfolding rep_ends_def Let_def m_def [symmetric] set_map set_rev set_upt by (elim imageE)
  then have "lo \<le> k" "k \<le> m" by simp_all
  moreover have "m \<le> length (takeWhile P s)" by (simp add: m_def split: option.split)
  ultimately show ?thesis using e by (intro that [of k]) simp_all
qed

lemma rx_ends_suffix: "e \<in> set (rx_ends ignore r s) \<Longrightarrow> \<exists>m. s = m @ e \<and> rx_min r \<le> length m"
proof (induction r arbitrary: s e)
  case (Rx_Class P)
  then show ?case by (cases s) (auto split: if_splits intro: exI [of _ "[x]" for x])
next
  case (Rx_Rep P lo hi)
  then obtain k where k: "lo \<le> k" "k \<le> length (takeWhile (rx_case ignore P) s)" "e = drop k s"
    by (auto elim: rep_ends_mem)
  have "k \<le> length s" using k(2) length_takeWhile_le [of "rx_case ignore P" s] by linarith
  with k show ?case by (intro exI [of _ "take k s"]) simp
next
  case (Rx_Seq a b)
  from Rx_Seq.prems obtain x where x: "x \<in> set (rx_ends ignore a s)" "e \<in> set (rx_ends ignore b x)" by auto
  from Rx_Seq.IH(1) [OF x(1)] Rx_Seq.IH(2) [OF x(2)] obtain m n
    where "s = m @ x" "rx_min a \<le> length m" "x = n @ e" "rx_min b \<le> length n" by blast
  then show ?case by (intro exI [of _ "m @ n"]) simp
next
  case (Rx_Alt a b)
  from Rx_Alt.prems consider "e \<in> set (rx_ends ignore a s)" | "e \<in> set (rx_ends ignore b s)" by auto
  then show ?case
  proof cases
    case 1
    from Rx_Alt.IH(1) [OF this] show ?thesis by fastforce
  next
    case 2
    from Rx_Alt.IH(2) [OF this] show ?thesis by fastforce
  qed
qed simp

lemma rx_search_part:
  "rx_search ignore r s = Some m \<Longrightarrow>
     (\<exists>a b. s = a @ m @ b \<and> b \<in> set (rx_ends ignore r (m @ b))) \<and> rx_min r \<le> length m"
proof (induction s)
  case Nil
  then show ?case
    using rx_ends_suffix [of _ ignore r "[]"] by (force split: list.splits)
next
  case (Cons c s)
  show ?case
  proof (cases "rx_ends ignore r (c # s)")
    case Nil
    with Cons.prems Cons.IH obtain a b where "s = a @ m @ b" "b \<in> set (rx_ends ignore r (m @ b))"
      "rx_min r \<le> length m" by auto
    then show ?thesis by (intro conjI exI [of _ "c # a"] exI [of _ b]) simp_all
  next
    case (Cons e es)
    then have "e \<in> set (rx_ends ignore r (c # s))" by simp
    from rx_ends_suffix [OF this] obtain n where n: "c # s = n @ e" "rx_min r \<le> length n" by blast
    have "m = take (length (c # s) - length e) (c # s)"
      using Cons.prems \<open>rx_ends ignore r (c # s) = e # es\<close> by simp
    then have "m = n" unfolding n(1) by simp
    with n Cons have "c # s = [] @ m @ e" and "e \<in> set (rx_ends ignore r (m @ e))" by simp_all
    with n \<open>m = n\<close> show ?thesis by blast
  qed
qed

lemma rx_search_None: "rx_search ignore r s = None \<Longrightarrow> s = a @ t \<Longrightarrow> rx_ends ignore r t = []"
proof (induction s arbitrary: a)
  case (Cons c s)
  have e: "rx_ends ignore r (c # s) = []" and n: "rx_search ignore r s = None"
    using Cons.prems(1) by (auto split: list.splits)
  show ?case
  proof (cases a)
    case Nil
    with e Cons.prems show ?thesis by simp
  next
    case (Cons d a')
    then have "s = a' @ t" using Cons.prems(2) by simp
    then show ?thesis by (rule Cons.IH [OF n])
  qed
qed (auto split: list.splits)

lemma rx_found_iff: "rx_found ignore r s \<longleftrightarrow> (\<exists>a t. s = a @ t \<and> rx_ends ignore r t \<noteq> [])"
proof
  assume "rx_found ignore r s"
  then obtain m where "rx_search ignore r s = Some m" by (auto simp: rx_found_def)
  from rx_search_part [OF this] show "\<exists>a t. s = a @ t \<and> rx_ends ignore r t \<noteq> []" by fastforce
next
  assume "\<exists>a t. s = a @ t \<and> rx_ends ignore r t \<noteq> []"
  then show "rx_found ignore r s" using rx_search_None [of ignore r s] by (auto simp: rx_found_def)
qed

lemma rx_ends_text: "rx_ends False (rx_text p) s = (if startswith s p then [drop (length p) s] else [])"
proof (induction p arbitrary: s)
  case (Cons c p)
  then show ?case
    by (cases s) (auto simp: rx_text_def rx_case_def startswith_def)
qed (simp add: rx_text_def startswith_def)

end
