(* ===== verification/Native_Headers.thy ===== *)
theory Native_Headers
  imports Native Py_Regex
begin

text \<open>
  The passive header, cookie, CORS, banner and secret analyzer (\<open>vantage/adapters/native/headers.py\<close>).
\<close>

record HeaderSpec =
  hd_header :: string
  hd_severity :: Severity
  hd_remediation :: string

definition REQUIRED_HEADERS :: "HeaderSpec list" where
  "REQUIRED_HEADERS =
     [\<lparr>hd_header = ''strict-transport-security'', hd_severity = MEDIUM,
       hd_remediation = ''Send Strict-Transport-Security with a max-age of at least 31536000.''\<rparr>,
      \<lparr>hd_header = ''content-security-policy'', hd_severity = MEDIUM,
       hd_remediation = ''Define a restrictive Content-Security-Policy to mitigate injection classes.''\<rparr>,
      \<lparr>hd_header = ''x-content-type-options'', hd_severity = LOW,
       hd_remediation = ''Set X-Content-Type-Options: nosniff.''\<rparr>,
      \<lparr>hd_header = ''referrer-policy'', hd_severity = LOW,
       hd_remediation =
         ''Set a privacy-preserving Referrer-Policy such as strict-origin-when-cross-origin.''\<rparr>]"

definition is_upnum :: "char \<Rightarrow> bool" where
  "is_upnum c \<longleftrightarrow> is_digit c \<or> is_upper c"

definition is_alnum :: "char \<Rightarrow> bool" where
  "is_alnum c \<longleftrightarrow> is_digit c \<or> is_upper c \<or> is_lower c"

definition SECRET_PATTERNS :: "(string \<times> regex) list" where
  "SECRET_PATTERNS =
     [(''aws_access_key_id'', rx_seq [rx_text ''AKIA'', Rx_Rep is_upnum 16 (Some 16)]),
      (''google_api_key'',
       rx_seq [rx_text ''AIza'', Rx_Rep (\<lambda>c. is_alnum c \<or> c \<in> set ''_-'') 35 (Some 35)]),
      (''slack_token'',
       rx_seq [rx_text ''xox'', Rx_Class (\<lambda>c. c \<in> set ''baprs''), rx_text ''-'',
               Rx_Rep (\<lambda>c. is_alnum c \<or> c = CHR ''-'') 10 (Some 48)]),
      (''private_key_block'',
       rx_seq [rx_text ''-----BEGIN '',
               rx_opt (rx_alt [rx_text ''RSA '', rx_text ''EC '', rx_text ''OPENSSH '', rx_text ''DSA '']),
               rx_text ''PRIVATE KEY-----'']),
      (''jwt'',
       rx_seq [rx_text ''eyJ'', Rx_Rep (\<lambda>c. is_alnum c \<or> c \<in> set ''_-'') 10 None, rx_text ''.'',
               Rx_Rep (\<lambda>c. is_alnum c \<or> c \<in> set ''_-'') 10 None, rx_text ''.'',
               Rx_Rep (\<lambda>c. is_alnum c \<or> c \<in> set ''_-'') 10 None]),
      (''github_pat'', rx_seq [rx_text ''ghp_'', Rx_Rep is_alnum 36 (Some 36)])]"

definition VERSION_BANNER :: regex where
  "VERSION_BANNER =
     rx_seq [Rx_Rep is_digit 1 None, rx_text ''.'', Rx_Rep is_digit 1 None,
             rx_opt (rx_seq [rx_text ''.'', Rx_Rep is_digit 1 None])]"

definition redact :: "string \<Rightarrow> string" where
  "redact value =
     (if length value \<le> 8 then replicate (length value) CHR ''*''
      else take 4 value @ replicate (length value - 8) CHR ''*'' @ drop (length value - 4) value)"

text \<open>\<open>str.title\<close> on ASCII text.\<close>

fun title_from :: "bool \<Rightarrow> string \<Rightarrow> string" where
  "title_from inside [] = []"
| "title_from inside (c # cs) =
     (if is_alpha c then (if inside then lower_char c else upper_char c) # title_from True cs
      else c # title_from False cs)"

definition title_case :: "string \<Rightarrow> string" where
  "title_case s = title_from False s"

text \<open>\<open>headers.get(a) or headers.get(b)\<close>; an absent header and an empty one are both false.\<close>

definition header_or :: "(string, string) dict \<Rightarrow> string \<Rightarrow> string \<Rightarrow> string" where
  "header_or h a b = sor (dget_or h a []) (dget_or h b [])"

definition header_evidence :: "string \<Rightarrow> string list \<Rightarrow> HttpMessage option \<Rightarrow> NewEvidence" where
  "header_evidence summary matched response =
     \<lparr>ne_kind = HEADER_OBSERVATION, ne_summary = summary, ne_matched = matched, ne_response = response,
      ne_data = []\<rparr>"

definition missing_header :: "Location \<Rightarrow> FetchResult \<Rightarrow> HeaderSpec \<Rightarrow> NewObservation res" where
  "missing_header loc res spec =
     bind_res (class_key ''missing_security_header'') (\<lambda>key. Inr
       \<lparr>na_detector_id = ''missing-header:'' @ hd_header spec,
        na_title = ''Missing security header: '' @ hd_header spec,
        na_vuln_class = key, na_severity = hd_severity spec, na_cwe = [693], na_location = loc,
        na_description = ''The response does not set the '' @ hd_header spec @ '' header.'',
        na_remediation = hd_remediation spec,
        na_evidence = [header_evidence (hd_header spec @ '' absent'') [hd_header spec]
          (Some \<lparr>hm_method = None, hm_url = Some (ft_url res), hm_status = Some (ft_status res),
                 hm_headers = ft_headers res, hm_body = None, hm_body_truncated = False\<rparr>)]\<rparr>)"

definition header_findings :: "Location \<Rightarrow> FetchResult \<Rightarrow> NewObservation list res" where
  "header_findings loc res =
     (let present = List.map lower (dkeys (ft_headers res));
          is_https = startswith (lower (ft_url res)) ''https://''
      in map_res (missing_header loc res)
           (List.filter (\<lambda>spec. \<not> (hd_header spec = ''strict-transport-security'' \<and> \<not> is_https) \<and>
                                 hd_header spec \<notin> set present) REQUIRED_HEADERS))"

definition cookie_findings :: "Location \<Rightarrow> FetchResult \<Rightarrow> NewObservation list res" where
  "cookie_findings loc res =
     (let raw = header_or (ft_headers res) ''set-cookie'' ''Set-Cookie'';
          missing = List.filter (\<lambda>flag. \<not> contains flag (lower raw)) [''secure'', ''httponly'', ''samesite'']
      in if raw = [] \<or> missing = [] then Inr []
         else bind_res (class_key ''insecure_cookie'') (\<lambda>key. Inr
           [\<lparr>na_detector_id = ''cookie-flags'',
             na_title = ''Insecure cookie attributes: missing '' @ join '', '' missing,
             na_vuln_class = key, na_severity = LOW, na_cwe = [614, 1004], na_location = loc,
             na_description = ''A Set-Cookie response is missing hardening attributes.'',
             na_remediation = ''Set Secure, HttpOnly and SameSite on session cookies.'',
             na_evidence = [header_evidence
               (''Set-Cookie missing '' @ py_repr (\<lambda>_. []) (PList (List.map PStr missing))) missing None]\<rparr>]))"

definition cors_findings :: "Location \<Rightarrow> FetchResult \<Rightarrow> NewObservation list res" where
  "cors_findings loc res =
     (let acao = header_or (ft_headers res) ''access-control-allow-origin'' ''Access-Control-Allow-Origin'';
          acac = header_or (ft_headers res) ''access-control-allow-credentials''
                   ''Access-Control-Allow-Credentials''
      in if acao = ''*'' \<and> lower acac = ''true''
         then bind_res (class_key ''cors_misconfiguration'') (\<lambda>key. Inr
           [\<lparr>na_detector_id = ''cors-wildcard-credentials'',
             na_title = ''CORS allows any origin with credentials'',
             na_vuln_class = key, na_severity = MEDIUM, na_cwe = [942], na_location = loc,
             na_description = ''Access-Control-Allow-Origin: * combined with credentials.'',
             na_remediation = ''Reflect only allow-listed origins; never combine * with credentials.'',
             na_evidence = [header_evidence ''ACAO=* with credentials=true''
               [''access-control-allow-origin''] None]\<rparr>])
         else Inr [])"

definition version_banner :: "Location \<Rightarrow> (string \<times> string) \<Rightarrow> NewObservation res" where
  "version_banner loc hv =
     (case hv of (hdr, val) \<Rightarrow>
       bind_res (class_key ''information_disclosure'') (\<lambda>key.
         if \<not> summary_ok (hdr @ '': '' @ val) then Inl (ValidationError ''summary'') else Inr
         \<lparr>na_detector_id = ''version-banner:'' @ hdr, na_title = ''Version banner disclosed via '' @ hdr,
          na_vuln_class = key, na_severity = INFO, na_cwe = [200], na_location = loc,
          na_description = ''The '' @ hdr @ '' header discloses software version '' @ [CHR 0x27] @ val
                           @ [CHR 0x27] @ ''.'',
          na_remediation = ''Suppress or genericize version banners.'',
          na_evidence = [header_evidence (hdr @ '': '' @ val) [val] None]\<rparr>))"

definition banner_findings :: "Location \<Rightarrow> FetchResult \<Rightarrow> NewObservation list res" where
  "banner_findings loc res =
     map_res (version_banner loc)
       (List.filter (\<lambda>(hdr, val). val \<noteq> [] \<and> rx_found False VERSION_BANNER val)
          (List.map (\<lambda>hdr. (hdr, header_or (ft_headers res) hdr (title_case hdr)))
             [''server'', ''x-powered-by'', ''x-aspnet-version'']))"

definition haystack :: "FetchResult \<Rightarrow> string" where
  "haystack res =
     ft_body res @ [CHR 0x0A] @ join [CHR 0x0A] (List.map (\<lambda>(k, v). k @ '': '' @ v) (ft_headers res))"

definition secret_observation :: "string \<Rightarrow> Location \<Rightarrow> string \<Rightarrow> string \<Rightarrow> NewObservation" where
  "secret_observation key loc name m =
     \<lparr>na_detector_id = ''secret:'' @ name, na_title = ''Potential exposed secret: '' @ name,
      na_vuln_class = key, na_severity = HIGH, na_cwe = [540, 312], na_location = loc,
      na_description = ''A value matching '' @ name @ '' was found in the response.'',
      na_remediation = ''Remove secrets from client-served responses and rotate them.'',
      na_evidence = [\<lparr>ne_kind = RESPONSE_MATCH, ne_summary = name @ '' pattern matched (value redacted)'',
                      ne_matched = [redact m], ne_response = None, ne_data = []\<rparr>]\<rparr>"

fun secret_loop :: "string \<Rightarrow> Location \<Rightarrow> string \<Rightarrow> (string \<times> regex) list \<Rightarrow> NewObservation list" where
  "secret_loop key loc hay [] = []"
| "secret_loop key loc hay ((name, pattern) # rest) =
     (case rx_search False pattern hay of
        None \<Rightarrow> secret_loop key loc hay rest
      | Some m \<Rightarrow> secret_observation key loc name m # secret_loop key loc hay rest)"

definition secret_findings :: "Location \<Rightarrow> FetchResult \<Rightarrow> NewObservation list res" where
  "secret_findings loc res =
     bind_res (class_key ''secret_exposure'') (\<lambda>key. Inr (secret_loop key loc (haystack res) SECRET_PATTERNS))"

text \<open>The body of the loop over the seed URLs, and the engine.\<close>

definition headers_page :: "FetchResult \<Rightarrow> NewObservation list res" where
  "headers_page res =
     bind_res (native_location (ft_url res)) (\<lambda>loc.
     bind_res (header_findings loc res) (\<lambda>a.
     bind_res (cookie_findings loc res) (\<lambda>b.
     bind_res (cors_findings loc res) (\<lambda>c.
     bind_res (banner_findings loc res) (\<lambda>d.
     bind_res (secret_findings loc res) (\<lambda>e. Inr (a @ b @ c @ d @ e)))))))"

definition HeadersAdapter :: "'c fetch \<Rightarrow> 'c NativeEngine" where
  "HeadersAdapter fetch =
     \<lparr>nv_engine_id = ''vantage-headers'', nv_engine_name = ''Vantage Security Headers Analyzer'',
      nv_capabilities = [ANALYSIS_HEADERS, ANALYSIS_SECRETS, AUDIT_PASSIVE],
      nv_analyze = (\<lambda>request. visit fetch headers_page (rq_seed_urls request))\<rparr>"


subsection \<open>What the analyzer reports is well formed\<close>

lemma header_findings_ok:
  "location_ok loc \<Longrightarrow> header_findings loc res = Inr found \<Longrightarrow> list_all new_observation_ok found"
  unfolding header_findings_def Let_def
  by (erule map_res_all) (auto simp: missing_header_def new_observation_ok_def header_evidence_def)

lemma cookie_findings_ok:
  "location_ok loc \<Longrightarrow> cookie_findings loc res = Inr found \<Longrightarrow> list_all new_observation_ok found"
  by (auto simp: cookie_findings_def Let_def new_observation_ok_def header_evidence_def split: if_splits)

lemma cors_findings_ok:
  "location_ok loc \<Longrightarrow> cors_findings loc res = Inr found \<Longrightarrow> list_all new_observation_ok found"
  by (auto simp: cors_findings_def Let_def new_observation_ok_def header_evidence_def split: if_splits)

lemma banner_findings_ok:
  "location_ok loc \<Longrightarrow> banner_findings loc res = Inr found \<Longrightarrow> list_all new_observation_ok found"
  unfolding banner_findings_def
  by (erule map_res_all) (auto simp: version_banner_def new_observation_ok_def header_evidence_def split: if_splits)

lemma secret_loop_ok:
  "location_ok loc \<Longrightarrow> list_all new_observation_ok (secret_loop ''secret_exposure'' loc hay ps)"
proof (induction ps)
  case (Cons p ps)
  then show ?case by (cases p) (auto simp: new_observation_ok_def secret_observation_def split: option.splits)
qed simp

lemma headers_pageE:
  assumes "headers_page res = Inr found"
  obtains loc a b c d where "native_location (ft_url res) = Inr loc" "header_findings loc res = Inr a"
    "cookie_findings loc res = Inr b" "cors_findings loc res = Inr c" "banner_findings loc res = Inr d"
    "found = a @ b @ c @ d @ secret_loop ''secret_exposure'' loc (haystack res) SECRET_PATTERNS"
  using assms unfolding headers_page_def bind_res_Inr_iff secret_findings_def class_key_uses bind_res_simps
  by blast

lemma headers_page_ok: "headers_page res = Inr found \<Longrightarrow> list_all new_observation_ok found"
  by (elim headers_pageE, simp)
    (blast intro: header_findings_ok cookie_findings_ok cors_findings_ok banner_findings_ok secret_loop_ok
      native_location_ok)


subsection \<open>Missing headers\<close>

definition reported_missing :: "FetchResult \<Rightarrow> HeaderSpec list" where
  "reported_missing res =
     List.filter (\<lambda>spec. \<not> (hd_header spec = ''strict-transport-security'' \<and>
                            \<not> startswith (lower (ft_url res)) ''https://'') \<and>
                          hd_header spec \<notin> set (List.map lower (dkeys (ft_headers res)))) REQUIRED_HEADERS"

lemma header_findings_reported:
  assumes "header_findings loc res = Inr found"
  shows "list_all2 (\<lambda>spec a. missing_header loc res spec = Inr a) (reported_missing res) found"
  using assms unfolding header_findings_def Let_def map_res_Inr_iff reported_missing_def .

lemma missing_header_simps:
  assumes "missing_header loc res spec = Inr a"
  shows "na_vuln_class a = ''missing_security_header''" "na_location a = loc"
    "concat (List.map ne_matched (na_evidence a)) = [hd_header spec]"
    "na_detector_id a = ''missing-header:'' @ hd_header spec"
  using assms by (auto simp: missing_header_def header_evidence_def)

lemma matched_new_observation:
  "concat (List.map ev_matched (obs_evidence (new_observation st e request n a))) =
     concat (List.map ne_matched (na_evidence a))"
proof -
  have "List.map ev_matched (List.map (\<lambda>(i, ev). new_evidence (st_ids st n (Suc i)) (st_times st n) (nv_engine_id e) ev)
      (enumerate 0 (na_evidence a))) = List.map ne_matched (List.map snd (enumerate 0 (na_evidence a)))"
    by (simp add: new_evidence_def split_def comp_def del: map_snd_enumerate)
  then show ?thesis unfolding map_snd_enumerate by (simp add: new_observation_def)
qed

lemma required_expected:
  assumes "spec \<in> set REQUIRED_HEADERS" and "concat (List.map ev_matched (obs_evidence ob)) = [hd_header spec]"
  shows "expected_header ob = Some (hd_header spec)"
proof -
  have "list_all (\<lambda>h. list_ex (startswith (lower h)) header_prefixes \<and> lower h = h)
      (List.map hd_header REQUIRED_HEADERS)"
    by code_simp
  then show ?thesis using assms by (auto simp: expected_header_def list_all_iff)
qed

lemma validate_config:
  assumes "obs_vuln_class ob \<in> set CONFIG_CATEGORIES" and "get (url_of ob) = Inr resp"
  obtains ob' where "validate eid now ob get = Inr ob'"
    and "obs_confidence ob' = (if condition_holds ob resp (List.map lower (dkeys (pr_headers resp)))
           then CONFIRMED else FALSE_POSITIVE)"
proof -
  have "\<exists>r. config_validate eid now ob get = Inr r" unfolding config_validate_def assms(2) by (simp add: Let_def)
  then obtain r where r: "config_validate eid now ob get = Inr r" ..
  from config_result [OF r] assms(2)
  have conf: "vr_confidence r = (if condition_holds ob resp (List.map lower (dkeys (pr_headers resp)))
      then CONFIRMED else FALSE_POSITIVE)"
    by (metis Inr_inject)
  have "validate eid now ob get = Inr (apply_result now ob r)"
    using assms(1) r by (simp add: validate_def default_strategies_def ConfigReverifyStrategy_def)
  moreover have "obs_confidence (apply_result now ob r) = vr_confidence r"
    by (cases "condition_holds ob resp (List.map lower (dkeys (pr_headers resp)))")
      (simp_all add: apply_result_def Let_def conf)
  ultimately show ?thesis using that conf by simp
qed

lemma config_members: "''missing_security_header'' \<in> set CONFIG_CATEGORIES" "''insecure_cookie'' \<in> set CONFIG_CATEGORIES"
  by (simp_all add: CONFIG_CATEGORIES_def)

text \<open>
  C14: the analyzer and the validation engine agree on missing headers: a missing-header observation
  names one required header the response did not set (the transport-security header only over
  https), and validating it fetches its URL again and confirms it exactly when the fresh response
  does not set that header either, whatever the case of its header names.
\<close>

theorem missing_header_reverified:
  assumes "header_findings loc res = Inr found" and "a \<in> set found"
    and "get (url_of (new_observation st e request n a)) = Inr resp"
  shows "\<exists>spec ob'. spec \<in> set REQUIRED_HEADERS \<and>
    hd_header spec \<notin> set (List.map lower (dkeys (ft_headers res))) \<and>
    (hd_header spec = ''strict-transport-security'' \<longrightarrow> startswith (lower (ft_url res)) ''https://'') \<and>
    na_detector_id a = ''missing-header:'' @ hd_header spec \<and>
    validate eid now (new_observation st e request n a) get = Inr ob' \<and>
    obs_confidence ob' = (if hd_header spec \<in> set (List.map lower (dkeys (pr_headers resp)))
                          then FALSE_POSITIVE else CONFIRMED)"
proof -
  let ?ob = "new_observation st e request n a"
  note all = header_findings_reported [OF assms(1)]
  from assms(2) obtain i where i: "i < length found" "a = found ! i" by (auto simp: in_set_conv_nth)
  define spec where "spec = reported_missing res ! i"
  have made: "missing_header loc res spec = Inr a" using list_all2_nthD2 [OF all i(1)] by (simp add: spec_def i)
  have spec: "spec \<in> set (reported_missing res)"
    using list_all2_lengthD [OF all] i(1) by (simp add: spec_def)
  note m = missing_header_simps [OF made]
  have cls: "obs_vuln_class ?ob = ''missing_security_header''" by (simp add: new_observation_def m)
  have "expected_header ?ob = Some (hd_header spec)"
    using spec by (intro required_expected) (simp_all add: reported_missing_def matched_new_observation m)
  then have holds: "condition_holds ?ob resp names \<longleftrightarrow> hd_header spec \<notin> set names" for names
    by (simp add: condition_holds_def cls)
  obtain ob' where "validate eid now ?ob get = Inr ob'"
    and "obs_confidence ob' = (if condition_holds ?ob resp (List.map lower (dkeys (pr_headers resp)))
           then CONFIRMED else FALSE_POSITIVE)"
    by (rule validate_config [where get = get and ob = ?ob, OF _ assms(3)]) (simp_all add: cls config_members)
  then show ?thesis
    using spec m(4) unfolding holds reported_missing_def by (intro exI [of _ spec] exI [of _ ob']) auto
qed

text \<open>
  A cookie that lacks only SameSite is reported by the analyzer and marked a false positive by the
  validation engine, which asks for the other two attributes only.
\<close>

lemma samesite_refuted:
  assumes "header_or (ft_headers res) ''set-cookie'' ''Set-Cookie'' = raw" and "raw \<noteq> []"
    and "contains ''secure'' (lower raw)" "contains ''httponly'' (lower raw)" "\<not> contains ''samesite'' (lower raw)"
  obtains a where "cookie_findings loc res = Inr [a]"
    and "get (url_of (new_observation st e request n a)) = Inr resp \<Longrightarrow> pr_headers resp = ft_headers res \<Longrightarrow>
      \<exists>ob'. validate eid now (new_observation st e request n a) get = Inr ob' \<and> obs_confidence ob' = FALSE_POSITIVE"
proof -
  obtain a where a: "cookie_findings loc res = Inr [a]" "na_vuln_class a = ''insecure_cookie''"
    using assms by (auto simp: cookie_findings_def Let_def)
  let ?ob = "new_observation st e request n a"
  have cls: "obs_vuln_class ?ob = ''insecure_cookie''" by (simp add: new_observation_def a)
  have "\<exists>ob'. validate eid now ?ob get = Inr ob' \<and> obs_confidence ob' = FALSE_POSITIVE"
    if get: "get (url_of ?ob) = Inr resp" and same: "pr_headers resp = ft_headers res"
  proof -
    have "\<not> condition_holds ?ob resp names" for names
      using assms by (simp add: condition_holds_def cls same header_or_def Let_def)
    moreover obtain ob' where "validate eid now ?ob get = Inr ob'"
      and "obs_confidence ob' = (if condition_holds ?ob resp (List.map lower (dkeys (pr_headers resp)))
             then CONFIRMED else FALSE_POSITIVE)"
      by (rule validate_config [where get = get and ob = ?ob, OF _ get]) (simp_all add: cls config_members)
    ultimately show ?thesis by simp
  qed
  with a(1) show ?thesis by (rule that)
qed


subsection \<open>Secrets\<close>

lemma secret_lengths: "list_all (\<lambda>(name, pattern). 15 \<le> rx_min pattern) SECRET_PATTERNS"
  by (simp add: SECRET_PATTERNS_def rx_seq_def rx_text_def rx_opt_def)

lemma secret_loop_mem:
  "a \<in> set (secret_loop key loc hay ps) \<longleftrightarrow>
     (\<exists>name pattern m. (name, pattern) \<in> set ps \<and> rx_search False pattern hay = Some m \<and>
        a = secret_observation key loc name m)"
proof (induction ps)
  case (Cons p ps)
  then show ?case by (cases p) (auto split: option.splits)
qed simp

lemma secret_observation_simps:
  "na_detector_id (secret_observation key loc name m) = ''secret:'' @ name"
  "na_description (secret_observation key loc name m) = ''A value matching '' @ name @ '' was found in the response.''"
  "concat (List.map ne_matched (na_evidence (secret_observation key loc name m))) = [redact m]"
  by (simp_all add: secret_observation_def)

lemma secret_named:
  assumes mem: "(name, pattern) \<in> set SECRET_PATTERNS"
  shows "''secret:'' @ name \<in> na_detector_id ` set (secret_loop key loc hay SECRET_PATTERNS) \<longleftrightarrow>
    rx_found False pattern hay"
proof
  assume "''secret:'' @ name \<in> na_detector_id ` set (secret_loop key loc hay SECRET_PATTERNS)"
  then obtain a where "a \<in> set (secret_loop key loc hay SECRET_PATTERNS)" "na_detector_id a = ''secret:'' @ name"
    by auto
  then obtain p' m where p': "(name, p') \<in> set SECRET_PATTERNS" "rx_search False p' hay = Some m"
    unfolding secret_loop_mem by (auto simp: secret_observation_simps)
  moreover have "distinct (List.map fst SECRET_PATTERNS)" by (simp add: SECRET_PATTERNS_def)
  ultimately have "p' = pattern" using mem by (auto dest: eq_key_imp_eq_value)
  with p' show "rx_found False pattern hay" by (simp add: rx_found_def)
next
  assume "rx_found False pattern hay"
  then obtain m where "rx_search False pattern hay = Some m" by (auto simp: rx_found_def)
  then have "secret_observation key loc name m \<in> set (secret_loop key loc hay SECRET_PATTERNS)"
    unfolding secret_loop_mem using mem by blast
  moreover have "na_detector_id (secret_observation key loc name m) = ''secret:'' @ name"
    by (rule secret_observation_simps)
  ultimately show "''secret:'' @ name \<in> na_detector_id ` set (secret_loop key loc hay SECRET_PATTERNS)" by force
qed

text \<open>What may be told of a matched secret: its length and the four characters at each end.\<close>

definition looks_alike :: "string \<Rightarrow> string \<Rightarrow> bool" where
  "looks_alike m m' \<longleftrightarrow> length m = length m' \<and> take 4 m = take 4 m' \<and> drop (length m - 4) m = drop (length m' - 4) m'"

lemma redact_alike: "looks_alike m m' \<Longrightarrow> redact m = redact m'"
  unfolding looks_alike_def redact_def by (elim conjE) (simp only:)

lemma secret_alike: "looks_alike m m' \<Longrightarrow> secret_observation key loc name m = secret_observation key loc name m'"
  by (simp add: secret_observation_def redact_alike)

lemma secret_shown:
  assumes "a \<in> set (secret_loop key loc hay SECRET_PATTERNS)"
  shows "\<exists>name pattern m. (name, pattern) \<in> set SECRET_PATTERNS \<and> rx_search False pattern hay = Some m \<and>
    sublist m hay \<and> 15 \<le> length m \<and>
    a = \<lparr>na_detector_id = ''secret:'' @ name, na_title = ''Potential exposed secret: '' @ name,
         na_vuln_class = key, na_severity = HIGH, na_cwe = [540, 312], na_location = loc,
         na_description = ''A value matching '' @ name @ '' was found in the response.'',
         na_remediation = ''Remove secrets from client-served responses and rotate them.'',
         na_evidence = [\<lparr>ne_kind = RESPONSE_MATCH, ne_summary = name @ '' pattern matched (value redacted)'',
           ne_matched = [take 4 m @ replicate (length m - 8) CHR ''*'' @ drop (length m - 4) m],
           ne_response = None, ne_data = []\<rparr>]\<rparr> \<and>
    (\<forall>m'. looks_alike m m' \<longrightarrow> secret_observation key loc name m' = a)"
proof -
  from assms obtain name pattern m where p: "(name, pattern) \<in> set SECRET_PATTERNS"
    and m: "rx_search False pattern hay = Some m" and a: "a = secret_observation key loc name m"
    unfolding secret_loop_mem by blast
  have "15 \<le> length m" "sublist m hay"
    using rx_search_part [OF m] secret_lengths p by (auto simp: list_all_iff sublist_def dest: bspec)
  moreover have "\<forall>m'. looks_alike m m' \<longrightarrow> secret_observation key loc name m' = a"
    using a secret_alike by metis
  moreover have "a = \<lparr>na_detector_id = ''secret:'' @ name, na_title = ''Potential exposed secret: '' @ name,
         na_vuln_class = key, na_severity = HIGH, na_cwe = [540, 312], na_location = loc,
         na_description = ''A value matching '' @ name @ '' was found in the response.'',
         na_remediation = ''Remove secrets from client-served responses and rotate them.'',
         na_evidence = [\<lparr>ne_kind = RESPONSE_MATCH, ne_summary = name @ '' pattern matched (value redacted)'',
           ne_matched = [take 4 m @ replicate (length m - 8) CHR ''*'' @ drop (length m - 4) m],
           ne_response = None, ne_data = []\<rparr>]\<rparr>"
    using \<open>15 \<le> length m\<close> by (simp add: a secret_observation_def redact_def)
  ultimately show ?thesis using p m by blast
qed

text \<open>
  C39: a secret observation is made for exactly the secret patterns that occur in the body or the headers.  Its
  every field is fixed by the name of the pattern, the location of the page and the redacted match: the first and
  the last four characters of the secret with a star for each of those in between, at least seven of them.  No
  other field and no other evidence depends on the match, so two secrets of the same length with the same ends
  give the same observation.  This is about the secret observations: those for missing headers
  keep the headers of the response, and those for banners the value, as they are.
\<close>

theorem secrets_redacted:
  assumes "secret_findings loc res = Inr found"
  shows "(\<forall>name pattern. (name, pattern) \<in> set SECRET_PATTERNS \<longrightarrow>
      (''secret:'' @ name \<in> na_detector_id ` set found \<longleftrightarrow> rx_found False pattern (haystack res))) \<and>
    (\<forall>a \<in> set found. \<exists>name pattern m. (name, pattern) \<in> set SECRET_PATTERNS \<and>
      rx_search False pattern (haystack res) = Some m \<and> sublist m (haystack res) \<and> 15 \<le> length m \<and>
      a = \<lparr>na_detector_id = ''secret:'' @ name, na_title = ''Potential exposed secret: '' @ name,
           na_vuln_class = ''secret_exposure'', na_severity = HIGH, na_cwe = [540, 312], na_location = loc,
           na_description = ''A value matching '' @ name @ '' was found in the response.'',
           na_remediation = ''Remove secrets from client-served responses and rotate them.'',
           na_evidence = [\<lparr>ne_kind = RESPONSE_MATCH, ne_summary = name @ '' pattern matched (value redacted)'',
             ne_matched = [take 4 m @ replicate (length m - 8) CHR ''*'' @ drop (length m - 4) m],
             ne_response = None, ne_data = []\<rparr>]\<rparr> \<and>
      (\<forall>m'. looks_alike m m' \<longrightarrow> secret_observation ''secret_exposure'' loc name m' = a))"
proof -
  have found: "found = secret_loop ''secret_exposure'' loc (haystack res) SECRET_PATTERNS"
    using assms by (simp add: secret_findings_def)
  show ?thesis unfolding found using secret_named secret_shown by blast
qed

subsection \<open>The engine under the orchestrator\<close>

text \<open>
  C13: what the analyzer hands the orchestrator is well formed: each observation carries the scan and
  run of the request and the engine's identifier, is tentative, has evidence, a normalized location
  with a port between 1 and 65535 and a class of the taxonomy, the class that correlation will give
  it from its CWE numbers.
\<close>

theorem headers_observations_typed:
  assumes "engine_calls (native_adapter st now factory (HeadersAdapter fetch)) request = Inr (Some obs)"
    and "ob \<in> set obs"
  shows "obs_scan_id ob = rq_scan_id request \<and> obs_run_id ob = rq_run_id request \<and>
    obs_engine_id ob = ''vantage-headers'' \<and> is_identifier (obs_engine_id ob) \<and>
    obs_confidence ob = TENTATIVE \<and> obs_evidence ob \<noteq> [] \<and> location_ok (obs_location ob) \<and>
    vc_key (obs_class ob) = obs_vuln_class ob \<and> obs_vuln_class ob \<in> set (List.map vc_key CLASSES)"
proof -
  have "is_identifier ''vantage-headers''" by code_simp
  moreover have "nv_engine_id (HeadersAdapter fetch) = ''vantage-headers''" by (simp add: HeadersAdapter_def)
  ultimately show ?thesis
    using native_observations_typed [OF _ headers_page_ok assms] by (simp add: HeadersAdapter_def)
qed

lemma headers_page_location:
  assumes "headers_page res = Inr found" and "a \<in> set found"
  shows "native_location (ft_url res) = Inr (na_location a)"
proof (rule headers_pageE [OF assms(1)])
  fix loc p q r s
  assume loc: "native_location (ft_url res) = Inr loc" and parts: "header_findings loc res = Inr p"
    "cookie_findings loc res = Inr q" "cors_findings loc res = Inr r" "banner_findings loc res = Inr s"
    and found: "found = p @ q @ r @ s @ secret_loop ''secret_exposure'' loc (haystack res) SECRET_PATTERNS"
  have "list_all (\<lambda>a. na_location a = loc) p"
    using parts(1) unfolding header_findings_def Let_def by (rule map_res_all) (auto dest: missing_header_simps(2))
  moreover have "list_all (\<lambda>a. na_location a = loc) q"
    using parts(2) by (auto simp: cookie_findings_def Let_def split: if_splits)
  moreover have "list_all (\<lambda>a. na_location a = loc) r"
    using parts(3) by (auto simp: cors_findings_def Let_def split: if_splits)
  moreover have "list_all (\<lambda>a. na_location a = loc) s"
    using parts(4) unfolding banner_findings_def by (rule map_res_all) (auto simp: version_banner_def split: if_splits)
  ultimately have "na_location a = loc"
    using assms(2) unfolding found by (auto simp: list_all_iff secret_loop_mem secret_observation_def)
  with loc show ?thesis by simp
qed

text \<open>
  C12: the analyzer puts nothing out of scope on the wire: run by the orchestrator with the default client, over the
  validated rules of an authorized target, every request its client has sent is a GET of one of the seeds that the
  target's own scope engine allows.  Every observation is made of the page that this client fetched from such
  a seed, in the state the seeds before it had left the client in, and its location is that of the page.
\<close>

theorem headers_pages_in_scope:
  assumes "run_request rid scan target (native_metadata (HeadersAdapter (scoped_fetch re_search net)))
      capabilities seeds = Inr request"
    and "list_all (\<lambda>r. ScopeRule_validate r = Inr r) (t_scope_rules target)" and "is_authorized now target"
    and "engine_calls (native_adapter st hnow (default_client_factory net)
      (HeadersAdapter (scoped_fetch re_search net))) request = Inr (Some obs)"
    and "ob \<in> set obs"
  shows "\<exists>c. default_client_factory net request = Inr c \<and>
    (\<exists>all c'. visit (scoped_fetch re_search net) headers_page seeds c = (Inr all, c') \<and>
      list_all (\<lambda>(mth, url). mth = ''GET'' \<and> url \<in> set seeds \<and>
        scope_allows re_search (ScopeEngine_init now target) url (Some mth) = Inr True) (hc_sent c')) \<and>
    (\<exists>url \<in> set seeds. scope_allows re_search (ScopeEngine_init now target) url (Some ''GET'') = Inr True \<and>
      (\<exists>c1 r found a n. page_of (scoped_fetch re_search net) headers_page seeds c url c1 r \<and>
         headers_page r = Inr found \<and> a \<in> set found \<and> native_location (ft_url r) = Inr (na_location a) \<and>
         ob = Observation_validate (new_observation st (HeadersAdapter (scoped_fetch re_search net)) request n a)))"
  using native_pages_in_scope [OF assms(1-3) _ assms(4,5), where page = headers_page] headers_page_location
  by (simp add: HeadersAdapter_def) blast


subsection \<open>Witnesses\<close>

definition demo_site :: Target where
  "demo_site = (demo_target [''http://app.example/''])
     \<lparr>t_scope_rules := [demo_rule EXCLUDE ''app.example'' ''/admin'', demo_rule INCLUDE ''app.example'' ''/''],
      t_rate_limits := \<lparr>rl_max_requests_per_second = 5, rl_max_concurrency = 4, rl_max_total_requests = None\<rparr>\<rparr>"

definition demo_site_scan :: Scan where
  "demo_site_scan = \<lparr>s_id = ''s'', s_tenant_id = ''acme'', s_target_id = ''t1'', s_policy = demo_scan_policy PASSIVE,
     s_state = RUNNING, s_state_reason = None, s_created_by = ''me'', s_created_at = 0,
     s_started_at = None, s_finished_at = None\<rparr>"

definition demo_request :: EngineRunRequest where
  "demo_request = \<lparr>rq_run_id = ''r'', rq_scan_id = ''s'', rq_tenant_id = ''acme'', rq_engine_id = ''vantage-headers'',
     rq_capabilities = [ANALYSIS_HEADERS], rq_seed_urls = [''http://app.example/shop''],
     rq_scope_rules = t_scope_rules demo_site, rq_max_requests_per_second = 5, rq_max_concurrency = 4,
     rq_options = [], rq_auth_context = None, rq_proxy_url = None\<rparr>"

definition demo_stamps :: Stamps where
  "demo_stamps = \<lparr>st_ids = (\<lambda>n i. str_of_nat n @ ''.'' @ str_of_nat i), st_times = int\<rparr>"

lemma demo_rules_valid: "list_all (\<lambda>r. ScopeRule_validate r = Inr r) (t_scope_rules demo_site)"
  by code_simp

lemma demo_run_request:
  "run_request ''r'' demo_site_scan demo_site (native_metadata (HeadersAdapter fetch))
     [ANALYSIS_HEADERS] [''http://app.example/shop''] = Inr demo_request"
proof -
  have "is_identifier ''vantage-headers''" by code_simp
  then show ?thesis
    by (simp add: run_request_def demo_request_def demo_site_def demo_site_scan_def native_metadata_def
        HeadersAdapter_def EngineRunRequest_ok_def)
qed

lemma demo_factory: "default_client_factory demo_network demo_request = Inr demo_client"
  using map_res_fixed [OF demo_rules_valid]
  by (simp add: default_client_factory_def demo_request_def demo_client_def demo_engine_def demo_site_def)

definition demo_answer :: "FetchResult \<Rightarrow> bool" where
  "demo_answer r \<longleftrightarrow> ft_url r = ''http://app.example/shop'' \<and> ft_headers r = [(''server'', ''nginx/1.25'')] \<and>
     ft_body r = ''hello'' \<and> fetch_ok r"

lemma demo_answered:
  obtains r where "fst demo_fetched = Inr r" "demo_answer r"
proof -
  have "DEFAULT_MAX_BODY = Suc (Suc (Suc (Suc (Suc 4194299))))" by (simp add: DEFAULT_MAX_BODY_def)
  then show ?thesis
    using that
    by (auto simp: demo_fetched_def scoped_fetch_def demo_check demo_client_scope ensure_client_def Let_def
        demo_network_def read_response_def demo_answer_def fetch_ok_def demo_client_def ScopedHttpClient_init_def)
qed

lemma header_or_length:
  assumes "list_all (\<lambda>(k, v). length v \<le> n) h"
  shows "length (header_or h a b) \<le> n"
proof -
  have "length (dget_or h k []) \<le> n" for k
    using assms by (induction h) (auto simp: dget_or_def split: option.splits if_splits)
  then show ?thesis by (simp add: header_or_def sor_def)
qed

lemma headers_page_total:
  assumes "native_location (ft_url res) = Inr loc" and "list_all (\<lambda>(k, v). length v \<le> 1900) (ft_headers res)"
  obtains found where "headers_page res = Inr found" "length (reported_missing res) \<le> length found"
proof -
  have "\<exists>a. header_findings loc res = Inr a"
    unfolding header_findings_def Let_def by (rule map_res_total) (simp add: missing_header_def)
  moreover have "\<exists>d. banner_findings loc res = Inr d"
    unfolding banner_findings_def
  proof (rule map_res_total)
    fix hv
    assume "hv \<in> set (List.filter (\<lambda>(hdr, val). val \<noteq> [] \<and> rx_found False VERSION_BANNER val)
      (List.map (\<lambda>hdr. (hdr, header_or (ft_headers res) hdr (title_case hdr)))
        [''server'', ''x-powered-by'', ''x-aspnet-version'']))"
    then have "hv \<in> (\<lambda>hdr. (hdr, header_or (ft_headers res) hdr (title_case hdr))) `
        {''server'', ''x-powered-by'', ''x-aspnet-version''}"
      unfolding set_filter set_map list.set by blast
    then obtain hdr where "hdr \<in> {''server'', ''x-powered-by'', ''x-aspnet-version''}"
      and hv: "hv = (hdr, header_or (ft_headers res) hdr (title_case hdr))" by (rule imageE)
    then have "summary_ok (hdr @ '': '' @ header_or (ft_headers res) hdr (title_case hdr))"
      using header_or_length [OF assms(2), of hdr "title_case hdr"] by (auto simp: summary_ok_def MAX_SUMMARY_def)
    then show "\<exists>y. version_banner loc hv = Inr y" by (simp add: version_banner_def hv)
  qed
  moreover have "\<exists>b. cookie_findings loc res = Inr b" "\<exists>c. cors_findings loc res = Inr c"
    by (simp_all add: cookie_findings_def cors_findings_def Let_def)
  ultimately obtain a b c d where "header_findings loc res = Inr a" "banner_findings loc res = Inr d"
    "cookie_findings loc res = Inr b" "cors_findings loc res = Inr c" by blast
  with that assms list_all2_lengthD [OF header_findings_reported, of loc res a] show ?thesis
    by (simp add: headers_page_def secret_findings_def)
qed

lemma demo_calls:
  obtains ob obs where "engine_calls (native_adapter demo_stamps 0 (default_client_factory demo_network)
    (HeadersAdapter (scoped_fetch (\<lambda>_ _. Inr True) demo_network))) demo_request = Inr (Some (ob # obs))"
proof -
  obtain r where r: "fst demo_fetched = Inr r" "demo_answer r" by (rule demo_answered)
  have "case native_location ''http://app.example/shop'' of Inr loc \<Rightarrow> True | Inl _ \<Rightarrow> False" by code_simp
  then have "\<exists>loc. native_location ''http://app.example/shop'' = Inr loc" by (simp split: sum.splits)
  with r(2) obtain found where found: "headers_page r = Inr found" "length (reported_missing r) \<le> length found"
    by (auto simp: demo_answer_def intro: headers_page_total [of r])
  have "reported_missing r \<noteq> []"
  proof -
    have "lower ''server'' = ''server''" by code_simp
    with r(2) show ?thesis by (simp add: reported_missing_def demo_answer_def REQUIRED_HEADERS_def dkeys_def)
  qed
  with found(2) obtain a as where cons: "found = a # as" by (cases found) auto
  have "http_get (scoped_fetch (\<lambda>_ _. Inr True) demo_network) ''http://app.example/shop'' demo_client =
      (Inr r, snd demo_fetched)"
    using demo_fetched_eq r(1) by (simp add: http_get_def)
  then have "nv_analyze (HeadersAdapter (scoped_fetch (\<lambda>_ _. Inr True) demo_network)) demo_request demo_client =
      (Inr found, snd demo_fetched)"
    using r(2) found(1) by (simp add: HeadersAdapter_def demo_request_def demo_answer_def)
  moreover have "list_all (\<lambda>a. Location_validate (na_location a) = na_location a) found"
    using headers_page_ok [OF found(1)] by (simp add: list_all_iff new_observation_ok_def location_ok_def)
  ultimately have "engine_calls (native_adapter demo_stamps 0 (default_client_factory demo_network)
      (HeadersAdapter (scoped_fetch (\<lambda>_ _. Inr True) demo_network))) demo_request =
      Inr (Some (made_observations demo_stamps (HeadersAdapter (scoped_fetch (\<lambda>_ _. Inr True) demo_network)) demo_request found))"
    by (rule native_engine_calls
        [where client_factory = "default_client_factory demo_network" and request = demo_request, OF demo_factory])
  then show ?thesis by (intro that) (simp add: made_observations_def cons)
qed

theorem headers_observations_typed_witness:
  "\<exists>ob :: Observation. obs_scan_id ob = ''s'' \<and> obs_engine_id ob = ''vantage-headers'' \<and> location_ok (obs_location ob)"
proof -
  obtain ob obs where calls: "engine_calls (native_adapter demo_stamps 0 (default_client_factory demo_network)
    (HeadersAdapter (scoped_fetch (\<lambda>_ _. Inr True) demo_network))) demo_request = Inr (Some (ob # obs))"
    by (rule demo_calls)
  have mem: "ob \<in> set (ob # obs)" by simp
  show ?thesis
    using headers_observations_typed [OF calls mem] by - (rule exI [of _ ob], simp add: demo_request_def)
qed

theorem headers_pages_in_scope_witness:
  "\<exists>c c1 r. default_client_factory demo_network demo_request = Inr c \<and>
     scope_allows (\<lambda>_ _. Inr True) (ScopeEngine_init 0 demo_site) ''http://app.example/shop'' (Some ''GET'') = Inr True \<and>
     page_of (scoped_fetch (\<lambda>_ _. Inr True) demo_network) headers_page [''http://app.example/shop''] c
       ''http://app.example/shop'' c1 r"
proof -
  obtain ob obs where calls: "engine_calls (native_adapter demo_stamps 0 (default_client_factory demo_network)
    (HeadersAdapter (scoped_fetch (\<lambda>_ _. Inr True) demo_network))) demo_request = Inr (Some (ob # obs))"
    by (rule demo_calls)
  have "is_authorized 0 demo_site" by code_simp
  from headers_pages_in_scope [OF demo_run_request demo_rules_valid this calls, of ob] show ?thesis by auto
qed

definition demo_missing :: NewObservation where
  "demo_missing = \<lparr>na_detector_id = ''missing-header:referrer-policy'',
     na_title = ''Missing security header: referrer-policy'', na_vuln_class = ''missing_security_header'',
     na_severity = LOW, na_cwe = [693],
     na_location = \<lparr>loc_scheme = ''http'', loc_host = ''a'', loc_port = 80, loc_path = ''/'', loc_method = Some ''GET'',
       loc_parameter = None, loc_parameter_location = None\<rparr>,
     na_description = ''The response does not set the referrer-policy header.'',
     na_remediation = ''Set a privacy-preserving Referrer-Policy such as strict-origin-when-cross-origin.'',
     na_evidence = [header_evidence ''referrer-policy absent'' [''referrer-policy'']
       (Some \<lparr>hm_method = None, hm_url = Some ''http://a/'', hm_status = Some 200,
          hm_headers = [(''X-Content-Type-Options'', ''nosniff''), (''Content-Security-Policy'', ''default-src'')],
          hm_body = None, hm_body_truncated = False\<rparr>)]\<rparr>"

definition demo_page_result :: FetchResult where
  "demo_page_result = \<lparr>ft_url = ''http://a/'', ft_status = 200,
     ft_headers = [(''X-Content-Type-Options'', ''nosniff''), (''Content-Security-Policy'', ''default-src'')],
     ft_body = ''key AKIA0123456789ABCDEF'', ft_elapsed_ms = 0, ft_error = None, ft_out_of_scope = False\<rparr>"

lemma demo_missing_found: "header_findings (na_location demo_missing) demo_page_result = Inr [demo_missing]"
proof -
  have "List.map lower (dkeys (ft_headers demo_page_result)) = [''x-content-type-options'', ''content-security-policy'']"
    "startswith (lower (ft_url demo_page_result)) ''https://'' = False" by code_simp+
  then show ?thesis
    by (simp add: header_findings_def REQUIRED_HEADERS_def missing_header_def)
      (simp add: demo_missing_def demo_page_result_def)
qed

theorem missing_header_reverified_witness:
  "\<exists>ob'. validate ''e'' 5 (new_observation demo_stamps (HeadersAdapter (fake_fetch (\<lambda>_ _. Inr True))) demo_request 0 demo_missing)
      (\<lambda>_. Inr \<lparr>pr_status = 200, pr_headers = [(''Referrer-Policy'', ''no-referrer'')], pr_body = [],
                 pr_url = ''http://a/'', pr_elapsed_ms = 0\<rparr>) = Inr ob' \<and>
     obs_confidence ob' = FALSE_POSITIVE"
proof -
  let ?resp = "\<lparr>pr_status = 200, pr_headers = [(''Referrer-Policy'', ''no-referrer'')], pr_body = [],
                 pr_url = ''http://a/'', pr_elapsed_ms = 0\<rparr>"
  let ?ob = "new_observation demo_stamps (HeadersAdapter (fake_fetch (\<lambda>_ _. Inr True))) demo_request 0 demo_missing"
  have low: "lower ''Referrer-Policy'' = ''referrer-policy''" by code_simp
  have mem: "demo_missing \<in> set [demo_missing]" by simp
  obtain spec :: HeaderSpec and ob' where "na_detector_id demo_missing = ''missing-header:'' @ hd_header spec"
    and v: "validate ''e'' 5 ?ob (\<lambda>_. Inr ?resp) = Inr ob'"
    and conf: "obs_confidence ob' = (if hd_header spec \<in> set (List.map lower (dkeys (pr_headers ?resp)))
                          then FALSE_POSITIVE else CONFIRMED)"
    using missing_header_reverified [OF demo_missing_found mem, where get = "\<lambda>_. Inr ?resp" and resp = ?resp
        and st = demo_stamps and request = demo_request and n = 0 and eid = "''e''" and now = 5
        and e = "HeadersAdapter (fake_fetch (\<lambda>_ _. Inr True))", OF refl]
    by (elim exE conjE) (rule that; assumption)
  then have "hd_header spec = ''referrer-policy''" by (simp add: demo_missing_def)
  with conf have "obs_confidence ob' = FALSE_POSITIVE" by (simp add: dkeys_def low)
  with v show ?thesis by blast
qed

theorem secrets_redacted_witness:
  "''secret:aws_access_key_id'' \<in> na_detector_id ` set (secret_loop ''secret_exposure'' (na_location demo_missing)
      (haystack demo_page_result) SECRET_PATTERNS)"
proof -
  have "(''aws_access_key_id'', rx_seq [rx_text ''AKIA'', Rx_Rep is_upnum 16 (Some 16)]) \<in> set SECRET_PATTERNS"
    by (simp add: SECRET_PATTERNS_def)
  moreover have "rx_found False (rx_seq [rx_text ''AKIA'', Rx_Rep is_upnum 16 (Some 16)]) (haystack demo_page_result)"
    by code_simp
  moreover have "secret_findings (na_location demo_missing) demo_page_result =
      Inr (secret_loop ''secret_exposure'' (na_location demo_missing) (haystack demo_page_result) SECRET_PATTERNS)"
    by (simp add: secret_findings_def)
  note secrets_redacted [OF this]
  ultimately show ?thesis by fastforce
qed

end
