(* ===== verification/Native_Fingerprint.thy ===== *)
theory Native_Fingerprint
  imports Native Py_Regex
begin

text \<open>
  The passive technology fingerprint (\<open>vantage/adapters/native/fingerprint.py\<close>): the table of
  signatures and the loop that matches a response against it.
\<close>

record Signature =
  sg_technology :: string
  sg_category :: string
  sg_header :: "string option"
  sg_header_regex :: "regex option"
  sg_body_regex :: "regex option"
  sg_cookie :: "string option"

definition by_header :: "string \<Rightarrow> string \<Rightarrow> string \<Rightarrow> string \<Rightarrow> Signature" where
  "by_header tech cat hdr pat =
     \<lparr>sg_technology = tech, sg_category = cat, sg_header = Some hdr, sg_header_regex = Some (rx_text pat),
      sg_body_regex = None, sg_cookie = None\<rparr>"

definition by_cookie :: "string \<Rightarrow> string \<Rightarrow> string \<Rightarrow> Signature" where
  "by_cookie tech cat name =
     \<lparr>sg_technology = tech, sg_category = cat, sg_header = None, sg_header_regex = None,
      sg_body_regex = None, sg_cookie = Some name\<rparr>"

definition by_body :: "string \<Rightarrow> string \<Rightarrow> regex \<Rightarrow> Signature" where
  "by_body tech cat pat =
     \<lparr>sg_technology = tech, sg_category = cat, sg_header = None, sg_header_regex = None,
      sg_body_regex = Some pat, sg_cookie = None\<rparr>"

definition is_lower_hex :: "char \<Rightarrow> bool" where
  "is_lower_hex c \<longleftrightarrow> is_digit c \<or> CHR ''a'' \<le> c \<and> c \<le> CHR ''f''"

definition SIGNATURES :: "Signature list" where
  "SIGNATURES =
     [by_header ''nginx'' ''server'' ''server'' ''nginx'',
      by_header ''Apache httpd'' ''server'' ''server'' ''Apache'',
      by_header ''Microsoft IIS'' ''server'' ''server'' ''IIS'',
      by_header ''PHP'' ''language'' ''x-powered-by'' ''PHP'',
      by_header ''ASP.NET'' ''framework'' ''x-powered-by'' ''ASP.NET'',
      by_header ''Express'' ''framework'' ''x-powered-by'' ''Express'',
      by_cookie ''Django'' ''framework'' ''csrftoken'',
      by_cookie ''Laravel'' ''framework'' ''laravel_session'',
      by_body ''WordPress'' ''cms'' (rx_alt [rx_text ''/wp-content/'',
        rx_text (''<meta name='' @ [CHR 0x22] @ ''generator'' @ [CHR 0x22] @ '' content='' @ [CHR 0x22] @ ''WordPress'')]),
      by_header ''Drupal'' ''cms'' ''x-generator'' ''Drupal'',
      by_header ''Cloudflare'' ''cdn'' ''server'' ''cloudflare'',
      by_body ''React'' ''framework'' (rx_alt [rx_text ''data-reactroot'', rx_text ''__REACT_DEVTOOLS_GLOBAL_HOOK__'']),
      by_body ''Vue.js'' ''framework''
        (rx_alt [rx_seq [rx_text ''data-v-'', Rx_Rep is_lower_hex 8 (Some 8)], rx_text ''__VUE__'']),
      by_body ''Angular'' ''framework'' (rx_text (''ng-version='' @ [CHR 0x22])),
      by_body ''Next.js'' ''framework'' (rx_alt [rx_text ''/_next/static/'', rx_text ''__NEXT_DATA__''])]"

text \<open>\<open>{k.lower(): v for k, v in headers.items()}\<close>.\<close>

definition lowered_headers :: "(string, string) dict \<Rightarrow> (string, string) dict" where
  "lowered_headers h = foldl (\<lambda>d (k, v). dset d (lower k) v) [] h"

definition header_match :: "(string, string) dict \<Rightarrow> Signature \<Rightarrow> string option" where
  "header_match lowered sig =
     (case (sg_header sig, sg_header_regex sig) of
        (Some hdr, Some rx) \<Rightarrow>
          if hdr = [] then None
          else (case dget lowered hdr of
                  None \<Rightarrow> None
                | Some val \<Rightarrow> if val \<noteq> [] \<and> rx_found True rx val then Some (hdr @ '': '' @ val) else None)
      | _ \<Rightarrow> None)"

definition matched_value :: "(string, string) dict \<Rightarrow> string \<Rightarrow> string \<Rightarrow> Signature \<Rightarrow> string option" where
  "matched_value lowered set_cookie body sig =
     (case header_match lowered sig of
        Some v \<Rightarrow> Some v
      | None \<Rightarrow>
          if osor (sg_cookie sig) [] \<noteq> [] \<and> contains (lower (osor (sg_cookie sig) [])) set_cookie
          then Some (''cookie:'' @ osor (sg_cookie sig) [])
          else (case sg_body_regex sig of
                  None \<Rightarrow> None
                | Some rx \<Rightarrow> if rx_found True rx body then Some ''body-marker'' else None))"

definition technology_observation :: "string \<Rightarrow> Location \<Rightarrow> Signature \<Rightarrow> string \<Rightarrow> NewObservation" where
  "technology_observation key loc sig v =
     \<lparr>na_detector_id = ''tech:'' @ sg_technology sig,
      na_title = ''Technology detected: '' @ sg_technology sig,
      na_vuln_class = key, na_severity = INFO, na_cwe = [200], na_location = loc,
      na_description = ''Passive fingerprint identified '' @ sg_technology sig @ '' ('' @ sg_category sig @ '').'',
      na_remediation = ''No action required; informational technology inventory.'',
      na_evidence = [\<lparr>ne_kind = RESPONSE_MATCH, ne_summary = sg_technology sig @ '' via '' @ v, ne_matched = [v],
        ne_response = None,
        ne_data = [(''technology'', PStr (sg_technology sig)), (''category'', PStr (sg_category sig))]\<rparr>]\<rparr>"

fun match_signatures ::
  "string \<Rightarrow> Location \<Rightarrow> (string, string) dict \<Rightarrow> string \<Rightarrow> string \<Rightarrow> Signature list \<Rightarrow> NewObservation list res" where
  "match_signatures key loc lowered set_cookie body [] = Inr []"
| "match_signatures key loc lowered set_cookie body (sig # sigs) =
     (case matched_value lowered set_cookie body sig of
        None \<Rightarrow> match_signatures key loc lowered set_cookie body sigs
      | Some v \<Rightarrow>
          if \<not> summary_ok (sg_technology sig @ '' via '' @ v) then Inl (ValidationError ''summary'')
          else bind_res (match_signatures key loc lowered set_cookie body sigs) (\<lambda>found.
                 Inr (technology_observation key loc sig v # found)))"

definition fingerprint_match :: "FetchResult \<Rightarrow> NewObservation list res" where
  "fingerprint_match res =
     bind_res (native_location (ft_url res)) (\<lambda>loc.
       (let lowered = lowered_headers (ft_headers res);
            set_cookie = lower (dget_or lowered ''set-cookie'' [])
        in bind_res (class_key ''information_disclosure'') (\<lambda>key.
             match_signatures key loc lowered set_cookie (ft_body res) SIGNATURES)))"

definition FingerprintAdapter :: "'c fetch \<Rightarrow> 'c NativeEngine" where
  "FingerprintAdapter fetch =
     \<lparr>nv_engine_id = ''vantage-fingerprint'', nv_engine_name = ''Vantage Technology Fingerprint'',
      nv_capabilities = [FINGERPRINT_TECH],
      nv_analyze = (\<lambda>request. visit fetch fingerprint_match (rq_seed_urls request))\<rparr>"

subsection \<open>What is reported\<close>

lemma match_signatures_technologies:
  "match_signatures key loc lowered set_cookie body sigs = Inr found \<Longrightarrow>
     List.map na_detector_id found =
     List.map (\<lambda>sig. ''tech:'' @ sg_technology sig)
       (List.filter (\<lambda>sig. matched_value lowered set_cookie body sig \<noteq> None) sigs)"
  by (induction sigs arbitrary: found)
     (auto simp: technology_observation_def bind_res_Inr_iff split: option.splits if_splits)

lemma match_signatures_ok:
  "match_signatures ''information_disclosure'' loc lowered set_cookie body sigs = Inr found \<Longrightarrow>
     location_ok loc \<Longrightarrow> list_all new_observation_ok found"
  by (induction sigs arbitrary: found)
     (auto simp: technology_observation_def new_observation_ok_def bind_res_Inr_iff split: option.splits if_splits)

lemma fingerprint_page_ok: "fingerprint_match res = Inr found \<Longrightarrow> list_all new_observation_ok found"
  by (auto simp: fingerprint_match_def bind_res_Inr_iff Let_def dest: native_location_ok match_signatures_ok)

lemma dget_foldl_dset:
  "dget (foldl (\<lambda>d (k, v). dset d (f k) v) d0 h) n =
     (case List.find (\<lambda>(k, v). f k = n) (rev h) of Some (k, v) \<Rightarrow> Some v | None \<Rightarrow> dget d0 n)"
  by (induction h rule: rev_induct) (auto simp: dget_dset split: option.splits)

text \<open>
  a response is reported to run a technology exactly when the technology's signature matches:
  its header, found under any spelling of the name, or its cookie, or its marker in the body; each
  technology is reported at most once, in the order of the table.
\<close>

theorem technologies_detected:
  assumes "fingerprint_match res = Inr found"
  shows "List.map na_detector_id found =
      List.map (\<lambda>sig. ''tech:'' @ sg_technology sig)
        (List.filter (\<lambda>sig. matched_value (lowered_headers (ft_headers res))
            (lower (dget_or (lowered_headers (ft_headers res)) ''set-cookie'' [])) (ft_body res) sig \<noteq> None) SIGNATURES) \<and>
    distinct (List.map na_detector_id found) \<and>
    (\<forall>n. dget (lowered_headers (ft_headers res)) n =
       map_option snd (List.find (\<lambda>(k, v). lower k = n) (rev (ft_headers res))))"
proof -
  from assms have found: "List.map na_detector_id found =
      List.map (\<lambda>sig. ''tech:'' @ sg_technology sig)
        (List.filter (\<lambda>sig. matched_value (lowered_headers (ft_headers res))
            (lower (dget_or (lowered_headers (ft_headers res)) ''set-cookie'' [])) (ft_body res) sig \<noteq> None) SIGNATURES)"
    by (auto simp: fingerprint_match_def bind_res_Inr_iff Let_def dest: match_signatures_technologies)
  have "distinct (List.map (\<lambda>sig. ''tech:'' @ sg_technology sig) SIGNATURES)"
    by (simp add: SIGNATURES_def by_header_def by_cookie_def by_body_def)
  then have "distinct (List.map na_detector_id found)" unfolding found by (rule distinct_map_filter)
  then show ?thesis using found by (auto simp: lowered_headers_def dget_foldl_dset split: option.split)
qed

definition demo_vue :: FetchResult where
  "demo_vue = \<lparr>ft_url = ''http://a/'', ft_status = 200, ft_headers = [(''Server'', ''NGINX'')],
     ft_body = ''<p data-v-0123abcd>'', ft_elapsed_ms = 0, ft_error = None, ft_out_of_scope = False\<rparr>"

theorem technologies_detected_witness:
  "\<exists>found. fingerprint_match demo_vue = Inr found \<and>
     List.map na_detector_id found = [''tech:nginx'', ''tech:Vue.js'']"
proof -
  have "case fingerprint_match demo_vue of Inr l \<Rightarrow> True | Inl _ \<Rightarrow> False" by code_simp
  then have "\<exists>found. fingerprint_match demo_vue = Inr found" by (auto split: sum.splits)
  then obtain found where found: "fingerprint_match demo_vue = Inr found" ..
  have "List.map (\<lambda>sig. ''tech:'' @ sg_technology sig)
      (List.filter (\<lambda>sig. matched_value (lowered_headers (ft_headers demo_vue))
          (lower (dget_or (lowered_headers (ft_headers demo_vue)) ''set-cookie'' [])) (ft_body demo_vue) sig \<noteq> None)
        SIGNATURES) = [''tech:nginx'', ''tech:Vue.js'']"
    by code_simp
  with technologies_detected [OF found] found show ?thesis by auto
qed

end
