(* ===== verification/Py_Url.thy ===== *)
theory Py_Url
  imports Py_Net Py_Regex
begin

text \<open>
  \<open>urllib.parse.urljoin\<close> of CPython 3.11 with what it is made of, and \<open>finditer\<close> of a regular
  expression with one group.
\<close>

subsection \<open>urlparse and urlunparse\<close>

definition uses_relative :: "string list" where
  "uses_relative =
     ['''', ''ftp'', ''http'', ''gopher'', ''nntp'', ''imap'', ''wais'', ''file'', ''https'', ''shttp'', ''mms'',
      ''prospero'', ''rtsp'', ''rtsps'', ''rtspu'', ''sftp'', ''svn'', ''svn+ssh'', ''ws'', ''wss'']"

definition uses_netloc :: "string list" where
  "uses_netloc =
     ['''', ''ftp'', ''http'', ''gopher'', ''nntp'', ''telnet'', ''imap'', ''wais'', ''file'', ''mms'', ''https'',
      ''shttp'', ''snews'', ''prospero'', ''rtsp'', ''rtsps'', ''rtspu'', ''rsync'', ''svn'', ''svn+ssh'', ''sftp'',
      ''nfs'', ''git'', ''git+ssh'', ''ws'', ''wss'']"

definition uses_params :: "string list" where
  "uses_params =
     ['''', ''ftp'', ''hdl'', ''prospero'', ''http'', ''imap'', ''https'', ''shttp'', ''rtsp'', ''rtsps'', ''rtspu'',
      ''sip'', ''sips'', ''mms'', ''sftp'', ''tel'']"

text \<open>\<open>_splitparams\<close>: the first semicolon of the last segment.\<close>

definition split_params :: "string \<Rightarrow> string \<times> string" where
  "split_params path =
     (let segment = snd (snd (rpartition_on CHR ''/'' path));
          front = take (length path - length segment) path
      in case partition_on CHR '';'' segment of
           (a, found, b) \<Rightarrow> if found then (front @ a, b) else (path, []))"

definition urlparse :: "string \<Rightarrow> string \<Rightarrow> (split_result \<times> string) res" where
  "urlparse dflt url =
     bind_res (urlsplit url) (\<lambda>r.
       (let r = r\<lparr>sr_scheme := (if sr_scheme r = [] then dflt else sr_scheme r)\<rparr>
        in if sr_scheme r \<in> set uses_params \<and> CHR '';'' \<in> set (sr_path r)
           then (case split_params (sr_path r) of (path, params) \<Rightarrow> Inr (r\<lparr>sr_path := path\<rparr>, params))
           else Inr (r, [])))"

definition urlunsplit :: "split_result \<Rightarrow> string" where
  "urlunsplit r =
     (let url = (if sr_netloc r \<noteq> [] \<or> sr_scheme r \<noteq> [] \<and> sr_scheme r \<in> set uses_netloc \<or>
                    startswith (sr_path r) ''//''
                 then ''//'' @ sr_netloc r @
                      (if sr_path r \<noteq> [] \<and> \<not> startswith (sr_path r) ''/'' then ''/'' else []) @ sr_path r
                 else sr_path r);
          url = (if sr_scheme r \<noteq> [] then sr_scheme r @ '':'' @ url else url);
          url = (if sr_query r \<noteq> [] then url @ ''?'' @ sr_query r else url)
      in if sr_fragment r \<noteq> [] then url @ ''#'' @ sr_fragment r else url)"

definition urlunparse :: "split_result \<Rightarrow> string \<Rightarrow> string" where
  "urlunparse r params =
     urlunsplit (if params \<noteq> [] then r\<lparr>sr_path := sr_path r @ '';'' @ params\<rparr> else r)"

subsection \<open>urljoin\<close>

text \<open>The segments of the joined path, then the dot segments: the accumulator is reversed.\<close>

definition path_segments :: "string \<Rightarrow> string \<Rightarrow> string list" where
  "path_segments bpath path =
     (if startswith path ''/'' then split_on CHR ''/'' path
      else (let bs = split_on CHR ''/'' bpath;
                bs = (if List.last bs \<noteq> [] then butlast bs else bs);
                segs = bs @ split_on CHR ''/'' path
            in if length segs < 2 then segs
               else [hd segs] @ List.filter (\<lambda>s. s \<noteq> []) (butlast (tl segs)) @ [List.last segs]))"

fun resolve_dots :: "string list \<Rightarrow> string list \<Rightarrow> string list" where
  "resolve_dots acc [] = rev acc"
| "resolve_dots acc (seg # segs) =
     (if seg = ''..'' then resolve_dots (tl acc) segs
      else if seg = ''.'' then resolve_dots acc segs
      else resolve_dots (seg # acc) segs)"

definition joined_path :: "string \<Rightarrow> string \<Rightarrow> string" where
  "joined_path bpath path =
     (let segs = path_segments bpath path;
          resolved = resolve_dots [] segs @ (if List.last segs \<in> {''.'', ''..''} then [[]] else []);
          joined = join ''/'' resolved
      in if joined = [] then ''/'' else joined)"

definition urljoin :: "string \<Rightarrow> string \<Rightarrow> string res" where
  "urljoin base url =
     (if base = [] then Inr url else if url = [] then Inr base
      else bind_res (urlparse [] base) (\<lambda>(b, bparams).
           bind_res (urlparse (sr_scheme b) url) (\<lambda>(u, params).
             if sr_scheme u \<noteq> sr_scheme b \<or> sr_scheme u \<notin> set uses_relative then Inr url
             else if sr_scheme u \<in> set uses_netloc \<and> sr_netloc u \<noteq> [] then Inr (urlunparse u params)
             else (let u = (if sr_scheme u \<in> set uses_netloc then u\<lparr>sr_netloc := sr_netloc b\<rparr> else u)
                   in if sr_path u = [] \<and> params = []
                      then Inr (urlunparse
                             (u\<lparr>sr_path := sr_path b,
                                sr_query := (if sr_query u = [] then sr_query b else sr_query u)\<rparr>) bparams)
                      else Inr (urlunparse (u\<lparr>sr_path := joined_path (sr_path b) (sr_path u)\<rparr>) params)))))"

subsection \<open>finditer\<close>

text \<open>
  A pattern \<open>before(group)after\<close>: the first way to match at the start of a text, as the text of the
  group and what is left; and the groups of all matches from left to right.
\<close>

record rx_group =
  rg_before :: regex
  rg_group :: regex
  rg_after :: regex

definition rx_at :: "bool \<Rightarrow> rx_group \<Rightarrow> string \<Rightarrow> (string \<times> string) option" where
  "rx_at ignore p s =
     (case concat (List.map (\<lambda>r1.
             concat (List.map (\<lambda>r2.
               List.map (\<lambda>r3. (take (length r1 - length r2) r1, r3)) (rx_ends ignore (rg_after p) r2))
             (rx_ends ignore (rg_group p) r1)))
           (rx_ends ignore (rg_before p) s)) of
        [] \<Rightarrow> None | m # ms \<Rightarrow> Some m)"

function rx_groups :: "bool \<Rightarrow> rx_group \<Rightarrow> string \<Rightarrow> string list" where
  "rx_groups ignore p s =
     (case rx_at ignore p s of
        Some (g, rest) \<Rightarrow>
          if length rest < length s then g # rx_groups ignore p rest
          else if s = [] then [g] else g # rx_groups ignore p (tl s)
      | None \<Rightarrow> if s = [] then [] else rx_groups ignore p (tl s))"
  by pat_completeness auto
termination
  by (relation "measure (\<lambda>(ignore, p, s). length s)") auto

declare rx_groups.simps [simp del]

end
