(* ===== verification/Py_Dyn.thy ===== *)
theory Py_Dyn
  imports Py_Val
begin

text \<open>
  What the readers of parsed JSON do with values of unknown type: \<open>int\<close>, \<open>len\<close>, iteration, \<open>dict.get\<close>;
  \<open>str.splitlines\<close>; and loops that collect lists and end with the first exception.
\<close>

text \<open>\<open>int(x)\<close> of a float and of any value.\<close>

definition int_trunc :: "rat \<Rightarrow> int" where
  "int_trunc q = (if 0 \<le> q then \<lfloor>q\<rfloor> else - \<lfloor>- q\<rfloor>)"

fun py_int :: "pyval \<Rightarrow> int res" where
  "py_int (PBool b) = Inr (if b then 1 else 0)"
| "py_int (PInt i) = Inr i"
| "py_int (PFloat q) = Inr (int_trunc q)"
| "py_int (PStr s) = int_of_text s"
| "py_int _ = Inl (TypeError ''int() argument must be a string, a bytes-like object or a real number'')"

text \<open>\<open>for x in v\<close>.\<close>

fun py_iter :: "pyval \<Rightarrow> pyval list res" where
  "py_iter (PList xs) = Inr xs"
| "py_iter (PDict d) = Inr (List.map (\<lambda>(k, v). PStr k) d)"
| "py_iter (PStr s) = Inr (List.map (\<lambda>c. PStr [c]) s)"
| "py_iter _ = Inl (TypeError ''object is not iterable'')"

text \<open>\<open>d.get(k)\<close>, and \<open>v if isinstance(v, dict) else {}\<close>.\<close>

definition pfield :: "(string \<times> pyval) list \<Rightarrow> string \<Rightarrow> pyval" where
  "pfield d k = pget d k PNone"

definition as_dict :: "pyval \<Rightarrow> (string \<times> pyval) list" where
  "as_dict v = (case v of PDict d \<Rightarrow> d | _ \<Rightarrow> [])"

text \<open>\<open>str.splitlines\<close>: each line boundary ends a line, CR LF is one boundary.\<close>

definition line_break :: "char \<Rightarrow> bool" where
  "line_break c \<longleftrightarrow> c \<in> {CHR 0x0A, CHR 0x0B, CHR 0x0C, CHR 0x0D, CHR 0x1C, CHR 0x1D, CHR 0x1E}"

fun lines_from :: "string \<Rightarrow> string \<Rightarrow> string list" where
  "lines_from cur [] = (if cur = [] then [] else [rev cur])"
| "lines_from cur (c # cs) =
     (if c = CHR 0x0D \<and> cs \<noteq> [] \<and> hd cs = CHR 0x0A then rev cur # lines_from [] (tl cs)
      else if line_break c then rev cur # lines_from [] cs
      else lines_from (c # cur) cs)"

definition splitlines :: "string \<Rightarrow> string list" where
  "splitlines s = lines_from [] s"

text \<open>\<open>len(v)\<close>.\<close>

fun py_len :: "pyval \<Rightarrow> int res" where
  "py_len (PList xs) = Inr (int (length xs))"
| "py_len (PStr s) = Inr (int (length s))"
| "py_len (PDict d) = Inr (int (length d))"
| "py_len _ = Inl (TypeError ''object has no len()'')"

text \<open>A loop over the records that appends a list of observations for each; one that raises ends it.\<close>

definition flat_res :: "('a \<Rightarrow> 'b list res) \<Rightarrow> 'a list \<Rightarrow> 'b list res" where
  "flat_res f xs = bind_res (map_res f xs) (\<lambda>ys. Inr (concat ys))"

subsection \<open>Facts\<close>

lemma flat_res_simps [simp]:
  "flat_res f [] = Inr []"
  "flat_res f (x # xs) = bind_res (f x) (\<lambda>ys. bind_res (flat_res f xs) (\<lambda>zs. Inr (ys @ zs)))"
  by (auto simp: flat_res_def bind_res_def split: sum.splits)

lemma flat_res_mem:
  "flat_res f xs = Inr ys \<Longrightarrow> y \<in> set ys \<Longrightarrow> \<exists>x \<in> set xs. \<exists>zs. f x = Inr zs \<and> y \<in> set zs"
  by (induction xs arbitrary: ys) (auto simp: bind_res_Inr_iff)

lemma map_res_raises: "map_res f xs = Inl ex \<Longrightarrow> \<exists>x \<in> set xs. f x = Inl ex"
  by (induction xs) (auto simp: bind_res_def split: sum.splits)

lemma map_res_Inl_iff: "(\<exists>ex. map_res f xs = Inl ex) \<longleftrightarrow> (\<exists>x \<in> set xs. \<exists>ex. f x = Inl ex)"
  by (induction xs) (auto simp: bind_res_def split: sum.splits)

lemma flat_res_Inl_iff: "(\<exists>ex. flat_res f xs = Inl ex) \<longleftrightarrow> (\<exists>x \<in> set xs. \<exists>ex. f x = Inl ex)"
  unfolding map_res_Inl_iff [symmetric] by (auto simp: flat_res_def bind_res_def split: sum.splits)

end
