(* ===== verification/Native_Crawler.thy ===== *)
theory Native_Crawler
  imports Native Py_Url Py_Dyn
begin

text \<open>
  The breadth-first crawler (\<open>vantage/adapters/native/crawler.py\<close>): extraction of links and of endpoints in
  scripts, the loop over the queue with the client as its state, and the observations made of what was found.
\<close>

subsection \<open>Patterns\<close>

definition is_quote :: "char \<Rightarrow> bool" where
  "is_quote c \<longleftrightarrow> c = CHR 0x22 \<or> c = CHR 0x27"

definition not_quote :: "char \<Rightarrow> bool" where
  "not_quote c \<longleftrightarrow> \<not> is_quote c"

definition rx_spaces :: regex where
  "rx_spaces = Rx_Rep is_space 0 None"

definition HREF :: rx_group where
  "HREF =
     \<lparr>rg_before = rx_seq [rx_alt [rx_text ''href'', rx_text ''src'', rx_text ''action''], rx_spaces, rx_text ''='',
                          rx_spaces, Rx_Class is_quote],
      rg_group = Rx_Rep (\<lambda>c. not_quote c \<and> c \<noteq> CHR ''#'' \<and> c \<noteq> CHR ''>'') 1 None,
      rg_after = Rx_Class is_quote\<rparr>"

definition is_word_char :: "char \<Rightarrow> bool" where
  "is_word_char c \<longleftrightarrow> is_alpha c \<or> is_digit c \<or> c = CHR ''_''"

definition JS_PATH :: rx_group where
  "JS_PATH =
     \<lparr>rg_before = Rx_Class is_quote,
      rg_group = rx_seq [rx_text ''/'', Rx_Rep (\<lambda>c. is_word_char c \<or> c \<in> set ''-./'') 2 None,
                         rx_opt (rx_seq [rx_text ''?'', Rx_Rep not_quote 0 None])],
      rg_after = Rx_Class is_quote\<rparr>"

definition JS_URL :: rx_group where
  "JS_URL =
     \<lparr>rg_before = Rx_Class is_quote,
      rg_group = rx_seq [rx_text ''http'', rx_opt (rx_text ''s''), rx_text ''://'',
                         Rx_Rep (\<lambda>c. is_word_char c \<or> c \<in> set ''-./:%?=&'') 1 None],
      rg_after = Rx_Class is_quote\<rparr>"

definition SCRIPT_SRC :: rx_group where
  "SCRIPT_SRC =
     \<lparr>rg_before = rx_seq [rx_text ''<script'', Rx_Rep (\<lambda>c. c \<noteq> CHR ''>'') 1 None, rx_text ''src'', rx_spaces,
                          rx_text ''='', rx_spaces, Rx_Class is_quote],
      rg_group = Rx_Rep not_quote 1 None,
      rg_after = Rx_Class is_quote\<rparr>"

definition DEFAULT_MAX_PAGES :: int where "DEFAULT_MAX_PAGES = 60"
definition DEFAULT_MAX_DEPTH :: int where "DEFAULT_MAX_DEPTH = 3"

subsection \<open>Extraction\<close>

text \<open>\<open>url.split("#", 1)[0]\<close>.\<close>

definition strip_fragment :: "string \<Rightarrow> string" where
  "strip_fragment url = takeWhile (\<lambda>c. c \<noteq> CHR ''#'') url"

definition extract_link :: "string \<Rightarrow> string \<Rightarrow> string list res" where
  "extract_link base g =
     (let raw = strip g in
      if list_ex (startswith (lower raw)) [''mailto:'', ''tel:'', ''javascript:'', ''data:''] then Inr []
      else bind_res (urljoin base raw) (\<lambda>u. Inr [strip_fragment u]))"

definition extract_links :: "string \<Rightarrow> string \<Rightarrow> string list res" where
  "extract_links base html = flat_res (extract_link base) (rx_groups True HREF html)"

definition extract_script_srcs :: "string \<Rightarrow> string \<Rightarrow> string list res" where
  "extract_script_srcs base html = map_res (urljoin base) (rx_groups True SCRIPT_SRC html)"

definition js_path :: "string \<Rightarrow> string \<Rightarrow> string list res" where
  "js_path base path =
     (if startswith path ''//'' then Inr []
      else bind_res (urljoin base path) (\<lambda>u. Inr [strip_fragment u]))"

definition extract_js_endpoints :: "string \<Rightarrow> string \<Rightarrow> string list res" where
  "extract_js_endpoints base js =
     bind_res (flat_res (js_path base) (rx_groups False JS_PATH js)) (\<lambda>paths.
       Inr (sorted_set (List.map strip_fragment (rx_groups False JS_URL js) @ paths)))"

definition looks_like_js :: "string \<Rightarrow> (string, string) dict \<Rightarrow> bool" where
  "looks_like_js url headers \<longleftrightarrow>
     endswith (takeWhile (\<lambda>c. c \<noteq> CHR ''?'') url) ''.js'' \<or>
     (let ct = lower (dget_or headers ''content-type'' [])
      in contains ''javascript'' ct \<or> contains ''ecmascript'' ct)"

definition url_host :: "string \<Rightarrow> string option res" where
  "url_host url = bind_res (urlsplit url) (\<lambda>parts. Inr (url_hostname parts))"

definition same_host :: "string \<Rightarrow> string list \<Rightarrow> bool res" where
  "same_host url seeds =
     bind_res (url_host url) (\<lambda>host. bind_res (map_res url_host seeds) (\<lambda>hosts. Inr (host \<in> set hosts)))"

subsection \<open>The loop\<close>

text \<open>\<open>discovered.setdefault(ep, how)\<close> for each endpoint.\<close>

definition set_default :: "('k, 'v) dict \<Rightarrow> 'k \<Rightarrow> 'v \<Rightarrow> ('k, 'v) dict" where
  "set_default d k v = (case dget d k of None \<Rightarrow> dset d k v | Some _ \<Rightarrow> d)"

definition note_all :: "string \<Rightarrow> string list \<Rightarrow> (string, string) dict \<Rightarrow> (string, string) dict" where
  "note_all how urls d = foldl (\<lambda>d u. set_default d u how) d urls"

type_synonym found_queue = "(string, string) dict \<times> (string \<times> int) list"

fun follow_links ::
  "string list \<Rightarrow> int \<Rightarrow> string \<Rightarrow> int \<Rightarrow> string list \<Rightarrow> found_queue \<Rightarrow> found_queue res" where
  "follow_links seeds max_depth page depth [] (disc, queue) = Inr (disc, queue)"
| "follow_links seeds max_depth page depth (link # links) (disc, queue) =
     (let disc = set_default disc link (''html:'' @ page) in
      if depth < max_depth
      then bind_res (same_host link seeds) (\<lambda>same.
             follow_links seeds max_depth page depth links
               (disc, if same then queue @ [(link, depth + 1)] else queue))
      else follow_links seeds max_depth page depth links (disc, queue))"

fun read_scripts ::
  "'c fetch \<Rightarrow> string list \<Rightarrow> (string, string) dict \<Rightarrow> 'c \<Rightarrow> (string, string) dict res \<times> 'c" where
  "read_scripts fetch [] disc c = (Inr disc, c)"
| "read_scripts fetch (src # srcs) disc c =
     (case http_get fetch src c of
        (Inl e, c) \<Rightarrow> (Inl e, c)
      | (Inr js, c) \<Rightarrow>
          if \<not> fetch_ok js then read_scripts fetch srcs disc c
          else (case extract_js_endpoints src (ft_body js) of
                  Inl e \<Rightarrow> (Inl e, c)
                | Inr eps \<Rightarrow> read_scripts fetch srcs (note_all (''js:'' @ src) eps disc) c))"

text \<open>What the loop does with the answer for one page.\<close>

definition is_html :: "FetchResult \<Rightarrow> bool" where
  "is_html res \<longleftrightarrow> contains ''html'' (lower (dget_or (ft_headers res) ''content-type'' []))"

definition crawl_page ::
  "'c fetch \<Rightarrow> string list \<Rightarrow> int \<Rightarrow> string \<Rightarrow> int \<Rightarrow> FetchResult \<Rightarrow> found_queue \<Rightarrow> 'c \<Rightarrow> found_queue res \<times> 'c" where
  "crawl_page fetch seeds max_depth page depth res dq c =
     (if \<not> fetch_ok res \<or> \<not> is_html res
      then (if fetch_ok res \<and> looks_like_js page (ft_headers res)
            then (bind_res (extract_js_endpoints page (ft_body res)) (\<lambda>eps.
                    Inr (note_all (''js:'' @ page) eps (fst dq), snd dq)), c)
            else (Inr dq, c))
      else (case bind_res (extract_links page (ft_body res)) (\<lambda>links.
                   follow_links seeds max_depth page depth links dq) of
              Inl e \<Rightarrow> (Inl e, c)
            | Inr (disc, queue) \<Rightarrow>
                (case extract_script_srcs page (ft_body res) of
                   Inl e \<Rightarrow> (Inl e, c)
                 | Inr srcs \<Rightarrow>
                     (case read_scripts fetch srcs disc c of
                        (Inl e, c) \<Rightarrow> (Inl e, c)
                      | (Inr disc, c) \<Rightarrow> (Inr (disc, queue), c)))))"

text \<open>The loop; \<open>visited\<close> is \<open>seen\<close>, which it returns with what was discovered.\<close>

function crawl_loop ::
  "'c fetch \<Rightarrow> string list \<Rightarrow> int \<Rightarrow> int \<Rightarrow> string list \<Rightarrow> found_queue \<Rightarrow> 'c \<Rightarrow>
   (string list \<times> (string, string) dict) res \<times> 'c" where
  "crawl_loop fetch seeds max_pages max_depth visited (disc, []) c = (Inr (visited, disc), c)"
| "crawl_loop fetch seeds max_pages max_depth visited (disc, (url, depth) # queue) c =
     (if \<not> int (length visited) < max_pages then (Inr (visited, disc), c)
      else if strip_fragment url \<in> set visited
      then crawl_loop fetch seeds max_pages max_depth visited (disc, queue) c
      else (case http_get fetch (strip_fragment url) c of
              (Inl e, c) \<Rightarrow> (Inl e, c)
            | (Inr res, c) \<Rightarrow>
                (case crawl_page fetch seeds max_depth (strip_fragment url) depth res (disc, queue) c of
                   (Inl e, c) \<Rightarrow> (Inl e, c)
                 | (Inr dq, c) \<Rightarrow>
                     crawl_loop fetch seeds max_pages max_depth (strip_fragment url # visited) dq c)))"
  by pat_completeness auto
termination
  by (relation "measures [\<lambda>(fetch, seeds, max_pages, max_depth, visited, dq, c). nat (max_pages - int (length visited)),
        \<lambda>(fetch, seeds, max_pages, max_depth, visited, dq, c). length (snd dq)]") auto

subsection \<open>The engine\<close>

fun crawl_observations :: "string \<Rightarrow> (string \<times> string) list \<Rightarrow> NewObservation list res" where
  "crawl_observations key [] = Inr []"
| "crawl_observations key ((url, how) # rest) =
     bind_res (native_location url) (\<lambda>loc.
       if loc_host loc = [] then crawl_observations key rest
       else if \<not> summary_ok (''discovered via '' @ how) then Inl (ValidationError ''summary'')
       else bind_res (crawl_observations key rest) (\<lambda>obs. Inr
         (\<lparr>na_detector_id = ''endpoint-discovered'', na_title = ''Endpoint discovered: '' @ loc_path loc,
           na_vuln_class = key, na_severity = INFO, na_cwe = [], na_location = loc,
           na_description = ''Discovered endpoint '' @ url @ '' ('' @ how @ '').'',
           na_remediation = ''Informational; feeds attack-surface inventory.'',
           na_evidence = [\<lparr>ne_kind = NOTE, ne_summary = ''discovered via '' @ how, ne_matched = [],
             ne_response = None, ne_data = [(''url'', PStr url), (''source'', PStr how)]\<rparr>]\<rparr> # obs)))"

definition to_observations :: "(string, string) dict \<Rightarrow> NewObservation list res" where
  "to_observations discovered =
     bind_res (class_key ''information_disclosure'') (\<lambda>key. crawl_observations key (sort_key fst discovered))"

definition crawler_analyze :: "'c fetch \<Rightarrow> EngineRunRequest \<Rightarrow> 'c \<Rightarrow> NewObservation list res \<times> 'c" where
  "crawler_analyze fetch request c =
     (case bind_res (py_int (pget (rq_options request) ''max_pages'' (PInt DEFAULT_MAX_PAGES))) (\<lambda>max_pages.
             bind_res (py_int (pget (rq_options request) ''max_depth'' (PInt DEFAULT_MAX_DEPTH))) (\<lambda>max_depth.
               Inr (max_pages, max_depth))) of
        Inl e \<Rightarrow> (Inl e, c)
      | Inr (max_pages, max_depth) \<Rightarrow>
          (case crawl_loop fetch (rq_seed_urls request) max_pages max_depth []
                  ([], List.map (\<lambda>u. (u, 0)) (rq_seed_urls request)) c of
             (Inl e, c) \<Rightarrow> (Inl e, c)
           | (Inr (visited, disc), c) \<Rightarrow> (to_observations disc, c)))"

definition CrawlerAdapter :: "'c fetch \<Rightarrow> 'c NativeEngine" where
  "CrawlerAdapter fetch =
     \<lparr>nv_engine_id = ''vantage-crawler'', nv_engine_name = ''Vantage HTTP Crawler'',
      nv_capabilities = [CRAWL_HTTP, DISCOVERY_JS], nv_analyze = crawler_analyze fetch\<rparr>"

subsection \<open>Bounds of a crawl\<close>

definition on_host :: "string list \<Rightarrow> string \<Rightarrow> bool" where
  "on_host seeds u \<longleftrightarrow> u \<in> set seeds \<or> same_host u seeds = Inr True"

lemma follow_links_queue:
  "follow_links seeds max_depth page depth links dq = Inr dq' \<Longrightarrow> list_all (on_host seeds) (List.map fst (snd dq)) \<Longrightarrow>
     list_all (on_host seeds) (List.map fst (snd dq'))"
proof (induction seeds max_depth page depth links dq rule: follow_links.induct)
  case (2 seeds max_depth page depth link links disc queue)
  show ?case
  proof (cases "depth < max_depth")
    case True
    with "2.prems"(1) obtain same where s: "same_host link seeds = Inr same"
      and f: "follow_links seeds max_depth page depth links
        (set_default disc link (''html:'' @ page), if same then queue @ [(link, depth + 1)] else queue) = Inr dq'"
      by (auto simp: Let_def bind_res_Inr_iff)
    show ?thesis
      by (rule "2.IH"(1) [OF refl True f]) (use s "2.prems"(2) in \<open>auto simp: on_host_def\<close>)
  next
    case False
    with "2.prems" "2.IH"(2) [OF refl False] show ?thesis by (simp add: Let_def)
  qed
qed simp

lemma crawl_page_queue:
  assumes "crawl_page fetch seeds max_depth page depth res dq c = (Inr dq', c')"
    and "list_all (on_host seeds) (List.map fst (snd dq))"
  shows "list_all (on_host seeds) (List.map fst (snd dq'))"
proof (cases "\<not> fetch_ok res \<or> \<not> is_html res")
  case True
  with assms show ?thesis by (auto simp: crawl_page_def bind_res_Inr_iff split: if_splits)
next
  case False
  with assms(1) obtain links disc queue where
    "follow_links seeds max_depth page depth links dq = Inr (disc, queue)" "snd dq' = queue"
    by (auto simp: crawl_page_def bind_res_def split: sum.splits prod.splits)
  then show ?thesis using follow_links_queue assms(2) by fastforce
qed

lemma crawl_loop_inv:
  "crawl_loop fetch seeds max_pages max_depth visited dq c = (Inr (visited', disc'), c') \<Longrightarrow>
     distinct visited \<Longrightarrow> int (length visited) \<le> max 0 max_pages \<Longrightarrow>
     list_all (on_host seeds) (List.map fst (snd dq)) \<Longrightarrow>
     list_all (\<lambda>p. \<exists>u. p = strip_fragment u \<and> on_host seeds u) visited \<Longrightarrow>
     distinct visited' \<and> int (length visited') \<le> max 0 max_pages \<and>
     list_all (\<lambda>p. \<exists>u. p = strip_fragment u \<and> on_host seeds u) visited'"
proof (induction fetch seeds max_pages max_depth visited dq c rule: crawl_loop.induct)
  case (2 fetch seeds max_pages max_depth visited disc url depth queue c)
  let ?page = "strip_fragment url"
  show ?case
  proof (cases "int (length visited) < max_pages")
    case False
    with "2.prems" show ?thesis by simp
  next
    case more: True
    show ?thesis
    proof (cases "?page \<in> set visited")
      case True
      with more "2.prems" show ?thesis by (intro "2.IH"(1)) simp_all
    next
      case False
      with more "2.prems"(1) obtain res c1 dq1 c2 where g: "http_get fetch ?page c = (Inr res, c1)"
        and p: "crawl_page fetch seeds max_depth ?page depth res (disc, queue) c1 = (Inr dq1, c2)"
        and l: "crawl_loop fetch seeds max_pages max_depth (?page # visited) dq1 c2 = (Inr (visited', disc'), c')"
        by (auto split: prod.splits sum.splits)
      have "list_all (on_host seeds) (List.map fst (snd dq1))"
        by (rule crawl_page_queue [OF p]) (use "2.prems"(4) in simp)
      then show ?thesis
        by (intro "2.IH"(2) [OF _ False g [symmetric] refl p [symmetric] refl l])
          (use more False "2.prems" in auto)
    qed
  qed
qed simp

text \<open>
  C19: a crawl terminates, and whatever the pages link to it visits no page twice, at most the
  configured number of pages, and only seeds and URLs on the host of a seed, without their fragments.
\<close>

theorem crawl_bounded:
  assumes "crawl_loop fetch seeds max_pages max_depth [] ([], List.map (\<lambda>u. (u, 0)) seeds) c =
    (Inr (visited, disc), c')"
  shows "distinct visited \<and> int (length visited) \<le> max 0 max_pages \<and>
    list_all (\<lambda>p. \<exists>u. p = strip_fragment u \<and> (u \<in> set seeds \<or> same_host u seeds = Inr True)) visited"
proof -
  have "list_all (on_host seeds) (List.map fst (List.map (\<lambda>u. (u, 0 :: int)) seeds))"
    by (simp add: list_all_iff on_host_def)
  then show ?thesis
    using crawl_loop_inv [OF assms] unfolding on_host_def by simp
qed

subsection \<open>Sources in scope\<close>

definition source_ok :: "(string \<Rightarrow> string \<Rightarrow> bool) \<Rightarrow> string \<Rightarrow> bool" where
  "source_ok allowed how \<longleftrightarrow> (\<exists>p. (how = ''html:'' @ p \<or> how = ''js:'' @ p) \<and> allowed ''GET'' p)"

definition sources_ok :: "(string \<Rightarrow> string \<Rightarrow> bool) \<Rightarrow> (string, string) dict \<Rightarrow> bool" where
  "sources_ok allowed disc \<longleftrightarrow> list_all (\<lambda>(u, how). source_ok allowed how) disc"

lemma sources_ok_set_default:
  "sources_ok allowed disc \<Longrightarrow> source_ok allowed how \<Longrightarrow> sources_ok allowed (set_default disc u how)"
proof -
  have "x \<in> set (dset d k v) \<Longrightarrow> x \<in> set d \<or> x = (k, v)" for x :: "string \<times> string" and d k v
    by (induction d k v rule: dset.induct) (auto split: if_splits)
  then show "sources_ok allowed disc \<Longrightarrow> source_ok allowed how \<Longrightarrow> ?thesis"
    by (fastforce simp: sources_ok_def set_default_def list_all_iff split: option.split)
qed

lemma sources_ok_note_all:
  "sources_ok allowed disc \<Longrightarrow> source_ok allowed how \<Longrightarrow> sources_ok allowed (note_all how us disc)"
  unfolding note_all_def by (induction us arbitrary: disc) (simp_all add: sources_ok_set_default)

lemma follow_links_sources:
  "follow_links seeds max_depth page depth links dq = Inr dq' \<Longrightarrow> sources_ok allowed (fst dq) \<Longrightarrow>
     allowed ''GET'' page \<Longrightarrow> sources_ok allowed (fst dq')"
proof (induction seeds max_depth page depth links dq rule: follow_links.induct)
  case (2 seeds max_depth page depth link links disc queue)
  have "source_ok allowed (''html:'' @ page)" using "2.prems"(3) by (auto simp: source_ok_def)
  with "2.prems"(2) have ok: "sources_ok allowed (set_default disc link (''html:'' @ page))"
    by (simp add: sources_ok_set_default)
  show ?case
  proof (cases "depth < max_depth")
    case True
    with "2.prems"(1) obtain same where
      f: "follow_links seeds max_depth page depth links
        (set_default disc link (''html:'' @ page), if same then queue @ [(link, depth + 1)] else queue) = Inr dq'"
      by (auto simp: Let_def bind_res_Inr_iff)
    show ?thesis by (rule "2.IH"(1) [OF refl True f]) (use ok "2.prems"(3) in simp_all)
  next
    case False
    with "2.prems" "2.IH"(2) [OF refl False] ok show ?thesis by (simp add: Let_def)
  qed
qed simp

context http_client
begin

lemma read_scripts_sources:
  "read_scripts fetch srcs disc c = (Inr disc', c') \<Longrightarrow> sources_ok (allowed c) disc \<Longrightarrow>
     sources_ok (allowed c) disc' \<and> allowed c' = allowed c"
proof (induction srcs arbitrary: disc c)
  case (Cons src srcs)
  obtain r c1 where g: "http_get fetch src c = (r, c1)" by fastforce
  then have kept: "allowed c1 = allowed c" unfolding http_get_def by (rule allowed_kept)
  obtain js where r: "r = Inr js" using Cons.prems(1) g by (cases r) auto
  show ?case
  proof (cases "fetch_ok js")
    case False
    then have "read_scripts fetch srcs disc c1 = (Inr disc', c')" using Cons.prems(1) g r by simp
    from Cons.IH [OF this] Cons.prems(2) show ?thesis by (simp add: kept)
  next
    case True
    with Cons.prems(1) g r obtain eps where
      l: "read_scripts fetch srcs (note_all (''js:'' @ src) eps disc) c1 = (Inr disc', c')"
      by (auto split: sum.splits)
    have "allowed c ''GET'' src" using g True unfolding http_get_def r by (rule answered_allowed)
    then have "source_ok (allowed c) (''js:'' @ src)" by (auto simp: source_ok_def)
    with Cons.prems(2) have "sources_ok (allowed c1) (note_all (''js:'' @ src) eps disc)"
      unfolding kept by (rule sources_ok_note_all)
    from Cons.IH [OF l this] show ?thesis by (simp add: kept)
  qed
qed simp

lemma crawl_page_sources:
  assumes "crawl_page fetch seeds max_depth page depth res dq c = (Inr dq', c')"
    and "sources_ok (allowed c) (fst dq)" and "fetch_ok res \<Longrightarrow> allowed c ''GET'' page"
  shows "sources_ok (allowed c) (fst dq') \<and> allowed c' = allowed c"
proof (cases "\<not> fetch_ok res \<or> \<not> is_html res")
  case True
  have "source_ok (allowed c) (''js:'' @ page)" if "fetch_ok res" using assms(3) that by (auto simp: source_ok_def)
  with True assms(1,2) show ?thesis
    by (auto simp: crawl_page_def bind_res_Inr_iff sources_ok_note_all split: if_splits)
next
  case False
  with assms(1) obtain links srcs disc queue disc2 where
    f: "follow_links seeds max_depth page depth links dq = Inr (disc, queue)"
    and r: "read_scripts fetch srcs disc c = (Inr disc2, c')" and d: "dq' = (disc2, queue)"
    by (auto simp: crawl_page_def bind_res_def split: sum.splits prod.splits)
  have "sources_ok (allowed c) disc"
    using follow_links_sources [OF f, of "allowed c"] assms(2,3) False by simp
  from read_scripts_sources [OF r this] show ?thesis by (simp add: d)
qed

end

lemma crawl_loop_sources:
  "crawl_loop fetch seeds max_pages max_depth visited dq c = (Inr (visited', disc'), c') \<Longrightarrow>
     http_client fetch allowed \<Longrightarrow> sources_ok (allowed c) (fst dq) \<Longrightarrow> sources_ok (allowed c) disc'"
proof (induction fetch seeds max_pages max_depth visited dq c rule: crawl_loop.induct)
  case (2 fetch seeds max_pages max_depth visited disc url depth queue c)
  let ?page = "strip_fragment url"
  note client = "2.prems"(2)
  show ?case
  proof (cases "int (length visited) < max_pages")
    case False
    with "2.prems" show ?thesis by simp
  next
    case more: True
    show ?thesis
    proof (cases "?page \<in> set visited")
      case True
      with more "2.prems" show ?thesis by (intro "2.IH"(1)) simp_all
    next
      case False
      with more "2.prems"(1) obtain res c1 dq1 c2 where g: "http_get fetch ?page c = (Inr res, c1)"
        and p: "crawl_page fetch seeds max_depth ?page depth res (disc, queue) c1 = (Inr dq1, c2)"
        and l: "crawl_loop fetch seeds max_pages max_depth (?page # visited) dq1 c2 = (Inr (visited', disc'), c')"
        by (auto split: prod.splits sum.splits)
      have kept: "allowed c1 = allowed c"
        using g unfolding http_get_def by (rule http_client.allowed_kept [OF client])
      have "fetch_ok res \<Longrightarrow> allowed c1 ''GET'' ?page"
        using http_client.answered_allowed [OF client] g unfolding http_get_def kept by blast
      then have "sources_ok (allowed c1) (fst dq1) \<and> allowed c2 = allowed c1"
        using "2.prems"(3) by (intro http_client.crawl_page_sources [OF client p]) (simp_all add: kept)
      with "2.IH"(2) [OF _ False g [symmetric] refl p [symmetric] refl l client] more show ?thesis
        by (simp add: kept)
    qed
  qed
qed simp

end
