(* ===== verification/Crawler_Laws.thy ===== *)
theory Crawler_Laws
  imports Native_Crawler Native_Headers
begin

text \<open>
  What the crawler guarantees when the orchestrator runs it with the default client, and where one bad
  link ends a crawl.
\<close>

subsection \<open>Observations\<close>

lemma crawl_observations_mem:
  "crawl_observations key found = Inr obs \<Longrightarrow> a \<in> set obs \<Longrightarrow>
     \<exists>url how. (url, how) \<in> set found \<and> na_vuln_class a = key \<and> na_cwe a = [] \<and> location_ok (na_location a) \<and>
       loc_host (na_location a) \<noteq> [] \<and> native_location url = Inr (na_location a) \<and>
       List.map ne_data (na_evidence a) = [[(''url'', PStr url), (''source'', PStr how)]]"
proof (induction key found arbitrary: obs rule: crawl_observations.induct)
  case (2 key url how rest)
  from "2.prems"(1) obtain loc where loc: "native_location url = Inr loc"
    by (auto simp: bind_res_Inr_iff)
  show ?case
  proof (cases "loc_host loc = []")
    case True
    with "2.prems" loc "2.IH"(1) [of loc obs] show ?thesis by auto
  next
    case False
    with "2.prems"(1) loc obtain rest_obs b where r: "crawl_observations key rest = Inr rest_obs"
      and obs: "obs = b # rest_obs" and sum: "summary_ok (''discovered via '' @ how)"
      and b: "na_vuln_class b = key" "na_cwe b = []" "na_location b = loc"
        "List.map ne_data (na_evidence b) = [[(''url'', PStr url), (''source'', PStr how)]]"
      by (auto simp: bind_res_Inr_iff split: if_splits)
    show ?thesis
    proof (cases "a = b")
      case True
      with b loc False native_location_ok [OF loc] show ?thesis by auto
    next
      case other: False
      with obs "2.prems"(2) have "a \<in> set rest_obs" by simp
      with "2.IH"(2) [OF False _ r] sum show ?thesis by auto
    qed
  qed
qed simp

lemma data_new_observation:
  "List.map ev_data (obs_evidence (Observation_validate (new_observation st e request n a))) =
     List.map ne_data (na_evidence a)"
proof -
  have "List.map ev_data (List.map (\<lambda>(i, ev). new_evidence (st_ids st n (Suc i)) (st_times st n) (nv_engine_id e) ev)
      (enumerate 0 (na_evidence a))) = List.map ne_data (List.map snd (enumerate 0 (na_evidence a)))"
    by (simp add: new_evidence_def split_def comp_def del: map_snd_enumerate)
  then show ?thesis unfolding map_snd_enumerate
    by (simp add: Observation_validate_def Evidence_validate_def new_observation_def comp_def split_def)
qed

text \<open>
  C18: run by the orchestrator with the default client, over the validated rules of an authorized target,
  every endpoint the crawler reports names the page or the script it was found in, and that is a URL
  the scope engine of the target allows, whatever hosts the pages link to.
\<close>

theorem crawler_sources_in_scope:
  assumes "run_request rid scan target (native_metadata (CrawlerAdapter (scoped_fetch re_search net)))
      capabilities seeds = Inr request"
    and "list_all (\<lambda>r. ScopeRule_validate r = Inr r) (t_scope_rules target)" and "is_authorized now target"
    and "engine_calls (native_adapter st hnow (default_client_factory net)
      (CrawlerAdapter (scoped_fetch re_search net))) request = Inr (Some obs)"
    and "ob \<in> set obs"
  shows "\<exists>url how p. List.map ev_data (obs_evidence ob) = [[(''url'', PStr url), (''source'', PStr how)]] \<and>
    (how = ''html:'' @ p \<or> how = ''js:'' @ p) \<and>
    scope_allows re_search (ScopeEngine_init now target) p (Some ''GET'') = Inr True"
proof -
  let ?e = "CrawlerAdapter (scoped_fetch re_search net)"
  obtain c where c: "default_client_factory net request = Inr c" "hc_scope c = ScopeEngine_init now target"
    using default_client_scope [OF assms(1-3)] by metis
  obtain found client' where v: "nv_analyze ?e request c = (Inr found, client')"
    and obs: "obs = List.map Observation_validate (made_observations st ?e request found)"
    using native_calls_Some [OF assms(4)] c(1) by (metis Inr_inject)
  from v obtain mp md visited disc c2 where
    loop: "crawl_loop (scoped_fetch re_search net) (rq_seed_urls request) mp md []
        ([], List.map (\<lambda>u. (u, 0)) (rq_seed_urls request)) c = (Inr (visited, disc), c2)"
    and o: "to_observations disc = Inr found"
    by (auto simp: CrawlerAdapter_def crawler_analyze_def split: sum.splits prod.splits)
  have ok: "sources_ok (scope_permits re_search (ScopeEngine_init now target)) disc"
    using crawl_loop_sources [OF loop scoped.http_client_axioms] by (simp add: sources_ok_def c(2))
  from assms(5) obs obtain n a where a: "a \<in> set found"
    and ob: "ob = Observation_validate (new_observation st ?e request n a)"
    by (auto elim!: made_observations_mem)
  from o obtain key where "crawl_observations key (sort_key fst disc) = Inr found"
    by (auto simp: to_observations_def bind_res_Inr_iff)
  from crawl_observations_mem [OF this a] obtain url how where m: "(url, how) \<in> set disc"
    and d: "List.map ne_data (na_evidence a) = [[(''url'', PStr url), (''source'', PStr how)]]" by auto
  from ok m have "source_ok (scope_permits re_search (ScopeEngine_init now target)) how"
    by (auto simp: sources_ok_def list_all_iff)
  then obtain p where "how = ''html:'' @ p \<or> how = ''js:'' @ p"
    "scope_allows re_search (ScopeEngine_init now target) p (Some ''GET'') = Inr True"
    unfolding source_ok_def scope_permits_def by (elim exE conjE)
  with d show ?thesis unfolding ob data_new_observation by metis
qed

subsection \<open>One bad link\<close>

text \<open>A link whose host is an unclosed bracket raises, and with it the crawl of all seeds.\<close>

lemma bad_link_ends_crawl:
  assumes "fetch_ok res" "is_html res" "ft_body res = ''<a href='' @ [CHR 0x22] @ ''http://['' @ [CHR 0x22]"
  shows "\<exists>e. crawl_page fetch seeds max_depth ''http://h.example/'' depth res dq c = (Inl e, c)"
proof -
  have "case extract_links ''http://h.example/'' (''<a href='' @ [CHR 0x22] @ ''http://['' @ [CHR 0x22]) of
      Inl e \<Rightarrow> True | Inr ls \<Rightarrow> False" by code_simp
  then show ?thesis using assms by (auto simp: crawl_page_def split: sum.splits)
qed

subsection \<open>Witnesses\<close>

definition script_network :: Network where
  "script_network = demo_network\<lparr>nw_request := (\<lambda>n mth url headers body. Inr
     \<lparr>wr_url = url, wr_status = 200, wr_headers = [(''content-type'', ''text/javascript'')],
      wr_content = [CHR 0x22] @ ''/api/x'' @ [CHR 0x22], wr_encoding = None\<rparr>)\<rparr>"

definition script_client :: ScopedHttpClient where
  "script_client = ScopedHttpClient_init script_network demo_engine 5 4"

definition crawl_request :: EngineRunRequest where
  "crawl_request = demo_request\<lparr>rq_engine_id := ''vantage-crawler'', rq_capabilities := [CRAWL_HTTP]\<rparr>"

lemma crawl_run_request:
  "run_request ''r'' demo_site_scan demo_site (native_metadata (CrawlerAdapter fetch)) [CRAWL_HTTP]
     [''http://app.example/shop''] = Inr crawl_request"
proof -
  have "is_identifier ''vantage-crawler''" by code_simp
  then show ?thesis
    by (simp add: run_request_def crawl_request_def demo_request_def demo_site_def demo_site_scan_def
        native_metadata_def CrawlerAdapter_def EngineRunRequest_ok_def)
qed

lemma crawl_factory: "default_client_factory script_network crawl_request = Inr script_client"
  using map_res_fixed [OF demo_rules_valid]
  by (simp add: default_client_factory_def crawl_request_def demo_request_def script_client_def demo_engine_def
      demo_site_def)

lemma script_fetched:
  obtains r c where "http_get (scoped_fetch (\<lambda>_ _. Inr True) script_network) ''http://app.example/shop'' script_client = (Inr r, c)"
    "fetch_ok r" "ft_headers r = [(''content-type'', ''text/javascript'')]"
    "ft_body r = [CHR 0x22] @ ''/api/x'' @ [CHR 0x22]"
proof -
  have "hc_scope script_client = demo_engine" by (simp add: script_client_def ScopedHttpClient_init_def)
  moreover have "DEFAULT_MAX_BODY = Suc (Suc (Suc (Suc (Suc (Suc (Suc (Suc 4194296)))))))"
    by (simp add: DEFAULT_MAX_BODY_def)
  ultimately show ?thesis
    using that
    by (auto simp: http_get_def scoped_fetch_def demo_check ensure_client_def Let_def script_network_def
        demo_network_def read_response_def fetch_ok_def script_client_def ScopedHttpClient_init_def)
qed

lemma script_page:
  assumes "fetch_ok r" "ft_headers r = [(''content-type'', ''text/javascript'')]"
    "ft_body r = [CHR 0x22] @ ''/api/x'' @ [CHR 0x22]"
  shows "crawl_page fetch seeds md ''http://app.example/shop'' depth r ([], []) c =
    (Inr ([(''http://app.example/api/x'', ''js:http://app.example/shop'')], []), c)"
proof -
  have "contains ''html'' (lower ''text/javascript'') = False"
    "looks_like_js ''http://app.example/shop'' [(''content-type'', ''text/javascript'')]"
    "extract_js_endpoints ''http://app.example/shop'' ([CHR 0x22] @ ''/api/x'' @ [CHR 0x22]) =
       Inr [''http://app.example/api/x'']"
    by code_simp+
  then show ?thesis
    using assms by (simp add: crawl_page_def is_html_def dget_or_def note_all_def set_default_def)
qed

lemma crawl_calls:
  obtains ob where "engine_calls (native_adapter demo_stamps 0 (default_client_factory script_network)
    (CrawlerAdapter (scoped_fetch (\<lambda>_ _. Inr True) script_network))) crawl_request = Inr (Some [ob])"
proof -
  let ?fetch = "scoped_fetch (\<lambda>_ _. Inr True) script_network"
  obtain r c where r: "http_get ?fetch ''http://app.example/shop'' script_client = (Inr r, c)"
    and ok: "fetch_ok r" "ft_headers r = [(''content-type'', ''text/javascript'')]"
      "ft_body r = [CHR 0x22] @ ''/api/x'' @ [CHR 0x22]"
    by (rule script_fetched)
  have seeds: "rq_seed_urls crawl_request = [''http://app.example/shop'']" "rq_options crawl_request = []"
    by (simp_all add: crawl_request_def demo_request_def)
  have "case native_location ''http://app.example/api/x'' of Inr l \<Rightarrow> loc_host l \<noteq> [] | Inl e \<Rightarrow> False" by code_simp
  moreover have "summary_ok (''discovered via '' @ ''js:http://app.example/shop'')" by code_simp
  ultimately obtain a where a: "to_observations [(''http://app.example/api/x'', ''js:http://app.example/shop'')] = Inr [a]"
    by (auto simp: to_observations_def split: sum.splits)
  have "strip_fragment ''http://app.example/shop'' = ''http://app.example/shop''" by code_simp
  then have "crawler_analyze ?fetch crawl_request script_client = (Inr [a], c)"
    using a r script_page [OF ok, of ?fetch]
    by (simp add: crawler_analyze_def seeds pget_def DEFAULT_MAX_PAGES_def DEFAULT_MAX_DEPTH_def)
  then have v: "nv_analyze (CrawlerAdapter ?fetch) crawl_request script_client = (Inr [a], c)"
    by (simp add: CrawlerAdapter_def)
  have "Location_validate (na_location a) = na_location a"
    using a crawl_observations_mem [of _ "[(''http://app.example/api/x'', ''js:http://app.example/shop'')]" "[a]" a]
    by (auto simp: to_observations_def bind_res_Inr_iff location_ok_def)
  then have "engine_calls (native_adapter demo_stamps 0 (default_client_factory script_network)
      (CrawlerAdapter ?fetch)) crawl_request =
      Inr (Some (made_observations demo_stamps (CrawlerAdapter ?fetch) crawl_request [a]))"
    by (intro native_engine_calls [where client_factory = "default_client_factory script_network", OF crawl_factory v]) simp
  then show ?thesis by (intro that) (simp add: made_observations_def)
qed

theorem crawler_sources_in_scope_witness:
  "\<exists>(url :: string) how p. (how = ''html:'' @ p \<or> how = ''js:'' @ p) \<and>
    scope_allows (\<lambda>_ _. Inr True) (ScopeEngine_init 0 demo_site) p (Some ''GET'') = Inr True"
proof -
  obtain ob where calls: "engine_calls (native_adapter demo_stamps 0 (default_client_factory script_network)
    (CrawlerAdapter (scoped_fetch (\<lambda>_ _. Inr True) script_network))) crawl_request = Inr (Some [ob])"
    by (rule crawl_calls)
  have "is_authorized 0 demo_site" by code_simp
  from crawler_sources_in_scope [OF crawl_run_request demo_rules_valid this calls, of ob] show ?thesis by auto
qed

theorem crawl_bounded_witness:
  "\<exists>visited disc c. crawl_loop (scoped_fetch (\<lambda>_ _. Inr True) script_network) [''http://app.example/shop''] 60 3 []
      ([], [(''http://app.example/shop'', 0)]) script_client = (Inr (visited, disc), c) \<and>
    distinct visited \<and> length visited \<le> 60"
proof -
  let ?fetch = "scoped_fetch (\<lambda>_ _. Inr True) script_network"
  obtain r c where r: "http_get ?fetch ''http://app.example/shop'' script_client = (Inr r, c)"
    and ok: "fetch_ok r" "ft_headers r = [(''content-type'', ''text/javascript'')]"
      "ft_body r = [CHR 0x22] @ ''/api/x'' @ [CHR 0x22]"
    by (rule script_fetched)
  have "strip_fragment ''http://app.example/shop'' = ''http://app.example/shop''" by code_simp
  then have "\<exists>visited disc. crawl_loop ?fetch [''http://app.example/shop''] 60 3 []
      ([], List.map (\<lambda>u. (u, 0)) [''http://app.example/shop'']) script_client = (Inr (visited, disc), c)"
    using r script_page [OF ok, of ?fetch] by simp
  then obtain visited disc where loop: "crawl_loop ?fetch [''http://app.example/shop''] 60 3 []
      ([], List.map (\<lambda>u. (u, 0)) [''http://app.example/shop'']) script_client = (Inr (visited, disc), c)" by blast
  from crawl_bounded [OF loop] loop show ?thesis by auto
qed

end
