(* ===== verification/Native_Tls.thy ===== *)
theory Native_Tls
  imports Native
begin

text \<open>
  The TLS and certificate analyzer (\<open>vantage/adapters/native/tls.py\<close>).  The handshake (\<open>ssl\<close>, \<open>socket\<close>), the
  parser of certificates (\<open>cryptography\<close>) and the text of a time are arguments; times count microseconds.
\<close>

text \<open>The field \<open>raw\<close> of \<open>TlsInfo\<close>, which nothing writes, is left out.\<close>

definition WEAK_PROTOCOLS :: "string list" where
  "WEAK_PROTOCOLS = [''SSLv2'', ''SSLv3'', ''TLSv1'', ''TLSv1.1'']"

record TlsInfo =
  ti_host :: string
  ti_port :: int
  ti_protocol :: "string option"
  ti_cipher :: "string option"
  ti_not_after :: "int option"
  ti_issuer_cn :: "string option"
  ti_subject_cn :: "string option"
  ti_self_signed :: bool
  ti_error :: "string option"

subsection \<open>The inspector\<close>

text \<open>What a handshake yields: protocol version, cipher and the certificate in DER form.\<close>

record Handshake =
  ha_version :: "string option"
  ha_cipher :: "string option"
  ha_der :: string

text \<open>A parsed certificate: its end, and the common names of issuer and subject.\<close>

record Certificate =
  ce_not_after :: int
  ce_issuer :: "string list"
  ce_subject :: "string list"

definition cn_of :: "string list \<Rightarrow> string option" where
  "cn_of attrs = (case attrs of [] \<Rightarrow> None | v # vs \<Rightarrow> Some v)"

definition parse_cert ::
  "(string \<Rightarrow> Certificate option) \<Rightarrow> string \<Rightarrow> int option \<times> string option \<times> string option" where
  "parse_cert load der =
     (case load der of
        None \<Rightarrow> (None, None, None)
      | Some c \<Rightarrow> (Some (ce_not_after c), cn_of (ce_issuer c), cn_of (ce_subject c)))"

definition inspect_sync ::
  "(string \<Rightarrow> int \<Rightarrow> Handshake res) \<Rightarrow> (string \<Rightarrow> Certificate option) \<Rightarrow> string \<Rightarrow> int \<Rightarrow> TlsInfo" where
  "inspect_sync connect load host port =
     (case connect host port of
        Inl e \<Rightarrow>
          \<lparr>ti_host = host, ti_port = port, ti_protocol = None, ti_cipher = None, ti_not_after = None,
           ti_issuer_cn = None, ti_subject_cn = None, ti_self_signed = False, ti_error = Some (exn_text e)\<rparr>
      | Inr h \<Rightarrow>
          (case (if ha_der h \<noteq> [] then parse_cert load (ha_der h) else (None, None, None)) of
             (not_after, issuer, subject) \<Rightarrow>
               \<lparr>ti_host = host, ti_port = port, ti_protocol = ha_version h, ti_cipher = ha_cipher h,
                ti_not_after = not_after, ti_issuer_cn = issuer, ti_subject_cn = subject,
                ti_self_signed = (osor issuer [] \<noteq> [] \<and> osor subject [] \<noteq> [] \<and> issuer = subject),
                ti_error = None\<rparr>))"

subsection \<open>The analyzer\<close>

definition tls_target :: "string \<Rightarrow> (string \<times> int) list res" where
  "tls_target url =
     bind_res (urlsplit url) (\<lambda>parts.
       if lower (sr_scheme parts) \<notin> {''https'', ''wss''} then Inr []
       else (case url_hostname parts of
               None \<Rightarrow> Inr []
             | Some h \<Rightarrow> bind_res (url_port parts) (\<lambda>p.
                 Inr [(lower h, case p of Some n \<Rightarrow> if n = 0 then 443 else n | None \<Rightarrow> 443)])))"

definition tls_targets :: "string list \<Rightarrow> (string \<times> int) list res" where
  "tls_targets seeds = bind_res (map_res tls_target seeds) (\<lambda>ts. Inr (sorted_set (concat ts)))"

definition tls_ev :: "TlsInfo \<Rightarrow> string \<Rightarrow> NewEvidence res" where
  "tls_ev info summary =
     (if \<not> summary_ok summary then Inl (ValidationError ''summary'') else Inr
      \<lparr>ne_kind = TLS_OBSERVATION, ne_summary = summary, ne_matched = [], ne_response = None,
       ne_data = [(''protocol'', PStr (osor (ti_protocol info) [])), (''cipher'', PStr (osor (ti_cipher info) [])),
                  (''issuer_cn'', PStr (osor (ti_issuer_cn info) [])),
                  (''subject_cn'', PStr (osor (ti_subject_cn info) []))]\<rparr>)"

definition tls_location :: "TlsInfo \<Rightarrow> Location" where
  "tls_location info =
     Location_validate
       \<lparr>loc_scheme = ''https'', loc_host = ti_host info, loc_port = ti_port info, loc_path = ''/'',
        loc_method = Some ''GET'', loc_parameter = None, loc_parameter_location = None\<rparr>"

text \<open>\<open>_new_observation\<close> with the arguments that differ, which are evaluated before the evidence is made.\<close>

definition tls_observation ::
  "TlsInfo \<Rightarrow> string \<Rightarrow> string \<Rightarrow> string \<Rightarrow> Severity \<Rightarrow> int list \<Rightarrow> string \<Rightarrow> string \<Rightarrow> string \<Rightarrow> NewObservation list res" where
  "tls_observation info key det title sev cwe desc remediation summary =
     bind_res (tls_ev info summary) (\<lambda>ev. Inr
       [\<lparr>na_detector_id = det, na_title = title, na_vuln_class = key, na_severity = sev, na_cwe = cwe,
         na_location = tls_location info, na_description = desc, na_remediation = remediation,
         na_evidence = [ev]\<rparr>])"

definition weak_protocol_finding :: "TlsInfo \<Rightarrow> string \<Rightarrow> NewObservation list res" where
  "weak_protocol_finding info key =
     (case ti_protocol info of
        Some proto \<Rightarrow>
          if proto \<in> set WEAK_PROTOCOLS
          then tls_observation info key (''weak-protocol:'' @ proto) (''Obsolete TLS protocol negotiated: '' @ proto)
                 MEDIUM [326, 327] (''The server negotiated '' @ proto @ ''.'')
                 ''Disable TLS < 1.2 and prefer TLS 1.3.'' (''protocol='' @ proto)
          else Inr []
      | None \<Rightarrow> Inr [])"

definition DAY :: int where
  "DAY = 24 * 60 * 60 * 1000000"

definition expiry_finding :: "(int \<Rightarrow> string) \<Rightarrow> int \<Rightarrow> TlsInfo \<Rightarrow> string \<Rightarrow> NewObservation list res" where
  "expiry_finding time_text now info key =
     (case ti_not_after info of
        None \<Rightarrow> Inr []
      | Some not_after \<Rightarrow>
          (let days = (not_after - now) div DAY in
           if days < 0
           then tls_observation info key ''cert-expired'' ''TLS certificate expired'' HIGH [295, 298]
                  (''Leaf certificate expired '' @ str_of_int \<bar>days\<bar> @ '' day(s) ago.'')
                  ''Renew the certificate and automate rotation.'' (''not_after='' @ time_text not_after)
           else if days < 15
           then tls_observation info key ''cert-expiring'' ''TLS certificate expiring soon'' LOW [295]
                  (''Leaf certificate expires in '' @ str_of_int days @ '' day(s).'')
                  ''Renew before expiry; automate rotation.'' (''not_after='' @ time_text not_after)
           else Inr []))"

definition self_signed_finding :: "TlsInfo \<Rightarrow> string \<Rightarrow> NewObservation list res" where
  "self_signed_finding info key =
     (if ti_self_signed info
      then tls_observation info key ''cert-self-signed'' ''Self-signed TLS certificate'' MEDIUM [295]
             ''The leaf certificate appears self-signed (issuer == subject).''
             ''Use a certificate from a trusted CA for public endpoints.''
             (''issuer='' @ opt_text (ti_issuer_cn info))
      else Inr [])"

definition tls_evaluate :: "(int \<Rightarrow> string) \<Rightarrow> int \<Rightarrow> TlsInfo \<Rightarrow> NewObservation list res" where
  "tls_evaluate time_text now info =
     (if osor (ti_error info) [] \<noteq> [] then Inr []
      else bind_res (class_key ''tls_weakness'') (\<lambda>key.
           bind_res (weak_protocol_finding info key) (\<lambda>a.
           bind_res (expiry_finding time_text now info key) (\<lambda>b.
           bind_res (self_signed_finding info key) (\<lambda>c. Inr (a @ b @ c))))))"

definition tls_analyze ::
  "(int \<Rightarrow> string) \<Rightarrow> (nat \<Rightarrow> int) \<Rightarrow> (string \<Rightarrow> int \<Rightarrow> TlsInfo) \<Rightarrow> EngineRunRequest \<Rightarrow> 'c \<Rightarrow>
   NewObservation list res \<times> 'c" where
  "tls_analyze time_text clock inspect request c =
     (bind_res (tls_targets (rq_seed_urls request)) (\<lambda>targets.
        bind_res (map_res (\<lambda>(n, (host, port)). tls_evaluate time_text (clock n) (inspect host port))
                    (enumerate 0 targets)) (\<lambda>found. Inr (concat found))), c)"

definition TlsAdapter ::
  "(int \<Rightarrow> string) \<Rightarrow> (nat \<Rightarrow> int) \<Rightarrow> (string \<Rightarrow> int \<Rightarrow> TlsInfo) \<Rightarrow> 'c NativeEngine" where
  "TlsAdapter time_text clock inspect =
     \<lparr>nv_engine_id = ''vantage-tls'', nv_engine_name = ''Vantage TLS Analyzer'',
      nv_capabilities = [ANALYSIS_TLS], nv_analyze = tls_analyze time_text clock inspect\<rparr>"

subsection \<open>Which verdicts\<close>

lemma tls_class [simp]: "class_key ''tls_weakness'' = Inr ''tls_weakness''"
  by (rule class_key_known) (simp add: CLASSES_def vc_def)

lemma tls_observation_detector:
  "tls_observation info key det title sev cwe desc rem summary = Inr obs \<Longrightarrow>
     List.map na_detector_id obs = [det] \<and> List.map na_vuln_class obs = [key] \<and>
     list_all (\<lambda>a. na_location a = tls_location info) obs"
  by (auto simp: tls_observation_def bind_res_Inr_iff)

lemma days_negative: "(x :: int) div DAY < 0 \<longleftrightarrow> x < 0"
  by (rule pos_imp_zdiv_neg_iff) (simp add: DAY_def)

lemma days_below: "(x :: int) div DAY < 15 \<longleftrightarrow> x < 15 * DAY"
proof -
  have "(x - 15 * DAY) div DAY = x div DAY - 15"
    using div_mult_self1 [of DAY x "- 15"] by (simp add: DAY_def algebra_simps)
  then show ?thesis using days_negative [of "x - 15 * DAY"] by linarith
qed

text \<open>
  C20: of a certificate that could be read the analyzer reports exactly: the protocol when it is one of
  the obsolete ones; that it has expired when its end has passed; that it expires soon when the end
  is less than fifteen days away; and that it is self-signed, in this order and all of the TLS class;
  of a failed connection it reports nothing.
\<close>

theorem tls_verdicts:
  assumes "tls_evaluate time_text now info = Inr found"
  shows "List.map na_detector_id found =
      (if osor (ti_error info) [] \<noteq> [] then [] else
       (case ti_protocol info of
          Some p \<Rightarrow> if p \<in> {''SSLv2'', ''SSLv3'', ''TLSv1'', ''TLSv1.1''} then [''weak-protocol:'' @ p] else []
        | None \<Rightarrow> []) @
       (case ti_not_after info of
          Some t \<Rightarrow> if t < now then [''cert-expired''] else if t < now + 15 * DAY then [''cert-expiring''] else []
        | None \<Rightarrow> []) @
       (if ti_self_signed info then [''cert-self-signed''] else [])) \<and>
    list_all (\<lambda>a. na_vuln_class a = ''tls_weakness'' \<and> loc_port (na_location a) = ti_port info) found"
proof (cases "osor (ti_error info) [] \<noteq> []")
  case False
  with assms obtain a b c where a: "weak_protocol_finding info ''tls_weakness'' = Inr a"
    and b: "expiry_finding time_text now info ''tls_weakness'' = Inr b"
    and c: "self_signed_finding info ''tls_weakness'' = Inr c" and found: "found = a @ b @ c"
    by (auto simp: tls_evaluate_def bind_res_Inr_iff)
  let ?ok = "list_all (\<lambda>a. na_vuln_class a = ''tls_weakness'' \<and> loc_port (na_location a) = ti_port info)"
  have port: "loc_port (tls_location info) = ti_port info" by (simp add: tls_location_def Location_validate_def)
  have one: "List.map na_detector_id obs = [det] \<and> ?ok obs"
    if "tls_observation info ''tls_weakness'' det title sev cwe desc rem summary = Inr obs"
    for det title sev cwe desc rem summary obs
    using tls_observation_detector [OF that] port by (cases obs) auto
  have "List.map na_detector_id a = (case ti_protocol info of
      Some p \<Rightarrow> if p \<in> {''SSLv2'', ''SSLv3'', ''TLSv1'', ''TLSv1.1''} then [''weak-protocol:'' @ p] else []
    | None \<Rightarrow> []) \<and> ?ok a"
    using a one by (auto simp: weak_protocol_finding_def WEAK_PROTOCOLS_def split: option.splits if_splits)
  moreover have "List.map na_detector_id b = (case ti_not_after info of
      Some t \<Rightarrow> if t < now then [''cert-expired''] else if t < now + 15 * DAY then [''cert-expiring''] else []
    | None \<Rightarrow> []) \<and> ?ok b"
    using b one
    by (auto simp: expiry_finding_def Let_def days_negative days_below split: option.splits if_splits)
  moreover have "List.map na_detector_id c = (if ti_self_signed info then [''cert-self-signed''] else []) \<and> ?ok c"
    using c one by (auto simp: self_signed_finding_def split: if_splits)
  ultimately show ?thesis using False by (simp add: found)
qed (use assms in \<open>simp add: tls_evaluate_def\<close>)

definition demo_tls :: TlsInfo where
  "demo_tls =
     \<lparr>ti_host = ''h.example'', ti_port = 8443, ti_protocol = Some ''TLSv1'', ti_cipher = None,
      ti_not_after = Some 5, ti_issuer_cn = Some ''x'', ti_subject_cn = Some ''x'', ti_self_signed = True,
      ti_error = None\<rparr>"

theorem tls_verdicts_witness:
  "\<exists>found. tls_evaluate (\<lambda>t. ''1970'') 7 demo_tls = Inr found \<and>
     List.map na_detector_id found = [''weak-protocol:TLSv1'', ''cert-expired'', ''cert-self-signed'']"
proof -
  have "\<exists>found. tls_evaluate (\<lambda>t. ''1970'') 7 demo_tls = Inr found"
    by (simp add: tls_evaluate_def demo_tls_def osor_def weak_protocol_finding_def expiry_finding_def
        self_signed_finding_def tls_observation_def tls_ev_def summary_ok_def MAX_SUMMARY_def WEAK_PROTOCOLS_def
        sor_def Let_def DAY_def opt_text_def)
  then obtain found where f: "tls_evaluate (\<lambda>t. ''1970'') 7 demo_tls = Inr found" ..
  from tls_verdicts [OF f] f show ?thesis by (simp add: demo_tls_def osor_def)
qed

text \<open>The client, and with it the scope engine, is never asked.\<close>

lemma tls_ignores_client:
  "nv_analyze (TlsAdapter time_text clock inspect) request c =
     (fst (nv_analyze (TlsAdapter time_text clock inspect) request c0), c)"
  by (simp add: TlsAdapter_def tls_analyze_def)

end
