(* ===== verification/Sandbox.thy ===== *)
theory Sandbox
  imports Domain Py_Val
begin

text \<open>
  The sandbox runners (\<open>vantage/engines/sandbox.py\<close>) with the records of a container run
  (\<open>vantage/engines/adapter.py\<close>).  A child process is what the operating system makes of an argument
  vector: whether it outlived its time limit, its exit code and its output; the lookup of a binary on
  the search path, the temporary directory and the text of a float are arguments.
\<close>

record ContainerSpec =
  cs_image :: string
  cs_args :: "string list"
  cs_network :: NetworkMode
  cs_limits :: ResourceLimits
  cs_env :: "(string, string) dict"
  cs_input_files :: "(string, string) dict"
  cs_output_dir :: string
  cs_workdir :: string
  cs_user :: string
  cs_binary :: "string option"

text \<open>The fields with a default.\<close>

definition ContainerSpec_init :: "string \<Rightarrow> string list \<Rightarrow> NetworkMode \<Rightarrow> ResourceLimits \<Rightarrow> ContainerSpec" where
  "ContainerSpec_init img args network limits =
     \<lparr>cs_image = img, cs_args = args, cs_network = network, cs_limits = limits, cs_env = [],
      cs_input_files = [], cs_output_dir = ''/out'', cs_workdir = ''/work'', cs_user = ''65532:65532'',
      cs_binary = None\<rparr>"

record SandboxResult =
  sx_exit_code :: "int option"
  sx_timed_out :: bool
  sx_stdout :: string
  sx_stderr :: string
  sx_output_files :: "(string, string) dict"
  sx_duration_seconds :: rat
  sx_output_truncated :: bool

record ChildProcess =
  cp_timed_out :: bool
  cp_returncode :: int
  cp_stdout :: string
  cp_stderr :: string
  cp_files :: "(string \<times> string option) list"

subsection \<open>FakeSandboxRunner\<close>

definition fake_run :: "(ContainerSpec \<Rightarrow> SandboxResult res) option \<Rightarrow> ContainerSpec \<Rightarrow> SandboxResult res" where
  "fake_run handler spec =
     (case handler of
        Some h \<Rightarrow> h spec
      | None \<Rightarrow> Inr \<lparr>sx_exit_code = Some 0, sx_timed_out = False, sx_stdout = [], sx_stderr = [],
                     sx_output_files = [], sx_duration_seconds = 0, sx_output_truncated = False\<rparr>)"

subsection \<open>DockerSandboxRunner\<close>

definition hardening :: "(rat \<Rightarrow> string) \<Rightarrow> ContainerSpec \<Rightarrow> string list" where
  "hardening float_str spec =
     (let l = cs_limits spec; mem = str_of_int (lim_memory_mb l) @ ''m'';
          tmpfs = '':rw,size='' @ str_of_int (lim_tmpfs_mb l) @ ''m,mode=1777''
      in [''run'', ''--rm'', ''--read-only'', ''--cap-drop'', ''ALL'', ''--security-opt'', ''no-new-privileges'',
          ''--user'', cs_user spec, ''--pids-limit'', str_of_int (lim_pids l), ''--cpus'', float_str (lim_cpus l),
          ''--memory'', mem, ''--memory-swap'', mem, ''--workdir'', cs_workdir spec,
          ''--tmpfs'', cs_workdir spec @ tmpfs, ''--tmpfs'', cs_output_dir spec @ tmpfs])"

definition build_argv :: "(rat \<Rightarrow> string) \<Rightarrow> string \<Rightarrow> ContainerSpec \<Rightarrow> string list" where
  "build_argv float_str docker spec =
     [docker] @ hardening float_str spec
     @ [''--network'', if cs_network spec = NET_NONE then ''none'' else ''vantage-egress'']
     @ concat (List.map (\<lambda>(k, v). [''--env'', k @ ''='' @ v]) (cs_env spec))
     @ [cs_image spec] @ cs_args spec"

definition docker_available :: "(string \<Rightarrow> string option) \<Rightarrow> (string list \<Rightarrow> int) \<Rightarrow> string \<Rightarrow> bool" where
  "docker_available which exit_of docker =
     (if which docker = None then False else exit_of [docker, ''info''] = 0)"

definition docker_run ::
  "(rat \<Rightarrow> string) \<Rightarrow> (string list \<Rightarrow> ChildProcess) \<Rightarrow> string \<Rightarrow> ContainerSpec \<Rightarrow> SandboxResult" where
  "docker_run float_str exec docker spec =
     (let p = exec (build_argv float_str docker spec);
          cap = nat (lim_max_output_bytes (cs_limits spec))
      in \<lparr>sx_exit_code = (if cp_timed_out p then None else Some (cp_returncode p)),
          sx_timed_out = cp_timed_out p, sx_stdout = take cap (cp_stdout p),
          sx_stderr = take cap (cp_stderr p), sx_output_files = [],
          sx_duration_seconds =
            (if cp_timed_out p then of_int (lim_timeout_seconds (cs_limits spec)) else 0),
          sx_output_truncated = length (cp_stdout p) > cap\<rparr>)"

subsection \<open>LocalSubprocessRunner\<close>

text \<open>\<open>image.rsplit("/", 1)[-1].split(":", 1)[0]\<close>.\<close>

definition image_name :: "string \<Rightarrow> string" where
  "image_name img = fst (partition_on CHR '':'' (snd (snd (rpartition_on CHR ''/'' img))))"

definition local_resolve :: "(string \<Rightarrow> string option) \<Rightarrow> ContainerSpec \<Rightarrow> string option" where
  "local_resolve which spec =
     (let binary = osor (cs_binary spec) (if cs_image spec = [] then [] else image_name (cs_image spec))
      in if binary = [] then None else which binary)"

text \<open>\<open>str.replace\<close>: an empty pattern occurs in front of every character and at the end.\<close>

function replace_all :: "string \<Rightarrow> string \<Rightarrow> string \<Rightarrow> string" where
  "replace_all old new s =
     (if old = [] then concat (List.map (\<lambda>c. new @ [c]) s) @ new
      else if startswith s old then new @ replace_all old new (drop (length old) s)
      else (case s of [] \<Rightarrow> [] | c # cs \<Rightarrow> c # replace_all old new cs))"
  by pat_completeness auto
termination
  by (relation "measure (\<lambda>(old, new, s). length s)") (auto simp: startswith_iff)

declare replace_all.simps [simp del]

definition local_rewrite :: "ContainerSpec \<Rightarrow> string \<Rightarrow> string \<Rightarrow> string \<Rightarrow> string" where
  "local_rewrite spec workdir outdir arg =
     replace_all (cs_workdir spec) workdir (replace_all (cs_output_dir spec) outdir arg)"

fun dict_update :: "('k, 'v) dict \<Rightarrow> ('k, 'v) dict \<Rightarrow> ('k, 'v) dict" where
  "dict_update d [] = d"
| "dict_update d ((k, v) # kvs) = dict_update (dset d k v) kvs"

definition local_env :: "string \<Rightarrow> string \<Rightarrow> ContainerSpec \<Rightarrow> (string, string) dict" where
  "local_env path workdir spec = dict_update [(''PATH'', path), (''HOME'', workdir)] (cs_env spec)"

text \<open>The regular files of the output directory, each read up to the cap.\<close>

definition read_outputs :: "nat \<Rightarrow> (string \<times> string option) list \<Rightarrow> (string, string) dict" where
  "read_outputs cap files =
     foldl (\<lambda>d (name, content). case content of Some c \<Rightarrow> dset d name (take cap c) | None \<Rightarrow> d) [] files"

definition missing_binary :: "ContainerSpec \<Rightarrow> SandboxResult" where
  "missing_binary spec =
     \<lparr>sx_exit_code = Some 127, sx_timed_out = False, sx_stdout = [],
      sx_stderr = ''engine binary not found on PATH: '' @ osor (cs_binary spec) (cs_image spec),
      sx_output_files = [], sx_duration_seconds = 0, sx_output_truncated = False\<rparr>"

definition local_run ::
  "(string \<Rightarrow> string option) \<Rightarrow> string \<Rightarrow> string \<Rightarrow>
   (string list \<Rightarrow> (string, string) dict \<Rightarrow> string \<Rightarrow> ChildProcess) \<Rightarrow> ContainerSpec \<Rightarrow> SandboxResult" where
  "local_run which path_env tmp exec spec =
     (case local_resolve which spec of
        None \<Rightarrow> missing_binary spec
      | Some path \<Rightarrow>
          (let workdir = tmp @ ''/work''; outdir = tmp @ ''/out'';
               args = List.map (local_rewrite spec workdir outdir) (cs_args spec);
               p = exec (path # args) (local_env path_env workdir spec) workdir;
               cap = nat (lim_max_output_bytes (cs_limits spec))
           in \<lparr>sx_exit_code = (if cp_timed_out p then None else Some (cp_returncode p)),
               sx_timed_out = cp_timed_out p, sx_stdout = take cap (cp_stdout p),
               sx_stderr = take cap (cp_stderr p), sx_output_files = read_outputs cap (cp_files p),
               sx_duration_seconds = 0, sx_output_truncated = length (cp_stdout p) > cap\<rparr>))"

text \<open>The limits the child sets for itself: address space and CPU time, soft and hard.\<close>

definition rlimits :: "ResourceLimits \<Rightarrow> (int \<times> int) \<times> (int \<times> int)" where
  "rlimits l =
     (let mem = lim_memory_mb l * 1024 * 1024; cpu = lim_timeout_seconds l
      in ((mem, mem), (cpu, cpu + 5)))"

subsection \<open>select_runner\<close>

datatype RunnerKind = DOCKER_RUNNER | LOCAL_RUNNER | FAKE_RUNNER

definition select_runner :: "(string \<Rightarrow> string option) \<Rightarrow> string \<Rightarrow> bool \<Rightarrow> RunnerKind" where
  "select_runner which mode0 prefer_docker =
     (let md = lower mode0
      in if md = ''docker'' then DOCKER_RUNNER
         else if md = ''local'' then LOCAL_RUNNER
         else if md = ''fake'' then FAKE_RUNNER
         else if prefer_docker \<and> which ''docker'' \<noteq> None then DOCKER_RUNNER
         else LOCAL_RUNNER)"

subsection \<open>Facts\<close>

text \<open>
  A seed URL whose path contains the name of a directory token is rewritten with the path of the
  temporary directory.
\<close>

lemma rewrite_corrupts_url:
  "local_rewrite (ContainerSpec_init ''tool'' [] NET_NONE lims) ''/tmp/x/work'' ''/tmp/x/out''
     ''http://shop.example/outlet'' = ''http://shop.example/tmp/x/outlet''"
  by code_simp


lemma read_outputs_bounded:
  "list_all (\<lambda>(name, content). length content \<le> cap) (read_outputs cap files) \<and>
   set (dkeys (read_outputs cap files)) = {name. \<exists>c. (name, Some c) \<in> set files}"
proof (induction files rule: rev_induct)
  case (snoc f files)
  obtain name content where f: "f = (name, content)" by (cases f)
  have mem: "x \<in> set (dset d name v) \<Longrightarrow> x \<in> set d \<or> x = (name, v)" for x and d :: "(string, string) dict" and v
    by (induction d name v rule: dset.induct) (auto split: if_splits)
  show ?case
  proof (cases content)
    case None
    with snoc.IH f show ?thesis by (auto simp: read_outputs_def)
  next
    case (Some c)
    have eq: "read_outputs cap (files @ [(name, Some c)]) = dset (read_outputs cap files) name (take cap c)"
      by (simp add: read_outputs_def)
    have "length b \<le> cap" if "(a, b) \<in> set (dset (read_outputs cap files) name (take cap c))" for a b
      using mem [OF that] snoc.IH by (auto simp: list_all_iff)
    then show ?thesis unfolding f Some eq using snoc.IH by (auto simp: list_all_iff dkeys_dset)
  qed
qed (simp add: read_outputs_def dkeys_def)

text \<open>
  C40: whatever a child process prints or writes, the result of a run holds at most the configured
  number of bytes of each stream and of each file; a run has no exit code exactly when it was
  stopped at its time limit, and when it is marked as truncated its standard output has exactly that many bytes.
\<close>

theorem sandbox_output_bounded:
  assumes "r = docker_run float_str exec docker spec \<or>
      r = local_run which path_env tmp lexec spec \<and> local_resolve which spec \<noteq> None"
    and "cap = nat (lim_max_output_bytes (cs_limits spec))"
  shows "length (sx_stdout r) \<le> cap \<and> length (sx_stderr r) \<le> cap \<and>
    list_all (\<lambda>(name, content). length content \<le> cap) (sx_output_files r) \<and>
    (sx_timed_out r \<longleftrightarrow> sx_exit_code r = None) \<and>
    (sx_output_truncated r \<longrightarrow> length (sx_stdout r) = cap)"
  using assms(1)
proof (elim disjE conjE)
  assume "r = docker_run float_str exec docker spec"
  then show ?thesis using assms(2) by (simp add: docker_run_def Let_def min_def)
next
  assume r: "r = local_run which path_env tmp lexec spec" and "local_resolve which spec \<noteq> None"
  then obtain path where "local_resolve which spec = Some path" by blast
  with r assms(2) show ?thesis
    using read_outputs_bounded [of cap] by (simp add: local_run_def Let_def min_def)
qed

definition demo_process :: ChildProcess where
  "demo_process = \<lparr>cp_timed_out = False, cp_returncode = 0, cp_stdout = replicate 2000 CHR ''x'', cp_stderr = [],
     cp_files = [(''r.json'', Some ''{}''), (''dir'', None)]\<rparr>"

definition demo_spec :: ContainerSpec where
  "demo_spec = ContainerSpec_init ''tool'' [''-o'', ''/out/r.json''] SCOPED_EGRESS
     \<lparr>lim_cpus = 1, lim_memory_mb = 512, lim_pids = 64, lim_timeout_seconds = 60, lim_max_output_bytes = 1024,
      lim_tmpfs_mb = 64\<rparr>"

theorem sandbox_output_bounded_witness:
  "length (sx_stdout (local_run (\<lambda>b. Some b) ''/bin'' ''/tmp/x'' (\<lambda>_ _ _. demo_process) demo_spec)) \<le> 1024"
proof -
  have "local_resolve (\<lambda>b. Some b) demo_spec \<noteq> None" by code_simp
  then have "length (sx_stdout (local_run (\<lambda>b. Some b) ''/bin'' ''/tmp/x'' (\<lambda>_ _ _. demo_process) demo_spec)) \<le>
      nat (lim_max_output_bytes (cs_limits demo_spec))"
    using sandbox_output_bounded [OF disjI2 refl, of _ "\<lambda>b. Some b" "''/bin''" "''/tmp/x''" "\<lambda>_ _ _. demo_process" demo_spec]
    by blast
  then show ?thesis by (simp add: demo_spec_def ContainerSpec_init_def)
qed

end
