(* ===== verification/Container_Engine.thy ===== *)
theory Container_Engine
  imports Native Sandbox Py_Dyn
begin

text \<open>
  The base of the adapters that run an unmodified engine in a sandbox (\<open>vantage/adapters/oss/base.py\<close>)
  and the reading of its output, which is untrusted.  A call of the constructor of a model makes a
  draft without identifier and time; a run stamps the drafts in order.  The decoding of output bytes,
  \<open>json.loads\<close> and the text of a float are the fields of a record: \<open>json.loads\<close> returns a value, or
  \<open>None\<close> for a \<open>JSONDecodeError\<close>, or raises something else (an integer of too many digits, a text nested
  too deep).
\<close>

subsection \<open>What reads the output\<close>

record Tools =
  tl_decode :: "string \<Rightarrow> string"
  tl_loads :: "string \<Rightarrow> pyval option res"
  tl_float :: "rat \<Rightarrow> string"

subsection \<open>The adapter\<close>

record RawRecords =
  rc_engine_id :: string
  rc_engine_version :: string
  rc_format :: string
  rc_records :: "(string \<times> pyval) list list"
  rc_rejected :: nat

record ContainerEngine =
  cn_engine_id :: string
  cn_engine_name :: string
  cn_vendor :: string
  cn_homepage :: string
  cn_license_spdx :: string
  cn_capabilities :: "Capability list"
  cn_image :: string
  cn_binary :: string
  cn_format :: string
  cn_args :: "EngineRunRequest \<Rightarrow> string list res"
  cn_collect :: "SandboxResult option \<Rightarrow> ((string \<times> pyval) list list \<times> nat) res"
  cn_normalize :: "string \<Rightarrow> (string \<times> pyval) list list \<Rightarrow> EngineRunRequest \<Rightarrow> Observation list res"

record SandboxRunner =
  sb_available :: bool
  sb_run :: "ContainerSpec \<Rightarrow> SandboxResult res"

record ContainerAdapter =
  ca_engine :: ContainerEngine
  ca_runner :: SandboxRunner
  ca_version :: string
  ca_limits :: ResourceLimits
  ca_approval :: ApprovalStatus

definition ContainerAdapter_init ::
  "ResourceLimits \<Rightarrow> ContainerEngine \<Rightarrow> SandboxRunner \<Rightarrow> string \<Rightarrow> ResourceLimits option \<Rightarrow> bool \<Rightarrow> ContainerAdapter" where
  "ContainerAdapter_init default_limits e runner version limits approved =
     \<lparr>ca_engine = e, ca_runner = runner, ca_version = version,
      ca_limits = (case limits of Some l \<Rightarrow> l | None \<Rightarrow> default_limits),
      ca_approval = (if approved then APPROVED else PENDING_REVIEW)\<rparr>"

definition container_metadata :: "ContainerAdapter \<Rightarrow> EngineMetadata" where
  "container_metadata a =
     (let e = ca_engine a in
      \<lparr>em_id = cn_engine_id e, em_name = cn_engine_name e, em_version = ca_version a,
       em_vendor = cn_vendor e, em_license_spdx = cn_license_spdx e, em_license_class = GREEN,
       em_approval_status = ca_approval a, em_integration = CONTAINER_CLI,
       em_capabilities = cn_capabilities e, em_image = Some (cn_image e),
       em_homepage = (if cn_homepage e = [] then None else Some (cn_homepage e))\<rparr>)"

definition container_health :: "int \<Rightarrow> ContainerAdapter \<Rightarrow> HealthStatus" where
  "container_health now a =
     (if sb_available (ca_runner a)
      then \<lparr>hs_state = HEALTHY, hs_detail = ''sandbox available'', hs_checked_at = now\<rparr>
      else \<lparr>hs_state = UNAVAILABLE, hs_detail = ''sandbox runner unavailable'', hs_checked_at = now\<rparr>)"

definition base_spec :: "ContainerAdapter \<Rightarrow> string list \<Rightarrow> ContainerSpec" where
  "base_spec a args =
     (let e = ca_engine a in
      (ContainerSpec_init (cn_image e) args SCOPED_EGRESS (ca_limits a))
        \<lparr>cs_binary := (if cn_binary e = [] then None else Some (cn_binary e))\<rparr>)"

definition guard_output :: "Tools \<Rightarrow> SandboxResult option \<Rightarrow> string" where
  "guard_output tools result =
     (case result of
        None \<Rightarrow> []
      | Some r \<Rightarrow> if sx_timed_out r then [] else tl_decode tools (sx_stdout r))"

subsection \<open>Reading output\<close>

text \<open>One JSON object per line: the loop of \<open>_parse_jsonl\<close>, and of \<open>collect_results\<close> of Nuclei, Katana and httpx.\<close>

fun jsonl_loop :: "(string \<Rightarrow> pyval option res) \<Rightarrow> string list \<Rightarrow> ((string \<times> pyval) list list \<times> nat) res" where
  "jsonl_loop loads [] = Inr ([], 0)"
| "jsonl_loop loads (line # lines) =
     (if strip line = [] then jsonl_loop loads lines
      else bind_res (loads (strip line)) (\<lambda>obj.
           bind_res (jsonl_loop loads lines) (\<lambda>(records, rejected).
             Inr (case obj of Some (PDict d) \<Rightarrow> (d # records, rejected)
                  | _ \<Rightarrow> (records, Suc rejected)))))"

definition parse_jsonl :: "Tools \<Rightarrow> string \<Rightarrow> ((string \<times> pyval) list list \<times> nat) res" where
  "parse_jsonl tools s = jsonl_loop (tl_loads tools) (splitlines s)"

definition jsonl_collect ::
  "Tools \<Rightarrow> SandboxResult option \<Rightarrow> ((string \<times> pyval) list list \<times> nat) res" where
  "jsonl_collect tools result = parse_jsonl tools (guard_output tools result)"

text \<open>\<open>output_files.get(name, b"") or stdout\<close>.\<close>

definition output_blob :: "string \<Rightarrow> SandboxResult option \<Rightarrow> string" where
  "output_blob name result =
     (case result of
        None \<Rightarrow> []
      | Some r \<Rightarrow> sor (dget_or (sx_output_files r) name []) (sx_stdout r))"

subsection \<open>Drafts of observations\<close>

definition draft_evidence ::
  "EvidenceKind \<Rightarrow> string \<Rightarrow> string \<Rightarrow> HttpMessage option \<Rightarrow> HttpMessage option \<Rightarrow> string list \<Rightarrow>
   (string \<times> pyval) list \<Rightarrow> Evidence res" where
  "draft_evidence kind engine_id summary request response matched data =
     (if \<not> summary_ok summary then Inl (ValidationError ''summary'') else Inr
     \<lparr>ev_id = [], ev_kind = kind, ev_engine_id = engine_id, ev_summary = summary,
      ev_request = map_option HttpMessage_validate request,
      ev_response = map_option HttpMessage_validate response,
      ev_matched = matched, ev_artifact_refs = [], ev_data = data, ev_captured_at = 0\<rparr>)"

definition draft_observation ::
  "EngineRunRequest \<Rightarrow> string \<Rightarrow> string \<Rightarrow> string \<Rightarrow> string \<Rightarrow> string \<Rightarrow> Severity \<Rightarrow> int list \<Rightarrow> Location \<Rightarrow>
   string \<Rightarrow> string \<Rightarrow> string list \<Rightarrow> Evidence \<Rightarrow> string option \<Rightarrow> Observation" where
  "draft_observation request engine_id version detector_id title vuln_class severity cwe loc
     description remediation references ev raw_ref =
     \<lparr>obs_id = [], obs_scan_id = rq_scan_id request, obs_run_id = rq_run_id request,
      obs_engine_id = engine_id, obs_engine_version = version, obs_detector_id = detector_id,
      obs_title = title, obs_vuln_class = vuln_class, obs_severity = severity,
      obs_confidence = TENTATIVE, obs_cwe = cwe, obs_location = loc, obs_description = description,
      obs_remediation = remediation, obs_references = references, obs_evidence = [ev],
      obs_raw_ref = raw_ref, obs_observed_at = 0\<rparr>"

definition stamp_observation :: "(nat \<Rightarrow> nat \<Rightarrow> string) \<Rightarrow> (nat \<Rightarrow> int) \<Rightarrow> nat \<Rightarrow> Observation \<Rightarrow> Observation" where
  "stamp_observation ids tms n ob =
     ob\<lparr>obs_id := ids n 0, obs_observed_at := tms n,
        obs_evidence := List.map (\<lambda>(i, ev). ev\<lparr>ev_id := ids n (Suc i), ev_captured_at := tms n\<rparr>)
                          (enumerate 0 (obs_evidence ob))\<rparr>"

subsection \<open>The calls of the contract\<close>

record ContainerRun =
  ct_request :: EngineRunRequest
  ct_spec :: "ContainerSpec option"

record ContainerOutcome =
  co_prepared :: ContainerRun
  co_sandbox :: "SandboxResult option"

definition container_prepare :: "ContainerAdapter \<Rightarrow> EngineRunRequest \<Rightarrow> ContainerRun res" where
  "container_prepare a request =
     bind_res (cn_args (ca_engine a) request) (\<lambda>args.
       Inr \<lparr>ct_request = request, ct_spec = Some (base_spec a args)\<rparr>)"

definition container_execute :: "ContainerAdapter \<Rightarrow> ContainerRun \<Rightarrow> ContainerOutcome res" where
  "container_execute a prepared =
     (case ct_spec prepared of
        None \<Rightarrow> Inl (RuntimeError ''AssertionError'')
      | Some spec \<Rightarrow>
          bind_res (sb_run (ca_runner a) spec) (\<lambda>result.
            Inr \<lparr>co_prepared = prepared, co_sandbox = Some result\<rparr>))"

definition container_collect :: "ContainerAdapter \<Rightarrow> SandboxResult option \<Rightarrow> RawRecords res" where
  "container_collect a result =
     bind_res (cn_collect (ca_engine a) result) (\<lambda>(records, rejected).
       Inr \<lparr>rc_engine_id = cn_engine_id (ca_engine a), rc_engine_version = ca_version a,
            rc_format = cn_format (ca_engine a), rc_records = records, rc_rejected = rejected\<rparr>)"

definition container_normalize ::
  "(nat \<Rightarrow> nat \<Rightarrow> string) \<Rightarrow> (nat \<Rightarrow> int) \<Rightarrow> ContainerAdapter \<Rightarrow> RawRecords \<Rightarrow> EngineRunRequest \<Rightarrow>
   Observation list res" where
  "container_normalize ids tms a raw request =
     bind_res (cn_normalize (ca_engine a) (ca_version a) (rc_records raw) request) (\<lambda>drafts.
       Inr (List.map (\<lambda>(n, ob). stamp_observation ids tms n ob) (enumerate 0 drafts)))"

definition container_adapter ::
  "(nat \<Rightarrow> nat \<Rightarrow> string) \<Rightarrow> (nat \<Rightarrow> int) \<Rightarrow> int \<Rightarrow> ContainerAdapter \<Rightarrow>
   (ContainerRun, ContainerOutcome, RawRecords) EngineAdapter" where
  "container_adapter ids tms now a =
     \<lparr>ad_metadata = container_metadata a,
      ad_health_check = Inr (container_health now a),
      ad_prepare_target = container_prepare a,
      ad_execute_scan = container_execute a,
      ad_collect_results = (\<lambda>outcome. container_collect a (co_sandbox outcome)),
      ad_normalize_results = container_normalize ids tms a,
      ad_cleanup = (\<lambda>_. Inr ())\<rparr>"

subsection \<open>Locations\<close>

text \<open>The adapters' \<open>_location\<close>, which differ in the host of a URL without one and in the method.\<close>

definition engine_location :: "string \<Rightarrow> string \<Rightarrow> string \<Rightarrow> Location res" where
  "engine_location no_host mth url =
     bind_res (urlsplit url) (\<lambda>parts.
       (let scheme = lower (sor (sr_scheme parts) ''https'')
        in bind_res (url_port parts) (\<lambda>p.
             Inr (Location_validate
               \<lparr>loc_scheme = scheme, loc_host = lower (osor (url_hostname parts) no_host),
                loc_port = (case p of
                              Some n \<Rightarrow> if n = 0 then (if scheme = ''https'' then 443 else 80) else n
                            | None \<Rightarrow> if scheme = ''https'' then 443 else 80),
                loc_path = sor (sr_path parts) ''/'', loc_method = Some mth,
                loc_parameter = None, loc_parameter_location = None\<rparr>))))"

text \<open>A URL without a scheme (Nuclei, ZAP).\<close>

definition with_scheme :: "string \<Rightarrow> string" where
  "with_scheme url =
     (if contains ''://'' url then url
      else if url \<noteq> [] then ''https://'' @ url else ''https://unknown/'')"

text \<open>\<open>request.seed_urls[0]\<close>.\<close>

definition first_seed :: "EngineRunRequest \<Rightarrow> string res" where
  "first_seed request =
     (case rq_seed_urls request of [] \<Rightarrow> Inl (RuntimeError ''list index out of range'') | u # us \<Rightarrow> Inr u)"

text \<open>\<open>str(int(request.max_requests_per_second))\<close>.\<close>

definition rate_arg :: "EngineRunRequest \<Rightarrow> string" where
  "rate_arg request = str_of_int (int_trunc (rq_max_requests_per_second request))"

text \<open>The keyword tables of \<open>_guess_class\<close>: the first keyword that occurs.\<close>

definition guess_from :: "(string \<times> string) list \<Rightarrow> string \<Rightarrow> string" where
  "guess_from hints s =
     (case List.find (\<lambda>(needle, key). contains needle s) hints of
        Some (needle, key) \<Rightarrow> key | None \<Rightarrow> ''other'')"

text \<open>\<open>_base_host\<close> and \<open>_host\<close>: the first host name among the seeds.\<close>

fun base_host :: "string list \<Rightarrow> string res" where
  "base_host [] = Inr ''unknown''"
| "base_host (u # us) =
     bind_res (urlsplit u) (\<lambda>parts.
       case url_hostname parts of
         Some h \<Rightarrow> if h \<noteq> [] then Inr (lower h) else base_host us
       | None \<Rightarrow> base_host us)"

subsection \<open>Facts\<close>

text \<open>A location differs from the one of the native engines in host and method only.\<close>

lemma engine_location_native:
  assumes "engine_location no_host mth url = Inr l"
  shows "\<exists>l'. native_location url = Inr l' \<and> loc_port l = loc_port l' \<and> loc_path l = loc_path l' \<and>
    loc_scheme l = loc_scheme l'"
proof -
  from assms obtain parts p where "urlsplit url = Inr parts" "url_port parts = Inr p"
    unfolding engine_location_def Let_def bind_res_Inr_iff by blast
  with assms show ?thesis by (auto simp: engine_location_def native_location_def Let_def Location_validate_def)
qed

lemma engine_location_ok:
  assumes "engine_location no_host mth url = Inr l"
  shows "Location_validate l = l" "0 < loc_port l" "loc_port l \<le> 65535" "loc_path l \<noteq> []"
proof -
  obtain l' where "location_ok l'" "loc_port l = loc_port l'" "loc_path l = loc_path l'"
    using engine_location_native [OF assms] native_location_ok by blast
  then show "0 < loc_port l" "loc_port l \<le> 65535" "loc_path l \<noteq> []" by (simp_all add: location_ok_def)
  from assms obtain l0 where "l = Location_validate l0"
    unfolding engine_location_def Let_def bind_res_Inr_iff sum.inject by blast
  then show "Location_validate l = l" by (simp only: Location_validate_idem)
qed

lemma classify_again [simp]:
  "classify_cwes cwes (Some (vc_key (classify_cwes cwes h))) = classify_cwes cwes h"
proof (cases "first_class cwes")
  case None
  have "list_all (\<lambda>c. vc_key c \<noteq> []) CLASSES" by (simp add: CLASSES_def vc_def OTHER_def)
  then have "vc_key (classify_cwes cwes h) \<noteq> []"
    using classify_in_CLASSES [of cwes h] by (auto simp: list_all_iff)
  moreover have "dget BY_KEY (vc_key (classify_cwes cwes h)) = Some (classify_cwes cwes h)"
    using classify_in_CLASSES [of cwes h] by (simp add: BY_KEY_iff)
  ultimately show ?thesis by (subst classify_cwes_def) (simp add: None)
qed (simp add: classify_cwes_def)

subsection \<open>The contract of normalization\<close>

definition draft_ok :: "string \<Rightarrow> string \<Rightarrow> EngineRunRequest \<Rightarrow> Observation \<Rightarrow> bool" where
  "draft_ok eid version request ob \<longleftrightarrow>
     obs_scan_id ob = rq_scan_id request \<and> obs_run_id ob = rq_run_id request \<and>
     obs_engine_id ob = eid \<and> obs_engine_version ob = version \<and> obs_confidence ob \<noteq> CONFIRMED \<and>
     Location_validate (obs_location ob) = obs_location ob \<and>
     vc_key (obs_class ob) = obs_vuln_class ob \<and>
     length (obs_evidence ob) = 1 \<and>
     list_all (\<lambda>ev. ev_engine_id ev = eid \<and> summary_ok (ev_summary ev)) (obs_evidence ob)"

lemma draft_ok_made [intro]:
  "draft_evidence kind eid summary rq rs matched data = Inr ev \<Longrightarrow> Location_validate loc = loc \<Longrightarrow>
     vc_key (classify_cwes cwe (Some vclass)) = vclass \<Longrightarrow>
     draft_ok eid version request
       (draft_observation request eid version det title vclass sev cwe loc desc rem refs ev raw)"
  by (auto simp: draft_ok_def draft_observation_def draft_evidence_def obs_class_def split: if_splits)

lemma draft_ok_confidence:
  "draft_ok eid version request ob \<Longrightarrow> c \<noteq> CONFIRMED \<Longrightarrow> draft_ok eid version request (ob\<lparr>obs_confidence := c\<rparr>)"
  by (simp add: draft_ok_def obs_class_def)

lemma draft_ok_stamped:
  "draft_ok eid version request ob \<Longrightarrow> draft_ok eid version request (stamp_observation ids tms n ob)"
  by (auto simp: draft_ok_def stamp_observation_def obs_class_def length_Suc_conv)

locale container_engine =
  fixes e :: ContainerEngine
  assumes normalize_ok: "cn_normalize e version records request = Inr drafts \<Longrightarrow> ob \<in> set drafts \<Longrightarrow>
    draft_ok (cn_engine_id e) version request ob"
begin

lemma run_ok:
  assumes "ca_engine a = e" and "engine_calls (container_adapter ids tms now a) request = Inr (Some obs)"
    and "ob \<in> set obs"
  shows "draft_ok (cn_engine_id e) (ca_version a) request ob"
proof -
  have "\<exists>raw. container_normalize ids tms a raw request = Inr obs"
    using assms(2) by (auto simp: engine_calls_def container_adapter_def bind_res_Inr_iff split: if_splits)
  then obtain records drafts where d: "cn_normalize e (ca_version a) records request = Inr drafts"
    and obs: "obs = List.map (\<lambda>(n, ob). stamp_observation ids tms n ob) (enumerate 0 drafts)"
    unfolding container_normalize_def bind_res_Inr_iff assms(1) by blast
  from assms(3) obs obtain n ob' where m: "(n, ob') \<in> set (enumerate 0 drafts)"
    and ob: "ob = stamp_observation ids tms n ob'" by auto
  have "ob' \<in> set drafts" using imageI [OF m, of snd] unfolding set_map [symmetric] map_snd_enumerate by simp
  with normalize_ok [OF d] show ?thesis unfolding ob by (intro draft_ok_stamped)
qed

end

end
