(* ===== verification/Oss_Audit.thy ===== *)
theory Oss_Audit
  imports Container_Engine
begin

text \<open>
  The adapters of the containerized audit engines: Nuclei, OWASP ZAP and Gitleaks
  (\<open>vantage/adapters/oss/nuclei.py\<close>, \<open>zap.py\<close>, \<open>gitleaks.py\<close>).
\<close>

subsection \<open>Nuclei\<close>

definition nuclei_severity :: "string \<Rightarrow> Severity" where
  "nuclei_severity s =
     dget_or [(''info'', INFO), (''low'', LOW), (''medium'', MEDIUM), (''high'', HIGH),
              (''critical'', CRITICAL), (''unknown'', INFO)] s INFO"

text \<open>\<open>x = request.options.get(k); if isinstance(x, list) and x\<close>.\<close>

definition tag_args :: "Tools \<Rightarrow> string \<Rightarrow> pyval \<Rightarrow> string list" where
  "tag_args tools flag v =
     (case v of
        PList ts \<Rightarrow> if ts = [] then [] else [flag, join '','' (List.map (py_str (tl_float tools)) ts)]
      | _ \<Rightarrow> [])"

definition url_args :: "string list \<Rightarrow> string list" where
  "url_args urls = concat (List.map (\<lambda>url. [''-u'', url]) urls)"

definition proxy_args :: "string \<Rightarrow> EngineRunRequest \<Rightarrow> string list" where
  "proxy_args flag request =
     (if osor (rq_proxy_url request) [] = [] then [] else [flag, osor (rq_proxy_url request) []])"

definition nuclei_args :: "Tools \<Rightarrow> EngineRunRequest \<Rightarrow> string list res" where
  "nuclei_args tools request = Inr
     ([''-jsonl'', ''-silent'', ''-no-color'', ''-duc'']
      @ [''-rate-limit'', rate_arg request]
      @ [''-c'', str_of_int (rq_max_concurrency request)]
      @ tag_args tools ''-tags'' (pfield (rq_options request) ''template_tags'')
      @ tag_args tools ''-exclude-tags'' (pfield (rq_options request) ''exclude_tags'')
      @ url_args (rq_seed_urls request)
      @ proxy_args ''-proxy'' request)"

text \<open>\<open>_extract_cwes\<close>.\<close>

definition cwe_item :: "Tools \<Rightarrow> pyval \<Rightarrow> int list res" where
  "cwe_item tools item =
     (if item = PNone then Inr []
      else (let s = replace_all ''cwe-'' [] (lower (py_str (tl_float tools) item))
            in if isdigit s then bind_res (int_of_text s) (\<lambda>n. Inr [n]) else Inr []))"

definition extract_cwes :: "Tools \<Rightarrow> pyval \<Rightarrow> int list res" where
  "extract_cwes tools classification =
     (case classification of
        PDict d \<Rightarrow>
          (let raw = por (pfield d ''cwe-id'') (pfield d ''cwe'');
               items = (case raw of PList xs \<Rightarrow> xs | _ \<Rightarrow> [raw])
           in flat_res (cwe_item tools) items)
      | _ \<Rightarrow> Inr [])"

definition as_str_list :: "Tools \<Rightarrow> pyval \<Rightarrow> string list" where
  "as_str_list tools value =
     (case value of
        PList vs \<Rightarrow> List.map (py_str (tl_float tools)) vs
      | PStr s \<Rightarrow> [s]
      | _ \<Rightarrow> [])"

definition nuclei_hints :: "(string \<times> string) list" where
  "nuclei_hints =
     [(''xss'', ''xss''), (''sqli'', ''sql_injection''), (''sql-injection'', ''sql_injection''),
      (''ssrf'', ''ssrf''), (''lfi'', ''path_traversal''), (''rce'', ''command_injection''),
      (''traversal'', ''path_traversal''), (''xxe'', ''xxe''), (''open-redirect'', ''open_redirect''),
      (''cors'', ''cors_misconfiguration''), (''exposure'', ''information_disclosure''),
      (''default-login'', ''authentication''), (''takeover'', ''security_misconfiguration'')]"

definition nuclei_guess_class :: "string \<Rightarrow> string \<Rightarrow> string" where
  "nuclei_guess_class template_id name = guess_from nuclei_hints (lower (template_id @ '' '' @ name))"

definition nuclei_location :: "string \<Rightarrow> Location res" where
  "nuclei_location matched = engine_location ''unknown'' ''GET'' (with_scheme matched)"

text \<open>\<open>HttpMessage(body=x) if isinstance(x, str) else None\<close>.\<close>

definition body_message :: "pyval \<Rightarrow> HttpMessage option" where
  "body_message v =
     (case v of
        PStr s \<Rightarrow> Some \<lparr>hm_method = None, hm_url = None, hm_status = None, hm_headers = [],
                         hm_body = Some s, hm_body_truncated = False\<rparr>
      | _ \<Rightarrow> None)"

definition nuclei_observation ::
  "Tools \<Rightarrow> string \<Rightarrow> EngineRunRequest \<Rightarrow> (string \<times> pyval) list \<Rightarrow> Observation list res" where
  "nuclei_observation tools version request rec =
     (let str = py_str (tl_float tools);
          info = as_dict (pfield rec ''info'');
          severity = nuclei_severity (lower (str (pget info ''severity'' (PStr ''info''))));
          template_id = str (por (por (pfield rec ''template-id'') (pfield rec ''templateID'')) (PStr ''unknown''));
          matched = str (por (por (pfield rec ''matched-at'') (pfield rec ''host'')) (PStr []))
      in bind_res (extract_cwes tools (pget info ''classification'' (PDict []))) (\<lambda>cwes.
         bind_res (nuclei_location matched) (\<lambda>loc.
         bind_res (draft_evidence HTTP_EXCHANGE ''nuclei''
                     (''nuclei template '' @ template_id @ '' matched at '' @ matched)
                     (body_message (pfield rec ''request'')) (body_message (pfield rec ''response''))
                     (if matched \<noteq> [] then [matched] else []) [(''template_id'', PStr template_id)]) (\<lambda>ev.
         Inr [draft_observation request ''nuclei'' version template_id
                (str (por (pfield info ''name'') (PStr template_id)))
                (vc_key (classify_cwes cwes
                   (Some (nuclei_guess_class template_id (str (pget info ''name'' (PStr [])))))))
                severity cwes loc (str (pget info ''description'' (PStr [])))
                (str (pget info ''remediation'' (PStr []))) (as_str_list tools (pfield info ''reference''))
                ev (Some template_id)]))))"

definition nuclei_normalize ::
  "Tools \<Rightarrow> string \<Rightarrow> (string \<times> pyval) list list \<Rightarrow> EngineRunRequest \<Rightarrow> Observation list res" where
  "nuclei_normalize tools version records request =
     flat_res (nuclei_observation tools version request) records"

definition NucleiAdapter :: "Tools \<Rightarrow> ContainerEngine" where
  "NucleiAdapter tools =
     \<lparr>cn_engine_id = ''nuclei'', cn_engine_name = ''Nuclei'', cn_vendor = ''ProjectDiscovery'',
      cn_homepage = ''https://github.com/projectdiscovery/nuclei'', cn_license_spdx = ''MIT'',
      cn_capabilities = [AUDIT_TEMPLATES, FINGERPRINT_TECH],
      cn_image = ''ghcr.io/projectdiscovery/nuclei'', cn_binary = ''nuclei'', cn_format = ''nuclei.jsonl'',
      cn_args = nuclei_args tools, cn_collect = jsonl_collect tools, cn_normalize = nuclei_normalize tools\<rparr>"

subsection \<open>OWASP ZAP\<close>

definition zap_risk :: "string \<Rightarrow> Severity" where
  "zap_risk s =
     dget_or [(''0'', INFO), (''1'', LOW), (''2'', MEDIUM), (''3'', HIGH), (''informational'', INFO),
              (''low'', LOW), (''medium'', MEDIUM), (''high'', HIGH)] s INFO"

definition zap_confidence :: "string \<Rightarrow> Confidence" where
  "zap_confidence s =
     dget_or [(''0'', FALSE_POSITIVE), (''1'', TENTATIVE), (''2'', TENTATIVE), (''3'', FIRM), (''4'', FIRM)]
       s TENTATIVE"

definition zap_args :: "EngineRunRequest \<Rightarrow> string list res" where
  "zap_args request =
     bind_res (first_seed request) (\<lambda>target. Inr
       ([''-t'', target, ''-J'', ''/out/zap.json'', ''-I'', ''-m'', ''2'']
        @ (if truthy (pfield (rq_options request) ''active'') then [''-a''] else [])))"

text \<open>
  The loops of \<open>collect_results\<close>: the alerts of a site, each with the name of the site as \<open>_host\<close>;
  an alert that is not an object is rejected.
\<close>

fun zap_alerts :: "pyval \<Rightarrow> pyval list \<Rightarrow> (string \<times> pyval) list list \<times> nat" where
  "zap_alerts host [] = ([], 0)"
| "zap_alerts host (alert # alerts) =
     (case zap_alerts host alerts of (records, rejected) \<Rightarrow>
        (case alert of PDict d \<Rightarrow> (dset d ''_host'' host # records, rejected)
         | _ \<Rightarrow> (records, Suc rejected)))"

fun zap_sites :: "pyval list \<Rightarrow> ((string \<times> pyval) list list \<times> nat) res" where
  "zap_sites [] = Inr ([], 0)"
| "zap_sites (site # sites) =
     (case site of
        PDict d \<Rightarrow>
          bind_res (py_iter (pget d ''alerts'' (PList []))) (\<lambda>alerts.
          bind_res (zap_sites sites) (\<lambda>(records, rejected).
            (case zap_alerts (pget d ''@name'' (PStr [])) alerts of (rs, n) \<Rightarrow>
               Inr (rs @ records, n + rejected))))
      | _ \<Rightarrow> zap_sites sites)"

definition zap_collect ::
  "Tools \<Rightarrow> SandboxResult option \<Rightarrow> ((string \<times> pyval) list list \<times> nat) res" where
  "zap_collect tools result =
     (let blob = output_blob ''zap.json'' result in
      if blob = [] then Inr ([], 0)
      else bind_res (tl_loads tools (tl_decode tools blob)) (\<lambda>doc.
        case doc of
          None \<Rightarrow> Inr ([], 1)
        | Some (PDict d) \<Rightarrow> bind_res (py_iter (pget d ''site'' (PList []))) zap_sites
        | Some _ \<Rightarrow> Inr ([], 0)))"

definition zap_cwe :: "Tools \<Rightarrow> (string \<times> pyval) list \<Rightarrow> int list res" where
  "zap_cwe tools alert =
     (let s = py_str (tl_float tools) (pfield alert ''cweid'') in
      if isdigit s then bind_res (int_of_text s) (\<lambda>n. Inr (if n > 0 then [n] else [])) else Inr [])"

text \<open>\<open>re.sub(r"<[^>]+>", "", text).strip()\<close>.\<close>

function drop_tags :: "string \<Rightarrow> string" where
  "drop_tags s =
     (case s of
        [] \<Rightarrow> []
      | c # cs \<Rightarrow>
          (let inner = takeWhile (\<lambda>x. x \<noteq> CHR ''>'') cs; rest = dropWhile (\<lambda>x. x \<noteq> CHR ''>'') cs in
           if c = CHR ''<'' \<and> inner \<noteq> [] \<and> rest \<noteq> [] then drop_tags (tl rest) else c # drop_tags cs))"
  by pat_completeness auto
termination
proof (relation "measure length", goal_cases)
  case (2 s c cs inner rest)
  then show ?case using length_dropWhile_le [of "\<lambda>x. x \<noteq> CHR ''>''" cs] by simp
qed simp_all

declare drop_tags.simps [simp del]

definition strip_html :: "string \<Rightarrow> string" where
  "strip_html s = strip (drop_tags s)"

definition zap_refs :: "(string \<times> pyval) list \<Rightarrow> string list" where
  "zap_refs alert =
     (case pget alert ''reference'' (PStr []) of
        PStr ref \<Rightarrow>
          if ref \<noteq> []
          then take 5 (List.map strip (List.filter (\<lambda>r. strip r \<noteq> []) (splitlines (strip_html ref))))
          else []
      | _ \<Rightarrow> [])"

definition zap_hints :: "(string \<times> string) list" where
  "zap_hints =
     [(''cross site scripting'', ''xss''), (''sql injection'', ''sql_injection''),
      (''remote os command'', ''command_injection''), (''path traversal'', ''path_traversal''),
      (''remote file inclusion'', ''ssrf''), (''external redirect'', ''open_redirect''),
      (''content security policy'', ''missing_security_header''), (''x-frame-options'', ''clickjacking''),
      (''cookie'', ''insecure_cookie''), (''cors'', ''cors_misconfiguration''),
      (''information disclosure'', ''information_disclosure'')]"

definition zap_guess_class :: "string \<Rightarrow> string" where
  "zap_guess_class name = guess_from zap_hints (lower name)"

definition zap_location :: "Tools \<Rightarrow> string \<Rightarrow> string \<Rightarrow> pyval \<Rightarrow> Location res" where
  "zap_location tools url mth param =
     bind_res (engine_location ''unknown'' (upper mth) (with_scheme url)) (\<lambda>loc.
       Inr (loc\<lparr>loc_parameter := (if truthy param then Some (py_str (tl_float tools) param) else None)\<rparr>))"

text \<open>
  \<open>instances[0] if instances and isinstance(instances[0], dict) else {}\<close>, of a value of any type.
\<close>

definition first_instance :: "pyval \<Rightarrow> (string \<times> pyval) list res" where
  "first_instance v =
     (if \<not> truthy v then Inr []
      else (case v of
              PList (x # xs) \<Rightarrow> Inr (as_dict x)
            | PStr s \<Rightarrow> Inr []
            | PDict d \<Rightarrow> Inl (KeyError ''0'')
            | _ \<Rightarrow> Inl (TypeError ''object is not subscriptable'')))"

definition zap_observation ::
  "Tools \<Rightarrow> string \<Rightarrow> EngineRunRequest \<Rightarrow> (string \<times> pyval) list \<Rightarrow> Observation list res" where
  "zap_observation tools version request alert =
     (let str = py_str (tl_float tools);
          severity = zap_risk (lower (str (pget alert ''riskcode'' (pget alert ''risk'' (PStr ''0'')))));
          confidence = zap_confidence (str (pget alert ''confidence'' (PStr ''1'')))
      in bind_res (zap_cwe tools alert) (\<lambda>cwes.
         (let name = str (por (por (pfield alert ''name'') (pfield alert ''alert'')) (PStr ''ZAP alert''));
              instances = pget alert ''instances'' (PList [])
          in bind_res (first_instance instances) (\<lambda>first.
             (let url = str (por (por (pfield first ''uri'') (pfield alert ''_host'')) (PStr []));
                  mth = str (pget first ''method'' (PStr ''GET''))
              in bind_res (zap_location tools url mth (pfield first ''param'')) (\<lambda>loc.
                 bind_res (py_len instances) (\<lambda>count.
                 bind_res (draft_evidence HTTP_EXCHANGE ''zap''
                     (''ZAP alert '' @ [CHR 0x27] @ name @ [CHR 0x27] @ '' ('' @ severity_value severity @ ''/''
                      @ confidence_value confidence @ '')'')
                     (Some \<lparr>hm_method = Some mth, hm_url = Some url, hm_status = None, hm_headers = [],
                            hm_body = None, hm_body_truncated = False\<rparr>) None
                     (if truthy (pfield first ''evidence'') then [str (pfield first ''evidence'')] else [])
                     [(''pluginid'', pfield alert ''pluginid''), (''count'', PInt count)]) (\<lambda>ev.
                 Inr [(draft_observation request ''zap'' version
                         (str (por (por (pfield alert ''pluginid'') (pfield alert ''alertRef'')) (PStr name)))
                         name (vc_key (classify_cwes cwes (Some (zap_guess_class name)))) severity cwes loc
                         (strip_html (str (pget alert ''desc'' (PStr []))))
                         (strip_html (str (pget alert ''solution'' (PStr [])))) (zap_refs alert) ev None)
                      \<lparr>obs_confidence := confidence\<rparr>]))))))))"

definition zap_normalize ::
  "Tools \<Rightarrow> string \<Rightarrow> (string \<times> pyval) list list \<Rightarrow> EngineRunRequest \<Rightarrow> Observation list res" where
  "zap_normalize tools version records request =
     flat_res (zap_observation tools version request) records"

definition ZapAdapter :: "Tools \<Rightarrow> ContainerEngine" where
  "ZapAdapter tools =
     \<lparr>cn_engine_id = ''zap'', cn_engine_name = ''OWASP ZAP'', cn_vendor = ''OWASP'',
      cn_homepage = ''https://www.zaproxy.org'', cn_license_spdx = ''Apache-2.0'',
      cn_capabilities = [AUDIT_ACTIVE, AUDIT_PASSIVE, CRAWL_HTTP],
      cn_image = ''ghcr.io/zaproxy/zaproxy'', cn_binary = ''zap-baseline.py'', cn_format = ''zap.json'',
      cn_args = zap_args, cn_collect = zap_collect tools, cn_normalize = zap_normalize tools\<rparr>"

subsection \<open>Gitleaks\<close>

definition gitleaks_args :: "EngineRunRequest \<Rightarrow> string list res" where
  "gitleaks_args request = Inr
     [''dir'', ''/work'', ''--report-format'', ''json'', ''--report-path'', ''/out/gitleaks.json'', ''--no-banner'']"

definition dicts_of :: "pyval list \<Rightarrow> (string \<times> pyval) list list" where
  "dicts_of vs = concat (List.map (\<lambda>v. case v of PDict d \<Rightarrow> [d] | _ \<Rightarrow> []) vs)"

definition gitleaks_collect ::
  "Tools \<Rightarrow> SandboxResult option \<Rightarrow> ((string \<times> pyval) list list \<times> nat) res" where
  "gitleaks_collect tools result =
     (let blob = output_blob ''gitleaks.json'' result in
      if blob = [] then Inr ([], 0)
      else bind_res (tl_loads tools (tl_decode tools blob)) (\<lambda>doc. Inr
        (case doc of
           None \<Rightarrow> ([], 1)
         | Some (PList vs) \<Rightarrow> (dicts_of vs, 0)
         | Some (PDict d) \<Rightarrow> ([d], 0)
         | Some _ \<Rightarrow> ([], 0))))"

definition gitleaks_redact :: "string \<Rightarrow> string" where
  "gitleaks_redact value =
     (if length value \<le> 8 then replicate (length value) CHR ''*''
      else take 4 value @ replicate (length value - 8) CHR ''*'' @ drop (length value - 4) value)"

definition gitleaks_observation ::
  "Tools \<Rightarrow> string \<Rightarrow> EngineRunRequest \<Rightarrow> string \<Rightarrow> string \<Rightarrow> (string \<times> pyval) list \<Rightarrow> Observation list res" where
  "gitleaks_observation tools version request key host rec =
     (let str = py_str (tl_float tools);
          rule = str (por (por (pfield rec ''RuleID'') (pfield rec ''Description'')) (PStr ''secret''));
          secret = str (pget rec ''Secret'' (PStr []));
          loc = Location_validate
            \<lparr>loc_scheme = ''https'', loc_host = host, loc_port = 443, loc_path = ''/'', loc_method = Some ''GET'',
             loc_parameter = None, loc_parameter_location = None\<rparr>
      in bind_res (draft_evidence RESPONSE_MATCH ''gitleaks'' (rule @ '' matched (value redacted)'') None None
                     [gitleaks_redact secret] [(''file'', pfield rec ''File''), (''rule'', PStr rule)]) (\<lambda>ev.
         Inr [draft_observation request ''gitleaks'' version (''gitleaks:'' @ rule)
                (''Potential exposed secret: '' @ rule) key HIGH [540, 312] loc
                (''Gitleaks matched rule '' @ [CHR 0x27] @ rule @ [CHR 0x27] @ '' in a served artifact.'')
                ''Remove secrets from client-served content and rotate them.'' [] ev None]))"

definition gitleaks_normalize ::
  "Tools \<Rightarrow> string \<Rightarrow> (string \<times> pyval) list list \<Rightarrow> EngineRunRequest \<Rightarrow> Observation list res" where
  "gitleaks_normalize tools version records request =
     bind_res (class_key ''secret_exposure'') (\<lambda>key.
     bind_res (base_host (rq_seed_urls request)) (\<lambda>host.
       flat_res (gitleaks_observation tools version request key host) records))"

definition GitleaksAdapter :: "Tools \<Rightarrow> ContainerEngine" where
  "GitleaksAdapter tools =
     \<lparr>cn_engine_id = ''gitleaks'', cn_engine_name = ''Gitleaks'', cn_vendor = ''gitleaks'',
      cn_homepage = ''https://github.com/gitleaks/gitleaks'', cn_license_spdx = ''MIT'',
      cn_capabilities = [ANALYSIS_SECRETS],
      cn_image = ''ghcr.io/gitleaks/gitleaks'', cn_binary = ''gitleaks'', cn_format = ''gitleaks.json'',
      cn_args = gitleaks_args, cn_collect = gitleaks_collect tools,
      cn_normalize = gitleaks_normalize tools\<rparr>"

subsection \<open>What they report\<close>

lemma nuclei_observation_ok:
  "nuclei_observation tools version request rec = Inr obs \<Longrightarrow> ob \<in> set obs \<Longrightarrow>
     draft_ok ''nuclei'' version request ob"
  unfolding nuclei_observation_def Let_def bind_res_Inr_iff nuclei_location_def
  by (elim exE conjE)
    (clarsimp, rule draft_ok_made, assumption, erule engine_location_ok(1), simp)

lemma zap_location_ok: "zap_location tools url mth param = Inr l \<Longrightarrow> Location_validate l = l"
proof -
  assume "zap_location tools url mth param = Inr l"
  then obtain l0 where "engine_location ''unknown'' (upper mth) (with_scheme url) = Inr l0"
    and "l = l0\<lparr>loc_parameter := (if truthy param then Some (py_str (tl_float tools) param) else None)\<rparr>"
    by (auto simp: zap_location_def bind_res_Inr_iff)
  moreover from this(1) have "Location_validate l0 = l0" by (rule engine_location_ok(1))
  ultimately show ?thesis by (cases l0) (simp add: Location_validate_def)
qed

lemma zap_confidence_unconfirmed: "zap_confidence s \<noteq> CONFIRMED"
  by (simp add: zap_confidence_def dget_or_def)

lemma zap_observation_ok:
  "zap_observation tools version request rec = Inr obs \<Longrightarrow> ob \<in> set obs \<Longrightarrow>
     draft_ok ''zap'' version request ob"
  unfolding zap_observation_def Let_def bind_res_Inr_iff
  by (elim exE conjE)
    (clarsimp, rule draft_ok_confidence, rule draft_ok_made, assumption, erule zap_location_ok, simp,
      rule zap_confidence_unconfirmed)

lemma gitleaks_observation_ok:
  "gitleaks_observation tools version request ''secret_exposure'' host rec = Inr obs \<Longrightarrow> ob \<in> set obs \<Longrightarrow>
     draft_ok ''gitleaks'' version request ob"
  unfolding gitleaks_observation_def Let_def bind_res_Inr_iff
  by (elim exE conjE) (clarsimp, rule draft_ok_made, assumption, rule Location_validate_idem, simp)

interpretation nuclei: container_engine "NucleiAdapter tools" for tools
  by unfold_locales (auto simp: NucleiAdapter_def nuclei_normalize_def dest!: flat_res_mem nuclei_observation_ok)

interpretation zap: container_engine "ZapAdapter tools" for tools
  by unfold_locales (auto simp: ZapAdapter_def zap_normalize_def dest!: flat_res_mem zap_observation_ok)

interpretation gitleaks: container_engine "GitleaksAdapter tools" for tools
  by unfold_locales
    (auto simp: GitleaksAdapter_def gitleaks_normalize_def bind_res_Inr_iff dest!: flat_res_mem gitleaks_observation_ok)

end
