(* ===== verification/Oss_Discovery.thy ===== *)
theory Oss_Discovery
  imports Oss_Audit
begin

text \<open>
  The adapters of the containerized discovery engines: Katana, ffuf, feroxbuster and httpx
  (\<open>vantage/adapters/oss/katana.py\<close>, \<open>ffuf.py\<close>, \<open>feroxbuster.py\<close>,
  \<open>httpx_engine.py\<close>).
\<close>

subsection \<open>Katana\<close>

definition katana_args :: "Tools \<Rightarrow> EngineRunRequest \<Rightarrow> string list res" where
  "katana_args tools request =
     bind_res (py_int (pget (rq_options request) ''max_depth'' (PInt 3))) (\<lambda>depth. Inr
       ([''-jsonl'', ''-silent'', ''-no-color'']
        @ [''-rate-limit'', rate_arg request]
        @ [''-concurrency'', str_of_int (rq_max_concurrency request)]
        @ [''-depth'', str_of_int depth]
        @ (if truthy (pfield (rq_options request) ''headless'') then [''-headless'', ''-no-sandbox''] else [])
        @ url_args (rq_seed_urls request)
        @ proxy_args ''-proxy'' request))"

definition katana_observation ::
  "string \<Rightarrow> EngineRunRequest \<Rightarrow> string \<Rightarrow> string \<Rightarrow> string \<Rightarrow> Location \<Rightarrow> Observation res" where
  "katana_observation version request key endpoint mth loc =
     bind_res (draft_evidence NOTE ''katana'' (''crawled '' @ mth @ '' '' @ endpoint) None None []
                 [(''url'', PStr endpoint), (''method'', PStr mth)]) (\<lambda>ev.
       Inr (draft_observation request ''katana'' version ''endpoint-discovered''
              (''Endpoint discovered: '' @ loc_path loc) key INFO [] loc (''Katana crawled '' @ endpoint @ ''.'')
              ''Informational; feeds attack-surface inventory.'' [] ev None))"

fun katana_loop ::
  "Tools \<Rightarrow> string \<Rightarrow> EngineRunRequest \<Rightarrow> string \<Rightarrow> string list \<Rightarrow> (string \<times> pyval) list list \<Rightarrow> Observation list res" where
  "katana_loop tools version request key known [] = Inr []"
| "katana_loop tools version request key known (rec # recs) =
     (let str = py_str (tl_float tools);
          req = as_dict (pfield rec ''request'');
          endpoint = str (por (por (pfield req ''endpoint'') (pfield rec ''endpoint'')) (PStr []));
          mth = str (pget req ''method'' (PStr ''GET''))
      in if endpoint = [] \<or> endpoint \<in> set known then katana_loop tools version request key known recs
         else bind_res (engine_location [] (upper mth) endpoint) (\<lambda>loc.
                if loc_host loc = [] then katana_loop tools version request key (endpoint # known) recs
                else bind_res (katana_observation version request key endpoint mth loc) (\<lambda>ob.
                     bind_res (katana_loop tools version request key (endpoint # known) recs) (\<lambda>obs.
                       Inr (ob # obs)))))"

definition katana_normalize ::
  "Tools \<Rightarrow> string \<Rightarrow> (string \<times> pyval) list list \<Rightarrow> EngineRunRequest \<Rightarrow> Observation list res" where
  "katana_normalize tools version records request =
     bind_res (class_key ''information_disclosure'') (\<lambda>key. katana_loop tools version request key [] records)"

definition KatanaAdapter :: "Tools \<Rightarrow> ContainerEngine" where
  "KatanaAdapter tools =
     \<lparr>cn_engine_id = ''katana'', cn_engine_name = ''Katana'', cn_vendor = ''ProjectDiscovery'',
      cn_homepage = ''https://github.com/projectdiscovery/katana'', cn_license_spdx = ''MIT'',
      cn_capabilities = [CRAWL_HTTP, CRAWL_BROWSER, DISCOVERY_JS],
      cn_image = ''ghcr.io/projectdiscovery/katana'', cn_binary = ''katana'', cn_format = ''katana.jsonl'',
      cn_args = katana_args tools, cn_collect = jsonl_collect tools, cn_normalize = katana_normalize tools\<rparr>"

subsection \<open>ffuf\<close>

definition INTERESTING :: "int list" where
  "INTERESTING = [200, 201, 204, 301, 302, 307, 401, 403, 405]"

definition wordlist_of :: "Tools \<Rightarrow> EngineRunRequest \<Rightarrow> string" where
  "wordlist_of tools request =
     py_str (tl_float tools) (pget (rq_options request) ''wordlist'' (PStr ''/wordlists/common.txt''))"

definition ffuf_args :: "Tools \<Rightarrow> EngineRunRequest \<Rightarrow> string list res" where
  "ffuf_args tools request =
     bind_res (first_seed request) (\<lambda>url. Inr
       ([''-u'', rstrip (\<lambda>c. c = CHR ''/'') url @ ''/FUZZ'', ''-w'', wordlist_of tools request,
         ''-of'', ''json'', ''-o'', ''/out/ffuf.json'', ''-rate'', rate_arg request,
         ''-t'', str_of_int (rq_max_concurrency request),
         ''-mc'', join '','' (List.map str_of_int (sort INTERESTING))]
        @ proxy_args ''-x'' request))"

fun only_dicts :: "pyval list \<Rightarrow> (string \<times> pyval) list list \<times> nat" where
  "only_dicts [] = ([], 0)"
| "only_dicts (v # vs) =
     (case only_dicts vs of (records, rejected) \<Rightarrow>
        (case v of PDict d \<Rightarrow> (d # records, rejected) | _ \<Rightarrow> (records, Suc rejected)))"

definition ffuf_collect ::
  "Tools \<Rightarrow> SandboxResult option \<Rightarrow> ((string \<times> pyval) list list \<times> nat) res" where
  "ffuf_collect tools result =
     (let blob = output_blob ''ffuf.json'' result in
      if blob = [] then Inr ([], 0)
      else bind_res (tl_loads tools (tl_decode tools blob)) (\<lambda>doc.
        case doc of
          None \<Rightarrow> Inr ([], 1)
        | Some (PDict d) \<Rightarrow> bind_res (py_iter (pget d ''results'' (PList []))) (\<lambda>rs. Inr (only_dicts rs))
        | Some _ \<Rightarrow> Inr ([], 0)))"

text \<open>
  The body of the loop over the records, which \<open>ffuf.py\<close> and \<open>feroxbuster.py\<close> share up to the name of the
  engine, the host of a URL without one and the field that holds the length.
\<close>

definition resource_observation ::
  "string \<Rightarrow> string \<Rightarrow> string \<Rightarrow> Tools \<Rightarrow> string \<Rightarrow> EngineRunRequest \<Rightarrow> string \<Rightarrow> (string \<times> pyval) list \<Rightarrow>
   Observation list res" where
  "resource_observation engine no_host length_field tools version request key rec =
     (let url = py_str (tl_float tools) (pget rec ''url'' (PStr []))
      in bind_res (py_int (por (pget rec ''status'' (PInt 0)) (PInt 0))) (\<lambda>status.
           if url = [] \<or> status \<notin> set INTERESTING then Inr []
           else bind_res (engine_location no_host ''GET'' url) (\<lambda>loc.
                bind_res (draft_evidence HTTP_EXCHANGE engine (str_of_int status @ '' '' @ url) None None [url]
                            [(''status'', PInt status), (''length'', pfield rec length_field)]) (\<lambda>ev.
                Inr [draft_observation request engine version (''content:'' @ str_of_int status)
                       (''Discovered resource ('' @ str_of_int status @ ''): '' @ loc_path loc) key
                       (if status \<in> {401, 403} then LOW else INFO) [] loc
                       (engine @ '' discovered '' @ url @ '' with status '' @ str_of_int status @ ''.'')
                       ''Review whether this resource should be publicly reachable.'' [] ev None]))))"

definition ffuf_normalize ::
  "Tools \<Rightarrow> string \<Rightarrow> (string \<times> pyval) list list \<Rightarrow> EngineRunRequest \<Rightarrow> Observation list res" where
  "ffuf_normalize tools version records request =
     bind_res (class_key ''information_disclosure'') (\<lambda>key.
       flat_res (resource_observation ''ffuf'' ''unknown'' ''length'' tools version request key) records)"

definition FfufAdapter :: "Tools \<Rightarrow> ContainerEngine" where
  "FfufAdapter tools =
     \<lparr>cn_engine_id = ''ffuf'', cn_engine_name = ''ffuf'', cn_vendor = ''joohoi'',
      cn_homepage = ''https://github.com/ffuf/ffuf'', cn_license_spdx = ''MIT'',
      cn_capabilities = [DISCOVERY_CONTENT],
      cn_image = ''ghcr.io/ffuf/ffuf'', cn_binary = ''ffuf'', cn_format = ''ffuf.json'',
      cn_args = ffuf_args tools, cn_collect = ffuf_collect tools, cn_normalize = ffuf_normalize tools\<rparr>"

subsection \<open>feroxbuster\<close>

definition feroxbuster_args :: "Tools \<Rightarrow> EngineRunRequest \<Rightarrow> string list res" where
  "feroxbuster_args tools request =
     bind_res (first_seed request) (\<lambda>url. Inr
       ([''--silent'', ''--json'', ''--wordlist'', wordlist_of tools request, ''--rate-limit'', rate_arg request,
         ''--threads'', str_of_int (rq_max_concurrency request), ''--url'', url]
        @ proxy_args ''--proxy'' request))"

text \<open>Of the mixed record types only responses are kept; what is not an object is not counted.\<close>

fun feroxbuster_loop ::
  "(string \<Rightarrow> pyval option res) \<Rightarrow> string list \<Rightarrow> ((string \<times> pyval) list list \<times> nat) res" where
  "feroxbuster_loop loads [] = Inr ([], 0)"
| "feroxbuster_loop loads (line # lines) =
     (if strip line = [] then feroxbuster_loop loads lines
      else bind_res (loads (strip line)) (\<lambda>obj.
           bind_res (feroxbuster_loop loads lines) (\<lambda>(records, rejected). Inr
             (case obj of
                None \<Rightarrow> (records, Suc rejected)
              | Some (PDict d) \<Rightarrow>
                  if pfield d ''type'' = PNone \<or> pfield d ''type'' = PStr ''response''
                  then (d # records, rejected) else (records, rejected)
              | Some _ \<Rightarrow> (records, rejected)))))"

definition feroxbuster_collect ::
  "Tools \<Rightarrow> SandboxResult option \<Rightarrow> ((string \<times> pyval) list list \<times> nat) res" where
  "feroxbuster_collect tools result =
     feroxbuster_loop (tl_loads tools) (splitlines (guard_output tools result))"

definition feroxbuster_normalize ::
  "Tools \<Rightarrow> string \<Rightarrow> (string \<times> pyval) list list \<Rightarrow> EngineRunRequest \<Rightarrow> Observation list res" where
  "feroxbuster_normalize tools version records request =
     bind_res (class_key ''information_disclosure'') (\<lambda>key.
       flat_res (resource_observation ''feroxbuster'' [] ''content_length'' tools version request key) records)"

definition FeroxbusterAdapter :: "Tools \<Rightarrow> ContainerEngine" where
  "FeroxbusterAdapter tools =
     \<lparr>cn_engine_id = ''feroxbuster'', cn_engine_name = ''feroxbuster'', cn_vendor = ''epi052'',
      cn_homepage = ''https://github.com/epi052/feroxbuster'', cn_license_spdx = ''MIT'',
      cn_capabilities = [DISCOVERY_CONTENT],
      cn_image = ''ghcr.io/epi052/feroxbuster'', cn_binary = ''feroxbuster'', cn_format = ''feroxbuster.jsonl'',
      cn_args = feroxbuster_args tools, cn_collect = feroxbuster_collect tools,
      cn_normalize = feroxbuster_normalize tools\<rparr>"

subsection \<open>httpx\<close>

definition httpx_args :: "EngineRunRequest \<Rightarrow> string list res" where
  "httpx_args request = Inr
     ([''-json'', ''-silent'', ''-no-color'', ''-tech-detect'', ''-title'', ''-status-code'']
      @ [''-rate-limit'', rate_arg request]
      @ [''-threads'', str_of_int (rq_max_concurrency request)]
      @ url_args (rq_seed_urls request))"

definition httpx_technology ::
  "string \<Rightarrow> EngineRunRequest \<Rightarrow> string \<Rightarrow> Location \<Rightarrow> string \<Rightarrow> pyval \<Rightarrow> string \<Rightarrow> Observation list res" where
  "httpx_technology version request key loc url status tech =
     bind_res (draft_evidence RESPONSE_MATCH ''httpx'' (tech @ '' at '' @ url) None None [tech]
                 [(''technology'', PStr tech), (''status'', status)]) (\<lambda>ev.
       Inr [draft_observation request ''httpx'' version (''tech:'' @ tech) (''Technology detected: '' @ tech)
              key INFO [200] loc (''httpx fingerprinted '' @ tech @ '' at '' @ url @ ''.'')
              ''Informational technology inventory.'' [] ev None])"

definition httpx_observation ::
  "Tools \<Rightarrow> string \<Rightarrow> EngineRunRequest \<Rightarrow> string \<Rightarrow> (string \<times> pyval) list \<Rightarrow> Observation list res" where
  "httpx_observation tools version request key rec =
     (let str = py_str (tl_float tools);
          url = str (por (por (pfield rec ''url'') (pfield rec ''input'')) (PStr []))
      in if url = [] then Inr []
         else bind_res (engine_location [] ''GET'' url) (\<lambda>loc.
           (let techs = por (por (pfield rec ''tech'') (pfield rec ''technologies'')) (PList []);
                tech_list = (case techs of PList ts \<Rightarrow> List.map str ts | _ \<Rightarrow> [])
            in flat_res (httpx_technology version request key loc url (pfield rec ''status_code'')) tech_list)))"

definition httpx_normalize ::
  "Tools \<Rightarrow> string \<Rightarrow> (string \<times> pyval) list list \<Rightarrow> EngineRunRequest \<Rightarrow> Observation list res" where
  "httpx_normalize tools version records request =
     bind_res (class_key ''information_disclosure'') (\<lambda>key.
       flat_res (httpx_observation tools version request key) records)"

definition HttpxAdapter :: "Tools \<Rightarrow> ContainerEngine" where
  "HttpxAdapter tools =
     \<lparr>cn_engine_id = ''httpx'', cn_engine_name = ''httpx'', cn_vendor = ''ProjectDiscovery'',
      cn_homepage = ''https://github.com/projectdiscovery/httpx'', cn_license_spdx = ''MIT'',
      cn_capabilities = [RECON_HTTP, FINGERPRINT_TECH],
      cn_image = ''ghcr.io/projectdiscovery/httpx'', cn_binary = ''httpx'', cn_format = ''httpx.jsonl'',
      cn_args = httpx_args, cn_collect = jsonl_collect tools, cn_normalize = httpx_normalize tools\<rparr>"

subsection \<open>What they report\<close>

lemma katana_observation_ok:
  "katana_observation version request ''information_disclosure'' endpoint mth loc = Inr ob \<Longrightarrow>
     Location_validate loc = loc \<Longrightarrow> draft_ok ''katana'' version request ob"
  unfolding katana_observation_def bind_res_Inr_iff
  by (elim exE conjE) (clarsimp, rule draft_ok_made, assumption, assumption, simp)

lemma katana_loop_step:
  assumes "katana_loop tools version request key known (rec # recs) = Inr obs"
  obtains known' where "katana_loop tools version request key known' recs = Inr obs"
  | known' endpoint mth loc ob obs' where "katana_observation version request key endpoint mth loc = Inr ob"
      "engine_location [] (upper mth) endpoint = Inr loc"
      "katana_loop tools version request key known' recs = Inr obs'" "obs = ob # obs'"
  using assms unfolding katana_loop.simps Let_def
  by (split if_split_asm)
    (blast, unfold bind_res_Inr_iff, elim exE conjE, split if_split_asm, blast,
      unfold bind_res_Inr_iff sum.inject, elim exE conjE, metis)

lemma katana_loop_ok:
  "katana_loop tools version request ''information_disclosure'' known recs = Inr obs \<Longrightarrow> ob \<in> set obs \<Longrightarrow>
     draft_ok ''katana'' version request ob"
proof (induction recs arbitrary: known obs)
  case (Cons rec recs)
  from Cons.prems(1) show ?case
  proof (cases rule: katana_loop_step)
    case 1
    then show ?thesis using Cons.IH Cons.prems(2) by blast
  next
    case (2 known' endpoint mth loc ob' obs')
    then show ?thesis using Cons.IH Cons.prems(2) katana_observation_ok engine_location_ok(1)
      by (metis set_ConsD)
  qed
qed simp

lemma resource_observation_ok:
  "resource_observation eid no_host len tools version request ''information_disclosure'' rec = Inr obs \<Longrightarrow>
     ob \<in> set obs \<Longrightarrow> draft_ok eid version request ob"
  unfolding resource_observation_def Let_def bind_res_Inr_iff
  by (elim exE conjE)
    (clarsimp split: if_splits simp: bind_res_Inr_iff, (rule draft_ok_made, assumption, erule engine_location_ok(1), simp)+)

lemma httpx_technology_ok:
  "httpx_technology version request ''information_disclosure'' loc url status tech = Inr obs \<Longrightarrow> ob \<in> set obs \<Longrightarrow>
     Location_validate loc = loc \<Longrightarrow> draft_ok ''httpx'' version request ob"
  unfolding httpx_technology_def bind_res_Inr_iff
  by (elim exE conjE) (clarsimp, rule draft_ok_made, assumption, assumption, simp)

lemma httpx_observation_ok:
  "httpx_observation tools version request ''information_disclosure'' rec = Inr obs \<Longrightarrow> ob \<in> set obs \<Longrightarrow>
     draft_ok ''httpx'' version request ob"
  by (auto simp: httpx_observation_def Let_def bind_res_Inr_iff split: if_splits
      dest!: flat_res_mem dest: httpx_technology_ok engine_location_ok(1))

interpretation katana: container_engine "KatanaAdapter tools" for tools
  by unfold_locales (auto simp: KatanaAdapter_def katana_normalize_def dest: katana_loop_ok)

interpretation ffuf: container_engine "FfufAdapter tools" for tools
  by unfold_locales (auto simp: FfufAdapter_def ffuf_normalize_def dest!: flat_res_mem resource_observation_ok)

interpretation feroxbuster: container_engine "FeroxbusterAdapter tools" for tools
  by unfold_locales
    (auto simp: FeroxbusterAdapter_def feroxbuster_normalize_def dest!: flat_res_mem resource_observation_ok)

interpretation httpx: container_engine "HttpxAdapter tools" for tools
  by unfold_locales (auto simp: HttpxAdapter_def httpx_normalize_def dest!: flat_res_mem httpx_observation_ok)

end
