(* ===== verification/Oss_Recon.thy ===== *)
theory Oss_Recon
  imports Oss_Discovery
begin

text \<open>
  The recon tools subfinder, dnsx and tlsx (\<open>vantage/adapters/oss/recon.py\<close>), and the table of all
  containerized engines.
\<close>

text \<open>\<open>Location(scheme="https", host=..., port=..., path="/")\<close>.\<close>

definition recon_location :: "string \<Rightarrow> int \<Rightarrow> Location" where
  "recon_location host port =
     Location_validate
       \<lparr>loc_scheme = ''https'', loc_host = host, loc_port = port, loc_path = ''/'', loc_method = None,
        loc_parameter = None, loc_parameter_location = None\<rparr>"

subsection \<open>subfinder\<close>

definition subfinder_args :: "EngineRunRequest \<Rightarrow> string list res" where
  "subfinder_args request =
     bind_res (base_host (rq_seed_urls request)) (\<lambda>host. Inr [''-oJ'', ''-silent'', ''-d'', host])"

definition subfinder_observation ::
  "Tools \<Rightarrow> string \<Rightarrow> EngineRunRequest \<Rightarrow> string \<Rightarrow> (string \<times> pyval) list \<Rightarrow> Observation list res" where
  "subfinder_observation tools version request key rec =
     (let host = py_str (tl_float tools) (por (por (pfield rec ''host'') (pfield rec ''input'')) (PStr []))
      in if host = [] then Inr []
         else bind_res (draft_evidence NOTE ''subfinder'' (''subdomain '' @ host) None None []
                          [(''host'', PStr host), (''source'', pfield rec ''source'')]) (\<lambda>ev.
           Inr [draft_observation request ''subfinder'' version ''subdomain'' (''Subdomain discovered: '' @ host)
                  key INFO [] (recon_location host 443)
                  (''Passive enumeration found subdomain '' @ host @ ''.'')
                  ''Informational; confirm ownership and scope before testing.'' [] ev None]))"

definition subfinder_normalize ::
  "Tools \<Rightarrow> string \<Rightarrow> (string \<times> pyval) list list \<Rightarrow> EngineRunRequest \<Rightarrow> Observation list res" where
  "subfinder_normalize tools version records request =
     bind_res (class_key ''information_disclosure'') (\<lambda>key.
       flat_res (subfinder_observation tools version request key) records)"

definition SubfinderAdapter :: "Tools \<Rightarrow> ContainerEngine" where
  "SubfinderAdapter tools =
     \<lparr>cn_engine_id = ''subfinder'', cn_engine_name = ''subfinder'', cn_vendor = ''ProjectDiscovery'',
      cn_homepage = ''https://github.com/projectdiscovery/subfinder'', cn_license_spdx = ''MIT'',
      cn_capabilities = [DISCOVERY_SUBDOMAIN],
      cn_image = ''ghcr.io/projectdiscovery/subfinder'', cn_binary = ''subfinder'', cn_format = ''jsonl'',
      cn_args = subfinder_args, cn_collect = jsonl_collect tools, cn_normalize = subfinder_normalize tools\<rparr>"

subsection \<open>dnsx\<close>

definition dnsx_args :: "EngineRunRequest \<Rightarrow> string list res" where
  "dnsx_args request =
     bind_res (base_host (rq_seed_urls request)) (\<lambda>host.
       Inr [''-json'', ''-silent'', ''-a'', ''-aaaa'', ''-cname'', ''-d'', host])"

definition dnsx_observation ::
  "Tools \<Rightarrow> string \<Rightarrow> EngineRunRequest \<Rightarrow> string \<Rightarrow> (string \<times> pyval) list \<Rightarrow> Observation list res" where
  "dnsx_observation tools version request key rec =
     (let host = py_str (tl_float tools) (pget rec ''host'' (PStr []));
          summary = List.map (\<lambda>k. (k, pfield rec k))
            (List.filter (\<lambda>k. truthy (pfield rec k)) [''a'', ''aaaa'', ''cname''])
      in if host = [] then Inr []
         else bind_res (draft_evidence NOTE ''dnsx'' (''DNS '' @ host) None None [] summary) (\<lambda>ev.
           Inr [draft_observation request ''dnsx'' version ''dns-record'' (''DNS records for '' @ host)
                  key INFO [] (recon_location host 443) (''Resolved DNS records for '' @ host @ ''.'')
                  ''Informational; feeds attack-surface inventory.'' [] ev None]))"

definition dnsx_normalize ::
  "Tools \<Rightarrow> string \<Rightarrow> (string \<times> pyval) list list \<Rightarrow> EngineRunRequest \<Rightarrow> Observation list res" where
  "dnsx_normalize tools version records request =
     bind_res (class_key ''information_disclosure'') (\<lambda>key.
       flat_res (dnsx_observation tools version request key) records)"

definition DnsxAdapter :: "Tools \<Rightarrow> ContainerEngine" where
  "DnsxAdapter tools =
     \<lparr>cn_engine_id = ''dnsx'', cn_engine_name = ''dnsx'', cn_vendor = ''ProjectDiscovery'',
      cn_homepage = ''https://github.com/projectdiscovery/dnsx'', cn_license_spdx = ''MIT'',
      cn_capabilities = [ANALYSIS_DNS],
      cn_image = ''ghcr.io/projectdiscovery/dnsx'', cn_binary = ''dnsx'', cn_format = ''jsonl'',
      cn_args = dnsx_args, cn_collect = jsonl_collect tools, cn_normalize = dnsx_normalize tools\<rparr>"

subsection \<open>tlsx\<close>

definition tlsx_args :: "EngineRunRequest \<Rightarrow> string list res" where
  "tlsx_args request =
     bind_res (base_host (rq_seed_urls request)) (\<lambda>host.
       Inr [''-json'', ''-silent'', ''-expired'', ''-self-signed'', ''-u'', host])"

definition OBSOLETE_TLS :: "string list" where
  "OBSOLETE_TLS = [''SSL30'', ''TLS10'', ''TLS11'', ''SSLV3'', ''TLSV1'', ''TLSV1.1'']"

definition tls_obs ::
  "string \<Rightarrow> EngineRunRequest \<Rightarrow> Location \<Rightarrow> (string \<times> pyval) list \<Rightarrow> string \<times> string \<times> Severity \<times> string \<Rightarrow>
   Observation list res" where
  "tls_obs version request loc rec d =
     (case d of (det, title, sev, desc) \<Rightarrow>
        bind_res (draft_evidence TLS_OBSERVATION ''tlsx'' title None None []
                    [(''tls_version'', pfield rec ''tls_version''), (''cipher'', pfield rec ''cipher'')]) (\<lambda>ev.
          Inr [draft_observation request ''tlsx'' version det title ''tls_weakness'' sev [295, 326] loc desc
                 ''Use a valid CA-issued certificate and disable obsolete protocols.'' [] ev None]))"

definition tlsx_observation ::
  "Tools \<Rightarrow> string \<Rightarrow> EngineRunRequest \<Rightarrow> (string \<times> pyval) list \<Rightarrow> Observation list res" where
  "tlsx_observation tools version request rec =
     (let host = py_str (tl_float tools) (pget rec ''host'' (PStr []))
      in bind_res (py_int (por (pget rec ''port'' (PInt 443)) (PInt 443))) (\<lambda>port.
           (let loc = recon_location (sor host ''unknown'') port;
                protocol = upper (py_str (tl_float tools) (pget rec ''tls_version'' (PStr [])))
            in flat_res (tls_obs version request loc rec)
                 ((if truthy (pfield rec ''expired'')
                   then [(''cert-expired'', ''TLS certificate expired'', HIGH, ''The certificate is expired.'')] else [])
                  @ (if truthy (pfield rec ''self_signed'')
                     then [(''cert-self-signed'', ''Self-signed TLS certificate'', MEDIUM,
                            ''The certificate is self-signed.'')] else [])
                  @ (if protocol \<in> set OBSOLETE_TLS
                     then [(''weak-protocol:'' @ protocol, ''Obsolete TLS protocol: '' @ protocol, MEDIUM,
                            ''Server negotiated '' @ protocol @ ''.'')] else [])))))"

definition tlsx_normalize ::
  "Tools \<Rightarrow> string \<Rightarrow> (string \<times> pyval) list list \<Rightarrow> EngineRunRequest \<Rightarrow> Observation list res" where
  "tlsx_normalize tools version records request =
     flat_res (tlsx_observation tools version request) records"

definition TlsxAdapter :: "Tools \<Rightarrow> ContainerEngine" where
  "TlsxAdapter tools =
     \<lparr>cn_engine_id = ''tlsx'', cn_engine_name = ''tlsx'', cn_vendor = ''ProjectDiscovery'',
      cn_homepage = ''https://github.com/projectdiscovery/tlsx'', cn_license_spdx = ''MIT'',
      cn_capabilities = [ANALYSIS_TLS],
      cn_image = ''ghcr.io/projectdiscovery/tlsx'', cn_binary = ''tlsx'', cn_format = ''jsonl'',
      cn_args = tlsx_args, cn_collect = jsonl_collect tools, cn_normalize = tlsx_normalize tools\<rparr>"

subsection \<open>All of them\<close>

definition oss_engines :: "Tools \<Rightarrow> ContainerEngine list" where
  "oss_engines tools =
     [NucleiAdapter tools, ZapAdapter tools, GitleaksAdapter tools, KatanaAdapter tools, FfufAdapter tools,
      FeroxbusterAdapter tools, HttpxAdapter tools, SubfinderAdapter tools, DnsxAdapter tools,
      TlsxAdapter tools]"

subsection \<open>What they report\<close>

lemma recon_location_ok: "Location_validate (recon_location host port) = recon_location host port"
  by (simp add: recon_location_def Location_validate_idem)

lemma subfinder_observation_ok:
  "subfinder_observation tools version request ''information_disclosure'' rec = Inr obs \<Longrightarrow> ob \<in> set obs \<Longrightarrow>
     draft_ok ''subfinder'' version request ob"
  by (clarsimp simp: subfinder_observation_def Let_def bind_res_Inr_iff split: if_splits)
    (rule draft_ok_made, assumption, rule recon_location_ok, simp)

lemma dnsx_observation_ok:
  "dnsx_observation tools version request ''information_disclosure'' rec = Inr obs \<Longrightarrow> ob \<in> set obs \<Longrightarrow>
     draft_ok ''dnsx'' version request ob"
  unfolding dnsx_observation_def Let_def
  by (clarsimp simp: bind_res_Inr_iff split: if_split_asm simp del: filter.simps)
    (rule draft_ok_made, assumption, rule recon_location_ok, simp)

lemma tls_obs_ok:
  "tls_obs version request (recon_location host port) rec d = Inr obs \<Longrightarrow> ob \<in> set obs \<Longrightarrow>
     draft_ok ''tlsx'' version request ob"
  by (clarsimp simp: tls_obs_def bind_res_Inr_iff split: prod.splits)
    (rule draft_ok_made, assumption, rule recon_location_ok, simp)

lemma tlsx_observation_ok:
  assumes "tlsx_observation tools version request rec = Inr obs" and "ob \<in> set obs"
  shows "draft_ok ''tlsx'' version request ob"
proof -
  from assms(1) obtain host port ds where "flat_res (tls_obs version request (recon_location host port) rec) ds = Inr obs"
    unfolding tlsx_observation_def Let_def bind_res_Inr_iff by blast
  from flat_res_mem [OF this assms(2)] show ?thesis by (blast intro: tls_obs_ok)
qed

interpretation subfinder: container_engine "SubfinderAdapter tools" for tools
  by unfold_locales
    (auto simp: SubfinderAdapter_def subfinder_normalize_def dest!: flat_res_mem subfinder_observation_ok)

interpretation dnsx: container_engine "DnsxAdapter tools" for tools
  by unfold_locales (auto simp: DnsxAdapter_def dnsx_normalize_def dest!: flat_res_mem dnsx_observation_ok)

interpretation tlsx: container_engine "TlsxAdapter tools" for tools
  by unfold_locales (auto simp: TlsxAdapter_def tlsx_normalize_def dest!: flat_res_mem tlsx_observation_ok)

end
