(* ===== verification/Oss_Laws.thy ===== *)
theory Oss_Laws
  imports Oss_Recon
begin

text \<open>
  What the containerized engines guarantee together with the orchestrator and the sandbox runner:
  observations are attributed and never confirmed, the output is accounted for line by line, the
  command line is bound by the request, and a record that cannot be normalized costs its engine all others.
\<close>

subsection \<open>Observations\<close>

lemma oss_contract: "e \<in> set (oss_engines tools) \<Longrightarrow> container_engine e"
  using nuclei.container_engine_axioms zap.container_engine_axioms gitleaks.container_engine_axioms
    katana.container_engine_axioms ffuf.container_engine_axioms feroxbuster.container_engine_axioms
    httpx.container_engine_axioms subfinder.container_engine_axioms dnsx.container_engine_axioms
    tlsx.container_engine_axioms
  unfolding oss_engines_def by auto

text \<open>
  C15: whatever a containerized engine prints, an observation made of it carries the identifiers of the
  request, the engine and its version, is never CONFIRMED, has a normalized host and method, the
  class correlation derives from its CWE numbers, and one piece of evidence of the engine whose
  summary is within the limit of the model.
\<close>

theorem oss_observations_typed:
  assumes "ca_engine a \<in> set (oss_engines tools)"
    and "engine_calls (container_adapter ids tms now a) request = Inr (Some obs)" and "ob \<in> set obs"
  shows "obs_scan_id ob = rq_scan_id request \<and> obs_run_id ob = rq_run_id request \<and>
    obs_engine_id ob = cn_engine_id (ca_engine a) \<and> obs_engine_version ob = ca_version a \<and>
    obs_confidence ob \<noteq> CONFIRMED \<and> Location_validate (obs_location ob) = obs_location ob \<and>
    vc_key (obs_class ob) = obs_vuln_class ob \<and>
    (\<exists>ev. obs_evidence ob = [ev] \<and> ev_engine_id ev = cn_engine_id (ca_engine a) \<and>
       length (ev_summary ev) \<le> MAX_SUMMARY)"
proof -
  have "draft_ok (cn_engine_id (ca_engine a)) (ca_version a) request ob"
    by (rule container_engine.run_ok [OF oss_contract [OF assms(1)] refl assms(2,3)])
  then show ?thesis by (auto simp: draft_ok_def summary_ok_def length_Suc_conv)
qed

subsection \<open>Accounting for the lines\<close>

definition line_records :: "Tools \<Rightarrow> string \<Rightarrow> (string \<times> pyval) list list" where
  "line_records tools line =
     (case tl_loads tools (strip line) of Inr (Some (PDict d)) \<Rightarrow> [d] | _ \<Rightarrow> [])"

definition full_lines :: "string \<Rightarrow> string list" where
  "full_lines s = List.filter (\<lambda>line. strip line \<noteq> []) (splitlines s)"

lemma jsonl_loop_accounts:
  "list_all (\<lambda>line. \<exists>v. tl_loads tools (strip line) = Inr v) (List.filter (\<lambda>line. strip line \<noteq> []) lines) \<Longrightarrow>
     \<exists>records rejected. jsonl_loop (tl_loads tools) lines = Inr (records, rejected) \<and>
       records = concat (List.map (line_records tools) (List.filter (\<lambda>line. strip line \<noteq> []) lines)) \<and>
       length records + rejected = length (List.filter (\<lambda>line. strip line \<noteq> []) lines)"
proof (induction lines)
  case (Cons line lines)
  show ?case
  proof (cases "strip line = []")
    case False
    with Cons obtain v records rejected where "tl_loads tools (strip line) = Inr v"
      "jsonl_loop (tl_loads tools) lines = Inr (records, rejected)"
      "records = concat (List.map (line_records tools) (List.filter (\<lambda>line. strip line \<noteq> []) lines))"
      "length records + rejected = length (List.filter (\<lambda>line. strip line \<noteq> []) lines)" by auto
    moreover from this(1) have "line_records tools line = (case v of Some (PDict d) \<Rightarrow> [d] | _ \<Rightarrow> [])"
      by (simp add: line_records_def)
    ultimately show ?thesis using False by (cases v; cases "the v") simp_all
  qed (use Cons in simp)
qed simp

text \<open>
  C39: reading the output of an engine that prints one JSON object per line loses nothing silently: when
  \<open>json.loads\<close> answers every line, the records are the objects of the lines that are not blank,
  in order, and each other such line is counted as rejected.
\<close>

theorem jsonl_accounts:
  assumes "list_all (\<lambda>line. \<exists>v. tl_loads tools (strip line) = Inr v) (full_lines s)"
  shows "\<exists>records rejected. parse_jsonl tools s = Inr (records, rejected) \<and>
    records = concat (List.map (line_records tools) (full_lines s)) \<and>
    length records + rejected = length (full_lines s)"
  using jsonl_loop_accounts [of tools "splitlines s"] assms by (simp add: parse_jsonl_def full_lines_def)

subsection \<open>The command line of a run\<close>

lemma int_trunc_pos: "0 < q \<Longrightarrow> int_trunc q = \<lfloor>q\<rfloor>"
  by (simp add: int_trunc_def)

text \<open>
  C17: the Docker command of a Nuclei run of the orchestrator is fixed up to the seeds and the rate
  envelope of the target: a hardened container on the egress network without environment, the image
  of the adapter, the machine-readable output flags, the rate rounded down, the concurrency, and each
  seed once, in order; there is no proxy and no tag selection.
\<close>

theorem nuclei_command_line:
  assumes "run_request rid scan target (container_metadata a) capabilities seeds = Inr request"
    and "ca_engine a = NucleiAdapter tools"
  shows "\<exists>prepared spec. container_prepare a request = Inr prepared \<and> ct_spec prepared = Some spec \<and>
    build_argv float_str docker spec =
      [docker] @ hardening float_str spec @
      [''--network'', ''vantage-egress'', ''ghcr.io/projectdiscovery/nuclei'',
       ''-jsonl'', ''-silent'', ''-no-color'', ''-duc'',
       ''-rate-limit'', str_of_int \<lfloor>rl_max_requests_per_second (t_rate_limits target)\<rfloor>,
       ''-c'', str_of_int (rl_max_concurrency (t_rate_limits target))] @
      concat (List.map (\<lambda>url. [''-u'', url]) seeds)"
proof -
  from assms(1) have "rq_seed_urls request = seeds" "rq_options request = []" "rq_proxy_url request = None"
    "rq_max_concurrency request = rl_max_concurrency (t_rate_limits target)"
    "rq_max_requests_per_second request = rl_max_requests_per_second (t_rate_limits target)"
    "0 < rl_max_requests_per_second (t_rate_limits target)"
    by (auto simp: run_request_def Let_def EngineRunRequest_ok_def split: if_splits)
  with assms(2) show ?thesis
    by (simp add: container_prepare_def NucleiAdapter_def nuclei_args_def base_spec_def ContainerSpec_init_def
        build_argv_def rate_arg_def int_trunc_pos pfield_def pget_def tag_args_def url_args_def proxy_args_def
        osor_def)
qed

subsection \<open>All or nothing\<close>

lemma nuclei_observation_single:
  "nuclei_observation tools version request rec = Inr obs \<Longrightarrow> \<exists>ob. obs = [ob]"
  unfolding nuclei_observation_def Let_def bind_res_Inr_iff by blast

lemma nuclei_normalize_records:
  assumes "nuclei_normalize tools version records request = Inr drafts"
  shows "list_all2 (\<lambda>rec ob. nuclei_observation tools version request rec = Inr [ob]) records drafts"
  using assms
proof (induction records arbitrary: drafts)
  case (Cons rec records)
  then obtain ob obs where "nuclei_observation tools version request rec = Inr [ob]"
    "nuclei_normalize tools version records request = Inr obs" "drafts = ob # obs"
    by (fastforce simp: nuclei_normalize_def bind_res_Inr_iff dest: nuclei_observation_single)
  with Cons.IH show ?case by simp
qed (simp add: nuclei_normalize_def)

text \<open>What the orchestrator's calls of a containerized engine amount to.\<close>

lemma container_engine_calls:
  assumes "sb_available (ca_runner a)" and "cn_args (ca_engine a) request = Inr args"
    and "sb_run (ca_runner a) (base_spec a args) = Inr result"
    and "cn_collect (ca_engine a) (Some result) = Inr (records, rejected)"
  shows "engine_calls (container_adapter ids tms now a) request =
    bind_res (cn_normalize (ca_engine a) (ca_version a) records request) (\<lambda>drafts.
      Inr (Some (List.map (\<lambda>(n, ob). stamp_observation ids tms n ob) (enumerate 0 drafts))))"
  using assms
  by (simp add: engine_calls_def container_adapter_def container_health_def container_prepare_def
      container_execute_def container_collect_def container_normalize_def bind_res_def split: sum.splits)

text \<open>
  C16: a Nuclei run yields exactly one observation for each record of its output, in order, or, when a
  single record cannot be normalized, none at all: the orchestrator discards the whole run and goes on.
\<close>

theorem nuclei_all_or_nothing:
  assumes "ca_engine a = NucleiAdapter tools" and "sb_available (ca_runner a)"
    and "run_request rid scan target (container_metadata a) capabilities seeds = Inr request"
    and "\<And>spec. sb_run (ca_runner a) spec = Inr result" and "\<not> sx_timed_out result"
    and "parse_jsonl tools (tl_decode tools (sx_stdout result)) = Inr (records, rejected)"
  shows "if \<exists>rec \<in> set records. \<exists>ex. nuclei_observation tools (ca_version a) request rec = Inl ex
    then run_engine rid scan target (container_adapter ids tms now a) capabilities seeds kb = Inr ([], kb)
    else \<exists>obs. list_all2 (\<lambda>rec ob. \<exists>d n. nuclei_observation tools (ca_version a) request rec = Inr [d] \<and>
                              ob = stamp_observation ids tms n d) records obs \<and>
      run_engine rid scan target (container_adapter ids tms now a) capabilities seeds kb =
        Inr (obs, mark_observations obs kb)"
proof -
  obtain args where args: "cn_args (ca_engine a) request = Inr args"
    by (simp add: assms(1) NucleiAdapter_def nuclei_args_def)
  have "cn_collect (ca_engine a) (Some result) = Inr (records, rejected)"
    using assms(1,5,6) by (simp add: NucleiAdapter_def jsonl_collect_def guard_output_def)
  note calls = container_engine_calls [OF assms(2) args assms(4) this, of ids tms now]
  have norm: "cn_normalize (ca_engine a) = nuclei_normalize tools" by (simp add: assms(1) NucleiAdapter_def)
  have meta: "ad_metadata (container_adapter ids tms now a) = container_metadata a"
    by (simp add: container_adapter_def)
  show ?thesis
  proof (cases "nuclei_normalize tools (ca_version a) records request")
    case (Inl ex)
    then have "\<exists>rec \<in> set records. \<exists>ex. nuclei_observation tools (ca_version a) request rec = Inl ex"
      unfolding flat_res_Inl_iff [symmetric] nuclei_normalize_def by blast
    then show ?thesis using assms(3) by (simp add: run_engine_def meta calls norm Inl)
  next
    case (Inr drafts)
    define obs where "obs = List.map (\<lambda>(n, ob). stamp_observation ids tms n ob) (enumerate 0 drafts)"
    have "\<not> (\<exists>rec \<in> set records. \<exists>ex. nuclei_observation tools (ca_version a) request rec = Inl ex)"
      using Inr unfolding flat_res_Inl_iff [symmetric] nuclei_normalize_def by simp
    moreover have "list_all2 (\<lambda>rec ob. \<exists>d n. nuclei_observation tools (ca_version a) request rec = Inr [d] \<and>
        ob = stamp_observation ids tms n d) records obs"
      using nuclei_normalize_records [OF Inr] unfolding obs_def list_all2_conv_all_nth
      by (auto simp: nth_enumerate_eq)
    ultimately show ?thesis using assms(3) by (simp add: run_engine_def meta calls norm Inr obs_def)
  qed
qed

subsection \<open>Texts of reports\<close>

text \<open>A text has a tag when it reads \<open><\<close>, at least one other character, \<open>>\<close> somewhere.\<close>

definition has_tag :: "string \<Rightarrow> bool" where
  "has_tag s \<longleftrightarrow> (\<exists>a b c. s = a @ CHR ''<'' # b @ CHR ''>'' # c \<and> CHR ''>'' \<notin> set b \<and> b \<noteq> [])"

lemma drop_tags_Nil [simp]: "drop_tags [] = []"
  by (simp add: drop_tags.simps)

lemma drop_tags_Cons:
  "drop_tags (x # cs) =
     (if x = CHR ''<'' \<and> takeWhile (\<lambda>c. c \<noteq> CHR ''>'') cs \<noteq> [] \<and> dropWhile (\<lambda>c. c \<noteq> CHR ''>'') cs \<noteq> []
      then drop_tags (tl (dropWhile (\<lambda>c. c \<noteq> CHR ''>'') cs)) else x # drop_tags cs)"
  by (subst drop_tags.simps) (simp only: list.case Let_def)

lemma tl_dropWhile_subset: "set (tl (dropWhile P cs)) \<subseteq> set cs"
  by (metis list.sel(2) list.set_sel(2) set_dropWhileD subsetI)

lemma length_tl_dropWhile: "length (tl (dropWhile P cs)) \<le> length cs"
  using length_dropWhile_le [of P cs] by simp

lemma drop_tags_induct [case_names Nil Cons]:
  assumes "Q []" and "\<And>x cs. Q (tl (dropWhile (\<lambda>c. c \<noteq> CHR ''>'') cs)) \<Longrightarrow> Q cs \<Longrightarrow> Q (x # cs)"
  shows "Q s"
proof (induction s rule: length_induct)
  case (1 s)
  show ?case
  proof (cases s)
    case (Cons x cs)
    have "Q (tl (dropWhile (\<lambda>c. c \<noteq> CHR ''>'') cs))"
      using 1 length_tl_dropWhile [of "\<lambda>c. c \<noteq> CHR ''>''" cs] unfolding Cons
      by (metis le_imp_less_Suc length_Cons)
    moreover have "Q cs" using 1 unfolding Cons by simp
    ultimately show ?thesis unfolding Cons by (rule assms(2))
  qed (simp add: assms(1))
qed

lemma drop_tags_subset: "set (drop_tags s) \<subseteq> set s"
proof (induction s rule: drop_tags_induct)
  case (Cons x cs)
  have "set (drop_tags (x # cs)) \<subseteq> insert x (set (tl (dropWhile (\<lambda>c. c \<noteq> CHR ''>'') cs)) \<union> set cs)"
    using Cons unfolding drop_tags_Cons by (split if_split) auto
  then show ?case using tl_dropWhile_subset [of "\<lambda>c. c \<noteq> CHR ''>''" cs] by auto
qed simp

lemma has_tag_Cons:
  "has_tag (x # s) \<longleftrightarrow> has_tag s \<or> (x = CHR ''<'' \<and> (\<exists>b c. s = b @ CHR ''>'' # c \<and> CHR ''>'' \<notin> set b \<and> b \<noteq> []))"
  unfolding has_tag_def by (rule iffI) (auto simp: Cons_eq_append_conv, metis append_Cons)

lemma drop_tags_clean: "\<not> has_tag (drop_tags s)"
proof (induction s rule: drop_tags_induct)
  case Nil
  then show ?case by (simp add: has_tag_def)
next
  case (Cons x cs)
  let ?tag = "x = CHR ''<'' \<and> takeWhile (\<lambda>c. c \<noteq> CHR ''>'') cs \<noteq> [] \<and> dropWhile (\<lambda>c. c \<noteq> CHR ''>'') cs \<noteq> []"
  show ?case
  proof (cases ?tag)
    case False
    then have d: "drop_tags (x # cs) = x # drop_tags cs" by (simp only: drop_tags_Cons if_False)
    have "b = []" if "x = CHR ''<''" "drop_tags cs = b @ CHR ''>'' # c" "CHR ''>'' \<notin> set b" for b c
    proof -
      have gt: "CHR ''>'' \<in> set cs" using drop_tags_subset [of cs] that(2) by auto
      then have "dropWhile (\<lambda>c. c \<noteq> CHR ''>'') cs \<noteq> []" by (auto simp: dropWhile_eq_Nil_conv)
      with False that(1) have "takeWhile (\<lambda>c. c \<noteq> CHR ''>'') cs = []" by simp
      with gt obtain cs' where "cs = CHR ''>'' # cs'" by (cases cs) (auto split: if_splits)
      then have "drop_tags cs = CHR ''>'' # drop_tags cs'" by (simp add: drop_tags_Cons)
      with that(2,3) show ?thesis by (auto simp: Cons_eq_append_conv)
    qed
    with Cons(2) show ?thesis unfolding d has_tag_Cons by blast
  next
    case True
    then have "drop_tags (x # cs) = drop_tags (tl (dropWhile (\<lambda>c. c \<noteq> CHR ''>'') cs))"
      by (simp add: drop_tags_Cons)
    with Cons(1) show ?thesis by simp
  qed
qed

lemma drop_tags_id: "\<not> has_tag s \<Longrightarrow> drop_tags s = s"
proof (induction s)
  case (Cons x s)
  have "\<not> (x = CHR ''<'' \<and> takeWhile (\<lambda>c. c \<noteq> CHR ''>'') s \<noteq> [] \<and> dropWhile (\<lambda>c. c \<noteq> CHR ''>'') s \<noteq> [])"
  proof
    assume t: "x = CHR ''<'' \<and> takeWhile (\<lambda>c. c \<noteq> CHR ''>'') s \<noteq> [] \<and> dropWhile (\<lambda>c. c \<noteq> CHR ''>'') s \<noteq> []"
    then have "hd (dropWhile (\<lambda>c. c \<noteq> CHR ''>'') s) = CHR ''>''" using hd_dropWhile [of "\<lambda>c. c \<noteq> CHR ''>''" s] by simp
    with t obtain r where "dropWhile (\<lambda>c. c \<noteq> CHR ''>'') s = CHR ''>'' # r"
      by (cases "dropWhile (\<lambda>c. c \<noteq> CHR ''>'') s") auto
    then have "s = takeWhile (\<lambda>c. c \<noteq> CHR ''>'') s @ CHR ''>'' # r"
      using takeWhile_dropWhile_id [of "\<lambda>c. c \<noteq> CHR ''>''" s] by simp
    moreover have "CHR ''>'' \<notin> set (takeWhile (\<lambda>c. c \<noteq> CHR ''>'') s)" by (auto dest: set_takeWhileD)
    ultimately show False using Cons.prems t unfolding has_tag_Cons by blast
  qed
  then have "drop_tags (x # s) = x # drop_tags s"
    by (simp only: drop_tags_Cons if_False)
  with Cons show ?case by (simp add: has_tag_Cons)
qed (simp add: drop_tags.simps)

lemma strip_part: "\<exists>p q. s = p @ strip s @ q"
proof -
  have "\<exists>p. s = p @ lstrip is_space s" by (metis lstrip_def takeWhile_dropWhile_id)
  moreover have "\<exists>q. lstrip is_space s = strip s @ q"
    by (metis rev_append rev_rev_ident rstrip_def strip_chars_def strip_def takeWhile_dropWhile_id)
  ultimately show ?thesis by metis
qed

text \<open>
  the description and the remediation of a ZAP finding carry no markup: no tag is left in them,
  whatever nesting the alert had, and removing tags again changes nothing.
\<close>

theorem strip_html_clean:
  "\<not> has_tag (strip_html s) \<and> drop_tags (strip_html s) = strip_html s"
proof -
  obtain p q where "drop_tags s = p @ strip_html s @ q" using strip_part [of "drop_tags s"] by (auto simp: strip_html_def)
  then have "\<not> has_tag (strip_html s)"
    using drop_tags_clean [of s] unfolding has_tag_def by (metis append.assoc append_Cons)
  then show ?thesis by (simp add: drop_tags_id strip_html_def)
qed

subsection \<open>Where the output comes from\<close>

text \<open>
  The Docker runner returns no files, so the adapters that ask for a report file read standard output
  instead.  A run stopped at its limit reports nothing when lines are read; the adapters that read a
  report parse what is there.
\<close>

lemma docker_report_is_stdout:
  "output_blob name (Some (docker_run float_str exec docker spec)) = sx_stdout (docker_run float_str exec docker spec)"
  by (simp add: output_blob_def docker_run_def Let_def dget_or_def sor_def)

lemma timed_out_lines: "sx_timed_out result \<Longrightarrow> jsonl_collect tools (Some result) = Inr ([], 0)"
  by (simp add: jsonl_collect_def guard_output_def parse_jsonl_def splitlines_def)

lemma timed_out_report:
  "gitleaks_collect tools (Some (result\<lparr>sx_timed_out := b\<rparr>)) = gitleaks_collect tools (Some result)"
  by (simp add: gitleaks_collect_def output_blob_def)

lemma gitleaks_redact_shows:
  "length (gitleaks_redact s) = length s \<and>
     length (List.filter (\<lambda>c. c \<noteq> CHR ''*'') (gitleaks_redact s)) \<le> 8"
proof (cases "length s \<le> 8")
  case False
  then have "length (List.filter P (take 4 s)) \<le> 4" "length (List.filter P (drop (length s - 4) s)) \<le> 4" for P
    using length_filter_le [of P "take 4 s"] length_filter_le [of P "drop (length s - 4) s"] by simp_all
  from add_mono [OF this, of "\<lambda>c. c \<noteq> CHR ''*''" "\<lambda>c. c \<noteq> CHR ''*''"] False show ?thesis
    by (simp add: gitleaks_redact_def)
qed (simp add: gitleaks_redact_def)

subsection \<open>Concrete runs\<close>

definition oss_tools :: Tools where
  "oss_tools =
     \<lparr>tl_decode = (\<lambda>s. s),
      tl_loads = (\<lambda>s.
        if s = ''{}'' then Inr (Some (PDict [(''host'', PStr ''h.example''), (''expired'', PBool True)]))
        else if s = ''{port}'' then Inr (Some (PDict [(''matched-at'', PStr ''http://h.example:99999/'')]))
        else Inr None),
      tl_float = (\<lambda>q. ''1.0'')\<rparr>"

definition oss_result :: "string \<Rightarrow> SandboxResult" where
  "oss_result out =
     \<lparr>sx_exit_code = Some 0, sx_timed_out = False, sx_stdout = out, sx_stderr = [], sx_output_files = [],
      sx_duration_seconds = 1, sx_output_truncated = False\<rparr>"

definition oss_runner :: "string \<Rightarrow> SandboxRunner" where
  "oss_runner out = \<lparr>sb_available = True, sb_run = (\<lambda>spec. Inr (oss_result out))\<rparr>"

definition oss_adapter :: "ContainerEngine \<Rightarrow> string \<Rightarrow> ContainerAdapter" where
  "oss_adapter e out =
     ContainerAdapter_init
       \<lparr>lim_cpus = 1, lim_memory_mb = 1024, lim_pids = 512, lim_timeout_seconds = 3600,
        lim_max_output_bytes = 268435456, lim_tmpfs_mb = 512\<rparr>
       e (oss_runner out) ''1.0'' None True"

definition oss_scan :: Scan where
  "oss_scan =
     \<lparr>s_id = ''s'', s_tenant_id = ''acme'', s_target_id = ''t1'', s_policy = demo_scan_policy DEEP,
      s_state = RUNNING, s_state_reason = None, s_created_by = ''me'', s_created_at = 0,
      s_started_at = None, s_finished_at = None\<rparr>"

definition oss_request :: "string \<Rightarrow> EngineRunRequest" where
  "oss_request eid =
     \<lparr>rq_run_id = ''r'', rq_scan_id = ''s'', rq_tenant_id = ''acme'', rq_engine_id = eid,
      rq_capabilities = [AUDIT_TEMPLATES], rq_seed_urls = [''http://h.example/''],
      rq_scope_rules = t_scope_rules (demo_target []),
      rq_max_requests_per_second = rl_max_requests_per_second demo_limits,
      rq_max_concurrency = rl_max_concurrency demo_limits,
      rq_options = [], rq_auth_context = None, rq_proxy_url = None\<rparr>"

lemma oss_run_request:
  "run_request ''r'' oss_scan (demo_target []) (container_metadata (oss_adapter (NucleiAdapter tools) out))
     [AUDIT_TEMPLATES] [''http://h.example/''] = Inr (oss_request ''nuclei'')"
proof -
  have "is_identifier ''nuclei''" by code_simp
  then show ?thesis
    by (simp add: run_request_def oss_scan_def oss_request_def container_metadata_def oss_adapter_def
        ContainerAdapter_init_def NucleiAdapter_def Let_def EngineRunRequest_ok_def demo_target_def demo_limits_def)
qed

theorem oss_observations_typed_witness:
  "\<exists>ob :: Observation. engine_calls (container_adapter (\<lambda>n i. ''id'') int 0 (oss_adapter (TlsxAdapter oss_tools) ''{}''))
      (oss_request ''tlsx'') = Inr (Some [ob]) \<and>
    obs_engine_id ob = ''tlsx'' \<and> obs_vuln_class ob = ''tls_weakness'' \<and> obs_confidence ob \<noteq> CONFIRMED"
proof -
  let ?a = "oss_adapter (TlsxAdapter oss_tools) ''{}''"
  let ?calls = "engine_calls (container_adapter (\<lambda>n i. ''id'') int 0 ?a) (oss_request ''tlsx'')"
  have "case ?calls of Inr (Some [ob]) \<Rightarrow> obs_vuln_class ob = ''tls_weakness'' | _ \<Rightarrow> False" by code_simp
  then obtain ob where ob: "?calls = Inr (Some [ob])" "obs_vuln_class ob = ''tls_weakness''"
    by (auto split: sum.splits option.splits list.splits)
  have "ca_engine ?a \<in> set (oss_engines oss_tools)"
    by (simp add: oss_adapter_def ContainerAdapter_init_def oss_runner_def oss_engines_def)
  from oss_observations_typed [OF this ob(1), of ob] ob show ?thesis
    by (auto simp: oss_adapter_def ContainerAdapter_init_def oss_runner_def TlsxAdapter_def)
qed

theorem jsonl_accounts_witness:
  "\<exists>d. parse_jsonl oss_tools (''{}'' @ [CHR 0x0A, CHR 0x0A] @ ''x'') = Inr ([d], 1)"
proof -
  let ?s = "''{}'' @ [CHR 0x0A, CHR 0x0A] @ ''x''"
  have "full_lines ?s = [''{}'', ''x'']" "strip ''{}'' = ''{}''" "strip ''x'' = ''x''" by code_simp+
  then show ?thesis using jsonl_accounts [of oss_tools ?s] by (auto simp: oss_tools_def line_records_def)
qed

theorem nuclei_command_line_witness:
  "\<exists>prepared spec. container_prepare (oss_adapter (NucleiAdapter oss_tools) []) (oss_request ''nuclei'') = Inr prepared \<and>
    ct_spec prepared = Some spec \<and>
    (\<exists>pre. build_argv (\<lambda>q. ''1.0'') ''docker'' spec = pre @ [''-u'', ''http://h.example/''])"
proof -
  have "ca_engine (oss_adapter (NucleiAdapter oss_tools) []) = NucleiAdapter oss_tools"
    by (simp add: oss_adapter_def ContainerAdapter_init_def)
  from nuclei_command_line [OF oss_run_request this, of "\<lambda>q. ''1.0''" "''docker''"]
  obtain prepared spec pre where "container_prepare (oss_adapter (NucleiAdapter oss_tools) []) (oss_request ''nuclei'') = Inr prepared"
    "ct_spec prepared = Some spec"
    "build_argv (\<lambda>q. ''1.0'') ''docker'' spec = ''docker'' # hardening (\<lambda>q. ''1.0'') spec @ pre @ [''-u'', ''http://h.example/'']"
    by (auto simp only: list.map concat.simps append_Cons append_Nil append.assoc) (metis append_Cons append_Nil)
  then show ?thesis by (metis append_Cons append.assoc)
qed

theorem nuclei_all_or_nothing_witness:
  "run_engine ''r'' oss_scan (demo_target [])
     (container_adapter (\<lambda>n i. ''id'') int 0 (oss_adapter (NucleiAdapter oss_tools) (''{}'' @ [CHR 0x0A] @ ''{port}'')))
     [AUDIT_TEMPLATES] [''http://h.example/''] knowledge_init = Inr ([], knowledge_init)"
proof -
  let ?out = "''{}'' @ [CHR 0x0A] @ ''{port}''"
  let ?bad = "[(''matched-at'', PStr ''http://h.example:99999/'')]"
  let ?recs = "[[(''host'', PStr ''h.example''), (''expired'', PBool True)], ?bad]"
  have parsed: "parse_jsonl oss_tools (tl_decode oss_tools (sx_stdout (oss_result ?out))) = Inr (?recs, 0)" by code_simp
  have "case nuclei_location ''http://h.example:99999/'' of Inl ex \<Rightarrow> True | Inr l \<Rightarrow> False" by code_simp
  then have "\<exists>ex. nuclei_observation oss_tools ''1.0'' (oss_request ''nuclei'') ?bad = Inl ex"
    by (auto simp: nuclei_observation_def pfield_def pget_def por_def extract_cwes_def cwe_item_def as_dict_def split: sum.splits)
  then show ?thesis
    using nuclei_all_or_nothing [OF _ _ oss_run_request _ _ parsed, where ids = "\<lambda>n i. ''id''" and tms = int and now = 0
        and kb = knowledge_init]
    by (simp add: oss_adapter_def ContainerAdapter_init_def oss_runner_def oss_result_def)
qed

end
