(* ===== verification/Reporting.thy ===== *)
theory Reporting
  imports Orchestrator
begin

text \<open>
  Reports (\<open>vantage/findings/reporting.py\<close>): the JSON, SARIF and Markdown renderings of a scan report
  and its confirmed-only view.  The dumps of scans and findings (\<open>model_dump\<close> of pydantic) and the text
  of a float are the fields of a record; a text with characters beyond ASCII is its UTF-8 bytes.
\<close>

record Dumps =
  dm_scan :: "Scan \<Rightarrow> pyval"
  dm_finding :: "UnifiedFinding \<Rightarrow> pyval"
  dm_float :: "rat \<Rightarrow> string"

fun SARIF_LEVEL :: "Severity \<Rightarrow> string" where
  "SARIF_LEVEL INFO = ''note''"
| "SARIF_LEVEL LOW = ''note''"
| "SARIF_LEVEL MEDIUM = ''warning''"
| "SARIF_LEVEL HIGH = ''error''"
| "SARIF_LEVEL CRITICAL = ''error''"

definition all_severities :: "Severity list" where
  "all_severities = [INFO, LOW, MEDIUM, HIGH, CRITICAL]"

definition summarize :: "UnifiedFinding list \<Rightarrow> (string, nat) dict" where
  "summarize findings =
     (let counts = (\<lambda>v. length (List.filter (\<lambda>f. severity_value (f_severity f) = v) findings))
      in List.map (\<lambda>sev. (severity_value sev, counts (severity_value sev))) all_severities)"

definition counts_val :: "(string, nat) dict \<Rightarrow> pyval" where
  "counts_val d = PDict (List.map (\<lambda>(k, n). (k, PInt (int n))) d)"

subsection \<open>JSON\<close>

definition annotation_val :: "AiAnnotation \<Rightarrow> pyval" where
  "annotation_val a =
     PDict [(''priority_rank'', case aa_priority_rank a of None \<Rightarrow> PNone | Some n \<Rightarrow> PInt n),
            (''likely_false_positive'', PBool (aa_likely_false_positive a)),
            (''explanation'', PStr (aa_explanation a)), (''remediation'', PStr (aa_remediation a)),
            (''group_id'', opt_val (aa_group_id a)), (''rationale'', PStr (aa_rationale a))]"

definition proofs_entry :: "ProofReport \<Rightarrow> pyval" where
  "proofs_entry r =
     PDict [(''signed'', PBool (pr_signed r)),
            (''confirmed_count'', PInt (int (length (proofs_confirmed r)))),
            (''bundles'', PList (List.map (\<lambda>p. PDict (proof_to_dict p)) (pr_proofs r)))]"

definition ai_entry :: "AiAssessment \<Rightarrow> pyval" where
  "ai_entry ai =
     PDict [(''provider'', PStr (as_provider ai)), (''model'', PStr (as_model ai)),
            (''model_license'', PStr (as_model_license ai)),
            (''groups'', PDict (List.map (\<lambda>(k, ids). (k, strs_val ids)) (as_groups ai))),
            (''notes'', strs_val (as_notes ai)),
            (''annotations'', PDict (List.map (\<lambda>(fid, a). (fid, annotation_val a)) (as_annotations ai)))]"

definition json_payload :: "Dumps \<Rightarrow> ScanReport \<Rightarrow> (string \<times> pyval) list" where
  "json_payload dm report =
     [(''scan'', dm_scan dm (rp_scan report)),
      (''summary'', PDict
         [(''findings'', PInt (int (length (rp_findings report)))),
          (''by_severity'', counts_val (summarize (rp_findings report))),
          (''observations'', PInt (int (rp_observations report))),
          (''engines_run'', strs_val (rp_engines_run report)),
          (''engines_failed'', strs_val (rp_engines_failed report)),
          (''skipped_capabilities'', strs_val (rp_skipped_capabilities report))]),
      (''findings'', PList (List.map (dm_finding dm) (rp_findings report)))]
     @ (case rp_proofs report of None \<Rightarrow> [] | Some r \<Rightarrow> [(''proofs'', proofs_entry r)])
     @ (case rp_ai report of None \<Rightarrow> []
        | Some ai \<Rightarrow> if as_enabled ai then [(''ai'', ai_entry ai)] else [])"

definition to_json :: "Dumps \<Rightarrow> ScanReport \<Rightarrow> string" where
  "to_json dm report = json_dumps_indent (dm_float dm) (PDict (json_payload dm report))"

subsection \<open>SARIF\<close>

definition cwe_names :: "int list \<Rightarrow> string list" where
  "cwe_names cwes = List.map (\<lambda>c. ''CWE-'' @ str_of_int c) cwes"

definition sarif_rule :: "UnifiedFinding \<Rightarrow> pyval" where
  "sarif_rule f =
     PDict [(''id'', PStr (f_category f)), (''name'', PStr (f_title f)),
            (''shortDescription'', PDict [(''text'', PStr (f_category f))]),
            (''properties'', PDict [(''cwe'', strs_val (cwe_names (f_cwe f))), (''owasp'', strs_val (f_owasp f))])]"

definition place :: "UnifiedFinding \<Rightarrow> string" where
  "place f = f_host f @ '':'' @ str_of_int (f_port f) @ f_endpoint f"

definition sarif_result :: "UnifiedFinding \<Rightarrow> pyval" where
  "sarif_result f =
     PDict [(''ruleId'', PStr (f_category f)), (''level'', PStr (SARIF_LEVEL (f_severity f))),
            (''message'', PDict [(''text'', PStr (f_title f @ '' ('' @ join '', '' (f_engines f) @ '')''))]),
            (''locations'', PList [PDict [(''physicalLocation'',
               PDict [(''artifactLocation'', PDict [(''uri'', PStr (place f))])])]]),
            (''properties'', PDict
               [(''severity'', PStr (severity_value (f_severity f))),
                (''confidence'', PStr (confidence_value (f_confidence f))),
                (''risk_score'', PFloat (f_risk_score f)), (''engines'', strs_val (f_engines f)),
                (''fingerprint'', PStr (f_fingerprint f))]),
            (''partialFingerprints'', PDict [(''vantage/v1'', PStr (f_fingerprint f))])]"

fun sarif_loop ::
  "(string, pyval) dict \<Rightarrow> pyval list \<Rightarrow> UnifiedFinding list \<Rightarrow> (string, pyval) dict \<times> pyval list" where
  "sarif_loop rules results [] = (rules, results)"
| "sarif_loop rules results (f # fs) =
     sarif_loop (if f_category f \<in> set (dkeys rules) then rules else dset rules (f_category f) (sarif_rule f))
       (results @ [sarif_result f]) fs"

definition sarif_doc :: "ScanReport \<Rightarrow> string \<Rightarrow> pyval" where
  "sarif_doc report tool_version =
     (case sarif_loop [] [] (rp_findings report) of (rules, results) \<Rightarrow>
       PDict [(''$schema'', PStr ''https://json.schemastore.org/sarif-2.1.0.json''),
              (''version'', PStr ''2.1.0''),
              (''runs'', PList [PDict
                [(''tool'', PDict [(''driver'', PDict
                   [(''name'', PStr ''Vantage DAST''), (''version'', PStr tool_version),
                    (''informationUri'', PStr ''https://vantage.example/dast''),
                    (''rules'', PList (dvalues rules))])]),
                 (''results'', PList results)]])])"

definition to_sarif :: "Dumps \<Rightarrow> ScanReport \<Rightarrow> string \<Rightarrow> string" where
  "to_sarif dm report tool_version = json_dumps_indent (dm_float dm) (sarif_doc report tool_version)"

subsection \<open>Markdown\<close>

definition mid_dot :: string where "mid_dot = [CHR 0xC2, CHR 0xB7]"
definition em_dash :: string where "em_dash = [CHR 0xE2, CHR 0x80, CHR 0x94]"
definition ellipsis :: string where "ellipsis = [CHR 0xE2, CHR 0x80, CHR 0xA6]"

text \<open>\<open>f"{x:.0f}"\<close> of a float.\<close>

definition fixed0 :: "rat \<Rightarrow> string" where
  "fixed0 x = str_of_int (round_half_even x)"

definition proof_for :: "ScanReport \<Rightarrow> string \<Rightarrow> ProofOfVulnerability option" where
  "proof_for report finding_id =
     (case rp_proofs report of
        None \<Rightarrow> None
      | Some r \<Rightarrow> List.find (\<lambda>p. pv_finding_id p = finding_id) (pr_proofs r))"

definition md_head :: "ScanReport \<Rightarrow> string list" where
  "md_head report =
     [''# Vantage DAST report - scan `'' @ s_id (rp_scan report) @ ''`'', [],
      ''- Target: `'' @ s_target_id (rp_scan report) @ ''`'',
      ''- State: **'' @ scan_state_value (s_state (rp_scan report)) @ ''**'',
      ''- Findings: **'' @ str_of_nat (length (rp_findings report)) @ ''** across ''
        @ str_of_nat (rp_observations report) @ '' observations'',
      ''- Severity: '' @ join '', '' (List.map (\<lambda>(sev, n). upper sev @ ''='' @ str_of_nat n)
                                      (rev (summarize (rp_findings report)))),
      ''- Engines run: '' @ sor (join '', '' (rp_engines_run report)) ''(none)'']
     @ (if rp_engines_failed report \<noteq> [] then [''- Engines failed: '' @ join '', '' (rp_engines_failed report)] else [])
     @ (if rp_skipped_capabilities report \<noteq> []
        then [''- Skipped capabilities: '' @ str_of_nat (length (rp_skipped_capabilities report))] else [])
     @ [[]]"

definition md_proofs :: "ScanReport \<Rightarrow> string list" where
  "md_proofs report =
     (case rp_proofs report of
        None \<Rightarrow> []
      | Some r \<Rightarrow>
          if rp_findings report = [] then []
          else [''- Proof: **'' @ str_of_nat (length (proofs_confirmed r)) @ ''/''
                  @ str_of_nat (length (rp_findings report)) @ ''** findings carry a ''
                  @ ''confirmed/corroborated Proof-of-Vulnerability bundle''
                  @ (if pr_signed r then '' '' @ mid_dot @ '' signed (tamper-evident)'' else []), []])"

definition md_ai :: "ScanReport \<Rightarrow> string list" where
  "md_ai report =
     (case rp_ai report of
        None \<Rightarrow> []
      | Some ai \<Rightarrow>
          if as_enabled ai
          then [''- AI assist: **'' @ as_provider ai @ ''/'' @ as_model ai @ ''** ('' @ as_model_license ai @ '') ''
                  @ em_dash @ '' '' @ str_of_nat (length (as_annotations ai)) @ '' annotated, ''
                  @ str_of_nat (length (as_groups ai)) @ '' group(s). ''
                  @ ''_AI is advisory; it annotates deterministic findings and never adds evidence._'', []]
          else [])"

definition md_row :: "UnifiedFinding \<Rightarrow> string" where
  "md_row f =
     ''| '' @ fixed0 (f_risk_score f) @ '' | '' @ severity_value (f_severity f) @ '' | ''
     @ confidence_value (f_confidence f) @ '' | '' @ f_category f @ '' | `''
     @ osor (f_method f) ''ANY'' @ '' '' @ f_endpoint f @ ''` | '' @ join '', '' (f_engines f) @ '' |''"

definition md_annotation :: "ScanReport \<Rightarrow> UnifiedFinding \<Rightarrow> string list" where
  "md_annotation report f =
     (case rp_ai report of
        None \<Rightarrow> []
      | Some ai \<Rightarrow>
          if as_enabled ai
          then (case dget (as_annotations ai) (f_id f) of
                  None \<Rightarrow> []
                | Some ann \<Rightarrow>
                    (if aa_likely_false_positive ann
                     then [''- **AI (advisory):** flagged as a *likely false positive* '' @ em_dash @ '' verify.'']
                     else [])
                    @ (if aa_explanation ann \<noteq> []
                       then [''- **AI explanation (advisory):** '' @ aa_explanation ann] else []))
          else [])"

definition md_proof :: "ScanReport \<Rightarrow> UnifiedFinding \<Rightarrow> string list" where
  "md_proof report f =
     (case proof_for report (f_id f) of
        None \<Rightarrow> []
      | Some p \<Rightarrow>
          [''- **Proof:** verdict **'' @ pv_verdict p @ ''**''
             @ (if pv_signed p then '' '' @ mid_dot @ '' signed'' else [])
             @ '' '' @ mid_dot @ '' integrity `'' @ take 12 (pv_integrity_sha256 p) @ ellipsis @ ''`'',
           ''  - Differential: '' @ pv_differential p,
           ''  - Reproduce: '' @ join ''; ''
             (List.map (\<lambda>s. str_of_int (rs_order s) @ '') '' @ rs_action s) (pv_reproduction p))])"

definition md_detail :: "ScanReport \<Rightarrow> UnifiedFinding \<Rightarrow> string list" where
  "md_detail report f =
     [[], ''### ['' @ upper (severity_value (f_severity f)) @ ''] '' @ f_title f,
      ''- **Risk:** '' @ fixed0 (f_risk_score f) @ ''  **Confidence:** '' @ confidence_value (f_confidence f),
      ''- **Location:** `'' @ place f @ ''`'']
     @ (if osor (f_parameter f) [] \<noteq> [] then [''- **Parameter:** `'' @ osor (f_parameter f) [] @ ''`''] else [])
     @ (if f_cwe f \<noteq> [] then [''- **CWE:** '' @ join '', '' (cwe_names (f_cwe f))] else [])
     @ (if f_owasp f \<noteq> [] then [''- **OWASP:** '' @ join '', '' (f_owasp f)] else [])
     @ [''- **Detected by:** '' @ join '', '' (f_detectors f)]
     @ (if f_description f \<noteq> [] then [''- **Description:** '' @ f_description f] else [])
     @ (if f_remediation f \<noteq> [] then [''- **Remediation:** '' @ f_remediation f] else [])
     @ md_annotation report f @ md_proof report f"

definition md_lines :: "ScanReport \<Rightarrow> string list" where
  "md_lines report =
     md_head report @ md_proofs report @ md_ai report
     @ (if rp_findings report = [] then [''_No findings._'']
        else [''## Findings'', [],
              ''| Risk | Severity | Confidence | Category | Endpoint | Engines |'',
              ''|------|----------|------------|----------|----------|---------|'']
             @ List.map md_row (rp_findings report)
             @ [[], ''## Details (top 20 by risk)'']
             @ concat (List.map (md_detail report) (take 20 (rp_findings report))))"

definition to_markdown :: "ScanReport \<Rightarrow> string" where
  "to_markdown report = join [CHR 0x0A] (md_lines report)"

subsection \<open>The confirmed-only view, and the choice of a format\<close>

definition filter_confirmed :: "ScanReport \<Rightarrow> ScanReport" where
  "filter_confirmed report =
     (case rp_proofs report of
        None \<Rightarrow> report
      | Some r \<Rightarrow>
          (let confirmed_ids = List.map pv_finding_id (proofs_confirmed r)
           in report\<lparr>rp_findings := List.filter (\<lambda>f. f_id f \<in> set confirmed_ids) (rp_findings report),
                     rp_proofs := Some \<lparr>pr_proofs = List.filter (\<lambda>p. pv_finding_id p \<in> set confirmed_ids) (pr_proofs r),
                                        pr_signed = pr_signed r\<rparr>\<rparr>))"

definition render :: "Dumps \<Rightarrow> ScanReport \<Rightarrow> string \<Rightarrow> string res" where
  "render dm report fmt0 =
     (let fmt = lower fmt0
      in if fmt = ''json'' then Inr (to_json dm report)
         else if fmt = ''sarif'' then Inr (to_sarif dm report ''0.1.0'')
         else if fmt \<in> {''md'', ''markdown''} then Inr (to_markdown report)
         else Inl (ValueError (''unknown report format: '' @ fmt)))"


subsection \<open>Counts\<close>

lemma severity_value_eq [simp]: "severity_value a = severity_value b \<longleftrightarrow> a = b"
  by (cases a; cases b; simp)

lemma length_filter_cases:
  "length (List.filter (\<lambda>f. f_severity f = INFO) fs) + (length (List.filter (\<lambda>f. f_severity f = LOW) fs) +
   (length (List.filter (\<lambda>f. f_severity f = MEDIUM) fs) + (length (List.filter (\<lambda>f. f_severity f = HIGH) fs) +
    length (List.filter (\<lambda>f. f_severity f = CRITICAL) fs)))) = length fs"
proof (induction fs)
  case (Cons f fs)
  then show ?case by (cases "f_severity f") simp_all
qed simp

lemma summarize_get:
  "dget (summarize findings) (severity_value sev) =
     Some (length (List.filter (\<lambda>f. f_severity f = sev) findings))"
  by (cases sev) (simp_all add: summarize_def all_severities_def Let_def flip: severity_value.simps)

lemma summarize_sum: "sum_list (dvalues (summarize findings)) = length findings"
  using length_filter_cases [of findings]
  by (simp add: summarize_def all_severities_def Let_def dvalues_def flip: severity_value.simps)

subsection \<open>SARIF rules and results\<close>

lemma sarif_loop_spec:
  "sarif_loop rules results fs = (rules', results') \<Longrightarrow>
     results' = results @ List.map sarif_result fs \<and>
     dkeys rules' = dkeys rules @ List.map f_category (uniq_by f_category (set (dkeys rules)) fs) \<and>
     (\<forall>k. dget rules' k = (case dget rules k of Some v \<Rightarrow> Some v
        | None \<Rightarrow> map_option sarif_rule (List.find (\<lambda>f. f_category f = k) fs)))"
proof (induction rules results fs rule: sarif_loop.induct)
  case (1 rules results)
  then show ?case by (simp split: option.split)
next
  case (2 rules results f fs)
  let ?rules = "if f_category f \<in> set (dkeys rules) then rules else dset rules (f_category f) (sarif_rule f)"
  have keys: "set (dkeys ?rules) = insert (f_category f) (set (dkeys rules))"
    and list: "dkeys ?rules = dkeys rules @ (if f_category f \<in> set (dkeys rules) then [] else [f_category f])"
    by (auto simp: dkeys_dset)
  have get: "dget ?rules k = (if k = f_category f \<and> dget rules k = None then Some (sarif_rule f) else dget rules k)" for k
    by (auto simp: dget_dset dget_None_iff)
  from 2 have "results' = (results @ [sarif_result f]) @ List.map sarif_result fs \<and>
     dkeys rules' = dkeys ?rules @ List.map f_category (uniq_by f_category (set (dkeys ?rules)) fs) \<and>
     (\<forall>k. dget rules' k = (case dget ?rules k of Some v \<Rightarrow> Some v
        | None \<Rightarrow> map_option sarif_rule (List.find (\<lambda>f. f_category f = k) fs)))"
    by simp
  then show ?case unfolding keys list get by (auto simp: insert_absorb split: option.split)
qed

subsection \<open>The confirmed-only view\<close>

definition stands :: "UnifiedFinding \<Rightarrow> bool" where
  "stands f \<longleftrightarrow> f_confidence f \<in> {CONFIRMED, FIRM} \<or> f_confidence f = TENTATIVE \<and> 2 \<le> length (f_engines f)"

lemma confirmed_ids:
  "List.map pv_finding_id (proofs_confirmed (build_proofs sha mac env findings key)) =
     List.map f_id (List.filter stands findings)"
  by (simp add: confirmed_bundles proof_build_finding comp_def stands_def [abs_def])

lemma filter_by_key:
  assumes "distinct (List.map g xs)"
  shows "List.filter (\<lambda>x. g x \<in> g ` set (List.filter P xs)) xs = List.filter P xs"
proof (rule filter_cong [OF refl])
  fix x
  assume "x \<in> set xs"
  with assms show "g x \<in> g ` set (List.filter P xs) \<longleftrightarrow> P x" by (auto simp: distinct_map dest: inj_onD)
qed

lemma filter_confirmed_built:
  assumes "rp_proofs report = Some (build_proofs sha mac env (rp_findings report) key)"
    and "distinct (List.map f_id (rp_findings report))"
  shows "rp_findings (filter_confirmed report) = List.filter stands (rp_findings report)"
    "rp_proofs (filter_confirmed report) = Some \<lparr>pr_proofs = proofs_confirmed (build_proofs sha mac env (rp_findings report) key),
       pr_signed = pr_signed (build_proofs sha mac env (rp_findings report) key)\<rparr>"
proof -
  let ?ids = "f_id ` set (List.filter stands (rp_findings report))"
  have ids: "set (List.map pv_finding_id (proofs_confirmed (build_proofs sha mac env (rp_findings report) key))) = ?ids"
    by (simp only: confirmed_ids set_map)
  have keep: "List.filter (\<lambda>f. f_id f \<in> ?ids) (rp_findings report) = List.filter stands (rp_findings report)"
    using assms(2) by (rule filter_by_key)
  show "rp_findings (filter_confirmed report) = List.filter stands (rp_findings report)"
    using assms(1) ids keep by (simp add: filter_confirmed_def Let_def)
  have "List.filter (\<lambda>p. pv_finding_id p \<in> ?ids) (pr_proofs (build_proofs sha mac env (rp_findings report) key)) =
      List.map (proof_build sha mac (ProofEngine_init env key)) (List.filter (\<lambda>f. f_id f \<in> ?ids) (rp_findings report))"
    by (simp add: build_proofs_def Let_def filter_map comp_def proof_build_finding)
  then show "rp_proofs (filter_confirmed report) = Some \<lparr>pr_proofs = proofs_confirmed (build_proofs sha mac env (rp_findings report) key),
       pr_signed = pr_signed (build_proofs sha mac env (rp_findings report) key)\<rparr>"
    using assms(1) ids unfolding keep by (simp add: filter_confirmed_def Let_def confirmed_bundles stands_def [abs_def])
qed

subsection \<open>Properties\<close>

text \<open>
  the summary of a report counts every finding once, under its own severity, and names the
  five severities in ascending order.
\<close>

theorem summary_counts:
  "dkeys (summarize findings) = [''info'', ''low'', ''medium'', ''high'', ''critical''] \<and>
   sum_list (dvalues (summarize findings)) = length findings \<and>
   dget (summarize findings) (severity_value sev) = Some (length (List.filter (\<lambda>f. f_severity f = sev) findings))"
  using summarize_get summarize_sum by (simp add: summarize_def all_severities_def dkeys_def Let_def)

text \<open>
  a SARIF document lists one result per finding, in report order, and one rule per category, in
  order of first occurrence: the rule a result refers to is that of the first finding of its category.
\<close>

theorem sarif_rules_and_results:
  assumes "sarif_loop [] [] (rp_findings report) = (rules, results)"
  shows "results = List.map sarif_result (rp_findings report) \<and> distinct (dkeys rules) \<and>
    dkeys rules = List.map f_category (uniq_by f_category {} (rp_findings report)) \<and>
    (\<forall>f \<in> set (rp_findings report). \<exists>g. List.find (\<lambda>g. f_category g = f_category f) (rp_findings report) = Some g \<and>
       dget rules (f_category f) = Some (sarif_rule g))"
proof -
  note spec = sarif_loop_spec [OF assms, simplified]
  have "\<exists>g. List.find (\<lambda>g. f_category g = f_category f) (rp_findings report) = Some g"
    if "f \<in> set (rp_findings report)" for f
    using that find_None_iff [of "\<lambda>g. f_category g = f_category f"] by (metis option.exhaust)
  then show ?thesis using spec uniq_by_distinct [of f_category "{}" "rp_findings report"]
    by (fastforce simp: dkeys_def)
qed

text \<open>
  C36: the confirmed-only view of a report with freshly built proofs keeps exactly the findings that are
  confirmed or firm, or tentative and reported by two engines, in their order, with one bundle each
  and each bundle of a confirmed or corroborated verdict; filtering again changes nothing.
\<close>

theorem confirmed_view:
  assumes "rp_proofs report = Some (build_proofs sha mac env (rp_findings report) key)"
    and "distinct (List.map f_id (rp_findings report))"
  shows "rp_findings (filter_confirmed report) = List.filter stands (rp_findings report) \<and>
    (\<exists>r. rp_proofs (filter_confirmed report) = Some r \<and>
       List.map pv_finding_id (pr_proofs r) = List.map f_id (rp_findings (filter_confirmed report)) \<and>
       list_all (\<lambda>p. pv_verdict p \<in> set CONFIRMED_VERDICTS) (pr_proofs r)) \<and>
    filter_confirmed (filter_confirmed report) = filter_confirmed report"
proof -
  let ?R = "build_proofs sha mac env (rp_findings report) key"
  let ?r = "\<lparr>pr_proofs = proofs_confirmed ?R, pr_signed = pr_signed ?R\<rparr>"
  note view = filter_confirmed_built [OF assms]
  have ids: "List.map pv_finding_id (proofs_confirmed ?R) = List.map f_id (List.filter stands (rp_findings report))"
    by (rule confirmed_ids)
  have again: "proofs_confirmed ?r = proofs_confirmed ?R" by (simp add: proofs_confirmed_def)
  have "List.filter (\<lambda>f. f_id f \<in> set (List.map pv_finding_id (proofs_confirmed ?R)))
      (List.filter stands (rp_findings report)) = List.filter stands (rp_findings report)"
    unfolding ids by (rule filter_True) simp
  moreover have "List.filter (\<lambda>p. pv_finding_id p \<in> set (List.map pv_finding_id (proofs_confirmed ?R)))
      (proofs_confirmed ?R) = proofs_confirmed ?R"
    by (rule filter_True) simp
  ultimately have "filter_confirmed (filter_confirmed report) =
      (filter_confirmed report)\<lparr>rp_findings := rp_findings (filter_confirmed report),
        rp_proofs := rp_proofs (filter_confirmed report)\<rparr>"
    by (subst filter_confirmed_def) (simp add: view again Let_def del: set_map)
  moreover have "list_all (\<lambda>p. pv_verdict p \<in> set CONFIRMED_VERDICTS) (proofs_confirmed ?R)"
    by (simp add: proofs_confirmed_def list_all_iff)
  ultimately show ?thesis using ids by (simp add: view)
qed

text \<open>
  A report is rendered exactly for the formats json, sarif, md and markdown in any case; any other
  name raises a ValueError that repeats it in lower case.
\<close>

lemma render_formats:
  "case render dm report fmt of
     Inr out \<Rightarrow> lower fmt \<in> {''json'', ''sarif'', ''md'', ''markdown''}
   | Inl e \<Rightarrow> lower fmt \<notin> {''json'', ''sarif'', ''md'', ''markdown''} \<and>
       e = ValueError (''unknown report format: '' @ lower fmt)"
  by (simp add: render_def Let_def)

subsection \<open>The order of the details\<close>

text \<open>
  The section headed "top 20 by risk" shows the first twenty findings; correlation has ordered them by
  severity and confidence, and a critical tentative finding precedes a confirmed high one of greater risk.
\<close>

lemma details_not_by_risk:
  assumes "f_severity f = CRITICAL" "f_confidence f = TENTATIVE" "f_severity g = HIGH" "f_confidence g = CONFIRMED"
    and "length (f_engines f) = 1" "length (f_engines g) = 1" "f_category f = ''csrf''" "f_category g = ''csrf''"
  shows "sort_desc finding_key [g, f] = [f, g] \<and> raw_risk f < raw_risk g"
proof
  show "sort_desc finding_key [g, f] = [f, g]"
    using assms by (simp add: sort_desc_def finding_key_def)
  have eval: "fl (6 / 10) < 61 / 100" "fl 58 = 58" "fl 75 = 75" by code_simp+
  have one: "exposure_factor ''csrf'' = 1"
    by (simp add: exposure_factor_def EXPOSURE_BUMP_def EXPOSURE_DISCOUNT_def dget_or_def fmul_def fl_1)
  have "fl (95 * fl (6 / 10)) \<le> 58"
    using eval fl_mono [of "95 * fl (6 / 10)" 58] by (simp add: fl_nonneg)
  then have "fl (fl (95 * fl (6 / 10))) \<le> 58"
    using eval fl_mono [of "fl (95 * fl (6 / 10))" 58] by (simp add: fl_nonneg)
  then have "raw_risk f \<le> 58"
    using eval fl_mono [of "fl (fl (95 * fl (6 / 10)))" 58] assms
    by (simp add: raw_risk_def fmul_def one corroboration_factor_def fl_nonneg)
  moreover have "raw_risk g = 75"
    using assms eval by (simp add: raw_risk_def fmul_def one corroboration_factor_def)
  ultimately show "raw_risk f < raw_risk g" by simp
qed

subsection \<open>Witnesses\<close>

definition demo_report :: ScanReport where
  "demo_report =
     (let fs = [(demo_unified ''a'')\<lparr>f_confidence := CONFIRMED\<rparr>, demo_unified ''b''] in
      \<lparr>rp_scan = \<lparr>s_id = ''s'', s_tenant_id = ''acme'', s_target_id = ''t1'', s_policy = demo_scan_policy STANDARD,
         s_state = COMPLETED, s_state_reason = None, s_created_by = ''me'', s_created_at = 0,
         s_started_at = Some 0, s_finished_at = Some 1\<rparr>,
       rp_findings = fs, rp_observations = 2, rp_engines_run = [''zap''], rp_engines_failed = [],
       rp_skipped_capabilities = [], rp_stats = [], rp_ai = None,
       rp_proofs = Some (build_proofs (\<lambda>s. s) (\<lambda>k s. k @ s) None fs None)\<rparr>)"

theorem sarif_rules_and_results_witness:
  "\<exists>rules results. sarif_loop [] [] (rp_findings demo_report) = (rules, results) \<and>
     length results = 2 \<and> dkeys rules = [''xss'']"
proof -
  obtain rules results where loop: "sarif_loop [] [] (rp_findings demo_report) = (rules, results)"
    by (cases "sarif_loop [] [] (rp_findings demo_report)")
  with sarif_rules_and_results [OF loop] show ?thesis
    by (simp add: demo_report_def Let_def demo_unified_def)
qed

theorem confirmed_view_witness:
  "List.map f_id (rp_findings (filter_confirmed demo_report)) = [''a'']"
proof -
  have "rp_proofs demo_report = Some (build_proofs (\<lambda>s. s) (\<lambda>k s. k @ s) None (rp_findings demo_report) None)"
    and "distinct (List.map f_id (rp_findings demo_report))"
    by (simp_all add: demo_report_def Let_def demo_unified_def)
  from confirmed_view [OF this] show ?thesis
    by (simp add: demo_report_def Let_def demo_unified_def stands_def)
qed

end
