(* ===== verification/Burp.thy ===== *)
theory Burp
  imports Oss_Audit Py_Url
begin

text \<open>
  The adapter of a customer-hosted Burp Suite (\<open>vantage/adapters/external/burp.py\<close>).  Its transport keeps
  a state, so each call returns the state it leaves; the loop that polls a scan is a partial function, whose
  value is \<open>None\<close> when it never returns.  The network and the JSON decoder below the transport are the
  fields of a record, the text of floats is the argument \<open>fr\<close>.
\<close>

definition BURP_LICENSE :: string where
  "BURP_LICENSE = ''LicenseRef-PortSwigger-Commercial''"

definition burp_severity :: "string \<Rightarrow> Severity" where
  "burp_severity s =
     dget_or [(''high'', HIGH), (''medium'', MEDIUM), (''low'', LOW), (''info'', INFO), (''information'', INFO)] s INFO"

definition burp_confidence :: "string \<Rightarrow> Confidence" where
  "burp_confidence s = dget_or [(''certain'', FIRM), (''firm'', FIRM), (''tentative'', TENTATIVE)] s TENTATIVE"

record BurpConfig =
  bc_base_url :: string
  bc_api_key :: string
  bc_api_prefix :: string
  bc_poll_interval :: rat
  bc_verify_tls :: bool

definition burp_configured :: "BurpConfig \<Rightarrow> bool" where
  "burp_configured cfg \<longleftrightarrow> bc_base_url cfg \<noteq> []"

subsection \<open>Transports\<close>

record BurpResponse =
  br_status :: int
  br_json :: "(string \<times> pyval) list"
  br_error :: "string option"

record 's BurpTransport =
  bt_post :: "string \<Rightarrow> pyval \<Rightarrow> 's \<Rightarrow> BurpResponse res \<times> 's"
  bt_get :: "string \<Rightarrow> 's \<Rightarrow> BurpResponse res \<times> 's"
  bt_cleanup :: "'s \<Rightarrow> 's"

text \<open>
  Below the transport: whether a client for a base URL can be made, the answer to the n-th request (status
  and content), and \<open>resp.json()\<close>.
\<close>

record BurpWire =
  bw_client :: "string \<Rightarrow> exn option"
  bw_request :: "nat \<Rightarrow> string \<Rightarrow> string \<Rightarrow> string \<Rightarrow> (string, string) dict \<Rightarrow> pyval option \<Rightarrow> (int \<times> string) res"
  bw_json :: "string \<Rightarrow> pyval res"

text \<open>The state of the HTTP transport: whether its client is open, and what it has sent.\<close>

record HttpxState =
  hx_open :: bool
  hx_sent :: "(string \<times> string) list"

definition burp_base :: "BurpConfig \<Rightarrow> string" where
  "burp_base cfg = rstrip (\<lambda>c. c = CHR ''/'') (bc_base_url cfg) @ bc_api_prefix cfg"

definition burp_headers :: "BurpConfig \<Rightarrow> (string, string) dict" where
  "burp_headers cfg = (if bc_api_key cfg \<noteq> [] then [(''Authorization'', bc_api_key cfg)] else [])"

definition burp_ensure :: "BurpWire \<Rightarrow> BurpConfig \<Rightarrow> HttpxState \<Rightarrow> HttpxState res" where
  "burp_ensure w cfg s =
     (if hx_open s then Inr s
      else case bw_client w (burp_base cfg) of Some e \<Rightarrow> Inl e | None \<Rightarrow> Inr (s\<lparr>hx_open := True\<rparr>))"

definition wire_response :: "BurpWire \<Rightarrow> (int \<times> string) res \<Rightarrow> BurpResponse" where
  "wire_response w answer =
     (case bind_res answer (\<lambda>(status, content).
             bind_res (if content \<noteq> [] then bw_json w content else Inr (PDict [])) (\<lambda>data.
               Inr \<lparr>br_status = status, br_json = as_dict data, br_error = None\<rparr>)) of
        Inr r \<Rightarrow> r
      | Inl e \<Rightarrow> \<lparr>br_status = 0, br_json = [], br_error = Some (exn_text e)\<rparr>)"

definition burp_send ::
  "BurpWire \<Rightarrow> BurpConfig \<Rightarrow> string \<Rightarrow> string \<Rightarrow> pyval option \<Rightarrow> HttpxState \<Rightarrow> BurpResponse res \<times> HttpxState" where
  "burp_send w cfg mth path body s =
     (case burp_ensure w cfg s of
        Inl e \<Rightarrow> (Inl e, s)
      | Inr s \<Rightarrow>
          (Inr (wire_response w (bw_request w (length (hx_sent s)) mth (burp_base cfg) path (burp_headers cfg) body)),
           s\<lparr>hx_sent := hx_sent s @ [(mth, path)]\<rparr>))"

definition burp_aclose :: "HttpxState \<Rightarrow> HttpxState" where
  "burp_aclose s = s\<lparr>hx_open := False\<rparr>"

definition HttpxBurpTransport :: "BurpWire \<Rightarrow> BurpConfig \<Rightarrow> HttpxState BurpTransport" where
  "HttpxBurpTransport w cfg =
     \<lparr>bt_post = (\<lambda>path body. burp_send w cfg ''POST'' path (Some body)),
      bt_get = (\<lambda>path. burp_send w cfg ''GET'' path None),
      bt_cleanup = burp_aclose\<rparr>"

record FakeBurp =
  fb_scan_id :: string
  fb_issues :: "pyval list"
  fb_final_status :: string
  fb_healthy :: bool
  fb_calls :: "(string \<times> string) list"

definition fake_post :: "string \<Rightarrow> pyval \<Rightarrow> FakeBurp \<Rightarrow> BurpResponse res \<times> FakeBurp" where
  "fake_post path body s =
     (Inr (if path = ''/scan''
           then \<lparr>br_status = 201, br_json = [(''scan_id'', PStr (fb_scan_id s))], br_error = None\<rparr>
           else \<lparr>br_status = 404, br_json = [], br_error = None\<rparr>),
      s\<lparr>fb_calls := fb_calls s @ [(''POST'', path)]\<rparr>)"

definition fake_get :: "string \<Rightarrow> FakeBurp \<Rightarrow> BurpResponse res \<times> FakeBurp" where
  "fake_get path s =
     (Inr (if startswith path ''/knowledge_base''
           then \<lparr>br_status = if fb_healthy s then 200 else 500, br_json = [], br_error = None\<rparr>
           else if startswith path ''/scan/''
           then \<lparr>br_status = 200, br_json = [(''scan_status'', PStr (fb_final_status s)),
                                              (''issue_events'', PList (fb_issues s))], br_error = None\<rparr>
           else \<lparr>br_status = 404, br_json = [], br_error = None\<rparr>),
      s\<lparr>fb_calls := fb_calls s @ [(''GET'', path)]\<rparr>)"

definition FakeBurpTransport :: "FakeBurp BurpTransport" where
  "FakeBurpTransport = \<lparr>bt_post = fake_post, bt_get = fake_get, bt_cleanup = (\<lambda>s. s)\<rparr>"

subsection \<open>The adapter\<close>

record 's BurpAdapter =
  ba_config :: BurpConfig
  ba_version :: string
  ba_transport :: "'s BurpTransport"
  ba_max_poll_seconds :: int

definition burp_metadata :: "'s BurpAdapter \<Rightarrow> EngineMetadata" where
  "burp_metadata a =
     \<lparr>em_id = ''burp'', em_name = ''Burp Suite (external)'', em_version = ba_version a, em_vendor = ''PortSwigger'',
      em_license_spdx = BURP_LICENSE, em_license_class = RED, em_approval_status = APPROVED,
      em_integration = EXTERNAL_SERVICE, em_capabilities = [AUDIT_ACTIVE, AUDIT_PASSIVE, CRAWL_HTTP],
      em_image = None, em_homepage = Some ''https://portswigger.net/burp''\<rparr>"

definition has_error :: "BurpResponse \<Rightarrow> bool" where
  "has_error r \<longleftrightarrow> osor (br_error r) [] \<noteq> []"

definition burp_health :: "int \<Rightarrow> 's BurpAdapter \<Rightarrow> 's \<Rightarrow> HealthStatus res \<times> 's" where
  "burp_health now a s =
     (if \<not> burp_configured (ba_config a)
      then (Inr \<lparr>hs_state = UNAVAILABLE,
                 hs_detail = ''Burp integration not configured (no base_url/api_key). ''
                   @ ''Provide a customer-hosted Burp Suite instance to enable it.'', hs_checked_at = now\<rparr>, s)
      else (case bt_get (ba_transport a) ''/knowledge_base/issue_definitions'' s of
              (Inl e, s) \<Rightarrow> (Inl e, s)
            | (Inr resp, s) \<Rightarrow>
                (Inr (if has_error resp \<or> br_status resp \<ge> 500
                      then \<lparr>hs_state = UNAVAILABLE,
                            hs_detail = osor (br_error resp) (''HTTP '' @ str_of_int (br_status resp)),
                            hs_checked_at = now\<rparr>
                      else if br_status resp \<in> {401, 403}
                      then \<lparr>hs_state = DEGRADED, hs_detail = ''authentication rejected'', hs_checked_at = now\<rparr>
                      else \<lparr>hs_state = HEALTHY, hs_detail = ''Burp reachable'', hs_checked_at = now\<rparr>), s)))"

text \<open>The body that \<open>prepare_target\<close> leaves in the state of the prepared run.\<close>

definition burp_scan_body :: "EngineRunRequest \<Rightarrow> pyval" where
  "burp_scan_body request = PDict
     [(''urls'', PList (List.map PStr (rq_seed_urls request))),
      (''scope'', PDict [(''include'', PList (List.map (\<lambda>u. PDict [(''rule'', PStr u)]) (rq_seed_urls request)))]),
      (''application_logins'', PList [])]"

subsection \<open>Polling\<close>

definition issue_of :: "(string \<times> pyval) list \<Rightarrow> pyval" where
  "issue_of event = pget event ''issue'' (PDict event)"

definition poll_status :: "(rat \<Rightarrow> string) \<Rightarrow> BurpResponse \<Rightarrow> string" where
  "poll_status fr resp =
     lower (py_str fr (por (por (pfield (br_json resp) ''scan_status'') (pfield (br_json resp) ''status'')) (PStr [])))"

definition FINAL_STATUS :: "string list" where
  "FINAL_STATUS = [''succeeded'', ''finished'', ''completed'', ''paused'', ''failed'']"

definition poll_issues :: "BurpResponse \<Rightarrow> pyval list res" where
  "poll_issues resp =
     bind_res (py_iter (por (por (pfield (br_json resp) ''issue_events'') (pfield (br_json resp) ''issues'')) (PList [])))
       (\<lambda>issues. Inr (concat (List.map (\<lambda>i. case i of PDict d \<Rightarrow> [issue_of d] | _ \<Rightarrow> []) issues)))"

partial_function (option) burp_poll ::
  "(rat \<Rightarrow> string) \<Rightarrow> 's BurpTransport \<Rightarrow> rat \<Rightarrow> int \<Rightarrow> string \<Rightarrow> rat \<Rightarrow> 's \<Rightarrow> (pyval list res \<times> 's) option" where
  "burp_poll fr tr interval limit scan_id waited s =
     (if \<not> waited < of_int limit then Some (Inr [], s)
      else (case bt_get tr (''/scan/'' @ scan_id) s of
              (Inl e, s) \<Rightarrow> Some (Inl e, s)
            | (Inr resp, s) \<Rightarrow>
                if has_error resp then Some (Inr [], s)
                else if poll_status fr resp \<in> set FINAL_STATUS then Some (poll_issues resp, s)
                else burp_poll fr tr interval limit scan_id (fl (waited + interval)) s))"

definition burp_execute ::
  "(rat \<Rightarrow> string) \<Rightarrow> 's BurpAdapter \<Rightarrow> pyval \<Rightarrow> 's \<Rightarrow> (pyval list res \<times> 's) option" where
  "burp_execute fr a scan_body s =
     (if \<not> burp_configured (ba_config a) then Some (Inr [], s)
      else (case bt_post (ba_transport a) ''/scan'' scan_body s of
              (Inl e, s) \<Rightarrow> Some (Inl e, s)
            | (Inr start, s) \<Rightarrow>
                if has_error start \<or> br_status start \<notin> {200, 201} then Some (Inr [], s)
                else (let scan_id = py_str fr (por (por (pfield (br_json start) ''scan_id'')
                                                       (pfield (br_json start) ''id'')) (PStr []))
                      in if scan_id = [] then Some (Inr [], s)
                         else burp_poll fr (ba_transport a) (max (bc_poll_interval (ba_config a)) 1)
                                (ba_max_poll_seconds a) scan_id 0 s)))"

subsection \<open>Normalization\<close>

text \<open>\<open>re.findall(r"CWE-(\d+)", s)\<close>.\<close>

definition CWE_ID :: rx_group where
  "CWE_ID = \<lparr>rg_before = rx_text ''CWE-'', rg_group = Rx_Rep is_digit 1 None, rg_after = Rx_Empty\<rparr>"

definition burp_cwes :: "(rat \<Rightarrow> string) \<Rightarrow> (string \<times> pyval) list \<Rightarrow> int list res" where
  "burp_cwes fr issue =
     map_res int_of_text (rx_groups False CWE_ID
       (py_str fr (por (por (pfield issue ''vulnerability_classifications'') (pfield issue ''cwe'')) (PStr []))))"

definition burp_item_message :: "(rat \<Rightarrow> string) \<Rightarrow> pyval \<Rightarrow> HttpMessage list" where
  "burp_item_message fr item =
     (case item of
        PDict d \<Rightarrow>
          (case pget d ''request_response'' (PDict []) of
             PDict req \<Rightarrow> [\<lparr>hm_method = None, hm_url = None, hm_status = None, hm_headers = [],
                hm_body = Some (py_str fr (por (pget req ''request'' (PStr [])) (PStr []))), hm_body_truncated = False\<rparr>]
           | _ \<Rightarrow> [])
      | _ \<Rightarrow> [])"

definition burp_messages :: "(rat \<Rightarrow> string) \<Rightarrow> (string \<times> pyval) list \<Rightarrow> HttpMessage list" where
  "burp_messages fr issue =
     (case pfield issue ''evidence'' of
        PList items \<Rightarrow> concat (List.map (burp_item_message fr) (take 2 items))
      | _ \<Rightarrow> [])"

definition burp_hints :: "(string \<times> string) list" where
  "burp_hints =
     [(''cross-site scripting'', ''xss''), (''sql injection'', ''sql_injection''),
      (''os command'', ''command_injection''), (''path traversal'', ''path_traversal''),
      (''file path'', ''path_traversal''), (''server-side request forgery'', ''ssrf''), (''xml external'', ''xxe''),
      (''open redirect'', ''open_redirect''), (''cross-site request forgery'', ''csrf''),
      (''cleartext'', ''tls_weakness''), (''certificate'', ''tls_weakness''), (''cookie'', ''insecure_cookie''),
      (''cors'', ''cors_misconfiguration''), (''information disclosure'', ''information_disclosure''),
      (''deserialization'', ''insecure_deserialization'')]"

definition burp_guess_class :: "string \<Rightarrow> string" where
  "burp_guess_class name = guess_from burp_hints (lower name)"

definition burp_location :: "string \<Rightarrow> Location res" where
  "burp_location url = engine_location ''unknown'' ''GET'' (with_scheme url)"

text \<open>\<open>issue.get("name") or issue.get("issue_type", {}).get("name") or "Burp issue"\<close>.\<close>

definition burp_name :: "(rat \<Rightarrow> string) \<Rightarrow> (string \<times> pyval) list \<Rightarrow> string res" where
  "burp_name fr issue =
     (if truthy (pfield issue ''name'') then Inr (py_str fr (pfield issue ''name''))
      else (case pget issue ''issue_type'' (PDict []) of
              PDict d \<Rightarrow> Inr (py_str fr (por (pfield d ''name'') (PStr ''Burp issue'')))
            | _ \<Rightarrow> Inl (AttributeError ''object has no attribute get'')))"

definition burp_observation ::
  "(rat \<Rightarrow> string) \<Rightarrow> string \<Rightarrow> EngineRunRequest \<Rightarrow> (string \<times> pyval) list \<Rightarrow> Observation res" where
  "burp_observation fr version request issue =
     (let severity = burp_severity (lower (py_str fr (pget issue ''severity'' (PStr ''info''))));
          confidence = burp_confidence (lower (py_str fr (pget issue ''confidence'' (PStr ''tentative''))))
      in bind_res (burp_cwes fr issue) (\<lambda>cwes.
         bind_res (burp_name fr issue) (\<lambda>name.
           (let origin = py_str fr (pget issue ''origin'' (PStr []));
                path = py_str fr (pget issue ''path'' (PStr ''/''));
                url = (if origin \<noteq> [] then origin @ path else path)
            in bind_res (burp_location url) (\<lambda>loc.
               (let items = burp_messages fr issue
                in bind_res (draft_evidence HTTP_EXCHANGE ''burp''
                     (''Burp reported '' @ [CHR 0x27] @ name @ [CHR 0x27] @ '' ('' @ severity_value severity @ ''/''
                       @ confidence_value confidence @ '')'')
                     (case items of [] \<Rightarrow> None | m # ms \<Rightarrow> Some m)
                     (case items of m # m' # ms \<Rightarrow> Some m' | _ \<Rightarrow> None)
                     (if url \<noteq> [] then [url] else [])
                     [(''burp_confidence'', PStr (py_str fr (pget issue ''confidence'' (PStr []))))]) (\<lambda>ev.
                   Inr ((draft_observation request ''burp'' version
                           (py_str fr (por (por (pfield issue ''type_index'') (pfield issue ''serial_number'')) (PStr name)))
                           name (vc_key (classify_cwes cwes (Some (burp_guess_class name)))) severity cwes loc
                           (strip_html (py_str fr (pget issue ''description'' (PStr []))))
                           (strip_html (py_str fr (pget issue ''remediation'' (PStr [])))) [] ev None)
                         \<lparr>obs_confidence := confidence\<rparr>))))))))"

text \<open>An issue that is not an object has no \<open>get\<close>.\<close>

definition burp_issue :: "(rat \<Rightarrow> string) \<Rightarrow> string \<Rightarrow> EngineRunRequest \<Rightarrow> pyval \<Rightarrow> Observation res" where
  "burp_issue fr version request issue =
     (case issue of
        PDict d \<Rightarrow> burp_observation fr version request d
      | _ \<Rightarrow> Inl (AttributeError ''object has no attribute get''))"

definition burp_normalize ::
  "(rat \<Rightarrow> string) \<Rightarrow> string \<Rightarrow> pyval list \<Rightarrow> EngineRunRequest \<Rightarrow> Observation list res" where
  "burp_normalize fr version issues request = map_res (burp_issue fr version request) issues"

text \<open>
  The calls of one run in the order in which the orchestrator makes them (\<open>engine_calls\<close>), with the state
  of the transport passed on; \<open>collect_results\<close> hands the issues on unchanged.
\<close>

definition burp_calls ::
  "(rat \<Rightarrow> string) \<Rightarrow> (nat \<Rightarrow> nat \<Rightarrow> string) \<Rightarrow> (nat \<Rightarrow> int) \<Rightarrow> int \<Rightarrow> 's BurpAdapter \<Rightarrow> EngineRunRequest \<Rightarrow> 's \<Rightarrow>
   (Observation list option res \<times> 's) option" where
  "burp_calls fr ids tms now a request s =
     (case burp_health now a s of
        (Inl e, s) \<Rightarrow> Some (Inl e, s)
      | (Inr health, s) \<Rightarrow>
          if hs_state health = UNAVAILABLE then Some (Inr None, s)
          else (case burp_execute fr a (burp_scan_body request) s of
                  None \<Rightarrow> None
                | Some (Inl e, s) \<Rightarrow> Some (Inl e, s)
                | Some (Inr issues, s) \<Rightarrow>
                    (case burp_normalize fr (ba_version a) issues request of
                       Inl e \<Rightarrow> Some (Inl e, s)
                     | Inr drafts \<Rightarrow>
                         Some (Inr (Some (List.map (\<lambda>(n, ob). stamp_observation ids tms n ob) (enumerate 0 drafts))),
                               bt_cleanup (ba_transport a) s))))"

subsection \<open>Observations\<close>

lemma burp_confidence_values: "burp_confidence s = TENTATIVE \<or> burp_confidence s = FIRM"
  by (simp add: burp_confidence_def dget_or_def split: option.splits)

lemma burp_confidence_unconfirmed: "burp_confidence s \<noteq> CONFIRMED"
  using burp_confidence_values [of s] by auto

lemma burp_observation_ok:
  "burp_observation fr version request issue = Inr ob \<Longrightarrow> draft_ok ''burp'' version request ob"
  unfolding burp_observation_def Let_def bind_res_Inr_iff burp_location_def
  by (elim exE conjE)
    (clarsimp, rule draft_ok_confidence, rule draft_ok_made, assumption, erule engine_location_ok(1), simp,
      rule burp_confidence_unconfirmed)

lemma burp_observation_confidence:
  "burp_observation fr version request d = Inr ob \<Longrightarrow>
     obs_confidence ob = burp_confidence (lower (py_str fr (pget d ''confidence'' (PStr ''tentative''))))"
  unfolding burp_observation_def Let_def bind_res_Inr_iff by (elim exE conjE) clarsimp

lemma map_res_mem: "map_res f xs = Inr ys \<Longrightarrow> y \<in> set ys \<Longrightarrow> \<exists>x \<in> set xs. f x = Inr y"
  by (induction xs arbitrary: ys) (auto simp: bind_res_Inr_iff)

lemma draft_ok_evidence:
  "draft_ok eid version request ob \<Longrightarrow>
     \<exists>ev. obs_evidence ob = [ev] \<and> ev_engine_id ev = eid \<and> length (ev_summary ev) \<le> MAX_SUMMARY"
  by (auto simp: draft_ok_def summary_ok_def length_Suc_conv)

lemma burp_normalize_mem:
  assumes "burp_normalize fr version issues request = Inr drafts" and "ob \<in> set drafts"
  obtains d where "PDict d \<in> set issues" "burp_observation fr version request d = Inr ob"
proof -
  from assms obtain i where i: "i \<in> set issues" "burp_issue fr version request i = Inr ob"
    by (auto simp: burp_normalize_def dest: map_res_mem)
  from i(2) obtain d where "i = PDict d" by (cases i) (simp_all add: burp_issue_def)
  with i that show ?thesis by (simp add: burp_issue_def)
qed

text \<open>
  C26: an observation made of a Burp issue carries the identifiers of the request, is never CONFIRMED (that
  Burp is certain makes it firm), has a normalized location, the class correlation derives from its
  CWE numbers and one piece of evidence; there is one for each issue, or none at all.
\<close>

theorem burp_observations_typed:
  assumes "burp_normalize fr version issues request = Inr drafts"
  shows "length drafts = length issues \<and> list_all (\<lambda>ob.
    obs_scan_id ob = rq_scan_id request \<and> obs_run_id ob = rq_run_id request \<and> obs_engine_id ob = ''burp'' \<and>
    obs_engine_version ob = version \<and> obs_confidence ob \<in> {TENTATIVE, FIRM} \<and>
    Location_validate (obs_location ob) = obs_location ob \<and> vc_key (obs_class ob) = obs_vuln_class ob \<and>
    (\<exists>ev. obs_evidence ob = [ev] \<and> ev_engine_id ev = ''burp'' \<and> length (ev_summary ev) \<le> MAX_SUMMARY)) drafts"
proof
  show "length drafts = length issues"
    using assms unfolding burp_normalize_def map_res_Inr_iff by (simp add: list_all2_lengthD)
  have "obs_confidence ob \<in> {TENTATIVE, FIRM} \<and> draft_ok ''burp'' version request ob" if mem: "ob \<in> set drafts" for ob
  proof -
    obtain d where d: "burp_observation fr version request d = Inr ob" by (rule burp_normalize_mem [OF assms mem])
    show ?thesis
      using burp_confidence_values by (simp add: burp_observation_confidence [OF d] burp_observation_ok [OF d])
  qed
  then show "list_all (\<lambda>ob.
    obs_scan_id ob = rq_scan_id request \<and> obs_run_id ob = rq_run_id request \<and> obs_engine_id ob = ''burp'' \<and>
    obs_engine_version ob = version \<and> obs_confidence ob \<in> {TENTATIVE, FIRM} \<and>
    Location_validate (obs_location ob) = obs_location ob \<and> vc_key (obs_class ob) = obs_vuln_class ob \<and>
    (\<exists>ev. obs_evidence ob = [ev] \<and> ev_engine_id ev = ''burp'' \<and> length (ev_summary ev) \<le> MAX_SUMMARY)) drafts"
    unfolding list_all_iff using draft_ok_evidence by (fastforce simp: draft_ok_def)
qed

text \<open>
  The response of the evidence is the request of the second item: what Burp saw as a response is not kept.
\<close>

lemma burp_evidence_of_two:
  assumes "burp_observation fr version request issue = Inr ob" and "burp_messages fr issue = [m, m']"
  shows "\<exists>ev. obs_evidence ob = [ev] \<and> ev_request ev = Some (HttpMessage_validate m) \<and>
    ev_response ev = Some (HttpMessage_validate m')"
  using assms(1) unfolding burp_observation_def Let_def bind_res_Inr_iff
  by (elim exE conjE) (auto simp: assms(2) draft_observation_def draft_evidence_def split: if_splits)

subsection \<open>Polling ends\<close>

lemma fl_step:
  assumes "0 \<le> waited" and "1 \<le> interval" and "waited < of_int limit" and "limit < 2 ^ 53"
  shows "of_int (\<lfloor>waited\<rfloor> + 1) \<le> fl (waited + interval)"
proof -
  have n: "0 \<le> \<lfloor>waited\<rfloor> + 1" "\<lfloor>waited\<rfloor> + 1 < 2 ^ 53 + 1" using assms by linarith+
  have "\<lfloor>waited\<rfloor> < limit" using assms(3) by linarith
  with assms(4) have "\<lfloor>waited\<rfloor> + 1 < 2 ^ 53" by linarith
  with n(1) have "fl (of_int (\<lfloor>waited\<rfloor> + 1)) = of_int (\<lfloor>waited\<rfloor> + 1)" by (rule fl_of_int)
  moreover have "fl (of_int (\<lfloor>waited\<rfloor> + 1)) \<le> fl (waited + interval)"
    using assms(1,2) n(1) by (intro fl_mono) linarith+
  ultimately show ?thesis by simp
qed

lemma burp_poll_step:
  assumes "waited < of_int limit" and "bt_get tr (''/scan/'' @ scan_id) s = (r0, s1)"
  shows "(\<exists>r. burp_poll fr tr interval limit scan_id waited s = Some (r, s1)) \<or>
    burp_poll fr tr interval limit scan_id waited s =
      burp_poll fr tr interval limit scan_id (fl (waited + interval)) s1"
  using burp_poll.simps [of fr tr interval limit scan_id waited s] assms by (cases r0) auto

text \<open>The state after \<open>n\<close> requests of one path.\<close>

definition after_gets :: "'s BurpTransport \<Rightarrow> string \<Rightarrow> nat \<Rightarrow> 's \<Rightarrow> 's" where
  "after_gets tr path n s = ((\<lambda>s. snd (bt_get tr path s)) ^^ n) s"

lemma after_gets_Suc: "after_gets tr path (Suc n) s = after_gets tr path n (snd (bt_get tr path s))"
  by (simp only: after_gets_def funpow_Suc_right comp_apply)

lemma burp_poll_ends:
  assumes "0 \<le> waited" and "1 \<le> interval" and "limit < 2 ^ 53"
  shows "\<exists>n r. n \<le> nat (limit - \<lfloor>waited\<rfloor>) \<and>
    burp_poll fr tr interval limit scan_id waited s = Some (r, after_gets tr (''/scan/'' @ scan_id) n s)"
  using assms(1)
proof (induction "nat (limit - \<lfloor>waited\<rfloor>)" arbitrary: waited s rule: less_induct)
  case less
  define path where "path = ''/scan/'' @ scan_id"
  note step = burp_poll.simps [of fr tr interval limit scan_id, folded path_def]
  have "\<exists>n r. n \<le> nat (limit - \<lfloor>waited\<rfloor>) \<and>
    burp_poll fr tr interval limit scan_id waited s = Some (r, after_gets tr path n s)"
  proof (cases "waited < of_int limit")
    case False
    then have "burp_poll fr tr interval limit scan_id waited s = Some (Inr [], after_gets tr path 0 s)"
      by (subst step) (simp add: after_gets_def)
    then show ?thesis by blast
  next
    case True
    then have pos: "\<lfloor>waited\<rfloor> < limit" by linarith
    obtain r0 s1 where g: "bt_get tr path s = (r0, s1)" by fastforce
    have one: "after_gets tr path 1 s = s1" by (simp add: after_gets_def g)
    from burp_poll_step [OF True g [unfolded path_def], of fr interval]
    consider (stop) r where "burp_poll fr tr interval limit scan_id waited s = Some (r, s1)"
      | (on) "burp_poll fr tr interval limit scan_id waited s =
          burp_poll fr tr interval limit scan_id (fl (waited + interval)) s1"
      by blast
    then show ?thesis
    proof cases
      case stop
      moreover have "1 \<le> nat (limit - \<lfloor>waited\<rfloor>)" using pos by simp
      ultimately show ?thesis using one by metis
    next
      case on
      have up: "of_int (\<lfloor>waited\<rfloor> + 1) \<le> fl (waited + interval)"
        using less.prems assms(2) True assms(3) by (rule fl_step)
      then have "\<lfloor>waited\<rfloor> + 1 \<le> \<lfloor>fl (waited + interval)\<rfloor>" by (simp add: le_floor_iff)
      then have "nat (limit - \<lfloor>fl (waited + interval)\<rfloor>) < nat (limit - \<lfloor>waited\<rfloor>)" using pos by linarith
      moreover from up less.prems have "0 \<le> fl (waited + interval)" by linarith
      ultimately obtain n r where n: "n \<le> nat (limit - \<lfloor>fl (waited + interval)\<rfloor>)"
        and p: "burp_poll fr tr interval limit scan_id (fl (waited + interval)) s1 = Some (r, after_gets tr path n s1)"
        using less.hyps unfolding path_def by blast
      have "Suc n \<le> nat (limit - \<lfloor>waited\<rfloor>)"
        using n \<open>nat (limit - \<lfloor>fl (waited + interval)\<rfloor>) < nat (limit - \<lfloor>waited\<rfloor>)\<close> by linarith
      moreover have "after_gets tr path (Suc n) s = after_gets tr path n s1" by (simp add: after_gets_Suc g)
      ultimately show ?thesis using on p by metis
    qed
  qed
  then show ?case unfolding path_def .
qed

subsection \<open>What a run sends\<close>

lemma httpx_gets:
  "\<exists>m \<le> n. hx_sent (after_gets (HttpxBurpTransport w cfg) path n s) = hx_sent s @ replicate m (''GET'', path)"
proof (induction n arbitrary: s)
  case (Suc n)
  let ?s = "snd (bt_get (HttpxBurpTransport w cfg) path s)"
  have "hx_sent ?s = hx_sent s \<or> hx_sent ?s = hx_sent s @ [(''GET'', path)]"
    by (auto simp: HttpxBurpTransport_def burp_send_def burp_ensure_def split: sum.splits option.splits if_splits)
  moreover obtain m where m: "m \<le> n" "hx_sent (after_gets (HttpxBurpTransport w cfg) path n ?s) =
      hx_sent ?s @ replicate m (''GET'', path)" using Suc.IH by blast
  ultimately show ?case
  proof (elim disjE)
    assume "hx_sent ?s = hx_sent s"
    with m show ?thesis by (intro exI [of _ m]) (simp add: after_gets_Suc)
  next
    assume "hx_sent ?s = hx_sent s @ [(''GET'', path)]"
    with m show ?thesis by (intro exI [of _ "Suc m"]) (simp add: after_gets_Suc)
  qed
qed (simp add: after_gets_def)

lemma burp_execute_cases:
  assumes "bt_post (ba_transport a) ''/scan'' body s = (r0, s1)"
  shows "(\<exists>r. burp_execute fr a body s = Some (r, s)) \<or> (\<exists>r. burp_execute fr a body s = Some (r, s1)) \<or>
    (\<not> isl r0 \<and> (\<exists>scan_id. burp_execute fr a body s =
       burp_poll fr (ba_transport a) (max (bc_poll_interval (ba_config a)) 1) (ba_max_poll_seconds a) scan_id 0 s1))"
  using assms by (cases r0) (auto simp: burp_execute_def Let_def)

lemma burp_execute_sends:
  assumes "ba_transport a = HttpxBurpTransport w cfg" and "ba_max_poll_seconds a < 2 ^ 53"
  shows "\<exists>r s' msgs. burp_execute fr a body s = Some (r, s') \<and> hx_sent s' = hx_sent s @ msgs \<and>
    (msgs = [] \<or> (\<exists>n scan_id. n \<le> nat (ba_max_poll_seconds a) \<and>
       msgs = (''POST'', ''/scan'') # replicate n (''GET'', ''/scan/'' @ scan_id)))"
proof -
  let ?tr = "HttpxBurpTransport w cfg"
  obtain r0 s1 where post: "bt_post ?tr ''/scan'' body s = (r0, s1)" by fastforce
  then have s1: "hx_sent s1 = hx_sent s \<and> isl r0 \<or> hx_sent s1 = hx_sent s @ [(''POST'', ''/scan'')] \<and> \<not> isl r0"
    by (auto simp: HttpxBurpTransport_def burp_send_def burp_ensure_def split: sum.splits option.splits if_splits)
  from burp_execute_cases [of a body s r0 s1 fr] post assms(1)
  consider (stop) r where "burp_execute fr a body s = Some (r, s)"
    | (posted) r where "burp_execute fr a body s = Some (r, s1)"
    | (poll) scan_id where "\<not> isl r0" "burp_execute fr a body s =
        burp_poll fr ?tr (max (bc_poll_interval (ba_config a)) 1) (ba_max_poll_seconds a) scan_id 0 s1"
    by auto
  then show ?thesis
  proof cases
    case posted
    with s1 show ?thesis by (metis append_Nil2 le0 replicate_0)
  next
    case poll
    obtain n r where n: "n \<le> nat (ba_max_poll_seconds a)" "burp_execute fr a body s =
        Some (r, after_gets ?tr (''/scan/'' @ scan_id) n s1)"
      using burp_poll_ends [of 0 "max (bc_poll_interval (ba_config a)) 1" "ba_max_poll_seconds a" fr ?tr scan_id s1]
        assms(2) poll(2) by auto
    obtain m where "m \<le> n" "hx_sent (after_gets ?tr (''/scan/'' @ scan_id) n s1) =
        hx_sent s1 @ replicate m (''GET'', ''/scan/'' @ scan_id)" using httpx_gets by blast
    then have "m \<le> nat (ba_max_poll_seconds a)" "hx_sent (after_gets ?tr (''/scan/'' @ scan_id) n s1) =
        hx_sent s @ (''POST'', ''/scan'') # replicate m (''GET'', ''/scan/'' @ scan_id)"
      using n(1) s1 poll(1) by auto
    with n(2) show ?thesis by metis
  qed auto
qed

lemma burp_calls_cases:
  assumes "burp_health now a s = (h, s1)" and "burp_execute fr a (burp_scan_body request) s1 = Some (r1, s2)"
  shows "(\<exists>r. burp_calls fr ids tms now a request s = Some (r, s1)) \<or>
    (\<not> isl h \<and> (\<exists>r s'. burp_calls fr ids tms now a request s = Some (r, s') \<and>
       (s' = s2 \<or> s' = bt_cleanup (ba_transport a) s2)))"
  using assms by (cases h; cases r1) (auto simp: burp_calls_def split: sum.splits)

text \<open>
  C25: a run of the adapter returns, whatever the Burp instance answers: without a base URL it sends
  nothing and reports no observations; otherwise it asks for the issue definitions, starts at most one scan
  and asks for its state at most once per second of the polling limit, and sends nothing else.
\<close>

theorem burp_run_bounded:
  assumes "ba_transport a = HttpxBurpTransport w cfg" and "ba_max_poll_seconds a < 2 ^ 53"
  shows "\<exists>r s' msgs. burp_calls fr ids tms now a request s = Some (r, s') \<and> hx_sent s' = hx_sent s @ msgs \<and>
    (if bc_base_url (ba_config a) = [] then r = Inr None \<and> s' = s else
     msgs = [] \<or> msgs = [(''GET'', ''/knowledge_base/issue_definitions'')] \<or>
     (\<exists>n scan_id. n \<le> nat (ba_max_poll_seconds a) \<and>
        msgs = [(''GET'', ''/knowledge_base/issue_definitions''), (''POST'', ''/scan'')] @
          replicate n (''GET'', ''/scan/'' @ scan_id)))"
proof (cases "burp_configured (ba_config a)")
  case False
  then show ?thesis by (simp add: burp_calls_def burp_health_def burp_configured_def)
next
  case True
  let ?kb = "(''GET'', ''/knowledge_base/issue_definitions'')"
  obtain h s1 where h: "burp_health now a s = (h, s1)" by fastforce
  have sent: "hx_sent s1 = hx_sent s @ (if isl h then [] else [?kb])"
    using h True assms(1)
    by (auto simp: burp_health_def HttpxBurpTransport_def burp_send_def burp_ensure_def
        split: sum.splits option.splits if_splits)
  obtain r1 s2 msgs where e: "burp_execute fr a (burp_scan_body request) s1 = Some (r1, s2)"
    and m: "hx_sent s2 = hx_sent s1 @ msgs" "msgs = [] \<or> (\<exists>n scan_id. n \<le> nat (ba_max_poll_seconds a) \<and>
       msgs = (''POST'', ''/scan'') # replicate n (''GET'', ''/scan/'' @ scan_id))"
    using burp_execute_sends [OF assms] by blast
  have done_sent: "hx_sent (bt_cleanup (ba_transport a) s2) = hx_sent s2"
    by (simp add: assms(1) HttpxBurpTransport_def burp_aclose_def)
  from burp_calls_cases [OF h e, of ids tms] done_sent
  consider (early) r where "burp_calls fr ids tms now a request s = Some (r, s1)"
    | (late) r s' where "\<not> isl h" "burp_calls fr ids tms now a request s = Some (r, s')" "hx_sent s' = hx_sent s2"
    by metis
  then show ?thesis
  proof cases
    case early
    with sent True show ?thesis by (auto simp: burp_configured_def)
  next
    case late
    with sent m(1) have "hx_sent s' = hx_sent s @ ?kb # msgs" by simp
    with late(2) m(2) True show ?thesis by (auto simp: burp_configured_def)
  qed
qed

subsection \<open>Concrete runs\<close>

definition demo_burp_config :: BurpConfig where
  "demo_burp_config =
     \<lparr>bc_base_url = ''https://burp.example/'', bc_api_key = ''k'', bc_api_prefix = ''/v0.1'',
      bc_poll_interval = 5, bc_verify_tls = True\<rparr>"

definition demo_wire :: BurpWire where
  "demo_wire =
     \<lparr>bw_client = (\<lambda>base. None),
      bw_request = (\<lambda>n mth base path headers body. Inr (if mth = ''POST'' then 201 else 200, path)),
      bw_json = (\<lambda>s. Inr (PDict (if s = ''/scan'' then [(''scan_id'', PStr ''7'')]
                               else if s = ''/scan/7'' then [(''status'', PStr ''Succeeded'')] else [])))\<rparr>"

definition demo_burp :: "HttpxState BurpAdapter" where
  "demo_burp =
     \<lparr>ba_config = demo_burp_config, ba_version = ''external'',
      ba_transport = HttpxBurpTransport demo_wire demo_burp_config, ba_max_poll_seconds = 3600\<rparr>"

definition burp_request :: EngineRunRequest where
  "burp_request =
     \<lparr>rq_run_id = ''r'', rq_scan_id = ''s'', rq_tenant_id = ''acme'', rq_engine_id = ''burp'',
      rq_capabilities = [AUDIT_ACTIVE], rq_seed_urls = [''http://h.example/''], rq_scope_rules = [],
      rq_max_requests_per_second = 5, rq_max_concurrency = 4, rq_options = [], rq_auth_context = None,
      rq_proxy_url = None\<rparr>"

theorem burp_run_bounded_witness:
  "\<exists>r s'. burp_calls (\<lambda>q. ''1.0'') (\<lambda>n i. ''id'') int 0 demo_burp burp_request \<lparr>hx_open = False, hx_sent = []\<rparr> =
     Some (r, s') \<and> length (hx_sent s') \<le> 3602"
proof -
  have a: "ba_transport demo_burp = HttpxBurpTransport demo_wire demo_burp_config"
    "ba_max_poll_seconds demo_burp = 3600" "bc_base_url (ba_config demo_burp) \<noteq> []"
    by (simp_all add: demo_burp_def demo_burp_config_def)
  from burp_run_bounded [OF a(1), of "\<lambda>q. ''1.0''" "\<lambda>n i. ''id''" int 0 burp_request "\<lparr>hx_open = False, hx_sent = []\<rparr>"]
  show ?thesis using a(2,3) by (auto simp del: One_nat_def)
qed

definition demo_issue :: "(string \<times> pyval) list" where
  "demo_issue =
     [(''name'', PStr ''SQL injection''), (''confidence'', PStr ''Certain''), (''cwe'', PStr ''CWE-89''),
      (''origin'', PStr ''http://h.example''), (''path'', PStr ''/q'')]"

lemma demo_issue_observed:
  "\<exists>ob. burp_observation (\<lambda>q. ''1.0'') ''external'' burp_request demo_issue = Inr ob"
proof -
  have "burp_cwes (\<lambda>q. ''1.0'') demo_issue = Inr [89]" "burp_name (\<lambda>q. ''1.0'') demo_issue = Inr ''SQL injection''"
    "case burp_location ''http://h.example/q'' of Inr l \<Rightarrow> True | Inl e \<Rightarrow> False"
    "burp_messages (\<lambda>q. ''1.0'') demo_issue = []" "confidence_value (burp_confidence (lower ''Certain'')) = ''firm''"
    "severity_value (burp_severity (lower ''info'')) = ''info''" by code_simp+
  then show ?thesis
    by (auto simp: burp_observation_def Let_def pget_def demo_issue_def draft_evidence_def summary_ok_def
        MAX_SUMMARY_def split: sum.splits)
qed

theorem burp_observations_typed_witness:
  "\<exists>ob :: Observation. burp_normalize (\<lambda>q. ''1.0'') ''external'' [PDict demo_issue] burp_request = Inr [ob] \<and>
     obs_confidence ob \<in> {TENTATIVE, FIRM} \<and> obs_engine_id ob = ''burp''"
proof -
  obtain ob where "burp_observation (\<lambda>q. ''1.0'') ''external'' burp_request demo_issue = Inr ob"
    using demo_issue_observed by blast
  then have n: "burp_normalize (\<lambda>q. ''1.0'') ''external'' [PDict demo_issue] burp_request = Inr [ob]"
    by (simp add: burp_normalize_def burp_issue_def)
  from burp_observations_typed [OF this] n show ?thesis by simp
qed

end
