(* ===== verification/Loading.thy ===== *)
theory Loading
  imports Inventory Registry
begin

text \<open>
  The files of the inventory, of the engine manifests and of the engine lock as models (the declarations of
  \<open>vantage/governance/inventory.py\<close> and \<open>vantage/engines/registry.py\<close>): which keys an entry may and must have,
  their types, defaults and bounds.  Parsing YAML is not modelled, a file is its parsed value or the error
  of reading it; what a scalar field accepts besides values of its own type is a parameter.
\<close>

subsection \<open>Fields\<close>

record Coercions =
  cv_str :: "pyval \<Rightarrow> string option"
  cv_bool :: "pyval \<Rightarrow> bool option"
  cv_int :: "pyval \<Rightarrow> int option"
  cv_float :: "pyval \<Rightarrow> rat option"

definition checked :: "'a option \<Rightarrow> 'a res" where
  "checked v = (case v of None \<Rightarrow> Inl (ValidationError ''type'') | Some x \<Rightarrow> Inr x)"

definition required :: "(string \<times> pyval) list \<Rightarrow> string \<Rightarrow> (pyval \<Rightarrow> 'a res) \<Rightarrow> 'a res" where
  "required d k f = (case dget d k of None \<Rightarrow> Inl (ValidationError k) | Some v \<Rightarrow> f v)"

definition defaulted :: "(string \<times> pyval) list \<Rightarrow> string \<Rightarrow> 'a \<Rightarrow> (pyval \<Rightarrow> 'a res) \<Rightarrow> 'a res" where
  "defaulted d k dflt f = (case dget d k of None \<Rightarrow> Inr dflt | Some v \<Rightarrow> f v)"

text \<open>\<open>extra="forbid"\<close>: an object with no other keys.\<close>

definition fields_of :: "string list \<Rightarrow> pyval \<Rightarrow> (string \<times> pyval) list res" where
  "fields_of names v =
     (case v of
        PDict d \<Rightarrow> if list_all (\<lambda>(k, x). k \<in> set names) d then Inr d else Inl (ValidationError ''extra_forbidden'')
      | _ \<Rightarrow> Inl (ValidationError ''model_type''))"

definition enum_field :: "('a \<Rightarrow> string) \<Rightarrow> 'a list \<Rightarrow> pyval \<Rightarrow> 'a res" where
  "enum_field value_of members v =
     (case v of PStr s \<Rightarrow> checked (List.find (\<lambda>c. value_of c = s) members) | _ \<Rightarrow> Inl (ValidationError ''enum''))"

definition list_field :: "(pyval \<Rightarrow> 'a res) \<Rightarrow> pyval \<Rightarrow> 'a list res" where
  "list_field f v = (case v of PList xs \<Rightarrow> map_res f xs | _ \<Rightarrow> Inl (ValidationError ''list''))"

definition dict_field :: "(pyval \<Rightarrow> 'a res) \<Rightarrow> pyval \<Rightarrow> (string, 'a) dict res" where
  "dict_field f v =
     (case v of PDict d \<Rightarrow> map_res (\<lambda>(k, x). bind_res (f x) (\<lambda>y. Inr (k, y))) d | _ \<Rightarrow> Inl (ValidationError ''dict''))"

definition optional_field :: "(pyval \<Rightarrow> 'a res) \<Rightarrow> pyval \<Rightarrow> 'a option res" where
  "optional_field f v = (if v = PNone then Inr None else bind_res (f v) (\<lambda>x. Inr (Some x)))"

abbreviation str_field :: "Coercions \<Rightarrow> pyval \<Rightarrow> string res" where
  "str_field cv v \<equiv> checked (cv_str cv v)"

abbreviation bool_field :: "Coercions \<Rightarrow> pyval \<Rightarrow> bool res" where
  "bool_field cv v \<equiv> checked (cv_bool cv v)"

abbreviation int_field :: "Coercions \<Rightarrow> pyval \<Rightarrow> int res" where
  "int_field cv v \<equiv> checked (cv_int cv v)"

subsection \<open>The inventory\<close>

definition COMPONENT_FIELDS :: "string list" where
  "COMPONENT_FIELDS =
     [''name'', ''version'', ''repository'', ''license'', ''copyright'', ''integration_type'', ''source_distribution_required'',
      ''modification_required'', ''network_service'', ''static_linking'', ''dynamic_linking'', ''containerized'',
      ''redistribution_allowed'', ''commercial_risk'', ''approval_status'', ''approval_reference'', ''notes'']"

definition inventory_integration_field :: "pyval \<Rightarrow> InventoryIntegration res" where
  "inventory_integration_field =
     enum_field inventory_integration_value
       [LIBRARY_STATIC, LIBRARY_DYNAMIC, INV_CONTAINER_CLI, INV_CONTAINER_API, CONTENT, BUILD_ONLY]"

definition approval_field :: "pyval \<Rightarrow> ApprovalStatus res" where
  "approval_field = enum_field approval_value [APPROVED, PENDING_REVIEW, REJECTED]"

definition Component_validate :: "Coercions \<Rightarrow> pyval \<Rightarrow> Component res" where
  "Component_validate cv v =
     bind_res (fields_of COMPONENT_FIELDS v) (\<lambda>d.
     bind_res (required d ''name'' (str_field cv)) (\<lambda>name.
     bind_res (required d ''version'' (str_field cv)) (\<lambda>version.
     bind_res (defaulted d ''repository'' [] (str_field cv)) (\<lambda>repository.
     bind_res (required d ''license'' (str_field cv)) (\<lambda>license.
     bind_res (defaulted d ''copyright'' [] (str_field cv)) (\<lambda>copyright.
     bind_res (required d ''integration_type'' inventory_integration_field) (\<lambda>integration.
     bind_res (defaulted d ''source_distribution_required'' False (bool_field cv)) (\<lambda>source_required.
     bind_res (defaulted d ''modification_required'' False (bool_field cv)) (\<lambda>modification.
     bind_res (defaulted d ''network_service'' False (bool_field cv)) (\<lambda>network.
     bind_res (defaulted d ''static_linking'' False (bool_field cv)) (\<lambda>static.
     bind_res (defaulted d ''dynamic_linking'' False (bool_field cv)) (\<lambda>dynamic.
     bind_res (defaulted d ''containerized'' False (bool_field cv)) (\<lambda>containerized.
     bind_res (defaulted d ''redistribution_allowed'' True (bool_field cv)) (\<lambda>redistribution.
     bind_res (defaulted d ''commercial_risk'' ''unknown'' (str_field cv)) (\<lambda>risk.
     bind_res (defaulted d ''approval_status'' PENDING_REVIEW approval_field) (\<lambda>approval.
     bind_res (defaulted d ''approval_reference'' [] (str_field cv)) (\<lambda>reference.
     bind_res (defaulted d ''notes'' [] (str_field cv)) (\<lambda>notes. Inr
       \<lparr>co_name = name, co_version = version, co_repository = repository, co_license = license, co_copyright = copyright,
        co_integration_type = integration, co_source_distribution_required = source_required,
        co_modification_required = modification, co_network_service = network, co_static_linking = static,
        co_dynamic_linking = dynamic, co_containerized = containerized, co_redistribution_allowed = redistribution,
        co_commercial_risk = risk, co_approval_status = approval, co_approval_reference = reference,
        co_notes = notes\<rparr>))))))))))))))))))"

definition Inventory_validate :: "Coercions \<Rightarrow> pyval \<Rightarrow> Inventory res" where
  "Inventory_validate cv v =
     bind_res (fields_of [''version'', ''components''] v) (\<lambda>d.
     bind_res (defaulted d ''version'' 1 (int_field cv)) (\<lambda>version.
     bind_res (defaulted d ''components'' [] (list_field (Component_validate cv))) (\<lambda>components. Inr
       \<lparr>inv_version = version, inv_components = components\<rparr>)))"

definition Inventory_load :: "Coercions \<Rightarrow> pyval res \<Rightarrow> Inventory res" where
  "Inventory_load cv doc = bind_res doc (\<lambda>data. Inventory_validate cv (por data (PDict [])))"

subsection \<open>The engine lock and the manifests\<close>

definition EngineLockEntry_validate :: "Coercions \<Rightarrow> pyval \<Rightarrow> EngineLockEntry res" where
  "EngineLockEntry_validate cv v =
     bind_res (fields_of [''version'', ''image_digest'', ''license'', ''verified_date''] v) (\<lambda>d.
     bind_res (required d ''version'' (str_field cv)) (\<lambda>version.
     bind_res (defaulted d ''image_digest'' None (optional_field (str_field cv))) (\<lambda>digest.
     bind_res (required d ''license'' (str_field cv)) (\<lambda>license.
     bind_res (defaulted d ''verified_date'' [] (str_field cv)) (\<lambda>date. Inr
       \<lparr>lk_version = version, lk_image_digest = digest, lk_license = license, lk_verified_date = date\<rparr>)))))"

definition EngineLock_validate :: "Coercions \<Rightarrow> pyval \<Rightarrow> EngineLock res" where
  "EngineLock_validate cv v =
     bind_res (fields_of [''engines''] v) (\<lambda>d. defaulted d ''engines'' [] (dict_field (EngineLockEntry_validate cv)))"

text \<open>\<open>None\<close> is a lock file that does not exist.\<close>

definition load_lock :: "Coercions \<Rightarrow> pyval res option \<Rightarrow> EngineLock res" where
  "load_lock cv doc =
     (case doc of None \<Rightarrow> Inr []
      | Some file \<Rightarrow> bind_res file (\<lambda>data. EngineLock_validate cv (por data (PDict []))))"

definition ResourceLimits_validate :: "Coercions \<Rightarrow> pyval \<Rightarrow> ResourceLimits res" where
  "ResourceLimits_validate cv v =
     bind_res (fields_of [''cpus'', ''memory_mb'', ''pids'', ''timeout_seconds'', ''max_output_bytes'', ''tmpfs_mb''] v) (\<lambda>d.
     bind_res (defaulted d ''cpus'' 1 (\<lambda>x. checked (cv_float cv x))) (\<lambda>cpus.
     bind_res (defaulted d ''memory_mb'' 1024 (int_field cv)) (\<lambda>memory.
     bind_res (defaulted d ''pids'' 512 (int_field cv)) (\<lambda>pids.
     bind_res (defaulted d ''timeout_seconds'' 3600 (int_field cv)) (\<lambda>timeout.
     bind_res (defaulted d ''max_output_bytes'' (256 * 1024 * 1024) (int_field cv)) (\<lambda>output.
     bind_res (defaulted d ''tmpfs_mb'' 512 (int_field cv)) (\<lambda>tmpfs.
       (let limits = \<lparr>lim_cpus = cpus, lim_memory_mb = memory, lim_pids = pids, lim_timeout_seconds = timeout,
                      lim_max_output_bytes = output, lim_tmpfs_mb = tmpfs\<rparr>
        in if ResourceLimits_ok limits then Inr limits else Inl (ValidationError ''limits'')))))))))"

definition default_resources :: ResourceLimits where
  "default_resources = \<lparr>lim_cpus = 1, lim_memory_mb = 1024, lim_pids = 512, lim_timeout_seconds = 3600,
     lim_max_output_bytes = 256 * 1024 * 1024, lim_tmpfs_mb = 512\<rparr>"

definition MANIFEST_FIELDS :: "string list" where
  "MANIFEST_FIELDS =
     [''id'', ''name'', ''vendor'', ''homepage'', ''license'', ''integration'', ''capabilities'', ''adapter'', ''image'',
      ''default_limits'', ''enabled'', ''options_schema'']"

definition integration_field :: "pyval \<Rightarrow> IntegrationType res" where
  "integration_field = enum_field integration_value [NATIVE, LIBRARY, CONTAINER_CLI, CONTAINER_API, EXTERNAL_SERVICE]"

definition capabilities_field :: "pyval \<Rightarrow> Capability list res" where
  "capabilities_field v =
     bind_res (list_field (enum_field capability_value all_capabilities) v) (\<lambda>cs.
       if cs = [] then Inl (ValidationError ''too_short'') else Inr cs)"

definition EngineManifest_validate :: "Coercions \<Rightarrow> pyval \<Rightarrow> EngineManifest res" where
  "EngineManifest_validate cv v =
     bind_res (fields_of MANIFEST_FIELDS v) (\<lambda>d.
     bind_res (required d ''id'' (str_field cv)) (\<lambda>eid.
     bind_res (required d ''name'' (str_field cv)) (\<lambda>name.
     bind_res (required d ''vendor'' (str_field cv)) (\<lambda>vendor.
     bind_res (defaulted d ''homepage'' [] (str_field cv)) (\<lambda>homepage.
     bind_res (required d ''license'' (str_field cv)) (\<lambda>license.
     bind_res (required d ''integration'' integration_field) (\<lambda>integration.
     bind_res (required d ''capabilities'' capabilities_field) (\<lambda>capabilities.
     bind_res (required d ''adapter'' (str_field cv)) (\<lambda>adapter.
     bind_res (defaulted d ''image'' None (optional_field (str_field cv))) (\<lambda>img.
     bind_res (defaulted d ''default_limits'' default_resources (ResourceLimits_validate cv)) (\<lambda>limits.
     bind_res (defaulted d ''enabled'' True (bool_field cv)) (\<lambda>enabled.
     bind_res (defaulted d ''options_schema'' [] (dict_field Inr)) (\<lambda>schema. Inr
       \<lparr>mf_id = eid, mf_name = name, mf_vendor = vendor, mf_homepage = homepage, mf_license = license,
        mf_integration = integration, mf_capabilities = capabilities, mf_adapter = adapter, mf_image = img,
        mf_default_limits = limits, mf_enabled = enabled, mf_options_schema = schema\<rparr>)))))))))))))"

text \<open>\<open>EngineRegistry.load\<close>: each manifest file, in the order of the paths, is read, validated and registered.\<close>

fun load_manifests ::
  "Coercions \<Rightarrow> EngineLock \<Rightarrow> 'ad EngineRegistry \<Rightarrow> pyval res list \<Rightarrow> 'ad EngineRegistry res" where
  "load_manifests cv locks reg [] = Inr reg"
| "load_manifests cv locks reg (doc # docs) =
     bind_res doc (\<lambda>data.
     bind_res (EngineManifest_validate cv data) (\<lambda>m.
     bind_res (register_manifest reg m locks) (\<lambda>reg. load_manifests cv locks reg docs)))"

definition EngineRegistry_load ::
  "Coercions \<Rightarrow> pyval res list \<Rightarrow> pyval res option \<Rightarrow> LicensePolicy \<Rightarrow> 'ad EngineRegistry res" where
  "EngineRegistry_load cv docs lock policy =
     bind_res (load_lock cv lock) (\<lambda>locks. load_manifests cv locks (EngineRegistry_init policy) docs)"

subsection \<open>What validation accepts\<close>

lemma defaulted_Inr: "defaulted d k dflt f = Inr x \<Longrightarrow> dget d k = None \<Longrightarrow> x = dflt"
  by (simp add: defaulted_def)

lemma required_Inr: "required d k f = Inr x \<Longrightarrow> k \<in> set (dkeys d)"
  by (auto simp: required_def dget_None_iff split: option.splits) (metis dget_None_iff option.distinct(1))

lemma approval_field_value: "approval_field (PStr (approval_value a)) = Inr a"
  unfolding approval_field_def by (cases a) (simp_all add: enum_field_def checked_def)

lemma inventory_integration_field_value: "inventory_integration_field (PStr (inventory_integration_value i)) = Inr i"
  unfolding inventory_integration_field_def by (cases i) (simp_all add: enum_field_def checked_def)

lemma fields_of_keys: "fields_of names v = Inr d \<Longrightarrow> v = PDict d \<and> set (dkeys d) \<subseteq> set names"
  by (cases v) (auto simp: fields_of_def list_all_iff dkeys_def split: if_splits)

text \<open>
  An entry of the inventory is an object without unknown keys that states its name, version, license and way of
  integration; what it does not state about approval is taken as a review that is pending.
\<close>

lemma Component_validate_states:
  assumes "Component_validate cv v = Inr c"
  obtains d where "v = PDict d" "set (dkeys d) \<subseteq> set COMPONENT_FIELDS"
    "list_all (\<lambda>k. k \<in> set (dkeys d)) [''name'', ''version'', ''license'', ''integration_type'']"
    "dget d ''approval_status'' = None \<Longrightarrow> co_approval_status c = PENDING_REVIEW"
    "dget d ''approval_reference'' = None \<Longrightarrow> co_approval_reference c = []"
proof -
  from assms obtain d where d: "fields_of COMPONENT_FIELDS v = Inr d" by (auto simp: Component_validate_def bind_res_Inr_iff)
  have "list_all (\<lambda>k. k \<in> set (dkeys d)) [''name'', ''version'', ''license'', ''integration_type'']"
    using assms d by (auto simp: Component_validate_def bind_res_Inr_iff dest!: required_Inr)
  moreover have "dget d ''approval_status'' = None \<Longrightarrow> co_approval_status c = PENDING_REVIEW"
    "dget d ''approval_reference'' = None \<Longrightarrow> co_approval_reference c = []"
    using assms d by (auto simp: Component_validate_def bind_res_Inr_iff dest: defaulted_Inr)
  ultimately show thesis using fields_of_keys [OF d] by (intro that) auto
qed

text \<open>The entries of a file, and that loading it validates each of them, in order.\<close>

definition inventory_entries :: "pyval \<Rightarrow> pyval list" where
  "inventory_entries data =
     (case data of PDict d \<Rightarrow> (case dget d ''components'' of Some (PList xs) \<Rightarrow> xs | _ \<Rightarrow> []) | _ \<Rightarrow> [])"

lemma Inventory_load_entries:
  assumes "Inventory_load cv doc = Inr ivt"
  obtains data where "doc = Inr data"
    "list_all2 (\<lambda>x c. Component_validate cv x = Inr c) (inventory_entries data) (inv_components ivt)"
proof -
  from assms obtain data where data: "doc = Inr data" "Inventory_validate cv (por data (PDict [])) = Inr ivt"
    by (auto simp: Inventory_load_def bind_res_Inr_iff)
  from data(2) obtain d where d: "por data (PDict []) = PDict d"
    "defaulted d ''components'' [] (list_field (Component_validate cv)) = Inr (inv_components ivt)"
    by (auto simp: Inventory_validate_def bind_res_Inr_iff dest!: fields_of_keys)
  have "inventory_entries data = inventory_entries (PDict d)"
    using d(1) by (cases data) (auto simp: por_def inventory_entries_def split: if_splits)
  moreover have "list_all2 (\<lambda>x c. Component_validate cv x = Inr c) (inventory_entries (PDict d)) (inv_components ivt)"
    using d(2) by (auto simp: defaulted_def inventory_entries_def list_field_def map_res_Inr_iff
        split: option.splits pyval.splits)
  ultimately show thesis using that data(1) by simp
qed

subsection \<open>Round trip\<close>

text \<open>Scalar fields accept the values of their own type as they are.\<close>

definition plain_values :: "Coercions \<Rightarrow> bool" where
  "plain_values cv \<longleftrightarrow> (\<forall>s. cv_str cv (PStr s) = Some s) \<and> (\<forall>b. cv_bool cv (PBool b) = Some b) \<and>
     (\<forall>i. cv_int cv (PInt i) = Some i)"

definition component_dump :: "Component \<Rightarrow> pyval" where
  "component_dump c = PDict
     [(''name'', PStr (co_name c)), (''version'', PStr (co_version c)), (''repository'', PStr (co_repository c)),
      (''license'', PStr (co_license c)), (''copyright'', PStr (co_copyright c)),
      (''integration_type'', PStr (inventory_integration_value (co_integration_type c))),
      (''source_distribution_required'', PBool (co_source_distribution_required c)),
      (''modification_required'', PBool (co_modification_required c)), (''network_service'', PBool (co_network_service c)),
      (''static_linking'', PBool (co_static_linking c)), (''dynamic_linking'', PBool (co_dynamic_linking c)),
      (''containerized'', PBool (co_containerized c)), (''redistribution_allowed'', PBool (co_redistribution_allowed c)),
      (''commercial_risk'', PStr (co_commercial_risk c)), (''approval_status'', PStr (approval_value (co_approval_status c))),
      (''approval_reference'', PStr (co_approval_reference c)), (''notes'', PStr (co_notes c))]"

definition inventory_dump :: "Inventory \<Rightarrow> pyval" where
  "inventory_dump ivt =
     PDict [(''version'', PInt (inv_version ivt)), (''components'', PList (List.map component_dump (inv_components ivt)))]"

lemma plain_fields:
  "plain_values cv \<Longrightarrow> str_field cv (PStr s) = Inr s" "plain_values cv \<Longrightarrow> bool_field cv (PBool b) = Inr b"
  by (simp_all add: plain_values_def checked_def)

lemma component_dump_fields:
  "\<exists>d. component_dump c = PDict d \<and> fields_of COMPONENT_FIELDS (PDict d) = Inr d"
  by (simp add: component_dump_def fields_of_def COMPONENT_FIELDS_def)

lemma Component_validate_dump: "plain_values cv \<Longrightarrow> Component_validate cv (component_dump c) = Inr c"
  unfolding Component_validate_def component_dump_def
  by (subst component_dump_fields [of c, unfolded component_dump_def, simplified])
     (simp add: required_def defaulted_def plain_fields approval_field_value inventory_integration_field_value)

lemma Inventory_load_dump:
  assumes "plain_values cv"
  shows "Inventory_load cv (Inr (inventory_dump ivt)) = Inr ivt"
proof -
  have "map_res (Component_validate cv) (List.map component_dump cs) = Inr cs" for cs
    by (induction cs) (simp_all add: Component_validate_dump [OF assms])
  then show ?thesis
    using assms by (simp add: Inventory_load_def inventory_dump_def por_def Inventory_validate_def fields_of_def defaulted_def
        checked_def plain_values_def list_field_def)
qed

subsection \<open>The loaded registry\<close>

definition manifest_of :: "Coercions \<Rightarrow> pyval res \<Rightarrow> EngineManifest res" where
  "manifest_of cv doc = bind_res doc (EngineManifest_validate cv)"

lemma load_manifests_registers:
  "load_manifests cv locks reg docs = Inr reg' \<longleftrightarrow>
    (\<exists>ms. list_all2 (\<lambda>doc m. manifest_of cv doc = Inr m) docs ms \<and> register_all reg ms locks = Inr reg')"
proof (induction docs arbitrary: reg)
  case Nil
  show ?case by simp
next
  case (Cons doc docs)
  have "load_manifests cv locks reg (doc # docs) = Inr reg' \<longleftrightarrow>
      (\<exists>m reg1. manifest_of cv doc = Inr m \<and> register_manifest reg m locks = Inr reg1 \<and>
         load_manifests cv locks reg1 docs = Inr reg')"
    by (auto simp: bind_res_Inr_iff manifest_of_def)
  also have "\<dots> \<longleftrightarrow> (\<exists>m ms. manifest_of cv doc = Inr m \<and> list_all2 (\<lambda>doc m. manifest_of cv doc = Inr m) docs ms \<and>
      register_all reg (m # ms) locks = Inr reg')"
    unfolding Cons.IH register_all.simps(2) bind_res_Inr_iff by blast
  also have "\<dots> \<longleftrightarrow> (\<exists>ms. list_all2 (\<lambda>doc m. manifest_of cv doc = Inr m) (doc # docs) ms \<and>
      register_all reg ms locks = Inr reg')"
    unfolding list_all2_Cons1 by blast
  finally show ?case .
qed

text \<open>Loading the files is registering the manifests they hold, in order, and fails if one of them is invalid.\<close>

lemma EngineRegistry_load_registers:
  "EngineRegistry_load cv docs lock pol = Inr reg \<longleftrightarrow>
    (\<exists>ms locks. list_all2 (\<lambda>doc m. manifest_of cv doc = Inr m) docs ms \<and> load_lock cv lock = Inr locks \<and>
       registry_load ms locks pol = Inr reg)"
  by (auto simp: EngineRegistry_load_def bind_res_Inr_iff load_manifests_registers registry_load_def)

lemma ResourceLimits_validate_ok: "ResourceLimits_validate cv v = Inr l \<Longrightarrow> ResourceLimits_ok l"
  by (auto simp: ResourceLimits_validate_def bind_res_Inr_iff Let_def split: if_splits)

lemma default_resources_ok: "ResourceLimits_ok default_resources"
  by (simp add: default_resources_def ResourceLimits_ok_def)

lemma EngineManifest_validate_ok:
  assumes "EngineManifest_validate cv v = Inr m"
  shows "mf_capabilities m \<noteq> []" "ResourceLimits_ok (mf_default_limits m)"
proof -
  from assms obtain d where "required d ''capabilities'' capabilities_field = Inr (mf_capabilities m)"
    and "defaulted d ''default_limits'' default_resources (ResourceLimits_validate cv) = Inr (mf_default_limits m)"
    by (auto simp: EngineManifest_validate_def bind_res_Inr_iff)
  then show "mf_capabilities m \<noteq> []" "ResourceLimits_ok (mf_default_limits m)"
    by (auto simp: required_def defaulted_def capabilities_field_def bind_res_Inr_iff default_resources_ok
        dest: ResourceLimits_validate_ok split: option.splits if_splits)
qed

subsection \<open>Coercions that accept only values of the type\<close>

definition plain_cv :: Coercions where
  "plain_cv =
     \<lparr>cv_str = (\<lambda>v. case v of PStr s \<Rightarrow> Some s | _ \<Rightarrow> None), cv_bool = (\<lambda>v. case v of PBool b \<Rightarrow> Some b | _ \<Rightarrow> None),
      cv_int = (\<lambda>v. case v of PInt i \<Rightarrow> Some i | _ \<Rightarrow> None), cv_float = (\<lambda>v. case v of PFloat q \<Rightarrow> Some q | _ \<Rightarrow> None)\<rparr>"

lemma plain_cv_plain: "plain_values plain_cv"
  by (simp add: plain_values_def plain_cv_def)

end
