(* ===== verification/Ai_Settings.thy ===== *)
theory Ai_Settings
  imports Analyst Py_Dyn
begin

text \<open>
  Which language model is used, and how it is reached: the catalog of models (\<open>vantage/ai/models.py\<close>), the
  persisted choice (\<open>vantage/config.py\<close>), the llama.cpp and Ollama clients (\<open>vantage/ai/provider.py\<close>) and the
  function of \<open>vantage/app.py\<close> that builds a client from the settings.  Environment, files, the llama.cpp
  library, the HTTP client and the JSON decoder are arguments.
\<close>

subsection \<open>models.py\<close>

record ModelInfo =
  mi_id :: string
  mi_family :: string
  mi_params :: string
  mi_license_spdx :: string
  mi_license_class :: LicenseClass
  mi_context :: int
  mi_gguf_hint :: string
  mi_notes :: string

text \<open>The characters of the hints that are not ASCII are written as their UTF-8 bytes.\<close>

definition almost :: string where
  "almost = [CHR 0xE2, CHR 0x89, CHR 0x88]"

definition long_dash :: string where
  "long_dash = [CHR 0xE2, CHR 0x80, CHR 0x94]"

definition CATALOG :: "ModelInfo list" where
  "CATALOG =
     [\<lparr>mi_id = ''qwen2.5:7b-instruct'', mi_family = ''Qwen2.5'', mi_params = ''7B'', mi_license_spdx = ''Apache-2.0'',
       mi_license_class = GREEN, mi_context = 32768, mi_gguf_hint = ''Q4_K_M '' @ almost @ '' 4.7GB (8GB+ RAM)'',
       mi_notes = ''DEFAULT. Strong instruction-following + JSON; Apache-2.0, no usage caps at 7B.''\<rparr>,
      \<lparr>mi_id = ''qwen2.5:14b-instruct'', mi_family = ''Qwen2.5'', mi_params = ''14B'', mi_license_spdx = ''Apache-2.0'',
       mi_license_class = GREEN, mi_context = 32768, mi_gguf_hint = ''Q4_K_M '' @ almost @ '' 9GB (16GB+ RAM)'',
       mi_notes = ''Higher quality; Apache-2.0. Good for a dedicated on-prem analyst box.''\<rparr>,
      \<lparr>mi_id = ''qwen3:8b'', mi_family = ''Qwen3'', mi_params = ''8B'', mi_license_spdx = ''Apache-2.0'',
       mi_license_class = GREEN, mi_context = 32768, mi_gguf_hint = ''Q4_K_M '' @ almost @ '' 5GB'',
       mi_notes = ''Newer generation, Apache-2.0 with no added terms.''\<rparr>,
      \<lparr>mi_id = ''mistral:7b-instruct'', mi_family = ''Mistral'', mi_params = ''7B'', mi_license_spdx = ''Apache-2.0'',
       mi_license_class = GREEN, mi_context = 32768, mi_gguf_hint = ''Q4_K_M '' @ almost @ '' 4.4GB'',
       mi_notes = ''Apache-2.0 alternative; solid general reasoning.''\<rparr>,
      \<lparr>mi_id = ''phi4-mini'', mi_family = ''Phi-4'', mi_params = ''3.8B'', mi_license_spdx = ''MIT'',
       mi_license_class = GREEN, mi_context = 16384,
       mi_gguf_hint = ''Q4_K_M '' @ almost @ '' 2.5GB (constrained hosts)'',
       mi_notes = ''MIT; small footprint for edge/constrained on-prem nodes.''\<rparr>,
      \<lparr>mi_id = ''qwen2.5:3b-instruct'', mi_family = ''Qwen2.5'', mi_params = ''3B'', mi_license_spdx = ''LicenseRef-Qwen'',
       mi_license_class = YELLOW, mi_context = 32768, mi_gguf_hint = ''Q4_K_M '' @ almost @ '' 2GB'',
       mi_notes = ''3B ships under the Qwen (not Apache) license '' @ long_dash @ '' review before commercial use.''\<rparr>,
      \<lparr>mi_id = ''llama3.1:8b-instruct'', mi_family = ''Llama 3.1'', mi_params = ''8B'',
       mi_license_spdx = ''LicenseRef-Llama-3.1-Community'', mi_license_class = YELLOW, mi_context = 131072,
       mi_gguf_hint = ''Q4_K_M '' @ almost @ '' 4.9GB'',
       mi_notes = ''Llama Community License (not OSI; MAU clause) '' @ long_dash @ '' review before commercial use.''\<rparr>,
      \<lparr>mi_id = ''gemma2:9b-instruct'', mi_family = ''Gemma 2'', mi_params = ''9B'', mi_license_spdx = ''LicenseRef-Gemma'',
       mi_license_class = YELLOW, mi_context = 8192, mi_gguf_hint = ''Q4_K_M '' @ almost @ '' 5.8GB'',
       mi_notes = ''Gemma Terms of Use (use restrictions) '' @ long_dash @ '' review before commercial use.''\<rparr>]"

definition BY_ID :: "(string, ModelInfo) dict" where
  "BY_ID = foldl (\<lambda>d m. dset d (mi_id m) m) [] CATALOG"

definition DEFAULT_MODEL_ID :: string where
  "DEFAULT_MODEL_ID = ''qwen2.5:7b-instruct''"

definition recommended :: "LicenseClass option \<Rightarrow> ModelInfo list" where
  "recommended license_class =
     (case license_class of
        None \<Rightarrow> CATALOG
      | Some c \<Rightarrow> List.filter (\<lambda>m. mi_license_class m = c) CATALOG)"

definition get_model :: "string \<Rightarrow> ModelInfo option" where
  "get_model model_id = dget BY_ID model_id"

subsection \<open>config.py\<close>

text \<open>
  The host: environment variables, the home directory, files by path, and the paths whose reading
  raises \<open>OSError\<close>.  Directories are not part of it: making them and writing a file succeeds, so that \<open>save\<close>
  never raises here, where a full or read-only disk would end the command with an \<open>OSError\<close>.
\<close>

record Host =
  ho_env :: "(string, string) dict"
  ho_home :: string
  ho_files :: "(string, string) dict"
  ho_denied :: "string list"

text \<open>
  The \<open>/\<close> of \<open>pathlib\<close> (and \<open>os.path.join\<close> where the second part is not empty): an absolute second part replaces the
  first, an empty part adds nothing.  Repeated slashes inside a part stay as they are.
\<close>

definition path_join :: "string \<Rightarrow> string \<Rightarrow> string" where
  "path_join a b =
     (if b = [] then a
      else if a = [] \<or> startswith b ''/'' then b
      else if List.last a = CHR ''/'' then a @ b
      else a @ ''/'' @ b)"

definition config_path :: "Host \<Rightarrow> string" where
  "config_path h =
     (let explicit = osor (dget (ho_env h) ''VANTAGE_CONFIG'') []
      in if explicit \<noteq> [] then explicit
         else path_join (osor (dget (ho_env h) ''XDG_CONFIG_HOME'') (path_join (ho_home h) ''.config''))
                ''vantage/config.json'')"

record AIConfig =
  ac_provider :: string
  ac_model :: string
  ac_model_path :: string
  ac_ollama_url :: string

definition AIConfig_default :: AIConfig where
  "AIConfig_default =
     \<lparr>ac_provider = ''none'', ac_model = ''qwen2.5:7b-instruct'', ac_model_path = [],
      ac_ollama_url = ''http://127.0.0.1:11434''\<rparr>"

text \<open>\<open>loads\<close> is \<open>json.loads\<close>, with \<open>None\<close> for a \<open>JSONDecodeError\<close>; \<open>fr\<close> is the text of a float.\<close>

definition config_of :: "(rat \<Rightarrow> string) \<Rightarrow> pyval \<Rightarrow> AIConfig res" where
  "config_of fr data =
     (case (case data of PDict d \<Rightarrow> pget d ''ai'' (PDict []) | _ \<Rightarrow> PDict []) of
        PDict ai \<Rightarrow> Inr
          \<lparr>ac_provider = py_str fr (pget ai ''provider'' (PStr ''none'')),
           ac_model = py_str fr (pget ai ''model'' (PStr ''qwen2.5:7b-instruct'')),
           ac_model_path = py_str fr (pget ai ''model_path'' (PStr [])),
           ac_ollama_url = py_str fr (pget ai ''ollama_url'' (PStr ''http://127.0.0.1:11434''))\<rparr>
      | _ \<Rightarrow> Inl (AttributeError ''object has no attribute get''))"

definition config_load :: "(string \<Rightarrow> pyval option res) \<Rightarrow> (rat \<Rightarrow> string) \<Rightarrow> Host \<Rightarrow> AIConfig res" where
  "config_load loads fr h =
     (case dget (ho_files h) (config_path h) of
        None \<Rightarrow> Inr AIConfig_default
      | Some s \<Rightarrow>
          if config_path h \<in> set (ho_denied h) then Inr AIConfig_default
          else bind_res (loads s) (\<lambda>v. case v of None \<Rightarrow> Inr AIConfig_default | Some data \<Rightarrow> config_of fr data))"

definition config_payload :: "AIConfig \<Rightarrow> pyval" where
  "config_payload c = PDict
     [(''ai'', PDict [(''provider'', PStr (ac_provider c)), (''model'', PStr (ac_model c)),
                      (''model_path'', PStr (ac_model_path c)), (''ollama_url'', PStr (ac_ollama_url c))])]"

definition config_text :: "(rat \<Rightarrow> string) \<Rightarrow> AIConfig \<Rightarrow> string" where
  "config_text fr c = json_dumps_indent fr (config_payload c) @ [CHR 0x0A]"

definition config_save :: "(rat \<Rightarrow> string) \<Rightarrow> AIConfig \<Rightarrow> Host \<Rightarrow> Host" where
  "config_save fr c h = h\<lparr>ho_files := dset (ho_files h) (config_path h) (config_text fr c)\<rparr>"

definition env_or :: "Host \<Rightarrow> string \<Rightarrow> string \<Rightarrow> string" where
  "env_or h k dflt = dget_or (ho_env h) k dflt"

definition resolve_ai_settings :: "(string \<Rightarrow> pyval option res) \<Rightarrow> (rat \<Rightarrow> string) \<Rightarrow> Host \<Rightarrow> AIConfig res" where
  "resolve_ai_settings loads fr h =
     bind_res (config_load loads fr h) (\<lambda>cfg. Inr
       \<lparr>ac_provider = env_or h ''VANTAGE_AI_PROVIDER'' (ac_provider cfg),
        ac_model = env_or h ''VANTAGE_AI_MODEL'' (ac_model cfg),
        ac_model_path = env_or h ''VANTAGE_AI_MODEL_PATH'' (ac_model_path cfg),
        ac_ollama_url = env_or h ''VANTAGE_AI_OLLAMA_URL'' (ac_ollama_url cfg)\<rparr>)"

subsection \<open>provider.py\<close>

text \<open>
  A chat completion of llama.cpp: the contents of its choices and the token counts, if it has any; the
  library makes a model of a file and the context size, threads and layers, or raises.
\<close>

record ChatCompletion =
  cc_contents :: "string list"
  cc_usage :: "(string, int) dict option"

type_synonym llama = "string \<Rightarrow> int \<Rightarrow> int option \<Rightarrow> int \<Rightarrow> ((string \<times> string) list \<Rightarrow> int \<Rightarrow> rat \<Rightarrow> ChatCompletion res) res"

definition chat_messages :: "string option \<Rightarrow> string \<Rightarrow> (string \<times> string) list" where
  "chat_messages system prompt =
     (if osor system [] \<noteq> [] then [(''system'', osor system [])] else []) @ [(''user'', prompt)]"

definition llama_complete :: "llama \<Rightarrow> string \<Rightarrow> string \<Rightarrow> string \<Rightarrow> string option \<Rightarrow> int \<Rightarrow> LLMResponse res" where
  "llama_complete llama model_path model_id prompt system max_tokens =
     bind_res (llama model_path 8192 None 0) (\<lambda>llm.
     bind_res (llm (chat_messages system prompt) max_tokens 0) (\<lambda>out.
       case cc_contents out of
         [] \<Rightarrow> Inl (RuntimeError ''list index out of range'')
       | s # ss \<Rightarrow> Inr \<lparr>llm_text = s, llm_model = model_id, llm_provider = ''llama_cpp'',
                         llm_usage = (case cc_usage out of None \<Rightarrow> [] | Some u \<Rightarrow> u)\<rparr>))"

definition LlamaCppProvider :: "llama \<Rightarrow> bool \<Rightarrow> Host \<Rightarrow> string \<Rightarrow> string \<Rightarrow> string \<Rightarrow> LLMProvider" where
  "LlamaCppProvider llama installed h model_path model_id model_license =
     \<lparr>lp_name = ''llama_cpp'', lp_model_id = model_id, lp_model_license = model_license,
      lp_available = Inr (installed \<and> dget (ho_files h) model_path \<noteq> None),
      lp_complete = llama_complete llama model_path model_id\<rparr>"

text \<open>The HTTP client: the status of a GET; status and decoded body of a POST.\<close>

record OllamaWire =
  ow_get :: "string \<Rightarrow> int res"
  ow_post :: "string \<Rightarrow> pyval \<Rightarrow> (int \<times> pyval res) res"

definition ollama_payload :: "string \<Rightarrow> string \<Rightarrow> string option \<Rightarrow> int \<Rightarrow> pyval" where
  "ollama_payload model_id prompt system max_tokens = PDict
     [(''model'', PStr model_id), (''prompt'', PStr prompt), (''system'', PStr (osor system [])),
      (''stream'', PBool False),
      (''options'', PDict [(''temperature'', PFloat 0), (''num_predict'', PInt max_tokens)])]"

definition ollama_available :: "OllamaWire \<Rightarrow> string \<Rightarrow> bool" where
  "ollama_available w base = (case ow_get w (base @ ''/api/tags'') of Inl e \<Rightarrow> False | Inr status \<Rightarrow> status = 200)"

definition ollama_reply :: "(rat \<Rightarrow> string) \<Rightarrow> string \<Rightarrow> pyval \<Rightarrow> LLMResponse res" where
  "ollama_reply fr model_id data =
     (case data of
        PDict d \<Rightarrow>
          bind_res (py_int (pget d ''prompt_eval_count'' (PInt 0))) (\<lambda>prompt_tokens.
          bind_res (py_int (pget d ''eval_count'' (PInt 0))) (\<lambda>completion_tokens.
            Inr \<lparr>llm_text = py_str fr (pget d ''response'' (PStr [])), llm_model = model_id, llm_provider = ''ollama'',
                 llm_usage = [(''prompt_tokens'', prompt_tokens), (''completion_tokens'', completion_tokens)]\<rparr>))
      | _ \<Rightarrow> Inl (AttributeError ''object has no attribute get''))"

definition ollama_complete ::
  "OllamaWire \<Rightarrow> (rat \<Rightarrow> string) \<Rightarrow> string \<Rightarrow> string \<Rightarrow> string \<Rightarrow> string option \<Rightarrow> int \<Rightarrow> LLMResponse res" where
  "ollama_complete w fr base model_id prompt system max_tokens =
     bind_res (ow_post w (base @ ''/api/generate'') (ollama_payload model_id prompt system max_tokens))
       (\<lambda>(status, body).
         if \<not> (200 \<le> status \<and> status < 300) then Inl (RuntimeError ''HTTPStatusError'')
         else bind_res body (ollama_reply fr model_id))"

definition OllamaProvider :: "OllamaWire \<Rightarrow> (rat \<Rightarrow> string) \<Rightarrow> string \<Rightarrow> string \<Rightarrow> string \<Rightarrow> LLMProvider" where
  "OllamaProvider w fr model_id base_url model_license =
     (let base = rstrip (\<lambda>c. c = CHR ''/'') base_url in
      \<lparr>lp_name = ''ollama'', lp_model_id = model_id, lp_model_license = model_license,
       lp_available = Inr (ollama_available w base),
       lp_complete = ollama_complete w fr base model_id\<rparr>)"

definition FakeProvider :: "string \<Rightarrow> LLMProvider" where
  "FakeProvider reply =
     \<lparr>lp_name = ''fake'', lp_model_id = ''fake-model'', lp_model_license = ''MIT'', lp_available = Inr True,
      lp_complete = (\<lambda>prompt system max_tokens.
        Inr \<lparr>llm_text = reply, llm_model = ''fake-model'', llm_provider = ''fake'', llm_usage = []\<rparr>)\<rparr>"

subsection \<open>From the settings to a client\<close>

text \<open>What the clients need of the outside.\<close>

record AiOutside =
  ao_loads :: "string \<Rightarrow> pyval option res"
  ao_float :: "rat \<Rightarrow> string"
  ao_llama :: llama
  ao_installed :: bool
  ao_wire :: OllamaWire

definition build_ai_provider_from_env :: "AiOutside \<Rightarrow> Host \<Rightarrow> LLMProvider option res" where
  "build_ai_provider_from_env ou h =
     bind_res (resolve_ai_settings (ao_loads ou) (ao_float ou) h) (\<lambda>cfg.
       (let kind = lower (ac_provider cfg);
            lic = (case get_model (ac_model cfg) of Some info \<Rightarrow> mi_license_spdx info | None \<Rightarrow> ''unknown'')
        in Inr (if kind = ''llama_cpp''
                then (if ac_model_path cfg = [] then None
                      else Some (LlamaCppProvider (ao_llama ou) (ao_installed ou) h (ac_model_path cfg) (ac_model cfg) lic))
                else if kind = ''ollama''
                then Some (OllamaProvider (ao_wire ou) (ao_float ou) (ac_model cfg) (ac_ollama_url cfg) lic)
                else None)))"

subsection \<open>Laws\<close>

lemma config_path_files [simp]: "config_path (h\<lparr>ho_files := fs\<rparr>) = config_path h"
  by (simp add: config_path_def Let_def)

lemma saved_settings_load:
  assumes "loads (config_text fr c) = Inr (Some (config_payload c))" and "config_path h \<notin> set (ho_denied h)"
  shows "config_load loads fr (config_save fr c h) = Inr c"
proof -
  have path: "config_path (config_save fr c h) = config_path h" by (simp add: config_save_def)
  show ?thesis
    using assms by (cases c) (simp add: config_load_def path, simp add: config_save_def config_of_def config_payload_def pget_def)
qed

text \<open>
  C33: settings that were saved are read back as they were, from the same path, and no other file changes;
  the environment overrides each of them on its own.
\<close>

theorem settings_roundtrip:
  assumes "loads (config_text fr c) = Inr (Some (config_payload c))" and "config_path h \<notin> set (ho_denied h)"
  shows "config_load loads fr (config_save fr c h) = Inr c \<and>
    config_path (config_save fr c h) = config_path h \<and>
    (p \<noteq> config_path h \<longrightarrow> dget (ho_files (config_save fr c h)) p = dget (ho_files h) p) \<and>
    resolve_ai_settings loads fr (config_save fr c h) = Inr
      \<lparr>ac_provider = (case dget (ho_env h) ''VANTAGE_AI_PROVIDER'' of Some x \<Rightarrow> x | None \<Rightarrow> ac_provider c),
       ac_model = (case dget (ho_env h) ''VANTAGE_AI_MODEL'' of Some x \<Rightarrow> x | None \<Rightarrow> ac_model c),
       ac_model_path = (case dget (ho_env h) ''VANTAGE_AI_MODEL_PATH'' of Some x \<Rightarrow> x | None \<Rightarrow> ac_model_path c),
       ac_ollama_url = (case dget (ho_env h) ''VANTAGE_AI_OLLAMA_URL'' of Some x \<Rightarrow> x | None \<Rightarrow> ac_ollama_url c)\<rparr>"
proof -
  have path: "config_path (config_save fr c h) = config_path h" by (simp add: config_save_def)
  have load: "config_load loads fr (config_save fr c h) = Inr c"
    using assms by (intro saved_settings_load)
  show ?thesis
    using path load by (simp add: resolve_ai_settings_def env_or_def dget_or_def) (simp add: config_save_def)
qed

lemma BY_ID_get: "get_model i = List.find (\<lambda>m. mi_id m = i) CATALOG"
  by (simp add: get_model_def BY_ID_def CATALOG_def)

text \<open>
  a client is built exactly when the resolved provider is Ollama, or llama.cpp with a model file; it
  has the name of the provider, the model of the settings and the license the catalog gives for it,
  and without a settings file and without environment variables there is none.
\<close>

theorem ai_provider_from_settings:
  assumes "resolve_ai_settings (ao_loads ou) (ao_float ou) h = Inr cfg"
  shows "\<exists>client. build_ai_provider_from_env ou h = Inr client \<and>
    (client = None \<longleftrightarrow> lower (ac_provider cfg) \<noteq> ''ollama'' \<and>
       (lower (ac_provider cfg) = ''llama_cpp'' \<longrightarrow> ac_model_path cfg = [])) \<and>
    (case client of
       None \<Rightarrow> True
     | Some p \<Rightarrow> lp_name p = lower (ac_provider cfg) \<and> lp_model_id p = ac_model cfg \<and>
         lp_model_license p = (case List.find (\<lambda>m. mi_id m = ac_model cfg) CATALOG of
           Some m \<Rightarrow> mi_license_spdx m | None \<Rightarrow> ''unknown'')) \<and>
    (ho_env h = [] \<and> dget (ho_files h) (config_path h) = None \<longrightarrow> client = None)"
proof -
  have "cfg = AIConfig_default" if "ho_env h = []" "dget (ho_files h) (config_path h) = None"
    using assms that by (simp add: resolve_ai_settings_def config_load_def env_or_def dget_or_def AIConfig_default_def)
  moreover have "lower (ac_provider AIConfig_default) = ''none''" by code_simp
  ultimately show ?thesis using assms
    by (auto simp: build_ai_provider_from_env_def Let_def BY_ID_get OllamaProvider_def LlamaCppProvider_def)
qed

subsection \<open>Concrete settings\<close>

definition demo_ai :: AIConfig where
  "demo_ai =
     \<lparr>ac_provider = ''Ollama'', ac_model = ''phi4-mini'', ac_model_path = [], ac_ollama_url = ''http://10.0.0.5:11434''\<rparr>"

definition demo_ai_loads :: "string \<Rightarrow> pyval option res" where
  "demo_ai_loads s = (if s = config_text (\<lambda>q. ''1.0'') demo_ai then Inr (Some (config_payload demo_ai)) else Inr None)"

definition demo_host :: Host where
  "demo_host = \<lparr>ho_env = [(''VANTAGE_AI_MODEL'', ''qwen3:8b'')], ho_home = ''/root'', ho_files = [], ho_denied = []\<rparr>"

theorem settings_roundtrip_witness:
  "config_path demo_host = ''/root/.config/vantage/config.json'' \<and>
   config_load demo_ai_loads (\<lambda>q. ''1.0'') (config_save (\<lambda>q. ''1.0'') demo_ai demo_host) = Inr demo_ai"
proof -
  have "config_path demo_host = ''/root/.config/vantage/config.json''" by code_simp
  moreover have "demo_ai_loads (config_text (\<lambda>q. ''1.0'') demo_ai) = Inr (Some (config_payload demo_ai))"
    by (simp add: demo_ai_loads_def)
  moreover have "config_path demo_host \<notin> set (ho_denied demo_host)" by (simp add: demo_host_def)
  ultimately show ?thesis using settings_roundtrip [of demo_ai_loads "\<lambda>q. ''1.0''" demo_ai demo_host "[]"] by blast
qed

definition demo_ai_outside :: AiOutside where
  "demo_ai_outside =
     \<lparr>ao_loads = demo_ai_loads, ao_float = (\<lambda>q. ''1.0''), ao_llama = (\<lambda>path ctx threads layers. Inl (RuntimeError ''no model'')),
      ao_installed = False,
      ao_wire = \<lparr>ow_get = (\<lambda>url. Inr 200), ow_post = (\<lambda>url body. Inr (200, Inr (PDict [(''response'', PStr ''{}'')])))\<rparr>\<rparr>"

theorem ai_provider_from_settings_witness:
  "\<exists>p :: LLMProvider. build_ai_provider_from_env demo_ai_outside (config_save (\<lambda>q. ''1.0'') demo_ai demo_host) = Inr (Some p) \<and>
     lp_name p = ''ollama'' \<and> lp_model_license p = ''Apache-2.0''"
proof -
  let ?h = "config_save (\<lambda>q. ''1.0'') demo_ai demo_host"
  have path: "config_path demo_host \<notin> set (ho_denied demo_host)" by (simp add: demo_host_def)
  have "config_load demo_ai_loads (\<lambda>q. ''1.0'') ?h = Inr demo_ai"
    using path by (simp add: config_load_def config_save_def demo_ai_loads_def config_payload_def config_of_def pget_def demo_ai_def)
  then have r: "resolve_ai_settings (ao_loads demo_ai_outside) (ao_float demo_ai_outside) ?h =
      Inr (demo_ai\<lparr>ac_model := ''qwen3:8b''\<rparr>)"
    by (simp add: resolve_ai_settings_def demo_ai_outside_def env_or_def dget_or_def config_save_def demo_host_def demo_ai_def)
  have "lower ''Ollama'' = ''ollama''" by code_simp
  with ai_provider_from_settings [OF r] show ?thesis
    by (auto simp: demo_ai_def CATALOG_def split: option.splits)
qed

end
