(* ===== verification/Model_Install.thy ===== *)
theory Model_Install
  imports Ai_Settings License_Policy
begin

text \<open>
  Installation of the pinned language model (\<open>vantage/ai/install.py\<close>).  The parsed lock file, the programs on
  the host and SHA-256 are arguments; files are part of the host, and a program may leave them changed
  only through this module's own copy.  Making the directory and copying succeed; a path is a file or nothing, so a
  directory at the place of the model (as for a locked model without a file name) is read as absent here.
\<close>

subsection \<open>The lock\<close>

record LockedModel =
  lm_key :: string
  lm_ollama_tag :: string
  lm_gguf_repo :: string
  lm_gguf_file :: string
  lm_gguf_sha256 :: string
  lm_license :: string
  lm_size_hint :: string

record InstallResult =
  ir_ok :: bool
  ir_backend :: string
  ir_model :: string
  ir_detail :: string
  ir_steps :: "string list"

record ModelLock =
  ml_default :: "string option"
  ml_models :: "(string, (string, string) dict) dict"

definition load_locked_model :: "string \<Rightarrow> ModelLock \<Rightarrow> string option \<Rightarrow> LockedModel res" where
  "load_locked_model lock_path lock key =
     (let resolved = osor key (case ml_default lock of Some d \<Rightarrow> d | None \<Rightarrow> [])
      in case dget (ml_models lock) resolved of
           None \<Rightarrow> Inl (KeyError (''model '' @ in_quotes resolved @ '' not in '' @ lock_path))
         | Some m \<Rightarrow> Inr
             \<lparr>lm_key = resolved, lm_ollama_tag = dget_or m ''ollama_tag'' [], lm_gguf_repo = dget_or m ''gguf_repo'' [],
              lm_gguf_file = dget_or m ''gguf_file'' [], lm_gguf_sha256 = dget_or m ''gguf_sha256'' [],
              lm_license = dget_or m ''license'' ''unknown'', lm_size_hint = dget_or m ''size_hint'' []\<rparr>)"

subsection \<open>Programs\<close>

text \<open>
  \<open>shutil.which\<close>; how a program ends: stopped at the time limit, or with an exit code (none is read as
  0) and output; how a path is resolved.
\<close>

datatype ProcessEnd = TimedOut | Exited "int option" string

record Programs =
  pg_which :: "string \<Rightarrow> string option"
  pg_spawn :: "string list \<Rightarrow> ProcessEnd res"
  pg_decode :: "string \<Rightarrow> string"
  pg_resolve :: "string \<Rightarrow> string"

definition run_process :: "Programs \<Rightarrow> string list \<Rightarrow> (int \<times> string) res" where
  "run_process pg argv =
     bind_res (pg_spawn pg argv) (\<lambda>r. Inr
       (case r of
          TimedOut \<Rightarrow> (124, ''timed out'')
        | Exited rc out \<Rightarrow> (case rc of Some c \<Rightarrow> c | None \<Rightarrow> 0, pg_decode pg out)))"

subsection \<open>Installation\<close>

definition install_ollama :: "Programs \<Rightarrow> LockedModel \<Rightarrow> InstallResult res" where
  "install_ollama pg model =
     (let tag = lm_ollama_tag model in
      if pg_which pg ''ollama'' = None
      then Inr \<lparr>ir_ok = False, ir_backend = ''ollama'', ir_model = tag, ir_detail = ''Ollama not found on PATH.'',
                ir_steps = [''Install Ollama (https://ollama.com/download), then re-run ''
                            @ in_quotes ''vantage ai install'' @ ''.'']\<rparr>
      else bind_res (run_process pg [''ollama'', ''pull'', tag]) (\<lambda>(rc, out).
             if rc \<noteq> 0
             then Inr \<lparr>ir_ok = False, ir_backend = ''ollama'', ir_model = tag,
                       ir_detail = ''ollama pull failed: '' @ take 200 (strip out), ir_steps = []\<rparr>
             else bind_res (run_process pg [''ollama'', ''list'']) (\<lambda>(rc, listing).
                    (let present = contains (takeWhile (\<lambda>c. c \<noteq> CHR '':'') tag) listing in Inr
                     \<lparr>ir_ok = present, ir_backend = ''ollama'', ir_model = tag,
                      ir_detail = (if present then ''Model pulled and present.'' else ''Pulled but not listed; verify.''),
                      ir_steps = []\<rparr>))))"

text \<open>The three dots of a shortened digest are one UTF-8 character.\<close>

definition dots :: string where
  "dots = [CHR 0xE2, CHR 0x80, CHR 0xA6]"

definition pinned_digest :: "LockedModel \<Rightarrow> bool" where
  "pinned_digest model \<longleftrightarrow> lm_gguf_sha256 model \<noteq> [] \<and> \<not> startswith (lm_gguf_sha256 model) ''REPLACE_''"

text \<open>\<open>shutil.copy2(src, dest)\<close>, unless both are the same file.\<close>

definition stage_gguf :: "Programs \<Rightarrow> string \<Rightarrow> string \<Rightarrow> string \<Rightarrow> Host \<Rightarrow> Host" where
  "stage_gguf pg src dest content h =
     (if pg_resolve pg src \<noteq> pg_resolve pg dest then h\<lparr>ho_files := dset (ho_files h) dest content\<rparr> else h)"

definition verify_gguf :: "(string \<Rightarrow> string) \<Rightarrow> LockedModel \<Rightarrow> string \<Rightarrow> Host \<Rightarrow> InstallResult" where
  "verify_gguf sha model dest h =
     (case dget (ho_files h) dest of
        None \<Rightarrow>
          \<lparr>ir_ok = False, ir_backend = ''llama_cpp'', ir_model = lm_gguf_file model, ir_detail = ''GGUF not present.'',
           ir_steps = [''Obtain '' @ lm_gguf_file model @ '' from '' @ lm_gguf_repo model
                         @ '' (license '' @ lm_license model @ '').'',
                       ''Place it at '' @ dest @ '' or pass --from <path> (air-gapped installs stage it).'',
                       ''Then re-run '' @ in_quotes ''vantage ai install --backend llama_cpp'' @ ''.'']\<rparr>
      | Some content \<Rightarrow>
          if pinned_digest model \<and> sha content \<noteq> lm_gguf_sha256 model
          then \<lparr>ir_ok = False, ir_backend = ''llama_cpp'', ir_model = lm_gguf_file model,
                ir_detail = ''SHA-256 mismatch: expected '' @ take 12 (lm_gguf_sha256 model) @ dots
                  @ '', got '' @ take 12 (sha content) @ dots, ir_steps = []\<rparr>
          else \<lparr>ir_ok = True, ir_backend = ''llama_cpp'', ir_model = dest, ir_detail = ''GGUF present and verified.'',
                ir_steps = []\<rparr>)"

definition install_gguf ::
  "(string \<Rightarrow> string) \<Rightarrow> Programs \<Rightarrow> LockedModel \<Rightarrow> string option \<Rightarrow> string \<Rightarrow> Host \<Rightarrow> InstallResult \<times> Host" where
  "install_gguf sha pg model gguf_from dest_dir h =
     (let dest = path_join dest_dir (lm_gguf_file model); src = osor gguf_from [] in
      if src = [] then (verify_gguf sha model dest h, h)
      else case dget (ho_files h) src of
             None \<Rightarrow> (\<lparr>ir_ok = False, ir_backend = ''llama_cpp'', ir_model = lm_gguf_file model,
                       ir_detail = src @ '' not found'', ir_steps = []\<rparr>, h)
           | Some content \<Rightarrow> (let h = stage_gguf pg src dest content h in (verify_gguf sha model dest h, h)))"

definition install_model ::
  "(string \<Rightarrow> string) \<Rightarrow> Programs \<Rightarrow> string \<Rightarrow> ModelLock \<Rightarrow> string option \<Rightarrow> string \<Rightarrow> string option \<Rightarrow> string \<Rightarrow> Host \<Rightarrow>
   InstallResult res \<times> Host" where
  "install_model sha pg lock_path lock model_key backend gguf_from dest_dir h =
     (case load_locked_model lock_path lock model_key of
        Inl e \<Rightarrow> (Inl e, h)
      | Inr model \<Rightarrow>
          (let chosen = (if backend = ''auto''
                         then (if pg_which pg ''ollama'' \<noteq> None then ''ollama'' else ''llama_cpp'') else backend)
           in if chosen = ''ollama'' then (install_ollama pg model, h)
              else (case install_gguf sha pg model gguf_from dest_dir h of (r, h) \<Rightarrow> (Inr r, h))))"

subsection \<open>Laws\<close>

lemma install_gguf_cases:
  fixes model dest_dir
  defines "dest \<equiv> path_join dest_dir (lm_gguf_file model)"
  assumes "install_gguf sha pg model gguf_from dest_dir h = (r, h')"
  shows "osor gguf_from [] = [] \<and> r = verify_gguf sha model dest h \<and> h' = h \<or>
    osor gguf_from [] \<noteq> [] \<and> dget (ho_files h) (osor gguf_from []) = None \<and> \<not> ir_ok r \<and>
      ir_backend r = ''llama_cpp'' \<and> h' = h \<or>
    (\<exists>content. dget (ho_files h) (osor gguf_from []) = Some content \<and> r = verify_gguf sha model dest h' \<and>
       h' = stage_gguf pg (osor gguf_from []) dest content h)"
proof (cases "osor gguf_from [] = []")
  case True
  with assms(2) show ?thesis by (auto simp: install_gguf_def dest_def)
next
  case False
  show ?thesis
  proof (cases "dget (ho_files h) (osor gguf_from [])")
    case None
    with False assms(2) show ?thesis by (auto simp: install_gguf_def Let_def)
  next
    case (Some content)
    with False assms(2) show ?thesis by (clarsimp simp: install_gguf_def Let_def dest_def)
  qed
qed

text \<open>
  C34: a successful installation from a file leaves the model at the place it names; if the lock pins a
  digest, the file there has it; every other file is as it was.
\<close>

theorem gguf_install_verified:
  assumes "install_model sha pg lock_path lock key ''llama_cpp'' gguf_from dest_dir h = (Inr r, h')"
  shows "\<exists>model. load_locked_model lock_path lock key = Inr model \<and> ir_backend r = ''llama_cpp'' \<and>
    (ir_ok r \<longleftrightarrow> (\<exists>content. dget (ho_files h') (path_join dest_dir (lm_gguf_file model)) = Some content \<and>
        (pinned_digest model \<longrightarrow> sha content = lm_gguf_sha256 model)) \<and>
        (osor gguf_from [] \<noteq> [] \<longrightarrow> dget (ho_files h) (osor gguf_from []) \<noteq> None)) \<and>
    (ir_ok r \<longrightarrow> ir_model r = path_join dest_dir (lm_gguf_file model)) \<and>
    (p \<noteq> path_join dest_dir (lm_gguf_file model) \<longrightarrow> dget (ho_files h') p = dget (ho_files h) p)"
proof -
  from assms obtain model where m: "load_locked_model lock_path lock key = Inr model"
    and i: "install_gguf sha pg model gguf_from dest_dir h = (r, h')"
    by (auto simp: install_model_def Let_def split: sum.splits prod.splits)
  let ?dest = "path_join dest_dir (lm_gguf_file model)"
  have v: "ir_ok (verify_gguf sha model ?dest g) \<longleftrightarrow> (\<exists>content. dget (ho_files g) ?dest = Some content \<and>
        (pinned_digest model \<longrightarrow> sha content = lm_gguf_sha256 model))"
    "ir_ok (verify_gguf sha model ?dest g) \<longrightarrow> ir_model (verify_gguf sha model ?dest g) = ?dest"
    "ir_backend (verify_gguf sha model ?dest g) = ''llama_cpp''" for g
    by (auto simp: verify_gguf_def split: option.splits)
  have s: "p \<noteq> ?dest \<Longrightarrow> dget (ho_files (stage_gguf pg src ?dest content h)) p = dget (ho_files h) p" for src content
    by (simp add: stage_gguf_def)
  from install_gguf_cases [OF i] show ?thesis
  proof (elim disjE exE conjE)
    assume "osor gguf_from [] = []" "r = verify_gguf sha model ?dest h" "h' = h"
    with m v [of h] show ?thesis by auto
  next
    assume "osor gguf_from [] \<noteq> []" "dget (ho_files h) (osor gguf_from []) = None" "\<not> ir_ok r"
      "ir_backend r = ''llama_cpp''" "h' = h"
    with m show ?thesis by auto
  next
    fix content
    assume c: "dget (ho_files h) (osor gguf_from []) = Some content" "r = verify_gguf sha model ?dest h'"
      "h' = stage_gguf pg (osor gguf_from []) ?dest content h"
    from c(3) s have "p \<noteq> ?dest \<longrightarrow> dget (ho_files h') p = dget (ho_files h) p" by blast
    with m c(1) v [of h', folded c(2)] show ?thesis by auto
  qed
qed

text \<open>With the digest of the repository's lock, a placeholder, any file at all is reported as verified.\<close>

lemma unpinned_verified:
  assumes "lm_gguf_sha256 model = ''REPLACE_WITH_PINNED_DIGEST_BEFORE_RELEASE''" and "dget (ho_files h) dest = Some content"
  shows "ir_detail (verify_gguf sha model dest h) = ''GGUF present and verified.''"
proof -
  have "startswith ''REPLACE_WITH_PINNED_DIGEST_BEFORE_RELEASE'' ''REPLACE_''" by code_simp
  then show ?thesis using assms by (simp add: verify_gguf_def pinned_digest_def)
qed

text \<open>Ollama's list is searched for the family of the model only: another size or variant of it will do.\<close>

lemma other_variant_present:
  assumes "pg_which pg ''ollama'' \<noteq> None" and "lm_ollama_tag model = ''qwen2.5:7b-instruct''"
    and "\<And>argv. pg_spawn pg argv = Inr (Exited (Some 0) ''qwen2.5:0.5b'')" and "pg_decode pg ''qwen2.5:0.5b'' = ''qwen2.5:0.5b''"
  shows "\<exists>r. install_ollama pg model = Inr r \<and> ir_ok r"
proof -
  have "contains (takeWhile (\<lambda>c. c \<noteq> CHR '':'') ''qwen2.5:7b-instruct'') ''qwen2.5:0.5b''" by code_simp
  then show ?thesis using assms by (simp add: install_ollama_def run_process_def Let_def)
qed

definition demo_programs :: Programs where
  "demo_programs =
     \<lparr>pg_which = (\<lambda>b. None), pg_spawn = (\<lambda>argv. Inr TimedOut), pg_decode = (\<lambda>s. s), pg_resolve = (\<lambda>p. p)\<rparr>"

definition demo_model_lock :: ModelLock where
  "demo_model_lock =
     \<lparr>ml_default = Some ''m'', ml_models = [(''m'', [(''gguf_file'', ''m.gguf''), (''gguf_sha256'', ''ab'')])]\<rparr>"

definition staged_host :: Host where
  "staged_host = \<lparr>ho_env = [], ho_home = ''/root'', ho_files = [(''/media/m.gguf'', ''weights'')], ho_denied = []\<rparr>"

theorem gguf_install_verified_witness:
  "\<exists>r h'. install_model (\<lambda>s. ''ab'') demo_programs ''lock'' demo_model_lock None ''llama_cpp''
      (Some ''/media/m.gguf'') ''/opt'' staged_host = (Inr r, h') \<and> ir_ok r \<and> ir_model r = ''/opt/m.gguf''"
proof -
  let ?i = "install_model (\<lambda>s. ''ab'') demo_programs ''lock'' demo_model_lock None ''llama_cpp''
      (Some ''/media/m.gguf'') ''/opt'' staged_host"
  have "case ?i of (Inr r, h') \<Rightarrow> ir_ok r | _ \<Rightarrow> False" by code_simp
  then obtain r h' where i: "?i = (Inr r, h')" "ir_ok r" by (auto split: prod.splits sum.splits)
  have "load_locked_model ''lock'' demo_model_lock None = Inr model \<Longrightarrow> lm_gguf_file model = ''m.gguf''" for model
    by (auto simp: load_locked_model_def demo_model_lock_def osor_def dget_or_def)
  moreover have "path_join ''/opt'' ''m.gguf'' = ''/opt/m.gguf''" by code_simp
  ultimately show ?thesis using gguf_install_verified [OF i(1), of "[]"] i by auto
qed

end
