(* ===== verification/Detect.thy ===== *)
theory Detect
  imports Model_Install Py_Regex
begin

text \<open>
  Which engine programs are installed on the host (\<open>vantage/engines/detect.py\<close>).  The programs of the host are
  those of \<open>Model_Install\<close>: what is on the path, and how a program ends.
\<close>

definition rx_number :: regex where
  "rx_number = Rx_Rep is_digit 1 None"

definition version3 :: regex where
  "version3 = rx_seq [rx_number, rx_text ''.'', rx_number, rx_text ''.'', rx_number]"

definition version2 :: regex where
  "version2 = rx_seq [rx_number, rx_text ''.'', rx_number]"

definition VERSION_PROBES :: "(string, string \<times> string list \<times> regex) dict" where
  "VERSION_PROBES =
     [(''nuclei'', (''nuclei'', [''-version''], version3)),
      (''ffuf'', (''ffuf'', [''-V''], version3)),
      (''feroxbuster'', (''feroxbuster'', [''--version''], version3)),
      (''gobuster'', (''gobuster'', [''version''], version3)),
      (''katana'', (''katana'', [''-version''], version3)),
      (''httpx'', (''httpx'', [''-version''], version3)),
      (''subfinder'', (''subfinder'', [''-version''], version3)),
      (''dnsx'', (''dnsx'', [''-version''], version3)),
      (''naabu'', (''naabu'', [''-version''], version3)),
      (''tlsx'', (''tlsx'', [''-version''], version3)),
      (''gitleaks'', (''gitleaks'', [''version''], version3)),
      (''gau'', (''gau'', [''--version''], version3)),
      (''schemathesis'', (''schemathesis'', [''--version''], version3)),
      (''zap'', (''zap.sh'', [''-version''], version3)),
      (''whatweb'', (''whatweb'', [''--version''], version2)),
      (''wfuzz'', (''wfuzz'', [''--version''], version3)),
      (''dirsearch'', (''dirsearch'', [''--version''], version3)),
      (''sslyze'', (''sslyze'', [''--version''], version3)),
      (''testssl'', (''testssl.sh'', [''--version''], version2)),
      (''wapiti'', (''wapiti'', [''--version''], version3))]"

record Detection =
  dt_engine_id :: string
  dt_binary :: string
  dt_installed :: bool
  dt_path :: "string option"
  dt_version :: "string option"
  dt_matches_lock :: "bool option"

text \<open>A program that cannot be started (\<open>OSError\<close>) or runs for more than 15 seconds has no version.\<close>

definition probe :: "Programs \<Rightarrow> string \<Rightarrow> string list \<Rightarrow> regex \<Rightarrow> string option \<times> string option" where
  "probe pg binary args r =
     (case pg_which pg binary of
        None \<Rightarrow> (None, None)
      | Some path \<Rightarrow>
          (case pg_spawn pg (path # args) of
             Inr (Exited rc out) \<Rightarrow> (Some path, rx_search False r (pg_decode pg out))
           | _ \<Rightarrow> (Some path, None)))"

definition lock_match :: "(string, string) dict \<Rightarrow> string \<Rightarrow> string option \<Rightarrow> bool option" where
  "lock_match locked eid version =
     (if osor version [] = [] then None
      else map_option (\<lambda>l. version = Some (lstrip (\<lambda>c. c = CHR ''v'') l)) (dget locked eid))"

fun detect_each :: "Programs \<Rightarrow> (string, string) dict \<Rightarrow> string list \<Rightarrow> Detection list" where
  "detect_each pg locked [] = []"
| "detect_each pg locked (eid # ids) =
     (case dget VERSION_PROBES eid of
        None \<Rightarrow> detect_each pg locked ids
      | Some (binary, args, r) \<Rightarrow>
          (case probe pg binary args r of
             (path, version) \<Rightarrow>
               \<lparr>dt_engine_id = eid, dt_binary = binary, dt_installed = (path \<noteq> None), dt_path = path,
                dt_version = version, dt_matches_lock = lock_match locked eid version\<rparr> # detect_each pg locked ids))"

definition detect_engines :: "Programs \<Rightarrow> string list \<Rightarrow> (string, string) dict \<Rightarrow> Detection list" where
  "detect_engines pg engine_ids locked_versions =
     detect_each pg locked_versions (if engine_ids = [] then dkeys VERSION_PROBES else engine_ids)"

subsection \<open>Laws\<close>

text \<open>A version is made of digits and dots.\<close>

definition version_char :: "char \<Rightarrow> bool" where
  "version_char c \<longleftrightarrow> is_digit c \<or> c = CHR ''.''"

fun rx_over :: "(char \<Rightarrow> bool) \<Rightarrow> regex \<Rightarrow> bool" where
  "rx_over Q (Rx_Class P) \<longleftrightarrow> (\<forall>c. P c \<longrightarrow> Q c)"
| "rx_over Q (Rx_Rep P lo hi) \<longleftrightarrow> (\<forall>c. P c \<longrightarrow> Q c)"
| "rx_over Q Rx_Empty \<longleftrightarrow> True"
| "rx_over Q (Rx_Seq a b) \<longleftrightarrow> rx_over Q a \<and> rx_over Q b"
| "rx_over Q (Rx_Alt a b) \<longleftrightarrow> rx_over Q a \<and> rx_over Q b"

lemma rx_ends_over:
  "rx_over Q r \<Longrightarrow> e \<in> set (rx_ends False r s) \<Longrightarrow> \<exists>m. s = m @ e \<and> list_all Q m"
proof (induction r arbitrary: s e)
  case (Rx_Class P)
  then show ?case by (cases s) (auto simp: rx_case_def split: if_splits intro: exI [of _ "[x]" for x])
next
  case (Rx_Rep P lo hi)
  have "rx_case False P = P" by (simp add: rx_case_def fun_eq_iff)
  with Rx_Rep.prems(2) have "e \<in> set (rep_ends P lo hi s)" by simp
  then obtain k where k: "k \<le> length (takeWhile P s)" "e = drop k s" by (rule rep_ends_mem)
  have "take k s = take k (takeWhile P s)" using k(1) by (metis append_take_drop_id take_append takeWhile_eq_take take_take min.absorb1)
  then have "list_all P (take k s)" by (metis list_all_iff set_take_subset set_takeWhileD subsetD)
  then have "list_all Q (take k s)" using Rx_Rep.prems(1) by (auto simp: list_all_iff)
  with k(2) show ?case by (metis append_take_drop_id)
next
  case (Rx_Seq a b)
  from Rx_Seq.prems(2) obtain x where x: "x \<in> set (rx_ends False a s)" "e \<in> set (rx_ends False b x)" by auto
  with Rx_Seq.IH Rx_Seq.prems(1) obtain m n where "s = m @ x" "list_all Q m" "x = n @ e" "list_all Q n" by fastforce
  then show ?case by (intro exI [of _ "m @ n"]) simp
qed auto

lemma rx_search_over:
  assumes "rx_over Q r" and "rx_search False r s = Some m"
  shows "list_all Q m"
proof -
  obtain b where "b \<in> set (rx_ends False r (m @ b))" using rx_search_part [OF assms(2)] by blast
  from rx_ends_over [OF assms(1) this] show ?thesis by simp
qed

lemma version_probe_regex:
  assumes "dget VERSION_PROBES eid = Some (binary, args, r)"
  shows "rx_over version_char r \<and> 3 \<le> rx_min r"
proof -
  have "(eid, (binary, args, r)) \<in> set VERSION_PROBES" using assms by (rule dget_Some_mem)
  then have "r = version3 \<or> r = version2" by (auto simp: VERSION_PROBES_def)
  then show ?thesis
    by (auto simp: version3_def version2_def rx_seq_def rx_number_def rx_text_def version_char_def)
qed

definition detection_ok :: "Programs \<Rightarrow> (string, string) dict \<Rightarrow> Detection \<Rightarrow> bool" where
  "detection_ok pg locked d \<longleftrightarrow>
     dt_installed d = (pg_which pg (dt_binary d) \<noteq> None) \<and> dt_path d = pg_which pg (dt_binary d) \<and>
     (case dt_version d of
        None \<Rightarrow> dt_matches_lock d = None
      | Some v \<Rightarrow> dt_installed d \<and> 3 \<le> length v \<and> list_all version_char v \<and>
          dt_matches_lock d = map_option (\<lambda>l. v = lstrip (\<lambda>c. c = CHR ''v'') l) (dget locked (dt_engine_id d)))"

lemma probe_ok:
  assumes "dget VERSION_PROBES eid = Some (binary, args, r)" and "probe pg binary args r = (path, version)"
  shows "path = pg_which pg binary \<and>
    (case version of None \<Rightarrow> True | Some v \<Rightarrow> path \<noteq> None \<and> 3 \<le> length v \<and> list_all version_char v)"
proof (cases version)
  case None
  with assms(2) show ?thesis by (auto simp: probe_def split: option.splits sum.splits ProcessEnd.splits)
next
  case (Some v)
  with assms(2) obtain s where s: "rx_search False r s = Some v" "path = pg_which pg binary" "path \<noteq> None"
    by (auto simp: probe_def split: option.splits sum.splits ProcessEnd.splits)
  have "rx_min r \<le> length v" using rx_search_part [OF s(1)] by blast
  with version_probe_regex [OF assms(1)] s Some rx_search_over [OF _ s(1)] show ?thesis by fastforce
qed

text \<open>
  detection answers for each known engine that was asked for, in order and for no other: an engine is
  installed exactly when its program is on the path; a version it reports is text of digits and dots
  found in what the installed program printed, and it matches the lock exactly when it is the locked
  version without its leading letter v.
\<close>

theorem detect_engines_spec:
  "List.map dt_engine_id (detect_engines pg ids locked) =
     List.filter (\<lambda>i. i \<in> set (dkeys VERSION_PROBES)) (if ids = [] then dkeys VERSION_PROBES else ids) \<and>
   list_all (detection_ok pg locked) (detect_engines pg ids locked)"
proof -
  have "List.map dt_engine_id (detect_each pg locked xs) = List.filter (\<lambda>i. i \<in> set (dkeys VERSION_PROBES)) xs \<and>
     list_all (detection_ok pg locked) (detect_each pg locked xs)" for xs
  proof (induction xs)
    case (Cons eid xs)
    show ?case
    proof (cases "dget VERSION_PROBES eid")
      case None
      with Cons dget_None_iff [of VERSION_PROBES eid] show ?thesis by simp
    next
      case (Some p)
      obtain binary args r where p: "p = (binary, args, r)" by (cases p)
      obtain path version where v: "probe pg binary args r = (path, version)" by fastforce
      have k: "eid \<in> set (dkeys VERSION_PROBES)" using Some dget_None_iff [of VERSION_PROBES eid] by auto
      from probe_ok [OF Some [unfolded p] v]
      have "detection_ok pg locked \<lparr>dt_engine_id = eid, dt_binary = binary, dt_installed = (path \<noteq> None), dt_path = path,
          dt_version = version, dt_matches_lock = lock_match locked eid version\<rparr>"
        by (auto simp: detection_ok_def lock_match_def osor_def sor_def split: option.splits)
      with Cons k show ?thesis by (simp add: Some p v)
    qed
  qed simp
  then show ?thesis by (simp add: detect_engines_def)
qed

end
