(* ===== verification/Wiring.thy ===== *)
theory Wiring
  imports Loading Native_Headers Native_Fingerprint Native_Crawler Native_Tls Oss_Recon Sandbox Detect Orchestrator_Laws
begin

text \<open>
  The composition of the application (\<open>vantage/app.py\<close>): the prober of the validation engine, the adapters that
  are bound to the registry, detection of installed programs, and the orchestrator over them.  The parsed
  policy, manifests and lock file, the network, the runners and the clocks are the fields of a record.
\<close>

subsection \<open>The prober\<close>

definition http_prober_client :: "Network \<Rightarrow> int \<Rightarrow> Target \<Rightarrow> ScopedHttpClient" where
  "http_prober_client net now target =
     ScopedHttpClient_init net (ScopeEngine_init now target)
       (rl_max_requests_per_second (t_rate_limits target)) (rl_max_concurrency (t_rate_limits target))"

definition http_probe ::
  "regex_search \<Rightarrow> Network \<Rightarrow> string \<Rightarrow> string \<Rightarrow> ScopedHttpClient \<Rightarrow> ProbeResponse res \<times> ScopedHttpClient" where
  "http_probe re_search net mth url c =
     (case scoped_fetch re_search net mth url None None c of
        (Inl e, c) \<Rightarrow> (Inl e, c)
      | (Inr res, c) \<Rightarrow>
          (Inr \<lparr>pr_status = ft_status res, pr_headers = ft_headers res, pr_body = ft_body res, pr_url = ft_url res,
                pr_elapsed_ms = ft_elapsed_ms res\<rparr>, c))"

text \<open>
  The orchestrator asks its prober by URL only, so the prober it is given answers from the client as it was
  made; the laws below hold for the client in any state.
\<close>

definition HttpProber :: "regex_search \<Rightarrow> Network \<Rightarrow> int \<Rightarrow> Target \<Rightarrow> prober res" where
  "HttpProber re_search net now target =
     Inr (\<lambda>url. fst (http_probe re_search net ''GET'' url (http_prober_client net now target)))"

subsection \<open>Adapters of two kinds in one registry\<close>

text \<open>
  The runs of native and of containerized engines have different types, so the registry holds adapters
  whose runs are of either; the orchestrator hands an adapter only what the adapter itself returned.
\<close>

definition foreign_run :: "'a res" where
  "foreign_run = Inl (TypeError ''run of another adapter'')"

definition left_adapter ::
  "('p, 'o, 'r) EngineAdapter \<Rightarrow> ('p + 'p2, 'o + 'o2, 'r + 'r2) EngineAdapter" where
  "left_adapter a =
     \<lparr>ad_metadata = ad_metadata a, ad_health_check = ad_health_check a,
      ad_prepare_target = (\<lambda>request. bind_res (ad_prepare_target a request) (\<lambda>p. Inr (Inl p))),
      ad_execute_scan = (\<lambda>p. case p of Inl p \<Rightarrow> bind_res (ad_execute_scan a p) (\<lambda>u. Inr (Inl u)) | Inr _ \<Rightarrow> foreign_run),
      ad_collect_results = (\<lambda>u. case u of Inl u \<Rightarrow> bind_res (ad_collect_results a u) (\<lambda>r. Inr (Inl r)) | Inr _ \<Rightarrow> foreign_run),
      ad_normalize_results = (\<lambda>r request. case r of Inl r \<Rightarrow> ad_normalize_results a r request | Inr _ \<Rightarrow> foreign_run),
      ad_cleanup = (\<lambda>p. case p of Inl p \<Rightarrow> ad_cleanup a p | Inr _ \<Rightarrow> foreign_run)\<rparr>"

definition right_adapter ::
  "('p2, 'o2, 'r2) EngineAdapter \<Rightarrow> ('p + 'p2, 'o + 'o2, 'r + 'r2) EngineAdapter" where
  "right_adapter a =
     \<lparr>ad_metadata = ad_metadata a, ad_health_check = ad_health_check a,
      ad_prepare_target = (\<lambda>request. bind_res (ad_prepare_target a request) (\<lambda>p. Inr (Inr p))),
      ad_execute_scan = (\<lambda>p. case p of Inr p \<Rightarrow> bind_res (ad_execute_scan a p) (\<lambda>u. Inr (Inr u)) | Inl _ \<Rightarrow> foreign_run),
      ad_collect_results = (\<lambda>u. case u of Inr u \<Rightarrow> bind_res (ad_collect_results a u) (\<lambda>r. Inr (Inr r)) | Inl _ \<Rightarrow> foreign_run),
      ad_normalize_results = (\<lambda>r request. case r of Inr r \<Rightarrow> ad_normalize_results a r request | Inl _ \<Rightarrow> foreign_run),
      ad_cleanup = (\<lambda>p. case p of Inr p \<Rightarrow> ad_cleanup a p | Inl _ \<Rightarrow> foreign_run)\<rparr>"

lemma engine_calls_left: "engine_calls (left_adapter a) request = engine_calls a request"
  by (auto simp: engine_calls_def left_adapter_def bind_res_def split: sum.splits)

lemma engine_calls_right: "engine_calls (right_adapter a) request = engine_calls a request"
  by (auto simp: engine_calls_def right_adapter_def bind_res_def split: sum.splits)

type_synonym app_adapter =
  "(ScopedHttpClient PreparedRun + ContainerRun, ScopedHttpClient ExecutionOutcome + ContainerOutcome,
    RawResults + RawRecords) EngineAdapter"

subsection \<open>Binding\<close>

record Deployment =
  dp_policy :: pyval
  dp_cv :: Coercions
  dp_manifests :: "pyval res list"
  dp_lock :: "pyval res option"
  dp_search :: regex_search
  dp_net :: Network
  dp_now :: int
  dp_stamps :: Stamps
  dp_time_text :: "int \<Rightarrow> string"
  dp_clock :: "nat \<Rightarrow> int"
  dp_inspect :: "string \<Rightarrow> int \<Rightarrow> TlsInfo"
  dp_tools :: Tools
  dp_limits :: ResourceLimits
  dp_runner :: "RunnerKind \<Rightarrow> SandboxRunner"
  dp_programs :: Programs

definition native_adapters :: "Deployment \<Rightarrow> app_adapter list" where
  "native_adapters dp =
     (let fetch = scoped_fetch (dp_search dp) (dp_net dp)
      in List.map (\<lambda>e. left_adapter (native_adapter (dp_stamps dp) (dp_now dp) (default_client_factory (dp_net dp)) e))
           [HeadersAdapter fetch, FingerprintAdapter fetch, TlsAdapter (dp_time_text dp) (dp_clock dp) (dp_inspect dp),
            CrawlerAdapter fetch, ValidatorAdapter])"

fun bind_native :: "'ad EngineRegistry \<Rightarrow> (string \<times> 'ad) list \<Rightarrow> 'ad EngineRegistry res" where
  "bind_native reg [] = Inr reg"
| "bind_native reg ((eid, adapter) # rest) =
     (case registry_get reg eid of
        None \<Rightarrow> bind_native reg rest
      | Some eng \<Rightarrow> bind_res (bind_adapter reg eid adapter) (\<lambda>reg. bind_native reg rest))"

definition engine_ver :: "'ad EngineRegistry \<Rightarrow> string \<Rightarrow> string" where
  "engine_ver reg engine_id =
     (case registry_get reg engine_id of Some eng \<Rightarrow> em_version (re_metadata eng) | None \<Rightarrow> ''unknown'')"

definition oss_adapter_factories :: "Tools \<Rightarrow> (string, ContainerEngine) dict" where
  "oss_adapter_factories tools =
     [(''nuclei'', NucleiAdapter tools), (''ffuf'', FfufAdapter tools), (''katana'', KatanaAdapter tools),
      (''httpx'', HttpxAdapter tools), (''feroxbuster'', FeroxbusterAdapter tools), (''zap'', ZapAdapter tools),
      (''gitleaks'', GitleaksAdapter tools), (''subfinder'', SubfinderAdapter tools), (''dnsx'', DnsxAdapter tools),
      (''tlsx'', TlsxAdapter tools)]"

definition made_adapter :: "Deployment \<Rightarrow> SandboxRunner \<Rightarrow> app_adapter EngineRegistry \<Rightarrow> string \<Rightarrow> ContainerEngine \<Rightarrow> app_adapter" where
  "made_adapter dp runner reg eid e =
     right_adapter (container_adapter (st_ids (dp_stamps dp)) (st_times (dp_stamps dp)) (dp_now dp)
       (ContainerAdapter_init (dp_limits dp) e runner (engine_ver reg eid) None False))"

fun bind_oss ::
  "Deployment \<Rightarrow> SandboxRunner \<Rightarrow> bool \<Rightarrow> string list \<Rightarrow> app_adapter EngineRegistry \<Rightarrow> (string, ContainerEngine) dict \<Rightarrow>
   app_adapter EngineRegistry res" where
  "bind_oss dp runner auto_detect detected reg [] = Inr reg"
| "bind_oss dp runner auto_detect detected reg ((eid, e) # rest) =
     (case registry_get reg eid of
        None \<Rightarrow> bind_oss dp runner auto_detect detected reg rest
      | Some eng \<Rightarrow>
          if \<not> usable eng then bind_oss dp runner auto_detect detected reg rest
          else if auto_detect \<and> eid \<notin> set detected then bind_oss dp runner auto_detect detected reg rest
          else bind_res (bind_adapter reg eid (made_adapter dp runner reg eid e)) (\<lambda>reg.
                 bind_oss dp runner auto_detect detected reg rest))"

definition detect_installed :: "Programs \<Rightarrow> string list \<Rightarrow> string list" where
  "detect_installed pg engine_ids = List.map dt_engine_id (List.filter dt_installed (detect_engines pg engine_ids []))"

fun enable_all :: "'ad EngineRegistry \<Rightarrow> string list \<Rightarrow> 'ad EngineRegistry res" where
  "enable_all reg [] = Inr reg"
| "enable_all reg (eid # eids) = bind_res (enable reg eid True) (\<lambda>reg. enable_all reg eids)"

subsection \<open>The application\<close>

record VantageApp =
  va_registry :: "app_adapter EngineRegistry"
  va_orchestrator ::
    "(ScopedHttpClient PreparedRun + ContainerRun, ScopedHttpClient ExecutionOutcome + ContainerOutcome,
      RawResults + RawRecords) Orchestrator"
  va_policy :: LicensePolicy
  va_analyst :: LLMProvider

definition app_registry ::
  "Deployment \<Rightarrow> SandboxRunner \<Rightarrow> bool \<Rightarrow> bool \<Rightarrow> LicensePolicy \<Rightarrow> app_adapter EngineRegistry res" where
  "app_registry dp runner bind auto_detect policy =
     (let factories = oss_adapter_factories (dp_tools dp);
          detected = (if auto_detect then detect_installed (dp_programs dp) (dkeys factories) else [])
      in bind_res (EngineRegistry_load (dp_cv dp) (dp_manifests dp) (dp_lock dp) policy) (\<lambda>reg.
         bind_res (bind_native reg (List.map (\<lambda>a. (em_id (ad_metadata a), a)) (native_adapters dp))) (\<lambda>reg.
         bind_res (enable_all reg detected) (\<lambda>reg.
           if bind then bind_oss dp runner auto_detect detected reg factories else Inr reg))))"

definition VantageApp_build ::
  "Deployment \<Rightarrow> SandboxRunner option \<Rightarrow> string \<Rightarrow> bool \<Rightarrow> bool \<Rightarrow> bool \<Rightarrow> LLMProvider option \<Rightarrow> VantageApp res" where
  "VantageApp_build dp sandbox sandbox_mode bind auto_detect validate_findings ai_provider =
     bind_res (policy_load (dp_policy dp)) (\<lambda>policy.
       (let runner = (case sandbox of Some r \<Rightarrow> r
                      | None \<Rightarrow> dp_runner dp (select_runner (pg_which (dp_programs dp)) sandbox_mode True));
            analyst = (case ai_provider of Some p \<Rightarrow> p | None \<Rightarrow> NullProvider)
        in bind_res (app_registry dp runner bind auto_detect policy) (\<lambda>reg. Inr
             \<lparr>va_registry = reg,
              va_orchestrator = Orchestrator_init reg None (Some (HttpProber (dp_search dp) (dp_net dp) (dp_now dp)))
                None validate_findings (Some analyst) None,
              va_policy = policy, va_analyst = analyst\<rparr>)))"

definition VantageApp_from_env :: "AiOutside \<Rightarrow> Host \<Rightarrow> Deployment \<Rightarrow> VantageApp res" where
  "VantageApp_from_env ou h dp =
     bind_res (build_ai_provider_from_env ou h) (\<lambda>ai.
       VantageApp_build dp None (env_or h ''VANTAGE_SANDBOX'' ''auto'') True
         (env_or h ''VANTAGE_AUTODETECT'' ''0'' \<in> {''1'', ''true'', ''yes''}) True ai)"

end
