(* ===== verification/Wiring_Laws.thy ===== *)
theory Wiring_Laws
  imports Wiring Oss_Laws
begin

text \<open>
  Laws of the composed application: which adapters are bound, that every planned task has one, and what
  the prober of the validation engine answers when its request fails.
\<close>

subsection \<open>What is bound\<close>

text \<open>Every bound adapter of the registry satisfies a predicate of its key.\<close>

definition bound_by :: "(string \<Rightarrow> 'ad \<Rightarrow> bool) \<Rightarrow> 'ad EngineRegistry \<Rightarrow> bool" where
  "bound_by P reg \<longleftrightarrow> (\<forall>i e a. registry_get reg i = Some e \<longrightarrow> re_adapter e = Some a \<longrightarrow> P i a)"

definition registry_inv :: "LicensePolicy \<Rightarrow> (string \<Rightarrow> 'ad \<Rightarrow> bool) \<Rightarrow> 'ad EngineRegistry \<Rightarrow> bool" where
  "registry_inv pol P reg \<longleftrightarrow> registry_reachable pol reg \<and> bound_by P reg"

lemma bound_by_put:
  "bound_by P reg \<Longrightarrow> bound_by P (put_engine reg m lock md problems nts)"
  by (simp add: bound_by_def registry_get_def put_engine_def)

lemma bound_by_update:
  assumes "bound_by P reg" and "update_engine reg i f = Inr reg'"
    and "\<And>e a. re_adapter (f e) = Some a \<Longrightarrow> re_adapter e = Some a \<or> P i a"
  shows "bound_by P reg'"
proof -
  obtain e where e: "dget (er_engines reg) i = Some e" "reg' = reg\<lparr>er_engines := dset (er_engines reg) i (f e)\<rparr>"
    using assms(2) by (auto simp: update_engine_def split: option.splits)
  show ?thesis unfolding bound_by_def
  proof (intro allI impI)
    fix j x a assume x: "registry_get reg' j = Some x" "re_adapter x = Some a"
    show "P j a"
    proof (cases "j = i")
      case True
      with x e have "re_adapter (f e) = Some a" by (simp add: registry_get_def)
      with assms(1,3) e True show ?thesis unfolding bound_by_def registry_get_def by blast
    next
      case False
      with x e assms(1) show ?thesis unfolding bound_by_def registry_get_def by simp
    qed
  qed
qed

lemma registry_inv_register:
  assumes "registry_inv pol P reg" and "register_manifest reg m locks = Inr reg'"
  shows "registry_inv pol P reg'"
proof -
  have "registry_reachable pol reg'"
    using registry_reachable.step [of pol reg "Register m locks" reg'] assms by (simp add: registry_inv_def)
  moreover obtain lock md problems nts where "reg' = put_engine reg m lock md problems nts"
    by (rule register_manifest_put [OF assms(2)])
  ultimately show ?thesis using assms(1) by (simp add: registry_inv_def bound_by_put)
qed

lemma registry_inv_bind:
  assumes "registry_inv pol P reg" and "bind_adapter reg i a = Inr reg'" and "P i a"
  shows "registry_inv pol P reg'"
proof -
  have "registry_reachable pol reg'"
    using registry_reachable.step [of pol reg "Bind i a" reg'] assms by (simp add: registry_inv_def)
  moreover have "bound_by P reg'"
  proof (rule bound_by_update [of P reg i "\<lambda>e. e\<lparr>re_adapter := Some a\<rparr>"])
    show "bound_by P reg" using assms(1) by (simp add: registry_inv_def)
    show "update_engine reg i (\<lambda>e. e\<lparr>re_adapter := Some a\<rparr>) = Inr reg'" using assms(2) by (simp add: bind_adapter_def)
  qed (use assms in simp)
  ultimately show ?thesis by (simp add: registry_inv_def)
qed

lemma registry_inv_enable:
  assumes "registry_inv pol P reg" and "enable reg i b = Inr reg'"
  shows "registry_inv pol P reg'"
proof -
  have "registry_reachable pol reg'"
    using registry_reachable.step [of pol reg "Enable i b" reg'] assms by (simp add: registry_inv_def)
  moreover have "bound_by P reg'"
  proof (rule bound_by_update [of P reg i "\<lambda>e. e\<lparr>re_manifest := re_manifest e\<lparr>mf_enabled := b\<rparr>\<rparr>"])
    show "bound_by P reg" using assms(1) by (simp add: registry_inv_def)
    show "update_engine reg i (\<lambda>e. e\<lparr>re_manifest := re_manifest e\<lparr>mf_enabled := b\<rparr>\<rparr>) = Inr reg'" using assms(2) by (simp add: enable_def)
  qed (use assms in simp)
  ultimately show ?thesis by (simp add: registry_inv_def)
qed

lemma registry_inv_register_all:
  "register_all reg ms locks = Inr reg' \<Longrightarrow> registry_inv pol P reg \<Longrightarrow> registry_inv pol P reg'"
  by (induction ms arbitrary: reg) (auto simp: bind_res_Inr_iff intro: registry_inv_register)

lemma registry_inv_init: "registry_inv pol P (EngineRegistry_init pol)"
proof -
  have "bound_by P (EngineRegistry_init pol)" by (simp add: bound_by_def registry_get_def EngineRegistry_init_def)
  then show ?thesis by (simp add: registry_inv_def registry_reachable.init)
qed

lemma registry_inv_load:
  "EngineRegistry_load cv docs lock pol = Inr reg \<Longrightarrow> registry_inv pol P reg"
  unfolding EngineRegistry_load_registers registry_load_def by (blast intro: registry_inv_register_all registry_inv_init)

lemma registry_inv_native:
  "bind_native reg as = Inr reg' \<Longrightarrow> registry_inv pol P reg \<Longrightarrow> list_all (\<lambda>(i, a). P i a) as \<Longrightarrow> registry_inv pol P reg'"
proof (induction as arbitrary: reg)
  case (Cons ia as)
  obtain i a where ia: "ia = (i, a)" by (cases ia)
  show ?case
  proof (cases "registry_get reg i")
    case None
    with Cons ia show ?thesis by simp
  next
    case (Some e)
    with Cons.prems(1) ia obtain r where "bind_adapter reg i a = Inr r" "bind_native r as = Inr reg'"
      by (auto simp: bind_res_Inr_iff)
    then show ?thesis using Cons.IH Cons.prems(2,3) ia by (auto intro: registry_inv_bind)
  qed
qed simp

lemma registry_inv_enable_all:
  "enable_all reg ids = Inr reg' \<Longrightarrow> registry_inv pol P reg \<Longrightarrow> registry_inv pol P reg'"
  by (induction ids arbitrary: reg) (auto simp: bind_res_Inr_iff intro: registry_inv_enable)

text \<open>What \<open>build\<close> binds under an identifier: an adapter of that engine, native or of a factory.\<close>

definition NATIVE_IDS :: "string list" where
  "NATIVE_IDS = [''vantage-headers'', ''vantage-fingerprint'', ''vantage-tls'', ''vantage-crawler'', ''vantage-validator'']"

definition app_bound :: "Deployment \<Rightarrow> bool \<Rightarrow> bool \<Rightarrow> string \<Rightarrow> app_adapter \<Rightarrow> bool" where
  "app_bound dp bind auto_detect i a \<longleftrightarrow>
     em_id (ad_metadata a) = i \<and>
     (i \<in> set NATIVE_IDS \<or>
      bind \<and> i \<in> set (dkeys (oss_adapter_factories (dp_tools dp))) \<and>
      (auto_detect \<longrightarrow> i \<in> set (detect_installed (dp_programs dp) (dkeys (oss_adapter_factories (dp_tools dp))))))"

lemma native_adapters_bound:
  "list_all (\<lambda>(i, a). app_bound dp bind auto_detect i a) (List.map (\<lambda>a. (em_id (ad_metadata a), a)) (native_adapters dp))"
  by (simp add: native_adapters_def Let_def app_bound_def left_adapter_def native_adapter_def native_metadata_def
      HeadersAdapter_def FingerprintAdapter_def TlsAdapter_def CrawlerAdapter_def ValidatorAdapter_def NATIVE_IDS_def)

lemma factory_ids: "(eid, e) \<in> set (oss_adapter_factories tools) \<Longrightarrow> cn_engine_id e = eid"
  by (auto simp: oss_adapter_factories_def NucleiAdapter_def FfufAdapter_def KatanaAdapter_def HttpxAdapter_def
      FeroxbusterAdapter_def ZapAdapter_def GitleaksAdapter_def SubfinderAdapter_def DnsxAdapter_def TlsxAdapter_def)

lemma made_adapter_id: "em_id (ad_metadata (made_adapter dp runner reg eid e)) = cn_engine_id e"
  by (simp add: made_adapter_def right_adapter_def container_adapter_def container_metadata_def Let_def
      ContainerAdapter_init_def)

lemma registry_inv_oss:
  "bind_oss dp runner auto_detect detected reg fs = Inr reg' \<Longrightarrow> registry_inv pol (app_bound dp True auto_detect) reg \<Longrightarrow>
     set fs \<subseteq> set (oss_adapter_factories (dp_tools dp)) \<Longrightarrow>
     detected = detect_installed (dp_programs dp) (dkeys (oss_adapter_factories (dp_tools dp))) \<or> \<not> auto_detect \<Longrightarrow>
     registry_inv pol (app_bound dp True auto_detect) reg'"
proof (induction fs arbitrary: reg)
  case (Cons f fs)
  obtain eid e where f: "f = (eid, e)" by (cases f)
  show ?case
  proof (cases "\<exists>eng. registry_get reg eid = Some eng \<and> usable eng \<and> (auto_detect \<longrightarrow> eid \<in> set detected)")
    case False
    then have "bind_oss dp runner auto_detect detected reg fs = Inr reg'"
      using Cons.prems(1) by (auto simp: f split: option.splits if_splits)
    with Cons show ?thesis by simp
  next
    case True
    with Cons.prems(1) obtain r where r: "bind_adapter reg eid (made_adapter dp runner reg eid e) = Inr r"
      "bind_oss dp runner auto_detect detected r fs = Inr reg'"
      by (auto simp: f bind_res_Inr_iff)
    have m: "(eid, e) \<in> set (oss_adapter_factories (dp_tools dp))" using Cons.prems(3) f by simp
    then have "eid \<in> set (dkeys (oss_adapter_factories (dp_tools dp)))" by (force simp: dkeys_def)
    with True Cons.prems(4) have "app_bound dp True auto_detect eid (made_adapter dp runner reg eid e)"
      by (auto simp: app_bound_def made_adapter_id factory_ids [OF m])
    with r(1) Cons.prems(2) have "registry_inv pol (app_bound dp True auto_detect) r" by (blast intro: registry_inv_bind)
    with Cons.IH [OF r(2)] Cons.prems(3,4) show ?thesis by simp
  qed
qed simp

lemma app_registry_inv:
  assumes "app_registry dp runner bind auto_detect pol = Inr reg"
  shows "registry_inv pol (app_bound dp bind auto_detect) reg"
proof -
  let ?fs = "oss_adapter_factories (dp_tools dp)"
  let ?found = "if auto_detect then detect_installed (dp_programs dp) (dkeys ?fs) else []"
  from assms obtain r1 r2 r3 where r: "EngineRegistry_load (dp_cv dp) (dp_manifests dp) (dp_lock dp) pol = Inr r1"
    "bind_native r1 (List.map (\<lambda>a. (em_id (ad_metadata a), a)) (native_adapters dp)) = Inr r2"
    "enable_all r2 ?found = Inr r3"
    "(if bind then bind_oss dp runner auto_detect ?found r3 ?fs else Inr r3) = Inr reg"
    by (auto simp: app_registry_def Let_def bind_res_Inr_iff)
  have "registry_inv pol (app_bound dp bind auto_detect) r3"
    by (rule registry_inv_enable_all [OF r(3) registry_inv_native [OF r(2) registry_inv_load [OF r(1)] native_adapters_bound]])
  with r(4) show ?thesis
    by (cases bind) (auto split: if_splits elim!: registry_inv_oss)
qed

lemma VantageApp_build_inv:
  assumes "VantageApp_build dp sandbox sandbox_mode bind auto_detect validate_findings ai_provider = Inr app"
  shows "registry_inv (va_policy app) (app_bound dp bind auto_detect) (va_registry app)"
proof -
  from assms obtain pol reg runner where "app_registry dp runner bind auto_detect pol = Inr reg"
    "va_policy app = pol" "va_registry app = reg"
    by (auto simp: VantageApp_build_def Let_def bind_res_Inr_iff)
  then show ?thesis using app_registry_inv by blast
qed

lemma usable_third_party_green:
  assumes "registry_reachable pol reg" and "registry_get reg i = Some e" and "third_party e" and "usable e"
  shows "\<exists>d. classify_license pol (mf_license (re_manifest e)) = Inr d \<and> pd_license_class d = GREEN"
proof -
  have "entry_ok pol e"
    using reachable_ok [OF assms(1)] assms(2) dget_Some_mem by (fastforce simp: registry_ok_def registry_get_def)
  with assms(3,4) show ?thesis by (simp add: entry_ok_def usable_def)
qed

lemma failed_fetch_headers:
  assumes "scoped_fetch re_search net mth url headers body c = (Inr res, c')" and "\<not> fetch_ok res"
  shows "ft_headers res = []"
  using assms
  by (auto simp: scoped_fetch_def Let_def failed_fetch_def fetch_ok_def read_response_def bind_res_def
      split: sum.splits if_splits)

lemma no_headers_condition:
  assumes "pr_headers resp = []"
    and "obs_vuln_class ob \<in> {''missing_security_header'', ''clickjacking'', ''insecure_cookie''}"
    and "obs_vuln_class ob = ''missing_security_header'' \<longrightarrow> expected_header ob \<noteq> None"
  shows "condition_holds ob resp (map lower (dkeys (pr_headers resp)))"
proof -
  have "\<not> contains ''secure'' (lower (sor (dget_or [] ''set-cookie'' []) (dget_or [] ''Set-Cookie'' [])))" by code_simp
  with assms show ?thesis by (auto simp: condition_holds_def Let_def dkeys_def split: option.splits)
qed

subsection \<open>Properties\<close>

text \<open>
  C7: what the application of \<open>build\<close> plans it can run.  Every planned task has an adapter of its engine: a
  native one, or, only if containerized engines are bound, that of a factory, and then, if installed programs are
  detected, of an engine that was detected.  A third-party engine so planned has a license the policy puts in
  the green class.
\<close>

theorem built_app_plans:
  assumes "VantageApp_build dp sandbox sandbox_mode bind auto_detect validate_findings ai_provider = Inr app"
    and "s \<in> set (plan_stages (plan_scan ids now cfg (engines_for (va_registry app)) target policy seeds))"
    and "t \<in> set (ps_tasks s)" and "c \<in> set (pt_capabilities t)"
  shows "\<exists>e a. registry_get (va_registry app) (pt_engine_id t) = Some e \<and>
    adapter_for (va_registry app) (pt_engine_id t) = Some a \<and> em_id (ad_metadata a) = pt_engine_id t \<and>
    (pt_engine_id t \<in> set NATIVE_IDS \<or>
     bind \<and> pt_engine_id t \<in> set (dkeys (oss_adapter_factories (dp_tools dp))) \<and>
     (auto_detect \<longrightarrow> pt_engine_id t \<in>
        set (detect_installed (dp_programs dp) (dkeys (oss_adapter_factories (dp_tools dp)))))) \<and>
    (third_party e \<longrightarrow> (\<exists>d. classify_license (va_policy app) (mf_license (re_manifest e)) = Inr d \<and>
                           pd_license_class d = GREEN))"
proof -
  have inv: "registry_reachable (va_policy app) (va_registry app)"
    "bound_by (app_bound dp bind auto_detect) (va_registry app)"
    using VantageApp_build_inv [OF assms(1)] by (simp_all add: registry_inv_def)
  from planned_task_runnable [OF inv(1) assms(2-4)] obtain a where a: "adapter_for (va_registry app) (pt_engine_id t) = Some a"
    by auto
  then obtain e where e: "registry_get (va_registry app) (pt_engine_id t) = Some e" "usable e" "re_adapter e = Some a"
    by (auto simp: adapter_for_def registry_get_def split: option.splits if_splits)
  have "app_bound dp bind auto_detect (pt_engine_id t) a" using inv(2) e unfolding bound_by_def by blast
  moreover have "third_party e \<longrightarrow> (\<exists>d. classify_license (va_policy app) (mf_license (re_manifest e)) = Inr d \<and>
                           pd_license_class d = GREEN)"
    using usable_third_party_green [OF inv(1) e(1)] e(2) by blast
  ultimately show ?thesis using a e(1) unfolding app_bound_def by blast
qed

text \<open>
  C35: a request of the prober that fails confirms.  The prober returns the status and headers of a fetch that
  was refused or failed as if it were a response, so for an observation of a missing header, of
  clickjacking or of an insecure cookie validation answers CONFIRMED when the page could not be fetched.
\<close>

theorem failed_probe_confirms:
  assumes "scoped_fetch re_search net ''GET'' (url_of ob) None None c = (Inr res, c')" and "\<not> fetch_ok res"
    and "obs_vuln_class ob \<in> {''missing_security_header'', ''clickjacking'', ''insecure_cookie''}"
    and "obs_vuln_class ob = ''missing_security_header'' \<longrightarrow> expected_header ob \<noteq> None"
  shows "\<exists>ob'. validate eid now ob (\<lambda>url. fst (http_probe re_search net ''GET'' url c)) = Inr ob' \<and>
    obs_confidence ob' = CONFIRMED \<and> obs_id ob' = obs_id ob"
proof -
  let ?get = "\<lambda>url. fst (http_probe re_search net ''GET'' url c)"
  have h: "ft_headers res = []" by (rule failed_fetch_headers [OF assms(1,2)])
  obtain resp where resp: "?get (url_of ob) = Inr resp" "pr_headers resp = []"
    using assms(1) h by (auto simp: http_probe_def)
  have holds: "condition_holds ob resp (map lower (dkeys (pr_headers resp)))"
    using assms(3,4) resp(2) by (intro no_headers_condition)
  have handles: "obs_vuln_class ob \<in> set CONFIG_CATEGORIES" using assms(3) by (auto simp: CONFIG_CATEGORIES_def)
  obtain r where r: "config_validate eid now ob ?get = Inr r" by (auto simp: config_validate_def resp(1) Let_def)
  have "vr_confidence r = CONFIRMED" by (rule config_result [OF r]) (use resp(1) holds in auto)
  then have "obs_confidence (apply_result now ob r) = CONFIRMED" "obs_id (apply_result now ob r) = obs_id ob"
    by (simp_all add: apply_result_def Let_def)
  moreover have "validate eid now ob ?get = Inr (apply_result now ob r)"
    using r handles by (simp add: validate_def default_strategies_def ConfigReverifyStrategy_def)
  ultimately show ?thesis by blast
qed

text \<open>
  Detection looks for another program than the one the ZAP adapter runs; every other engine with an
  adapter is detected by the program it runs.
\<close>

lemma detected_programs:
  "List.filter (\<lambda>(eid, e). map_option fst (dget VERSION_PROBES eid) \<noteq> Some (cn_binary e)) (oss_adapter_factories tools) =
     [(''zap'', ZapAdapter tools)]"
  by (simp add: oss_adapter_factories_def VERSION_PROBES_def NucleiAdapter_def FfufAdapter_def KatanaAdapter_def
      HttpxAdapter_def FeroxbusterAdapter_def ZapAdapter_def GitleaksAdapter_def SubfinderAdapter_def DnsxAdapter_def
      TlsxAdapter_def)

subsection \<open>A built application\<close>

definition built_manifest :: EngineManifest where
  "built_manifest = demo_manifest\<lparr>mf_id := ''nuclei''\<rparr>"

definition built_lock :: EngineLock where
  "built_lock = [(''nuclei'', \<lparr>lk_version = ''1'', lk_image_digest = Some ''sha256:ab'', lk_license = ''MIT'', lk_verified_date = []\<rparr>)]"

text \<open>The files that hold them.\<close>

definition built_manifest_file :: pyval where
  "built_manifest_file = PDict
     [(''id'', PStr ''nuclei''), (''name'', PStr ''Tool''), (''vendor'', PStr ''v''), (''license'', PStr ''MIT''),
      (''integration'', PStr ''container_cli''), (''capabilities'', PList [PStr ''audit.templates'']),
      (''adapter'', PStr ''a''), (''image'', PStr ''r/tool@sha256:ab''),
      (''default_limits'', PDict [(''max_output_bytes'', PInt 1024)])]"

definition built_lock_file :: pyval where
  "built_lock_file = PDict [(''engines'', PDict
     [(''nuclei'', PDict [(''version'', PStr ''1''), (''image_digest'', PStr ''sha256:ab''), (''license'', PStr ''MIT'')])])]"

lemma built_manifest_valid: "EngineManifest_validate plain_cv built_manifest_file = Inr built_manifest"
  by code_simp

lemma built_lock_loads: "load_lock plain_cv (Some (Inr built_lock_file)) = Inr built_lock"
  by code_simp

definition built_entry :: "'ad option \<Rightarrow> 'ad RegisteredEngine" where
  "built_entry adapter =
     \<lparr>re_manifest = built_manifest,
      re_lock = \<lparr>lk_version = ''1'', lk_image_digest = Some ''sha256:ab'', lk_license = ''MIT'', lk_verified_date = []\<rparr>,
      re_metadata = \<lparr>em_id = ''nuclei'', em_name = ''Tool'', em_version = ''1'', em_vendor = ''v'',
        em_license_spdx = ''MIT'', em_license_class = GREEN, em_approval_status = APPROVED,
        em_integration = CONTAINER_CLI, em_capabilities = [AUDIT_TEMPLATES],
        em_image = Some ''r/tool@sha256:ab'', em_homepage = None\<rparr>,
      re_adapter = adapter, re_problems = [], re_notes = []\<rparr>"

definition built_registry :: "'ad option \<Rightarrow> 'ad EngineRegistry" where
  "built_registry adapter = \<lparr>er_policy = demo_policy, er_engines = [(''nuclei'', built_entry adapter)]\<rparr>"

definition built_policy :: pyval where
  "built_policy =
     PDict [(''classes'', PDict [(''GREEN'', PDict [(''spdx'', PList [PStr ''MIT''])]),
                                 (''RED'', PDict [(''spdx'', PList [PStr ''AGPL-3.0-only''])])]),
            (''arms_length_integration_types'', PList [PStr ''container_cli''])]"

lemma built_policy_loads: "policy_load built_policy = Inr demo_policy"
  by code_simp

lemma built_license:
  "\<exists>d. classify_license demo_policy ''MIT'' = Inr d \<and> pd_license_class d = GREEN"
proof -
  have "map_sum id pd_license_class (classify_license demo_policy ''MIT'') = Inr GREEN" by code_simp
  then show ?thesis by (cases "classify_license demo_policy ''MIT''") auto
qed

lemma built_load:
  "EngineRegistry_load plain_cv [Inr built_manifest_file] (Some (Inr built_lock_file)) demo_policy = Inr (built_registry None)"
proof -
  obtain d where d: "classify_license demo_policy ''MIT'' = Inr d" "pd_license_class d = GREEN" using built_license by blast
  have p: "image_problems built_manifest \<lparr>lk_version = ''1'', lk_image_digest = Some ''sha256:ab'', lk_license = ''MIT'', lk_verified_date = []\<rparr> = []"
    "is_identifier ''nuclei''"
    by code_simp+
  show ?thesis
    using p by (simp add: EngineRegistry_load_def built_lock_loads built_manifest_valid register_manifest_def register_third_party_def EngineRegistry_init_def d built_manifest_def
        demo_manifest_def built_lock_def lock_or_def pin_problems_def license_gate_def lock_problems_def engine_metadata_def
        put_engine_def built_registry_def built_entry_def)
qed

lemma built_native: "bind_native (built_registry None) (List.map (\<lambda>a. (em_id (ad_metadata a), a)) (native_adapters dp)) = Inr (built_registry None)"
  by (simp add: native_adapters_def Let_def left_adapter_def native_adapter_def native_metadata_def
      HeadersAdapter_def FingerprintAdapter_def TlsAdapter_def CrawlerAdapter_def ValidatorAdapter_def registry_get_def built_registry_def)

lemma built_oss:
  "bind_oss dp runner False found (built_registry None) (oss_adapter_factories tools) =
     Inr (built_registry (Some (made_adapter dp runner (built_registry None) ''nuclei'' (NucleiAdapter tools))))"
  by (simp add: oss_adapter_factories_def registry_get_def built_registry_def bind_adapter_def update_engine_def built_entry_def
      usable_def built_manifest_def demo_manifest_def)

lemma built_engines: "engines_for (built_registry (Some a)) = engines_for (built_registry (Some ()))"
  by (rule ext) (simp add: engines_for_def registry_all_def dvalues_def built_registry_def built_entry_def usable_def)

definition built_plan :: ScanPlan where
  "built_plan = plan_scan (\<lambda>n. str_of_nat n) 7 \<lparr>pc_redundant_engines = False\<rparr>
     (engines_for (built_registry (Some ()))) (demo_target [''http://a/'']) (demo_scan_policy STANDARD) [''http://a/'']"

definition built_deployment :: Deployment where
  "built_deployment =
     \<lparr>dp_policy = built_policy, dp_cv = plain_cv, dp_manifests = [Inr built_manifest_file],
      dp_lock = Some (Inr built_lock_file), dp_search = (\<lambda>_ _. Inr True),
      dp_net = demo_network, dp_now = 0, dp_stamps = demo_stamps, dp_time_text = (\<lambda>t. str_of_int t), dp_clock = int,
      dp_inspect = (\<lambda>h p. \<lparr>ti_host = h, ti_port = p, ti_protocol = None, ti_cipher = None, ti_not_after = None,
        ti_issuer_cn = None, ti_subject_cn = None, ti_self_signed = False, ti_error = Some ''refused''\<rparr>),
      dp_tools = oss_tools, dp_limits = mf_default_limits built_manifest, dp_runner = (\<lambda>k. oss_runner ''{}''),
      dp_programs = demo_programs\<rparr>"

lemma built_fields:
  "dp_manifests built_deployment = [Inr built_manifest_file]" "dp_lock built_deployment = Some (Inr built_lock_file)"
  "dp_cv built_deployment = plain_cv"
  "dp_tools built_deployment = oss_tools" "dp_policy built_deployment = built_policy"
  by (simp_all add: built_deployment_def)

lemma built_app_registry:
  "\<exists>a. app_registry built_deployment runner True False demo_policy = Inr (built_registry (Some a))"
  by (auto simp: app_registry_def Let_def built_fields built_load built_native built_oss)

theorem built_app_plans_witness:
  "\<exists>app a. VantageApp_build built_deployment None ''auto'' True False True None = Inr app \<and>
     adapter_for (va_registry app) (pt_engine_id (hd (ps_tasks (hd (plan_stages built_plan))))) = Some a \<and>
     em_id (ad_metadata a) = pt_engine_id (hd (ps_tasks (hd (plan_stages built_plan))))"
proof -
  let ?runner = "dp_runner built_deployment (select_runner (pg_which (dp_programs built_deployment)) ''auto'' True)"
  obtain a where a: "app_registry built_deployment ?runner True False demo_policy = Inr (built_registry (Some a))"
    using built_app_registry by blast
  have "policy_load (dp_policy built_deployment) = Inr demo_policy"
    by (simp add: built_fields built_policy_loads)
  with a obtain app where app: "VantageApp_build built_deployment None ''auto'' True False True None = Inr app"
    "va_registry app = built_registry (Some a)"
    by (auto simp: VantageApp_build_def Let_def)
  have plan: "built_plan = plan_scan (\<lambda>n. str_of_nat n) 7 \<lparr>pc_redundant_engines = False\<rparr>
     (engines_for (va_registry app)) (demo_target [''http://a/'']) (demo_scan_policy STANDARD) [''http://a/'']"
    unfolding built_plan_def app(2) built_engines [of a] by (rule refl)
  have s: "hd (plan_stages built_plan) \<in> set (plan_stages built_plan)"
    by (rule hd_in_set) code_simp
  have t: "hd (ps_tasks (hd (plan_stages built_plan))) \<in> set (ps_tasks (hd (plan_stages built_plan)))"
    by (rule hd_in_set) code_simp
  have c: "AUDIT_TEMPLATES \<in> set (pt_capabilities (hd (ps_tasks (hd (plan_stages built_plan)))))"
    by code_simp
  from built_app_plans [OF app(1) s [unfolded plan] t [unfolded plan] c [unfolded plan], folded plan] app(1)
  show ?thesis by blast
qed

theorem failed_probe_confirms_witness:
  "\<exists>ob'. validate ''v'' 9 demo_header_finding (\<lambda>url. fst (http_probe (\<lambda>_ _. Inr True) demo_network ''GET'' url demo_client)) = Inr ob' \<and>
     obs_confidence ob' = CONFIRMED"
proof -
  have u: "url_of demo_header_finding = ''https://a:8/''" by code_simp
  have "map_sum id sd_allowed (scope_check (\<lambda>_ _. Inr True) demo_engine ''https://a:8/'' (Some ''GET'')) = Inr False"
    by code_simp
  then obtain d where d: "scope_check (\<lambda>_ _. Inr True) demo_engine ''https://a:8/'' (Some ''GET'') = Inr d" "\<not> sd_allowed d"
    by (cases "scope_check (\<lambda>_ _. Inr True) demo_engine ''https://a:8/'' (Some ''GET'')") auto
  have f: "scoped_fetch (\<lambda>_ _. Inr True) demo_network ''GET'' (url_of demo_header_finding) None None demo_client =
      (Inr (failed_fetch ''https://a:8/'' 0 True (sd_reason d)), demo_client)"
    using d by (simp add: scoped_fetch_def u demo_client_scope)
  have "\<not> fetch_ok (failed_fetch ''https://a:8/'' 0 True (sd_reason d))" by (simp add: fetch_ok_def failed_fetch_def)
  moreover have "expected_header demo_header_finding \<noteq> None" by code_simp
  moreover have "obs_vuln_class demo_header_finding = ''missing_security_header''"
    by (simp add: demo_header_finding_def demo_candidate_def)
  ultimately show ?thesis using failed_probe_confirms [OF f] by blast
qed

end
