(* ===== verification/Api.thy ===== *)
theory Api
  imports Wiring Reporting
begin

text \<open>
  The HTTP surface (\<open>vantage/api/app.py\<close>): one step per request over the application, the registered
  targets and the kept reports.  Bodies arrive as parsed; \<open>HttpUrl\<close>, the dump of a target, the JSON reader
  and the console page are arguments.  Requests are served one after another.
\<close>

subsection \<open>Requests and responses\<close>

record TargetCreate =
  tc_name :: string
  tc_base_urls :: "string list"
  tc_kind :: ApplicationKind
  tc_authorized :: bool
  tc_scope_rules :: "ScopeRule list"

record ScanCreate =
  sc_target_id :: string
  sc_profile :: ScanProfile

datatype Request =
    GetConsole
  | GetHealth
  | GetEngines
  | PostTarget TargetCreate
  | GetTarget string
  | PostScan ScanCreate
  | GetReport string string

datatype Response =
    Json int pyval
  | Html string
  | Plain string
  | Refused int string

text \<open>An exception that no handler catches is answered with status 500.\<close>

definition server_error :: Response where
  "server_error = Refused 500 ''Internal Server Error''"

definition VERSION :: string where
  "VERSION = ''0.1.0''"

record ApiOutside =
  ap_out :: Outside
  ap_deploy :: Deployment
  ap_ai :: AiOutside
  ap_host :: Host
  ap_dumps :: Dumps
  ap_dump_target :: "Target \<Rightarrow> pyval"
  ap_loads :: "string \<Rightarrow> pyval res"
  ap_http_url :: "string \<Rightarrow> string option"
  ap_console :: "string res"

record ApiState =
  api_app :: "VantageApp option"
  api_targets :: "(string, Target) dict"
  api_reports :: "(string, ScanReport) dict"

definition create_api :: "VantageApp option \<Rightarrow> ApiState" where
  "create_api app = \<lparr>api_app = app, api_targets = [], api_reports = []\<rparr>"

text \<open>
  \<open>app_()\<close>: the application, built from the environment at its first use.  Detection of installed programs
  calls \<open>asyncio.run\<close>, which raises if the handler itself runs in an event loop.
\<close>

definition autodetects :: "Host \<Rightarrow> bool" where
  "autodetects h \<longleftrightarrow> env_or h ''VANTAGE_AUTODETECT'' ''0'' \<in> {''1'', ''true'', ''yes''}"

definition app_of :: "ApiOutside \<Rightarrow> bool \<Rightarrow> ApiState \<Rightarrow> VantageApp res \<times> ApiState" where
  "app_of e in_loop st =
     (case api_app st of
        Some app \<Rightarrow> (Inr app, st)
      | None \<Rightarrow>
          if in_loop \<and> autodetects (ap_host e) then (Inl (RuntimeError ''asyncio.run() in a running event loop''), st)
          else (case VantageApp_from_env (ap_ai e) (ap_host e) (ap_deploy e) of
             Inl x \<Rightarrow> (Inl x, st)
           | Inr app \<Rightarrow> (Inr app, st\<lparr>api_app := Some app\<rparr>)))"

subsection \<open>Targets\<close>

text \<open>The body: at least one URL, rules that validate.\<close>

definition target_body :: "TargetCreate \<Rightarrow> TargetCreate res" where
  "target_body body =
     (if tc_base_urls body = [] then Inl (ValidationError ''base_urls'')
      else bind_res (map_res ScopeRule_validate (tc_scope_rules body)) (\<lambda>rules.
             Inr (body\<lparr>tc_scope_rules := rules\<rparr>)))"

definition default_limits :: RateLimits where
  "default_limits = \<lparr>rl_max_requests_per_second = 10, rl_max_concurrency = 4, rl_max_total_requests = None\<rparr>"

text \<open>\<open>Target(\<dots>)\<close>: length of the name, at least one URL, and each of them parses.\<close>

definition Target_make ::
  "(string \<Rightarrow> string option) \<Rightarrow> string \<Rightarrow> int \<Rightarrow> string \<Rightarrow> string \<Rightarrow> string list \<Rightarrow> ApplicationKind \<Rightarrow> ScopeRule list \<Rightarrow>
   AuthorizationRecord option \<Rightarrow> Target res" where
  "Target_make http_url new_id now tenant name urls kind rules auth =
     (if name = [] \<or> length name > 200 then Inl (ValidationError ''name'')
      else if urls = [] then Inl (ValidationError ''base_urls'')
      else bind_res (map_res (\<lambda>u. case http_url u of None \<Rightarrow> Inl (ValidationError ''url'') | Some v \<Rightarrow> Inr v) urls) (\<lambda>urls.
        Inr \<lparr>t_id = new_id, t_tenant_id = tenant, t_name = name, t_base_urls = urls, t_kind = kind,
             t_scope_rules = rules, t_rate_limits = default_limits, t_authorization = auth,
             t_api_definitions = [], t_tags = [], t_created_at = now\<rparr>))"

definition attestation :: "int \<Rightarrow> string \<Rightarrow> AuthorizationRecord" where
  "attestation now who =
     \<lparr>ar_method = SIGNED_ATTESTATION, ar_verified_at = now, ar_verified_by = who, ar_expires_at = None, ar_reference = None\<rparr>"

definition asserted :: "Outside \<Rightarrow> bool \<Rightarrow> string \<Rightarrow> AuthorizationRecord option act" where
  "asserted out authorized who =
     (if authorized then act_bind (utcnow out) (\<lambda>now. act_return (Some (attestation now who))) else act_return None)"

definition with_default_rules :: "Target \<Rightarrow> Target res" where
  "with_default_rules target =
     (if t_scope_rules target \<noteq> [] then Inr target
      else bind_res (default_scope_rules_for target) (\<lambda>rules. Inr (target\<lparr>t_scope_rules := rules\<rparr>)))"

definition new_target :: "ApiOutside \<Rightarrow> string \<Rightarrow> TargetCreate \<Rightarrow> Target act" where
  "new_target e tenant body =
     act_bind (asserted (ap_out e) (tc_authorized body) ''api'') (\<lambda>auth.
     act_bind (fresh_ids (ap_out e)) (\<lambda>ids.
     act_bind (utcnow (ap_out e)) (\<lambda>now.
       act_res (bind_res (Target_make (ap_http_url e) (ids 0) now tenant (tc_name body) (tc_base_urls body) (tc_kind body)
                  (tc_scope_rules body) auth) with_default_rules))))"

definition create_target :: "ApiOutside \<Rightarrow> string \<Rightarrow> TargetCreate \<Rightarrow> ApiState \<Rightarrow> World \<Rightarrow> Response \<times> ApiState \<times> World" where
  "create_target e tenant body st w =
     (case target_body body of
        Inl x \<Rightarrow> (Refused 422 ''Unprocessable Entity'', st, w)
      | Inr body \<Rightarrow>
          (case new_target e tenant body w of
             (Inl x, w) \<Rightarrow> (server_error, st, w)
           | (Inr target, w) \<Rightarrow>
               (case utcnow (ap_out e) w of
                  (Inl x, w) \<Rightarrow> (server_error, st, w)
                | (Inr now, w) \<Rightarrow>
                    (Json 201 (PDict [(''id'', PStr (t_id target)), (''authorized'', PBool (is_authorized now target))]),
                     st\<lparr>api_targets := dset (api_targets st) (t_id target) target\<rparr>, w))))"

definition get_target :: "ApiOutside \<Rightarrow> string \<Rightarrow> ApiState \<Rightarrow> Response" where
  "get_target e target_id st =
     (case dget (api_targets st) target_id of
        None \<Rightarrow> Refused 404 ''target not found''
      | Some target \<Rightarrow> Json 200 (ap_dump_target e target))"

subsection \<open>Scans\<close>

definition default_policy :: "ScanProfile \<Rightarrow> ScanPolicy" where
  "default_policy profile =
     \<lparr>sp_profile = profile, sp_capabilities = None, sp_disabled_engines = [],
      sp_allowed_methods = [''GET'', ''HEAD'', ''OPTIONS'', ''POST''], sp_max_duration_minutes = 240,
      sp_max_total_requests = None, sp_template_tags_denylist = [''dos'', ''fuzz'', ''intrusive'', ''brute-force'']\<rparr>"

definition new_scan :: "Outside \<Rightarrow> string \<Rightarrow> string \<Rightarrow> ScanProfile \<Rightarrow> string \<Rightarrow> Scan act" where
  "new_scan out tenant target_id profile who =
     act_bind (fresh_ids out) (\<lambda>ids. act_bind (utcnow out) (\<lambda>now. act_return
       \<lparr>s_id = ids 0, s_tenant_id = tenant, s_target_id = target_id, s_policy = default_policy profile,
        s_state = CREATED, s_state_reason = None, s_created_by = who, s_created_at = now,
        s_started_at = None, s_finished_at = None\<rparr>))"

definition scan_summary :: "ScanReport \<Rightarrow> pyval" where
  "scan_summary report = PDict
     [(''scan_id'', PStr (s_id (rp_scan report))), (''state'', PStr (scan_state_value (s_state (rp_scan report)))),
      (''findings'', PInt (int (length (rp_findings report)))),
      (''by_severity'', counts_val (summarize (rp_findings report)))]"

definition run_scan :: "ApiOutside \<Rightarrow> VantageApp \<Rightarrow> string \<Rightarrow> Target \<Rightarrow> ScanProfile \<Rightarrow> ScanReport act" where
  "run_scan e app tenant target profile =
     act_bind (new_scan (ap_out e) tenant (t_id target) profile ''api'') (\<lambda>scan.
       run (ap_out e) (va_orchestrator app) scan target)"

definition create_scan :: "ApiOutside \<Rightarrow> string \<Rightarrow> ScanCreate \<Rightarrow> ApiState \<Rightarrow> World \<Rightarrow> Response \<times> ApiState \<times> World" where
  "create_scan e tenant body st w =
     (case dget (api_targets st) (sc_target_id body) of
        None \<Rightarrow> (Refused 404 ''target not found'', st, w)
      | Some target \<Rightarrow>
          (case utcnow (ap_out e) w of
             (Inl x, w) \<Rightarrow> (server_error, st, w)
           | (Inr now, w) \<Rightarrow>
               if \<not> is_authorized now target
               then (Refused 403 ''target has no valid authorization record; cannot scan'', st, w)
               else (case app_of e True st of
                       (Inl x, st) \<Rightarrow> (server_error, st, w)
                     | (Inr app, st) \<Rightarrow>
                         (case run_scan e app tenant target (sc_profile body) w of
                            (Inl x, w) \<Rightarrow> (server_error, st, w)
                          | (Inr report, w) \<Rightarrow>
                              (Json 201 (scan_summary report),
                               st\<lparr>api_reports := dset (api_reports st) (s_id (rp_scan report)) report\<rparr>, w)))))"

definition get_report :: "ApiOutside \<Rightarrow> string \<Rightarrow> string \<Rightarrow> ApiState \<Rightarrow> Response" where
  "get_report e scan_id fmt st =
     (case dget (api_reports st) scan_id of
        None \<Rightarrow> Refused 404 ''report not found''
      | Some report \<Rightarrow>
          if fmt = ''json''
          then (case ap_loads e (to_json (ap_dumps e) report) of Inl x \<Rightarrow> server_error | Inr v \<Rightarrow> Json 200 v)
          else (case render (ap_dumps e) report fmt of Inl x \<Rightarrow> server_error | Inr out \<Rightarrow> Plain out))"

subsection \<open>Engines, health and the console\<close>

definition engine_row :: "'ad RegisteredEngine \<Rightarrow> pyval" where
  "engine_row e = PDict
     [(''id'', PStr (em_id (re_metadata e))), (''version'', PStr (em_version (re_metadata e))),
      (''license'', PStr (em_license_spdx (re_metadata e))),
      (''license_class'', PStr (license_class_value (em_license_class (re_metadata e)))),
      (''approval'', PStr (approval_value (em_approval_status (re_metadata e)))),
      (''integration'', PStr (integration_value (em_integration (re_metadata e)))),
      (''enabled'', PBool (mf_enabled (re_manifest e))), (''usable'', PBool (usable e)),
      (''capabilities'', PList (List.map (\<lambda>c. PStr (capability_value c)) (em_capabilities (re_metadata e)))),
      (''notes'', strs_val (re_notes e))]"

definition list_engines :: "ApiOutside \<Rightarrow> ApiState \<Rightarrow> Response \<times> ApiState" where
  "list_engines e st =
     (case app_of e False st of
        (Inl x, st) \<Rightarrow> (server_error, st)
      | (Inr app, st) \<Rightarrow> (Json 200 (PList (List.map engine_row (registry_all (va_registry app)))), st))"

definition console :: "ApiOutside \<Rightarrow> Response" where
  "console e = (case ap_console e of Inl x \<Rightarrow> server_error | Inr page \<Rightarrow> Html page)"

definition health :: Response where
  "health = Json 200 (PDict [(''status'', PStr ''ok''), (''version'', PStr VERSION)])"

subsection \<open>One request\<close>

fun api_step :: "ApiOutside \<Rightarrow> string \<Rightarrow> Request \<Rightarrow> ApiState \<Rightarrow> World \<Rightarrow> Response \<times> ApiState \<times> World" where
  "api_step e tenant GetConsole st w = (console e, st, w)"
| "api_step e tenant GetHealth st w = (health, st, w)"
| "api_step e tenant GetEngines st w = (case list_engines e st of (r, st) \<Rightarrow> (r, st, w))"
| "api_step e tenant (PostTarget body) st w = create_target e tenant body st w"
| "api_step e tenant (GetTarget i) st w = (get_target e i st, st, w)"
| "api_step e tenant (PostScan body) st w = create_scan e tenant body st w"
| "api_step e tenant (GetReport i fmt) st w = (get_report e i fmt st, st, w)"

text \<open>The states of a server, with the requests it has served and its responses.\<close>

inductive served :: "ApiOutside \<Rightarrow> string \<Rightarrow> (Request \<times> Response) list \<Rightarrow> ApiState \<Rightarrow> World \<Rightarrow> bool" for e tenant where
  start: "served e tenant [] (create_api app) w"
| serve: "served e tenant h st w \<Longrightarrow> api_step e tenant req st w = (r, st', w') \<Longrightarrow>
          served e tenant (h @ [(req, r)]) st' w'"

end
