(* ===== verification/Api_Laws.thy ===== *)
theory Api_Laws
  imports Api Wiring_Laws
begin

text \<open>
  Laws of the HTTP surface: what a run keeps of its scan, the invariant of a server over every sequence of
  requests, and its refusals.
\<close>

subsection \<open>What a run keeps of its scan\<close>

text \<open>Every value that an action returns satisfies a predicate.\<close>

definition yields :: "'a act \<Rightarrow> ('a \<Rightarrow> bool) \<Rightarrow> bool" where
  "yields m Q \<longleftrightarrow> (\<forall>w x w'. m w = (Inr x, w') \<longrightarrow> Q x)"

lemma yieldsD: "yields m Q \<Longrightarrow> m w = (Inr x, w') \<Longrightarrow> Q x"
  unfolding yields_def by blast

lemma yields_bind: "yields m P \<Longrightarrow> (\<And>x. P x \<Longrightarrow> yields (f x) Q) \<Longrightarrow> yields (act_bind m f) Q"
  by (fastforce simp: yields_def act_bind_Inr_iff)

lemma yields_any: "(\<And>x. yields (f x) Q) \<Longrightarrow> yields (act_bind m f) Q"
  by (rule yields_bind [of m "\<lambda>_. True"]) (auto simp: yields_def)

lemma yields_return: "Q x \<Longrightarrow> yields (act_return x) Q"
  by (simp add: yields_def act_return_def)

lemma yields_if: "(b \<Longrightarrow> yields m Q) \<Longrightarrow> (\<not> b \<Longrightarrow> yields n Q) \<Longrightarrow> yields (if b then m else n) Q"
  by simp

definition same_scan :: "Scan \<Rightarrow> Scan \<Rightarrow> bool" where
  "same_scan s t \<longleftrightarrow> s_id t = s_id s \<and> s_tenant_id t = s_tenant_id s \<and> s_target_id t = s_target_id s \<and>
     s_created_by t = s_created_by s \<and> s_policy t = s_policy s"

lemma same_scan_trans: "same_scan r s \<Longrightarrow> same_scan s t \<Longrightarrow> same_scan r t"
  by (simp add: same_scan_def)

lemma yields_set_state: "same_scan r s \<Longrightarrow> yields (set_state out s dst reason) (same_scan r)"
proof -
  have "same_scan s t" if "set_state out s dst reason w = (Inr t, w')" for t w w'
    using that by (cases rule: set_state_result) (simp_all add: same_scan_def moved_scan_def Let_def)
  then show "same_scan r s \<Longrightarrow> yields (set_state out s dst reason) (same_scan r)"
    by (auto simp: yields_def intro: same_scan_trans)
qed

lemma yields_make_plan: "yields (make_plan out orch scan target) (\<lambda>(s, plan). same_scan scan s)"
  unfolding make_plan_def
  by (rule yields_bind, rule yields_set_state [of scan], simp add: same_scan_def,
      rule yields_bind, rule yields_set_state, assumption, rule yields_any, rule yields_any, rule yields_return, simp)

lemma yields_execute_plan: "same_scan r scan \<Longrightarrow> yields (execute_plan out orch scan target plan) (\<lambda>(s, st). same_scan r s)"
  unfolding execute_plan_def
  by (rule yields_bind, rule yields_set_state, assumption, rule yields_any, rule yields_any, rule yields_any,
      rule yields_return, simp)

lemma yields_run_engines: "yields (run_engines out orch scan target) (\<lambda>(s, plan, st). same_scan scan s)"
  unfolding run_engines_def
  by (rule yields_bind [OF yields_make_plan], clarify, rule yields_bind, erule yields_execute_plan, clarify,
      rule yields_return, simp)

lemma yields_store_findings: "same_scan r scan \<Longrightarrow> yields (store_findings out scan fs) (\<lambda>(s, fs). same_scan r s)"
  unfolding store_findings_def Let_def
  by (rule yields_bind, rule yields_set_state, assumption, rule yields_bind, rule yields_set_state, assumption,
      rule yields_any, rule yields_return, simp)

lemma yields_analyse: "same_scan r scan \<Longrightarrow> yields (analyse out orch scan target obs) (\<lambda>(s, n, fs). same_scan r s)"
  unfolding analyse_def
  by (rule yields_any, rule yields_bind, rule yields_set_state, assumption, rule yields_any, clarify,
      rule yields_bind, erule yields_store_findings, clarify, rule yields_return, simp)

lemma yields_finish: "same_scan r scan \<Longrightarrow> yields (finish out orch plan st scan n fs) (\<lambda>rep. same_scan r (rp_scan rep))"
  unfolding finish_def Let_def
  by (rule yields_any, rule yields_bind, rule yields_set_state, assumption, rule yields_return, simp)

lemma yields_run: "yields (run out orch scan target) (\<lambda>rep. same_scan scan (rp_scan rep))"
  unfolding run_def
proof (rule yields_any, rule yields_if)
  show "yields (run_refused out scan) (\<lambda>rep. same_scan scan (rp_scan rep))"
    unfolding run_refused_def
    by (rule yields_bind, rule yields_set_state [of scan], simp add: same_scan_def, rule yields_bind,
        rule yields_set_state, assumption, rule yields_bind, rule yields_set_state, assumption, rule yields_return, simp)
  show "yields (run_authorized out orch scan target) (\<lambda>rep. same_scan scan (rp_scan rep))"
    unfolding run_authorized_def
    by (rule yields_bind [OF yields_run_engines], clarify, rule yields_bind, erule yields_analyse, clarify,
        erule yields_finish)
qed

subsection \<open>The invariant of a server\<close>

definition asserted_for :: "(Request \<times> Response) list \<Rightarrow> string \<Rightarrow> bool" where
  "asserted_for h i \<longleftrightarrow>
     (\<exists>body. (PostTarget body, Json 201 (PDict [(''id'', PStr i), (''authorized'', PBool True)])) \<in> set h \<and>
             tc_authorized body)"

definition target_known :: "string \<Rightarrow> (Request \<times> Response) list \<Rightarrow> string \<Rightarrow> Target \<Rightarrow> bool" where
  "target_known tenant h i t \<longleftrightarrow>
     t_id t = i \<and> t_tenant_id t = tenant \<and> (t_authorization t \<noteq> None \<longrightarrow> asserted_for h i)"

definition report_known :: "string \<Rightarrow> (Request \<times> Response) list \<Rightarrow> string \<Rightarrow> ScanReport \<Rightarrow> bool" where
  "report_known tenant h i rep \<longleftrightarrow>
     s_id (rp_scan rep) = i \<and> s_tenant_id (rp_scan rep) = tenant \<and> s_created_by (rp_scan rep) = ''api'' \<and>
     asserted_for h (s_target_id (rp_scan rep))"

definition api_inv :: "string \<Rightarrow> (Request \<times> Response) list \<Rightarrow> ApiState \<Rightarrow> bool" where
  "api_inv tenant h st \<longleftrightarrow>
     (\<forall>i t. dget (api_targets st) i = Some t \<longrightarrow> target_known tenant h i t) \<and>
     (\<forall>i rep. dget (api_reports st) i = Some rep \<longrightarrow> report_known tenant h i rep)"

lemma asserted_later: "asserted_for h i \<Longrightarrow> asserted_for (h @ h') i"
  by (auto simp: asserted_for_def)

lemma api_inv_later: "api_inv tenant h st \<Longrightarrow> api_inv tenant (h @ h') st"
  unfolding api_inv_def target_known_def report_known_def using asserted_later by blast

lemma api_inv_app: "api_inv tenant h (st\<lparr>api_app := app\<rparr>) = api_inv tenant h st"
  by (simp add: api_inv_def)

lemma app_of_state: "snd (app_of e b st) = st \<or> (\<exists>app. snd (app_of e b st) = st\<lparr>api_app := app\<rparr>)"
  by (auto simp: app_of_def split: option.split sum.split)

lemma app_of_inv: "app_of e b st = (r, st') \<Longrightarrow> api_inv tenant h st \<Longrightarrow> api_inv tenant h st'"
  using app_of_state [of e b st] by (auto simp: api_inv_app)

lemma new_target_result:
  assumes "new_target e tenant body w = (Inr t, w')"
  shows "t_tenant_id t = tenant \<and> (if tc_authorized body then is_authorized now t else t_authorization t = None)"
proof -
  have make: "t_tenant_id t = tenant \<and> t_authorization t = auth"
    if "bind_res (Target_make hu i now tenant name urls kind rules auth) with_default_rules = Inr t" for hu i now name urls kind rules auth
    using that by (auto simp: bind_res_Inr_iff Target_make_def with_default_rules_def split: if_splits)
  show ?thesis
  proof (cases "tc_authorized body")
    case True
    with assms obtain n hu i m name urls kind rules where
      "bind_res (Target_make hu i m tenant name urls kind rules (Some (attestation n ''api''))) with_default_rules = Inr t"
      by (auto simp: new_target_def asserted_def act_bind_def utcnow_def fresh_ids_def act_res_def act_return_def)
    from make [OF this] True show ?thesis by (simp add: is_authorized_def attestation_def auth_is_valid_def)
  next
    case False
    with assms obtain hu i m name urls kind rules where
      "bind_res (Target_make hu i m tenant name urls kind rules None) with_default_rules = Inr t"
      by (auto simp: new_target_def asserted_def act_bind_def utcnow_def fresh_ids_def act_res_def act_return_def)
    from make [OF this] False show ?thesis by simp
  qed
qed

lemma create_target_cases:
  assumes "create_target e tenant body st w = (r, st', w')"
  shows "st' = st \<or> (\<exists>t. st' = st\<lparr>api_targets := dset (api_targets st) (t_id t) t\<rparr> \<and> t_tenant_id t = tenant \<and>
    (t_authorization t \<noteq> None \<longrightarrow> tc_authorized body \<and> r = Json 201 (PDict [(''id'', PStr (t_id t)), (''authorized'', PBool True)])))"
proof (cases "target_body body")
  case (Inl x)
  with assms show ?thesis by (simp add: create_target_def)
next
  case (Inr b)
  then have b: "tc_authorized b = tc_authorized body" by (auto simp: target_body_def bind_res_Inr_iff split: if_splits)
  obtain q w1 where q: "new_target e tenant b w = (q, w1)" by fastforce
  show ?thesis
  proof (cases q)
    case (Inl x)
    with assms Inr q show ?thesis by (simp add: create_target_def)
  next
    case q': (Inr t)
    define now where "now = out_clock (ap_out e) (w_tick w1)"
    have "t_tenant_id t = tenant \<and> (if tc_authorized b then is_authorized now t else t_authorization t = None)"
      by (rule new_target_result [OF q [unfolded q']])
    with assms Inr q q' b show ?thesis
      by (auto simp: create_target_def utcnow_def now_def split: if_splits)
  qed
qed

lemma run_scan_report:
  assumes "run_scan e app tenant target profile w = (Inr rep, w')"
  shows "s_tenant_id (rp_scan rep) = tenant \<and> s_target_id (rp_scan rep) = t_id target \<and> s_created_by (rp_scan rep) = ''api''"
proof -
  have "yields (run_scan e app tenant target profile)
      (\<lambda>rep. s_tenant_id (rp_scan rep) = tenant \<and> s_target_id (rp_scan rep) = t_id target \<and> s_created_by (rp_scan rep) = ''api'')"
    unfolding run_scan_def new_scan_def
    by (rule yields_bind [of _ "\<lambda>s. s_tenant_id s = tenant \<and> s_target_id s = t_id target \<and> s_created_by s = ''api''"],
        rule yields_any, rule yields_any, rule yields_return, simp)
      (use yields_run in \<open>fastforce simp: yields_def same_scan_def\<close>)
  then show ?thesis using assms by (rule yieldsD)
qed

lemma create_scan_cases:
  assumes "create_scan e tenant body st w = (r, st', w')"
  shows "st' = st \<or> (\<exists>app. st' = st\<lparr>api_app := app\<rparr>) \<or>
    (\<exists>target rep st1. dget (api_targets st) (sc_target_id body) = Some target \<and> t_authorization target \<noteq> None \<and>
       (st1 = st \<or> (\<exists>app. st1 = st\<lparr>api_app := app\<rparr>)) \<and>
       st' = st1\<lparr>api_reports := dset (api_reports st) (s_id (rp_scan rep)) rep\<rparr> \<and>
       s_tenant_id (rp_scan rep) = tenant \<and> s_target_id (rp_scan rep) = t_id target \<and> s_created_by (rp_scan rep) = ''api'')"
proof (cases "dget (api_targets st) (sc_target_id body)")
  case None
  with assms show ?thesis by (simp add: create_scan_def)
next
  case (Some target)
  show ?thesis
  proof (cases "is_authorized (out_clock (ap_out e) (w_tick w)) target")
    case False
    with assms Some show ?thesis by (simp add: create_scan_def utcnow_def)
  next
    case True
    then have auth: "t_authorization target \<noteq> None" by (auto simp: is_authorized_def split: option.splits)
    obtain q st1 where q: "app_of e True st = (q, st1)" by fastforce
    have st1: "st1 = st \<or> (\<exists>app. st1 = st\<lparr>api_app := app\<rparr>)" using app_of_state [of e True st] q by simp
    show ?thesis
    proof (cases q)
      case (Inl x)
      with assms Some True q have "st' = st1" by (simp add: create_scan_def utcnow_def)
      with st1 show ?thesis by blast
    next
      case (Inr app)
      obtain p w2 where p: "run_scan e app tenant target (sc_profile body) (w\<lparr>w_tick := Suc (w_tick w)\<rparr>) = (p, w2)" by fastforce
      show ?thesis
      proof (cases p)
        case (Inl x)
        with assms Some True q Inr p have "st' = st1" by (simp add: create_scan_def utcnow_def)
        with st1 show ?thesis by blast
      next
        case p': (Inr rep)
        have "api_reports st1 = api_reports st" using st1 by auto
        with assms Some True q Inr p p' have "st' = st1\<lparr>api_reports := dset (api_reports st) (s_id (rp_scan rep)) rep\<rparr>"
          by (auto simp: create_scan_def utcnow_def)
        with Some st1 auth run_scan_report [OF p [unfolded p']] show ?thesis by blast
      qed
    qed
  qed
qed

lemma api_inv_targets:
  "api_inv tenant h st \<Longrightarrow> target_known tenant h (t_id t) t \<Longrightarrow>
     api_inv tenant h (st\<lparr>api_targets := dset (api_targets st) (t_id t) t\<rparr>)"
  by (simp add: api_inv_def)

lemma api_inv_reports:
  "api_inv tenant h st \<Longrightarrow> api_reports st = d \<Longrightarrow> report_known tenant h (s_id (rp_scan rep)) rep \<Longrightarrow>
     api_inv tenant h (st\<lparr>api_reports := dset d (s_id (rp_scan rep)) rep\<rparr>)"
  by (auto simp: api_inv_def)

lemma create_target_inv:
  assumes "create_target e tenant body st w = (r, st', w')" and "api_inv tenant h st"
  shows "api_inv tenant (h @ [(PostTarget body, r)]) st'"
proof -
  let ?h = "h @ [(PostTarget body, r)]"
  have inv: "api_inv tenant ?h st" by (rule api_inv_later [OF assms(2)])
  from create_target_cases [OF assms(1)] show ?thesis
  proof (elim disjE exE conjE)
    assume "st' = st"
    with inv show ?thesis by simp
  next
    fix t
    assume t: "st' = st\<lparr>api_targets := dset (api_targets st) (t_id t) t\<rparr>" "t_tenant_id t = tenant"
      "t_authorization t \<noteq> None \<longrightarrow> tc_authorized body \<and>
         r = Json 201 (PDict [(''id'', PStr (t_id t)), (''authorized'', PBool True)])"
    then have "target_known tenant ?h (t_id t) t"
      unfolding target_known_def asserted_for_def by auto
    with inv show ?thesis unfolding t(1) by (rule api_inv_targets)
  qed
qed

lemma create_scan_inv:
  assumes "create_scan e tenant body st w = (r, st', w')" and "api_inv tenant h st"
  shows "api_inv tenant h st'"
proof -
  consider (kept) "st' = st \<or> (\<exists>app. st' = st\<lparr>api_app := app\<rparr>)"
    | (report) target rep st1 where "dget (api_targets st) (sc_target_id body) = Some target"
      "t_authorization target \<noteq> None" "st1 = st \<or> (\<exists>app. st1 = st\<lparr>api_app := app\<rparr>)"
      "st' = st1\<lparr>api_reports := dset (api_reports st) (s_id (rp_scan rep)) rep\<rparr>"
      "s_tenant_id (rp_scan rep) = tenant" "s_target_id (rp_scan rep) = t_id target" "s_created_by (rp_scan rep) = ''api''"
    using create_scan_cases [OF assms(1)] by blast
  then show ?thesis
  proof cases
    case kept
    with assms(2) show ?thesis by (auto simp: api_inv_app)
  next
    case report
    have "api_inv tenant h st1" "api_reports st1 = api_reports st" using report(3) assms(2) by (auto simp: api_inv_app)
    moreover have "report_known tenant h (s_id (rp_scan rep)) rep"
      using report assms(2) by (auto simp: api_inv_def target_known_def report_known_def)
    ultimately show ?thesis unfolding report(4) by (rule api_inv_reports)
  qed
qed

lemma api_step_inv:
  assumes "api_step e tenant req st w = (r, st', w')" and "api_inv tenant h st"
  shows "api_inv tenant (h @ [(req, r)]) st'"
proof (cases req)
  case GetEngines
  with assms(1) obtain q st1 where "app_of e False st = (q, st1)" "st' = st1"
    by (auto simp: list_engines_def split: prod.splits sum.splits)
  with assms(2) show ?thesis using app_of_inv api_inv_later by blast
next
  case (PostTarget body)
  with assms show ?thesis using create_target_inv by simp
next
  case (PostScan body)
  with assms show ?thesis using create_scan_inv api_inv_later by simp
qed (use assms api_inv_later in simp_all)

lemma served_inv: "served e tenant h st w \<Longrightarrow> api_inv tenant h st"
proof (induction rule: served.induct)
  case (start app w)
  then show ?case by (simp add: api_inv_def create_api_def)
next
  case (serve h st w req r st' w')
  then show ?case by (blast intro: api_step_inv)
qed

subsection \<open>Properties\<close>

text \<open>
  C8: every report the server keeps goes back to an assertion of authorization.  Whatever requests were
  served, a report is filed under its own scan, the scan belongs to the tenant of the server, and its target
  was registered by an earlier request that asserted authorization and was told so.
\<close>

theorem api_reports_authorized:
  assumes "served e tenant h st w" and "dget (api_reports st) i = Some rep"
  shows "s_id (rp_scan rep) = i \<and> s_tenant_id (rp_scan rep) = tenant \<and> s_created_by (rp_scan rep) = ''api'' \<and>
    (\<exists>body. (PostTarget body, Json 201 (PDict [(''id'', PStr (s_target_id (rp_scan rep))), (''authorized'', PBool True)]))
         \<in> set h \<and> tc_authorized body)"
  using served_inv [OF assms(1)] assms(2) unfolding api_inv_def report_known_def asserted_for_def by blast

text \<open>
  A request for a scan of a target that is unknown or not authorized is refused and changes neither the
  server nor the database.
\<close>

lemma unauthorized_scan_refused:
  assumes "case dget (api_targets st) (sc_target_id body) of None \<Rightarrow> True | Some t \<Rightarrow> t_authorization t = None"
  shows "\<exists>r w'. create_scan e tenant body st w = (r, st, w') \<and> w_db w' = w_db w \<and>
    r \<in> {Refused 404 ''target not found'', Refused 403 ''target has no valid authorization record; cannot scan''}"
  using assms by (auto simp: create_scan_def utcnow_def is_authorized_def split: option.splits)

text \<open>
  With detection enabled, a scan requested before the application was built is answered with an internal
  error, however often it is asked.
\<close>

lemma autodetect_scan_fails:
  assumes "autodetects (ap_host e)" and "api_app st = None"
    and "dget (api_targets st) (sc_target_id body) = Some t" and "is_authorized (out_clock (ap_out e) (w_tick w)) t"
  shows "\<exists>w'. create_scan e tenant body st w = (server_error, st, w') \<and> w_db w' = w_db w"
  using assms by (simp add: create_scan_def utcnow_def app_of_def)

text \<open>A body whose name is empty, or whose URL does not parse, is an internal error, not a validation error.\<close>

lemma bad_target_is_server_error:
  assumes "tc_base_urls body \<noteq> []" and "tc_scope_rules body = []"
    and "tc_name body = [] \<or> ap_http_url e (hd (tc_base_urls body)) = None"
  shows "\<exists>w'. create_target e tenant body st w = (server_error, st, w') \<and> w_db w' = w_db w"
proof -
  obtain u us where u: "tc_base_urls body = u # us" using assms(1) by (cases "tc_base_urls body") auto
  have bad: "\<exists>x. Target_make (ap_http_url e) i now tenant (tc_name body) (tc_base_urls body) kind rules auth = Inl x"
    for i now kind rules auth
    using assms(3) u by (auto simp: Target_make_def)
  have "\<exists>x w'. new_target e tenant body w = (Inl x, w') \<and> w_db w' = w_db w"
  proof (cases "tc_authorized body")
    case True
    obtain x where "Target_make (ap_http_url e) (out_ids (ap_out e) (Suc (w_tick w)) 0) (out_clock (ap_out e) (Suc (Suc (w_tick w))))
        tenant (tc_name body) (tc_base_urls body) (tc_kind body) (tc_scope_rules body)
        (Some (attestation (out_clock (ap_out e) (w_tick w)) ''api'')) = Inl x"
      using bad by blast
    with True show ?thesis
      by (simp add: new_target_def asserted_def act_bind_def utcnow_def fresh_ids_def act_res_def act_return_def)
  next
    case False
    obtain x where "Target_make (ap_http_url e) (out_ids (ap_out e) (w_tick w) 0) (out_clock (ap_out e) (Suc (w_tick w)))
        tenant (tc_name body) (tc_base_urls body) (tc_kind body) (tc_scope_rules body) None = Inl x"
      using bad by blast
    with False show ?thesis
      by (simp add: new_target_def asserted_def act_bind_def utcnow_def fresh_ids_def act_res_def act_return_def)
  qed
  moreover have "target_body body = Inr body" using assms(1,2) by (simp add: target_body_def)
  ultimately show ?thesis by (auto simp: create_target_def)
qed

subsection \<open>A served scan\<close>

definition api_env :: ApiOutside where
  "api_env =
     \<lparr>ap_out = demo_outside, ap_deploy = built_deployment, ap_ai = demo_ai_outside, ap_host = demo_host,
      ap_dumps = \<lparr>dm_scan = (\<lambda>_. PNone), dm_finding = (\<lambda>_. PNone), dm_float = (\<lambda>_. [])\<rparr>, ap_dump_target = (\<lambda>_. PNone),
      ap_loads = (\<lambda>_. Inr PNone), ap_http_url = Some, ap_console = Inr ''console''\<rparr>"

definition api_body :: TargetCreate where
  "api_body = \<lparr>tc_name = ''shop'', tc_base_urls = [''http://a/''], tc_kind = TRADITIONAL_WEB, tc_authorized = True,
               tc_scope_rules = []\<rparr>"

definition bare_app :: VantageApp where
  "bare_app =
     \<lparr>va_registry = EngineRegistry_init demo_policy,
      va_orchestrator = Orchestrator_init (EngineRegistry_init demo_policy) None None None False None None,
      va_policy = demo_policy, va_analyst = NullProvider\<rparr>"

definition api_target :: "ScopeRule list \<Rightarrow> Target" where
  "api_target rules =
     \<lparr>t_id = [], t_tenant_id = ''acme'', t_name = ''shop'', t_base_urls = [''http://a/''], t_kind = TRADITIONAL_WEB,
      t_scope_rules = rules, t_rate_limits = default_limits, t_authorization = Some (attestation 0 ''api''),
      t_api_definitions = [], t_tags = [], t_created_at = 2\<rparr>"

lemma api_target_created:
  "\<exists>rules w. create_target api_env ''acme'' api_body (create_api (Some bare_app)) demo_world =
     (Json 201 (PDict [(''id'', PStr []), (''authorized'', PBool True)]),
      \<lparr>api_app = Some bare_app, api_targets = [([], api_target rules)], api_reports = []\<rparr>, w) \<and> w_db w = w_db demo_world"
proof -
  have "isl (default_rules [''http://a/'']) = False" by code_simp
  then obtain rules where "default_rules [''http://a/''] = Inr rules" by (cases "default_rules [''http://a/'']") auto
  then have d: "default_scope_rules_for (api_target []) = Inr rules" by (simp add: default_scope_rules_for_def api_target_def)
  have m: "Target_make Some [] 2 ''acme'' ''shop'' [''http://a/''] TRADITIONAL_WEB [] (Some (attestation 0 ''api'')) = Inr (api_target [])"
    by (simp add: Target_make_def api_target_def)
  have "with_default_rules (api_target []) = Inr (api_target rules)"
    using d by (simp add: with_default_rules_def) (simp add: api_target_def)
  with m show ?thesis
    by (simp add: create_target_def target_body_def new_target_def asserted_def api_env_def api_body_def act_bind_def
        utcnow_def fresh_ids_def act_res_def act_return_def demo_outside_def demo_world_def create_api_def)
      (simp add: api_target_def is_authorized_def attestation_def auth_is_valid_def)
qed

lemma no_engines_no_tasks:
  assumes "or_registry orch = EngineRegistry_init pol"
  shows "staged_tasks ((plan_scan ids now cfg (engines_for (or_registry orch)) target policy seeds)\<lparr>plan_scan_id := i\<rparr>) = []"
proof -
  let ?tasks = "staged_tasks ((plan_scan ids now cfg (engines_for (or_registry orch)) target policy seeds)\<lparr>plan_scan_id := i\<rparr>)"
  have "registry_reachable pol (or_registry orch)" by (simp add: assms registry_reachable.init)
  moreover have "adapter_for (or_registry orch) eid = None" for eid
    by (simp add: assms adapter_for_def EngineRegistry_init_def)
  ultimately have "(stage, task) \<notin> set ?tasks" for stage task using plan_runs_bound by blast
  then show ?thesis by (cases ?tasks) auto
qed

lemma engineless_runs:
  assumes "or_registry orch = EngineRegistry_init pol" and "or_analyst orch = NullProvider"
    and "case or_prober_factory orch of None \<Rightarrow> True | Some factory \<Rightarrow> isl (factory target) = False"
    and "is_authorized (out_clock demo_outside (w_tick w)) target" and "s_state scan = CREATED"
    and "w_db w = w_db demo_world"
  shows "\<exists>rep w'. run demo_outside orch scan target w = (Inr rep, w')"
proof -
  have "\<exists>rep w'. run demo_outside orch scan target w = (Inr rep, w') \<and> s_state (rp_scan rep) = COMPLETED"
  proof (rule run_returns [OF assms(4) _ _ _ assms(3)])
    fix ids now run_ids now' s plan
    assume "plan = (plan_scan ids now (or_planner_config orch) (engines_for (or_registry orch)) target (s_policy scan)
        (t_base_urls target))\<lparr>plan_scan_id := s_id scan\<rparr>"
    then have "staged_tasks plan = []" using no_engines_no_tasks [OF assms(1)] by simp
    then show "\<exists>st. run_tasks (out_search demo_outside) run_ids (adapter_for (or_registry orch)) s target
        (ScopeEngine_init now' target) (staged_tasks plan) run_state0 = Inr st \<and>
        distinct (map obs_id (ru_obs st)) \<and> obs_id ` set (ru_obs st) \<inter> or_id ` set (db_observations (w_db w)) = {}"
      by (simp add: run_state0_def)
  qed (use assms(2,5,6) in \<open>simp_all add: demo_ready(4) demo_outside_def inj_def demo_world_def Database_init_def
        assess_def NullProvider_def constraints_ok_def\<close>)
  then show ?thesis by blast
qed

lemma bare_runs:
  assumes "s_state scan = CREATED" and "w_db w = w_db demo_world"
  shows "\<exists>rep w'. run demo_outside (va_orchestrator bare_app) scan (api_target rules) w = (Inr rep, w')"
  using assms
  by (intro engineless_runs [where pol = demo_policy])
    (simp_all add: bare_app_def Orchestrator_init_def api_target_def is_authorized_def attestation_def auth_is_valid_def)

theorem api_reports_authorized_witness:
  "\<exists>h st w rep. served api_env ''acme'' h st w \<and> dget (api_reports st) (s_id (rp_scan rep)) = Some rep \<and>
     s_tenant_id (rp_scan rep) = ''acme'' \<and> s_created_by (rp_scan rep) = ''api''"
proof -
  obtain rules w1 where 1: "create_target api_env ''acme'' api_body (create_api (Some bare_app)) demo_world =
     (Json 201 (PDict [(''id'', PStr []), (''authorized'', PBool True)]),
      \<lparr>api_app = Some bare_app, api_targets = [([], api_target rules)], api_reports = []\<rparr>, w1)" "w_db w1 = w_db demo_world"
    using api_target_created by blast
  let ?st = "\<lparr>api_app = Some bare_app, api_targets = [([], api_target rules)], api_reports = []\<rparr>"
  have "served api_env ''acme'' ([] @ [(PostTarget api_body, Json 201 (PDict [(''id'', PStr []), (''authorized'', PBool True)]))]) ?st w1"
    by (rule served.serve [OF served.start]) (use 1 in simp)
  note served1 = this
  let ?scan = "\<lparr>s_id = [], s_tenant_id = ''acme'', s_target_id = [], s_policy = default_policy STANDARD,
        s_state = CREATED, s_state_reason = None, s_created_by = ''api'', s_created_at = int (Suc (Suc (w_tick w1))),
        s_started_at = None, s_finished_at = None\<rparr>"
  obtain rep w2 where 2: "run demo_outside (va_orchestrator bare_app) ?scan (api_target rules)
      (w1\<lparr>w_tick := Suc (Suc (Suc (w_tick w1)))\<rparr>) = (Inr rep, w2)"
    using bare_runs [of ?scan "w1\<lparr>w_tick := Suc (Suc (Suc (w_tick w1)))\<rparr>" rules] 1(2) by auto
  have auth: "is_authorized n (api_target rules)" for n
    by (simp add: api_target_def is_authorized_def attestation_def auth_is_valid_def)
  have "run_scan api_env bare_app ''acme'' (api_target rules) STANDARD (w1\<lparr>w_tick := Suc (w_tick w1)\<rparr>) = (Inr rep, w2)"
    using 2 by (simp add: run_scan_def new_scan_def act_bind_def fresh_ids_def utcnow_def act_return_def api_env_def demo_outside_def)
      (simp add: api_target_def)
  then have "create_scan api_env ''acme'' \<lparr>sc_target_id = [], sc_profile = STANDARD\<rparr> ?st w1 =
      (Json 201 (scan_summary rep), ?st\<lparr>api_reports := [(s_id (rp_scan rep), rep)]\<rparr>, w2)"
    using auth by (simp add: create_scan_def utcnow_def app_of_def)
  then have "served api_env ''acme'' (([] @ [(PostTarget api_body, Json 201 (PDict [(''id'', PStr []), (''authorized'', PBool True)]))])
      @ [(PostScan \<lparr>sc_target_id = [], sc_profile = STANDARD\<rparr>, Json 201 (scan_summary rep))])
      (?st\<lparr>api_reports := [(s_id (rp_scan rep), rep)]\<rparr>) w2"
    by (intro served.serve [OF served1]) simp
  note served2 = this
  have "dget (api_reports (?st\<lparr>api_reports := [(s_id (rp_scan rep), rep)]\<rparr>)) (s_id (rp_scan rep)) = Some rep" by simp
  with api_reports_authorized [OF served2 this] served2 show ?thesis by blast
qed

end
