(* ===== verification/Cli.thy ===== *)
theory Cli
  imports Api Loading
begin

text \<open>
  The command line (\<open>vantage/cli/main.py\<close>): each command as a function from its parsed options to the lines
  it prints and its exit status.  Parsed files, the answer of the operator and the outside are arguments;
  an exception that no command catches is \<open>Inl\<close>.
\<close>

subsection \<open>Output\<close>

datatype Colour = IN_GREEN | IN_YELLOW | IN_RED | IN_WHITE

type_synonym Line = "string \<times> Colour option"

definition echo :: "string \<Rightarrow> Line" where
  "echo s = (s, None)"

definition secho :: "string \<Rightarrow> Colour \<Rightarrow> Line" where
  "secho s colour = (s, Some colour)"

record CliResult =
  cl_lines :: "Line list"
  cl_exit :: nat

definition said :: "Line list \<Rightarrow> CliResult" where
  "said ls = \<lparr>cl_lines = ls, cl_exit = 0\<rparr>"

definition ljust :: "nat \<Rightarrow> string \<Rightarrow> string" where
  "ljust width s = s @ replicate (width - length s) CHR '' ''"

definition bool_text :: "bool \<Rightarrow> string" where
  "bool_text b = (if b then ''True'' else ''False'')"

definition cli_version :: CliResult where
  "cli_version = said [echo (''Vantage DAST '' @ VERSION)]"

subsection \<open>license check\<close>

definition violation_val :: "Violation \<Rightarrow> pyval" where
  "violation_val v = PDict
     [(''component'', PStr (vi_component v)), (''version'', PStr (vi_version v)), (''severity'', PStr (vi_severity v)),
      (''code'', PStr (vi_code v)), (''message'', PStr (vi_message v))]"

definition check_val :: "CheckReport \<Rightarrow> pyval" where
  "check_val r = PDict
     [(''ok'', PBool (cr_ok r)), (''checked'', PInt (int (cr_checked r))),
      (''violations'', PList (List.map violation_val (cr_violations r)))]"

definition violation_line :: "Violation \<Rightarrow> Line" where
  "violation_line v =
     secho (''  ['' @ vi_severity v @ ''] '' @ vi_component v @ '' '' @ vi_version v @ '': '' @ vi_code v @ '' - '' @ vi_message v)
       (if vi_severity v = ''error'' then IN_RED else IN_YELLOW)"

definition check_lines :: "CheckReport \<Rightarrow> Line list" where
  "check_lines r =
     echo (''Checked '' @ str_of_nat (cr_checked r) @ '' components.'') # List.map violation_line (cr_violations r)
     @ [if cr_ok r then secho ''License policy: PASS'' IN_GREEN
        else secho (''License policy: FAIL ('' @ str_of_nat (length (cr_errors r)) @ '' error(s))'') IN_RED]"

definition license_check :: "(rat \<Rightarrow> string) \<Rightarrow> Coercions \<Rightarrow> pyval \<Rightarrow> pyval res \<Rightarrow> bool \<Rightarrow> CliResult res" where
  "license_check fr cv policy inventory json_out =
     bind_res (policy_load policy) (\<lambda>pol.
     bind_res (Inventory_load cv inventory) (\<lambda>ivt.
     bind_res (check_inventory ivt pol) (\<lambda>report. Inr
       \<lparr>cl_lines = (if json_out then [echo (json_dumps_indent fr (check_val report))] else check_lines report),
        cl_exit = (if cr_ok report then 0 else 1)\<rparr>)))"

subsection \<open>engine list, detect, verify\<close>

definition class_then_id :: "'ad RegisteredEngine \<Rightarrow> string \<times> string" where
  "class_then_id e = (license_class_value (em_license_class (re_metadata e)), em_id (re_metadata e))"

definition engine_entry :: "'ad RegisteredEngine \<Rightarrow> pyval" where
  "engine_entry e = PDict
     [(''id'', PStr (em_id (re_metadata e))), (''version'', PStr (em_version (re_metadata e))),
      (''license'', PStr (em_license_spdx (re_metadata e))),
      (''license_class'', PStr (license_class_value (em_license_class (re_metadata e)))),
      (''approval'', PStr (approval_value (em_approval_status (re_metadata e)))),
      (''integration'', PStr (integration_value (em_integration (re_metadata e)))),
      (''enabled'', PBool (mf_enabled (re_manifest e))), (''usable'', PBool (usable e)),
      (''capabilities'', PList (List.map (\<lambda>c. PStr (capability_value c)) (em_capabilities (re_metadata e)))),
      (''problems'', strs_val (re_problems e)), (''notes'', strs_val (re_notes e))]"

fun class_colour :: "LicenseClass \<Rightarrow> Colour" where
  "class_colour GREEN = IN_GREEN"
| "class_colour YELLOW = IN_YELLOW"
| "class_colour RED = IN_RED"
| "class_colour UNKNOWN = IN_WHITE"

definition engine_line :: "'ad RegisteredEngine \<Rightarrow> Line" where
  "engine_line e =
     secho (ljust 20 (em_id (re_metadata e)) @ '' '' @ ljust 7 (license_class_value (em_license_class (re_metadata e))) @ '' ''
            @ ljust 14 (approval_value (em_approval_status (re_metadata e))) @ '' '' @ ljust 7 (bool_text (mf_enabled (re_manifest e))) @ '' ''
            @ ljust 6 (bool_text (usable e)) @ '' '' @ integration_value (em_integration (re_metadata e)))
       (class_colour (em_license_class (re_metadata e)))"

definition engine_table :: "'ad RegisteredEngine list \<Rightarrow> Line list" where
  "engine_table engines =
     echo (ljust 20 ''ENGINE'' @ '' '' @ ljust 7 ''CLASS'' @ '' '' @ ljust 14 ''APPROVAL'' @ '' '' @ ljust 7 ''ENABLED'' @ '' ''
           @ ljust 6 ''USABLE'' @ '' INTEGRATION'')
     # List.map engine_line engines
     @ [echo ([CHR 0x0A] @ str_of_nat (length engines) @ '' engines; '' @ str_of_nat (length (List.filter usable engines))
              @ '' policy-usable (bind an adapter / install the binary to run them).'')]"

definition engine_list ::
  "(rat \<Rightarrow> string) \<Rightarrow> Coercions \<Rightarrow> pyval \<Rightarrow> pyval res list \<Rightarrow> pyval res option \<Rightarrow> bool \<Rightarrow> CliResult res" where
  "engine_list fr cv policy manifests lock json_out =
     bind_res (policy_load policy) (\<lambda>pol.
     bind_res (EngineRegistry_load cv manifests lock pol) (\<lambda>reg :: unit EngineRegistry.
       (let engines = sort_key class_then_id (registry_all reg)
        in Inr (said (if json_out then [echo (json_dumps_indent fr (PList (List.map engine_entry engines)))]
                      else engine_table engines)))))"

definition detection_val :: "Detection \<Rightarrow> pyval" where
  "detection_val d = PDict
     [(''engine'', PStr (dt_engine_id d)), (''binary'', PStr (dt_binary d)), (''installed'', PBool (dt_installed d)),
      (''path'', opt_val (dt_path d)), (''version'', opt_val (dt_version d)),
      (''matches_lock'', case dt_matches_lock d of None \<Rightarrow> PNone | Some b \<Rightarrow> PBool b)]"

definition detection_line :: "Detection \<Rightarrow> Line" where
  "detection_line d =
     secho (ljust 16 (dt_engine_id d) @ '' '' @ ljust 10 (bool_text (dt_installed d)) @ '' '' @ ljust 12 (osor (dt_version d) ''-'') @ '' ''
            @ ljust 12 (case dt_matches_lock d of None \<Rightarrow> [] | Some b \<Rightarrow> bool_text b) @ '' '' @ osor (dt_path d) [])
       (if dt_installed d then IN_GREEN else IN_WHITE)"

text \<open>\<open>locked\<close> are the versions of the lock file, none if there is no file.\<close>

definition engine_detect :: "(rat \<Rightarrow> string) \<Rightarrow> Programs \<Rightarrow> (string, string) dict \<Rightarrow> bool \<Rightarrow> CliResult" where
  "engine_detect fr pg locked json_out =
     (let detections = detect_engines pg [] locked
      in said (if json_out then [echo (json_dumps_indent fr (PList (List.map detection_val detections)))]
               else echo (ljust 16 ''ENGINE'' @ '' '' @ ljust 10 ''INSTALLED'' @ '' '' @ ljust 12 ''VERSION'' @ '' ''
                          @ ljust 12 ''MATCHES LOCK'' @ '' PATH'')
                    # List.map detection_line detections
                    @ [echo ([CHR 0x0A] @ str_of_nat (length (List.filter dt_installed detections)) @ ''/''
                             @ str_of_nat (length detections) @ '' known engines installed on this host.'')]))"

definition problem_lines :: "'ad RegisteredEngine \<Rightarrow> Line list" where
  "problem_lines e = List.map (\<lambda>p. secho (''  ['' @ em_id (re_metadata e) @ ''] '' @ p) IN_YELLOW) (re_problems e)"

definition engine_verify :: "Coercions \<Rightarrow> pyval \<Rightarrow> pyval res list \<Rightarrow> pyval res option \<Rightarrow> CliResult res" where
  "engine_verify cv policy manifests lock =
     bind_res (policy_load policy) (\<lambda>pol.
     bind_res (EngineRegistry_load cv manifests lock pol) (\<lambda>reg :: unit EngineRegistry.
       (let problems = concat (List.map problem_lines (registry_all reg))
        in Inr (said (problems @
             [if problems = [] then secho ''All engines pinned and policy-clean.'' IN_GREEN
              else secho (str_of_nat (length problems) @ '' engine problem(s) require attention.'') IN_YELLOW])))))"

subsection \<open>ai models and ai select\<close>

text \<open>The dump of the catalog as JSON is an argument, for its hints hold characters that are not ASCII.\<close>

definition model_entry :: "ModelInfo \<Rightarrow> pyval" where
  "model_entry x = PDict
     [(''id'', PStr (mi_id x)), (''family'', PStr (mi_family x)), (''params'', PStr (mi_params x)),
      (''license'', PStr (mi_license_spdx x)), (''license_class'', PStr (license_class_value (mi_license_class x))),
      (''context'', PInt (mi_context x)), (''gguf'', PStr (mi_gguf_hint x)),
      (''default'', PBool (mi_id x = DEFAULT_MODEL_ID)), (''notes'', PStr (mi_notes x))]"

definition default_tag :: "ModelInfo \<Rightarrow> string" where
  "default_tag x = (if mi_id x = DEFAULT_MODEL_ID then ''  (default)'' else [])"

definition model_line :: "ModelInfo \<Rightarrow> Line" where
  "model_line x =
     secho (ljust 26 (mi_id x) @ '' '' @ ljust 7 (mi_params x) @ '' '' @ ljust 14 (mi_license_spdx x) @ '' ''
            @ ljust 7 (license_class_value (mi_license_class x)) @ '' '' @ mi_gguf_hint x @ default_tag x)
       (case mi_license_class x of GREEN \<Rightarrow> IN_GREEN | YELLOW \<Rightarrow> IN_YELLOW | _ \<Rightarrow> IN_WHITE)"

definition enable_help :: Line where
  "enable_help =
     echo ([CHR 0x0A] @ ''Enable on-prem AI, e.g.:'' @ [CHR 0x0A]
       @ ''  Ollama:    VANTAGE_AI_PROVIDER=ollama VANTAGE_AI_MODEL=qwen2.5:7b-instruct'' @ [CHR 0x0A]
       @ ''  llama.cpp: pip install '' @ in_quotes ''vantage-dast[ai]'' @ ''; VANTAGE_AI_PROVIDER=llama_cpp ''
       @ ''VANTAGE_AI_MODEL_PATH=/models/qwen2.5-7b-instruct-q4_k_m.gguf'')"

definition ai_models :: "(pyval \<Rightarrow> string) \<Rightarrow> bool \<Rightarrow> bool \<Rightarrow> CliResult" where
  "ai_models dumps all_classes json_out =
     (let catalog = (if all_classes then recommended None else recommended (Some GREEN))
      in said (if json_out then [echo (dumps (PList (List.map model_entry catalog)))]
               else echo (ljust 26 ''MODEL'' @ '' '' @ ljust 7 ''PARAMS'' @ '' '' @ ljust 14 ''LICENSE'' @ '' ''
                          @ ljust 7 ''CLASS'' @ '' GGUF'')
                    # List.map model_line catalog @ [enable_help]))"

text \<open>The choice of the operator: a number of the list, or an identifier; \<open>None\<close> is an invalid number.\<close>

definition choice_line :: "nat \<Rightarrow> ModelInfo \<Rightarrow> Line" where
  "choice_line i x =
     echo (''  '' @ str_of_nat i @ ''. '' @ ljust 24 (mi_id x) @ '' '' @ ljust 5 (mi_params x) @ '' '' @ mi_license_spdx x
           @ default_tag x)"

definition choice_lines :: "ModelInfo list \<Rightarrow> Line list" where
  "choice_lines green =
     echo (''Recommended on-premise models (commercially-licensed, run locally):'' @ [CHR 0x0A])
     # List.map (\<lambda>(i, x). choice_line i x) (enumerate 1 green) @ [echo []]"

definition chosen_model :: "ModelInfo list \<Rightarrow> string \<Rightarrow> string option res" where
  "chosen_model green choice =
     (if isdigit (strip choice)
      then bind_res (int_of_text choice) (\<lambda>n. Inr
             (let idx = n - 1
              in if 0 \<le> idx \<and> idx < int (length green) then Some (mi_id (green ! nat idx)) else None))
      else Inr (Some (strip choice)))"

record SelectOptions =
  so_provider :: "string option"
  so_model_path :: "string option"
  so_ollama_url :: "string option"
  so_accept_yellow :: bool

definition selected_config :: "SelectOptions \<Rightarrow> string \<Rightarrow> AIConfig \<Rightarrow> AIConfig" where
  "selected_config opts model cfg =
     \<lparr>ac_provider = (case so_provider opts of Some p \<Rightarrow> lower p
                     | None \<Rightarrow> if ac_provider cfg = ''none'' then ''ollama'' else ac_provider cfg),
      ac_model = model,
      ac_model_path = (case so_model_path opts of Some p \<Rightarrow> p | None \<Rightarrow> ac_model_path cfg),
      ac_ollama_url = (case so_ollama_url opts of Some u \<Rightarrow> u | None \<Rightarrow> ac_ollama_url cfg)\<rparr>"

definition unknown_model :: "string \<Rightarrow> Line" where
  "unknown_model model =
     secho (''Unknown model '' @ in_quotes model @ ''. Run '' @ in_quotes ''vantage ai models --all'' @ '' to see options.'') IN_RED"

definition yellow_refusal :: "string \<Rightarrow> ModelInfo \<Rightarrow> Line" where
  "yellow_refusal model info =
     secho (in_quotes model @ '' is license class YELLOW ('' @ mi_license_spdx info @ '') '' @ long_dash @ '' it carries usage ''
       @ ''restrictions and needs a recorded review before commercial use. Re-run with --accept-yellow to select it anyway.'')
       IN_YELLOW"

definition selected_lines :: "string \<Rightarrow> ModelInfo \<Rightarrow> AIConfig \<Rightarrow> string \<Rightarrow> Line list" where
  "selected_lines model info cfg path =
     [secho (''Selected '' @ model @ '' ('' @ mi_license_spdx info @ '', '' @ license_class_value (mi_license_class info)
             @ '') via provider '' @ in_quotes (ac_provider cfg) @ ''.'') IN_GREEN,
      echo (''Saved to '' @ path @ ''.'')]
     @ (if ac_provider cfg = ''llama_cpp'' \<and> ac_model_path cfg = []
        then [secho ''llama_cpp selected but no --model-path set; provide a GGUF path before scanning.'' IN_YELLOW] else [])
     @ [echo ''Enable it on a scan with: vantage scan <url> --authorize --ai'']"

text \<open>The command after a model is named.\<close>

definition select_model ::
  "(string \<Rightarrow> pyval option res) \<Rightarrow> (rat \<Rightarrow> string) \<Rightarrow> SelectOptions \<Rightarrow> Line list \<Rightarrow> string \<Rightarrow> Host \<Rightarrow> CliResult res \<times> Host" where
  "select_model loads fr opts ls model h =
     (case get_model model of
        None \<Rightarrow> (Inr \<lparr>cl_lines = ls @ [unknown_model model], cl_exit = 2\<rparr>, h)
      | Some info \<Rightarrow>
          if mi_license_class info = YELLOW \<and> \<not> so_accept_yellow opts
          then (Inr \<lparr>cl_lines = ls @ [yellow_refusal model info], cl_exit = 2\<rparr>, h)
          else (case config_load loads fr h of
                  Inl e \<Rightarrow> (Inl e, h)
                | Inr cfg \<Rightarrow>
                    (let cfg = selected_config opts model cfg
                     in (Inr (said (ls @ selected_lines model info cfg (config_path h))), config_save fr cfg h))))"

definition ai_select ::
  "(string \<Rightarrow> pyval option res) \<Rightarrow> (rat \<Rightarrow> string) \<Rightarrow> SelectOptions \<Rightarrow> string option \<Rightarrow> string \<Rightarrow> Host \<Rightarrow>
   CliResult res \<times> Host" where
  "ai_select loads fr opts model choice h =
     (let green = recommended (Some GREEN)
      in case model of
           Some m \<Rightarrow> select_model loads fr opts [] m h
         | None \<Rightarrow>
             (case chosen_model green choice of
                Inl e \<Rightarrow> (Inl e, h)
              | Inr None \<Rightarrow> (Inr \<lparr>cl_lines = choice_lines green @ [secho ''Invalid selection.'' IN_RED], cl_exit = 2\<rparr>, h)
              | Inr (Some m) \<Rightarrow> select_model loads fr opts (choice_lines green) m h))"

subsection \<open>ai install and ai info\<close>

definition arrow :: string where
  "arrow = [CHR 0xE2, CHR 0x86, CHR 0x92]"

definition installed_config :: "LockedModel \<Rightarrow> InstallResult \<Rightarrow> AIConfig \<Rightarrow> AIConfig" where
  "installed_config locked r cfg =
     \<lparr>ac_provider = ir_backend r,
      ac_model = (if ir_backend r = ''ollama'' then lm_ollama_tag locked else ''qwen2.5:7b-instruct''),
      ac_model_path = (if ir_backend r = ''llama_cpp'' then ir_model r else ac_model_path cfg),
      ac_ollama_url = ac_ollama_url cfg\<rparr>"

text \<open>\<open>lock\<close> is the parsed lock file, or the error of reading it.\<close>

definition ai_install ::
  "(string \<Rightarrow> pyval option res) \<Rightarrow> (rat \<Rightarrow> string) \<Rightarrow> (string \<Rightarrow> string) \<Rightarrow> Programs \<Rightarrow> string \<Rightarrow> ModelLock \<Rightarrow> string \<Rightarrow>
   string option \<Rightarrow> string \<Rightarrow> bool \<Rightarrow> Host \<Rightarrow> CliResult res \<times> Host" where
  "ai_install loads fr sha pg lock_path lock backend model_from dest_dir enable_ai h =
     (case load_locked_model lock_path lock None of
        Inl e \<Rightarrow> (Inr \<lparr>cl_lines = [secho (''Cannot read model lock: '' @ exn_text e) IN_RED], cl_exit = 2\<rparr>, h)
      | Inr locked \<Rightarrow>
          (let ls = [echo (''Installing on-prem model '' @ in_quotes (lm_key locked) @ '' ('' @ lm_license locked @ '', ''
                           @ lm_size_hint locked @ '') via backend '' @ in_quotes backend @ ''...'')]
           in case install_model sha pg lock_path lock None backend model_from dest_dir h of
                (Inl e, h) \<Rightarrow> (Inl e, h)
              | (Inr r, h) \<Rightarrow>
                  if \<not> ir_ok r
                  then (Inr \<lparr>cl_lines = ls @ secho (''Not installed: '' @ ir_detail r) IN_YELLOW
                               # List.map (\<lambda>step. echo (''  '' @ arrow @ '' '' @ step)) (ir_steps r), cl_exit = 1\<rparr>, h)
                  else (let ls = ls @ [secho (''Installed ('' @ ir_backend r @ ''): '' @ ir_model r) IN_GREEN]
                        in if \<not> enable_ai then (Inr (said ls), h)
                           else (case config_load loads fr h of
                                   Inl e \<Rightarrow> (Inl e, h)
                                 | Inr cfg \<Rightarrow>
                                     (Inr (said (ls @ [echo (''AI enabled in config ('' @ config_path h
                                        @ ''). Scans will use it by default.'')])),
                                      config_save fr (installed_config locked r cfg) h)))))"

definition provider_lines :: "LLMProvider \<Rightarrow> bool \<Rightarrow> Line list" where
  "provider_lines p available =
     [echo (''AI provider: '' @ lp_name p), echo (''Model:       '' @ lp_model_id p),
      echo (''License:     '' @ lp_model_license p),
      secho (''Available:   '' @ bool_text available) (if available then IN_GREEN else IN_YELLOW)]
     @ (if available then []
        else [echo (''(Model/runtime not reachable '' @ long_dash @ '' install the model or start the daemon.)'')])"

definition ai_info :: "AiOutside \<Rightarrow> Host \<Rightarrow> CliResult res" where
  "ai_info ou h =
     bind_res (build_ai_provider_from_env ou h) (\<lambda>provider.
       case provider of
         None \<Rightarrow> Inr (said [echo ''AI provider: none (deterministic engines only).'',
                   echo ''Set VANTAGE_AI_PROVIDER=ollama|llama_cpp to enable the on-prem AI layer.''])
       | Some p \<Rightarrow> bind_res (lp_available p) (\<lambda>available. Inr (said (provider_lines p available))))"

subsection \<open>scan\<close>

record ScanOptions =
  sn_urls :: "string list"
  sn_profile :: string
  sn_kind :: string
  sn_authorize :: bool
  sn_fmt :: string
  sn_out :: "string option"
  sn_no_oss :: bool
  sn_sandbox :: string
  sn_ai :: bool
  sn_confirmed_only :: bool

definition profile_of :: "string \<Rightarrow> ScanProfile option" where
  "profile_of s = List.find (\<lambda>p. profile_value p = s) [PASSIVE, STANDARD, DEEP]"

definition kind_of :: "string \<Rightarrow> ApplicationKind res" where
  "kind_of s =
     (if s = [] then Inr KIND_UNKNOWN
      else case List.find (\<lambda>k. kind_value k = lower s)
             [KIND_UNKNOWN, TRADITIONAL_WEB, SPA, REST_API, GRAPHQL_API, SOAP_API, WEBSOCKET] of
             Some k \<Rightarrow> Inr k
           | None \<Rightarrow> Inl (ValueError (''not a valid ApplicationKind'')))"

text \<open>The target of the given URLs, its scan, and the run.\<close>

definition cli_target :: "ApiOutside \<Rightarrow> string list \<Rightarrow> string \<Rightarrow> Target act" where
  "cli_target e urls kind =
     act_bind (act_res (kind_of kind)) (\<lambda>k.
     act_bind (asserted (ap_out e) True ''cli --authorize'') (\<lambda>auth.
     act_bind (fresh_ids (ap_out e)) (\<lambda>ids.
     act_bind (utcnow (ap_out e)) (\<lambda>now.
       act_res (case urls of
           [] \<Rightarrow> Inl (RuntimeError ''list index out of range'')
         | u # us \<Rightarrow> bind_res (Target_make (ap_http_url e) (ids 0) now ''cli'' u urls k [] auth) with_default_rules)))))"

definition cli_report :: "ApiOutside \<Rightarrow> VantageApp \<Rightarrow> string list \<Rightarrow> string \<Rightarrow> ScanProfile \<Rightarrow> ScanReport act" where
  "cli_report e app urls kind profile =
     act_bind (cli_target e urls kind) (\<lambda>target.
     act_bind (new_scan (ap_out e) ''cli'' (t_id target) profile ''cli'') (\<lambda>scan.
       run (ap_out e) (va_orchestrator app) scan target))"

definition severe :: "UnifiedFinding list \<Rightarrow> bool" where
  "severe fs \<longleftrightarrow> dget_or (summarize fs) ''critical'' 0 \<noteq> 0 \<or> dget_or (summarize fs) ''high'' 0 \<noteq> 0"

definition no_model :: Line where
  "no_model =
     secho (''--ai set but no on-prem AI model is configured. Run '' @ in_quotes ''vantage ai select'' @ '' to ''
       @ ''choose one (or set VANTAGE_AI_PROVIDER=ollama|llama_cpp). Continuing without AI.'') IN_YELLOW"

definition refusal :: Line where
  "refusal =
     secho (''Refusing to scan without --authorize. Only test systems you own or are ''
       @ ''explicitly authorized to assess.'') IN_RED"

text \<open>What is printed of a report, the file that is written, and the exit status.\<close>

definition publish ::
  "Dumps \<Rightarrow> ScanOptions \<Rightarrow> Line list \<Rightarrow> ScanReport \<Rightarrow> (CliResult \<times> (string \<times> string) option) res" where
  "publish dm opts ls report =
     (let report = (if sn_confirmed_only opts then filter_confirmed report else report)
      in bind_res (render dm report (sn_fmt opts)) (\<lambda>rendered.
           (let path = osor (sn_out opts) [];
                status = (if severe (rp_findings report) then 1 else 0)
            in Inr (if path \<noteq> []
                    then (\<lparr>cl_lines = ls @ [secho (''Wrote '' @ sn_fmt opts @ '' report to '' @ path) IN_GREEN], cl_exit = status\<rparr>,
                          Some (path, rendered))
                    else (\<lparr>cl_lines = ls @ [echo rendered], cl_exit = status\<rparr>, None)))))"

definition cli_app :: "ApiOutside \<Rightarrow> ScanOptions \<Rightarrow> (Line list \<times> VantageApp) res" where
  "cli_app e opts =
     bind_res (if sn_ai opts then build_ai_provider_from_env (ap_ai e) (ap_host e) else Inr None) (\<lambda>ai.
     bind_res (VantageApp_build (ap_deploy e) None (sn_sandbox opts) (\<not> sn_no_oss opts) (lower (sn_sandbox opts) = ''local'')
                 True ai) (\<lambda>app.
       Inr (if sn_ai opts \<and> ai = None then [no_model] else [], app)))"

definition scan_run ::
  "ApiOutside \<Rightarrow> ScanOptions \<Rightarrow> World \<Rightarrow> (CliResult \<times> (string \<times> string) option) res \<times> World" where
  "scan_run e opts w =
     (if \<not> sn_authorize opts then (Inr (\<lparr>cl_lines = [refusal], cl_exit = 2\<rparr>, None), w)
      else case profile_of (lower (sn_profile opts)) of
             None \<Rightarrow> (Inr (\<lparr>cl_lines = [secho (''Unknown profile: '' @ sn_profile opts) IN_RED], cl_exit = 2\<rparr>, None), w)
           | Some profile \<Rightarrow>
               (case cli_app e opts of
                  Inl x \<Rightarrow> (Inl x, w)
                | Inr (ls, app) \<Rightarrow>
                    (case cli_report e app (sn_urls opts) (sn_kind opts) profile w of
                       (Inl x, w) \<Rightarrow> (Inl x, w)
                     | (Inr report, w) \<Rightarrow> (publish (ap_dumps e) opts ls report, w))))"

end
