(* ===== verification/Cli_Laws.thy ===== *)
theory Cli_Laws
  imports Cli Api_Laws
begin

text \<open>
  Laws of the command line: the release gate, the gate on review-only models, and the exit status of a scan.
\<close>

subsection \<open>The report of a scan\<close>

lemma completed_report:
  assumes "run out orch scan target w = (Inr rep, w')" and "is_authorized (out_clock out (w_tick w)) target"
  shows "s_state (rp_scan rep) = COMPLETED"
  by (rule run_report [OF assms]) (use set_state_state in blast)

lemma attested: "t_authorization t = Some (attestation n who) \<Longrightarrow> is_authorized now t"
  by (simp add: is_authorized_def attestation_def auth_is_valid_def)

lemma made_target:
  assumes "bind_res (Target_make hu i now tenant name urls kind rules auth) with_default_rules = Inr t"
  shows "t_authorization t = auth \<and> t_tenant_id t = tenant \<and> t_kind t = kind"
  using assms by (auto simp: bind_res_Inr_iff Target_make_def with_default_rules_def split: if_splits)

lemma cli_target_attested: "yields (cli_target e urls kind) (\<lambda>t. \<exists>n. t_authorization t = Some (attestation n ''cli --authorize''))"
proof -
  have made: "yields (act_res (case urls of [] \<Rightarrow> Inl x
         | u # us \<Rightarrow> bind_res (Target_make hu i now ''cli'' u urls k [] (Some (attestation n who))) with_default_rules))
      (\<lambda>t. \<exists>n. t_authorization t = Some (attestation n who))" for x hu i now k n who
    by (auto simp: yields_def act_res_def dest: made_target split: list.splits)
  show ?thesis
    unfolding cli_target_def asserted_def if_True
  proof (rule yields_any, rule yields_bind [of _ "\<lambda>auth. \<exists>n. auth = Some (attestation n ''cli --authorize'')"])
    show "yields (act_bind (utcnow (ap_out e)) (\<lambda>now. act_return (Some (attestation now ''cli --authorize''))))
        (\<lambda>auth. \<exists>n. auth = Some (attestation n ''cli --authorize''))"
      by (rule yields_any, rule yields_return, blast)
  qed (elim exE, simp only:, rule yields_any, rule yields_any, rule made)
qed

lemma cli_report_completed:
  assumes "cli_report e app urls kind profile w = (Inr rep, w')"
  shows "s_state (rp_scan rep) = COMPLETED \<and> s_tenant_id (rp_scan rep) = ''cli'' \<and> sp_profile (s_policy (rp_scan rep)) = profile"
proof -
  from assms obtain target w1 scan w2 where t: "cli_target e urls kind w = (Inr target, w1)"
    and s: "new_scan (ap_out e) ''cli'' (t_id target) profile ''cli'' w1 = (Inr scan, w2)"
    and r: "run (ap_out e) (va_orchestrator app) scan target w2 = (Inr rep, w')"
    by (auto simp: cli_report_def act_bind_Inr_iff)
  obtain n where "t_authorization target = Some (attestation n ''cli --authorize'')"
    using yieldsD [OF cli_target_attested t] by blast
  then have "is_authorized (out_clock (ap_out e) (w_tick w2)) target" by (rule attested)
  with r have "s_state (rp_scan rep) = COMPLETED" by (rule completed_report)
  moreover have "same_scan scan (rp_scan rep)" by (rule yieldsD [OF yields_run r])
  moreover have "s_tenant_id scan = ''cli''" "s_policy scan = default_policy profile"
    using s by (auto simp: new_scan_def act_bind_def fresh_ids_def utcnow_def act_return_def)
  ultimately show ?thesis by (simp add: same_scan_def default_policy_def)
qed

lemma severe_iff: "severe fs \<longleftrightarrow> (\<exists>f \<in> set fs. f_severity f \<in> {HIGH, CRITICAL})"
proof -
  have v: "severity_value s = ''critical'' \<longleftrightarrow> s = CRITICAL" "severity_value s = ''high'' \<longleftrightarrow> s = HIGH" for s
    by (cases s; simp)+
  show ?thesis
    by (auto simp: severe_def summarize_def all_severities_def dget_or_def Let_def filter_empty_conv v)
qed

lemma catalog_model:
  assumes "get_model m = Some info"
  shows "mi_id info = m" and "mi_license_class info \<noteq> RED"
proof -
  have "List.find (\<lambda>x. mi_id x = m) CATALOG = Some info" using assms by (simp add: BY_ID_get)
  then have "mi_id info = m \<and> info \<in> set CATALOG" by (auto simp: find_Some_iff)
  moreover have "list_all (\<lambda>x. mi_license_class x \<noteq> RED) CATALOG" by (simp add: CATALOG_def)
  ultimately show "mi_id info = m" "mi_license_class info \<noteq> RED" by (auto simp: list_all_iff)
qed

subsection \<open>Properties\<close>

text \<open>
  C23: the release gate.  If \<open>vantage license check\<close> ends without an exception, every entry of the inventory
  file was validated and checked, and the status is 0 if each of them is admissible under the policy, 1 otherwise,
  whatever the output format.
\<close>

theorem license_check_gates:
  assumes "license_check fr cv policy (Inr data) json_out = Inr r" and "policy_load policy = Inr pol"
  shows "cl_exit r = (if \<forall>x \<in> set (inventory_entries data).
      \<exists>cmp. Component_validate cv x = Inr cmp \<and> component_admissible pol cmp then 0 else 1)"
proof -
  from assms obtain ivt report where ivt: "Inventory_load cv (Inr data) = Inr ivt"
    and "check_inventory ivt pol = Inr report" "cl_exit r = (if cr_ok report then 0 else 1)"
    by (auto simp: license_check_def bind_res_Inr_iff)
  then have exit: "cl_exit r = (if \<forall>cmp \<in> set (inv_components ivt). component_admissible pol cmp then 0 else 1)"
    using inventory_gate by auto
  obtain all2: "list_all2 (\<lambda>x c. Component_validate cv x = Inr c) (inventory_entries data) (inv_components ivt)"
    using Inventory_load_entries [OF ivt] by auto
  have "(\<forall>cmp \<in> set (inv_components ivt). component_admissible pol cmp) \<longleftrightarrow>
      (\<forall>x \<in> set (inventory_entries data). \<exists>cmp. Component_validate cv x = Inr cmp \<and> component_admissible pol cmp)"
    using all2 by (induction rule: list_all2_induct) auto
  with exit show ?thesis by simp
qed

text \<open>
  C24: the gate on models.  If \<open>vantage ai select\<close> ends with status 0, the named model is in the catalog, it is
  of license class YELLOW only when the operator accepted that, never RED, and the settings file, and nothing
  else, now holds this model with the provider, path and URL of the options or of the settings before.  With
  another status, or an exception, no file has changed.
\<close>

theorem ai_select_gated:
  assumes "ai_select loads fr opts model choice h = (r, h')"
  shows "case r of
      Inl x \<Rightarrow> h' = h
    | Inr out \<Rightarrow>
        if cl_exit out \<noteq> 0 then cl_exit out = 2 \<and> h' = h
        else (\<exists>info cfg. get_model (mi_id info) = Some info \<and>
               (mi_license_class info = YELLOW \<longrightarrow> so_accept_yellow opts) \<and> mi_license_class info \<noteq> RED \<and>
               config_load loads fr h = Inr cfg \<and> h' = config_save fr (selected_config opts (mi_id info) cfg) h)"
proof -
  have sel: ?thesis if s: "select_model loads fr opts ls m h = (r, h')" for ls m
  proof (cases "get_model m")
    case None
    with s show ?thesis by (auto simp: select_model_def)
  next
    case (Some info)
    then have info: "mi_id info = m" "mi_license_class info \<noteq> RED" by (rule catalog_model)+
    show ?thesis
    proof (cases "mi_license_class info = YELLOW \<and> \<not> so_accept_yellow opts")
      case True
      with s Some show ?thesis by (auto simp: select_model_def)
    next
      case gate: False
      with s Some info show ?thesis
        by (cases "config_load loads fr h") (auto simp: select_model_def Let_def said_def)
    qed
  qed
  show ?thesis
  proof (cases model)
    case (Some m)
    with assms show ?thesis by (intro sel [of "[]" m]) (simp add: ai_select_def)
  next
    case None
    show ?thesis
    proof (cases "chosen_model (recommended (Some GREEN)) choice")
      case (Inl x)
      with None assms show ?thesis by (auto simp: ai_select_def)
    next
      case (Inr m)
      show ?thesis
      proof (cases m)
        case None
        with Inr \<open>model = None\<close> assms show ?thesis by (auto simp: ai_select_def)
      next
        case (Some i)
        with Inr None assms show ?thesis
          by (intro sel [of "choice_lines (recommended (Some GREEN))" i]) (simp add: ai_select_def)
      qed
    qed
  qed
qed

text \<open>
  The status a shell sees of a command: the one it ends with, or 1 when an exception that nothing catches ends the
  interpreter with a traceback.
\<close>

definition exit_status :: "(CliResult \<times> 'f) res \<Rightarrow> nat" where
  "exit_status r = (case r of Inl _ \<Rightarrow> 1 | Inr (res, _) \<Rightarrow> cl_exit res)"

text \<open>The report that is shown.\<close>

definition shown_report :: "ScanOptions \<Rightarrow> ScanReport \<Rightarrow> ScanReport" where
  "shown_report opts report = (if sn_confirmed_only opts then filter_confirmed report else report)"

lemma publish_cases:
  shows "publish dm opts ls report = Inl x \<longleftrightarrow> render dm (shown_report opts report) (sn_fmt opts) = Inl x"
    and "publish dm opts ls report = Inr (res, file) \<Longrightarrow>
      \<exists>rendered. render dm (shown_report opts report) (sn_fmt opts) = Inr rendered \<and>
        cl_exit res = (if \<exists>f \<in> set (rp_findings (shown_report opts report)). f_severity f \<in> {HIGH, CRITICAL} then 1 else 0) \<and>
        (if osor (sn_out opts) [] = [] then file = None \<and> cl_lines res = ls @ [(rendered, None)]
         else file = Some (osor (sn_out opts) [], rendered))"
  by (auto simp: publish_def shown_report_def Let_def bind_res_def echo_def severe_iff split: sum.splits if_splits)

lemma cli_target_kind:
  assumes "cli_target e urls kind w = (Inr target, w')"
  shows "kind_of kind = Inr (t_kind target)"
proof -
  from assms obtain k where k: "kind_of kind = Inr k"
    and "act_bind (asserted (ap_out e) True ''cli --authorize'') (\<lambda>auth. act_bind (fresh_ids (ap_out e)) (\<lambda>ids.
      act_bind (utcnow (ap_out e)) (\<lambda>now. act_res (case urls of [] \<Rightarrow> Inl (RuntimeError ''list index out of range'')
        | u # us \<Rightarrow> bind_res (Target_make (ap_http_url e) (ids 0) now ''cli'' u urls k [] auth) with_default_rules)))) w =
      (Inr target, w')"
    by (auto simp: cli_target_def act_bind_Inr_iff [where m = "act_res (kind_of kind)"] act_res_def)
  then obtain ids now u us auth where
    "bind_res (Target_make (ap_http_url e) (ids 0) now ''cli'' u urls k [] auth) with_default_rules = Inr target"
    by (cases urls) (auto simp: act_bind_Inr_iff act_res_def)
  from made_target [OF this] k show ?thesis by simp
qed

lemma cli_report_ran:
  assumes "cli_report e app urls kind profile w = (Inr rep, w')"
  obtains target scan w1 w2 where "cli_target e urls kind w = (Inr target, w1)" "kind_of kind = Inr (t_kind target)"
    "new_scan (ap_out e) ''cli'' (t_id target) profile ''cli'' w1 = (Inr scan, w2)" "s_policy scan = default_policy profile"
    "run (ap_out e) (va_orchestrator app) scan target w2 = (Inr rep, w')"
proof -
  from assms obtain target w1 scan w2 where t: "cli_target e urls kind w = (Inr target, w1)"
    and s: "new_scan (ap_out e) ''cli'' (t_id target) profile ''cli'' w1 = (Inr scan, w2)"
    and r: "run (ap_out e) (va_orchestrator app) scan target w2 = (Inr rep, w')"
    by (auto simp: cli_report_def act_bind_Inr_iff)
  have "s_policy scan = default_policy profile"
    using s by (auto simp: new_scan_def act_bind_def fresh_ids_def utcnow_def act_return_def)
  with t cli_target_kind [OF t] s r show thesis using that by blast
qed


subsection \<open>Concrete commands\<close>

text \<open>The entry of the inventory that states no approval is admissible for its license.\<close>

definition demo_entries :: "pyval list" where
  "demo_entries =
     [PDict [(''name'', PStr ''a''), (''version'', PStr ''1''), (''license'', PStr ''MIT''),
             (''integration_type'', PStr ''library_static'')],
      PDict [(''name'', PStr ''b''), (''version'', PStr ''2''), (''license'', PStr ''AGPL-3.0-only''),
             (''integration_type'', PStr ''container_cli''), (''approval_status'', PStr ''approved''),
             (''approval_reference'', PStr ''LEGAL-1'')]]"

lemma obtain_admissible:
  "(case Component_validate cv x of Inl e \<Rightarrow> False | Inr cmp \<Rightarrow> component_admissible pol cmp) \<Longrightarrow>
    \<exists>cmp. Component_validate cv x = Inr cmp \<and> component_admissible pol cmp"
  by (auto split: sum.splits)

theorem license_check_gates_witness:
  "map_sum id cl_exit (license_check (\<lambda>_. []) plain_cv built_policy
     (Inr (PDict [(''components'', PList demo_entries)])) False) = Inr 0"
proof -
  let ?data = "PDict [(''components'', PList demo_entries)]"
  let ?load = "bind_res (Inventory_load plain_cv (Inr ?data)) (\<lambda>ivt. check_inventory ivt demo_policy)"
  have "isl ?load = False" by code_simp
  then obtain ivt report where "Inventory_load plain_cv (Inr ?data) = Inr ivt" "check_inventory ivt demo_policy = Inr report"
    by (cases ?load) (auto simp: bind_res_Inr_iff)
  then obtain r where "license_check (\<lambda>_. []) plain_cv built_policy (Inr ?data) False = Inr r"
    by (simp add: license_check_def built_policy_loads)
  moreover have "list_all (\<lambda>x. case Component_validate plain_cv x of Inl e \<Rightarrow> False
      | Inr cmp \<Rightarrow> component_admissible demo_policy cmp) (inventory_entries ?data)" by code_simp
  then have "\<forall>x \<in> set (inventory_entries ?data).
      \<exists>cmp. Component_validate plain_cv x = Inr cmp \<and> component_admissible demo_policy cmp"
    unfolding list_all_iff by (intro ballI obtain_admissible) (rule bspec)
  ultimately show ?thesis using license_check_gates [OF _ built_policy_loads] by fastforce
qed

definition phi_options :: SelectOptions where
  "phi_options = \<lparr>so_provider = Some ''Ollama'', so_model_path = None, so_ollama_url = None, so_accept_yellow = False\<rparr>"

definition bare_host :: Host where
  "bare_host = \<lparr>ho_env = [], ho_home = ''/root'', ho_files = [], ho_denied = []\<rparr>"

theorem ai_select_gated_witness:
  "\<exists>out info. fst (ai_select (\<lambda>_. Inr None) (\<lambda>_. []) phi_options (Some ''phi4-mini'') [] bare_host) = Inr out \<and> cl_exit out = 0 \<and>
     get_model (mi_id info) = Some info \<and> mi_license_class info \<noteq> RED \<and>
     snd (ai_select (\<lambda>_. Inr None) (\<lambda>_. []) phi_options (Some ''phi4-mini'') [] bare_host) =
       config_save (\<lambda>_. []) (selected_config phi_options (mi_id info) AIConfig_default) bare_host"
proof -
  let ?cmd = "ai_select (\<lambda>_. Inr None) (\<lambda>_. []) phi_options (Some ''phi4-mini'') [] bare_host"
  have load: "config_load (\<lambda>_. Inr None) (\<lambda>_. []) bare_host = Inr AIConfig_default"
    by (simp add: config_load_def bare_host_def)
  have "map_option mi_license_class (get_model ''phi4-mini'') = Some GREEN" by (simp add: BY_ID_get CATALOG_def)
  then obtain info where "get_model ''phi4-mini'' = Some info" "mi_license_class info = GREEN" by auto
  with load obtain out h' where o: "?cmd = (Inr out, h')" "cl_exit out = 0"
    by (simp add: ai_select_def select_model_def said_def Let_def)
  from ai_select_gated [OF o(1)] o(2) load o(1) show ?thesis by auto
qed

text \<open>A scan with a deployment that has no engines, of a target given by its URL.\<close>

definition cli_env :: ApiOutside where
  "cli_env = api_env\<lparr>ap_deploy := built_deployment\<lparr>dp_manifests := []\<rparr>\<rparr>"

definition cli_options :: ScanOptions where
  "cli_options =
     \<lparr>sn_urls = [''http://a/''], sn_profile = ''Standard'', sn_kind = ''spa'', sn_authorize = True, sn_fmt = ''markdown'',
      sn_out = None, sn_no_oss = False, sn_sandbox = ''auto'', sn_ai = False, sn_confirmed_only = True\<rparr>"

lemma native_without_engines: "bind_native (EngineRegistry_init pol) as = Inr (EngineRegistry_init pol)"
  by (induction as) (auto simp: registry_get_def EngineRegistry_init_def)

lemma oss_without_engines: "bind_oss dp runner b found (EngineRegistry_init pol) fs = Inr (EngineRegistry_init pol)"
  by (induction fs) (auto simp: registry_get_def EngineRegistry_init_def)

lemma cli_app_built:
  "\<exists>app. cli_app cli_env cli_options = Inr ([], app) \<and> or_registry (va_orchestrator app) = EngineRegistry_init demo_policy \<and>
     or_analyst (va_orchestrator app) = NullProvider \<and>
     (\<exists>factory. or_prober_factory (va_orchestrator app) = Some factory \<and> (\<forall>target. isl (factory target) = False))"
proof -
  let ?dp = "built_deployment\<lparr>dp_manifests := []\<rparr>"
  let ?runner = "dp_runner ?dp (select_runner (pg_which (dp_programs ?dp)) ''auto'' True)"
  have dp: "dp_manifests ?dp = []" "dp_policy ?dp = built_policy" "dp_lock ?dp = Some (Inr built_lock_file)" "dp_cv ?dp = plain_cv" by (simp_all add: built_fields)
  have reg: "app_registry ?dp ?runner True False demo_policy = Inr (EngineRegistry_init demo_policy)"
    unfolding app_registry_def dp
    by (simp only: Let_def EngineRegistry_load_def built_lock_loads load_manifests.simps bind_res_simps native_without_engines if_False
        enable_all.simps if_True oss_without_engines)
  have build: "VantageApp_build ?dp None ''auto'' True False True None = Inr
      \<lparr>va_registry = EngineRegistry_init demo_policy,
       va_orchestrator = Orchestrator_init (EngineRegistry_init demo_policy) None
         (Some (HttpProber (dp_search ?dp) (dp_net ?dp) (dp_now ?dp))) None True (Some NullProvider) None,
       va_policy = demo_policy, va_analyst = NullProvider\<rparr>"
    unfolding VantageApp_build_def dp built_policy_loads bind_res_simps Let_def option.case reg by (rule refl)
  have "lower ''auto'' \<noteq> ''local''" by code_simp
  then have "cli_app cli_env cli_options = bind_res (VantageApp_build ?dp None ''auto'' True False True None) (\<lambda>app. Inr ([], app))"
    by (simp add: cli_app_def cli_env_def cli_options_def api_env_def)
  then show ?thesis unfolding build by (simp add: Orchestrator_init_def HttpProber_def)
qed

lemma cli_target_made:
  "\<exists>t w. cli_target cli_env [''http://a/''] ''spa'' demo_world = (Inr t, w) \<and> w_db w = w_db demo_world"
proof -
  have "isl (default_rules [''http://a/'']) = False" by code_simp
  then obtain rules where d: "default_rules [''http://a/''] = Inr rules" by (cases "default_rules [''http://a/'']") auto
  have "\<exists>t. bind_res (Target_make Some [] now ''cli'' ''http://a/'' [''http://a/''] SPA [] auth) with_default_rules = Inr t" for now auth
    using d by (simp add: Target_make_def with_default_rules_def default_scope_rules_for_def)
  then obtain t where t: "bind_res (Target_make Some [] 2 ''cli'' ''http://a/'' [''http://a/''] SPA []
      (Some (attestation 0 ''cli --authorize''))) with_default_rules = Inr t" by blast
  have "kind_of ''spa'' = Inr SPA" by code_simp
  with t show ?thesis
    by (simp add: cli_target_def asserted_def act_bind_def utcnow_def fresh_ids_def act_res_def act_return_def
        cli_env_def api_env_def demo_outside_def demo_world_def)
qed

lemma cli_report_made:
  assumes "or_registry (va_orchestrator app) = EngineRegistry_init demo_policy" and "or_analyst (va_orchestrator app) = NullProvider"
    and "\<exists>factory. or_prober_factory (va_orchestrator app) = Some factory \<and> (\<forall>target. isl (factory target) = False)"
  shows "\<exists>rep w. cli_report cli_env app [''http://a/''] ''spa'' STANDARD demo_world = (Inr rep, w)"
proof -
  obtain t w1 where t: "cli_target cli_env [''http://a/''] ''spa'' demo_world = (Inr t, w1)" "w_db w1 = w_db demo_world"
    using cli_target_made by blast
  obtain n where n: "t_authorization t = Some (attestation n ''cli --authorize'')"
    using yieldsD [OF cli_target_attested t(1)] by blast
  have env: "ap_out cli_env = demo_outside" by (simp add: cli_env_def api_env_def)
  obtain scan w2 where s: "new_scan demo_outside ''cli'' (t_id t) STANDARD ''cli'' w1 = (Inr scan, w2)" "s_state scan = CREATED"
    "w_db w2 = w_db demo_world"
    using t(2) by (simp add: new_scan_def act_bind_def fresh_ids_def utcnow_def act_return_def)
  have "\<exists>rep w. run demo_outside (va_orchestrator app) scan t w2 = (Inr rep, w)"
    by (rule engineless_runs [OF assms(1,2) _ attested [OF n] s(2,3)]) (use assms(3) in auto)
  with t(1) s(1) show ?thesis by (simp add: cli_report_def act_bind_def env)
qed


end
