(* ===== verification/Egress_Proxy.thy ===== *)
theory Egress_Proxy
  imports Scope
begin

text \<open>
  The scope-enforcing forward proxy (\<open>components/egress-proxy/scope.go\<close>, \<open>main.go\<close>), written in Go, which is
  meant to decide as the scope engine of the Python code does.  \<open>url.Parse\<close> and \<open>regexp\<close>, the upstream
  connections and the response are parameters; \<open>net.ParseIP\<close>, \<open>net.ParseCIDR\<close>, \<open>IPNet.Contains\<close>, the
  classification of addresses and \<open>net.LookupPort\<close> of a number are written out.  The cache of compiled
  patterns changes no answer and is left out.
\<close>

subsection \<open>Addresses and networks\<close>

text \<open>\<open>net.ParseIP\<close>: no zone; an IPv4-mapped address is the IPv4 address.\<close>

definition go_addr :: "ipaddr \<Rightarrow> ipaddr option" where
  "go_addr a =
     (case a of V4 n \<Rightarrow> Some (V4 n)
      | V6 n zone \<Rightarrow> if zone \<noteq> None then None
                    else if n div 2 ^ 32 = 65535 then Some (V4 (n mod 2 ^ 32)) else Some (V6 n None))"

definition go_parse_ip :: "string \<Rightarrow> ipaddr option" where
  "go_parse_ip s = (case ip_address s of None \<Rightarrow> None | Some a \<Rightarrow> go_addr a)"

text \<open>\<open>net.ParseCIDR\<close>: an address without zone and a decimal prefix length.\<close>

definition go_cidr :: "string \<Rightarrow> ipnet option" where
  "go_cidr s =
     (case split_on CHR ''/'' s of
        [a, m] \<Rightarrow>
          (case ip_address a of
             Some (V4 n) \<Rightarrow> map_option (N4 n) (prefix_length 32 m)
           | Some (V6 n None) \<Rightarrow> map_option (N6 n) (prefix_length 128 m)
           | _ \<Rightarrow> None)
      | _ \<Rightarrow> None)"

text \<open>\<open>IPNet.Contains\<close>: a network of mapped addresses is one of IPv4.\<close>

fun go_net :: "ipnet \<Rightarrow> ipnet" where
  "go_net (N4 base p) = N4 base p"
| "go_net (N6 base p) = (if 96 \<le> p \<and> base div 2 ^ 32 = 65535 then N4 (base mod 2 ^ 32) (p - 96) else N6 base p)"

fun go_is_private :: "ipaddr \<Rightarrow> bool" where
  "go_is_private (V4 n) = in_any 32 n [(v4 10 0 0 0, 8), (v4 172 16 0 0, 12), (v4 192 168 0 0, 16)]"
| "go_is_private (V6 n zone) = in_prefix 128 n (v6 0xfc00 0 0) 7"

fun go_link_local_multicast :: "ipaddr \<Rightarrow> bool" where
  "go_link_local_multicast (V4 n) = in_prefix 32 n (v4 224 0 0 0) 24"
| "go_link_local_multicast (V6 n zone) = (n div 2 ^ 120 = 255 \<and> n div 2 ^ 112 mod 16 = 2)"

definition go_private_literal :: "string \<Rightarrow> bool" where
  "go_private_literal host =
     (case go_parse_ip host of
        None \<Rightarrow> False
      | Some ip \<Rightarrow> is_loopback ip \<or> go_is_private ip \<or> is_link_local ip \<or> go_link_local_multicast ip \<or>
                   is_multicast ip \<or> is_unspecified ip)"

subsection \<open>Rules\<close>

text \<open>\<open>nil\<close> is \<open>None\<close> where the code tests for it; of the schemes it only asks whether there are any.\<close>

record GoRule =
  gr_kind :: string
  gr_host :: string
  gr_schemes :: "string list"
  gr_ports :: "int list option"
  gr_path_prefix :: string
  gr_path_regex :: "string option"
  gr_methods :: "string list option"

record GoUrl =
  gu_scheme :: string
  gu_hostname :: string
  gu_port :: string
  gu_path :: string

record GoLib =
  gl_url :: "string \<Rightarrow> GoUrl option"
  gl_compile :: "string \<Rightarrow> (string \<Rightarrow> bool) option"

record GoScope =
  gs_rules :: "GoRule list"
  gs_authorized :: bool
  gs_private_optin :: bool

definition go_rule_allows_private :: "GoRule \<Rightarrow> bool" where
  "go_rule_allows_private r \<longleftrightarrow> go_private_literal (gr_host r) \<or> CHR ''/'' \<in> set (gr_host r)"

definition NewScopeEngine :: "GoRule list \<Rightarrow> bool \<Rightarrow> GoScope" where
  "NewScopeEngine rules authorized =
     \<lparr>gs_rules = rules, gs_authorized = authorized, gs_private_optin = list_ex go_rule_allows_private rules\<rparr>"

definition lookup_port :: "string \<Rightarrow> int option" where
  "lookup_port p = (if num_of 10 p \<le> 65535 then Some (num_of 10 p) else None)"

definition parseURL :: "GoLib \<Rightarrow> string \<Rightarrow> string \<Rightarrow> ParsedUrl option" where
  "parseURL lib raw mth =
     (case gl_url lib raw of
        None \<Rightarrow> None
      | Some u \<Rightarrow>
          if gu_scheme u = [] \<or> gu_hostname u = [] then None
          else (let scheme = lower (gu_scheme u);
                    host = rstrip (\<lambda>c. c = CHR ''.'') (lower (gu_hostname u))
                in case (if gu_port u \<noteq> [] then lookup_port (gu_port u)
                         else Some (dget_or DEFAULT_PORTS scheme 0)) of
                     None \<Rightarrow> None
                   | Some port \<Rightarrow>
                       if port = 0 then None
                       else Some \<lparr>pu_scheme = scheme, pu_host = host, pu_port = port,
                                  pu_path = sor (gu_path u) ''/'', pu_method = opt_upper (Some mth)\<rparr>))"

definition hostMatches :: "string \<Rightarrow> string \<Rightarrow> bool" where
  "hostMatches rule_host host =
     (if rule_host = host then True
      else if startswith rule_host ''*.''
        then (let suffix = tl rule_host in endswith host suffix \<and> host \<noteq> tl suffix)
      else case go_parse_ip host of
             None \<Rightarrow> False
           | Some addr \<Rightarrow>
               if CHR ''/'' \<in> set rule_host
               then (case go_cidr rule_host of None \<Rightarrow> False | Some n \<Rightarrow> in_network addr (go_net n))
               else (case go_parse_ip rule_host of None \<Rightarrow> False | Some a \<Rightarrow> a = addr))"

text \<open>A pattern that does not compile makes the rule match nothing.\<close>

definition ruleMatches :: "GoLib \<Rightarrow> GoRule \<Rightarrow> ParsedUrl \<Rightarrow> bool" where
  "ruleMatches lib r u \<longleftrightarrow>
     pu_scheme u \<in> set (if gr_schemes r = [] then [''https'', ''http''] else gr_schemes r) \<and>
     hostMatches (gr_host r) (pu_host u) \<and>
     (case gr_ports r of Some ports \<Rightarrow> pu_port u \<in> set ports | None \<Rightarrow> pu_port u = dget_or DEFAULT_PORTS (pu_scheme u) 0) \<and>
     startswith (pu_path u) (sor (gr_path_prefix r) ''/'') \<and>
     (case gr_path_regex r of None \<Rightarrow> True
      | Some rx \<Rightarrow> (case gl_compile lib rx of None \<Rightarrow> False | Some matches \<Rightarrow> matches (pu_path u))) \<and>
     \<not> (case (gr_methods r, pu_method u) of (Some ms, Some mth) \<Rightarrow> mth \<notin> set ms | _ \<Rightarrow> False)"

definition go_excludes :: "GoRule \<Rightarrow> bool" where
  "go_excludes r \<longleftrightarrow> lower (gr_kind r) = ''exclude''"

text \<open>The loops of \<open>Check\<close>, each over the rules of one kind.\<close>

fun go_first :: "GoLib \<Rightarrow> bool \<Rightarrow> ParsedUrl \<Rightarrow> nat \<Rightarrow> GoRule list \<Rightarrow> nat option" where
  "go_first lib excluding u i [] = None"
| "go_first lib excluding u i (r # rs) =
     (if go_excludes r = excluding \<and> ruleMatches lib r u then Some i else go_first lib excluding u (Suc i) rs)"

definition go_check :: "GoLib \<Rightarrow> GoScope \<Rightarrow> string \<Rightarrow> string \<Rightarrow> ScopeDecision" where
  "go_check lib e raw mth =
     (if \<not> gs_authorized e then refuse ''target has no valid authorization record'' None
      else case parseURL lib raw mth of
        None \<Rightarrow> refuse ''unparseable or portless url'' None
      | Some u \<Rightarrow>
          if go_private_literal (pu_host u) \<and> \<not> gs_private_optin e
          then refuse ''private/loopback address not explicitly in scope'' None
          else (case go_first lib True u 0 (gs_rules e) of
                  Some i \<Rightarrow> refuse ''excluded by rule'' (Some i)
                | None \<Rightarrow>
                    (case go_first lib False u 0 (gs_rules e) of
                       Some i \<Rightarrow> \<lparr>sd_allowed = True, sd_reason = ''included by rule'', sd_matched_rule = Some i\<rparr>
                     | None \<Rightarrow> refuse ''not covered by any include rule'' None)))"

subsection \<open>The proxy\<close>

text \<open>
  What a handler does with its client: an error answer, nothing at all (the handler returns after \<open>Hijack\<close> has
  failed), a tunnel to the host, or the answer of the upstream.  The world outside tells whether the host can be
  dialled, whether the writer is a hijacker and whether taking its connection over succeeds.
\<close>

datatype 'r ProxyAnswer =
    Forbidden string
  | BadGateway string
  | HijackUnsupported
  | HijackFailed
  | Tunnel string
  | Relay 'r

record 'r Upstream =
  us_dial :: "string \<Rightarrow> bool"
  us_hijacker :: bool
  us_hijack :: bool
  us_round_trip :: "string \<Rightarrow> string \<Rightarrow> 'r option"

definition handle_connect :: "GoLib \<Rightarrow> GoScope \<Rightarrow> 'r Upstream \<Rightarrow> string \<Rightarrow> 'r ProxyAnswer" where
  "handle_connect lib e up host =
     (let d = go_check lib e (''https://'' @ host @ ''/'') []
      in if \<not> sd_allowed d then Forbidden (''out of scope: '' @ sd_reason d)
         else if \<not> us_dial up host then BadGateway ''upstream dial failed''
         else if \<not> us_hijacker up then HijackUnsupported
         else if \<not> us_hijack up then HijackFailed
         else Tunnel host)"

definition serve_http :: "GoLib \<Rightarrow> GoScope \<Rightarrow> 'r Upstream \<Rightarrow> string \<Rightarrow> string \<Rightarrow> string \<Rightarrow> 'r ProxyAnswer" where
  "serve_http lib e up mth target host =
     (if mth = ''CONNECT'' then handle_connect lib e up host
      else (let d = go_check lib e target mth
            in if \<not> sd_allowed d then Forbidden (''out of scope: '' @ sd_reason d)
               else case us_round_trip up mth target of None \<Rightarrow> BadGateway ''upstream error'' | Some r \<Rightarrow> Relay r))"

subsection \<open>Where the two engines agree\<close>

text \<open>A rule of the Python model in the form of the contract both read.\<close>

definition export_rule :: "ScopeRule \<Rightarrow> GoRule" where
  "export_rule r =
     \<lparr>gr_kind = (case r_kind r of INCLUDE \<Rightarrow> ''include'' | EXCLUDE \<Rightarrow> ''exclude''), gr_host = r_host r,
      gr_schemes = r_schemes r, gr_ports = r_ports r, gr_path_prefix = r_path_prefix r,
      gr_path_regex = r_path_regex r, gr_methods = r_methods r\<rparr>"

text \<open>No zone and no IPv4-mapped address; a network has a decimal prefix length.\<close>

definition plain_addr :: "string \<Rightarrow> bool" where
  "plain_addr s \<longleftrightarrow> (case ip_address s of Some (V6 n zone) \<Rightarrow> zone = None \<and> n div 2 ^ 32 \<noteq> 65535 | _ \<Rightarrow> True)"

definition plain_network :: "string \<Rightarrow> bool" where
  "plain_network s \<longleftrightarrow> (case split_on CHR ''/'' s of [a, m] \<Rightarrow> plain_addr a \<and> isdigit m | _ \<Rightarrow> False)"

definition same_class :: "string \<Rightarrow> bool" where
  "same_class s \<longleftrightarrow> go_private_literal s = is_private_literal s"

definition portable_rule :: "GoLib \<Rightarrow> regex_search \<Rightarrow> ScopeRule \<Rightarrow> bool" where
  "portable_rule lib re_search r \<longleftrightarrow>
     r_schemes r \<noteq> [] \<and> r_path_prefix r \<noteq> [] \<and> plain_addr (r_host r) \<and> same_class (r_host r) \<and>
     (CHR ''/'' \<in> set (r_host r) \<longrightarrow> plain_network (r_host r)) \<and>
     (\<forall>rx. r_path_regex r = Some rx \<longrightarrow>
        (\<exists>matches. gl_compile lib rx = Some matches \<and> re_search rx = (\<lambda>path. Inr (matches path))))"

lemma go_parse_ip_plain: "plain_addr s \<Longrightarrow> go_parse_ip s = ip_address s"
  by (auto simp: plain_addr_def go_parse_ip_def go_addr_def split: option.splits ipaddr.splits)

lemma isdigit_not_ip4:
  assumes "isdigit m"
  shows "ip4_of_string m = None"
proof -
  have "\<not> is_digit CHR ''.''" by (simp add: is_digit_def less_eq_char_def)
  with assms have "CHR ''.'' \<notin> set m" by (auto simp: isdigit_def list_all_iff)
  then show ?thesis by (simp add: ip4_of_string_def split_on_single)
qed

lemma ip_address_V4_iff: "ip_address a = Some (V4 n) \<longleftrightarrow> CHR ''/'' \<notin> set a \<and> ip4_of_string a = Some n"
  by (auto simp: ip_address_def ip6_address_def split: option.splits prod.splits if_splits)

lemma ip_address_V6:
  "ip_address a = Some (V6 n z) \<Longrightarrow> ip4_of_string a = None \<and> ip6_address a = Some (V6 n z) \<and> CHR ''/'' \<notin> set a"
  by (auto simp: ip_address_def ip6_address_def split: option.splits prod.splits if_splits)

lemma ip4_not_ip6:
  assumes "ip4_of_string a = Some n"
  shows "ip6_address a = None"
proof -
  have no: "CHR '':'' \<notin> set x" if "parse_octet x = Some k" for x k
  proof -
    have "\<not> is_digit CHR '':''" by (simp add: is_digit_def less_eq_char_def)
    with that show ?thesis by (auto simp: parse_octet_def isdigit_def list_all_iff split: if_splits)
  qed
  from assms obtain p q r t where s: "split_on CHR ''.'' a = [p, q, r, t]" and
    o: "parse_octet p \<noteq> None" "parse_octet q \<noteq> None" "parse_octet r \<noteq> None" "parse_octet t \<noteq> None"
    by (auto simp: ip4_of_string_def split: list.splits option.splits)
  have "a = join [CHR ''.''] [p, q, r, t]" unfolding s [symmetric] by (rule join_split_on [symmetric])
  with no o have colon: "CHR '':'' \<notin> set a" by auto
  have "ip6_of_string x = None" if "CHR '':'' \<notin> set x" for x
    using that by (simp add: ip6_of_string_def split_on_single)
  moreover have "set (fst (partition_on CHR ''%'' a)) \<subseteq> set a"
    by (auto simp: partition_on_def dest: set_takeWhileD)
  ultimately have "ip6_of_string (fst (partition_on CHR ''%'' a)) = None" using colon by blast
  then show ?thesis
    by (auto simp: ip6_address_def split_scope_id_def split: prod.splits if_splits)
qed

lemma go_cidr_plain:
  assumes "plain_network s"
  shows "map_option go_net (go_cidr s) = ip_network s"
proof -
  from assms obtain a m where s: "split_on CHR ''/'' s = [a, m]" and a: "plain_addr a" and m: "isdigit m"
    by (auto simp: plain_network_def split: list.splits)
  have p4: "v4_prefix m = prefix_length 32 m"
    by (simp add: v4_prefix_def isdigit_not_ip4 [OF m] split: option.splits)
  have a_sep: "CHR ''/'' \<notin> set a" using split_on_no_sep [of a "CHR ''/''" s] s by simp
  show ?thesis
  proof (cases "ip_address a")
    case None
    then have "ip4_of_string a = None" "ip6_address a = None"
      using a_sep by (auto simp: ip_address_def split: option.splits)
    with s None show ?thesis by (simp add: go_cidr_def ip_network_def ip4_network_def ip6_network_def)
  next
    case (Some addr)
    show ?thesis
    proof (cases addr)
      case (V4 n)
      with Some have "ip4_of_string a = Some n" by (simp add: ip_address_V4_iff)
      moreover have "ip6_address a \<noteq> Some (V6 k z)" for k z
        using ip4_not_ip6 [OF \<open>ip4_of_string a = Some n\<close>] by simp
      ultimately show ?thesis
        using s Some V4 p4 by (auto simp: go_cidr_def ip_network_def ip4_network_def ip6_network_def
            split: option.splits ipaddr.splits)
    next
      case (V6 n z)
      with a Some have z: "z = None" "n div 2 ^ 32 \<noteq> 65535" by (simp_all add: plain_addr_def)
      from Some V6 have "ip4_of_string a = None" "ip6_address a = Some (V6 n z)" using ip_address_V6 by blast+
      with s Some V6 z show ?thesis
        by (auto simp: go_cidr_def ip_network_def ip4_network_def ip6_network_def split: option.splits)
    qed
  qed
qed

lemma hostMatches_plain:
  assumes "plain_addr rh" and "CHR ''/'' \<in> set rh \<longrightarrow> plain_network rh" and "plain_addr h"
  shows "hostMatches rh h = host_matches rh h"
proof (cases "CHR ''/'' \<in> set rh")
  case True
  with assms(2) have "map_option go_net (go_cidr rh) = ip_network rh" by (simp add: go_cidr_plain)
  then have "(case ip_network rh of None \<Rightarrow> False | Some n \<Rightarrow> in_network addr n) \<longleftrightarrow>
      (case go_cidr rh of None \<Rightarrow> False | Some n \<Rightarrow> in_network addr (go_net n))" for addr
    by (cases "go_cidr rh") (auto simp: eq_commute [of _ "ip_network rh"])
  then show ?thesis
    using True by (cases "ip_address h") (simp_all add: hostMatches_def host_matches_def go_parse_ip_plain [OF assms(3)])
next
  case False
  then show ?thesis
    by (auto simp: hostMatches_def host_matches_def go_parse_ip_plain [OF assms(3)] go_parse_ip_plain [OF assms(1)] Let_def
        split: option.splits)
qed

lemma ruleMatches_portable:
  assumes "portable_rule lib re_search r" and "plain_addr (pu_host u)" and "0 < pu_port u"
  shows "rule_matches re_search r u = Inr (ruleMatches lib (export_rule r) u)"
proof -
  have host: "hostMatches (r_host r) (pu_host u) = host_matches (r_host r) (pu_host u)"
    using assms(1,2) by (intro hostMatches_plain) (auto simp: portable_rule_def)
  have port: "pu_port u = dget_or DEFAULT_PORTS (pu_scheme u) (- 1) \<longleftrightarrow> pu_port u = dget_or DEFAULT_PORTS (pu_scheme u) 0"
    using assms(3) by (auto simp: dget_or_def split: option.splits)
  have rx: "(case r_path_regex r of None \<Rightarrow> Inr True | Some rx \<Rightarrow> re_search rx (pu_path u)) =
      Inr (case r_path_regex r of None \<Rightarrow> True
        | Some rx \<Rightarrow> (case gl_compile lib rx of None \<Rightarrow> False | Some matches \<Rightarrow> matches (pu_path u)))"
    using assms(1) by (cases "r_path_regex r") (auto simp: portable_rule_def)
  have ne: "r_schemes r \<noteq> []" "sor (r_path_prefix r) ''/'' = r_path_prefix r"
    using assms(1) by (auto simp: portable_rule_def sor_def)
  show ?thesis
    unfolding rule_matches_def ruleMatches_def rx bind_res_simps
    by (auto simp: export_rule_def host port ne split: option.splits)
qed

lemma go_first_portable:
  assumes "list_all (portable_rule lib re_search) rules" and "plain_addr (pu_host u)" and "0 < pu_port u"
  shows "first_match re_search k u i rules = Inr (go_first lib (k = EXCLUDE) u i (List.map export_rule rules))"
  using assms(1)
proof (induction rules arbitrary: i)
  case (Cons r rules)
  have "go_excludes (export_rule r) = (k = EXCLUDE) \<longleftrightarrow> r_kind r = k"
    by (cases "r_kind r"; cases k) (simp_all add: go_excludes_def export_rule_def, code_simp+)
  with Cons ruleMatches_portable [OF _ assms(2,3), of lib re_search r] show ?case by simp
qed simp

lemma private_optin_portable:
  "list_all (portable_rule lib re_search) rules \<Longrightarrow>
    list_ex go_rule_allows_private (List.map export_rule rules) = list_ex rule_allows_private rules"
  by (induction rules) (auto simp: portable_rule_def same_class_def go_rule_allows_private_def rule_allows_private_def
      export_rule_def)

subsection \<open>Where they differ\<close>

lemma in_prefix_trans:
  assumes "in_prefix w ip base p" "in_prefix w base base' q" "q \<le> p" "p \<le> w"
  shows "in_prefix w ip base' q"
proof -
  have "(2 :: int) ^ (w - q) = 2 ^ (w - p) * 2 ^ (p - q)"
    using assms(3,4) by (simp add: power_add [symmetric])
  then have "x div 2 ^ (w - q) = x div 2 ^ (w - p) div 2 ^ (p - q)" for x :: int
    by (simp add: zdiv_zmult2_eq)
  with assms(1,2) show ?thesis by (simp add: in_prefix_def)
qed

lemma v4_subnets:
  "in_prefix 32 n (v4 255 255 255 255) 32 \<Longrightarrow> in_prefix 32 n (v4 240 0 0 0) 4"
  "in_prefix 32 n (v4 192 0 0 170) 31 \<Longrightarrow> in_prefix 32 n (v4 192 0 0 0) 24"
  "in_prefix 32 n (v4 192 0 0 9) 32 \<Longrightarrow> in_prefix 32 n (v4 192 0 0 0) 24"
  "in_prefix 32 n (v4 192 0 0 10) 32 \<Longrightarrow> in_prefix 32 n (v4 192 0 0 0) 24"
  "in_prefix 32 n (v4 224 0 0 0) 24 \<Longrightarrow> in_prefix 32 n (v4 224 0 0 0) 4"
  by (erule in_prefix_trans; simp add: in_prefix_def v4_def)+

definition go_private_v4 :: "int \<Rightarrow> bool" where
  "go_private_v4 n \<longleftrightarrow> in_any 32 n [(v4 127 0 0 0, 8), (v4 10 0 0 0, 8), (v4 172 16 0 0, 12), (v4 192 168 0 0, 16),
     (v4 169 254 0 0, 16), (v4 224 0 0 0, 4)] \<or> n = 0"

lemma go_private_literal_V4: "ip_address s = Some (V4 n) \<Longrightarrow> go_private_literal s = go_private_v4 n"
  using v4_subnets(5) [of n] by (auto simp: go_private_literal_def go_parse_ip_def go_addr_def go_private_v4_def in_any_def)

lemma go_private_v4_is_private:
  assumes "go_private_v4 n"
  shows "v4_is_private n \<or> in_prefix 32 n (v4 224 0 0 0) 4"
proof -
  have "\<not> in_any 32 n v4_private_exceptions"
  proof
    assume "in_any 32 n v4_private_exceptions"
    then have "n = v4 192 0 0 9 \<or> n = v4 192 0 0 10" by (simp add: in_any_def v4_private_exceptions_def in_prefix_def)
    moreover have "\<not> go_private_v4 (v4 192 0 0 9)" "\<not> go_private_v4 (v4 192 0 0 10)" by code_simp+
    ultimately show False using assms by blast
  qed
  moreover have "in_prefix 32 0 (v4 0 0 0 0) 8" by code_simp
  ultimately show ?thesis
    using assms unfolding go_private_v4_def v4_is_private_def in_any_def v4_private_networks_def by (simp, blast)
qed

lemma v6_local_private:
  assumes "in_prefix 128 n (v6 0xfc00 0 0) 7"
  shows "in_any 128 n v6_reserved_networks \<or> in_any 128 n v6_private_networks \<and> \<not> in_any 128 n v6_private_exceptions"
proof -
  have top: "n div 2 ^ 121 = 126" using assms by (simp add: in_prefix_def v6_def)
  have "\<not> in_prefix 128 n base p" if "7 \<le> p" "p \<le> 128" "base div 2 ^ 121 \<noteq> 126" for base p
  proof
    assume "in_prefix 128 n base p"
    then have "in_prefix 128 n base 7" by (rule in_prefix_trans) (use that in \<open>simp_all add: in_prefix_def\<close>)
    with top that(3) show False by (simp add: in_prefix_def)
  qed
  then have "\<not> in_any 128 n v6_private_exceptions"
    by (simp add: in_any_def v6_private_exceptions_def v6_def)
  with assms show ?thesis by (simp add: in_any_def v6_private_networks_def)
qed

text \<open>Every address the proxy takes for private is private to the Python engine too.\<close>

lemma go_private_is_private:
  assumes "go_private_literal s"
  shows "is_private_literal s"
proof -
  from assms obtain a where a: "ip_address s = Some a" "go_addr a \<noteq> None"
    by (auto simp: go_private_literal_def go_parse_ip_def split: option.splits)
  show ?thesis
  proof (cases a)
    case (V4 n)
    with a assms have "go_private_v4 n" by (simp add: go_private_literal_V4)
    with go_private_v4_is_private [of n] V4 a(1) show ?thesis by (auto simp: is_private_literal_def)
  next
    case (V6 n zone)
    show ?thesis
    proof (cases "n div 2 ^ 32 = 65535")
      case True
      then have "n div 2 ^ 32 div 2 ^ 88 = 65535 div 2 ^ 88" by simp
      then have "n div 2 ^ 120 = 0" by (simp add: zdiv_zmult2_eq [symmetric])
      with V6 a(1) show ?thesis
        by (simp add: is_private_literal_def in_any_def v6_reserved_networks_def in_prefix_def)
    next
      case False
      with a V6 have "is_loopback (V6 n None) \<or> go_is_private (V6 n None) \<or> is_link_local (V6 n None) \<or>
          go_link_local_multicast (V6 n None) \<or> is_multicast (V6 n None) \<or> is_unspecified (V6 n None)"
        using assms by (auto simp: go_private_literal_def go_parse_ip_def go_addr_def split: if_splits)
      moreover have "is_private a \<or> is_reserved a" if "go_is_private (V6 n None)"
        using that V6 False v6_local_private [of n] by auto
      moreover have "is_multicast (V6 n None)" if "go_link_local_multicast (V6 n None)"
        using that by (simp add: in_prefix_def v6_def)
      ultimately show ?thesis using V6 a(1) by (auto simp: is_private_literal_def)
    qed
  qed
qed

text \<open>The converse fails for the special-purpose ranges of IPv4 that Go does not call private.\<close>

lemma class_differs:
  assumes "ip_address s = Some (V4 n)"
  shows "same_class s \<or> in_any 32 n
    [(v4 0 0 0 0, 8), (v4 192 0 0 0, 24), (v4 192 0 2 0, 24), (v4 198 18 0 0, 15), (v4 198 51 100 0, 24),
     (v4 203 0 113 0, 24), (v4 240 0 0 0, 4)]"
proof -
  have zero: "in_prefix 32 0 (v4 0 0 0 0) 8" by code_simp
  show ?thesis
    using v4_subnets [of n] zero
    unfolding same_class_def go_private_literal_V4 [OF assms] go_private_v4_def is_private_literal_def assms
    by (cases "n = 0") (simp_all add: v4_is_private_def in_any_def v4_private_networks_def v4_private_exceptions_def, blast)
qed

lemma documentation_address_differs: "is_private_literal ''192.0.2.1'' \<and> \<not> go_private_literal ''192.0.2.1''"
  by code_simp

subsection \<open>Properties\<close>

lemma parseURL_port: "parseURL lib raw mth = Some u \<Longrightarrow> 0 < pu_port u"
  using num_of_nonneg
  by (auto simp: parseURL_def lookup_port_def Let_def dget_or_def DEFAULT_PORTS_def order_less_le
      split: option.splits if_splits)

text \<open>
  C10: the proxy decides as the Python engine does, with the same rule, wherever the two libraries read the
  request alike: the URL has the same parts for both, rules name their schemes, hosts are IPv4 or plain
  IPv6 addresses and networks of the same class, and patterns compile to the same matcher.
\<close>

theorem proxy_agrees:
  assumes "parseURL lib raw mth = Some u" and "scope_parse raw (Some mth) = Some u"
    and "list_all (portable_rule lib re_search) rules"
    and "plain_addr (pu_host u)" and "same_class (pu_host u)"
  shows "\<exists>d. scope_check re_search (from_rules rules authorized) raw (Some mth) = Inr d \<and>
    sd_allowed (go_check lib (NewScopeEngine (List.map export_rule rules) authorized) raw mth) = sd_allowed d \<and>
    sd_matched_rule (go_check lib (NewScopeEngine (List.map export_rule rules) authorized) raw mth) = sd_matched_rule d"
proof -
  note first = go_first_portable [OF assms(3,4) parseURL_port [OF assms(1)]]
  have optin: "list_ex go_rule_allows_private (List.map export_rule rules) = list_ex rule_allows_private rules"
    by (rule private_optin_portable [OF assms(3)])
  have same: "go_private_literal (pu_host u) = is_private_literal (pu_host u)"
    using assms(5) by (simp add: same_class_def)
  show ?thesis
    unfolding scope_check_def go_check_def from_rules_def NewScopeEngine_def assms(1,2)
    by (simp add: first optin same refuse_def split: option.split)
qed

lemma go_first_None: "go_first lib x u i rs = None \<longleftrightarrow> (\<forall>r \<in> set rs. go_excludes r = x \<longrightarrow> \<not> ruleMatches lib r u)"
  by (induction rs arbitrary: i) auto

lemma ruleMatches_root:
  assumes "pu_path u = ''/''" and "ruleMatches lib r u"
  shows "gr_path_prefix r \<in> {[], ''/''}"
  using assms by (cases "gr_path_prefix r") (auto simp: ruleMatches_def sor_def startswith_def)

text \<open>
  C11: what a tunnel is decided by.  A CONNECT request is checked as the root of its host over TLS.  A tunnel is
  opened exactly if the host can be dialled and the client's connection taken over, the scan is authorized, a host
  that is a private literal has been opted in by some rule, a rule of inclusion whose path prefix is empty or
  the root matches and no exclusion with such a prefix does.  So an exclusion of a path never blocks a
  tunnel and an inclusion of a path never opens one; the opt-in looks at every rule, also at those.
\<close>

theorem tunnel_opened_iff:
  assumes "parseURL lib (''https://'' @ host @ ''/'') [] = Some u" and "pu_path u = ''/''"
  shows "handle_connect lib (NewScopeEngine rules authorized) up host = Tunnel host \<longleftrightarrow>
    us_dial up host \<and> us_hijacker up \<and> us_hijack up \<and> authorized \<and>
    (go_private_literal (pu_host u) \<longrightarrow> list_ex go_rule_allows_private rules) \<and>
    (\<forall>r \<in> set rules. go_excludes r \<and> gr_path_prefix r \<in> {[], ''/''} \<longrightarrow> \<not> ruleMatches lib r u) \<and>
    (\<exists>r \<in> set rules. \<not> go_excludes r \<and> gr_path_prefix r \<in> {[], ''/''} \<and> ruleMatches lib r u)"
proof -
  have out: "go_first lib True u 0 rules = None \<longleftrightarrow>
      (\<forall>r \<in> set rules. go_excludes r \<and> gr_path_prefix r \<in> {[], ''/''} \<longrightarrow> \<not> ruleMatches lib r u)"
    unfolding go_first_None using ruleMatches_root [OF assms(2)] by blast
  have inc: "go_first lib False u 0 rules \<noteq> None \<longleftrightarrow>
      (\<exists>r \<in> set rules. \<not> go_excludes r \<and> gr_path_prefix r \<in> {[], ''/''} \<and> ruleMatches lib r u)"
    unfolding go_first_None using ruleMatches_root [OF assms(2)] by blast
  have "sd_allowed (go_check lib (NewScopeEngine rules authorized) (''https://'' @ host @ ''/'') []) \<longleftrightarrow>
      authorized \<and> (go_private_literal (pu_host u) \<longrightarrow> list_ex go_rule_allows_private rules) \<and>
      go_first lib True u 0 rules = None \<and> go_first lib False u 0 rules \<noteq> None"
    unfolding go_check_def NewScopeEngine_def assms(1) by (auto simp: refuse_def split: option.splits)
  then show ?thesis
    unfolding handle_connect_def Let_def out [symmetric] inc [symmetric] by auto
qed

subsection \<open>Concrete requests\<close>

definition demo_go :: GoLib where
  "demo_go =
     \<lparr>gl_url = (\<lambda>raw.
        if raw = ''http://app.example/shop''
        then Some \<lparr>gu_scheme = ''http'', gu_hostname = ''app.example'', gu_port = [], gu_path = ''/shop''\<rparr>
        else if raw = ''https://app.example:443/''
        then Some \<lparr>gu_scheme = ''https'', gu_hostname = ''app.example'', gu_port = ''443'', gu_path = ''/''\<rparr>
        else None),
      gl_compile = (\<lambda>rx. None)\<rparr>"

definition demo_rules :: "ScopeRule list" where
  "demo_rules = [demo_rule EXCLUDE ''app.example'' ''/admin'', demo_rule INCLUDE ''app.example'' ''/'']"

lemma demo_hosts: "plain_addr ''app.example'' \<and> same_class ''app.example''"
  by code_simp

theorem proxy_agrees_witness:
  "sd_matched_rule (go_check demo_go (NewScopeEngine (List.map export_rule demo_rules) True) ''http://app.example/shop'' ''get'') = Some 1 \<and>
   map_sum id sd_matched_rule (scope_check (\<lambda>_ _. Inr True) (from_rules demo_rules True) ''http://app.example/shop'' (Some ''get'')) =
     Inr (Some 1)"
proof -
  let ?u = "\<lparr>pu_scheme = ''http'', pu_host = ''app.example'', pu_port = 80, pu_path = ''/shop'', pu_method = Some ''GET''\<rparr>"
  have p: "parseURL demo_go ''http://app.example/shop'' ''get'' = Some ?u"
    "scope_parse ''http://app.example/shop'' (Some ''get'') = Some ?u"
    by code_simp+
  have "list_all (portable_rule demo_go (\<lambda>_ _. Inr True)) demo_rules"
    using demo_hosts by (simp add: demo_rules_def demo_rule_def portable_rule_def)
  with p obtain d where "scope_check (\<lambda>_ _. Inr True) (from_rules demo_rules True) ''http://app.example/shop'' (Some ''get'') = Inr d"
    "sd_matched_rule (go_check demo_go (NewScopeEngine (List.map export_rule demo_rules) True) ''http://app.example/shop'' ''get'') =
       sd_matched_rule d"
    using proxy_agrees [of demo_go _ _ ?u _ demo_rules True] demo_hosts by fastforce
  moreover have "sd_matched_rule (go_check demo_go (NewScopeEngine (List.map export_rule demo_rules) True)
      ''http://app.example/shop'' ''get'') = Some 1"
    by code_simp
  ultimately show ?thesis by simp
qed

text \<open>The excluded path is reached through the tunnel that is opened.\<close>

theorem tunnel_opened_iff_witness:
  "handle_connect demo_go (NewScopeEngine (List.map export_rule demo_rules) True)
     \<lparr>us_dial = (\<lambda>h. True), us_hijacker = True, us_hijack = True, us_round_trip = (\<lambda>m t. None :: unit option)\<rparr> ''app.example:443'' =
   Tunnel ''app.example:443''"
proof -
  let ?u = "\<lparr>pu_scheme = ''https'', pu_host = ''app.example'', pu_port = 443, pu_path = ''/'', pu_method = None\<rparr>"
  have p: "parseURL demo_go (''https://'' @ ''app.example:443'' @ ''/'') [] = Some ?u" by code_simp
  have rules: "list_all (\<lambda>r. go_excludes r \<longrightarrow> \<not> ruleMatches demo_go r ?u) (List.map export_rule demo_rules)"
    "list_ex (\<lambda>r. \<not> go_excludes r \<and> gr_path_prefix r \<in> {[], ''/''} \<and> ruleMatches demo_go r ?u) (List.map export_rule demo_rules)"
    "\<not> go_private_literal ''app.example''"
    by code_simp+
  then show ?thesis
    using tunnel_opened_iff [OF p, of "List.map export_rule demo_rules" True
        "\<lparr>us_dial = (\<lambda>h. True), us_hijacker = True, us_hijack = True, us_round_trip = (\<lambda>m t. None :: unit option)\<rparr>"]
    unfolding list_all_iff list_ex_iff by auto
qed

end
