(* ===== verification/Spec2Isabelle.thy ===== *)
theory Spec2Isabelle
  imports Scope Correlation Risk Inventory Planner Knowledge Validation Orchestrator_Laws
    Native_Headers Native_Fingerprint Crawler_Laws Native_Tls Oss_Laws Reporting Sandbox
    Burp Wiring_Laws Api_Laws Cli_Laws Egress_Proxy
begin

text \<open>
  Vantage (\<open>src/vantage\<close>) is a scan orchestrator: it plans, runs and correlates the work of several
  scanning engines against targets the customer is authorized to test.  This development models its
  Python core and proves what makes each part correct.

  How the parts interact.  A registry admits engines under a license policy; the planner asks it for
  engines by capability and makes a plan; the orchestrator drives the adapters of the plan stage by
  stage, feeds URLs that earlier engines discovered to the audit stage if the scope engine allows
  them, and records coverage; the observations are validated by fresh requests, correlated into
  findings, merged with earlier scans, scored, stored, annotated by an advisory language model and
  wrapped into proof bundles; every change of the scan state is written to an audit trail.  Native
  engines reach the network only through a client that asks the scope engine again, containerized
  ones through a sandbox runner.  Reports render the result.

  Theories and the files they model:

    \<^item> \<open>Prelude\<close>, \<open>Py_Str\<close>, \<open>Py_Val\<close>, \<open>Py_Dyn\<close>, \<open>Py_Json\<close>, \<open>Py_Float\<close>, \<open>Py_Net\<close>, \<open>Py_Url\<close>, \<open>Py_Regex\<close>: the parts of
      Python the program uses: ordered dictionaries, \<open>max\<close>/\<open>min\<close>/\<open>sort\<close> with keys, exceptions as values, text
      operations, operations on values of any type, \<open>json.dumps\<close>, binary64 rounding, \<open>ipaddress\<close>, \<open>urlsplit\<close> and
      \<open>urljoin\<close>, and backtracking search of the regular expressions the program writes itself;
    \<^item> \<open>Domain\<close>: the data model (\<open>domain/*.py\<close>), records and enumerations with their validators;
    \<^item> \<open>Scope\<close>: the scope engine (\<open>scope/engine.py\<close>);
    \<^item> \<open>Egress_Proxy\<close>: its counterpart in Go (\<open>components/egress-proxy/scope.go\<close>, \<open>main.go\<close>), and where the two agree
      and differ;
    \<^item> \<open>Taxonomy\<close>, \<open>Correlation\<close>, \<open>Risk\<close>: \<open>findings/taxonomy.py\<close>, \<open>correlation.py\<close>, \<open>risk.py\<close>;
    \<^item> \<open>License_Policy\<close>, \<open>Inventory\<close>: \<open>governance/policy.py\<close>, \<open>inventory.py\<close>;
    \<^item> \<open>Registry\<close>, \<open>Planner\<close>: \<open>engines/registry.py\<close>, \<open>engines/catalog.py\<close>, \<open>planner/planner.py\<close>; the locale
      \<open>catalog\<close> is the interface between them;
    \<^item> \<open>Loading\<close>: the models of the inventory, manifest and lock files: keys, types, defaults and bounds, and
      \<open>EngineRegistry.load\<close>;
    \<^item> \<open>Knowledge\<close>, \<open>Validation\<close>: \<open>knowledge/base.py\<close>, \<open>scan/validation.py\<close>; the locale
      \<open>validation_strategy\<close> is the contract of a strategy;
    \<^item> \<open>Proof_Bundle\<close>, \<open>Reporting\<close>: \<open>findings/proof.py\<close>, \<open>findings/reporting.py\<close>;
    \<^item> \<open>Analyst\<close>, \<open>Ai_Settings\<close>, \<open>Model_Install\<close>: \<open>ai/analyst.py\<close>, \<open>ai/provider.py\<close>, \<open>ai/models.py\<close>, \<open>ai/install.py\<close>,
      \<open>config.py\<close>: the advisory layer, its clients, the catalog, the settings and the installer;
    \<^item> \<open>Repositories\<close>: \<open>persistence/models.py\<close>, \<open>repositories.py\<close>: tables as lists of rows, units of work as
      functions that either commit or leave the database alone; the locale \<open>keyed_store\<close> is the map a
      repository implements;
    \<^item> \<open>Orchestrator\<close>, \<open>Orchestrator_Laws\<close>: \<open>scan/orchestrator.py\<close>: actions on the database and a clock that may
      raise, composed as the code composes them, and what a whole run guarantees;
    \<^item> \<open>Http_Client\<close>: \<open>adapters/http.py\<close>; the locale \<open>http_client\<close> is what an engine may rely on;
    \<^item> \<open>Native\<close>, \<open>Native_Headers\<close>, \<open>Native_Fingerprint\<close>: \<open>adapters/native/base.py\<close>, \<open>validator.py\<close>, \<open>headers.py\<close>,
      \<open>fingerprint.py\<close> and the records of \<open>engines/adapter.py\<close>;
    \<^item> \<open>Native_Crawler\<close>, \<open>Crawler_Laws\<close>, \<open>Native_Tls\<close>: \<open>adapters/native/crawler.py\<close>, \<open>tls.py\<close>;
    \<^item> \<open>Sandbox\<close>: \<open>engines/sandbox.py\<close>;
    \<^item> \<open>Container_Engine\<close>, \<open>Oss_Audit\<close>, \<open>Oss_Discovery\<close>, \<open>Oss_Recon\<close>, \<open>Oss_Laws\<close>: \<open>adapters/oss/*.py\<close>: the life cycle
      of a containerized engine over a sandbox runner, the ten adapters, and what they guarantee
      together with the orchestrator; the locale \<open>container_engine\<close> is the contract of normalization;
    \<^item> \<open>Burp\<close>: \<open>adapters/external/burp.py\<close>: the REST transport, polling and issues of a customer's instance;
    \<^item> \<open>Detect\<close>: \<open>engines/detect.py\<close>: which engines a host offers;
    \<^item> \<open>Wiring\<close>, \<open>Wiring_Laws\<close>: \<open>app.py\<close>: policy, registry, adapters, prober, analyst and orchestrator composed into
      one application, and what that application can plan;
    \<^item> \<open>Api\<close>, \<open>Api_Laws\<close>: \<open>api/app.py\<close>: a server as a step per request, with the invariant of every history of
      requests;
    \<^item> \<open>Cli\<close>, \<open>Cli_Laws\<close>: \<open>cli/main.py\<close>: the commands as functions to printed lines and exit status.

  Conventions.  A definition keeps the name of the function or class it models, with a prefix where
  the name is taken; a method takes its object as an argument and returns it updated; record fields
  carry a prefix of their record.  An exception is \<open>Inl\<close> of the datatype \<open>exn\<close>, a value \<open>Inr\<close>.  Times are
  integers, floats the rationals they denote.  Fresh identifiers and clock readings are functions of
  a counter.  Texts are ASCII; the few other characters of the program are their UTF-8 bytes.

  What the groups of lemmas show.  The scope engine decides exactly by authorization, private
  addresses, excludes and includes, and neither the URLs the orchestrator feeds nor the HTTP client of the native engines
  get past it (the TLS analyzer, which opens its own connections, does not ask it); the proxy written in Go decides
  alike on the requests and rules both libraries read alike.
  Registry and planner never run an engine that license policy, lock file or policy deny.
  Correlation partitions the observations by fingerprint whatever their order.  Validation confirms
  only what a fresh response shows.  A run moves through the life cycle in order, through all of it exactly if
  it returns a report, stores what it reports, isolates failing engines and completes if its target is authorized, the
  database consistent and neither the engine phase nor the analyst raises.  Repositories refine
  maps, and the columns their upserts write agree with the payloads.  Bundles verify and are tamper-evident.  Analyzers and containerized engines report well-formed
  observations that are never confirmed, the crawl stays on the hosts of its seeds, and reports and
  sandbox results keep their bounds.  The composed application binds only adapters of the engines they are
  registered for, the server keeps only reports of targets whose authorization was asserted, and the
  commands gate releases, models and scans by their exit status: each entry of an inventory file is validated and
  checked, none is passed over.

  Bounds.  No definition uses fuel: loops are structural recursion or terminate by a measure (text
  that gets shorter, a rational that approaches 1, the pages a crawl has left and the length of its
  queue).  The polling loop of Burp is a partial function, for its end depends on the rounding of the time
  waited; it is proved to end within the configured number of seconds for limits below 2 to the 53.

  Parameters.  What is not in the repository is an argument: SHA-256 and HMAC, the search of
  user-supplied regular expressions, \<open>json.loads\<close> and the text of floats, the network below the HTTP
  clients, codecs, child processes and \<open>which\<close>, the order of query results, the llama.cpp library and the reply
  of a language model, the dumps of pydantic models and \<open>HttpUrl\<close>, TLS handshakes and parsed certificates,
  parsed YAML files and the coercion of scalar fields, \<open>url.Parse\<close> and
  \<open>regexp\<close> of Go, environment variables and files.  Where a property needs a law of them it is a
  hypothesis, and its witness instantiates it.

  Not modelled: the YAML parser, whose files arrive as values; what scalar fields accept besides values of their
  own type, which is a parameter; the creation of database engines and of the web application object; the registration of
  routes and options with FastAPI and typer, whose handlers and commands get their arguments parsed.
  Directories and failing writes of the settings and of the model file are left out: saving and copying succeed.
  Concurrency is not modelled: the orchestrator awaits its engines one after another, and the server
  answers one request after another.
\<close>

end
